(* ===== verification/Prelude.thy ===== *)
theory Prelude
  imports Complex_Main "HOL-Library.Word" "HOL-Library.Sublist"
begin

text \<open>
  Shared vocabulary of the development: results with an error (\<open>'e + 'a\<close>, \<open>Inl\<close> a thrown
  error), the list operations of the source language that HOL has no direct counterpart
  for (an insertion-ordered \<open>Set\<close>, a stable \<open>sort\<close> with a comparator), text and decimal
  or hexadecimal printing, byte strings, and the wrap-around of 64-bit signed integers.
  Facts about these are declared \<open>[simp]\<close> or collected in \<open>res_simps\<close> and \<open>text_simps\<close>.
\<close>

named_theorems res_simps \<open>unfolding results with errors\<close>
named_theorems text_simps \<open>evaluating text operations\<close>

type_synonym bytes = "8 word list"

section \<open>Results with an error\<close>

definition ebind :: "'e + 'a \<Rightarrow> ('a \<Rightarrow> 'e + 'b) \<Rightarrow> 'e + 'b" where
  "ebind r f = (case r of Inl e \<Rightarrow> Inl e | Inr x \<Rightarrow> f x)"

text \<open>A guard that throws: \<open>if (c) throw e\<close>.\<close>

definition throw_if :: "bool \<Rightarrow> 'e \<Rightarrow> 'e + unit" where
  "throw_if c e = (if c then Inl e else Inr ())"

text \<open>\<open>xs.map(f)\<close> where \<open>f\<close> may throw: the first error ends the traversal.\<close>

fun emap :: "('a \<Rightarrow> 'e + 'b) \<Rightarrow> 'a list \<Rightarrow> 'e + 'b list" where
  "emap f [] = Inr []"
| "emap f (x # xs) = ebind (f x) (\<lambda>y. ebind (emap f xs) (\<lambda>ys. Inr (y # ys)))"

text \<open>\<open>for (const x of xs) body\<close> over a state, where the body may throw.\<close>

fun efold :: "('a \<Rightarrow> 's \<Rightarrow> 'e + 's) \<Rightarrow> 'a list \<Rightarrow> 's \<Rightarrow> 'e + 's" where
  "efold f [] s = Inr s"
| "efold f (x # xs) s = ebind (f x s) (efold f xs)"

lemma ebind_simps [simp]:
  "ebind (Inl e) f = Inl e"
  "ebind (Inr x) f = f x"
  by (simp_all add: ebind_def)

lemma ebind_Inr_iff [res_simps]:
  "ebind r f = Inr y \<longleftrightarrow> (\<exists>x. r = Inr x \<and> f x = Inr y)"
  by (cases r) auto

lemma ebind_InrE:
  assumes "ebind r f = Inr y"
  obtains x where "r = Inr x" "f x = Inr y"
  using assms by (auto simp: ebind_Inr_iff)

lemma ebind_Inl_iff [res_simps]:
  "ebind r f = Inl e \<longleftrightarrow> r = Inl e \<or> (\<exists>x. r = Inr x \<and> f x = Inl e)"
  by (cases r) auto

lemma throw_if_Inr_iff [res_simps]: "throw_if c e = Inr u \<longleftrightarrow> \<not> c"
  by (auto simp: throw_if_def)

lemma throw_if_Inl_iff [res_simps]: "throw_if c e = Inl d \<longleftrightarrow> c \<and> d = e"
  by (auto simp: throw_if_def)

lemma throw_if_simps [simp]:
  "throw_if True e = Inl e"
  "throw_if False e = Inr ()"
  by (simp_all add: throw_if_def)

lemma emap_Inr_iff:
  "emap f xs = Inr ys \<longleftrightarrow> list_all2 (\<lambda>x y. f x = Inr y) xs ys"
  by (induction xs arbitrary: ys) (auto simp: ebind_Inr_iff list_all2_Cons1)

lemma emap_Inr_length: "emap f xs = Inr ys \<Longrightarrow> length ys = length xs"
  by (auto simp: emap_Inr_iff list_all2_lengthD)

lemma emap_Inr_map: "emap f xs = Inr ys \<Longrightarrow> (\<And>x y. f x = Inr y \<Longrightarrow> y = g x) \<Longrightarrow> ys = map g xs"
  by (induction xs arbitrary: ys) (auto simp: ebind_Inr_iff)

lemma emap_InrD: "emap f xs = Inr ys \<Longrightarrow> x \<in> set xs \<Longrightarrow> \<exists>y \<in> set ys. f x = Inr y"
  by (induction xs arbitrary: ys) (auto simp: ebind_Inr_iff)

lemma emap_Inr_set: "emap f xs = Inr ys \<Longrightarrow> set ys = {y. \<exists>x \<in> set xs. f x = Inr y}"
  by (induction xs arbitrary: ys) (auto simp: ebind_Inr_iff)

lemma emap_InrI: "(\<And>x. x \<in> set xs \<Longrightarrow> f x = Inr (g x)) \<Longrightarrow> emap f xs = Inr (map g xs)"
  by (induction xs) auto

text \<open>An invariant of a loop body that may throw is an invariant of the loop.\<close>

lemma efold_invariant:
  assumes "efold f xs s = Inr t" and "P s"
    and "\<And>x s t. x \<in> set xs \<Longrightarrow> P s \<Longrightarrow> f x s = Inr t \<Longrightarrow> P t"
  shows "P t"
  using assms by (induction xs arbitrary: s) (auto simp: ebind_Inr_iff)

section \<open>Lists of the source language\<close>

text \<open>\<open>Set.add\<close> and \<open>[...new Set(xs)]\<close>: the first occurrences, in insertion order.\<close>

definition set_add :: "'a list \<Rightarrow> 'a \<Rightarrow> 'a list" where
  "set_add acc x = (if x \<in> set acc then acc else acc @ [x])"

definition new_set :: "'a list \<Rightarrow> 'a list" where
  "new_set xs = foldl set_add [] xs"

lemma foldl_set_add:
  "set (foldl set_add acc xs) = set acc \<union> set xs"
  "distinct (foldl set_add acc xs) = distinct acc"
  by (induction xs arbitrary: acc) (auto simp: set_add_def)

lemma set_new_set [simp]: "set (new_set xs) = set xs"
  by (simp add: new_set_def foldl_set_add)

lemma distinct_new_set [simp]: "distinct (new_set xs)"
  by (simp add: new_set_def foldl_set_add)

lemma new_set_eq_Nil [simp]: "new_set xs = [] \<longleftrightarrow> xs = []"
  using set_new_set [of xs] by (metis set_empty)

text \<open>
  \<open>xs.sort(cmp)\<close>: the sort is stable, and an element is placed after every earlier one that
  does not compare greater (\<open>cmp y x > 0\<close>).
\<close>

fun sort_insert :: "('a \<Rightarrow> 'a \<Rightarrow> int) \<Rightarrow> 'a \<Rightarrow> 'a list \<Rightarrow> 'a list" where
  "sort_insert cmp x [] = [x]"
| "sort_insert cmp x (y # ys) =
     (if cmp x y \<le> 0 then x # y # ys else y # sort_insert cmp x ys)"

fun js_sort :: "('a \<Rightarrow> 'a \<Rightarrow> int) \<Rightarrow> 'a list \<Rightarrow> 'a list" where
  "js_sort cmp [] = []"
| "js_sort cmp (x # xs) = sort_insert cmp x (js_sort cmp xs)"

lemma set_sort_insert [simp]: "set (sort_insert cmp x ys) = insert x (set ys)"
  by (induction ys) auto

lemma set_js_sort [simp]: "set (js_sort cmp xs) = set xs"
  by (induction xs) auto

lemma distinct_sort_insert [simp]:
  "distinct (sort_insert cmp x ys) \<longleftrightarrow> x \<notin> set ys \<and> distinct ys"
  by (induction ys) auto

lemma distinct_js_sort [simp]: "distinct (js_sort cmp xs) = distinct xs"
  by (induction xs) auto

lemma length_sort_insert [simp]: "length (sort_insert cmp x ys) = Suc (length ys)"
  by (induction ys) auto

lemma length_js_sort [simp]: "length (js_sort cmp xs) = length xs"
  by (induction xs) auto

section \<open>Text\<close>

definition lower_char :: "char \<Rightarrow> char" where
  "lower_char c = (let n = of_char c :: nat in if 65 \<le> n \<and> n \<le> 90 then char_of (n + 32) else c)"

definition to_lower :: "string \<Rightarrow> string" where
  "to_lower s = map lower_char s"

definition upper_char :: "char \<Rightarrow> char" where
  "upper_char c = (let n = of_char c :: nat in if 97 \<le> n \<and> n \<le> 122 then char_of (n - 32) else c)"

definition to_upper :: "string \<Rightarrow> string" where
  "to_upper s = map upper_char s"

text \<open>\<open>s.trim()\<close>: white space and line ends at both sides.\<close>

definition is_space :: "char \<Rightarrow> bool" where
  "is_space c = ((of_char c :: nat) \<in> {9, 10, 11, 12, 13, 32, 160})"

definition trim :: "string \<Rightarrow> string" where
  "trim s = rev (dropWhile is_space (rev (dropWhile is_space s)))"

definition is_digit :: "char \<Rightarrow> bool" where
  "is_digit c = (let n = of_char c :: nat in 48 \<le> n \<and> n \<le> 57)"

definition is_hex_digit :: "char \<Rightarrow> bool" where
  "is_hex_digit c = (let n = of_char c :: nat in
     (48 \<le> n \<and> n \<le> 57) \<or> (97 \<le> n \<and> n \<le> 102) \<or> (65 \<le> n \<and> n \<le> 70))"

text \<open>\<open>s.split(c)\<close> on a one-character separator: never empty.\<close>

fun split_on :: "char \<Rightarrow> string \<Rightarrow> string list" where
  "split_on c [] = [[]]"
| "split_on c (x # xs) = (if x = c then [] # split_on c xs
     else case split_on c xs of [] \<Rightarrow> [[x]] | y # ys \<Rightarrow> (x # y) # ys)"

text \<open>\<open>parts.join(c)\<close>.\<close>

fun join_with :: "char \<Rightarrow> string list \<Rightarrow> string" where
  "join_with c [] = []"
| "join_with c [x] = x"
| "join_with c (x # y # zs) = x @ c # join_with c (y # zs)"

text \<open>\<open>parts.join(sep)\<close> with a longer separator.\<close>

fun join_text :: "string \<Rightarrow> string list \<Rightarrow> string" where
  "join_text sep [] = []"
| "join_text sep [x] = x"
| "join_text sep (x # y # zs) = x @ sep @ join_text sep (y # zs)"

lemma split_on_part: "c \<notin> set p \<Longrightarrow> split_on c (p @ c # rest) = p # split_on c rest"
  by (induction p) auto

lemma split_on_none: "c \<notin> set p \<Longrightarrow> split_on c p = [p]"
  by (induction p) auto

text \<open>Decimal printing of \<open>BigInt\<close> and whole \<open>number\<close> values (\<open>x.toString()\<close>).\<close>

fun dec_nat :: "nat \<Rightarrow> string" where
  "dec_nat n = (if n < 10 then [char_of (48 + n)]
     else dec_nat (n div 10) @ [char_of (48 + n mod 10)])"

declare dec_nat.simps [simp del]

definition dec_int :: "int \<Rightarrow> string" where
  "dec_int i = (if i < 0 then CHR ''-'' # dec_nat (nat (- i)) else dec_nat (nat i))"

text \<open>Reading decimal digits back (\<open>BigInt(s)\<close> on a string of digits).\<close>

definition undec :: "string \<Rightarrow> nat" where
  "undec s = foldl (\<lambda>n c. 10 * n + (of_char c - 48)) 0 s"

definition hex_digit :: "nat \<Rightarrow> char" where
  "hex_digit n = (if n < 10 then char_of (48 + n) else char_of (87 + n))"

definition hex_byte :: "8 word \<Rightarrow> string" where
  "hex_byte b = [hex_digit (unat b div 16), hex_digit (unat b mod 16)]"

text \<open>\<open>bytes.toHexString()\<close>: \<open>0x\<close> and two lower-case digits per byte.\<close>

definition to_hex :: "bytes \<Rightarrow> string" where
  "to_hex bs = ''0x'' @ concat (map hex_byte bs)"

lemma of_char_char_of_small: "n < 256 \<Longrightarrow> of_char (char_of n :: char) = (n :: nat)"
  by simp

lemma dec_nat_digits: "c \<in> set (dec_nat n) \<Longrightarrow> is_digit c"
proof (induction n rule: dec_nat.induct)
  case (1 n)
  show ?case
  proof (cases "n < 10")
    case True
    with 1 show ?thesis by (subst (asm) dec_nat.simps) (simp add: is_digit_def Let_def)
  next
    case False
    have "n mod 10 < 10" by simp
    then have "48 + n mod 10 < 256" "n mod 10 \<le> 9" by linarith+
    with 1 False show ?thesis
      by (subst (asm) dec_nat.simps) (auto simp: is_digit_def Let_def)
  qed
qed

lemma dec_nat_nonempty [simp]: "dec_nat n \<noteq> []"
  by (subst dec_nat.simps) simp

lemma undec_snoc: "undec (s @ [c]) = 10 * undec s + (of_char c - 48)"
  by (simp add: undec_def)

lemma undec_dec_nat [simp]: "undec (dec_nat n) = n"
proof (induction n rule: dec_nat.induct)
  case (1 n)
  show ?case
  proof (cases "n < 10")
    case True
    then show ?thesis by (subst dec_nat.simps) (simp add: undec_def)
  next
    case False
    have "n mod 10 < 10" by simp
    then have "48 + n mod 10 < 256" by linarith
    with 1 False show ?thesis by (subst dec_nat.simps) (simp add: undec_snoc)
  qed
qed

lemma dec_nat_inj [simp]: "dec_nat m = dec_nat n \<longleftrightarrow> m = n"
  by (metis undec_dec_nat)

lemma dec_int_inj [simp]: "dec_int i = dec_int j \<longleftrightarrow> i = j"
proof -
  have *: "dec_nat m \<noteq> CHR ''-'' # s" for m s
    using dec_nat_digits [of "CHR ''-''" m] by (auto simp: is_digit_def)
  show ?thesis
    using * * [symmetric] by (auto simp: dec_int_def)
qed

lemma dec_int_no_colon: "CHR '':'' \<notin> set (dec_int i)"
  using dec_nat_digits [of "CHR '':''"] by (auto simp: dec_int_def is_digit_def)

section \<open>Integers of the source language\<close>

text \<open>\<open>a / b\<close> and \<open>a % b\<close> on \<open>bigint\<close> truncate towards zero.\<close>

definition bigint_div :: "int \<Rightarrow> int \<Rightarrow> int" where
  "bigint_div a b = sgn a * sgn b * (\<bar>a\<bar> div \<bar>b\<bar>)"

definition bigint_rem :: "int \<Rightarrow> int \<Rightarrow> int" where
  "bigint_rem a b = a - b * bigint_div a b"

lemma bigint_div_nonneg: "0 \<le> a \<Longrightarrow> 0 < b \<Longrightarrow> bigint_div a b = a div b"
  by (cases "a = 0") (simp_all add: bigint_div_def)

lemma bigint_rem_nonneg: "0 \<le> a \<Longrightarrow> 0 < b \<Longrightarrow> bigint_rem a b = a mod b"
  by (simp add: bigint_rem_def bigint_div_nonneg minus_mult_div_eq_mod)


text \<open>\<open>BigInt.toI64()\<close> keeps the low eight bytes, read as two's complement.\<close>

definition toI64 :: "int \<Rightarrow> int" where
  "toI64 v = sint (word_of_int v :: 64 word)"

lemma toI64_id: "- (2 ^ 63) \<le> v \<Longrightarrow> v < 2 ^ 63 \<Longrightarrow> toI64 v = v"
  by (simp add: toI64_def sint_sbintrunc' signed_take_bit_int_eq_self)

section \<open>Sums over tables\<close>

text \<open>The sum of a measure of the rows of a table. Counters that handlers keep incrementally are
  compared with such sums; the update lemma turns an insertion or overwrite into a difference.\<close>

definition table_sum :: "('v \<Rightarrow> 'n) \<Rightarrow> ('k \<rightharpoonup> 'v) \<Rightarrow> 'n :: ab_group_add" where
  "table_sum f t = (\<Sum>k \<in> dom t. f (the (t k)))"

lemma table_sum_empty [simp]: "table_sum f Map.empty = 0"
  by (simp add: table_sum_def)

lemma table_sum_upd:
  assumes "finite (dom t)"
  shows "table_sum f (t(k \<mapsto> v)) = table_sum f t - (case t k of None \<Rightarrow> 0 | Some old \<Rightarrow> f old) + f v"
proof -
  have "table_sum f (t(k \<mapsto> v)) = f v + (\<Sum>x \<in> dom t - {k}. f (the ((t(k \<mapsto> v)) x)))"
    using assms by (simp add: table_sum_def sum.insert_remove)
  also have "(\<Sum>x \<in> dom t - {k}. f (the ((t(k \<mapsto> v)) x))) = (\<Sum>x \<in> dom t - {k}. f (the (t x)))"
    by (intro sum.cong) auto
  also have "\<dots> = table_sum f t - (case t k of None \<Rightarrow> 0 | Some old \<Rightarrow> f old)"
    using assms by (cases "t k") (auto simp: table_sum_def sum_diff1 domIff)
  finally show ?thesis by (simp only: add.commute)
qed

lemma table_sum_cong: "(\<And>k v. t k = Some v \<Longrightarrow> f v = g v) \<Longrightarrow> table_sum f t = table_sum g t"
  unfolding table_sum_def by (intro sum.cong) auto

lemma table_sum_zero: "(\<And>k v. t k = Some v \<Longrightarrow> f v = 0) \<Longrightarrow> table_sum f t = 0"
  unfolding table_sum_def by (intro sum.neutral) auto

lemma table_sum_mono:
  fixes f g :: "'v \<Rightarrow> int"
  shows "(\<And>k v. t k = Some v \<Longrightarrow> f v \<le> g v) \<Longrightarrow> table_sum f t \<le> table_sum g t"
  unfolding table_sum_def by (intro sum_mono) auto

text \<open>A sum of indicators counts rows.\<close>

lemma table_sum_card:
  assumes "finite (dom t)"
  shows "table_sum (\<lambda>v. if P v then 1 else 0 :: int) t = int (card {k. \<exists>v. t k = Some v \<and> P v})"
proof -
  have "(\<Sum>k \<in> dom t. if P (the (t k)) then 1 else 0 :: int) = int (card {k \<in> dom t. P (the (t k))})"
    using assms by (simp add: sum.If_cases Int_def)
  moreover have "{k \<in> dom t. P (the (t k))} = {k. \<exists>v. t k = Some v \<and> P v}" by auto
  ultimately show ?thesis by (simp add: table_sum_def)
qed

section \<open>Machines\<close>

text \<open>A machine is a relation between states; a property that each step keeps is kept by every run.\<close>

locale machine_invariant =
  fixes step :: "'s \<Rightarrow> 's \<Rightarrow> bool" and ok :: "'s \<Rightarrow> bool"
  assumes kept: "step s s' \<Longrightarrow> ok s \<Longrightarrow> ok s'"
begin

lemma run: "step\<^sup>*\<^sup>* s s' \<Longrightarrow> ok s \<Longrightarrow> ok s'"
  by (induction rule: rtranclp_induct) (auto intro: kept)

end

end
