(* ===== verification/WT_Spec.thy ===== *)
theory WT_Spec
  imports Prelude
begin

text \<open>
  The chain-neutral treasury spec of \<^verbatim>\<open>packages/weighted-treasury\<close>: its data
  (\<^verbatim>\<open>src/spec.ts\<close>, \<^verbatim>\<open>src/coalitions.ts\<close> for the member interface) and its
  backend-independent checks (\<^verbatim>\<open>src/validate.ts\<close>). A JavaScript \<open>number\<close> is a rational:
  the checks accept integers only, and the sums they then form stay far below \<open>2 ^ 53\<close>, where
  double arithmetic is exact. A \<open>bigint\<close> is an \<open>int\<close>, an optional field an \<open>option\<close>, and a
  thrown \<open>SpecNotExpressible\<close> an \<open>Inl\<close> carrying the backend and the reason.
\<close>

section \<open>Data\<close>

definition MAX_WEIGHT :: rat where
  "MAX_WEIGHT = 1000000"

definition MAX_EVM_OWNERS :: nat where
  "MAX_EVM_OWNERS = 1000"

record WeightedMember =
  m_id :: string
  m_weight :: rat

record TreasuryOwner = WeightedMember +
  o_evm :: "string option"
  o_solana :: "string option"

record AllowedRecipient =
  r_label :: "string option"
  r_evm :: "string option"
  r_solana :: "string option"

datatype Period = OneTime | Daily | Weekly | Monthly | CustomSeconds rat

record Budget =
  b_maxPerPeriod :: int
  b_period :: Period
  b_maxPerUse :: "int option"

record TreasuryAsset =
  a_symbol :: string
  a_solanaMint :: "string option"
  a_solanaDecimals :: "rat option"
  a_budget :: "Budget option"

record WeightedTreasurySpec =
  s_version :: rat
  s_owners :: "TreasuryOwner list"
  s_thresholdWeight :: rat
  s_allowlist :: "AllowedRecipient list"
  s_assets :: "TreasuryAsset list"
  s_adminTimelockSeconds :: rat

datatype backend = Evm | Squads | Spec

text \<open>One constructor per \<open>fail(...)\<close> site, with the values its message names.\<close>

datatype fail_reason =
    UnsupportedVersion rat
  | NoOwner
  | DuplicateOwnerId string
  | BadWeight string
  | InvalidEvmAddress string
  | InvalidSolanaKey string
  | BadThreshold rat
  | EmptyAllowlist
  | NoAsset
  | BudgetNotPositive string
  | BudgetMaxPerUse string
  | BadCustomPeriod string
  | TimelockNotU32
  | TooManyEvmOwners
  | OwnerWithoutEvm string
  | EvmAddressTwice string
  | RecipientWithoutEvm "string option" nat
  | BudgetOnEvm string
  | OwnerWithoutSolana string
  | SolanaKeyTwice string
  | RecipientWithoutSolana "string option" nat
  | EmptyDestinations
  | TooManyPolicies nat nat nat
  | AssetWithoutMint string
  | NativeDecimals

datatype spec_error =
    SpecNotExpressible backend fail_reason
  | RangeError nat

section \<open>The checks\<close>

text \<open>\<open>Number.isInteger\<close>.\<close>

definition is_integer :: "rat \<Rightarrow> bool" where
  "is_integer x \<longleftrightarrow> of_int \<lfloor>x\<rfloor> = x"

text \<open>\<^verbatim>\<open>/^0x[0-9a-fA-F]{40}$/\<close> and \<^verbatim>\<open>/^[1-9A-HJ-NP-Za-km-z]{32,44}$/\<close>.\<close>

definition isEvmAddress :: "string \<Rightarrow> bool" where
  "isEvmAddress s \<longleftrightarrow>
     length s = 42 \<and> take 2 s = ''0x'' \<and> list_all is_hex_digit (drop 2 s)"

definition is_base58 :: "char \<Rightarrow> bool" where
  "is_base58 c = (let n = of_char c :: nat in
     (49 \<le> n \<and> n \<le> 57) \<or> (65 \<le> n \<and> n \<le> 72) \<or> (74 \<le> n \<and> n \<le> 78) \<or> (80 \<le> n \<and> n \<le> 90)
     \<or> (97 \<le> n \<and> n \<le> 107) \<or> (109 \<le> n \<and> n \<le> 122))"

definition isSolanaKey :: "string \<Rightarrow> bool" where
  "isSolanaKey s \<longleftrightarrow> 32 \<le> length s \<and> length s \<le> 44 \<and> list_all is_base58 s"

definition defined_and :: "('a \<Rightarrow> bool) \<Rightarrow> 'a option \<Rightarrow> bool" where
  "defined_and p x = (case x of None \<Rightarrow> False | Some v \<Rightarrow> p v)"

text \<open>One round of the loop over the owners; the state is the ids seen and the running total.\<close>

definition check_owner ::
  "TreasuryOwner \<Rightarrow> string list \<times> rat \<Rightarrow> spec_error + (string list \<times> rat)" where
  "check_owner owner st = (case st of (ids, tot) \<Rightarrow>
     ebind (throw_if (m_id owner \<in> set ids)
       (SpecNotExpressible Spec (DuplicateOwnerId (m_id owner)))) (\<lambda>_.
     ebind (throw_if (\<not> is_integer (m_weight owner) \<or> m_weight owner < 1
         \<or> m_weight owner > MAX_WEIGHT)
       (SpecNotExpressible Spec (BadWeight (m_id owner)))) (\<lambda>_.
     ebind (throw_if (defined_and (\<lambda>v. \<not> isEvmAddress v) (o_evm owner))
       (SpecNotExpressible Spec (InvalidEvmAddress (m_id owner)))) (\<lambda>_.
     ebind (throw_if (defined_and (\<lambda>v. \<not> isSolanaKey v) (o_solana owner))
       (SpecNotExpressible Spec (InvalidSolanaKey (m_id owner)))) (\<lambda>_.
     Inr (ids @ [m_id owner], tot + m_weight owner))))))"

definition bad_period :: "Period \<Rightarrow> bool" where
  "bad_period p = (case p of CustomSeconds n \<Rightarrow> \<not> is_integer n \<or> n \<le> 0 | _ \<Rightarrow> False)"

definition check_asset :: "TreasuryAsset \<Rightarrow> unit \<Rightarrow> spec_error + unit" where
  "check_asset asset u = (case a_budget asset of
     None \<Rightarrow> Inr ()
   | Some budget \<Rightarrow>
     ebind (throw_if (b_maxPerPeriod budget \<le> 0)
       (SpecNotExpressible Spec (BudgetNotPositive (a_symbol asset)))) (\<lambda>_.
     ebind (throw_if (defined_and (\<lambda>m. m \<le> 0 \<or> m > b_maxPerPeriod budget) (b_maxPerUse budget))
       (SpecNotExpressible Spec (BudgetMaxPerUse (a_symbol asset)))) (\<lambda>_.
     throw_if (bad_period (b_period budget))
       (SpecNotExpressible Spec (BadCustomPeriod (a_symbol asset))))))"

definition validateSpec :: "WeightedTreasurySpec \<Rightarrow> spec_error + unit" where
  "validateSpec spec =
     ebind (throw_if (s_version spec \<noteq> 1)
       (SpecNotExpressible Spec (UnsupportedVersion (s_version spec)))) (\<lambda>_.
     ebind (throw_if (s_owners spec = []) (SpecNotExpressible Spec NoOwner)) (\<lambda>_.
     ebind (efold check_owner (s_owners spec) ([], 0)) (\<lambda>(ids, tot).
     ebind (throw_if (\<not> is_integer (s_thresholdWeight spec) \<or> s_thresholdWeight spec < 1
         \<or> s_thresholdWeight spec > tot)
       (SpecNotExpressible Spec (BadThreshold tot))) (\<lambda>_.
     ebind (throw_if (s_allowlist spec = []) (SpecNotExpressible Spec EmptyAllowlist)) (\<lambda>_.
     ebind (throw_if (s_assets spec = []) (SpecNotExpressible Spec NoAsset)) (\<lambda>_.
     ebind (efold check_asset (s_assets spec) ()) (\<lambda>_.
     throw_if (\<not> is_integer (s_adminTimelockSeconds spec) \<or> s_adminTimelockSeconds spec < 0
         \<or> s_adminTimelockSeconds spec > 4294967295)
       (SpecNotExpressible Spec TimelockNotU32))))))))"

section \<open>What a spec must satisfy\<close>

definition valid_owner :: "TreasuryOwner \<Rightarrow> bool" where
  "valid_owner ow \<longleftrightarrow> is_integer (m_weight ow) \<and> 1 \<le> m_weight ow \<and> m_weight ow \<le> MAX_WEIGHT
     \<and> (\<forall>a. o_evm ow = Some a \<longrightarrow> isEvmAddress a)
     \<and> (\<forall>k. o_solana ow = Some k \<longrightarrow> isSolanaKey k)"

definition valid_budget :: "Budget \<Rightarrow> bool" where
  "valid_budget b \<longleftrightarrow> 0 < b_maxPerPeriod b
     \<and> (\<forall>m. b_maxPerUse b = Some m \<longrightarrow> 0 < m \<and> m \<le> b_maxPerPeriod b)
     \<and> \<not> bad_period (b_period b)"

definition total_weight :: "('a WeightedMember_scheme) list \<Rightarrow> rat" where
  "total_weight ms = sum_list (map m_weight ms)"

definition valid_spec :: "WeightedTreasurySpec \<Rightarrow> bool" where
  "valid_spec spec \<longleftrightarrow> s_version spec = 1 \<and> s_owners spec \<noteq> []
     \<and> distinct (map m_id (s_owners spec)) \<and> list_all valid_owner (s_owners spec)
     \<and> is_integer (s_thresholdWeight spec) \<and> 1 \<le> s_thresholdWeight spec
     \<and> s_thresholdWeight spec \<le> total_weight (s_owners spec)
     \<and> s_allowlist spec \<noteq> [] \<and> s_assets spec \<noteq> []
     \<and> list_all (\<lambda>a. \<forall>b. a_budget a = Some b \<longrightarrow> valid_budget b) (s_assets spec)
     \<and> is_integer (s_adminTimelockSeconds spec) \<and> 0 \<le> s_adminTimelockSeconds spec
     \<and> s_adminTimelockSeconds spec \<le> 4294967295"

section \<open>Lemmas\<close>

lemma defined_and_iff: "defined_and p x \<longleftrightarrow> (\<exists>v. x = Some v \<and> p v)"
  by (auto simp: defined_and_def split: option.splits)

lemma check_owner_Inr_iff:
  "check_owner ow (ids, tot) = Inr st \<longleftrightarrow>
     m_id ow \<notin> set ids \<and> valid_owner ow \<and> st = (ids @ [m_id ow], tot + m_weight ow)"
  by (auto simp: check_owner_def valid_owner_def defined_and_iff ebind_Inr_iff
      throw_if_Inr_iff)

lemma check_owners_Inr_iff:
  "efold check_owner os (ids, tot) = Inr st \<longleftrightarrow>
     distinct (map m_id os) \<and> set ids \<inter> set (map m_id os) = {} \<and> list_all valid_owner os
     \<and> st = (ids @ map m_id os, tot + total_weight os)"
proof (induction os arbitrary: ids tot)
  case Nil
  then show ?case by (auto simp: total_weight_def)
next
  case (Cons ow os)
  then show ?case
    by (auto simp: ebind_Inr_iff check_owner_Inr_iff total_weight_def add.assoc)
qed

lemma check_asset_Inr_iff:
  "check_asset a u = Inr v \<longleftrightarrow> (\<forall>b. a_budget a = Some b \<longrightarrow> valid_budget b)"
  by (auto simp: check_asset_def valid_budget_def defined_and_iff ebind_Inr_iff throw_if_Inr_iff
      not_le not_less split: option.splits)

lemma check_assets_Inr_iff:
  "efold check_asset as u = Inr v \<longleftrightarrow>
     list_all (\<lambda>a. \<forall>b. a_budget a = Some b \<longrightarrow> valid_budget b) as"
  by (induction as arbitrary: u) (auto simp: ebind_Inr_iff check_asset_Inr_iff)

lemma validateSpec_valid: "validateSpec spec = Inr u \<longleftrightarrow> valid_spec spec"
  by (auto simp: validateSpec_def valid_spec_def ebind_Inr_iff throw_if_Inr_iff
      check_owners_Inr_iff check_assets_Inr_iff not_le not_less)

lemma validateSpec_error: "validateSpec spec = Inl e \<Longrightarrow> \<exists>r. e = SpecNotExpressible Spec r"
proof -
  have owners: "efold check_owner os st = Inl e \<Longrightarrow> \<exists>r. e = SpecNotExpressible Spec r" for os st
    by (induction os arbitrary: st)
      (auto simp: check_owner_def ebind_Inl_iff throw_if_Inl_iff split: prod.splits)
  have assets: "efold check_asset as u = Inl e \<Longrightarrow> \<exists>r. e = SpecNotExpressible Spec r" for as u
    by (induction as arbitrary: u)
      (auto simp: check_asset_def ebind_Inl_iff throw_if_Inl_iff split: option.splits)
  assume "validateSpec spec = Inl e"
  then show ?thesis
    by (auto simp: validateSpec_def ebind_Inl_iff throw_if_Inl_iff dest: owners assets)
qed

lemma valid_spec_weights:
  assumes "valid_spec spec" and "m \<in> set (s_owners spec)"
  shows "0 < m_weight m"
  using assms by (auto simp: valid_spec_def valid_owner_def list_all_iff)

end
