(* ===== verification/WT_Coalitions.thy ===== *)
theory WT_Coalitions
  imports WT_Spec
begin

text \<open>
  Minimal winning coalitions (\<^verbatim>\<open>packages/weighted-treasury/src/coalitions.ts\<close>): the reference
  rule \<open>isWinning\<close>, the enumeration of all masks, the population count and the comparator the
  result is sorted with. The integers used as bit masks are natural numbers: the enumeration
  runs below \<open>2 ^ 20\<close>, where the 32-bit operators of JavaScript agree with them.
  The locale \<open>monotone_rule\<close> is the interface of an approval rule; the weighted rule
  interprets it, over the positions of the members and over their ids.
\<close>

unbundle bit_operations_syntax

section \<open>The enumeration\<close>

definition MAX_ENUMERABLE_OWNERS :: nat where
  "MAX_ENUMERABLE_OWNERS = 20"

definition isWinning :: "'a WeightedMember_scheme list \<Rightarrow> rat \<Rightarrow> string set \<Rightarrow> bool" where
  "isWinning members thresholdWeight ids \<longleftrightarrow>
     foldl (\<lambda>s m. if m_id m \<in> ids then s + m_weight m else s) 0 members \<ge> thresholdWeight"

definition weightOf :: "'a WeightedMember_scheme list \<Rightarrow> nat \<Rightarrow> rat" where
  "weightOf members msk =
     foldl (\<lambda>s i. if bit msk i then s + m_weight (members ! i) else s) 0 [0..<length members]"

text \<open>The body of the loop over masks: the mask is kept when it wins and every single removal loses.\<close>

definition keeps_mask :: "'a WeightedMember_scheme list \<Rightarrow> rat \<Rightarrow> nat \<Rightarrow> bool" where
  "keeps_mask members thresholdWeight msk = (let s = weightOf members msk in
     \<not> s < thresholdWeight \<and>
     list_all (\<lambda>i. \<not> (bit msk i \<and> s - m_weight (members ! i) \<ge> thresholdWeight))
       [0..<length members])"

text \<open>\<open>for (let m = mask; m; m &= m - 1) c++\<close>.\<close>

lemma and_dec_double: "0 < n \<Longrightarrow> (2 * n) AND (2 * n - 1) = 2 * (n AND (n - 1))" for n :: nat
proof -
  assume "0 < n"
  then have "(2 * n - 1) div 2 = n - 1" by linarith
  then show ?thesis by (subst and_rec) simp
qed

lemmas and_dec_double_Suc = and_dec_double [unfolded One_nat_def]

lemma and_dec_odd: "Suc (2 * n) AND (2 * n) = 2 * n" for n :: nat
  by (subst and_rec) simp

lemma and_dec_less: "0 < m \<Longrightarrow> m AND (m - 1) < m" for m :: nat
  by (induction m rule: nat_bit_induct) (simp_all add: and_dec_double_Suc and_dec_odd)

function popcount_loop :: "nat \<Rightarrow> nat \<Rightarrow> nat" where
  "popcount_loop m c = (if m = 0 then c else popcount_loop (m AND (m - 1)) (c + 1))"
  by pat_completeness auto
termination
  by (relation "measure fst") (auto simp: and_dec_less simp flip: One_nat_def)

declare popcount_loop.simps [simp del]

definition popcount :: "nat \<Rightarrow> nat" where
  "popcount msk = popcount_loop msk 0"

definition lowBitOrder :: "nat \<Rightarrow> nat \<Rightarrow> nat \<Rightarrow> int" where
  "lowBitOrder a b n = (case find (\<lambda>i. bit a i \<noteq> bit b i) [0..<n] of
     None \<Rightarrow> 0
   | Some i \<Rightarrow> of_bool (bit b i) - of_bool (bit a i))"

definition mask_order :: "nat \<Rightarrow> nat \<Rightarrow> nat \<Rightarrow> int" where
  "mask_order n a b = (let d = int (popcount a) - int (popcount b) in
     if d \<noteq> 0 then d else lowBitOrder a b n)"

definition coalition_masks :: "'a WeightedMember_scheme list \<Rightarrow> rat \<Rightarrow> nat list" where
  "coalition_masks members thresholdWeight =
     js_sort (mask_order (length members))
       (filter (keeps_mask members thresholdWeight) [1..<2 ^ length members])"

definition coalition_ids :: "'a WeightedMember_scheme list \<Rightarrow> nat \<Rightarrow> string list" where
  "coalition_ids members msk =
     map (\<lambda>(m, i). m_id m) (filter (\<lambda>(m, i). bit msk i) (zip members [0..<length members]))"

definition minimalWinningCoalitions ::
  "'a WeightedMember_scheme list \<Rightarrow> rat \<Rightarrow> spec_error + string list list" where
  "minimalWinningCoalitions members thresholdWeight =
     (let n = length members in
      if n > MAX_ENUMERABLE_OWNERS then Inl (RangeError n)
      else Inr (map (coalition_ids members) (coalition_masks members thresholdWeight)))"

section \<open>Masks as sets of positions\<close>

definition bits_of :: "nat \<Rightarrow> nat set" where
  "bits_of m = {i. bit m i}"

lemma bits_of_double: "bits_of (2 * n) = Suc ` bits_of n"
proof -
  have "bit (2 * n) i \<longleftrightarrow> (\<exists>j. i = Suc j \<and> bit n j)" for i
    by (cases i) (simp_all add: bit_0 bit_Suc)
  then show ?thesis by (auto simp: bits_of_def)
qed

lemma bits_of_odd: "bits_of (Suc (2 * n)) = insert 0 (Suc ` bits_of n)"
proof -
  have "bit (Suc (2 * n)) i \<longleftrightarrow> i = 0 \<or> bit (2 * n) i" for i
    by (cases i) (simp_all add: bit_0 bit_Suc)
  then show ?thesis using bits_of_double [of n] by (auto simp: bits_of_def)
qed

lemma finite_bits_of [simp]: "finite (bits_of m)"
  by (induction m rule: nat_bit_induct) (auto simp: bits_of_double bits_of_odd, simp add: bits_of_def)

lemma bits_of_0 [simp]: "bits_of 0 = {}"
  by (simp add: bits_of_def)

lemma card_bits_and_dec: "0 < m \<Longrightarrow> card (bits_of m) = Suc (card (bits_of (m AND (m - 1))))"
proof (induction m rule: nat_bit_induct)
  case (even n)
  then show ?case by (simp add: and_dec_double_Suc bits_of_double card_image)
next
  case (odd n)
  then show ?case by (simp add: and_dec_odd bits_of_double bits_of_odd card_image)
qed simp

lemma bits_of_bound: "m < 2 ^ n \<Longrightarrow> bits_of m \<subseteq> {..<n}"
  by (auto simp: bits_of_def) (metis bit_take_bit_iff take_bit_nat_eq_self_iff)

definition mask_of :: "nat \<Rightarrow> nat set \<Rightarrow> nat" where
  "mask_of n I = horner_sum of_bool 2 (map (\<lambda>i. i \<in> I) [0..<n])"

lemma mask_of_bound: "mask_of n I < 2 ^ n"
  using horner_sum_bound [of "map (\<lambda>i. i \<in> I) [0..<n]", where ?'a = nat] by (simp add: mask_of_def)

lemma bits_mask_of: "I \<subseteq> {..<n} \<Longrightarrow> bits_of (mask_of n I) = I"
  by (auto simp: bits_of_def mask_of_def bit_horner_sum_bit_iff)

lemma bits_of_inj: "bits_of a = bits_of b \<longleftrightarrow> a = b"
  by (auto simp: bits_of_def bit_eq_iff)

lemma popcount_loop_card: "popcount_loop m c = c + card (bits_of m)"
proof (induction m c rule: popcount_loop.induct)
  case (1 m c)
  then show ?case
    using card_bits_and_dec [of m] by (simp add: popcount_loop.simps [of m c])
qed

lemma popcount_card: "popcount m = card (bits_of m)"
  by (simp add: popcount_def popcount_loop_card)

section \<open>Approval rules\<close>

text \<open>
  An approval rule over a finite set of members that never lets a larger group do less and never
  lets nobody act. \<open>good\<close> says which parameters (weights, threshold, plan) make a proper rule.
\<close>

definition minimal_set :: "('a set \<Rightarrow> bool) \<Rightarrow> 'a set \<Rightarrow> bool" where
  "minimal_set W M \<longleftrightarrow> W M \<and> (\<forall>x \<in> M. \<not> W (M - {x}))"

locale monotone_rule =
  fixes good :: "'r \<Rightarrow> bool"
    and univ :: "'r \<Rightarrow> 'a set"
    and wins :: "'r \<Rightarrow> 'a set \<Rightarrow> bool"
  assumes finite_univ: "good r \<Longrightarrow> finite (univ r)"
    and wins_restrict: "good r \<Longrightarrow> wins r S \<longleftrightarrow> wins r (S \<inter> univ r)"
    and wins_mono: "good r \<Longrightarrow> A \<subseteq> B \<Longrightarrow> wins r A \<Longrightarrow> wins r B"
    and empty_loses: "good r \<Longrightarrow> \<not> wins r {}"
begin

lemma minimal_subset:
  assumes "good r" and "wins r S"
  shows "\<exists>M. M \<subseteq> S \<and> M \<subseteq> univ r \<and> minimal_set (wins r) M"
proof -
  have "\<exists>M. M \<subseteq> T \<and> minimal_set (wins r) M" if "finite T" "wins r T" for T
    using that
  proof (induction T rule: finite_psubset_induct)
    case (psubset T)
    show ?case
    proof (cases "\<exists>x \<in> T. wins r (T - {x})")
      case True
      then obtain x where x: "T - {x} \<subset> T" "wins r (T - {x})" by blast
      from psubset.IH [OF x] obtain M where "M \<subseteq> T - {x}" "minimal_set (wins r) M" by blast
      then show ?thesis by blast
    next
      case False
      with psubset.prems show ?thesis by (auto simp: minimal_set_def)
    qed
  qed
  moreover have "finite (S \<inter> univ r)" using assms(1) finite_univ by blast
  moreover have "wins r (S \<inter> univ r)" using assms wins_restrict by blast
  ultimately obtain M where "M \<subseteq> S \<inter> univ r" "minimal_set (wins r) M" by blast
  then show ?thesis by blast
qed

lemma wins_iff_minimal:
  assumes "good r"
  shows "wins r S \<longleftrightarrow> (\<exists>M. M \<subseteq> univ r \<and> minimal_set (wins r) M \<and> M \<subseteq> S)"
proof
  assume "wins r S"
  then show "\<exists>M. M \<subseteq> univ r \<and> minimal_set (wins r) M \<and> M \<subseteq> S"
    using minimal_subset [OF assms] by blast
next
  assume "\<exists>M. M \<subseteq> univ r \<and> minimal_set (wins r) M \<and> M \<subseteq> S"
  then obtain M where "wins r M" "M \<subseteq> S" unfolding minimal_set_def by blast
  then show "wins r S" using wins_mono [OF assms] by blast
qed

lemma minimal_antichain:
  assumes "good r" and "minimal_set (wins r) M" and "minimal_set (wins r) N" and "M \<subseteq> N"
  shows "M = N"
proof (rule ccontr)
  assume "M \<noteq> N"
  with \<open>M \<subseteq> N\<close> obtain x where "x \<in> N" "M \<subseteq> N - {x}" by blast
  with assms show False unfolding minimal_set_def using wins_mono by blast
qed

lemma minimal_nonempty: "good r \<Longrightarrow> minimal_set (wins r) M \<Longrightarrow> M \<noteq> {}"
  using empty_loses by (auto simp: minimal_set_def)

end

section \<open>The weighted rule\<close>

definition proper_rule :: "'a WeightedMember_scheme list \<times> rat \<Rightarrow> bool" where
  "proper_rule r \<longleftrightarrow> list_all (\<lambda>m. 0 \<le> m_weight m) (fst r) \<and> 0 < snd r"

definition positions :: "'a WeightedMember_scheme list \<times> rat \<Rightarrow> nat set" where
  "positions r = {..<length (fst r)}"

definition positions_win :: "'a WeightedMember_scheme list \<times> rat \<Rightarrow> nat set \<Rightarrow> bool" where
  "positions_win r I \<longleftrightarrow> snd r \<le> (\<Sum>i \<in> I \<inter> {..<length (fst r)}. m_weight (fst r ! i))"

definition member_ids :: "'a WeightedMember_scheme list \<times> rat \<Rightarrow> string set" where
  "member_ids r = m_id ` set (fst r)"

lemma foldl_if_sum:
  "foldl (\<lambda>s x. if P x then s + f x else s) a xs = a + sum_list (map f (filter P xs))"
  for f :: "'x \<Rightarrow> rat"
  by (induction xs arbitrary: a) (auto simp: add.assoc)

lemma sum_list_filter_upt: "sum_list (map f (filter P [0..<n])) = (\<Sum>i | i < n \<and> P i. f i)"
  for f :: "nat \<Rightarrow> rat"
proof -
  have "sum_list (map f (filter P [0..<n])) = sum f (set (filter P [0..<n]))"
    by (rule sum_list_distinct_conv_sum_set) simp
  also have "set (filter P [0..<n]) = {i. i < n \<and> P i}" by auto
  finally show ?thesis .
qed

lemma weightOf_sum: "weightOf ms msk = (\<Sum>i \<in> bits_of msk \<inter> {..<length ms}. m_weight (ms ! i))"
proof -
  have "{i. i < length ms \<and> bit msk i} = bits_of msk \<inter> {..<length ms}"
    by (auto simp: bits_of_def)
  then show ?thesis by (simp add: weightOf_def foldl_if_sum sum_list_filter_upt)
qed

lemma isWinning_positions:
  "isWinning ms t ids \<longleftrightarrow> positions_win (ms, t) {i. i < length ms \<and> m_id (ms ! i) \<in> ids}"
proof -
  have "filter (\<lambda>m. m_id m \<in> ids) ms = map ((!) ms) (filter (\<lambda>i. m_id (ms ! i) \<in> ids) [0..<length ms])"
    by (subst (1) map_nth [symmetric], subst filter_map) (simp add: comp_def)
  then have "sum_list (map m_weight (filter (\<lambda>m. m_id m \<in> ids) ms))
      = (\<Sum>i | i < length ms \<and> m_id (ms ! i) \<in> ids. m_weight (ms ! i))"
    by (simp add: comp_def sum_list_filter_upt)
  moreover have "{i. i < length ms \<and> m_id (ms ! i) \<in> ids} \<inter> {..<length ms}
      = {i. i < length ms \<and> m_id (ms ! i) \<in> ids}" by auto
  ultimately show ?thesis
    by (simp add: isWinning_def foldl_if_sum positions_win_def)
qed

lemma positions_win_mono:
  assumes "proper_rule r" and "A \<subseteq> B" and "positions_win r A"
  shows "positions_win r B"
proof -
  have "(\<Sum>i \<in> A \<inter> {..<length (fst r)}. m_weight (fst r ! i))
      \<le> (\<Sum>i \<in> B \<inter> {..<length (fst r)}. m_weight (fst r ! i))"
    using assms(1,2) by (intro sum_mono2) (auto simp: proper_rule_def list_all_length)
  with assms(3) show ?thesis by (simp add: positions_win_def)
qed

interpretation pos: monotone_rule proper_rule positions positions_win
proof
  show "finite (positions r)" for r :: "'a WeightedMember_scheme list \<times> rat"
    by (simp add: positions_def)
  show "positions_win r S \<longleftrightarrow> positions_win r (S \<inter> positions r)"
    for r :: "'a WeightedMember_scheme list \<times> rat" and S
    by (simp add: positions_win_def positions_def Int_assoc)
  show "proper_rule r \<Longrightarrow> A \<subseteq> B \<Longrightarrow> positions_win r A \<Longrightarrow> positions_win r B"
    for r :: "'a WeightedMember_scheme list \<times> rat" and A B
    by (rule positions_win_mono)
  show "proper_rule r \<Longrightarrow> \<not> positions_win r {}" for r :: "'a WeightedMember_scheme list \<times> rat"
    by (simp add: positions_win_def proper_rule_def)
qed

interpretation quorum: monotone_rule proper_rule member_ids
  "\<lambda>r. isWinning (fst r) (snd r)"
proof
  fix r :: "'a WeightedMember_scheme list \<times> rat" and A B S :: "string set"
  show "finite (member_ids r)" by (simp add: member_ids_def)
  have "{i. i < length (fst r) \<and> m_id (fst r ! i) \<in> S} =
      {i. i < length (fst r) \<and> m_id (fst r ! i) \<in> S \<inter> member_ids r}"
    by (auto simp: member_ids_def)
  then show "isWinning (fst r) (snd r) S \<longleftrightarrow> isWinning (fst r) (snd r) (S \<inter> member_ids r)"
    by (simp add: isWinning_positions)
  show "isWinning (fst r) (snd r) B"
    if "proper_rule r" "A \<subseteq> B" "isWinning (fst r) (snd r) A"
    using that pos.wins_mono [of r "{i. i < length (fst r) \<and> m_id (fst r ! i) \<in> A}"
        "{i. i < length (fst r) \<and> m_id (fst r ! i) \<in> B}"]
    by (auto simp: isWinning_positions)
  show "\<not> isWinning (fst r) (snd r) {}" if "proper_rule r"
    using that pos.empty_loses [of r] by (simp add: isWinning_positions)
qed

section \<open>The enumeration finds exactly the minimal winning sets\<close>

lemma keeps_mask_minimal:
  assumes "msk < 2 ^ length ms"
  shows "keeps_mask ms t msk \<longleftrightarrow> minimal_set (positions_win (ms, t)) (bits_of msk)"
proof -
  have sub: "bits_of msk \<inter> {..<length ms} = bits_of msk"
    using bits_of_bound [OF assms] by blast
  have drop: "(\<Sum>j \<in> (bits_of msk - {i}) \<inter> {..<length ms}. m_weight (ms ! j))
      = weightOf ms msk - m_weight (ms ! i)" if "i \<in> bits_of msk" for i
  proof -
    have "(bits_of msk - {i}) \<inter> {..<length ms} = bits_of msk - {i}" using sub by blast
    then show ?thesis using that by (simp add: weightOf_sum sub sum_diff1)
  qed
  have "list_all (\<lambda>i. \<not> (bit msk i \<and> weightOf ms msk - m_weight (ms ! i) \<ge> t)) [0..<length ms]
      \<longleftrightarrow> (\<forall>i \<in> bits_of msk. \<not> positions_win (ms, t) (bits_of msk - {i}))"
  proof -
    have "\<not> positions_win (ms, t) (bits_of msk - {i}) \<longleftrightarrow> \<not> weightOf ms msk - m_weight (ms ! i) \<ge> t"
      if "i \<in> bits_of msk" for i
      using drop [OF that] by (simp add: positions_win_def)
    moreover have "i \<in> bits_of msk \<longleftrightarrow> i < length ms \<and> bit msk i" for i
      using sub by (auto simp: bits_of_def)
    ultimately show ?thesis by (auto simp: list_all_iff)
  qed
  then show ?thesis
    by (auto simp: keeps_mask_def Let_def minimal_set_def positions_win_def weightOf_sum)
qed

lemma set_coalition_masks:
  assumes "proper_rule (ms, t)"
  shows "set (coalition_masks ms t) =
    {msk. msk < 2 ^ length ms \<and> minimal_set (positions_win (ms, t)) (bits_of msk)}"
proof -
  have "0 < msk" if "minimal_set (positions_win (ms, t)) (bits_of msk)" for msk
    using that pos.minimal_nonempty [OF assms] by (cases "msk = 0") auto
  then have "minimal_set (positions_win (ms, t)) (bits_of msk) \<Longrightarrow> Suc 0 \<le> msk" for msk
    by (simp add: Suc_le_eq)
  then show ?thesis
    by (auto simp: coalition_masks_def keeps_mask_minimal)
qed

lemma set_coalition_ids:
  "set (coalition_ids ms msk) = (\<lambda>i. m_id (ms ! i)) ` (bits_of msk \<inter> {..<length ms})"
  by (force simp: coalition_ids_def bits_of_def set_zip)

lemma coalition_subset_iff:
  assumes "msk < 2 ^ length ms"
  shows "set (coalition_ids ms msk) \<subseteq> ids \<longleftrightarrow>
    bits_of msk \<subseteq> {i. i < length ms \<and> m_id (ms ! i) \<in> ids}"
  using bits_of_bound [OF assms] by (auto simp: set_coalition_ids)

lemma minimal_position_mask:
  assumes "M \<subseteq> {..<length ms}"
  shows "\<exists>msk. msk < 2 ^ length ms \<and> bits_of msk = M"
  using mask_of_bound bits_mask_of [OF assms] by blast

lemma winning_iff_mask:
  assumes "proper_rule (ms, t)"
  shows "isWinning ms t ids \<longleftrightarrow> (\<exists>msk \<in> set (coalition_masks ms t). set (coalition_ids ms msk) \<subseteq> ids)"
    (is "_ \<longleftrightarrow> ?R")
proof
  let ?I = "{i. i < length ms \<and> m_id (ms ! i) \<in> ids}"
  assume "isWinning ms t ids"
  then have "positions_win (ms, t) ?I" by (simp add: isWinning_positions)
  from pos.minimal_subset [OF assms this] obtain M where M: "M \<subseteq> {i. i < length ms \<and> m_id (ms ! i) \<in> ids}"
      "M \<subseteq> positions (ms, t)" "minimal_set (positions_win (ms, t)) M"
    by blast
  then obtain msk where "msk < 2 ^ length ms" "bits_of msk = M"
    using minimal_position_mask [of M ms] by (auto simp: positions_def)
  with M show ?R
    by (auto simp: set_coalition_masks [OF assms] coalition_subset_iff intro!: exI [of _ msk])
next
  assume ?R
  then obtain msk where "msk < 2 ^ length ms" "positions_win (ms, t) (bits_of msk)"
      "bits_of msk \<subseteq> {i. i < length ms \<and> m_id (ms ! i) \<in> ids}"
    by (auto simp: set_coalition_masks [OF assms] minimal_set_def coalition_subset_iff)
  then show "isWinning ms t ids"
    using positions_win_mono [OF assms] by (auto simp: isWinning_positions)
qed

lemma sorted_sort_insert:
  assumes "\<And>x y. cmp x y \<le> 0 \<Longrightarrow> f x \<le> f y" and "\<And>x y. \<not> cmp x y \<le> 0 \<Longrightarrow> f y \<le> f x"
    and "sorted (map f ys)"
  shows "sorted (map f (sort_insert cmp x ys))"
  using assms(3)
proof (induction ys)
  case (Cons y ys)
  then show ?case
    using assms(1) [of x y] assms(2) [of x y] by (auto intro: order_trans)
qed simp

lemma sorted_js_sort:
  assumes "\<And>x y. cmp x y \<le> 0 \<Longrightarrow> f x \<le> f y" and "\<And>x y. \<not> cmp x y \<le> 0 \<Longrightarrow> f y \<le> f x"
  shows "sorted (map f (js_sort cmp xs))"
proof (induction xs)
  case (Cons x xs)
  then show ?case using sorted_sort_insert [of cmp f "js_sort cmp xs" x] assms by simp
qed simp

lemma sorted_coalition_masks: "sorted (map popcount (coalition_masks ms t))"
  unfolding coalition_masks_def
  by (rule sorted_js_sort) (auto simp: mask_order_def Let_def split: if_splits)

lemma length_filter_zip_upt:
  "length (filter (\<lambda>(m, i). P i) (zip xs [k..<k + length xs])) = card {i. k \<le> i \<and> i < k + length xs \<and> P i}"
proof (induction xs arbitrary: k)
  case (Cons x xs)
  have "{i. k \<le> i \<and> i < k + length (x # xs) \<and> P i} =
      (if P k then {k} else {}) \<union> {i. Suc k \<le> i \<and> i < Suc k + length xs \<and> P i}"
    by (auto simp: Suc_le_eq dest: le_neq_implies_less)
  moreover have "[k..<k + length (x # xs)] = k # [Suc k..<Suc k + length xs]"
    using upt_conv_Cons [of k "k + length (x # xs)"] by simp
  ultimately show ?case using Cons.IH [of "Suc k"] by (auto simp: card_insert_if)
qed simp

lemma length_coalition_ids:
  assumes "msk < 2 ^ length ms"
  shows "length (coalition_ids ms msk) = popcount msk"
proof -
  have "{i. 0 \<le> i \<and> i < 0 + length ms \<and> bit msk i} = bits_of msk"
    using bits_of_bound [OF assms] by (auto simp: bits_of_def)
  then show ?thesis
    using length_filter_zip_upt [of "bit msk" ms 0] by (simp add: coalition_ids_def popcount_card)
qed

lemma coalition_masks_bound: "msk \<in> set (coalition_masks ms t) \<Longrightarrow> msk < 2 ^ length ms"
  by (simp add: coalition_masks_def)

lemma coalitions_sorted_by_size:
  assumes "minimalWinningCoalitions ms t = Inr cs"
  shows "sorted (map length cs)"
proof -
  have "map length cs = map popcount (coalition_masks ms t)"
    using assms
    by (auto simp: minimalWinningCoalitions_def Let_def length_coalition_ids coalition_masks_bound
        split: if_splits)
  then show ?thesis by (simp add: sorted_coalition_masks)
qed

section \<open>Coalitions by owner id\<close>

lemma coalition_positions:
  assumes "distinct (map m_id ms)" and "msk < 2 ^ length ms"
  shows "{i. i < length ms \<and> m_id (ms ! i) \<in> set (coalition_ids ms msk)} = bits_of msk"
  using bits_of_bound [OF assms(2)] assms(1)
  by (auto simp: set_coalition_ids distinct_conv_nth)

lemma coalition_ids_minimal:
  assumes "proper_rule (ms, t)" and d: "distinct (map m_id ms)" and "msk \<in> set (coalition_masks ms t)"
  shows "minimal_set (isWinning ms t) (set (coalition_ids ms msk))"
proof -
  from assms have lt: "msk < 2 ^ length ms" and M: "minimal_set (positions_win (ms, t)) (bits_of msk)"
    by (auto simp: set_coalition_masks)
  note P = coalition_positions [OF d lt]
  have "\<not> isWinning ms t (set (coalition_ids ms msk) - {x})" if x: "x \<in> set (coalition_ids ms msk)" for x
  proof -
    from x obtain i where i: "i \<in> bits_of msk" "i < length ms" "x = m_id (ms ! i)"
      by (auto simp: set_coalition_ids)
    have "{j. j < length ms \<and> m_id (ms ! j) \<in> set (coalition_ids ms msk) - {x}}
        = {j. j < length ms \<and> m_id (ms ! j) \<in> set (coalition_ids ms msk)} - {i}"
      using d i by (auto simp: distinct_conv_nth)
    then show ?thesis using M i unfolding P by (simp add: isWinning_positions minimal_set_def)
  qed
  moreover have "isWinning ms t (set (coalition_ids ms msk))"
    using M by (simp add: isWinning_positions P minimal_set_def)
  ultimately show ?thesis by (simp add: minimal_set_def)
qed

lemma coalition_ids_inj:
  assumes "distinct (map m_id ms)"
  shows "inj_on (\<lambda>msk. set (coalition_ids ms msk)) (set (coalition_masks ms t))"
proof (rule inj_onI)
  fix a b assume "a \<in> set (coalition_masks ms t)" "b \<in> set (coalition_masks ms t)"
    and eq: "set (coalition_ids ms a) = set (coalition_ids ms b)"
  then have "a < 2 ^ length ms" "b < 2 ^ length ms"
    by (auto dest: coalition_masks_bound)
  then have "bits_of a = bits_of b"
    using coalition_positions [OF assms, of a] coalition_positions [OF assms, of b] eq by simp
  then show "a = b" by (simp add: bits_of_inj)
qed

lemma distinct_coalition_masks: "distinct (coalition_masks ms t)"
  by (simp add: coalition_masks_def)

end
