(* ===== verification/WT_Compile.thy ===== *)
theory WT_Compile
  imports WT_Coalitions "HOL-Library.AList"
begin

text \<open>
  The two compilers of \<^verbatim>\<open>packages/weighted-treasury\<close>: \<^verbatim>\<open>src/evm.ts\<close> and
  \<^verbatim>\<open>src/squads/compile.ts\<close>. A note or a message is a constructor with the values it prints.
  A \<open>Map\<close> is an association list in insertion order. The lookup \<open>keyOf.get(id)!\<close> is \<open>the\<close> of
  the map's entry; \<open>coalition_keys\<close> shows that it never misses on a compiled plan.
\<close>

section \<open>The EVM backend\<close>

record EvmOwner =
  e_address :: string
  e_weight :: int

datatype evm_note = TimelockOnSquadsOnly rat

record EvmTreasuryConfig =
  ec_owners :: "EvmOwner list"
  ec_thresholdWeight :: int
  ec_allowlist :: "string list"
  ec_notes :: "evm_note list"

text \<open>\<open>!x\<close> on an optional string: absent or empty.\<close>

definition falsy :: "string option \<Rightarrow> bool" where
  "falsy x = (case x of None \<Rightarrow> True | Some s \<Rightarrow> s = '''')"

definition evm_owner :: "TreasuryOwner \<Rightarrow> spec_error + EvmOwner" where
  "evm_owner owner =
     (if falsy (o_evm owner) then Inl (SpecNotExpressible Evm (OwnerWithoutEvm (m_id owner)))
      else Inr \<lparr>e_address = to_lower (the (o_evm owner)), e_weight = \<lfloor>m_weight owner\<rfloor>\<rparr>)"

definition check_evm_address :: "EvmOwner \<Rightarrow> string list \<Rightarrow> spec_error + string list" where
  "check_evm_address ow seen =
     (if e_address ow \<in> set seen then Inl (SpecNotExpressible Evm (EvmAddressTwice (e_address ow)))
      else Inr (seen @ [e_address ow]))"

definition evm_recipient :: "AllowedRecipient \<times> nat \<Rightarrow> spec_error + string" where
  "evm_recipient ri = (case ri of (recipient, i) \<Rightarrow>
     if falsy (r_evm recipient)
     then Inl (SpecNotExpressible Evm (RecipientWithoutEvm (r_label recipient) i))
     else Inr (to_lower (the (r_evm recipient))))"

definition check_no_budget :: "TreasuryAsset \<Rightarrow> unit \<Rightarrow> spec_error + unit" where
  "check_no_budget asset u =
     throw_if (a_budget asset \<noteq> None) (SpecNotExpressible Evm (BudgetOnEvm (a_symbol asset)))"

definition with_index :: "'a list \<Rightarrow> ('a \<times> nat) list" where
  "with_index xs = zip xs [0..<length xs]"

definition compileEvm :: "WeightedTreasurySpec \<Rightarrow> spec_error + EvmTreasuryConfig" where
  "compileEvm spec =
     ebind (validateSpec spec) (\<lambda>_.
     ebind (throw_if (length (s_owners spec) > MAX_EVM_OWNERS)
       (SpecNotExpressible Evm TooManyEvmOwners)) (\<lambda>_.
     ebind (emap evm_owner (s_owners spec)) (\<lambda>owners.
     ebind (efold check_evm_address owners []) (\<lambda>seen.
     ebind (emap evm_recipient (with_index (s_allowlist spec))) (\<lambda>recipients.
     ebind (efold check_no_budget (s_assets spec) ()) (\<lambda>_.
     Inr \<lparr>ec_owners = owners, ec_thresholdWeight = \<lfloor>s_thresholdWeight spec\<rfloor>,
          ec_allowlist = new_set recipients,
          ec_notes = (if s_adminTimelockSeconds spec > 0
            then [TimelockOnSquadsOnly (s_adminTimelockSeconds spec)] else [])\<rparr>))))))"

section \<open>The Squads backend\<close>

definition SMART_ACCOUNT_PROGRAM_ID :: string where
  "SMART_ACCOUNT_PROGRAM_ID = ''SMRTzfY6DfH5ik3TKiyLFfXexV8uSG3d2UksSCYdunG''"

definition NATIVE_SOL_MINT :: string where
  "NATIVE_SOL_MINT = ''11111111111111111111111111111111''"

definition ALL_PERMISSIONS :: int where
  "ALL_PERMISSIONS = 7"

definition U64_MAX :: int where
  "U64_MAX = 2 ^ 64 - 1"

definition DEFAULT_MAX_POLICIES :: rat where
  "DEFAULT_MAX_POLICIES = 64"

datatype SquadsPeriod = SqOneTime | SqDaily | SqWeekly | SqMonthly | SqCustom int

record SquadsSigner =
  sg_key :: string
  sg_mask :: int

record SpendingLimit =
  sl_mint :: string
  sl_sourceAccountIndex :: rat
  sl_destinations :: "string list"
  sl_start :: int
  sl_expiration :: "int option"
  sl_period :: SquadsPeriod
  sl_accumulateUnused :: bool
  sl_maxPerPeriod :: int
  sl_maxPerUse :: int
  sl_enforceExactQuantity :: bool

record SquadsSpendingLimitPolicy =
  p_coalition :: "string list"
  p_asset :: string
  p_signers :: "SquadsSigner list"
  p_threshold :: nat
  p_timeLock :: int
  p_payload :: SpendingLimit

datatype plan_note =
    AdminNeedsAllOwners nat
  | SettingsQuorumCanDoAnything
  | PoliciesEmitted nat nat nat
  | NoAdminTimelock

record SquadsSettings =
  st_signers :: "SquadsSigner list"
  st_threshold :: nat
  st_timeLock :: rat

record SquadsTreasuryPlan =
  pl_programId :: string
  pl_settings :: SquadsSettings
  pl_policies :: "SquadsSpendingLimitPolicy list"
  pl_sourceAccountIndex :: rat
  pl_notes :: "plan_note list"

record CompileSquadsOptions =
  opt_maxPolicies :: "rat option"
  opt_sourceAccountIndex :: "rat option"

fun toSquadsPeriod :: "Period \<Rightarrow> SquadsPeriod" where
  "toSquadsPeriod (CustomSeconds n) = SqCustom \<lfloor>n\<rfloor>"
| "toSquadsPeriod OneTime = SqOneTime"
| "toSquadsPeriod Daily = SqDaily"
| "toSquadsPeriod Weekly = SqWeekly"
| "toSquadsPeriod Monthly = SqMonthly"

definition add_key ::
  "TreasuryOwner \<Rightarrow> (string \<times> string) list \<Rightarrow> spec_error + (string \<times> string) list" where
  "add_key owner keyOf =
     ebind (throw_if (falsy (o_solana owner))
       (SpecNotExpressible Squads (OwnerWithoutSolana (m_id owner)))) (\<lambda>_.
     ebind (throw_if (the (o_solana owner) \<in> set (map snd keyOf))
       (SpecNotExpressible Squads (SolanaKeyTwice (the (o_solana owner))))) (\<lambda>_.
     Inr (AList.update (m_id owner) (the (o_solana owner)) keyOf)))"

definition squads_recipient :: "AllowedRecipient \<times> nat \<Rightarrow> spec_error + string" where
  "squads_recipient ri = (case ri of (recipient, i) \<Rightarrow>
     (case r_solana recipient of
        Some w \<Rightarrow> Inr w
      | None \<Rightarrow> Inl (SpecNotExpressible Squads (RecipientWithoutSolana (r_label recipient) i))))"

definition signerOf :: "(string \<times> string) list \<Rightarrow> string \<Rightarrow> SquadsSigner" where
  "signerOf keyOf ident = \<lparr>sg_key = the (map_of keyOf ident), sg_mask = ALL_PERMISSIONS\<rparr>"

definition asset_mint :: "TreasuryAsset \<Rightarrow> spec_error + string" where
  "asset_mint asset = (case a_solanaMint asset of
     None \<Rightarrow> Inl (SpecNotExpressible Squads (AssetWithoutMint (a_symbol asset)))
   | Some m \<Rightarrow> Inr (if m = ''native'' then NATIVE_SOL_MINT else m))"

definition coalition_policy ::
  "(string \<times> string) list \<Rightarrow> rat \<Rightarrow> string list \<Rightarrow> TreasuryAsset \<Rightarrow> string \<Rightarrow> string list
     \<Rightarrow> SquadsSpendingLimitPolicy" where
  "coalition_policy keyOf sourceAccountIndex destinations asset mint coalition =
     \<lparr>p_coalition = coalition, p_asset = a_symbol asset,
      p_signers = map (signerOf keyOf) coalition, p_threshold = length coalition,
      p_timeLock = 0,
      p_payload = \<lparr>sl_mint = mint, sl_sourceAccountIndex = sourceAccountIndex,
        sl_destinations = destinations, sl_start = 0, sl_expiration = None,
        sl_period = (case a_budget asset of Some b \<Rightarrow> toSquadsPeriod (b_period b) | None \<Rightarrow> SqDaily),
        sl_accumulateUnused = False,
        sl_maxPerPeriod = (case a_budget asset of Some b \<Rightarrow> b_maxPerPeriod b | None \<Rightarrow> U64_MAX),
        sl_maxPerUse = (case Option.bind (a_budget asset) b_maxPerUse of Some m \<Rightarrow> m | None \<Rightarrow> 0),
        sl_enforceExactQuantity = False\<rparr>\<rparr>"

definition asset_policies ::
  "(string \<times> string) list \<Rightarrow> rat \<Rightarrow> string list \<Rightarrow> string list list \<Rightarrow> TreasuryAsset
     \<Rightarrow> spec_error + SquadsSpendingLimitPolicy list" where
  "asset_policies keyOf sourceAccountIndex destinations coalitions asset =
     ebind (asset_mint asset) (\<lambda>mint.
     ebind (throw_if (mint = NATIVE_SOL_MINT \<and> a_solanaDecimals asset \<noteq> None
         \<and> a_solanaDecimals asset \<noteq> Some 9)
       (SpecNotExpressible Squads NativeDecimals)) (\<lambda>_.
     Inr (map (coalition_policy keyOf sourceAccountIndex destinations asset mint) coalitions)))"

definition compileSquads ::
  "WeightedTreasurySpec \<Rightarrow> CompileSquadsOptions \<Rightarrow> spec_error + SquadsTreasuryPlan" where
  "compileSquads spec options =
     ebind (validateSpec spec) (\<lambda>_.
     let maxPolicies = (case opt_maxPolicies options of Some m \<Rightarrow> m | None \<Rightarrow> DEFAULT_MAX_POLICIES);
         sourceAccountIndex = (case opt_sourceAccountIndex options of Some i \<Rightarrow> i | None \<Rightarrow> 0)
     in
     ebind (efold add_key (s_owners spec) []) (\<lambda>keyOf.
     ebind (emap squads_recipient (with_index (s_allowlist spec))) (\<lambda>recipients.
     let destinations = new_set recipients in
     ebind (throw_if (destinations = []) (SpecNotExpressible Squads EmptyDestinations)) (\<lambda>_.
     ebind (minimalWinningCoalitions (s_owners spec) (s_thresholdWeight spec)) (\<lambda>coalitions.
     let nc = length coalitions; na = length (s_assets spec); policyCount = nc * na in
     ebind (throw_if (of_nat policyCount > maxPolicies)
       (SpecNotExpressible Squads (TooManyPolicies nc na policyCount))) (\<lambda>_.
     ebind (emap (asset_policies keyOf sourceAccountIndex destinations coalitions)
       (s_assets spec)) (\<lambda>pss.
     Inr \<lparr>pl_programId = SMART_ACCOUNT_PROGRAM_ID,
          pl_settings = \<lparr>st_signers = map (\<lambda>ow. signerOf keyOf (m_id ow)) (s_owners spec),
            st_threshold = length (s_owners spec), st_timeLock = s_adminTimelockSeconds spec\<rparr>,
          pl_policies = concat pss,
          pl_sourceAccountIndex = sourceAccountIndex,
          pl_notes = [AdminNeedsAllOwners (length (s_owners spec)), SettingsQuorumCanDoAnything,
              PoliciesEmitted nc na policyCount]
            @ (if s_adminTimelockSeconds spec = 0 then [NoAdminTimelock] else [])\<rparr>)))))))"

section \<open>What a compiled configuration lets a group do\<close>

text \<open>
  A policy is an all-of-k group: it approves when its threshold of its signers' keys is present.
  A plan approves a spend of an asset when some policy of that asset does, and such a policy
  admits a destination on its list (an empty list would admit every one). The EVM multisig
  approves when the weights of the approving addresses reach the threshold.
\<close>

definition group_approves :: "SquadsSpendingLimitPolicy \<Rightarrow> string set \<Rightarrow> bool" where
  "group_approves p K \<longleftrightarrow> p_threshold p \<le> card (sg_key ` set (p_signers p) \<inter> K)"

definition admits_destination :: "SquadsSpendingLimitPolicy \<Rightarrow> string \<Rightarrow> bool" where
  "admits_destination p d \<longleftrightarrow>
     sl_destinations (p_payload p) = [] \<or> d \<in> set (sl_destinations (p_payload p))"

definition plan_approves :: "SquadsTreasuryPlan \<Rightarrow> string \<Rightarrow> string set \<Rightarrow> string \<Rightarrow> bool" where
  "plan_approves plan symbol K d \<longleftrightarrow>
     (\<exists>p \<in> set (pl_policies plan). p_asset p = symbol \<and> group_approves p K \<and> admits_destination p d)"

definition evm_approves :: "EvmTreasuryConfig \<Rightarrow> string set \<Rightarrow> string \<Rightarrow> bool" where
  "evm_approves cfg A d \<longleftrightarrow>
     ec_thresholdWeight cfg \<le> (\<Sum>ow \<leftarrow> ec_owners cfg. if e_address ow \<in> A then e_weight ow else 0)
     \<and> d \<in> set (ec_allowlist cfg)"

text \<open>The keys and addresses the owners with the given ids sign with.\<close>

definition keys_of :: "TreasuryOwner list \<Rightarrow> string set \<Rightarrow> string set" where
  "keys_of owners ids = {the (o_solana ow) | ow. ow \<in> set owners \<and> m_id ow \<in> ids}"

definition addresses_of :: "TreasuryOwner list \<Rightarrow> string set \<Rightarrow> string set" where
  "addresses_of owners ids = {to_lower (the (o_evm ow)) | ow. ow \<in> set owners \<and> m_id ow \<in> ids}"

section \<open>Keys and coalitions\<close>

lemma update_fresh: "k \<notin> fst ` set al \<Longrightarrow> AList.update k v al = al @ [(k, v)]"
  by (induction al) auto

lemma add_key_Inr_iff:
  "add_key ow acc = Inr r \<longleftrightarrow> \<not> falsy (o_solana ow) \<and> the (o_solana ow) \<notin> snd ` set acc
     \<and> r = AList.update (m_id ow) (the (o_solana ow)) acc"
  by (auto simp: add_key_def ebind_Inr_iff throw_if_Inr_iff)

lemma add_keys_Inr:
  assumes "efold add_key os acc = Inr keyOf" and "distinct (map fst acc @ map m_id os)"
    and "distinct (map snd acc)"
  shows "keyOf = acc @ map (\<lambda>ow. (m_id ow, the (o_solana ow))) os \<and> distinct (map snd keyOf)
    \<and> list_all (\<lambda>ow. \<not> falsy (o_solana ow)) os"
  using assms
proof (induction os arbitrary: acc)
  case Nil
  then show ?case by simp
next
  case (Cons ow os)
  let ?acc = "acc @ [(m_id ow, the (o_solana ow))]"
  from Cons.prems have f: "\<not> falsy (o_solana ow)" and k: "the (o_solana ow) \<notin> set (map snd acc)"
    by (auto simp: add_key_Inr_iff ebind_Inr_iff)
  from Cons.prems have "m_id ow \<notin> fst ` set acc" by auto
  with Cons.prems f k have "efold add_key os ?acc = Inr keyOf"
    by (auto simp: add_key_Inr_iff ebind_Inr_iff update_fresh)
  moreover have "distinct (map fst ?acc @ map m_id os)" using Cons.prems by auto
  moreover have "distinct (map snd ?acc)" using Cons.prems k by auto
  ultimately have IH: "keyOf = ?acc @ map (\<lambda>ow. (m_id ow, the (o_solana ow))) os
      \<and> distinct (map snd keyOf) \<and> list_all (\<lambda>ow. \<not> falsy (o_solana ow)) os"
    by (rule Cons.IH)
  then have "keyOf = acc @ map (\<lambda>ow. (m_id ow, the (o_solana ow))) (ow # os)" by simp
  moreover have "distinct (map snd keyOf)" using IH by blast
  moreover have "list_all (\<lambda>ow. \<not> falsy (o_solana ow)) (ow # os)" using IH f by simp
  ultimately show ?case by blast
qed

lemma add_keys_spec:
  assumes "efold add_key os [] = Inr keyOf" and "distinct (map m_id os)"
  shows "keyOf = map (\<lambda>ow. (m_id ow, the (o_solana ow))) os"
    and "distinct (map (\<lambda>ow. the (o_solana ow)) os)"
    and "list_all (\<lambda>ow. \<not> falsy (o_solana ow)) os"
  using add_keys_Inr [OF assms(1)] assms(2) by (auto simp: comp_def)

lemma map_of_owner_key:
  assumes "distinct (map m_id os)" and "ow \<in> set os"
  shows "map_of (map (\<lambda>ow. (m_id ow, f ow)) os) (m_id ow) = Some (f ow)"
proof -
  have "map fst (map (\<lambda>ow. (m_id ow, f ow)) os) = map m_id os" by simp
  with assms(1) have "distinct (map fst (map (\<lambda>ow. (m_id ow, f ow)) os))" by metis
  with assms(2) show ?thesis by (intro map_of_is_SomeI) auto
qed

lemma distinct_coalition_ids: "distinct (map m_id ms) \<Longrightarrow> distinct (coalition_ids ms msk)"
proof -
  assume d: "distinct (map m_id ms)"
  have "map (\<lambda>(m, i). m_id m) (zip ms [0..<length ms]) = map m_id ms"
    by (rule nth_equalityI) auto
  with d have "distinct (map (\<lambda>(m, i). m_id m) (zip ms [0..<length ms]))" by simp
  then show ?thesis unfolding coalition_ids_def by (rule distinct_map_filter)
qed

lemma coalition_ids_members: "set (coalition_ids ms msk) \<subseteq> m_id ` set ms"
  by (auto simp: set_coalition_ids)

text \<open>The signers of a coalition's policy are the keys of its owners, and the group
  needs every one of them.\<close>

lemma coalition_keys:
  assumes "keyOf = map (\<lambda>ow. (m_id ow, the (o_solana ow))) os" and "distinct (map m_id os)"
    and "ow \<in> set os"
  shows "sg_key (signerOf keyOf (m_id ow)) = the (o_solana ow)"
  using map_of_owner_key [OF assms(2,3), of "\<lambda>ow. the (o_solana ow)"]
  by (simp add: signerOf_def assms(1))

lemma group_approves_coalition:
  assumes keyOf: "keyOf = map (\<lambda>ow. (m_id ow, the (o_solana ow))) os"
    and d: "distinct (map m_id os)" and dk: "distinct (map (\<lambda>ow. the (o_solana ow)) os)"
    and c: "set c \<subseteq> m_id ` set os" "distinct c"
  shows "group_approves (coalition_policy keyOf i ds a mint c) (keys_of os ids) \<longleftrightarrow> set c \<subseteq> ids"
proof -
  define k where "k = (\<lambda>x. sg_key (signerOf keyOf x))"
  have k: "k (m_id ow) = the (o_solana ow)" if "ow \<in> set os" for ow
    using coalition_keys [OF keyOf d that] by (simp add: k_def)
  have inj: "inj_on k (m_id ` set os)"
    using dk k by (auto simp: inj_on_def distinct_map)
  have "keys_of os ids = k ` (m_id ` set os \<inter> ids)"
  proof -
    have "keys_of os ids = (\<lambda>ow. the (o_solana ow)) ` {ow \<in> set os. m_id ow \<in> ids}"
      by (auto simp: keys_of_def)
    also have "\<dots> = (\<lambda>ow. k (m_id ow)) ` {ow \<in> set os. m_id ow \<in> ids}"
      using k by (intro image_cong) auto
    also have "\<dots> = k ` (m_id ` set os \<inter> ids)" by auto
    finally show ?thesis .
  qed
  then have "k ` set c \<inter> keys_of os ids = k ` (set c \<inter> ids)"
    using inj_on_image_Int [OF inj c(1), of "m_id ` set os \<inter> ids"] c(1)
    by (simp add: Int_assoc [symmetric] inf.absorb1)
  moreover have "inj_on k (set c \<inter> ids)" using inj c(1) by (blast intro: inj_on_subset)
  ultimately have "card (k ` set c \<inter> keys_of os ids) = card (set c \<inter> ids)"
    by (simp add: card_image)
  moreover have "length c = card (set c)" using c(2) by (simp add: distinct_card)
  moreover have "card (set c) \<le> card (set c \<inter> ids) \<longleftrightarrow> set c \<subseteq> ids"
    by (metis List.finite_set Int_lower1 card_seteq inf.absorb_iff1 inf.idem order_refl)
  ultimately show ?thesis
    by (simp add: group_approves_def coalition_policy_def k_def image_image)
qed

section \<open>Compiled plans\<close>

lemma squads_recipients_Inr:
  "emap squads_recipient (with_index rs) = Inr ws \<Longrightarrow> set ws = {w. \<exists>r \<in> set rs. r_solana r = Some w}
     \<and> list_all (\<lambda>r. r_solana r \<noteq> None) rs \<and> length ws = length rs"
proof -
  have "emap squads_recipient (zip rs is) = Inr ws \<Longrightarrow> length is = length rs \<Longrightarrow>
      set ws = {w. \<exists>r \<in> set rs. r_solana r = Some w} \<and> list_all (\<lambda>r. r_solana r \<noteq> None) rs
      \<and> length ws = length rs" for "is"
  proof (induction rs arbitrary: "is" ws)
    case (Cons r rs)
    then obtain i js where "is = i # js" by (cases "is") auto
    with Cons show ?case
      by (auto simp: ebind_Inr_iff squads_recipient_def split: option.splits)
  qed simp
  then show "emap squads_recipient (with_index rs) = Inr ws \<Longrightarrow> ?thesis" 
    by (simp add: with_index_def)
qed

lemma compileSquads_Inr:
  assumes "compileSquads spec opts = Inr plan"
  obtains keyOf recipients coalitions pss where
    "valid_spec spec"
    "efold add_key (s_owners spec) [] = Inr keyOf"
    "emap squads_recipient (with_index (s_allowlist spec)) = Inr recipients"
    "minimalWinningCoalitions (s_owners spec) (s_thresholdWeight spec) = Inr coalitions"
    "of_nat (length coalitions * length (s_assets spec)) \<le> (case opt_maxPolicies opts of Some m \<Rightarrow> m | None \<Rightarrow> DEFAULT_MAX_POLICIES)"
    "emap (asset_policies keyOf (case opt_sourceAccountIndex opts of Some i \<Rightarrow> i | None \<Rightarrow> 0)
      (new_set recipients) coalitions) (s_assets spec) = Inr pss"
    "pl_policies plan = concat pss"
    "pl_settings plan = \<lparr>st_signers = map (\<lambda>ow. signerOf keyOf (m_id ow)) (s_owners spec),
            st_threshold = length (s_owners spec), st_timeLock = s_adminTimelockSeconds spec\<rparr>"
  using assms
  by (auto simp: compileSquads_def Let_def ebind_Inr_iff throw_if_Inr_iff validateSpec_valid not_less)

lemma asset_policies_Inr:
  "asset_policies keyOf i ds cs a = Inr ps \<Longrightarrow>
     \<exists>mint. asset_mint a = Inr mint \<and> ps = map (coalition_policy keyOf i ds a mint) cs"
  by (auto simp: asset_policies_def ebind_Inr_iff)

lemma coalition_policy_simps [simp]:
  "p_asset (coalition_policy keyOf i ds a mint c) = a_symbol a"
  "p_coalition (coalition_policy keyOf i ds a mint c) = c"
  "p_threshold (coalition_policy keyOf i ds a mint c) = length c"
  "p_signers (coalition_policy keyOf i ds a mint c) = map (signerOf keyOf) c"
  "sl_destinations (p_payload (coalition_policy keyOf i ds a mint c)) = ds"
  "sl_mint (p_payload (coalition_policy keyOf i ds a mint c)) = mint"
  by (simp_all add: coalition_policy_def)

end
