(* ===== verification/WT_Correct.thy ===== *)
theory WT_Correct
  imports WT_Compile
begin

text \<open>
  The weighted-treasury compilers are correct: the enumeration of coalitions is exactly the set
  of minimal winning ones, the Squads plan and the EVM configuration each let a group spend
  exactly when the weighted rule does, and the two backends agree on every group.
\<close>

section \<open>Library\<close>

lemma valid_spec_proper: "valid_spec spec \<Longrightarrow> proper_rule (s_owners spec, s_thresholdWeight spec)"
  by (auto simp: valid_spec_def proper_rule_def valid_owner_def list_all_iff)

lemma minimalWinningCoalitions_Inr:
  "minimalWinningCoalitions ms t = Inr cs \<Longrightarrow> cs = map (coalition_ids ms) (coalition_masks ms t)"
  by (auto simp: minimalWinningCoalitions_def Let_def split: if_splits)

lemma compileSquads_policies:
  assumes "compileSquads spec opts = Inr plan"
  obtains keyOf i ds where
    "keyOf = map (\<lambda>ow. (m_id ow, the (o_solana ow))) (s_owners spec)"
    "distinct (map m_id (s_owners spec))" "distinct (map (\<lambda>ow. the (o_solana ow)) (s_owners spec))"
    "proper_rule (s_owners spec, s_thresholdWeight spec)"
    "ds \<noteq> []" "set ds = {w. \<exists>r \<in> set (s_allowlist spec). r_solana r = Some w}"
    "set (pl_policies plan) = {coalition_policy keyOf i ds a mint (coalition_ids (s_owners spec) msk)
       | a mint msk. a \<in> set (s_assets spec) \<and> asset_mint a = Inr mint
         \<and> msk \<in> set (coalition_masks (s_owners spec) (s_thresholdWeight spec))}"
    "\<forall>a \<in> set (s_assets spec). \<exists>mint. asset_mint a = Inr mint"
proof -
  let ?os = "s_owners spec"
  obtain keyOf recipients cs pss where h: "valid_spec spec" "efold add_key ?os [] = Inr keyOf"
      "emap squads_recipient (with_index (s_allowlist spec)) = Inr recipients"
      "minimalWinningCoalitions ?os (s_thresholdWeight spec) = Inr cs"
      "emap (asset_policies keyOf (case opt_sourceAccountIndex opts of Some i \<Rightarrow> i | None \<Rightarrow> 0)
        (new_set recipients) cs) (s_assets spec) = Inr pss"
      "pl_policies plan = concat pss"
    by (rule compileSquads_Inr [OF assms])
  let ?i = "case opt_sourceAccountIndex opts of Some i \<Rightarrow> i | None \<Rightarrow> 0"
  let ?ds = "new_set recipients"
  have d: "distinct (map m_id ?os)" using h(1) by (simp add: valid_spec_def)
  note K = add_keys_spec [OF h(2) d]
  note R = squads_recipients_Inr [OF h(3)]
  have "s_allowlist spec \<noteq> []" using h(1) by (simp add: valid_spec_def)
  then have ne: "?ds \<noteq> []" using R by auto
  have cs: "set cs = coalition_ids ?os ` set (coalition_masks ?os (s_thresholdWeight spec))"
    using minimalWinningCoalitions_Inr [OF h(4)] by simp
  have pol: "\<exists>mint. asset_mint a = Inr mint \<and> ps = map (coalition_policy keyOf ?i ?ds a mint) cs"
    if "asset_policies keyOf ?i ?ds cs a = Inr ps" for a ps
    using asset_policies_Inr [OF that] .
  have mint: "\<forall>a \<in> set (s_assets spec). \<exists>mint. asset_mint a = Inr mint"
    using emap_InrD [OF h(5)] pol by blast
  have "set (pl_policies plan) = {coalition_policy keyOf ?i ?ds a mint (coalition_ids ?os msk)
       | a mint msk. a \<in> set (s_assets spec) \<and> asset_mint a = Inr mint
         \<and> msk \<in> set (coalition_masks ?os (s_thresholdWeight spec))}" (is "_ = ?P")
  proof -
    have "set (concat pss) = (\<Union>ps \<in> set pss. set ps)" by simp
    also have "\<dots> = (\<Union>a \<in> set (s_assets spec). {p. \<exists>ps. asset_policies keyOf ?i ?ds cs a = Inr ps \<and> p \<in> set ps})"
      using emap_Inr_set [OF h(5)] by auto
    also have "\<dots> = ?P"
    proof -
      have "{p. \<exists>ps. asset_policies keyOf ?i ?ds cs a = Inr ps \<and> p \<in> set ps}
          = {coalition_policy keyOf ?i ?ds a mint (coalition_ids ?os msk)
              | mint msk. asset_mint a = Inr mint
                \<and> msk \<in> set (coalition_masks ?os (s_thresholdWeight spec))}"
        if a: "a \<in> set (s_assets spec)" for a
      proof -
        obtain ps where ps: "asset_policies keyOf ?i ?ds cs a = Inr ps"
          using emap_InrD [OF h(5) a] by blast
        with pol [OF ps] cs show ?thesis by auto
      qed
      then show ?thesis by blast
    qed
    finally show ?thesis by (simp add: h(6))
  qed
  then show ?thesis
    using that [OF K(1) d K(2) valid_spec_proper [OF h(1)] ne _ _ mint] R by simp
qed

lemma coalition_nonempty:
  assumes "proper_rule (ms, t)" and "msk \<in> set (coalition_masks ms t)"
  shows "coalition_ids ms msk \<noteq> []"
proof -
  from assms have "bits_of msk \<noteq> {}" "msk < 2 ^ length ms"
    using set_coalition_masks [OF assms(1)] pos.minimal_nonempty [OF assms(1)] by auto
  then have "0 < length (coalition_ids ms msk)"
    by (simp add: length_coalition_ids popcount_card card_gt_0_iff)
  then show ?thesis by blast
qed

text \<open>What a compiled Squads plan admits is the weighted rule and the allowlist.\<close>

lemma squads_plan_rule:
  assumes "compileSquads spec opts = Inr plan" and "a \<in> set (s_assets spec)"
  shows "plan_approves plan (a_symbol a) (keys_of (s_owners spec) ids) d \<longleftrightarrow>
    isWinning (s_owners spec) (s_thresholdWeight spec) ids
    \<and> (\<exists>r \<in> set (s_allowlist spec). r_solana r = Some d)"
proof -
  let ?os = "s_owners spec"
  let ?t = "s_thresholdWeight spec"
  obtain keyOf i ds where h: "keyOf = map (\<lambda>ow. (m_id ow, the (o_solana ow))) ?os"
    "distinct (map m_id ?os)" "distinct (map (\<lambda>ow. the (o_solana ow)) ?os)" "proper_rule (?os, ?t)"
    "ds \<noteq> []" "set ds = {w. \<exists>r \<in> set (s_allowlist spec). r_solana r = Some w}"
    "set (pl_policies plan) = {coalition_policy keyOf i ds a mint (coalition_ids ?os msk)
       | a mint msk. a \<in> set (s_assets spec) \<and> asset_mint a = Inr mint
         \<and> msk \<in> set (coalition_masks ?os ?t)}"
    "\<forall>a \<in> set (s_assets spec). \<exists>mint. asset_mint a = Inr mint"
    by (rule compileSquads_policies [OF assms(1)])
  have group: "group_approves (coalition_policy keyOf i ds b mint (coalition_ids ?os msk)) (keys_of ?os ids)
      \<longleftrightarrow> set (coalition_ids ?os msk) \<subseteq> ids" for b mint msk
    by (rule group_approves_coalition [OF h(1,2,3) coalition_ids_members distinct_coalition_ids [OF h(2)]])
  have dest: "admits_destination (coalition_policy keyOf i ds b mint c) d
      \<longleftrightarrow> (\<exists>r \<in> set (s_allowlist spec). r_solana r = Some d)" for b mint c
    using h(5,6) by (simp add: admits_destination_def)
  obtain mint where mint: "asset_mint a = Inr mint" using h(8) assms(2) by blast
  have "plan_approves plan (a_symbol a) (keys_of ?os ids) d \<longleftrightarrow>
      (\<exists>msk \<in> set (coalition_masks ?os ?t). set (coalition_ids ?os msk) \<subseteq> ids)
      \<and> (\<exists>r \<in> set (s_allowlist spec). r_solana r = Some d)" (is "?L \<longleftrightarrow> ?R")
  proof
    assume ?L
    then show ?R unfolding plan_approves_def h(7) using group dest by fastforce
  next
    assume ?R
    then obtain msk where "msk \<in> set (coalition_masks ?os ?t)" "set (coalition_ids ?os msk) \<subseteq> ids"
      and "\<exists>r \<in> set (s_allowlist spec). r_solana r = Some d" by blast
    then show ?L unfolding plan_approves_def h(7) using group dest mint assms(2)
      by (intro bexI [of _ "coalition_policy keyOf i ds a mint (coalition_ids ?os msk)"]) auto
  qed
  then show ?thesis by (simp add: winning_iff_mask [OF h(4)])
qed

section \<open>The EVM configuration\<close>

lemma check_evm_addresses_Inr:
  "efold check_evm_address es seen = Inr r \<Longrightarrow> distinct seen \<Longrightarrow>
     distinct (map e_address es) \<and> set (map e_address es) \<inter> set seen = {}"
  by (induction es arbitrary: seen) (fastforce simp: ebind_Inr_iff check_evm_address_def split: if_splits)+

lemma evm_recipients_Inr:
  "emap evm_recipient (with_index rs) = Inr ws \<Longrightarrow> ws = map (\<lambda>r. to_lower (the (r_evm r))) rs"
proof -
  have "emap evm_recipient (zip rs is) = Inr ws \<Longrightarrow> length is = length rs \<Longrightarrow>
      ws = map (\<lambda>r. to_lower (the (r_evm r))) rs" for "is"
  proof (induction rs arbitrary: "is" ws)
    case (Cons r rs)
    then obtain i js where "is = i # js" by (cases "is") auto
    with Cons show ?case by (auto simp: ebind_Inr_iff evm_recipient_def split: if_splits)
  qed simp
  then show "emap evm_recipient (with_index rs) = Inr ws \<Longrightarrow> ?thesis" by (simp add: with_index_def)
qed

lemma compileEvm_Inr:
  assumes "compileEvm spec = Inr cfg"
  shows "valid_spec spec" "length (s_owners spec) \<le> MAX_EVM_OWNERS"
    and "ec_owners cfg = map (\<lambda>ow. \<lparr>e_address = to_lower (the (o_evm ow)), e_weight = \<lfloor>m_weight ow\<rfloor>\<rparr>) (s_owners spec)"
    and "distinct (map (\<lambda>ow. to_lower (the (o_evm ow))) (s_owners spec))"
    and "ec_thresholdWeight cfg = \<lfloor>s_thresholdWeight spec\<rfloor>"
    and "set (ec_allowlist cfg) = (\<lambda>r. to_lower (the (r_evm r))) ` set (s_allowlist spec)"
    and "distinct (ec_allowlist cfg)"
    and "list_all (\<lambda>a. a_budget a = None) (s_assets spec)"
proof -
  from assms obtain owners seen recipients where
    v: "valid_spec spec" and n: "length (s_owners spec) \<le> MAX_EVM_OWNERS"
    and o: "emap evm_owner (s_owners spec) = Inr owners"
    and s: "efold check_evm_address owners [] = Inr seen"
    and r: "emap evm_recipient (with_index (s_allowlist spec)) = Inr recipients"
    and b: "efold check_no_budget (s_assets spec) () = Inr ()"
    and cfg: "ec_owners cfg = owners" "ec_thresholdWeight cfg = \<lfloor>s_thresholdWeight spec\<rfloor>"
      "ec_allowlist cfg = new_set recipients"
    by (auto simp: compileEvm_def ebind_Inr_iff throw_if_Inr_iff validateSpec_valid not_less)
  have o': "owners = map (\<lambda>ow. \<lparr>e_address = to_lower (the (o_evm ow)), e_weight = \<lfloor>m_weight ow\<rfloor>\<rparr>) (s_owners spec)"
    using o by (rule emap_Inr_map) (auto simp: evm_owner_def split: if_splits)
  have "efold check_no_budget as () = Inr () \<Longrightarrow> list_all (\<lambda>a. a_budget a = None) as" for as
    by (induction as) (auto simp: ebind_Inr_iff check_no_budget_def throw_if_Inr_iff)
  then show "list_all (\<lambda>a. a_budget a = None) (s_assets spec)" using b by blast
  show "distinct (map (\<lambda>ow. to_lower (the (o_evm ow))) (s_owners spec))"
    using check_evm_addresses_Inr [OF s] by (simp add: o' comp_def)
  show "set (ec_allowlist cfg) = (\<lambda>r. to_lower (the (r_evm r))) ` set (s_allowlist spec)"
    using evm_recipients_Inr [OF r] cfg by simp
  show "ec_owners cfg = map (\<lambda>ow. \<lparr>e_address = to_lower (the (o_evm ow)), e_weight = \<lfloor>m_weight ow\<rfloor>\<rparr>) (s_owners spec)"
    using cfg o' by simp
  show "valid_spec spec" "length (s_owners spec) \<le> MAX_EVM_OWNERS"
    "ec_thresholdWeight cfg = \<lfloor>s_thresholdWeight spec\<rfloor>" "distinct (ec_allowlist cfg)"
    using cfg v n by auto
qed

lemma sum_list_of_int: "of_int (sum_list xs) = sum_list (map of_int xs)" for xs :: "int list"
  by (induction xs) auto

lemma evm_config_rule:
  assumes "compileEvm spec = Inr cfg"
  shows "evm_approves cfg (addresses_of (s_owners spec) ids) d \<longleftrightarrow>
    isWinning (s_owners spec) (s_thresholdWeight spec) ids
    \<and> (\<exists>r \<in> set (s_allowlist spec). to_lower (the (r_evm r)) = d)"
proof -
  let ?os = "s_owners spec"
  note E = compileEvm_Inr [OF assms]
  have mem: "to_lower (the (o_evm ow)) \<in> addresses_of ?os ids \<longleftrightarrow> m_id ow \<in> ids"
    if "ow \<in> set ?os" for ow
    using that E(4) by (auto simp: addresses_of_def distinct_map inj_on_def)
  have int: "of_int \<lfloor>m_weight ow\<rfloor> = m_weight ow" if "ow \<in> set ?os" for ow
    using that E(1) by (auto simp: valid_spec_def valid_owner_def is_integer_def list_all_iff)
  have t: "of_int \<lfloor>s_thresholdWeight spec\<rfloor> = s_thresholdWeight spec"
    using E(1) by (simp add: valid_spec_def is_integer_def)
  define S where "S = (\<Sum>ow \<leftarrow> ?os. if m_id ow \<in> ids then \<lfloor>m_weight ow\<rfloor> else 0)"
  have S1: "(\<Sum>ow \<leftarrow> ec_owners cfg. if e_address ow \<in> addresses_of ?os ids then e_weight ow else 0) = S"
    unfolding E(3) S_def using mem by (auto simp: comp_def intro!: arg_cong [of _ _ sum_list])
  have "of_int S = (\<Sum>ow \<leftarrow> ?os. if m_id ow \<in> ids then m_weight ow else 0)"
    unfolding S_def sum_list_of_int using int by (auto simp: comp_def intro!: arg_cong [of _ _ sum_list])
  also have "\<dots> = sum_list (map m_weight (filter (\<lambda>ow. m_id ow \<in> ids) ?os))"
    by (simp add: sum_list_map_filter')
  finally have S2: "of_int S = sum_list (map m_weight (filter (\<lambda>ow. m_id ow \<in> ids) ?os))" .
  have "\<lfloor>s_thresholdWeight spec\<rfloor> \<le> S \<longleftrightarrow> of_int \<lfloor>s_thresholdWeight spec\<rfloor> \<le> (of_int S :: rat)"
    by simp
  also have "\<dots> \<longleftrightarrow> isWinning ?os (s_thresholdWeight spec) ids"
    by (simp only: t S2 isWinning_def foldl_if_sum add_0)
  finally show ?thesis
    unfolding evm_approves_def S1 E(5,6) by blast
qed

section \<open>A concrete treasury\<close>

text \<open>Three owners with weights 2, 1 and 1, threshold 3, one recipient and one asset.\<close>

definition demo_spec :: WeightedTreasurySpec where
  "demo_spec = \<lparr>s_version = 1,
     s_owners = [
       \<lparr>m_id = ''ana'', m_weight = 2, o_evm = Some ''0x00000000000000000000000000000000000000A1'',
        o_solana = Some ''7Np41oeYqPefeNQEHSv1UDhYrehxin3NStELsSKCT4K2''\<rparr>,
       \<lparr>m_id = ''bo'', m_weight = 1, o_evm = Some ''0x00000000000000000000000000000000000000b2'',
        o_solana = Some ''4vJ9JU1bJJE96FWSJKvHsmmFADCg4gpZQff4P3bkLKi'' \<rparr>,
       \<lparr>m_id = ''cy'', m_weight = 1, o_evm = Some ''0x00000000000000000000000000000000000000c3'',
        o_solana = Some ''8qbHbw2BbbTHBW1sbeqakYXVKRQM8Ne7pLK7m6CVfeR''\<rparr>],
     s_thresholdWeight = 3,
     s_allowlist = [\<lparr>r_label = Some ''payroll'', r_evm = Some ''0x00000000000000000000000000000000000000D4'',
        r_solana = Some ''CktRuQ2mttgRGkXJtyksdKHjUdc2C4TgDzyB98oEzy8''\<rparr>],
     s_assets = [\<lparr>a_symbol = ''USDC'', a_solanaMint = Some ''GgBaCs3NCBuZN12kCJgAW63ydqohFkHEdfdEXBPzLHq'',
        a_solanaDecimals = Some 6, a_budget = None\<rparr>],
     s_adminTimelockSeconds = 3600\<rparr>"

definition default_options :: CompileSquadsOptions where
  "default_options = \<lparr>opt_maxPolicies = None, opt_sourceAccountIndex = None\<rparr>"

lemma demo_compiles:
  "\<exists>plan. compileSquads demo_spec default_options = Inr plan"
  "\<exists>cfg. compileEvm demo_spec = Inr cfg"
proof -
  have "\<not> isl (compileSquads demo_spec default_options)" by code_simp
  then show "\<exists>plan. compileSquads demo_spec default_options = Inr plan"
    by (cases "compileSquads demo_spec default_options") auto
  have "\<not> isl (compileEvm demo_spec)" by code_simp
  then show "\<exists>cfg. compileEvm demo_spec = Inr cfg" by (cases "compileEvm demo_spec") auto
qed

lemma demo_facts:
  "hd (s_assets demo_spec) \<in> set (s_assets demo_spec)"
  "hd (s_allowlist demo_spec) \<in> set (s_allowlist demo_spec)"
  "isWinning (s_owners demo_spec) (s_thresholdWeight demo_spec) {''ana'', ''cy''}"
  "\<not> isWinning (s_owners demo_spec) (s_thresholdWeight demo_spec) {''bo'', ''cy''}"
  by (simp_all add: demo_spec_def isWinning_def)

lemma demo_proper: "proper_rule (s_owners demo_spec, 3)" "distinct (map m_id (s_owners demo_spec))"
  by (simp_all add: demo_spec_def proper_rule_def)

lemma demo_coalitions:
  "minimalWinningCoalitions (s_owners demo_spec) 3 = Inr [[''ana'', ''bo''], [''ana'', ''cy'']]"
  by code_simp

section \<open>Properties\<close>

text \<open>(C1) One spec, two chains, same meaning: when a spec compiles to both backends, for every set
  of owners and every allowlisted recipient, the Squads plan lets those owners' Solana keys pay
  the recipient's wallet exactly when the EVM configuration lets their addresses pay its address.\<close>

theorem backends_agree:
  assumes "compileSquads spec opts = Inr plan" and "compileEvm spec = Inr cfg"
    and "a \<in> set (s_assets spec)" and "r \<in> set (s_allowlist spec)"
  shows "plan_approves plan (a_symbol a) (keys_of (s_owners spec) ids) (the (r_solana r)) \<longleftrightarrow>
    evm_approves cfg (addresses_of (s_owners spec) ids) (to_lower (the (r_evm r)))"
proof -
  obtain recipients where "emap squads_recipient (with_index (s_allowlist spec)) = Inr recipients"
    by (rule compileSquads_Inr [OF assms(1)])
  then have "r_solana r \<noteq> None" using squads_recipients_Inr assms(4) by (fastforce simp: list_all_iff)
  then have "r_solana r = Some (the (r_solana r))" by simp
  then show ?thesis
    using assms(4) squads_plan_rule [OF assms(1,3), of ids] evm_config_rule [OF assms(2), of ids] by blast
qed

theorem backends_agree_witness:
  "\<exists>plan cfg. compileSquads demo_spec default_options = Inr plan \<and> compileEvm demo_spec = Inr cfg
     \<and> (plan_approves plan (a_symbol (hd (s_assets demo_spec))) (keys_of (s_owners demo_spec) {''ana'', ''cy''})
           (the (r_solana (hd (s_allowlist demo_spec))))
         \<longleftrightarrow> evm_approves cfg (addresses_of (s_owners demo_spec) {''ana'', ''cy''})
           (to_lower (the (r_evm (hd (s_allowlist demo_spec))))))"
proof -
  from demo_compiles obtain plan cfg where
    c: "compileSquads demo_spec default_options = Inr plan" "compileEvm demo_spec = Inr cfg" by blast
  show ?thesis
    using c backends_agree [OF c demo_facts(1,2), of "{''ana'', ''cy''}"] by blast
qed

text \<open>The Squads plan is the weighted rule: a group of owners can spend an asset through some
  policy of the plan to a destination exactly when the group's weight reaches the threshold and
  the destination is an allowlisted wallet.\<close>

theorem squads_is_weighted_rule:
  assumes "compileSquads spec opts = Inr plan" and "a \<in> set (s_assets spec)"
  shows "plan_approves plan (a_symbol a) (keys_of (s_owners spec) ids) d \<longleftrightarrow>
    isWinning (s_owners spec) (s_thresholdWeight spec) ids
    \<and> (\<exists>r \<in> set (s_allowlist spec). r_solana r = Some d)"
  using assms by (rule squads_plan_rule)

theorem squads_is_weighted_rule_witness:
  "\<exists>plan. compileSquads demo_spec default_options = Inr plan
     \<and> \<not> plan_approves plan (a_symbol (hd (s_assets demo_spec)))
         (keys_of (s_owners demo_spec) {''bo'', ''cy''}) ''0x00''
     \<and> plan_approves plan (a_symbol (hd (s_assets demo_spec)))
         (keys_of (s_owners demo_spec) {''ana'', ''cy''})
         ''CktRuQ2mttgRGkXJtyksdKHjUdc2C4TgDzyB98oEzy8''"
proof -
  from demo_compiles obtain plan where c: "compileSquads demo_spec default_options = Inr plan" by blast
  have "\<exists>r \<in> set (s_allowlist demo_spec). r_solana r = Some ''CktRuQ2mttgRGkXJtyksdKHjUdc2C4TgDzyB98oEzy8''"
    by (simp add: demo_spec_def)
  then show ?thesis
    using c squads_is_weighted_rule [OF c demo_facts(1)] demo_facts(3,4) by blast
qed

text \<open>The EVM configuration is the weighted rule: the weights and the threshold it carries let
  the addresses of a group of owners pay a recipient exactly when the spec's rule does and the
  recipient's address is on the allowlist.\<close>

theorem evm_is_weighted_rule:
  assumes "compileEvm spec = Inr cfg"
  shows "evm_approves cfg (addresses_of (s_owners spec) ids) d \<longleftrightarrow>
    isWinning (s_owners spec) (s_thresholdWeight spec) ids
    \<and> (\<exists>r \<in> set (s_allowlist spec). to_lower (the (r_evm r)) = d)"
  using assms by (rule evm_config_rule)

theorem evm_is_weighted_rule_witness:
  "\<exists>cfg. compileEvm demo_spec = Inr cfg
     \<and> evm_approves cfg (addresses_of (s_owners demo_spec) {''ana'', ''cy''})
         ''0x00000000000000000000000000000000000000d4''"
proof -
  from demo_compiles obtain cfg where c: "compileEvm demo_spec = Inr cfg" by blast
  have "\<exists>r \<in> set (s_allowlist demo_spec). to_lower (the (r_evm r)) = ''0x00000000000000000000000000000000000000d4''"
    by (simp add: demo_spec_def) code_simp
  then show ?thesis using c evm_is_weighted_rule [OF c] demo_facts(3) by blast
qed

text \<open>The enumeration is complete and sound: with non-negative weights and a positive threshold,
  a set of ids wins exactly when it contains one of the coalitions returned.\<close>

theorem coalitions_decide:
  assumes "proper_rule (ms, t)" and "minimalWinningCoalitions ms t = Inr cs"
  shows "isWinning ms t ids \<longleftrightarrow> (\<exists>c \<in> set cs. set c \<subseteq> ids)"
  using winning_iff_mask [OF assms(1)] minimalWinningCoalitions_Inr [OF assms(2)] by simp

theorem coalitions_decide_witness:
  "isWinning (s_owners demo_spec) 3 {''ana'', ''cy''} \<longleftrightarrow>
     (\<exists>c \<in> set [[''ana'', ''bo''], [''ana'', ''cy'']]. set c \<subseteq> {''ana'', ''cy''})"
  by (rule coalitions_decide [OF demo_proper(1) demo_coalitions])



text \<open>(C30) A spec passes \<open>validateSpec\<close> exactly when it is well formed (version 1, at least one owner,
  distinct ids, integer weights in [1, 1000000], well-formed keys, a threshold in
  [1, total weight], a non-empty allowlist, at least one asset, sound budgets, a u32 timelock);
  every error it throws is a \<open>SpecNotExpressible\<close> of the spec level.\<close>

theorem validateSpec_accepts:
  "(validateSpec spec = Inr () \<longleftrightarrow> valid_spec spec)
     \<and> (\<exists>r. validateSpec spec \<in> {Inr (), Inl (SpecNotExpressible Spec r)})"
  using validateSpec_valid [of spec] validateSpec_error [of spec]
  by (cases "validateSpec spec") auto

text \<open>The Squads compiler never emits a weaker policy: there are never more policies than the cap,
  every policy needs all of its signers, lists at least one destination and only allowlisted
  wallets, and the admin path needs every owner.\<close>

theorem squads_plan_is_tight:
  assumes "compileSquads spec opts = Inr plan"
  shows "of_nat (length (pl_policies plan)) \<le> (case opt_maxPolicies opts of Some m \<Rightarrow> m | None \<Rightarrow> DEFAULT_MAX_POLICIES)
    \<and> list_all (\<lambda>p. p_threshold p = length (p_signers p) \<and> 0 < p_threshold p
        \<and> sl_destinations (p_payload p) \<noteq> []
        \<and> set (sl_destinations (p_payload p)) = {w. \<exists>r \<in> set (s_allowlist spec). r_solana r = Some w})
      (pl_policies plan)
    \<and> st_threshold (pl_settings plan) = length (st_signers (pl_settings plan))
    \<and> length (st_signers (pl_settings plan)) = length (s_owners spec)"
proof (intro conjI)
  obtain keyOf recipients cs pss where h:
    "of_nat (length cs * length (s_assets spec)) \<le> (case opt_maxPolicies opts of Some m \<Rightarrow> m | None \<Rightarrow> DEFAULT_MAX_POLICIES)"
    "emap (asset_policies keyOf (case opt_sourceAccountIndex opts of Some i \<Rightarrow> i | None \<Rightarrow> 0)
      (new_set recipients) cs) (s_assets spec) = Inr pss"
    "pl_policies plan = concat pss"
    and settings: "pl_settings plan = \<lparr>st_signers = map (\<lambda>ow. signerOf keyOf (m_id ow)) (s_owners spec),
            st_threshold = length (s_owners spec), st_timeLock = s_adminTimelockSeconds spec\<rparr>"
    by (rule compileSquads_Inr [OF assms])
  have len: "length ps = length cs" if "ps \<in> set pss" for ps
    using that emap_Inr_set [OF h(2)] asset_policies_Inr by fastforce
  have "length (concat pss) = length cs * length pss"
    using len by (induction pss) (auto simp: length_concat)
  then show "of_nat (length (pl_policies plan)) \<le> (case opt_maxPolicies opts of Some m \<Rightarrow> m | None \<Rightarrow> DEFAULT_MAX_POLICIES)"
    using h(1) emap_Inr_length [OF h(2)] by (simp add: h(3))
  show "st_threshold (pl_settings plan) = length (st_signers (pl_settings plan))"
    "length (st_signers (pl_settings plan)) = length (s_owners spec)"
    using settings by simp_all
next
  obtain keyOf i ds where h: "proper_rule (s_owners spec, s_thresholdWeight spec)" "ds \<noteq> []"
    "set ds = {w. \<exists>r \<in> set (s_allowlist spec). r_solana r = Some w}"
    "set (pl_policies plan) = {coalition_policy keyOf i ds a mint (coalition_ids (s_owners spec) msk)
       | a mint msk. a \<in> set (s_assets spec) \<and> asset_mint a = Inr mint
         \<and> msk \<in> set (coalition_masks (s_owners spec) (s_thresholdWeight spec))}"
    by (rule compileSquads_policies [OF assms])
  from coalition_nonempty [OF h(1)]
  show "list_all (\<lambda>p. p_threshold p = length (p_signers p) \<and> 0 < p_threshold p
        \<and> sl_destinations (p_payload p) \<noteq> []
        \<and> set (sl_destinations (p_payload p)) = {w. \<exists>r \<in> set (s_allowlist spec). r_solana r = Some w})
      (pl_policies plan)"
    using h(2-4) by (auto simp: list_all_iff)
qed

theorem squads_plan_is_tight_witness:
  "\<exists>plan. compileSquads demo_spec default_options = Inr plan
     \<and> of_nat (length (pl_policies plan)) \<le> DEFAULT_MAX_POLICIES"
proof -
  from demo_compiles obtain plan where c: "compileSquads demo_spec default_options = Inr plan" by blast
  show ?thesis using c squads_plan_is_tight [OF c] by (auto simp: default_options_def)
qed

end
