(* ===== verification/WT_Judge.thy ===== *)
theory WT_Judge
  imports WT_Correct
begin

text \<open>
  The reference judge of a spend (\<^verbatim>\<open>packages/weighted-treasury/src/judge.ts\<close>), the 256-bit
  big-endian encoding (\<^verbatim>\<open>src/encoding.ts\<close>) and the SDK arguments of a plan
  (\<^verbatim>\<open>src/squads/sdk-args.ts\<close>). The SDK's constructors \<open>PublicKey\<close> and \<open>BN\<close> are
  parameters \<open>pk\<close> and \<open>bn\<close>, applied to the strings the code passes them.
\<close>

section \<open>Judging a spend\<close>

fun drop_trailing :: "char \<Rightarrow> string \<Rightarrow> string" where
  "drop_trailing c s = rev (dropWhile (\<lambda>x. x = c) (rev s))"

definition padStart :: "nat \<Rightarrow> char \<Rightarrow> string \<Rightarrow> string" where
  "padStart n c s = replicate (n - length s) c @ s"

definition units :: "int \<Rightarrow> nat \<Rightarrow> string" where
  "units v decimals =
     (if decimals = 0 then dec_int v
      else let base = 10 ^ decimals;
               frac = drop_trailing CHR ''0'' (padStart decimals CHR ''0'' (dec_int (bigint_rem v base)))
           in if frac \<noteq> '''' then dec_int (bigint_div v base) @ ''.'' @ frac
              else dec_int (bigint_div v base))"




definition timelockRemaining :: "rat \<Rightarrow> rat \<Rightarrow> rat \<Rightarrow> rat" where
  "timelockRemaining approvedAt timeLock chainNow = max 0 (approvedAt + timeLock - chainNow)"

section \<open>256-bit big-endian encoding\<close>

text \<open>\<open>DataView.setBigUint64(offset, w, false)\<close>: the eight bytes of a word, highest first.\<close>

definition be64 :: "int \<Rightarrow> bytes" where
  "be64 w = map (\<lambda>j. word_of_int (drop_bit (8 * (7 - j)) w)) [0..<8]"

definition u256be :: "int \<Rightarrow> int + bytes" where
  "u256be v =
     (if v < 0 \<or> drop_bit 256 v \<noteq> 0 then Inl v
      else Inr (concat (map (\<lambda>i. be64 (take_bit 64 (drop_bit (64 * (3 - i)) v))) [0..<4])))"

section \<open>SDK arguments\<close>

record 'pk SdkSigner =
  ss_key :: 'pk
  ss_mask :: int

datatype 'bn SdkPeriod = SdkOneTime | SdkDaily | SdkWeekly | SdkMonthly | SdkCustom 'bn

record ('pk, 'bn) SdkPolicyCreate =
  sa_seed :: nat
  sa_mint :: 'pk
  sa_sourceAccountIndex :: rat
  sa_destinations :: "'pk list"
  sa_start :: 'bn
  sa_expiration :: "'bn option"
  sa_period :: "'bn SdkPeriod"
  sa_accumulateUnused :: bool
  sa_maxPerPeriod :: 'bn
  sa_maxPerUse :: 'bn
  sa_enforceExactQuantity :: bool
  sa_signers :: "'pk SdkSigner list"
  sa_threshold :: nat
  sa_timeLock :: int

definition toSdkSigners :: "(string \<Rightarrow> 'pk) \<Rightarrow> SquadsSigner list \<Rightarrow> 'pk SdkSigner list" where
  "toSdkSigners pk signers = map (\<lambda>s. \<lparr>ss_key = pk (sg_key s), ss_mask = sg_mask s\<rparr>) signers"

fun toSdkPeriod :: "(string \<Rightarrow> 'bn) \<Rightarrow> SquadsPeriod \<Rightarrow> 'bn SdkPeriod" where
  "toSdkPeriod bn (SqCustom n) = SdkCustom (bn (dec_int n))"
| "toSdkPeriod bn SqOneTime = SdkOneTime"
| "toSdkPeriod bn SqDaily = SdkDaily"
| "toSdkPeriod bn SqWeekly = SdkWeekly"
| "toSdkPeriod bn SqMonthly = SdkMonthly"

definition toSdkPolicyCreateAction ::
  "(string \<Rightarrow> 'pk) \<Rightarrow> (string \<Rightarrow> 'bn) \<Rightarrow> SquadsSpendingLimitPolicy \<Rightarrow> nat \<Rightarrow> ('pk, 'bn) SdkPolicyCreate" where
  "toSdkPolicyCreateAction pk bn policy seed = (let f = p_payload policy in
     \<lparr>sa_seed = seed, sa_mint = pk (sl_mint f), sa_sourceAccountIndex = sl_sourceAccountIndex f,
      sa_destinations = map pk (sl_destinations f),
      sa_start = bn (dec_int (sl_start f)),
      sa_expiration = map_option (\<lambda>e. bn (dec_int e)) (sl_expiration f),
      sa_period = toSdkPeriod bn (sl_period f),
      sa_accumulateUnused = sl_accumulateUnused f,
      sa_maxPerPeriod = bn (dec_int (sl_maxPerPeriod f)),
      sa_maxPerUse = bn (dec_int (sl_maxPerUse f)),
      sa_enforceExactQuantity = sl_enforceExactQuantity f,
      sa_signers = toSdkSigners pk (p_signers policy),
      sa_threshold = p_threshold policy, sa_timeLock = p_timeLock policy\<rparr>)"

definition toSdkPolicyCreateActions ::
  "(string \<Rightarrow> 'pk) \<Rightarrow> (string \<Rightarrow> 'bn) \<Rightarrow> SquadsTreasuryPlan \<Rightarrow> nat \<Rightarrow> ('pk, 'bn) SdkPolicyCreate list" where
  "toSdkPolicyCreateActions pk bn plan firstSeed =
     map (\<lambda>(policy, i). toSdkPolicyCreateAction pk bn policy (firstSeed + i)) (with_index (pl_policies plan))"

section \<open>Lemmas\<close>

text \<open>The value of the digits of an integer to the base \<open>2 ^ k\<close>, highest first.\<close>

definition be_digits :: "nat \<Rightarrow> nat \<Rightarrow> int \<Rightarrow> int list" where
  "be_digits k n v = map (\<lambda>i. take_bit k (drop_bit (k * (n - 1 - i)) v)) [0..<n]"

lemma be_digits_Suc: "be_digits k (Suc n) v = be_digits k n (drop_bit k v) @ [take_bit k v]"
proof -
  have "take_bit k (drop_bit (k * (n - i)) v) = take_bit k (drop_bit (k * (n - 1 - i)) (drop_bit k v))"
    if "i < n" for i
  proof -
    from that have "n - i = Suc (n - 1 - i)" by simp
    then have "k * (n - i) = k * (n - 1 - i) + k" by (metis mult_Suc_right add.commute)
    then show ?thesis by (simp add: drop_bit_drop_bit)
  qed
  then show ?thesis by (simp add: be_digits_def)
qed

lemma be_digits_value:
  "foldl (\<lambda>a x. 2 ^ k * a + x) a (be_digits k n v) = 2 ^ (k * n) * a + take_bit (k * n) v"
proof (induction n arbitrary: v)
  case 0
  then show ?case by (simp add: be_digits_def)
next
  case (Suc n)
  have "take_bit (k * Suc n) v = take_bit (k + k * n) v" by (simp add: add.commute)
  also have "\<dots> = push_bit k (take_bit (k * n) (drop_bit k v)) + take_bit k v"
    by (metis add.commute bits_ident drop_bit_take_bit min.absorb1 le_add1 take_bit_take_bit diff_add_inverse)
  finally have "take_bit (k * Suc n) v = 2 ^ k * take_bit (k * n) (drop_bit k v) + take_bit k v"
    by (simp add: push_bit_eq_mult mult.commute)
  moreover have "foldl (\<lambda>a x. 2 ^ k * a + x) a (be_digits k (Suc n) v)
      = 2 ^ k * (2 ^ (k * n) * a + take_bit (k * n) (drop_bit k v)) + take_bit k v"
    by (simp add: be_digits_Suc Suc.IH)
  ultimately show ?case by (simp only: power_add mult_Suc_right distrib_left mult.assoc add.assoc)
qed

lemma be64_digits: "map uint (be64 w) = be_digits 8 8 w"
  by (simp add: be64_def be_digits_def comp_def uint_word_of_int take_bit_eq_mod)

lemma be64_value:
  assumes "take_bit 64 w = w"
  shows "foldl (\<lambda>n b. 256 * n + uint b) a (be64 w) = 2 ^ 64 * a + w"
proof -
  have "foldl (\<lambda>n b. 256 * n + uint b) a (be64 w) = foldl (\<lambda>n x. 2 ^ 8 * n + x) a (map uint (be64 w))"
    by (simp add: foldl_map)
  also have "\<dots> = 2 ^ 64 * a + w"
    unfolding be64_digits be_digits_value using assms by simp
  finally show ?thesis .
qed

lemma length_be64 [simp]: "length (be64 w) = 8"
  by (simp add: be64_def)

lemma foldl_be64_concat:
  "(\<And>w. w \<in> set ws \<Longrightarrow> take_bit 64 w = w) \<Longrightarrow>
     foldl (\<lambda>n b. 256 * n + uint b) a (concat (map be64 ws)) = foldl (\<lambda>n w. 2 ^ 64 * n + w) a ws"
  by (induction ws arbitrary: a) (simp_all add: be64_value)

lemma u256be_Inr:
  assumes "0 \<le> v" and "v < 2 ^ 256"
  shows "\<exists>bs. u256be v = Inr bs \<and> length bs = 32 \<and> foldl (\<lambda>n b. 256 * n + uint b) 0 bs = v"
proof -
  have eq: "u256be v = Inr (concat (map be64 (be_digits 64 4 v)))"
    using assms by (simp add: u256be_def be_digits_def comp_def drop_bit_eq_div)
  have "take_bit 64 w = w" if "w \<in> set (be_digits 64 4 v)" for w
    using that by (auto simp: be_digits_def)
  then have "foldl (\<lambda>n b. 256 * n + uint b) 0 (concat (map be64 (be_digits 64 4 v)))
      = foldl (\<lambda>n w. 2 ^ 64 * n + w) 0 (be_digits 64 4 v)"
    by (rule foldl_be64_concat)
  also have "\<dots> = take_bit (64 * 4) v" unfolding be_digits_value by simp
  also have "\<dots> = v" using assms by (simp add: take_bit_int_eq_self)
  finally show ?thesis
    by (simp add: eq length_concat comp_def sum_list_triv be_digits_def)
qed

lemma length_dec_nat: "n < 10 ^ d \<Longrightarrow> 0 < d \<Longrightarrow> length (dec_nat n) \<le> d"
proof (induction d arbitrary: n)
  case (Suc d)
  show ?case
  proof (cases "n < 10")
    case True
    then show ?thesis by (subst dec_nat.simps) simp
  next
    case False
    with Suc.prems have "0 < d" by (cases d) auto
    moreover from Suc.prems have "n div 10 < 10 ^ d" by (simp add: div_less_iff_less_mult mult.commute)
    ultimately show ?thesis using Suc.IH [of "n div 10"] False by (subst dec_nat.simps) simp
  qed
qed simp

lemma undec_append_zeros: "undec (replicate k CHR ''0'' @ s) = undec s"
  by (induction k) (simp_all add: undec_def)

lemma drop_trailing_append: "\<exists>k. s = drop_trailing c s @ replicate k c"
proof -
  have "rev s = takeWhile (\<lambda>x. x = c) (rev s) @ dropWhile (\<lambda>x. x = c) (rev s)" by simp
  then have "s = drop_trailing c s @ rev (takeWhile (\<lambda>x. x = c) (rev s))"
    by (metis drop_trailing.simps rev_append rev_rev_ident)
  moreover have "rev (takeWhile (\<lambda>x. x = c) (rev s)) = replicate (length (takeWhile (\<lambda>x. x = c) (rev s))) c"
    by (rule replicate_eqI) (auto dest: set_takeWhileD)
  ultimately show ?thesis by metis
qed



text \<open>The fraction of an amount, padded to the token's decimals and stripped of trailing zeros.\<close>

lemma fraction_exact:
  fixes r d :: nat
  assumes "r < 10 ^ d" and "0 < d"
  defines "f \<equiv> drop_trailing CHR ''0'' (padStart d CHR ''0'' (dec_nat r))"
  shows "length f \<le> d" and "undec (f @ replicate (d - length f) CHR ''0'') = r"
proof -
  let ?p = "padStart d CHR ''0'' (dec_nat r)"
  have p: "length ?p = d" using length_dec_nat [OF assms(1,2)] by (simp add: padStart_def)
  obtain k where k: "?p = f @ replicate k CHR ''0''" using drop_trailing_append f_def by metis
  then have d: "d = length f + k" using p by (metis length_append length_replicate)
  then show "length f \<le> d" by simp
  have "undec ?p = r" by (simp add: padStart_def undec_append_zeros)
  then show "undec (f @ replicate (d - length f) CHR ''0'') = r" using k d by simp
qed

section \<open>Properties\<close>



text \<open>\<open>u256be\<close> is a total, exact encoding: a value is refused exactly when it does not fit in 256
  unsigned bits, and otherwise gives 32 bytes whose big-endian value is the input.\<close>

theorem u256be_roundtrip:
  "(if 0 \<le> v \<and> v < 2 ^ 256
    then \<exists>bs. u256be v = Inr bs \<and> length bs = 32 \<and> foldl (\<lambda>n b. 256 * n + uint b) 0 bs = v
    else u256be v = Inl v)"
proof (cases "0 \<le> v \<and> v < 2 ^ 256")
  case True
  then show ?thesis using u256be_Inr by simp
next
  case False
  then have "v < 0 \<or> drop_bit 256 v \<noteq> 0"
    by (auto simp: drop_bit_eq_div zdiv_eq_0_iff not_less)
  with False show ?thesis by (auto simp: u256be_def)
qed

text \<open>A non-negative amount printed by \<open>units\<close> reads back exactly: the whole part times the base
  plus the fraction, padded on the right with zeros to the token's decimals, is the amount.\<close>

theorem units_exact:
  assumes "0 \<le> v"
  shows "\<exists>whole frac. units v d = (if frac = '''' then whole else whole @ ''.'' @ frac)
    \<and> length frac \<le> d
    \<and> int (undec whole) * 10 ^ d + int (undec (frac @ replicate (d - length frac) CHR ''0'')) = v"
proof (cases "d = 0")
  case True
  then have "units v d = dec_nat (nat v)" using assms by (simp add: units_def dec_int_def)
  moreover have "undec '''' = 0" by (simp add: undec_def)
  ultimately show ?thesis
    using True assms by (intro exI [of _ "dec_nat (nat v)"] exI [of _ "''''"]) simp
next
  case False
  let ?w = "dec_nat (nat (v div 10 ^ d))"
  let ?f = "drop_trailing CHR ''0'' (padStart d CHR ''0'' (dec_nat (nat (v mod 10 ^ d))))"
  have r: "nat (v mod 10 ^ d) < 10 ^ d" by (simp add: nat_less_iff)
  have "0 \<le> v div 10 ^ d" using assms by (simp add: pos_imp_zdiv_nonneg_iff)
  then have "int (undec ?w) * 10 ^ d + int (undec (?f @ replicate (d - length ?f) CHR ''0'')) = v"
    using fraction_exact(2) [OF r] False by (simp add: div_mult_mod_eq del: drop_trailing.simps)
  moreover have "\<not> v mod 10 ^ d < 0" using pos_mod_sign [of "10 ^ d" v] by (simp only: not_less) simp
  then have "units v d = (if ?f = '''' then ?w else ?w @ ''.'' @ ?f)"
    using assms False \<open>0 \<le> v div 10 ^ d\<close>
    by (auto simp: units_def Let_def bigint_div_nonneg bigint_rem_nonneg dec_int_def)
  ultimately show ?thesis using fraction_exact(1) [OF r] False by blast
qed

theorem units_exact_witness:
  "(0 :: int) \<le> 1500000 \<and> (\<exists>whole frac. units 1500000 6 = (if frac = '''' then whole else whole @ ''.'' @ frac)
    \<and> length frac \<le> 6
    \<and> int (undec whole) * 10 ^ 6 + int (undec (frac @ replicate (6 - length frac) CHR ''0'')) = 1500000)"
  using units_exact [of 1500000 6] by simp

text \<open>The SDK arguments carry the plan unchanged: one action per policy in plan order, seeds
  consecutive from the first, and each action's signers, threshold and destinations are the
  policy's, key by key.\<close>

theorem sdk_actions_carry_plan:
  "map sa_seed (toSdkPolicyCreateActions pk bn plan firstSeed)
      = [firstSeed..<firstSeed + length (pl_policies plan)]
   \<and> map (\<lambda>x. (map ss_key (sa_signers x), sa_threshold x, sa_destinations x))
        (toSdkPolicyCreateActions pk bn plan firstSeed)
      = map (\<lambda>p. (map (pk \<circ> sg_key) (p_signers p), p_threshold p, map pk (sl_destinations (p_payload p))))
        (pl_policies plan)"
  by (auto simp: toSdkPolicyCreateActions_def toSdkPolicyCreateAction_def toSdkSigners_def with_index_def
      Let_def comp_def intro!: nth_equalityI)

end
