(* ===== verification/SG_Text.thy ===== *)
theory SG_Text
  imports Prelude
begin

text \<open>
  Text and identifiers of the subgraph (\<open>packages/subgraph-arc/src\<close>): \<open>shared/base64.ts\<close>,
  \<open>shared/uri.ts\<close>, \<open>shared/caip.ts\<close>, \<open>shared/timestamp.ts\<close>, \<open>shared/bytes.ts\<close> and the entity
  identifiers of \<open>identity/agent.ts\<close>, \<open>identity/registry.ts\<close>, \<open>identity/feedback.ts\<close>,
  \<open>commerce/agentic-commerce.ts\<close> and \<open>commerce/job.ts\<close>.

  A text is the list of the bytes of its UTF-8 encoding, one \<open>char\<close> each. The routines below
  only compare text with ASCII constants, so working on bytes instead of UTF-16 units gives the
  same results. \<open>String.UTF8.decode\<close>, which may meet bytes that are no UTF-8, is a parameter.

  The lemmas: decoding inverts the standard base64 encoding, time stamps are clamped to the
  range the store accepts, and every entity identifier is an injective encoding of its parts.
\<close>

section \<open>Base64 (\<open>shared/base64.ts\<close>)\<close>

definition ALPHABET :: string where
  "ALPHABET = ''ABCDEFGHIJKLMNOPQRSTUVWXYZabcdefghijklmnopqrstuvwxyz0123456789+/''"

text \<open>\<open>s.indexOf(c)\<close>, with \<open>None\<close> for \<open>-1\<close>.\<close>

fun index_of :: "'a \<Rightarrow> 'a list \<Rightarrow> nat option" where
  "index_of x [] = None"
| "index_of x (y # ys) = (if x = y then Some 0 else map_option Suc (index_of x ys))"

definition is_whitespace :: "char \<Rightarrow> bool" where
  "is_whitespace c = (let code = of_char c :: nat in code = 0x20 \<or> code = 0x09 \<or> code = 0x0a \<or> code = 0x0d)"

definition withoutWhitespace :: "string \<Rightarrow> string" where
  "withoutWhitespace s = filter (\<lambda>c. \<not> is_whitespace c) s"

text \<open>The loop over the characters of one chunk; \<open>buffer\<close> stays below \<open>2 ^ 24\<close>, so the 32-bit
  integer of the source never wraps.\<close>

fun chunk_buffer :: "string \<Rightarrow> nat \<Rightarrow> nat option" where
  "chunk_buffer [] buffer = Some buffer"
| "chunk_buffer (c # cs) buffer = (case index_of c ALPHABET of
     None \<Rightarrow> None
   | Some v \<Rightarrow> chunk_buffer cs (or (push_bit 6 buffer) v))"

definition chunk_bytes :: "string \<Rightarrow> bytes option" where
  "chunk_bytes chunk = (case chunk_buffer chunk 0 of
     None \<Rightarrow> None
   | Some b \<Rightarrow>
       (let chunkBits = length chunk * 6;
            buffer = push_bit (24 - chunkBits) b;
            byteCount = chunkBits div 8
        in Some (map (\<lambda>i. word_of_nat (and (drop_bit (16 - i * 8) buffer) 0xff)) [0..<byteCount])))"

text \<open>The loop over the chunks: four characters at a time, the last chunk may be shorter.\<close>

function decode_chunks :: "string \<Rightarrow> bytes option" where
  "decode_chunks s = (if s = [] then Some []
     else case chunk_bytes (take 4 s) of
       None \<Rightarrow> None
     | Some bs \<Rightarrow> map_option (\<lambda>rest. bs @ rest) (decode_chunks (drop 4 s)))"
  by pat_completeness auto
termination by (relation "measure length") auto

declare decode_chunks.simps [simp del]

definition strip_padding :: "string \<Rightarrow> string" where
  "strip_padding s = rev (dropWhile (\<lambda>c. c = CHR ''='') (rev s))"

definition base64Decode :: "string \<Rightarrow> bytes option" where
  "base64Decode input = decode_chunks (strip_padding (withoutWhitespace input))"

definition base64DecodeToString :: "(bytes \<Rightarrow> string) \<Rightarrow> string \<Rightarrow> string option" where
  "base64DecodeToString utf8 input = map_option utf8 (base64Decode input)"

section \<open>URIs (\<open>shared/uri.ts\<close>)\<close>

definition URI_KIND_NONE :: string where "URI_KIND_NONE = ''NONE''"
definition URI_KIND_DATA :: string where "URI_KIND_DATA = ''DATA''"
definition URI_KIND_IPFS :: string where "URI_KIND_IPFS = ''IPFS''"
definition URI_KIND_ARWEAVE :: string where "URI_KIND_ARWEAVE = ''ARWEAVE''"
definition URI_KIND_HTTPS :: string where "URI_KIND_HTTPS = ''HTTPS''"
definition URI_KIND_HTTP :: string where "URI_KIND_HTTP = ''HTTP''"
definition URI_KIND_OTHER :: string where "URI_KIND_OTHER = ''OTHER''"

definition startsWith :: "string \<Rightarrow> string \<Rightarrow> bool" where
  "startsWith s p = (take (length p) s = p)"

definition classifyUri :: "string \<Rightarrow> string" where
  "classifyUri uri =
     (if uri = [] then URI_KIND_NONE
      else let lower = to_lower uri in
        if startsWith lower ''data:'' then URI_KIND_DATA
        else if startsWith lower ''ipfs://'' then URI_KIND_IPFS
        else if startsWith lower ''ar://'' then URI_KIND_ARWEAVE
        else if startsWith lower ''https://'' then URI_KIND_HTTPS
        else if startsWith lower ''http://'' then URI_KIND_HTTP
        else URI_KIND_OTHER)"

definition hasBase64Marker :: "string \<Rightarrow> bool" where
  "hasBase64Marker meta = (\<exists>segment \<in> set (split_on CHR '';'' meta). to_lower segment = ''base64'')"

definition decodeDataUri :: "(bytes \<Rightarrow> string) \<Rightarrow> string \<Rightarrow> string option" where
  "decodeDataUri utf8 uri =
     (if \<not> startsWith (to_lower uri) ''data:'' then None
      else let rest = drop 5 uri in
        case index_of CHR '','' rest of
          None \<Rightarrow> None
        | Some commaIndex \<Rightarrow>
            (let meta = take commaIndex rest;
                 payload = drop (commaIndex + 1) rest;
                 looksLikePlainJson = startsWith payload ''{'' \<or> startsWith payload ''[''
             in if hasBase64Marker meta \<and> \<not> looksLikePlainJson
                then base64DecodeToString utf8 payload
                else Some payload))"

section \<open>CAIP-10 (\<open>shared/caip.ts\<close>)\<close>

record Caip10 =
  c10_namespace :: "string option"
  c10_chainId :: "string option"
  c10_reference :: "string option"

definition parseCaip10 :: "string \<Rightarrow> Caip10" where
  "parseCaip10 v =
     (let parts = split_on CHR '':'' v in
      if length parts < 3
      then \<lparr>c10_namespace = None, c10_chainId = None, c10_reference = None\<rparr>
      else \<lparr>c10_namespace = Some (parts ! 0), c10_chainId = Some (parts ! 1),
            c10_reference = Some (join_with CHR '':'' (drop 2 parts))\<rparr>)"

definition toEip155Caip10 :: "int \<Rightarrow> bytes \<Rightarrow> string" where
  "toEip155Caip10 chainId address = ''eip155:'' @ dec_int chainId @ '':'' @ to_hex address"

section \<open>Time stamps and hashes (\<open>shared/timestamp.ts\<close>, \<open>shared/bytes.ts\<close>)\<close>

definition MAX_TIMESTAMP_SECONDS :: int where
  "MAX_TIMESTAMP_SECONDS = 253402300799"

definition toTimestampSeconds :: "int \<Rightarrow> int" where
  "toTimestampSeconds v =
     (if v < 0 then 0 else if v > MAX_TIMESTAMP_SECONDS then MAX_TIMESTAMP_SECONDS else toI64 v)"

definition isZeroHash :: "bytes \<Rightarrow> bool" where
  "isZeroHash v = (v = replicate (length v) 0)"

section \<open>Entity identifiers\<close>

text \<open>\<open>Bytes.fromUTF8\<close>: a text is already its UTF-8 bytes.\<close>

definition fromUTF8 :: "string \<Rightarrow> bytes" where
  "fromUTF8 s = map of_char s"

text \<open>\<open>bytes.concatI32(i)\<close>: the four little-endian bytes of a 32-bit integer are appended.\<close>

definition concatI32 :: "bytes \<Rightarrow> int \<Rightarrow> bytes" where
  "concatI32 bs i = bs @ map (\<lambda>k. word_of_int (drop_bit (8 * k) i)) [0, 1, 2, 3]"

definition registryEntityId :: "int \<Rightarrow> bytes \<Rightarrow> bytes" where
  "registryEntityId chainId address = fromUTF8 (dec_int chainId @ '':'' @ to_hex address)"

definition agentEntityId :: "int \<Rightarrow> bytes \<Rightarrow> int \<Rightarrow> bytes" where
  "agentEntityId chainId registry agentId =
     fromUTF8 (dec_int chainId @ '':'' @ to_hex registry @ '':'' @ dec_int agentId)"

definition feedbackEntityId :: "int \<Rightarrow> bytes \<Rightarrow> int \<Rightarrow> bytes \<Rightarrow> int \<Rightarrow> bytes" where
  "feedbackEntityId chainId registry agentId client feedbackIndex =
     fromUTF8 (dec_int chainId @ '':'' @ to_hex registry @ '':'' @ dec_int agentId @ '':'' @
       to_hex client @ '':'' @ dec_int feedbackIndex)"

definition agenticCommerceEntityId :: "int \<Rightarrow> bytes \<Rightarrow> bytes" where
  "agenticCommerceEntityId chainId address = fromUTF8 (dec_int chainId @ '':'' @ to_hex address)"

definition jobEntityId :: "int \<Rightarrow> bytes \<Rightarrow> int \<Rightarrow> bytes" where
  "jobEntityId chainId contract jobId =
     fromUTF8 (dec_int chainId @ '':'' @ to_hex contract @ '':'' @ dec_int jobId)"

section \<open>Lemmas on base64\<close>

text \<open>The standard encoding (RFC 4648): three bytes as four letters, the last group padded.\<close>

definition letter :: "nat \<Rightarrow> char" where
  "letter n = ALPHABET ! n"

fun base64_groups :: "bytes \<Rightarrow> string" where
  "base64_groups [] = []"
| "base64_groups [a] = [letter (unat a div 4), letter (unat a mod 4 * 16)]"
| "base64_groups [a, b] =
     [letter (unat a div 4), letter (unat a mod 4 * 16 + unat b div 16), letter (unat b mod 16 * 4)]"
| "base64_groups (a # b # c # rest) =
     [letter (unat a div 4), letter (unat a mod 4 * 16 + unat b div 16),
      letter (unat b mod 16 * 4 + unat c div 64), letter (unat c mod 64)] @ base64_groups rest"

definition base64_encode :: "bytes \<Rightarrow> string" where
  "base64_encode bs = base64_groups bs @
     (if length bs mod 3 = 1 then ''=='' else if length bs mod 3 = 2 then ''='' else '''')"

lemma ALPHABET_props: "distinct ALPHABET" "length ALPHABET = 64"
  "\<forall>c \<in> set ALPHABET. c \<noteq> CHR ''='' \<and> \<not> is_whitespace c"
  by (simp_all add: ALPHABET_def is_whitespace_def)

lemma index_of_nth: "distinct xs \<Longrightarrow> i < length xs \<Longrightarrow> index_of (xs ! i) xs = Some i"
proof (induction xs arbitrary: i)
  case (Cons x xs)
  then show ?case by (cases i) (auto simp: nth_mem)
qed simp

lemma index_of_letter: "n < 64 \<Longrightarrow> index_of (letter n) ALPHABET = Some n"
  by (simp add: letter_def index_of_nth ALPHABET_props)

lemma letter_plain: "n < 64 \<Longrightarrow> letter n \<noteq> CHR ''='' \<and> \<not> is_whitespace (letter n)"
  unfolding letter_def by (metis ALPHABET_props(2,3) nth_mem)

lemma byte_lt: "unat (b :: 8 word) < 256"
  using unsigned_less [of b] by simp

lemma or_sextet:
  assumes "v < 64"
  shows "or (push_bit 6 b) v = b * 64 + (v :: nat)"
proof -
  have "take_bit 6 v = v" using assms by (simp add: take_bit_eq_mod)
  then have "\<not> bit v n" if "6 \<le> n" for n using that by (metis bit_take_bit_iff not_less)
  then have "and (push_bit 6 b) v = 0" by (auto simp: bit_eq_iff bit_simps)
  then show ?thesis by (simp add: disjunctive_add_eq_or [symmetric] push_bit_eq_mult)
qed

lemma chunk_buffer_letters:
  "\<forall>v \<in> set vs. v < 64 \<Longrightarrow> chunk_buffer (map letter vs) b = Some (foldl (\<lambda>b v. b * 64 + v) b vs)"
  by (induction vs arbitrary: b) (simp_all add: index_of_letter or_sextet)

lemma and_byte: "and (drop_bit k n) 255 = n div 2 ^ k mod (256 :: nat)"
proof -
  have "(255 :: nat) = mask 8" by (simp add: mask_eq_exp_minus_1)
  then show ?thesis by (simp only: take_bit_eq_mask [symmetric]) (simp add: take_bit_eq_mod drop_bit_eq_div)
qed

text \<open>The letters of a chunk of \<open>k\<close> sextets carry the first bytes of a number of 24 bits.\<close>

lemma chunk_bytes_letters:
  assumes "\<forall>v \<in> set vs. v < 64" "foldl (\<lambda>b v. b * 64 + v) 0 vs * 2 ^ (24 - length vs * 6) = n"
  shows "chunk_bytes (map letter vs) = Some (map (\<lambda>i. word_of_nat (n div 2 ^ (16 - i * 8) mod 256)) [0..<length vs * 6 div 8])"
  using assms by (simp add: chunk_bytes_def chunk_buffer_letters and_byte push_bit_eq_mult)

lemma frame_bytes:
  assumes "a < 256" "b < 256" "c < 256"
  shows "(a * 65536 + b * 256 + c) div 65536 mod 256 = (a :: nat)"
    "(a * 65536 + b * 256 + c) div 256 mod 256 = b"
    "(a * 65536 + b * 256 + c) mod 256 = c"
proof -
  have "a * 65536 + b * 256 + c = 256 * (a * 256 + b) + c" by simp
  then have "(a * 65536 + b * 256 + c) div 256 = a * 256 + b" using assms by simp
  moreover have "(a * 65536 + b * 256 + c) div 65536 = (a * 65536 + b * 256 + c) div 256 div 256"
    by (simp add: div_mult2_eq [symmetric])
  ultimately show "(a * 65536 + b * 256 + c) div 65536 mod 256 = a"
    "(a * 65536 + b * 256 + c) div 256 mod 256 = b" using assms by simp_all
  show "(a * 65536 + b * 256 + c) mod 256 = c"
    using assms(3) by (simp only: \<open>a * 65536 + b * 256 + c = 256 * (a * 256 + b) + c\<close> mod_mult_self4) simp
qed

lemma upt_small: "[0..<Suc 0] = [0]" "[0..<2] = [0, Suc 0]" "[0..<3] = [0, Suc 0, 2]"
  by (simp_all add: upt_rec)

lemma split4: obtains p q where "(a :: nat) = 4 * p + q" "q < 4" "a div 4 = p" "a mod 4 = q"
  by (metis mod_less_divisor mult_div_mod_eq zero_less_numeral)

lemma split16: obtains p q where "(a :: nat) = 16 * p + q" "q < 16" "a div 16 = p" "a mod 16 = q"
  by (metis mod_less_divisor mult_div_mod_eq zero_less_numeral)

lemma split64: obtains p q where "(a :: nat) = 64 * p + q" "q < 64" "a div 64 = p" "a mod 64 = q"
  by (metis mod_less_divisor mult_div_mod_eq zero_less_numeral)

lemma chunk_1:
  "chunk_bytes [letter (unat a div 4), letter (unat a mod 4 * 16)] = Some [a]"
proof -
  obtain p q where *: "unat a = 4 * p + q" "q < 4" "unat a div 4 = p" "unat a mod 4 = q" by (rule split4)
  have "chunk_bytes (map letter [p, q * 16])
      = Some (map (\<lambda>i. word_of_nat ((unat a * 65536 + 0 * 256 + 0) div 2 ^ (16 - i * 8) mod 256)) [0..<length [p, q * 16] * 6 div 8])"
    using * byte_lt [of a] by (intro chunk_bytes_letters) auto
  then show ?thesis using frame_bytes [of "unat a" 0 0] byte_lt [of a] *(3,4) by (simp add: upt_small)
qed

lemma chunk_2:
  "chunk_bytes [letter (unat a div 4), letter (unat a mod 4 * 16 + unat b div 16), letter (unat b mod 16 * 4)]
   = Some [a, b]"
proof -
  obtain p q where *: "unat a = 4 * p + q" "q < 4" "unat a div 4 = p" "unat a mod 4 = q" by (rule split4)
  obtain r s where **: "unat b = 16 * r + s" "s < 16" "unat b div 16 = r" "unat b mod 16 = s" by (rule split16)
  let ?vs = "[p, q * 16 + r, s * 4]"
  have "chunk_bytes (map letter ?vs)
      = Some (map (\<lambda>i. word_of_nat ((unat a * 65536 + unat b * 256 + 0) div 2 ^ (16 - i * 8) mod 256)) [0..<length ?vs * 6 div 8])"
    using * ** byte_lt [of a] byte_lt [of b] by (intro chunk_bytes_letters) auto
  then show ?thesis
    using frame_bytes [of "unat a" "unat b" 0] byte_lt [of a] byte_lt [of b] *(3,4) **(3,4)
    by (simp add: upt_small)
qed

lemma chunk_3:
  "chunk_bytes [letter (unat a div 4), letter (unat a mod 4 * 16 + unat b div 16),
     letter (unat b mod 16 * 4 + unat c div 64), letter (unat c mod 64)] = Some [a, b, c]"
proof -
  obtain p q where *: "unat a = 4 * p + q" "q < 4" "unat a div 4 = p" "unat a mod 4 = q" by (rule split4)
  obtain r s where **: "unat b = 16 * r + s" "s < 16" "unat b div 16 = r" "unat b mod 16 = s" by (rule split16)
  obtain t u where ***: "unat c = 64 * t + u" "u < 64" "unat c div 64 = t" "unat c mod 64 = u" by (rule split64)
  let ?vs = "[p, q * 16 + r, s * 4 + t, u]"
  have "p < 64" "r < 16" "t < 4" using *(1) **(1) ***(1) byte_lt [of a] byte_lt [of b] byte_lt [of c] by linarith+
  then have "q * 16 + r < 64" "s * 4 + t < 64" using *(2) **(2) by linarith+
  with \<open>p < 64\<close> ***(2) have "chunk_bytes (map letter ?vs)
      = Some (map (\<lambda>i. word_of_nat ((unat a * 65536 + unat b * 256 + unat c) div 2 ^ (16 - i * 8) mod 256)) [0..<length ?vs * 6 div 8])"
    by (intro chunk_bytes_letters) (simp_all add: *(1) **(1) ***(1))
  then show ?thesis
    by (simp add: upt_small *(3,4) **(3,4) ***(3,4) frame_bytes [OF byte_lt [of a] byte_lt [of b] byte_lt [of c]]
        del: div_mult_self1 div_mult_self2 div_mult_self3 div_mult_self4)
qed

lemma decode_groups: "decode_chunks (base64_groups bs) = Some bs"
proof (induction bs rule: base64_groups.induct)
  case 1
  then show ?case by (simp add: decode_chunks.simps)
next
  case (2 a)
  then show ?case by (simp add: decode_chunks.simps [of "_ # _"] decode_chunks.simps [of "[]"] chunk_1)
next
  case (3 a b)
  then show ?case by (simp add: decode_chunks.simps [of "_ # _"] decode_chunks.simps [of "[]"] chunk_2)
next
  case (4 a b c rest)
  then show ?case by (simp add: decode_chunks.simps [of "_ # _"] chunk_3)
qed

lemma groups_plain: "c \<in> set (base64_groups bs) \<Longrightarrow> c \<noteq> CHR ''='' \<and> \<not> is_whitespace c"
proof (induction bs rule: base64_groups.induct)
  case (2 a)
  moreover have "unat a div 4 < 64" "unat a mod 4 * 16 < 64" using byte_lt [of a] by auto
  ultimately show ?case by (auto simp: letter_plain)
next
  case (3 a b)
  moreover have "unat a div 4 < 64" "unat a mod 4 * 16 + unat b div 16 < 64" "unat b mod 16 * 4 < 64"
    using byte_lt [of a] byte_lt [of b] by auto
  ultimately show ?case by (auto simp: letter_plain)
next
  case (4 a b c rest)
  moreover have "unat a div 4 < 64" "unat a mod 4 * 16 + unat b div 16 < 64"
    "unat b mod 16 * 4 + unat c div 64 < 64" "unat c mod 64 < 64"
    using byte_lt [of a] byte_lt [of b] byte_lt [of c] by auto
  ultimately show ?case by (auto simp: letter_plain)
qed simp

lemma strip_padding_append:
  assumes "\<forall>c \<in> set s. c \<noteq> CHR ''=''" "set p \<subseteq> {CHR ''=''}"
  shows "strip_padding (s @ p) = s"
proof -
  have "dropWhile (\<lambda>c. c = CHR ''='') (rev s) = rev s"
    using assms(1) by (cases s rule: rev_cases) auto
  moreover have "dropWhile (\<lambda>c. c = CHR ''='') (rev p @ rev s) = dropWhile (\<lambda>c. c = CHR ''='') (rev s)"
    using assms(2) by (intro dropWhile_append2) auto
  ultimately show ?thesis by (simp add: strip_padding_def)
qed

text \<open>The encoding may be broken into lines: spaces, tabs and line ends do not matter.\<close>

lemma base64_decode_encode_ws:
  assumes "withoutWhitespace input = base64_encode bs"
  shows "base64Decode input = Some bs"
  unfolding base64Decode_def assms base64_encode_def
  using groups_plain [of _ bs]
  by (subst strip_padding_append) (auto simp: decode_groups)

lemma withoutWhitespace_encode: "withoutWhitespace (base64_encode bs) = base64_encode bs"
  using groups_plain [of _ bs]
  by (auto simp: withoutWhitespace_def base64_encode_def is_whitespace_def intro!: filter_True)

section \<open>Lemmas on identifiers\<close>

lemma fromUTF8_inj [simp]: "fromUTF8 s = fromUTF8 t \<longleftrightarrow> s = t"
proof -
  have "inj (of_char :: char \<Rightarrow> 8 word)"
  proof (rule injI)
    fix c d :: char
    assume "(of_char c :: 8 word) = of_char d"
    then have "unat (word_of_nat (of_char c) :: 8 word) = unat (word_of_nat (of_char d) :: 8 word)"
      by (simp add: of_nat_of_char)
    moreover have "unat (word_of_nat (of_char x) :: 8 word) = of_char x" for x
      by (simp add: unsigned_of_nat take_bit_eq_mod)
    ultimately have "(of_char c :: nat) = of_char d" by simp
    then show "c = d" by simp
  qed
  then show ?thesis by (simp add: fromUTF8_def inj_map_eq_map)
qed

lemma hex_digit_inj: "m < 16 \<Longrightarrow> n < 16 \<Longrightarrow> hex_digit m = hex_digit n \<Longrightarrow> m = n"
  by (auto simp: hex_digit_def char_of_eq_iff take_bit_eq_mod split: if_splits)

lemma hex_byte_inj: "hex_byte a = hex_byte b \<longleftrightarrow> a = b"
proof
  assume "hex_byte a = hex_byte b"
  then have "unat a div 16 = unat b div 16" "unat a mod 16 = unat b mod 16"
    using byte_lt [of a] byte_lt [of b] by (auto simp: hex_byte_def intro!: hex_digit_inj)
  then have "unat a = unat b" by (metis div_mult_mod_eq)
  then show "a = b" by (rule unsigned_word_eqI)
qed simp

lemma length_hex_byte [simp]: "length (hex_byte b) = 2"
  by (simp add: hex_byte_def)

lemma to_hex_inj [simp]: "to_hex a = to_hex b \<longleftrightarrow> a = b"
proof
  show "a = b" if "to_hex a = to_hex b"
    using that
  proof (induction a arbitrary: b)
    case Nil
    then show ?case by (cases b) (auto simp: to_hex_def hex_byte_def)
  next
    case (Cons x a)
    then obtain y b' where b: "b = y # b'" by (cases b) (auto simp: to_hex_def hex_byte_def)
    then show ?case using Cons by (auto simp: to_hex_def append_eq_append_conv hex_byte_inj)
  qed
qed simp

lemma hex_digit_no_colon: "n < 16 \<Longrightarrow> hex_digit n \<noteq> CHR '':''"
  by (auto simp: hex_digit_def char_of_eq_iff take_bit_eq_mod)

lemma to_hex_no_colon: "CHR '':'' \<notin> set (to_hex bs)"
proof -
  have "CHR '':'' \<notin> set (hex_byte b)" for b
  proof -
    have "unat b div 16 < 16" "unat b mod 16 < 16" using byte_lt [of b] by auto
    then show ?thesis using hex_digit_no_colon [of "unat b div 16"] hex_digit_no_colon [of "unat b mod 16"]
      unfolding hex_byte_def by (metis empty_iff empty_set set_ConsD)
  qed
  then show ?thesis by (auto simp: to_hex_def)
qed

text \<open>Cutting a joined text at its first separator.\<close>

lemma colon_join_inj:
  assumes "CHR '':'' \<notin> set a" "CHR '':'' \<notin> set a'"
  shows "a @ '':'' @ b = a' @ '':'' @ b' \<longleftrightarrow> a = a' \<and> b = b'"
  using assms
proof (induction a arbitrary: a')
  case Nil
  then show ?case by (cases a') auto
next
  case (Cons x a)
  then show ?case by (cases a') auto
qed

lemmas id_parts = colon_join_inj dec_int_no_colon to_hex_no_colon

lemma registryEntityId_inj [simp]:
  "registryEntityId c a = registryEntityId c' a' \<longleftrightarrow> c = c' \<and> a = a'"
  unfolding registryEntityId_def by (simp add: id_parts del: append_Cons append_Nil)

lemma agenticCommerceEntityId_inj [simp]:
  "agenticCommerceEntityId c a = agenticCommerceEntityId c' a' \<longleftrightarrow> c = c' \<and> a = a'"
  unfolding agenticCommerceEntityId_def by (simp add: id_parts del: append_Cons append_Nil)

lemma agentEntityId_inj [simp]:
  "agentEntityId c r i = agentEntityId c' r' i' \<longleftrightarrow> c = c' \<and> r = r' \<and> i = i'"
  unfolding agentEntityId_def by (simp add: id_parts del: append_Cons append_Nil)

lemma jobEntityId_inj [simp]:
  "jobEntityId c r i = jobEntityId c' r' i' \<longleftrightarrow> c = c' \<and> r = r' \<and> i = i'"
  unfolding jobEntityId_def by (simp add: id_parts del: append_Cons append_Nil)

lemma feedbackEntityId_inj [simp]:
  "feedbackEntityId c r i a n = feedbackEntityId c' r' i' a' n' \<longleftrightarrow>
     c = c' \<and> r = r' \<and> i = i' \<and> a = a' \<and> n = n'"
  unfolding feedbackEntityId_def by (simp add: id_parts del: append_Cons append_Nil)

section \<open>Properties\<close>

text \<open>The hand-written base64 decoder inverts the standard encoding: any input that is the encoding of
  some bytes once blanks and line ends are removed decodes to exactly those bytes.\<close>

theorem base64_roundtrip:
  "base64Decode (base64_encode bs) = Some bs
   \<and> (withoutWhitespace input = base64_encode bs \<longrightarrow> base64Decode input = Some bs)"
  using base64_decode_encode_ws withoutWhitespace_encode by blast

theorem base64_roundtrip_witness:
  "withoutWhitespace ''aGV5 LQ==\<newline>'' = base64_encode [104, 101, 121, 45] \<and> base64Decode ''aGV5 LQ==\<newline>'' = Some [104, 101, 121, 45]"
proof -
  have "withoutWhitespace ''aGV5 LQ==\<newline>'' = base64_encode [104, 101, 121, 45]" by code_simp
  with base64_roundtrip [of "[104, 101, 121, 45]" "''aGV5 LQ==\<newline>''"] show ?thesis by simp
qed

text \<open>The identifier of an engagement hashes two agent identifiers written one after the other; on one
  chain the text determines both agents, although nothing separates the two parts.\<close>

lemma agent_pair_inj:
  "agentEntityId c r a @ agentEntityId c s b = agentEntityId c r' a' @ agentEntityId c s' b'
    \<longleftrightarrow> r = r' \<and> a = a' \<and> s = s' \<and> b = b'"
proof -
  have m: "fromUTF8 x @ fromUTF8 y = fromUTF8 (x @ y)" for x y by (simp add: fromUTF8_def)
  have e: "agentEntityId c r a @ agentEntityId c s b
      = fromUTF8 (dec_int c @ '':'' @ to_hex r @ '':'' @ (dec_int a @ dec_int c) @ '':'' @ to_hex s @ '':'' @ dec_int b)" for r a s b
    by (simp add: agentEntityId_def m)
  have n: "CHR '':'' \<notin> set (dec_int a @ dec_int c)" for a using dec_int_no_colon by auto
  show ?thesis unfolding e fromUTF8_inj by (simp only: id_parts n not_False_eq_True simp_thms append_same_eq dec_int_inj to_hex_inj)
qed

text \<open>Entity identifiers are unambiguous: two registries, agents, jobs or feedback records share an
  identifier only when chain, address and numbers all coincide, and on one chain the concatenation that
  names an engagement determines its client and its provider. The registry identifier reads back as the
  chain and the address it was made of.\<close>

theorem entity_ids_unambiguous:
  "(registryEntityId c x = registryEntityId c' x' \<longleftrightarrow> c = c' \<and> x = x')
   \<and> (agentEntityId c x i = agentEntityId c' x' i' \<longleftrightarrow> c = c' \<and> x = x' \<and> i = i')
   \<and> (jobEntityId c x i = jobEntityId c' x' i' \<longleftrightarrow> c = c' \<and> x = x' \<and> i = i')
   \<and> (feedbackEntityId c x i a n = feedbackEntityId c' x' i' a' n' \<longleftrightarrow> c = c' \<and> x = x' \<and> i = i' \<and> a = a' \<and> n = n')
   \<and> (agentEntityId c x i @ agentEntityId c y k = agentEntityId c x' i' @ agentEntityId c y' k' \<longleftrightarrow> x = x' \<and> i = i' \<and> y = y' \<and> k = k')
   \<and> parseCaip10 (toEip155Caip10 c x) = \<lparr>c10_namespace = Some ''eip155'', c10_chainId = Some (dec_int c), c10_reference = Some (to_hex x)\<rparr>"
proof -
  have "toEip155Caip10 c x = ''eip155'' @ CHR '':'' # (dec_int c @ CHR '':'' # to_hex x)" by (simp add: toEip155Caip10_def)
  then have "split_on CHR '':'' (toEip155Caip10 c x) = [''eip155'', dec_int c, to_hex x]"
    using split_on_part [of "CHR '':''" "''eip155''"] split_on_part [OF dec_int_no_colon] split_on_none [OF to_hex_no_colon] by simp
  then show ?thesis by (simp add: agent_pair_inj parseCaip10_def)
qed

end
