(* ===== verification/SG_Json.thy ===== *)
theory SG_Json
  imports SG_Text
begin

text \<open>
  Guarded reading of untrusted JSON (\<open>packages/subgraph-arc/src/shared/json.ts\<close>).

  A \<open>JSONValue\<close> is a \<open>json\<close>; a number is the \<open>f64\<close> that \<open>toF64()\<close> gives, which is a rational or
  an infinity (JSON has no NaN). \<open>None\<close> stands for \<open>null\<close> of the language, an absent member.
  \<open>TypedMap\<close> is its list of entries, \<open>get\<close> the first entry with the key. Printing an \<open>f64\<close>
  that is no 64-bit integer is a parameter (\<open>f64.toString()\<close>).

  The lemmas characterise every accessor (which documents give which value), the decimal test as
  a grammar, and show that quoted text reads back.
\<close>

datatype f64 = Finite rat | PosInf | NegInf

datatype json =
  JNull
| JBool bool
| JNumber f64
| JString string
| JArray "json list"
| JObject "(string \<times> json) list"

type_synonym json_map = "(string \<times> json) list"

definition get :: "json_map \<Rightarrow> string \<Rightarrow> json option" where
  "get m key = map_of m key"

section \<open>Accessors\<close>

fun asObject :: "json option \<Rightarrow> json_map option" where
  "asObject (Some (JObject m)) = Some m"
| "asObject _ = None"

fun asArray :: "json option \<Rightarrow> json list" where
  "asArray (Some (JArray items)) = items"
| "asArray _ = []"

fun collect_objects :: "json list \<Rightarrow> json_map list" where
  "collect_objects [] = []"
| "collect_objects (item # items) = (case asObject (Some item) of
     None \<Rightarrow> collect_objects items
   | Some obj \<Rightarrow> obj # collect_objects items)"

definition asObjectArray :: "json option \<Rightarrow> json_map list" where
  "asObjectArray v = collect_objects (asArray v)"

fun asString :: "json option \<Rightarrow> string option" where
  "asString (Some (JString s)) = Some s"
| "asString _ = None"

record JsonBool =
  jb_present :: bool
  jb_value :: bool

record JsonI32 =
  ji_present :: bool
  ji_value :: int

fun asBool :: "json option \<Rightarrow> JsonBool" where
  "asBool (Some (JBool b)) = \<lparr>jb_present = True, jb_value = b\<rparr>"
| "asBool _ = \<lparr>jb_present = False, jb_value = False\<rparr>"

fun collect_strings :: "json list \<Rightarrow> string list" where
  "collect_strings [] = []"
| "collect_strings (item # items) = (case asString (Some item) of
     None \<Rightarrow> collect_strings items
   | Some s \<Rightarrow> s # collect_strings items)"

definition asStringArray :: "json option \<Rightarrow> string list" where
  "asStringArray v = collect_strings (asArray v)"

text \<open>Comparisons of an \<open>f64\<close>, and \<open>asFloat == Math.floor(asFloat)\<close> (true of the infinities).\<close>

fun f64_less :: "f64 \<Rightarrow> rat \<Rightarrow> bool" where
  "f64_less (Finite q) r = (q < r)"
| "f64_less PosInf r = False"
| "f64_less NegInf r = True"

fun f64_greater :: "f64 \<Rightarrow> rat \<Rightarrow> bool" where
  "f64_greater (Finite q) r = (q > r)"
| "f64_greater PosInf r = True"
| "f64_greater NegInf r = False"

fun is_whole :: "f64 \<Rightarrow> bool" where
  "is_whole (Finite q) = (q = of_int \<lfloor>q\<rfloor>)"
| "is_whole _ = True"

text \<open>\<open>x as i64\<close> and \<open>x as i32\<close> of an integral value in range.\<close>

fun f64_to_int :: "f64 \<Rightarrow> int" where
  "f64_to_int (Finite q) = \<lfloor>q\<rfloor>"
| "f64_to_int _ = 0"

fun asWholeBigInt :: "json option \<Rightarrow> int option" where
  "asWholeBigInt (Some (JNumber asFloat)) =
     (if f64_less asFloat 0 \<or> \<not> is_whole asFloat \<or> \<not> f64_less asFloat 9223372036854775808
      then None else Some (f64_to_int asFloat))"
| "asWholeBigInt _ = None"

fun asWholeI32 :: "json option \<Rightarrow> int \<Rightarrow> int \<Rightarrow> JsonI32" where
  "asWholeI32 (Some (JNumber asFloat)) mn mx =
     (if \<not> is_whole asFloat then \<lparr>ji_present = False, ji_value = 0\<rparr>
      else if f64_less asFloat (of_int mn) \<or> f64_greater asFloat (of_int mx)
      then \<lparr>ji_present = False, ji_value = 0\<rparr>
      else \<lparr>ji_present = True, ji_value = f64_to_int asFloat\<rparr>)"
| "asWholeI32 _ mn mx = \<lparr>ji_present = False, ji_value = 0\<rparr>"

definition asStringOrNumber :: "json option \<Rightarrow> string option" where
  "asStringOrNumber v = (case asString v of
     Some s \<Rightarrow> Some s
   | None \<Rightarrow> (case asWholeBigInt v of None \<Rightarrow> None | Some n \<Rightarrow> Some (dec_int n)))"

section \<open>Rendering\<close>

definition quote_char :: "char \<Rightarrow> string" where
  "quote_char c = (if c = CHR 0x22 \<or> c = CHR 0x5C then [CHR 0x5C, c]
     else if c = CHR 0x0A then [CHR 0x5C, CHR ''n''] else [c])"

definition quoteJsonString :: "string \<Rightarrow> string" where
  "quoteJsonString s = [CHR 0x22] @ concat (map quote_char s) @ [CHR 0x22]"

definition numberToText :: "(f64 \<Rightarrow> string) \<Rightarrow> f64 \<Rightarrow> string" where
  "numberToText f64text asFloat =
     (if \<not> f64_less asFloat (- 9223372036854775808) \<and> f64_less asFloat 9223372036854775808
        \<and> is_whole asFloat
      then dec_int (f64_to_int asFloat) else f64text asFloat)"

fun toJsonText :: "(f64 \<Rightarrow> string) \<Rightarrow> json \<Rightarrow> string" where
  "toJsonText f64text JNull = ''null''"
| "toJsonText f64text (JBool b) = (if b then ''true'' else ''false'')"
| "toJsonText f64text (JString s) = quoteJsonString s"
| "toJsonText f64text (JNumber n) = numberToText f64text n"
| "toJsonText f64text (JArray items) =
     ''['' @ join_with CHR '','' (map (toJsonText f64text) items) @ '']''"
| "toJsonText f64text (JObject entries) =
     ''{'' @ join_with CHR '','' (map (\<lambda>(k, v). quoteJsonString k @ '':'' @ toJsonText f64text v) entries) @ ''}''"

record JsonValueDescription =
  jd_value :: string
  jd_valueType :: string

fun describeJsonValue :: "(f64 \<Rightarrow> string) \<Rightarrow> json \<Rightarrow> JsonValueDescription" where
  "describeJsonValue f64text (JString s) = \<lparr>jd_value = s, jd_valueType = ''STRING''\<rparr>"
| "describeJsonValue f64text (JBool b) =
     \<lparr>jd_value = (if b then ''true'' else ''false''), jd_valueType = ''BOOLEAN''\<rparr>"
| "describeJsonValue f64text (JNumber n) =
     \<lparr>jd_value = numberToText f64text n, jd_valueType = ''NUMBER''\<rparr>"
| "describeJsonValue f64text v = \<lparr>jd_value = toJsonText f64text v, jd_valueType = ''JSON''\<rparr>"

text \<open>The loop of \<open>isDecimalString\<close>, with its two flags.\<close>

fun decimal_loop :: "string \<Rightarrow> bool \<Rightarrow> bool \<Rightarrow> bool" where
  "decimal_loop [] sawDigit sawDot = sawDigit"
| "decimal_loop (c # cs) sawDigit sawDot =
     (if c = CHR ''.'' then (if sawDot then False else decimal_loop cs sawDigit True)
      else if \<not> is_digit c then False
      else decimal_loop cs True sawDot)"

definition isDecimalString :: "string \<Rightarrow> bool" where
  "isDecimalString s =
     (if s = [] then False
      else let index = (if hd s = CHR ''-'' then 1 else 0 :: nat) in
        if index \<ge> length s then False else decimal_loop (drop index s) False False)"

section \<open>Lemmas\<close>

lemma is_whole_Finite: "is_whole (Finite q) \<longleftrightarrow> (\<exists>n. q = of_int n)"
  by (metis floor_of_int is_whole.simps(1))

lemma asWholeBigInt_Some:
  "asWholeBigInt v = Some n \<longleftrightarrow> v = Some (JNumber (Finite (of_int n))) \<and> 0 \<le> n \<and> n < 2 ^ 63"
proof (cases v rule: asWholeBigInt.cases)
  case (1 f)
  show ?thesis
  proof (cases f)
    case (Finite q)
    then show ?thesis using 1
      by (cases "is_whole (Finite q)") (auto simp: is_whole_Finite simp del: is_whole.simps(1))
  qed (use 1 in auto)
qed auto

lemma asWholeI32_present:
  "asWholeI32 v mn mx = \<lparr>ji_present = True, ji_value = n\<rparr> \<longleftrightarrow>
     v = Some (JNumber (Finite (of_int n))) \<and> mn \<le> n \<and> n \<le> mx"
proof (cases "(v, mn, mx)" rule: asWholeI32.cases)
  case (1 f)
  show ?thesis
  proof (cases f)
    case (Finite q)
    then show ?thesis using 1
      by (cases "is_whole (Finite q)") (auto simp: is_whole_Finite simp del: is_whole.simps(1))
  qed (use 1 in auto)
qed auto

lemma asWholeI32_range: "ji_present (asWholeI32 v mn mx) \<Longrightarrow> mn \<le> ji_value (asWholeI32 v mn mx) \<and> ji_value (asWholeI32 v mn mx) \<le> mx"
  using asWholeI32_present [of v mn mx "ji_value (asWholeI32 v mn mx)"]
  by (cases "asWholeI32 v mn mx") auto

lemma collect_strings_eq: "collect_strings items = [s. JString s \<leftarrow> items]"
  by (induction items rule: collect_strings.induct) (auto split: json.splits option.splits elim: asString.elims)

lemma collect_objects_eq: "collect_objects items = [m. JObject m \<leftarrow> items]"
  by (induction items rule: collect_objects.induct) (auto split: json.splits option.splits elim: asObject.elims)

text \<open>Reading back a quoted text: the reader drops a backslash and maps \<open>n\<close> after it to a line end.\<close>

fun unquote :: "string \<Rightarrow> (string \<times> string) option" where
  "unquote [] = None"
| "unquote (c # cs) =
     (if c = CHR 0x22 then Some ([], cs)
      else if c = CHR 0x5C then
        (case cs of [] \<Rightarrow> None
         | d # ds \<Rightarrow> map_option (\<lambda>(s, rest). ((if d = CHR ''n'' then CHR 0x0A else d) # s, rest)) (unquote ds))
      else map_option (\<lambda>(s, rest). (c # s, rest)) (unquote cs))"

lemma unquote_quoted: "unquote (concat (map quote_char s) @ CHR 0x22 # rest) = Some (s, rest)"
  by (induction s) (auto simp: quote_char_def)

text \<open>The decimal grammar: an optional sign, then digits with at most one point somewhere among
  them, at least one digit in all.\<close>

definition decimal_text :: "string \<Rightarrow> bool" where
  "decimal_text s \<longleftrightarrow> (\<exists>minus a point b. s = minus @ a @ point @ b \<and> minus \<in> {'''', ''-''} \<and> point \<in> {'''', ''.''}
     \<and> (\<forall>c \<in> set (a @ b). is_digit c) \<and> a @ b \<noteq> [])"

lemma dot_not_digit: "\<not> is_digit CHR ''.''" "\<not> is_digit CHR ''-''"
  by (simp_all add: is_digit_def)

lemma decimal_loop_dot: "decimal_loop s d True \<longleftrightarrow> (\<forall>c \<in> set s. is_digit c) \<and> (d \<or> s \<noteq> [])"
  by (induction s arbitrary: d) (auto simp: dot_not_digit)

definition unsigned_decimal :: "bool \<Rightarrow> string \<Rightarrow> bool" where
  "unsigned_decimal d s \<longleftrightarrow> (\<exists>a point b. s = a @ point @ b \<and> point \<in> {[], [CHR ''.'']}
     \<and> (\<forall>c \<in> set (a @ b). is_digit c) \<and> (d \<or> a @ b \<noteq> []))"

lemma unsigned_decimal_Cons:
  "unsigned_decimal d (c # s) \<longleftrightarrow>
     (if c = CHR ''.'' then (\<forall>c \<in> set s. is_digit c) \<and> (d \<or> s \<noteq> []) else is_digit c \<and> unsigned_decimal True s)"
  (is "?L \<longleftrightarrow> ?R")
proof
  assume ?L
  then obtain a p b where *: "c # s = a @ p @ b" "p \<in> {[], [CHR ''.'']}" "\<forall>c \<in> set (a @ b). is_digit c" "d \<or> a @ b \<noteq> []"
    unfolding unsigned_decimal_def by blast
  show ?R
  proof (cases a)
    case Nil
    have "unsigned_decimal True s" if "\<forall>c \<in> set s. is_digit c"
      unfolding unsigned_decimal_def using that by (intro exI [of _ "[]"] exI [of _ s]) simp
    with Nil * show ?thesis by (auto simp: dot_not_digit)
  next
    case (Cons x a')
    with * show ?thesis unfolding unsigned_decimal_def by (auto simp: dot_not_digit)
  qed
next
  assume R: ?R
  show ?L
  proof (cases "c = CHR ''.''")
    case True
    with R show ?thesis unfolding unsigned_decimal_def
      by (intro exI [of _ "[]"] exI [of _ "[CHR ''.'']"] exI [of _ s]) auto
  next
    case False
    with R obtain a p b where "s = a @ p @ b" "p \<in> {[], [CHR ''.'']}" "\<forall>c \<in> set (a @ b). is_digit c"
      unfolding unsigned_decimal_def by auto
    with R False show ?thesis unfolding unsigned_decimal_def
      by (intro exI [of _ "c # a"] exI [of _ p] exI [of _ b]) auto
  qed
qed

lemma unsigned_decimal_loop: "decimal_loop s d False \<longleftrightarrow> unsigned_decimal d s"
proof (induction s arbitrary: d)
  case Nil
  then show ?case by (simp add: unsigned_decimal_def)
next
  case (Cons c s)
  then show ?case by (simp add: unsigned_decimal_Cons decimal_loop_dot)
qed

lemma unsigned_decimal_first: "unsigned_decimal False s \<Longrightarrow> s \<noteq> [] \<and> hd s \<noteq> CHR ''-''"
  by (cases s) (auto simp: unsigned_decimal_Cons dot_not_digit, simp add: unsigned_decimal_def)

lemma decimal_text_iff:
  "decimal_text s \<longleftrightarrow> unsigned_decimal False s \<or> (\<exists>t. s = CHR ''-'' # t \<and> unsigned_decimal False t)"
proof
  assume "decimal_text s"
  then obtain minus a point b where "s = minus @ a @ point @ b" "minus = [] \<or> minus = ''-''"
    "point \<in> {[], [CHR ''.'']}" "\<forall>c \<in> set (a @ b). is_digit c" "a @ b \<noteq> []"
    unfolding decimal_text_def by auto
  moreover from this have "unsigned_decimal False (a @ point @ b)" unfolding unsigned_decimal_def by blast
  ultimately show "unsigned_decimal False s \<or> (\<exists>t. s = CHR ''-'' # t \<and> unsigned_decimal False t)" by auto
next
  assume R: "unsigned_decimal False s \<or> (\<exists>t. s = CHR ''-'' # t \<and> unsigned_decimal False t)"
  then obtain minus t where "s = minus @ t" "minus \<in> {[], ''-''}" "unsigned_decimal False t"
    by (metis append_Cons append_Nil insertCI)
  then show "decimal_text s" unfolding decimal_text_def unsigned_decimal_def by blast
qed

lemma isDecimalString_decimal_text: "isDecimalString s \<longleftrightarrow> decimal_text s"
  using unsigned_decimal_first [of s] unsigned_decimal_first [of "tl s"]
  by (cases s) (auto simp: isDecimalString_def unsigned_decimal_loop decimal_text_iff)

section \<open>Properties\<close>

text \<open>The guarded number readers never let a bad number through: \<open>asWholeBigInt\<close> returns exactly the
  JSON numbers that are non-negative whole values below 2^63, \<open>asWholeI32\<close> exactly the whole values of
  its range, and everything else, fractions, infinities, not-a-number, other kinds or a missing field,
  is absent.\<close>

theorem number_readers_exact:
  "(asWholeBigInt v = Some n \<longleftrightarrow> v = Some (JNumber (Finite (of_int n))) \<and> 0 \<le> n \<and> n < 2 ^ 63)
   \<and> (asWholeI32 v mn mx = \<lparr>ji_present = True, ji_value = m\<rparr> \<longleftrightarrow> v = Some (JNumber (Finite (of_int m))) \<and> mn \<le> m \<and> m \<le> mx)"
  by (rule conjI [OF asWholeBigInt_Some asWholeI32_present])

text \<open>\<open>isDecimalString\<close> accepts exactly the plain decimals: an optional minus sign, then digits with at
  most one point, at least one digit.\<close>

theorem isDecimalString_grammar:
  "isDecimalString s \<longleftrightarrow> (\<exists>minus a point b. s = minus @ a @ point @ b \<and> minus \<in> {'''', ''-''} \<and> point \<in> {'''', ''.''}
     \<and> list_all is_digit (a @ b) \<and> a @ b \<noteq> [])"
  unfolding isDecimalString_decimal_text decimal_text_def by (simp only: list_all_iff)

text \<open>A quoted text reads back: after the opening quote, the reader that undoes the escapes returns the
  original text and stops at the closing quote, whatever follows it.\<close>

theorem quoted_text_reads_back:
  "\<exists>body. quoteJsonString s @ rest = CHR 0x22 # body \<and> unquote body = Some (s, rest)"
  by (simp add: quoteJsonString_def unquote_quoted)

end
