(* ===== verification/SG_Host.thy ===== *)
theory SG_Host
  imports SG_Json
begin

text \<open>
  What the subgraph's handlers get from outside \<open>src/\<close>: the graph-node host and the generated
  bindings. \<open>Host\<close> collects the data source's context values, the hash function, the JSON
  parser, the conversions between bytes, text and numbers that the runtime provides, and the views
  of the escrow contract (by block number and address; \<open>None\<close> is a reverted call). \<open>Event\<close> is the
  part of \<open>ethereum.Event\<close> the handlers read.
\<close>

record Event =
  ev_address :: bytes
  ev_blockNumber :: int
  ev_timestamp :: int
  ev_txHash :: bytes
  ev_logIndex :: int

record Host =
  h_chainId :: int
  h_network :: string
  h_paymentToken :: bytes
  h_identityRegistry :: bytes
  h_keccak256 :: "bytes \<Rightarrow> bytes"
  h_tryParse :: "string \<Rightarrow> json option"
  h_utf8Decode :: "bytes \<Rightarrow> string"
  h_bytesToString :: "bytes \<Rightarrow> string"
  h_f64ToString :: "f64 \<Rightarrow> string"
  h_parseDecimal :: "string \<Rightarrow> rat"
  h_divDecimal :: "int \<Rightarrow> rat \<Rightarrow> rat"
  h_platformTreasury :: "int \<Rightarrow> bytes \<Rightarrow> bytes option"
  h_platformFeeBP :: "int \<Rightarrow> bytes \<Rightarrow> int option"
  h_evaluatorFeeBP :: "int \<Rightarrow> bytes \<Rightarrow> int option"
  h_getJob :: "int \<Rightarrow> bytes \<Rightarrow> int \<Rightarrow> (string \<times> int) option"

text \<open>\<open>event.transaction.hash.concatI32(event.logIndex.toI32())\<close>, the identifier of log rows.\<close>

definition eventId :: "Event \<Rightarrow> bytes" where
  "eventId ev = concatI32 (ev_txHash ev) (ev_logIndex ev)"

text \<open>\<open>Address.zero()\<close>.\<close>

definition zero_address :: bytes where
  "zero_address = replicate 20 0"

text \<open>\<open>event.block.timestamp.toI64()\<close>.\<close>

definition event_time :: "Event \<Rightarrow> int" where
  "event_time ev = toI64 (ev_timestamp ev)"

text \<open>A loop with its index: \<open>for (let i = 0; i < xs.length; i++) f(i, xs[i])\<close>.\<close>

fun fold_index :: "(int \<Rightarrow> 'a \<Rightarrow> 's \<Rightarrow> 's) \<Rightarrow> int \<Rightarrow> 'a list \<Rightarrow> 's \<Rightarrow> 's" where
  "fold_index f i [] s = s"
| "fold_index f i (x # xs) s = fold_index f (i + 1) xs (f i x s)"

text \<open>Positions of 32 bits make distinct row identifiers.\<close>

lemma le_bytes_inj:
  assumes "map (\<lambda>k. word_of_int (drop_bit (8 * k) i) :: 8 word) [0, 1, 2, 3]
    = map (\<lambda>k. word_of_int (drop_bit (8 * k) j)) [0, 1, 2, 3]"
    and "0 \<le> i" "i < 2 ^ 32" "0 \<le> j" "j < 2 ^ 32"
  shows "i = j"
proof (rule bit_eqI)
  fix n
  have w: "bit i (8 * k + m) = bit j (8 * k + m)" if "k < 4" "m < 8" for k m :: nat
  proof -
    have "k \<in> set [0, 1, 2, 3]" using that by auto
    then have "(word_of_int (drop_bit (8 * k) i) :: 8 word) = word_of_int (drop_bit (8 * k) j)"
      using assms(1) unfolding map_eq_conv by blast
    then have "bit (word_of_int (drop_bit (8 * k) i) :: 8 word) m = bit (word_of_int (drop_bit (8 * k) j) :: 8 word) m"
      by simp
    then show ?thesis using that by (simp add: bit_simps)
  qed
  show "bit i n = bit j n"
  proof (cases "n < 32")
    case True
    then have "n = 8 * (n div 8) + n mod 8" "n div 8 < 4" "n mod 8 < 8" by auto
    then show ?thesis using w by metis
  next
    case False
    have "take_bit 32 i = i" "take_bit 32 j = j" using assms(2-5) by (simp_all add: take_bit_int_eq_self)
    with False show ?thesis by (metis bit_take_bit_iff)
  qed
qed

lemma concatI32_inj:
  assumes "0 \<le> i" "i < 2 ^ 32" "0 \<le> j" "j < 2 ^ 32"
  shows "concatI32 a i = concatI32 a j \<longleftrightarrow> i = j"
  using le_bytes_inj [OF _ assms] by (auto simp: concatI32_def)

lemma concatI32_prefix: "concatI32 a i = concatI32 b j \<Longrightarrow> a = b"
  by (simp add: concatI32_def)

end
