(* ===== verification/SG_Documents.thy ===== *)
theory SG_Documents
  imports SG_Host
begin

text \<open>
  Registration and feedback documents carried inside \<open>data:\<close> URIs
  (\<open>identity/registration.ts\<close>, \<open>identity/feedback-document.ts\<close>). The tables these two modules
  write are the record \<open>Documents\<close>; one record per entity of \<open>schema.graphql\<close>. Saving an entity
  is a map update at its identifier.

  The lemmas: resolving the same document again changes nothing and gives the same identifier, a
  document row is only written for a \<open>data:\<close> URI that parses to an object, and the rows of a
  service or feedback document are exactly its well-formed entries, in order.
\<close>

section \<open>Entities\<close>

record AgentRegistration =
  rg_id :: bytes
  rg_agent :: bytes
  rg_sourceURI :: string
  rg_sourceURIKind :: string
  rg_contentHash :: bytes
  rg_rawJSON :: string
  rg_profileType :: "string option"
  rg_name :: "string option"
  rg_description :: "string option"
  rg_image :: "string option"
  rg_active :: "bool option"
  rg_x402Support :: "bool option"
  rg_usedLegacyEndpointsField :: bool

record AgentService =
  sv_id :: bytes
  sv_registration :: bytes
  sv_position :: int
  sv_kind :: string
  sv_name :: string
  sv_endpoint :: string
  sv_version :: "string option"
  sv_capabilitiesInferred :: bool

text \<open>\<open>AgentServiceFeature\<close> and \<open>FeedbackDocumentFeature\<close> have the same shape: their parent
  (\<open>service\<close> or \<open>document\<close>), position, kind and value.\<close>

record Feature =
  ft_id :: bytes
  ft_parent :: bytes
  ft_position :: int
  ft_kind :: string
  ft_value :: string

record AgentServiceAttribute =
  at_id :: bytes
  at_service :: bytes
  at_position :: int
  at_key :: string
  at_value :: string
  at_valueType :: string

record AgentRegistrationReference =
  rf_id :: bytes
  rf_registration :: bytes
  rf_position :: int
  rf_agentRegistry :: string
  rf_namespace :: "string option"
  rf_chainId :: "string option"
  rf_registryAddress :: "string option"
  rf_agentId :: "int option"

record AgentTrust =
  tr_id :: bytes
  tr_registration :: bytes
  tr_position :: int
  tr_kind :: string
  tr_name :: string

record FeedbackDocument =
  fd_id :: bytes
  fd_feedback :: bytes
  fd_sourceURI :: string
  fd_sourceURIKind :: string
  fd_contentHash :: bytes
  fd_rawJSON :: string
  fd_agentRegistry :: "string option"
  fd_agentId :: "int option"
  fd_clientAddress :: "string option"
  fd_createdAt :: "string option"
  fd_value :: "rat option"
  fd_valueDecimals :: "int option"
  fd_tag1 :: "string option"
  fd_tag2 :: "string option"
  fd_endpoint :: "string option"
  fd_reasoning :: "string option"
  fd_context :: "string option"
  fd_task :: "string option"
  fd_a2aContextId :: "string option"
  fd_a2aTaskId :: "string option"
  fd_proofOfPayment :: "bytes option"

record PaymentProof =
  pp_id :: bytes
  pp_document :: bytes
  pp_fromAddress :: "string option"
  pp_toAddress :: "string option"
  pp_chainId :: "string option"
  pp_transactionHash :: "string option"
  pp_transactionSignature :: "string option"
  pp_amount :: "string option"
  pp_currency :: "string option"
  pp_protocol :: "string option"
  pp_timestamp :: "string option"
  pp_decimals :: "int option"

record FeedbackAttachment =
  fa_id :: bytes
  fa_document :: bytes
  fa_position :: int
  fa_name :: string
  fa_uri :: string
  fa_uriKind :: string
  fa_mimeType :: string
  fa_size :: "int option"
  fa_description :: "string option"
  fa_uploadedAt :: "string option"

record Documents =
  dc_registrations :: "bytes \<rightharpoonup> AgentRegistration"
  dc_services :: "bytes \<rightharpoonup> AgentService"
  dc_serviceFeatures :: "bytes \<rightharpoonup> Feature"
  dc_serviceAttributes :: "bytes \<rightharpoonup> AgentServiceAttribute"
  dc_references :: "bytes \<rightharpoonup> AgentRegistrationReference"
  dc_trusts :: "bytes \<rightharpoonup> AgentTrust"
  dc_documents :: "bytes \<rightharpoonup> FeedbackDocument"
  dc_documentFeatures :: "bytes \<rightharpoonup> Feature"
  dc_proofs :: "bytes \<rightharpoonup> PaymentProof"
  dc_attachments :: "bytes \<rightharpoonup> FeedbackAttachment"

section \<open>Agent registrations (\<open>identity/registration.ts\<close>)\<close>

definition classifyServiceKind :: "string \<Rightarrow> string" where
  "classifyServiceKind name =
     (let lower = to_lower name in
      if lower = ''web'' then ''WEB'' else if lower = ''a2a'' then ''A2A''
      else if lower = ''mcp'' then ''MCP'' else if lower = ''webmcp'' then ''WEBMCP''
      else if lower = ''x402'' then ''X402'' else if lower = ''oasf'' then ''OASF''
      else if lower = ''ens'' then ''ENS'' else if lower = ''did'' then ''DID''
      else if lower = ''email'' then ''EMAIL'' else if lower = ''agentwallet'' then ''AGENT_WALLET''
      else ''CUSTOM'')"

definition classifyTrustKind :: "string \<Rightarrow> string" where
  "classifyTrustKind name =
     (let lower = to_lower name in
      if lower = ''reputation'' then ''REPUTATION''
      else if lower = ''crypto-economic'' then ''CRYPTO_ECONOMIC''
      else if lower = ''tee-attestation'' then ''TEE_ATTESTATION''
      else if lower = ''social-graph'' then ''SOCIAL_GRAPH''
      else ''CUSTOM'')"

definition KNOWN_SERVICE_KEYS :: "string list" where
  "KNOWN_SERVICE_KEYS = [''name'', ''endpoint'', ''version'', ''capabilities'', ''mcpTools'',
     ''mcpPrompts'', ''mcpResources'', ''a2aSkills'', ''skills'', ''domains'']"

fun saveServiceFeatures :: "bytes \<Rightarrow> int \<Rightarrow> string \<Rightarrow> string list \<Rightarrow> Documents \<Rightarrow> int \<times> Documents" where
  "saveServiceFeatures serviceId position kind [] d = (position, d)"
| "saveServiceFeatures serviceId position kind (v # vs) d =
     (let feature = \<lparr>ft_id = concatI32 serviceId position, ft_parent = serviceId, ft_position = position,
                     ft_kind = kind, ft_value = v\<rparr>
      in saveServiceFeatures serviceId (position + 1) kind vs
           (d\<lparr>dc_serviceFeatures := (dc_serviceFeatures d)(ft_id feature \<mapsto> feature)\<rparr>))"

fun attributes_loop :: "Host \<Rightarrow> bytes \<Rightarrow> int \<Rightarrow> json_map \<Rightarrow> Documents \<Rightarrow> Documents" where
  "attributes_loop h serviceId position [] d = d"
| "attributes_loop h serviceId position ((key, v) # entries) d =
     (if key \<in> set KNOWN_SERVICE_KEYS then attributes_loop h serviceId position entries d
      else let described = describeJsonValue (h_f64ToString h) v;
               attribute = \<lparr>at_id = concatI32 serviceId position, at_service = serviceId,
                            at_position = position, at_key = key, at_value = jd_value described,
                            at_valueType = jd_valueType described\<rparr>
           in attributes_loop h serviceId (position + 1) entries
                (d\<lparr>dc_serviceAttributes := (dc_serviceAttributes d)(at_id attribute \<mapsto> attribute)\<rparr>))"

definition saveServiceAttributes :: "Host \<Rightarrow> bytes \<Rightarrow> json_map \<Rightarrow> Documents \<Rightarrow> Documents" where
  "saveServiceAttributes h serviceId service d = attributes_loop h serviceId 0 service d"

definition saveAgentService :: "Host \<Rightarrow> bytes \<Rightarrow> int \<Rightarrow> json_map \<Rightarrow> Documents \<Rightarrow> Documents" where
  "saveAgentService h registrationId position service d =
     (case (asString (get service ''name''), asString (get service ''endpoint'')) of
        (Some name, Some endpoint) \<Rightarrow>
          (let entity = \<lparr>sv_id = concatI32 registrationId position, sv_registration = registrationId,
                         sv_position = position, sv_kind = classifyServiceKind name, sv_name = name,
                         sv_endpoint = endpoint, sv_version = asString (get service ''version''),
                         sv_capabilitiesInferred = False\<rparr>;
               d = d\<lparr>dc_services := (dc_services d)(sv_id entity \<mapsto> entity)\<rparr>;
               strings = (\<lambda>key. asStringArray (get service key));
               (p, d) = saveServiceFeatures (sv_id entity) 0 ''CAPABILITY'' (strings ''capabilities'') d;
               (p, d) = saveServiceFeatures (sv_id entity) p ''MCP_TOOL'' (strings ''mcpTools'') d;
               (p, d) = saveServiceFeatures (sv_id entity) p ''MCP_PROMPT'' (strings ''mcpPrompts'') d;
               (p, d) = saveServiceFeatures (sv_id entity) p ''MCP_RESOURCE'' (strings ''mcpResources'') d;
               (p, d) = saveServiceFeatures (sv_id entity) p ''A2A_SKILL'' (strings ''a2aSkills'') d;
               (p, d) = saveServiceFeatures (sv_id entity) p ''OASF_SKILL'' (strings ''skills'') d;
               (p, d) = saveServiceFeatures (sv_id entity) p ''OASF_DOMAIN'' (strings ''domains'') d
           in saveServiceAttributes h (sv_id entity) service d)
      | _ \<Rightarrow> d)"

definition saveAgentRegistrationReference :: "bytes \<Rightarrow> int \<Rightarrow> json_map \<Rightarrow> Documents \<Rightarrow> Documents" where
  "saveAgentRegistrationReference registrationId position reference d =
     (case asString (get reference ''agentRegistry'') of
        None \<Rightarrow> d
      | Some agentRegistry \<Rightarrow>
          (let caip10 = parseCaip10 agentRegistry;
               entity = \<lparr>rf_id = concatI32 registrationId position, rf_registration = registrationId,
                         rf_position = position, rf_agentRegistry = agentRegistry,
                         rf_namespace = c10_namespace caip10, rf_chainId = c10_chainId caip10,
                         rf_registryAddress = c10_reference caip10,
                         rf_agentId = asWholeBigInt (get reference ''agentId'')\<rparr>
           in d\<lparr>dc_references := (dc_references d)(rf_id entity \<mapsto> entity)\<rparr>))"

definition saveAgentTrust :: "bytes \<Rightarrow> int \<Rightarrow> string \<Rightarrow> Documents \<Rightarrow> Documents" where
  "saveAgentTrust registrationId position name d =
     (let entity = \<lparr>tr_id = concatI32 registrationId position, tr_registration = registrationId,
                    tr_position = position, tr_kind = classifyTrustKind name, tr_name = name\<rparr>
      in d\<lparr>dc_trusts := (dc_trusts d)(tr_id entity \<mapsto> entity)\<rparr>)"

text \<open>\<open>if (x.present) field = x.value\<close> on a nullable field.\<close>

definition present_bool :: "JsonBool \<Rightarrow> bool option" where
  "present_bool b = (if jb_present b then Some (jb_value b) else None)"

definition present_int :: "JsonI32 \<Rightarrow> int option" where
  "present_int i = (if ji_present i then Some (ji_value i) else None)"

text \<open>The body of \<open>resolveAgentRegistration\<close> for a parsed object.\<close>

definition write_registration :: "Host \<Rightarrow> bytes \<Rightarrow> bytes \<Rightarrow> string \<Rightarrow> string \<Rightarrow> string \<Rightarrow> json_map \<Rightarrow> Documents \<Rightarrow> Documents" where
  "write_registration h rid agentId sourceURI sourceURIKind rawJSON obj d =
     (let servicesField = get obj ''services'';
          usedServices = (servicesField \<noteq> None \<and> servicesField \<noteq> Some JNull);
          registration = \<lparr>rg_id = rid, rg_agent = agentId, rg_sourceURI = sourceURI,
            rg_sourceURIKind = sourceURIKind, rg_contentHash = h_keccak256 h (fromUTF8 rawJSON),
            rg_rawJSON = rawJSON, rg_profileType = asString (get obj ''type''),
            rg_name = asString (get obj ''name''), rg_description = asString (get obj ''description''),
            rg_image = asString (get obj ''image''),
            rg_active = present_bool (asBool (get obj ''active'')),
            rg_x402Support = present_bool (asBool (get obj ''x402Support'')),
            rg_usedLegacyEndpointsField = (\<not> usedServices \<and> get obj ''endpoints'' \<noteq> None)\<rparr>;
          servicesValue = (if usedServices then servicesField else get obj ''endpoints'');
          d = fold_index (saveAgentService h rid) 0 (asObjectArray servicesValue) d;
          d = fold_index (saveAgentRegistrationReference rid) 0 (asObjectArray (get obj ''registrations'')) d;
          d = fold_index (saveAgentTrust rid) 0 (asStringArray (get obj ''supportedTrust'')) d
      in d\<lparr>dc_registrations := (dc_registrations d)(rid \<mapsto> registration)\<rparr>)"

definition resolveAgentRegistration ::
  "Host \<Rightarrow> bytes \<Rightarrow> string \<Rightarrow> string \<Rightarrow> Documents \<Rightarrow> bytes option \<times> Documents" where
  "resolveAgentRegistration h agentId sourceURI sourceURIKind d =
     (if sourceURIKind \<noteq> URI_KIND_DATA then (None, d)
      else case decodeDataUri (h_utf8Decode h) sourceURI of
        None \<Rightarrow> (None, d)
      | Some rawJSON \<Rightarrow>
          (let rid = h_keccak256 h (agentId @ fromUTF8 sourceURI) in
           if dc_registrations d rid \<noteq> None then (Some rid, d)
           else case asObject (h_tryParse h rawJSON) of
             None \<Rightarrow> (None, d)
           | Some obj \<Rightarrow> (Some rid, write_registration h rid agentId sourceURI sourceURIKind rawJSON obj d)))"

section \<open>Feedback documents (\<open>identity/feedback-document.ts\<close>)\<close>

definition firstNonNull :: "string option \<Rightarrow> string option \<Rightarrow> string option" where
  "firstNonNull a b = (if a \<noteq> None then a else b)"

definition listOfStrings :: "json_map \<Rightarrow> string \<Rightarrow> string list" where
  "listOfStrings obj key = asStringArray (get obj key)"

definition saveFeature :: "bytes \<Rightarrow> int \<Rightarrow> string \<Rightarrow> string \<Rightarrow> Documents \<Rightarrow> int \<times> Documents" where
  "saveFeature documentId position kind v d =
     (let feature = \<lparr>ft_id = concatI32 documentId position, ft_parent = documentId,
                     ft_position = position, ft_kind = kind, ft_value = v\<rparr>
      in (position + 1, d\<lparr>dc_documentFeatures := (dc_documentFeatures d)(ft_id feature \<mapsto> feature)\<rparr>))"

fun saveFeatureList :: "bytes \<Rightarrow> int \<Rightarrow> string \<Rightarrow> string list \<Rightarrow> Documents \<Rightarrow> int \<times> Documents" where
  "saveFeatureList documentId position kind [] d = (position, d)"
| "saveFeatureList documentId position kind (v # vs) d =
     (let (position, d) = saveFeature documentId position kind v d
      in saveFeatureList documentId position kind vs d)"

text \<open>\<open>if (x != null) position = saveFeature(documentId, position, kind, x)\<close>.\<close>

definition saveFeatureIf :: "bytes \<Rightarrow> int \<Rightarrow> string \<Rightarrow> string option \<Rightarrow> Documents \<Rightarrow> int \<times> Documents" where
  "saveFeatureIf documentId position kind v d =
     (case v of None \<Rightarrow> (position, d) | Some x \<Rightarrow> saveFeature documentId position kind x d)"

definition saveFeatures :: "bytes \<Rightarrow> json_map \<Rightarrow> json_map option \<Rightarrow> Documents \<Rightarrow> int \<times> Documents" where
  "saveFeatures documentId obj a2a d =
     (let position = 0;
          oasf = asObject (get obj ''oasf'');
          mcp = asObject (get obj ''mcp'');
          (position, d) = (case a2a of None \<Rightarrow> (position, d)
            | Some a \<Rightarrow> saveFeatureList documentId position ''A2A_SKILL'' (listOfStrings a ''skills'') d);
          (position, d) = (case oasf of None \<Rightarrow> (position, d)
            | Some f \<Rightarrow>
                (let (position, d) = saveFeatureList documentId position ''OASF_SKILL'' (listOfStrings f ''skills'') d
                 in saveFeatureList documentId position ''OASF_DOMAIN'' (listOfStrings f ''domains'') d));
          (position, d) = saveFeatureIf documentId position ''OASF_DOMAIN'' (asString (get obj ''domain'')) d;
          (position, d) = saveFeatureIf documentId position ''SKILL'' (asString (get obj ''skill'')) d;
          (position, d) = saveFeatureIf documentId position ''MCP_CAPABILITY'' (asString (get obj ''capability'')) d
      in case mcp of None \<Rightarrow> (position, d)
         | Some m \<Rightarrow>
             (let (position, d) = saveFeatureIf documentId position ''MCP_TOOL'' (asString (get m ''tool'')) d;
                  (position, d) = saveFeatureIf documentId position ''MCP_PROMPT'' (asString (get m ''prompt'')) d;
                  (position, d) = saveFeatureIf documentId position ''MCP_RESOURCE'' (asString (get m ''resource'')) d
              in saveFeatureIf documentId position ''MCP_COMPLETION'' (asString (get m ''completion'')) d))"

definition savePaymentProof :: "bytes \<Rightarrow> json_map \<Rightarrow> Documents \<Rightarrow> Documents" where
  "savePaymentProof documentId proof_obj d =
     (let entity = \<lparr>pp_id = documentId, pp_document = documentId,
            pp_fromAddress = asString (get proof_obj ''fromAddress''),
            pp_toAddress = asString (get proof_obj ''toAddress''),
            pp_chainId = asStringOrNumber (get proof_obj ''chainId''),
            pp_transactionHash = firstNonNull (asString (get proof_obj ''txHash''))
              (asString (get proof_obj ''transactionHash'')),
            pp_transactionSignature = firstNonNull (asString (get proof_obj ''txSignature''))
              (asString (get proof_obj ''transactionSignature'')),
            pp_amount = asString (get proof_obj ''amount''),
            pp_currency = asString (get proof_obj ''currency''),
            pp_protocol = asString (get proof_obj ''protocol''),
            pp_timestamp = asString (get proof_obj ''timestamp''),
            pp_decimals = present_int (asWholeI32 (get proof_obj ''decimals'') 0 255)\<rparr>
      in d\<lparr>dc_proofs := (dc_proofs d)(documentId \<mapsto> entity)\<rparr>)"

definition saveAttachment :: "bytes \<Rightarrow> int \<Rightarrow> json_map \<Rightarrow> Documents \<Rightarrow> Documents" where
  "saveAttachment documentId position attachment d =
     (case (asString (get attachment ''name''), asString (get attachment ''uri''),
            asString (get attachment ''mimeType'')) of
        (Some name, Some uri, Some mimeType) \<Rightarrow>
          (let entity = \<lparr>fa_id = concatI32 documentId position, fa_document = documentId,
                 fa_position = position, fa_name = name, fa_uri = uri, fa_uriKind = classifyUri uri,
                 fa_mimeType = mimeType, fa_size = asWholeBigInt (get attachment ''size''),
                 fa_description = asString (get attachment ''description''),
                 fa_uploadedAt = asString (get attachment ''uploadedAt'')\<rparr>
           in d\<lparr>dc_attachments := (dc_attachments d)(fa_id entity \<mapsto> entity)\<rparr>)
      | _ \<Rightarrow> d)"

definition a2a_field :: "json_map \<Rightarrow> json_map option \<Rightarrow> string \<Rightarrow> string \<Rightarrow> string option" where
  "a2a_field obj a2a nested flat = (case a2a of
     Some a \<Rightarrow> firstNonNull (asString (get a nested)) (asString (get obj flat))
   | None \<Rightarrow> asString (get obj flat))"

text \<open>The body of \<open>resolveFeedbackDocument\<close> for a parsed object.\<close>

definition write_feedback_document ::
  "Host \<Rightarrow> bytes \<Rightarrow> bytes \<Rightarrow> string \<Rightarrow> string \<Rightarrow> string \<Rightarrow> json_map \<Rightarrow> Documents \<Rightarrow> Documents" where
  "write_feedback_document h did feedbackId sourceURI sourceURIKind rawJSON obj d =
     (let v = asString (get obj ''value'');
          a2a = asObject (get obj ''a2a'');
          paymentProof = asObject (get obj ''proofOfPayment'');
          document = \<lparr>fd_id = did, fd_feedback = feedbackId, fd_sourceURI = sourceURI,
            fd_sourceURIKind = sourceURIKind, fd_contentHash = h_keccak256 h (fromUTF8 rawJSON),
            fd_rawJSON = rawJSON, fd_agentRegistry = asString (get obj ''agentRegistry''),
            fd_agentId = asWholeBigInt (get obj ''agentId''),
            fd_clientAddress = asString (get obj ''clientAddress''),
            fd_createdAt = asString (get obj ''createdAt''),
            fd_value = (case v of None \<Rightarrow> None
              | Some t \<Rightarrow> if isDecimalString t then Some (h_parseDecimal h t) else None),
            fd_valueDecimals = present_int (asWholeI32 (get obj ''valueDecimals'') 0 18),
            fd_tag1 = asString (get obj ''tag1''), fd_tag2 = asString (get obj ''tag2''),
            fd_endpoint = asString (get obj ''endpoint''),
            fd_reasoning = asString (get obj ''reasoning''),
            fd_context = asString (get obj ''context''), fd_task = asString (get obj ''task''),
            fd_a2aContextId = a2a_field obj a2a ''contextId'' ''a2aContextId'',
            fd_a2aTaskId = a2a_field obj a2a ''taskId'' ''a2aTaskId'',
            fd_proofOfPayment = (if paymentProof \<noteq> None then Some did else None)\<rparr>;
          d = d\<lparr>dc_documents := (dc_documents d)(did \<mapsto> document)\<rparr>;
          d = (case paymentProof of None \<Rightarrow> d | Some p \<Rightarrow> savePaymentProof did p d);
          d = fold_index (saveAttachment did) 0 (asObjectArray (get obj ''attachments'')) d
      in snd (saveFeatures did obj a2a d))"

definition resolveFeedbackDocument ::
  "Host \<Rightarrow> bytes \<Rightarrow> string \<Rightarrow> string \<Rightarrow> Documents \<Rightarrow> bytes option \<times> Documents" where
  "resolveFeedbackDocument h feedbackId sourceURI sourceURIKind d =
     (if sourceURIKind \<noteq> URI_KIND_DATA then (None, d)
      else case decodeDataUri (h_utf8Decode h) sourceURI of
        None \<Rightarrow> (None, d)
      | Some rawJSON \<Rightarrow>
          (let did = h_keccak256 h (feedbackId @ fromUTF8 sourceURI) in
           if dc_documents d did \<noteq> None then (Some did, d)
           else case asObject (h_tryParse h rawJSON) of
             None \<Rightarrow> (None, d)
           | Some obj \<Rightarrow> (Some did, write_feedback_document h did feedbackId sourceURI sourceURIKind rawJSON obj d)))"

section \<open>Lemmas\<close>

text \<open>Writing the rows of a sequence of features, whatever function writes one row: positions
  count up from the first one and earlier rows stay.\<close>

definition feature_row :: "bytes \<Rightarrow> int \<Rightarrow> string \<times> string \<Rightarrow> Feature" where
  "feature_row parent position kv =
     \<lparr>ft_id = concatI32 parent position, ft_parent = parent, ft_position = position,
      ft_kind = fst kv, ft_value = snd kv\<rparr>"

fun put_rows :: "bytes \<Rightarrow> int \<Rightarrow> (string \<times> string) list \<Rightarrow> (bytes \<rightharpoonup> Feature) \<Rightarrow> bytes \<rightharpoonup> Feature" where
  "put_rows parent p [] t = t"
| "put_rows parent p (kv # kvs) t = put_rows parent (p + 1) kvs (t(concatI32 parent p \<mapsto> feature_row parent p kv))"

lemma put_rows_append: "put_rows parent p (xs @ ys) t = put_rows parent (p + int (length xs)) ys (put_rows parent p xs t)"
  by (induction xs arbitrary: p t) (simp_all add: algebra_simps)

lemma put_rows_before:
  assumes "0 \<le> q" "q < p" "p + int (length kvs) \<le> 2 ^ 32"
  shows "put_rows parent p kvs t (concatI32 parent q) = t (concatI32 parent q)"
  using assms by (induction kvs arbitrary: p t) (auto simp: concatI32_inj)

lemma put_rows_nth:
  assumes "i < length kvs" "0 \<le> p" "p + int (length kvs) \<le> 2 ^ 32"
  shows "put_rows parent p kvs t (concatI32 parent (p + int i)) = Some (feature_row parent (p + int i) (kvs ! i))"
  using assms
proof (induction kvs arbitrary: p t i)
  case (Cons kv kvs)
  show ?case
  proof (cases i)
    case 0
    then show ?thesis using Cons.prems by (simp add: put_rows_before)
  next
    case (Suc j)
    then have "put_rows parent (p + 1) kvs (t(concatI32 parent p \<mapsto> feature_row parent p kv)) (concatI32 parent (p + 1 + int j))
        = Some (feature_row parent (p + 1 + int j) (kvs ! j))"
      using Cons.prems by (intro Cons.IH) auto
    then show ?thesis using Suc by (simp add: add.assoc)
  qed
qed simp

lemma put_rows_other:
  "(\<forall>q. k \<noteq> concatI32 parent q) \<Longrightarrow> put_rows parent p kvs t k = t k"
  by (induction kvs arbitrary: p t) auto

lemma saveServiceFeatures_put:
  "saveServiceFeatures sid p kind vs d =
     (p + int (length vs), d\<lparr>dc_serviceFeatures := put_rows sid p (map (Pair kind) vs) (dc_serviceFeatures d)\<rparr>)"
  by (induction vs arbitrary: p d) (simp_all add: feature_row_def Let_def)

lemma saveFeatureList_put:
  "saveFeatureList did p kind vs d =
     (p + int (length vs), d\<lparr>dc_documentFeatures := put_rows did p (map (Pair kind) vs) (dc_documentFeatures d)\<rparr>)"
  by (induction vs arbitrary: p d) (simp_all add: feature_row_def Let_def saveFeature_def)

definition opt_feature :: "string \<Rightarrow> string option \<Rightarrow> (string \<times> string) list" where
  "opt_feature kind v = (case v of None \<Rightarrow> [] | Some x \<Rightarrow> [(kind, x)])"

lemma saveFeatureIf_put:
  "saveFeatureIf did p kind v d =
     (p + int (length (opt_feature kind v)), d\<lparr>dc_documentFeatures := put_rows did p (opt_feature kind v) (dc_documentFeatures d)\<rparr>)"
  by (cases v) (simp_all add: saveFeatureIf_def saveFeature_def opt_feature_def feature_row_def Let_def)

text \<open>The features a service lists, and those a feedback document lists, in the order of their rows.\<close>

definition service_features :: "json_map \<Rightarrow> (string \<times> string) list" where
  "service_features service = concat (map (\<lambda>(kind, key). map (Pair kind) (asStringArray (get service key)))
     [(''CAPABILITY'', ''capabilities''), (''MCP_TOOL'', ''mcpTools''), (''MCP_PROMPT'', ''mcpPrompts''),
      (''MCP_RESOURCE'', ''mcpResources''), (''A2A_SKILL'', ''a2aSkills''), (''OASF_SKILL'', ''skills''),
      (''OASF_DOMAIN'', ''domains'')])"

definition nested_features :: "json_map option \<Rightarrow> (string \<times> string) list \<Rightarrow> (string \<times> string) list" where
  "nested_features obj keys = (case obj of None \<Rightarrow> []
     | Some m \<Rightarrow> concat (map (\<lambda>(kind, key). map (Pair kind) (listOfStrings m key)) keys))"

definition document_features :: "json_map \<Rightarrow> (string \<times> string) list" where
  "document_features obj =
     nested_features (asObject (get obj ''a2a'')) [(''A2A_SKILL'', ''skills'')] @
     nested_features (asObject (get obj ''oasf'')) [(''OASF_SKILL'', ''skills''), (''OASF_DOMAIN'', ''domains'')] @
     opt_feature ''OASF_DOMAIN'' (asString (get obj ''domain'')) @
     opt_feature ''SKILL'' (asString (get obj ''skill'')) @
     opt_feature ''MCP_CAPABILITY'' (asString (get obj ''capability'')) @
     (case asObject (get obj ''mcp'') of None \<Rightarrow> []
      | Some m \<Rightarrow> opt_feature ''MCP_TOOL'' (asString (get m ''tool'')) @ opt_feature ''MCP_PROMPT'' (asString (get m ''prompt''))
          @ opt_feature ''MCP_RESOURCE'' (asString (get m ''resource''))
          @ opt_feature ''MCP_COMPLETION'' (asString (get m ''completion'')))"

lemma attributes_loop_frame [simp]:
  "dc_services (attributes_loop h sid p es d) = dc_services d"
  "dc_serviceFeatures (attributes_loop h sid p es d) = dc_serviceFeatures d"
  "dc_registrations (attributes_loop h sid p es d) = dc_registrations d"
  "dc_documents (attributes_loop h sid p es d) = dc_documents d"
  by (induction h sid p es d rule: attributes_loop.induct) (simp_all add: Let_def)

lemma saveAgentService_rows:
  assumes "asString (get service ''name'') = Some name" "asString (get service ''endpoint'') = Some endpoint"
  shows "dc_serviceFeatures (saveAgentService h rid p service d)
      = put_rows (concatI32 rid p) 0 (service_features service) (dc_serviceFeatures d)"
    "dc_services (saveAgentService h rid p service d) = (dc_services d)(concatI32 rid p \<mapsto>
      \<lparr>sv_id = concatI32 rid p, sv_registration = rid, sv_position = p, sv_kind = classifyServiceKind name,
       sv_name = name, sv_endpoint = endpoint, sv_version = asString (get service ''version''),
       sv_capabilitiesInferred = False\<rparr>)"
  using assms
  by (simp_all add: saveAgentService_def saveServiceFeatures_put Let_def saveServiceAttributes_def
      service_features_def put_rows_append add.assoc)

lemma saveAgentService_none:
  "asString (get service ''name'') = None \<or> asString (get service ''endpoint'') = None \<Longrightarrow>
     saveAgentService h rid p service d = d"
  by (auto simp: saveAgentService_def split: option.splits)

lemma saveFeatures_put:
  "saveFeatures did obj (asObject (get obj ''a2a'')) d =
     (int (length (document_features obj)),
      d\<lparr>dc_documentFeatures := put_rows did 0 (document_features obj) (dc_documentFeatures d)\<rparr>)"
  unfolding saveFeatures_def document_features_def
  by (auto simp: saveFeatureList_put saveFeatureIf_put nested_features_def put_rows_append Let_def add.assoc
      split: option.splits)

text \<open>Which tables the parts of a document leave alone.\<close>

lemma saveAgentService_frame [simp]:
  "dc_registrations (saveAgentService h rid p service d) = dc_registrations d"
  "dc_documents (saveAgentService h rid p service d) = dc_documents d"
  by (auto simp: saveAgentService_def saveServiceFeatures_put Let_def saveServiceAttributes_def split: option.splits)

lemma fold_index_frame: "(\<And>i x s. g (f i x s) = g s) \<Longrightarrow> g (fold_index f i xs s) = g s"
  by (induction xs arbitrary: i s) auto

lemma write_registration_saved: "dc_registrations (write_registration h rid a u k r obj d) rid \<noteq> None"
  by (simp add: write_registration_def Let_def)

lemma saveAttachment_frame [simp]:
  "dc_documents (saveAttachment did p x d) = dc_documents d"
  "dc_documentFeatures (saveAttachment did p x d) = dc_documentFeatures d"
  "dc_proofs (saveAttachment did p x d) = dc_proofs d"
  by (auto simp: saveAttachment_def Let_def split: option.splits)

lemmas attachments_frame [simp] =
  fold_index_frame [of dc_documents "saveAttachment did" for did, OF saveAttachment_frame(1)]
  fold_index_frame [of dc_documentFeatures "saveAttachment did" for did, OF saveAttachment_frame(2)]
  fold_index_frame [of dc_proofs "saveAttachment did" for did, OF saveAttachment_frame(3)]

lemma savePaymentProof_frame [simp]:
  "dc_documents (savePaymentProof did p d) = dc_documents d"
  "dc_documentFeatures (savePaymentProof did p d) = dc_documentFeatures d"
  by (simp_all add: savePaymentProof_def Let_def)

lemma write_feedback_document_rows:
  "dc_documentFeatures (write_feedback_document h did f u k r obj d)
     = put_rows did 0 (document_features obj) (dc_documentFeatures d)"
  "dc_documents (write_feedback_document h did f u k r obj d) did \<noteq> None"
  by (simp_all add: write_feedback_document_def Let_def saveFeatures_put split: option.splits)

section \<open>A small host\<close>

text \<open>Used by the examples: the hash keeps its argument, every text parses to \<open>demo_obj\<close>.\<close>

definition demo_obj :: json_map where
  "demo_obj = [(''a2a'', JObject [(''skills'', JArray [JString ''quote''])]), (''skill'', JString ''audit''),
     (''s'', JNumber (Finite 720))]"

definition demo_host :: Host where
  "demo_host = \<lparr>h_chainId = 5042002, h_network = ''arc-testnet'', h_paymentToken = replicate 20 3,
     h_identityRegistry = replicate 20 8, h_keccak256 = (\<lambda>b. b), h_tryParse = (\<lambda>_. Some (JObject demo_obj)),
     h_utf8Decode = map (\<lambda>b. char_of (unat b)), h_bytesToString = map (\<lambda>b. char_of (unat b)), h_f64ToString = (\<lambda>_. ''NaN''),
     h_parseDecimal = (\<lambda>_. 0), h_divDecimal = (\<lambda>a b. of_int a / b),
     h_platformTreasury = (\<lambda>_ _. None), h_platformFeeBP = (\<lambda>_ _. None), h_evaluatorFeeBP = (\<lambda>_ _. None),
     h_getJob = (\<lambda>_ _ _. None)\<rparr>"

definition demo_did :: "bytes \<Rightarrow> bytes" where
  "demo_did f = f @ fromUTF8 ''data:,{}''"

definition empty_documents :: Documents where
  "empty_documents = \<lparr>dc_registrations = Map.empty, dc_services = Map.empty, dc_serviceFeatures = Map.empty,
     dc_serviceAttributes = Map.empty, dc_references = Map.empty, dc_trusts = Map.empty,
     dc_documents = Map.empty, dc_documentFeatures = Map.empty, dc_proofs = Map.empty,
     dc_attachments = Map.empty\<rparr>"

section \<open>Properties\<close>

text \<open>Resolving a document is idempotent: announcing the same URI again for the same agent (or
  feedback) gives the identifier of the first announcement and leaves every document table
  unchanged, whatever the untrusted document contains.\<close>

theorem documents_idempotent:
  "resolveAgentRegistration h a u k (snd (resolveAgentRegistration h a u k d)) = resolveAgentRegistration h a u k d
   \<and> resolveFeedbackDocument h a u k (snd (resolveFeedbackDocument h a u k d)) = resolveFeedbackDocument h a u k d"
  by (auto simp: resolveAgentRegistration_def resolveFeedbackDocument_def Let_def write_registration_saved
      write_feedback_document_rows(2) split: option.splits)

text \<open>The rows of a service are exactly its features: a service entry with a name and an endpoint
  writes its own row, then one feature row per string of its seven feature lists, numbered
  consecutively across the lists in their order, and touches no feature row of another service.\<close>

theorem service_rows:
  assumes "asString (get service ''name'') = Some name" "asString (get service ''endpoint'') = Some endpoint"
    "int (length (service_features service)) \<le> 2 ^ 32"
  shows "(\<exists>row. dc_services (saveAgentService h rid p service d) (concatI32 rid p) = Some row
      \<and> sv_name row = name \<and> sv_endpoint row = endpoint \<and> sv_position row = p)
    \<and> (\<forall>i < length (service_features service).
      dc_serviceFeatures (saveAgentService h rid p service d) (concatI32 (concatI32 rid p) (int i))
        = Some (feature_row (concatI32 rid p) (int i) (service_features service ! i)))
    \<and> (\<forall>k. (\<forall>q. k \<noteq> concatI32 (concatI32 rid p) q) \<longrightarrow>
      dc_serviceFeatures (saveAgentService h rid p service d) k = dc_serviceFeatures d k)"
  using assms put_rows_nth [of _ "service_features service" 0]
  by (auto simp: saveAgentService_rows put_rows_other)

theorem service_rows_witness:
  "let service = [(''name'', JString ''MCP''), (''endpoint'', JString ''https://a.example''),
                  (''mcpTools'', JArray [JString ''quote'', JNull, JString ''swap'']), (''skills'', JArray [JString ''pay''])]
   in service_features service = [(''MCP_TOOL'', ''quote''), (''MCP_TOOL'', ''swap''), (''OASF_SKILL'', ''pay'')]
      \<and> dc_serviceFeatures (saveAgentService demo_host [1] 0 service empty_documents) (concatI32 (concatI32 [1] 0) 2)
          = Some (feature_row (concatI32 [1] 0) 2 (''OASF_SKILL'', ''pay''))"
proof -
  let ?s = "[(''name'', JString ''MCP''), (''endpoint'', JString ''https://a.example''),
             (''mcpTools'', JArray [JString ''quote'', JNull, JString ''swap'']), (''skills'', JArray [JString ''pay''])]"
  have "asString (get ?s ''name'') = Some ''MCP''" "asString (get ?s ''endpoint'') = Some ''https://a.example''"
    by (simp_all add: get_def)
  moreover have f: "service_features ?s = [(''MCP_TOOL'', ''quote''), (''MCP_TOOL'', ''swap''), (''OASF_SKILL'', ''pay'')]"
    by (simp add: service_features_def get_def asStringArray_def)
  ultimately have "\<forall>i < length (service_features ?s).
      dc_serviceFeatures (saveAgentService demo_host [1] 0 ?s empty_documents) (concatI32 (concatI32 [1] 0) (int i))
        = Some (feature_row (concatI32 [1] 0) (int i) (service_features ?s ! i))"
    by (intro service_rows [THEN conjunct2, THEN conjunct1]) simp_all
  from this [rule_format, of 2] f show ?thesis by (simp add: Let_def)
qed

text \<open>A feedback document that is resolved for the first time writes one row per feature it lists,
  nested and flat fields in the order of the source, numbered from 0, and no feature row of another
  document.\<close>

theorem feedback_feature_rows:
  assumes "decodeDataUri (h_utf8Decode h) u = Some raw" "h_tryParse h raw = Some (JObject obj)"
    "did = h_keccak256 h (f @ fromUTF8 u)" "dc_documents d did = None"
    "int (length (document_features obj)) \<le> 2 ^ 32"
  shows "fst (resolveFeedbackDocument h f u URI_KIND_DATA d) = Some did
    \<and> (\<forall>i < length (document_features obj).
      dc_documentFeatures (snd (resolveFeedbackDocument h f u URI_KIND_DATA d)) (concatI32 did (int i))
        = Some (feature_row did (int i) (document_features obj ! i)))
    \<and> (\<forall>k. (\<forall>q. k \<noteq> concatI32 did q) \<longrightarrow>
      dc_documentFeatures (snd (resolveFeedbackDocument h f u URI_KIND_DATA d)) k = dc_documentFeatures d k)"
  using assms put_rows_nth [of _ "document_features obj" 0]
  by (auto simp: resolveFeedbackDocument_def Let_def write_feedback_document_rows put_rows_other)

theorem feedback_feature_rows_witness:
  "dc_documentFeatures (snd (resolveFeedbackDocument demo_host [7] ''data:,{}'' URI_KIND_DATA empty_documents))
     (concatI32 (demo_did [7]) 1) = Some (feature_row (demo_did [7]) 1 (''SKILL'', ''audit''))"
proof -
  have f: "document_features demo_obj = [(''A2A_SKILL'', ''quote''), (''SKILL'', ''audit'')]"
    by (simp add: document_features_def demo_obj_def get_def nested_features_def opt_feature_def listOfStrings_def asStringArray_def)
  have "decodeDataUri (h_utf8Decode demo_host) ''data:,{}'' = Some ''{}''"
    by (simp add: decodeDataUri_def startsWith_def to_lower_def lower_char_def hasBase64Marker_def)
  then have "\<forall>i < length (document_features demo_obj).
      dc_documentFeatures (snd (resolveFeedbackDocument demo_host [7] ''data:,{}'' URI_KIND_DATA empty_documents)) (concatI32 (demo_did [7]) (int i))
        = Some (feature_row (demo_did [7]) (int i) (document_features demo_obj ! i))"
    by (rule feedback_feature_rows [THEN conjunct2, THEN conjunct1]) (simp_all add: demo_host_def demo_did_def empty_documents_def f)
  from this [rule_format, of 1] f show ?thesis by simp
qed

end
