(* ===== verification/SG_Store.thy ===== *)
theory SG_Store
  imports SG_Documents
begin

text \<open>
  The subgraph's store and the helpers every data source shares: \<open>shared/account.ts\<close>,
  \<open>identity/agent.ts\<close> (\<open>getAgent\<close>), \<open>identity/feedback.ts\<close> (\<open>getFeedback\<close>),
  \<open>identity/feedback-metric-point.ts\<close> and \<open>bufi/\<close> (\<open>engagement.ts\<close>, \<open>metrics.ts\<close>, \<open>score.ts\<close>,
  \<open>wallet-binding.ts\<close>). One record per entity of \<open>schema.graphql\<close>, one table per entity: \<open>X.load(id)\<close>
  is a lookup (a copy of the row), \<open>x.save()\<close> a map update at the row's identifier,
  \<open>store.remove\<close> a deletion. Time series rows, whose identifiers graph-node assigns, are lists in
  the order they were written. Handlers are functions from stores to stores.
\<close>

section \<open>Entities\<close>

record IdentityRegistry =
  ir_id :: bytes
  ir_network :: string
  ir_chainId :: int
  ir_agentRegistry :: string
  ir_agentCount :: int
  ir_unburnedAgentCount :: int
  ir_createdAt :: int
  ir_updatedAt :: int

record ReputationRegistry =
  rr_id :: bytes
  rr_network :: string
  rr_chainId :: int
  rr_identityRegistry :: bytes
  rr_feedbackCount :: int
  rr_activeFeedbackCount :: int
  rr_responseCount :: int
  rr_createdAt :: int
  rr_updatedAt :: int

record Account =
  ac_id :: bytes

record Agent =
  ag_id :: bytes
  ag_registry :: bytes
  ag_agentId :: int
  ag_owner :: "bytes option"
  ag_approved :: "bytes option"
  ag_agentWallet :: "bytes option"
  ag_isBurned :: bool
  ag_agentURI :: string
  ag_agentURIKind :: string
  ag_uriRevision :: int
  ag_registration :: "bytes option"
  ag_feedbackCount :: int
  ag_activeFeedbackCount :: int
  ag_responseCount :: int
  ag_verifiedFeedbackCount :: int
  ag_bufiScore :: "int option"
  ag_bufiScoreVersion :: "int option"
  ag_bufiScoreDate :: "string option"
  ag_bufiScoreHash :: "bytes option"
  ag_bufiScoreUpdatedAt :: "int option"
  ag_jobsAsClient :: int
  ag_jobsAsProvider :: int
  ag_settledAsClient :: int
  ag_settledAsProvider :: int
  ag_settledVolumeAsClient :: int
  ag_settledVolumeAsProvider :: int
  ag_refundedVolumeAsClient :: int
  ag_createdAt :: int
  ag_createdAtBlock :: int
  ag_createdAtTransaction :: bytes
  ag_updatedAt :: int
  ag_updatedAtBlock :: int
  ag_updatedAtTransaction :: bytes

record AgentMetadata =
  md_id :: bytes
  md_agent :: bytes
  md_key :: string
  md_keyHash :: bytes
  md_value :: bytes
  md_updatedAt :: int
  md_updatedAtBlock :: int
  md_updatedAtTransaction :: bytes

record OperatorApproval =
  oa_id :: bytes
  oa_owner :: bytes
  oa_operator :: bytes
  oa_approved :: bool
  oa_updatedAt :: int
  oa_updatedAtBlock :: int
  oa_updatedAtTransaction :: bytes

text \<open>Log rows share their trailing fields.\<close>

record LogRow =
  lg_id :: bytes
  lg_blockNumber :: int
  lg_timestamp :: int
  lg_transactionHash :: bytes
  lg_logIndex :: int

record AgentURIRevision = LogRow +
  ur_agent :: bytes
  ur_revision :: int
  ur_uri :: string
  ur_uriKind :: string
  ur_updatedBy :: bytes
  ur_registration :: "bytes option"

record AgentTransfer = LogRow +
  tf_agent :: bytes
  tf_from :: bytes
  tf_to :: bytes

record AgentApprovalChange = LogRow +
  ap_agent :: bytes
  ap_owner :: bytes
  ap_approved :: bytes

record OperatorApprovalChange = LogRow +
  oc_owner :: bytes
  oc_operator :: bytes
  oc_approved :: bool

record AgentMetadataRevision = LogRow +
  mr_agent :: bytes
  mr_key :: string
  mr_keyHash :: bytes
  mr_value :: bytes

record FeedbackResponse = LogRow +
  fr_feedback :: bytes
  fr_responder :: bytes
  fr_responseURI :: string
  fr_responseURIKind :: string
  fr_responseHash :: bytes
  fr_hasResponseHash :: bool

record JobEvent = LogRow +
  je_agenticCommerce :: bytes
  je_job :: bytes
  je_kind :: string
  je_actor :: "bytes option"
  je_address :: "bytes option"
  je_amount :: "int option"
  je_data :: "bytes option"

record Feedback =
  fb_id :: bytes
  fb_registry :: bytes
  fb_agent :: bytes
  fb_client :: bytes
  fb_clientAgent :: "bytes option"
  fb_verified :: bool
  fb_evidence :: "bytes option"
  fb_feedbackIndex :: int
  fb_value :: int
  fb_valueDecimals :: int
  fb_normalizedValue :: rat
  fb_tag1 :: string
  fb_tag1Hash :: bytes
  fb_tag2 :: string
  fb_endpoint :: string
  fb_feedbackURI :: string
  fb_feedbackURIKind :: string
  fb_feedbackHash :: bytes
  fb_hasFeedbackHash :: bool
  fb_document :: "bytes option"
  fb_isRevoked :: bool
  fb_revokedAt :: "int option"
  fb_revokedAtBlock :: "int option"
  fb_revokedAtTransaction :: "bytes option"
  fb_responseCount :: int
  fb_createdAt :: int
  fb_createdAtBlock :: int
  fb_createdAtTransaction :: bytes
  fb_createdAtLogIndex :: int

record FeedbackMetricPoint =
  fp_timestamp :: int
  fp_registry :: bytes
  fp_agent :: bytes
  fp_tag1 :: string
  fp_tag2 :: string
  fp_feedbackCountDelta :: int
  fp_valueDelta :: rat

record AgenticCommerce =
  cm_id :: bytes
  cm_network :: string
  cm_chainId :: int
  cm_implementation :: "bytes option"
  cm_paymentToken :: bytes
  cm_platformFeeBP :: int
  cm_platformTreasury :: "bytes option"
  cm_evaluatorFeeBP :: int
  cm_jobCount :: int
  cm_settledJobCount :: int
  cm_settledVolume :: int
  cm_refundedVolume :: int
  cm_createdAt :: int
  cm_updatedAt :: int

datatype JobStatus = OPEN | FUNDED | SUBMITTED | COMPLETED | REJECTED | EXPIRED

record Job =
  jo_id :: bytes
  jo_agenticCommerce :: bytes
  jo_jobId :: int
  jo_status :: JobStatus
  jo_client :: bytes
  jo_provider :: "bytes option"
  jo_evaluator :: bytes
  jo_clientAgent :: "bytes option"
  jo_providerAgent :: "bytes option"
  jo_engagement :: "bytes option"
  jo_expiresAt :: int
  jo_submittedAt :: "int option"
  jo_budget :: int
  jo_paymentToken :: bytes
  jo_hook :: "bytes option"
  jo_description :: string
  jo_providerPayment :: int
  jo_evaluatorFeePaid :: int
  jo_refundedAmount :: int
  jo_settled :: bool
  jo_settledAt :: "int option"
  jo_deliverable :: "bytes option"
  jo_completionReason :: "bytes option"
  jo_rejectionReason :: "bytes option"
  jo_createdAt :: int
  jo_createdAtBlock :: int
  jo_createdAtTransaction :: bytes
  jo_updatedAt :: int
  jo_updatedAtBlock :: int
  jo_updatedAtTransaction :: bytes

record HookAllowlistEntry =
  hk_id :: bytes
  hk_agenticCommerce :: bytes
  hk_hook :: bytes
  hk_allowed :: bool
  hk_updatedAt :: int
  hk_updatedAtBlock :: int
  hk_updatedAtTransaction :: bytes

record WalletBinding =
  wb_id :: bytes
  wb_account :: bytes
  wb_agent :: bytes
  wb_boundAt :: int
  wb_boundAtTransaction :: bytes

record Engagement =
  en_id :: bytes
  en_client :: bytes
  en_provider :: bytes
  en_jobCount :: int
  en_settledJobCount :: int
  en_settledVolume :: int
  en_refundedVolume :: int
  en_lastSettledJob :: "bytes option"
  en_lastSettledAt :: "int option"
  en_feedbackCount :: int
  en_verifiedFeedbackCount :: int
  en_lastFeedbackAt :: "int option"
  en_firstSeenAt :: int
  en_updatedAt :: int

record AgentMetricPoint =
  mp_timestamp :: int
  mp_agent :: bytes
  mp_kind :: string
  mp_amount :: int

record Store =
  st_identityRegistries :: "bytes \<rightharpoonup> IdentityRegistry"
  st_reputationRegistries :: "bytes \<rightharpoonup> ReputationRegistry"
  st_accounts :: "bytes \<rightharpoonup> Account"
  st_agents :: "bytes \<rightharpoonup> Agent"
  st_metadata :: "bytes \<rightharpoonup> AgentMetadata"
  st_operatorApprovals :: "bytes \<rightharpoonup> OperatorApproval"
  st_uriRevisions :: "bytes \<rightharpoonup> AgentURIRevision"
  st_transfers :: "bytes \<rightharpoonup> AgentTransfer"
  st_approvalChanges :: "bytes \<rightharpoonup> AgentApprovalChange"
  st_operatorApprovalChanges :: "bytes \<rightharpoonup> OperatorApprovalChange"
  st_metadataRevisions :: "bytes \<rightharpoonup> AgentMetadataRevision"
  st_feedback :: "bytes \<rightharpoonup> Feedback"
  st_responses :: "bytes \<rightharpoonup> FeedbackResponse"
  st_feedbackPoints :: "FeedbackMetricPoint list"
  st_commerces :: "bytes \<rightharpoonup> AgenticCommerce"
  st_jobs :: "bytes \<rightharpoonup> Job"
  st_jobEvents :: "bytes \<rightharpoonup> JobEvent"
  st_hooks :: "bytes \<rightharpoonup> HookAllowlistEntry"
  st_bindings :: "bytes \<rightharpoonup> WalletBinding"
  st_engagements :: "bytes \<rightharpoonup> Engagement"
  st_agentPoints :: "AgentMetricPoint list"
  st_documents :: Documents

section \<open>Loading and saving\<close>

definition saveAccount :: "Account \<Rightarrow> Store \<Rightarrow> Store" where
  "saveAccount x s = s\<lparr>st_accounts := (st_accounts s)(ac_id x \<mapsto> x)\<rparr>"

definition saveAgent :: "Agent \<Rightarrow> Store \<Rightarrow> Store" where
  "saveAgent x s = s\<lparr>st_agents := (st_agents s)(ag_id x \<mapsto> x)\<rparr>"

definition saveJob :: "Job \<Rightarrow> Store \<Rightarrow> Store" where
  "saveJob x s = s\<lparr>st_jobs := (st_jobs s)(jo_id x \<mapsto> x)\<rparr>"

definition saveJobEvent :: "JobEvent \<Rightarrow> Store \<Rightarrow> Store" where
  "saveJobEvent x s = s\<lparr>st_jobEvents := (st_jobEvents s)(lg_id x \<mapsto> x)\<rparr>"

definition saveCommerce :: "AgenticCommerce \<Rightarrow> Store \<Rightarrow> Store" where
  "saveCommerce x s = s\<lparr>st_commerces := (st_commerces s)(cm_id x \<mapsto> x)\<rparr>"

definition saveEngagement :: "Engagement \<Rightarrow> Store \<Rightarrow> Store" where
  "saveEngagement x s = s\<lparr>st_engagements := (st_engagements s)(en_id x \<mapsto> x)\<rparr>"

definition saveBinding :: "WalletBinding \<Rightarrow> Store \<Rightarrow> Store" where
  "saveBinding x s = s\<lparr>st_bindings := (st_bindings s)(wb_id x \<mapsto> x)\<rparr>"

definition saveIdentityRegistry :: "IdentityRegistry \<Rightarrow> Store \<Rightarrow> Store" where
  "saveIdentityRegistry x s = s\<lparr>st_identityRegistries := (st_identityRegistries s)(ir_id x \<mapsto> x)\<rparr>"

definition saveReputationRegistry :: "ReputationRegistry \<Rightarrow> Store \<Rightarrow> Store" where
  "saveReputationRegistry x s = s\<lparr>st_reputationRegistries := (st_reputationRegistries s)(rr_id x \<mapsto> x)\<rparr>"

definition saveFeedback :: "Feedback \<Rightarrow> Store \<Rightarrow> Store" where
  "saveFeedback x s = s\<lparr>st_feedback := (st_feedback s)(fb_id x \<mapsto> x)\<rparr>"

section \<open>Shared helpers\<close>

definition getOrCreateAccount :: "bytes \<Rightarrow> Store \<Rightarrow> Account \<times> Store" where
  "getOrCreateAccount address s = (case st_accounts s address of
     Some account \<Rightarrow> (account, s)
   | None \<Rightarrow> (let account = \<lparr>ac_id = address\<rparr> in (account, saveAccount account s)))"

text \<open>The getters of \<open>identity/agent.ts\<close>, \<open>identity/feedback.ts\<close> and \<open>commerce/job.ts\<close>; they log a
  warning for an unknown identifier, which leaves the store alone.\<close>

definition getAgent :: "bytes \<Rightarrow> Store \<Rightarrow> Agent option" where
  "getAgent i s = st_agents s i"

definition getFeedback :: "bytes \<Rightarrow> Store \<Rightarrow> Feedback option" where
  "getFeedback i s = st_feedback s i"

definition getJob :: "bytes \<Rightarrow> Store \<Rightarrow> Job option" where
  "getJob i s = st_jobs s i"

section \<open>Workspaces (\<open>bufi/\<close>)\<close>

definition engagementId :: "Host \<Rightarrow> Agent \<Rightarrow> Agent \<Rightarrow> bytes" where
  "engagementId h client provider = h_keccak256 h (ag_id client @ ag_id provider)"

definition getOrCreateEngagement :: "Host \<Rightarrow> Agent \<Rightarrow> Agent \<Rightarrow> int \<Rightarrow> Store \<Rightarrow> Engagement" where
  "getOrCreateEngagement h client provider timestamp s =
     (let i = engagementId h client provider in
      case st_engagements s i of
        Some engagement \<Rightarrow> engagement
      | None \<Rightarrow> \<lparr>en_id = i, en_client = ag_id client, en_provider = ag_id provider, en_jobCount = 0,
          en_settledJobCount = 0, en_settledVolume = 0, en_refundedVolume = 0, en_lastSettledJob = None,
          en_lastSettledAt = None, en_feedbackCount = 0, en_verifiedFeedbackCount = 0,
          en_lastFeedbackAt = None, en_firstSeenAt = toI64 timestamp, en_updatedAt = toI64 timestamp\<rparr>)"

definition METRIC_SETTLED_AS_PROVIDER :: string where
  "METRIC_SETTLED_AS_PROVIDER = ''SETTLED_AS_PROVIDER''"

definition METRIC_SETTLED_AS_CLIENT :: string where
  "METRIC_SETTLED_AS_CLIENT = ''SETTLED_AS_CLIENT''"

definition METRIC_REFUNDED_AS_CLIENT :: string where
  "METRIC_REFUNDED_AS_CLIENT = ''REFUNDED_AS_CLIENT''"

definition recordAgentMetric :: "Agent \<Rightarrow> string \<Rightarrow> int \<Rightarrow> int \<Rightarrow> Store \<Rightarrow> Store" where
  "recordAgentMetric agent kind amount timestamp s =
     s\<lparr>st_agentPoints := st_agentPoints s @
       [\<lparr>mp_timestamp = toI64 timestamp, mp_agent = ag_id agent, mp_kind = kind, mp_amount = amount\<rparr>]\<rparr>"

definition BUFI_SCORE_KEY :: string where
  "BUFI_SCORE_KEY = ''bufi.score.v1''"

text \<open>\<open>Bytes.fromHexString\<close> on \<open>0x\<close> and an even number of hexadecimal digits.\<close>

definition hex_value :: "char \<Rightarrow> nat" where
  "hex_value c = (let n = of_char c in if n \<le> 57 then n - 48 else if n \<le> 70 then n - 55 else n - 87)"

fun hex_pairs :: "string \<Rightarrow> bytes" where
  "hex_pairs (a # b # cs) = word_of_nat (16 * hex_value a + hex_value b) # hex_pairs cs"
| "hex_pairs _ = []"

definition fromHexString :: "string \<Rightarrow> bytes" where
  "fromHexString hex = hex_pairs (drop 2 hex)"

definition hashBytes :: "string option \<Rightarrow> bytes option" where
  "hashBytes v = (case v of
     None \<Rightarrow> None
   | Some text \<Rightarrow>
       (if text = [] then None
        else let hex = (if startsWith text ''0x'' then text else ''0x'' @ text) in
          if length hex \<noteq> 66 then None
          else if \<not> list_all is_hex_digit (drop 2 hex) then None
          else Some (fromHexString hex)))"

definition applyScoreAttestation :: "Host \<Rightarrow> Agent \<Rightarrow> bytes \<Rightarrow> int \<Rightarrow> Agent" where
  "applyScoreAttestation h agent v timestamp =
     (case asObject (h_tryParse h (h_bytesToString h v)) of
        None \<Rightarrow> agent
      | Some obj \<Rightarrow>
          (let score = asWholeI32 (get obj ''s'') 0 100000 in
           if \<not> ji_present score then agent
           else let version = asWholeI32 (get obj ''v'') 0 1000 in
             agent\<lparr>ag_bufiScore := Some (ji_value score),
                   ag_bufiScoreVersion := present_int version,
                   ag_bufiScoreDate := asString (get obj ''d''),
                   ag_bufiScoreHash := hashBytes (asString (get obj ''h'')),
                   ag_bufiScoreUpdatedAt := Some (toI64 timestamp)\<rparr>))"

definition bindWallet :: "Agent \<Rightarrow> bytes \<Rightarrow> Event \<Rightarrow> Store \<Rightarrow> Store" where
  "bindWallet agent wallet ev s =
     (let (account, s) = getOrCreateAccount wallet s;
          binding = (case st_bindings s wallet of
            Some b \<Rightarrow> b
          | None \<Rightarrow> \<lparr>wb_id = wallet, wb_account = [], wb_agent = [], wb_boundAt = 0, wb_boundAtTransaction = []\<rparr>);
          binding = binding\<lparr>wb_account := ac_id account, wb_agent := ag_id agent,
                            wb_boundAt := event_time ev, wb_boundAtTransaction := ev_txHash ev\<rparr>
      in saveBinding binding s)"

definition unbindWallet :: "Agent \<Rightarrow> bytes option \<Rightarrow> Store \<Rightarrow> Store" where
  "unbindWallet agent wallet s = (case wallet of
     None \<Rightarrow> s
   | Some w \<Rightarrow>
       (case st_bindings s w of
          None \<Rightarrow> s
        | Some binding \<Rightarrow>
            if wb_agent binding \<noteq> ag_id agent then s
            else s\<lparr>st_bindings := (st_bindings s)(w := None)\<rparr>))"

definition resolveAgentByWallet :: "bytes \<Rightarrow> Store \<Rightarrow> Agent option" where
  "resolveAgentByWallet address s = (case st_bindings s address of
     None \<Rightarrow> None
   | Some binding \<Rightarrow> st_agents s (wb_agent binding))"

definition createFeedbackMetricPoint ::
  "int \<Rightarrow> bytes \<Rightarrow> bytes \<Rightarrow> string \<Rightarrow> string \<Rightarrow> int \<Rightarrow> rat \<Rightarrow> Store \<Rightarrow> Store" where
  "createFeedbackMetricPoint timestamp registryId agentId tag1 tag2 feedbackCountDelta valueDelta s =
     s\<lparr>st_feedbackPoints := st_feedbackPoints s @
       [\<lparr>fp_timestamp = toI64 timestamp, fp_registry = registryId, fp_agent = agentId, fp_tag1 = tag1,
         fp_tag2 = tag2, fp_feedbackCountDelta = feedbackCountDelta, fp_valueDelta = valueDelta\<rparr>]\<rparr>"

definition empty_store :: Store where
  "empty_store = \<lparr>st_identityRegistries = Map.empty, st_reputationRegistries = Map.empty,
     st_accounts = Map.empty, st_agents = Map.empty, st_metadata = Map.empty,
     st_operatorApprovals = Map.empty, st_uriRevisions = Map.empty, st_transfers = Map.empty,
     st_approvalChanges = Map.empty, st_operatorApprovalChanges = Map.empty,
     st_metadataRevisions = Map.empty, st_feedback = Map.empty, st_responses = Map.empty,
     st_feedbackPoints = [], st_commerces = Map.empty, st_jobs = Map.empty, st_jobEvents = Map.empty,
     st_hooks = Map.empty, st_bindings = Map.empty, st_engagements = Map.empty, st_agentPoints = [],
     st_documents = empty_documents\<rparr>"

section \<open>Tables as an interface\<close>

text \<open>What the handlers rely on of a table: a row saved is the row loaded at its identifier, other
  rows stay, the last save wins, and rows sit under their own identifier as long as only \<open>save\<close>
  writes them.\<close>

locale entity_table =
  fixes load :: "'s \<Rightarrow> bytes \<Rightarrow> 'e option"
    and save :: "'e \<Rightarrow> 's \<Rightarrow> 's"
    and key :: "'e \<Rightarrow> bytes"
  assumes load_save: "load (save e s) k = (if k = key e then Some e else load s k)"
    and save_again: "key e = key e' \<Longrightarrow> save e (save e' s) = save e s"
    and save_swap: "key e \<noteq> key e' \<Longrightarrow> save e (save e' s) = save e' (save e s)"
begin

definition keyed :: "'s \<Rightarrow> bool" where
  "keyed s \<longleftrightarrow> (\<forall>k e. load s k = Some e \<longrightarrow> key e = k)"

lemma keyed_load: "keyed s \<Longrightarrow> load s k = Some e \<Longrightarrow> key e = k"
  by (simp add: keyed_def)

lemma keyed_save: "keyed s \<Longrightarrow> keyed (save e s)"
  by (auto simp: keyed_def load_save)

lemma load_same: "load (save e s) (key e) = Some e"
  by (simp add: load_save)

lemma load_other: "k \<noteq> key e \<Longrightarrow> load (save e s) k = load s k"
  by (simp add: load_save)

lemma keyed_frame: "load s' = load s \<Longrightarrow> keyed s' = keyed s"
  by (simp add: keyed_def)

end

interpretation accounts: entity_table st_accounts saveAccount ac_id
  by unfold_locales (auto simp: saveAccount_def fun_upd_twist)

interpretation agents: entity_table st_agents saveAgent ag_id
  by unfold_locales (auto simp: saveAgent_def fun_upd_twist)

interpretation jobs: entity_table st_jobs saveJob jo_id
  by unfold_locales (auto simp: saveJob_def fun_upd_twist)

interpretation commerces: entity_table st_commerces saveCommerce cm_id
  by unfold_locales (auto simp: saveCommerce_def fun_upd_twist)

interpretation engagements: entity_table st_engagements saveEngagement en_id
  by unfold_locales (auto simp: saveEngagement_def fun_upd_twist)

interpretation bindings: entity_table st_bindings saveBinding wb_id
  by unfold_locales (auto simp: saveBinding_def fun_upd_twist)

interpretation identities: entity_table st_identityRegistries saveIdentityRegistry ir_id
  by unfold_locales (auto simp: saveIdentityRegistry_def fun_upd_twist)

interpretation reputations: entity_table st_reputationRegistries saveReputationRegistry rr_id
  by unfold_locales (auto simp: saveReputationRegistry_def fun_upd_twist)

interpretation feedbacks: entity_table st_feedback saveFeedback fb_id
  by unfold_locales (auto simp: saveFeedback_def fun_upd_twist)

end
