(* ===== verification/SG_Commerce.thy ===== *)
theory SG_Commerce
  imports SG_Store
begin

text \<open>
  The escrow data source of the subgraph (\<open>commerce/agentic-commerce.ts\<close>, \<open>commerce/job.ts\<close>,
  \<open>commerce/payments.ts\<close>, \<open>commerce/settlement.ts\<close>, \<open>commerce/admin.ts\<close>): one definition per
  function, the event parameters as arguments, the entities as local values that are saved where
  the source saves them.
\<close>

section \<open>The escrow contract (\<open>commerce/agentic-commerce.ts\<close>)\<close>

definition contextPaymentToken :: "Host \<Rightarrow> bytes" where
  "contextPaymentToken h = h_paymentToken h"

definition getOrCreateAgenticCommerce :: "Host \<Rightarrow> Event \<Rightarrow> Store \<Rightarrow> AgenticCommerce \<times> Store" where
  "getOrCreateAgenticCommerce h ev s =
     (let chainId = h_chainId h;
          i = agenticCommerceEntityId chainId (ev_address ev)
      in case st_commerces s i of
        Some agenticCommerce \<Rightarrow> (agenticCommerce, s)
      | None \<Rightarrow>
          (let agenticCommerce = \<lparr>cm_id = i, cm_network = h_network h, cm_chainId = chainId,
                 cm_implementation = None, cm_paymentToken = contextPaymentToken h, cm_platformFeeBP = 0,
                 cm_platformTreasury = None, cm_evaluatorFeeBP = 0, cm_jobCount = 0,
                 cm_settledJobCount = 0, cm_settledVolume = 0, cm_refundedVolume = 0,
                 cm_createdAt = event_time ev, cm_updatedAt = event_time ev\<rparr>;
               (agenticCommerce, s) =
                 (case h_platformTreasury h (ev_blockNumber ev) (ev_address ev) of
                    Some treasury \<Rightarrow>
                      (if treasury \<noteq> zero_address
                       then let (account, s) = getOrCreateAccount treasury s
                            in (agenticCommerce\<lparr>cm_platformTreasury := Some (ac_id account)\<rparr>, s)
                       else (agenticCommerce, s))
                  | None \<Rightarrow> (agenticCommerce, s));
               agenticCommerce = (case h_platformFeeBP h (ev_blockNumber ev) (ev_address ev) of
                   Some fee \<Rightarrow> agenticCommerce\<lparr>cm_platformFeeBP := fee\<rparr> | None \<Rightarrow> agenticCommerce);
               agenticCommerce = (case h_evaluatorFeeBP h (ev_blockNumber ev) (ev_address ev) of
                   Some fee \<Rightarrow> agenticCommerce\<lparr>cm_evaluatorFeeBP := fee\<rparr> | None \<Rightarrow> agenticCommerce)
           in (agenticCommerce, saveCommerce agenticCommerce s)))"

section \<open>Settlement (\<open>commerce/settlement.ts\<close>)\<close>

definition settle_commerce :: "Job \<Rightarrow> int \<Rightarrow> int \<Rightarrow> Store \<Rightarrow> Store" where
  "settle_commerce job amount timestamp s = (case st_commerces s (jo_agenticCommerce job) of
     None \<Rightarrow> s
   | Some c \<Rightarrow> saveCommerce (c\<lparr>cm_settledJobCount := cm_settledJobCount c + 1,
                cm_settledVolume := cm_settledVolume c + amount, cm_updatedAt := toI64 timestamp\<rparr>) s)"

definition settle_provider :: "Job \<Rightarrow> int \<Rightarrow> int \<Rightarrow> Store \<Rightarrow> Store" where
  "settle_provider job amount timestamp s = (case jo_providerAgent job of
     None \<Rightarrow> s
   | Some i \<Rightarrow> (case st_agents s i of
       None \<Rightarrow> s
     | Some provider \<Rightarrow>
         (let provider = provider\<lparr>ag_settledAsProvider := ag_settledAsProvider provider + 1,
                ag_settledVolumeAsProvider := ag_settledVolumeAsProvider provider + amount\<rparr>
          in recordAgentMetric provider METRIC_SETTLED_AS_PROVIDER amount timestamp (saveAgent provider s))))"

definition settle_client :: "Job \<Rightarrow> int \<Rightarrow> int \<Rightarrow> Store \<Rightarrow> Store" where
  "settle_client job amount timestamp s = (case jo_clientAgent job of
     None \<Rightarrow> s
   | Some i \<Rightarrow> (case st_agents s i of
       None \<Rightarrow> s
     | Some client \<Rightarrow>
         (let client = client\<lparr>ag_settledAsClient := ag_settledAsClient client + 1,
                ag_settledVolumeAsClient := ag_settledVolumeAsClient client + amount\<rparr>
          in recordAgentMetric client METRIC_SETTLED_AS_CLIENT amount timestamp (saveAgent client s))))"

definition settle_engagement :: "Job \<Rightarrow> int \<Rightarrow> int \<Rightarrow> Store \<Rightarrow> Store" where
  "settle_engagement job amount timestamp s = (case jo_engagement job of
     None \<Rightarrow> s
   | Some i \<Rightarrow> (case st_engagements s i of
       None \<Rightarrow> s
     | Some e \<Rightarrow> saveEngagement (e\<lparr>en_settledJobCount := en_settledJobCount e + 1,
                  en_settledVolume := en_settledVolume e + amount, en_lastSettledJob := Some (jo_id job),
                  en_lastSettledAt := Some (toI64 timestamp), en_updatedAt := toI64 timestamp\<rparr>) s))"

definition markSettledIfPaid :: "Job \<Rightarrow> Event \<Rightarrow> Store \<Rightarrow> Job \<times> Store" where
  "markSettledIfPaid job ev s =
     (if jo_settled job then (job, s)
      else if jo_status job \<noteq> COMPLETED then (job, s)
      else if jo_providerPayment job = 0 then (job, s)
      else let job = job\<lparr>jo_settled := True, jo_settledAt := Some (event_time ev)\<rparr>;
               amount = jo_providerPayment job;
               timestamp = ev_timestamp ev;
               s = settle_commerce job amount timestamp s;
               s = settle_provider job amount timestamp s;
               s = settle_client job amount timestamp s;
               s = settle_engagement job amount timestamp s
           in (job, s))"

definition recordRefund :: "Job \<Rightarrow> int \<Rightarrow> Event \<Rightarrow> Store \<Rightarrow> Store" where
  "recordRefund job amount ev s =
     (let timestamp = ev_timestamp ev;
          s = (case st_commerces s (jo_agenticCommerce job) of
              None \<Rightarrow> s
            | Some c \<Rightarrow> saveCommerce (c\<lparr>cm_refundedVolume := cm_refundedVolume c + amount,
                         cm_updatedAt := toI64 timestamp\<rparr>) s);
          s = (case jo_clientAgent job of
              None \<Rightarrow> s
            | Some i \<Rightarrow> (case st_agents s i of
                None \<Rightarrow> s
              | Some client \<Rightarrow>
                  (let client = client\<lparr>ag_refundedVolumeAsClient := ag_refundedVolumeAsClient client + amount\<rparr>
                   in recordAgentMetric client METRIC_REFUNDED_AS_CLIENT amount timestamp (saveAgent client s))))
      in case jo_engagement job of
           None \<Rightarrow> s
         | Some i \<Rightarrow> (case st_engagements s i of
             None \<Rightarrow> s
           | Some e \<Rightarrow> saveEngagement (e\<lparr>en_refundedVolume := en_refundedVolume e + amount,
                        en_updatedAt := toI64 timestamp\<rparr>) s))"

section \<open>Jobs (\<open>commerce/job.ts\<close>)\<close>

definition touchJob :: "Job \<Rightarrow> Event \<Rightarrow> Job" where
  "touchJob job ev = job\<lparr>jo_updatedAt := event_time ev, jo_updatedAtBlock := ev_blockNumber ev,
     jo_updatedAtTransaction := ev_txHash ev\<rparr>"

definition createJobEvent :: "Event \<Rightarrow> Job \<Rightarrow> string \<Rightarrow> JobEvent" where
  "createJobEvent ev job kind =
     \<lparr>lg_id = eventId ev, lg_blockNumber = ev_blockNumber ev, lg_timestamp = event_time ev,
      lg_transactionHash = ev_txHash ev, lg_logIndex = ev_logIndex ev,
      je_agenticCommerce = jo_agenticCommerce job, je_job = jo_id job, je_kind = kind,
      je_actor = None, je_address = None, je_amount = None, je_data = None\<rparr>"

definition eventJob :: "Host \<Rightarrow> Event \<Rightarrow> int \<Rightarrow> Store \<Rightarrow> Job option" where
  "eventJob h ev jobId s = getJob (jobEntityId (h_chainId h) (ev_address ev) jobId) s"

text \<open>The two parties of \<open>linkWorkspaces\<close>: the job with the link set, and the agent behind it.\<close>

definition link_client :: "Job \<Rightarrow> Store \<Rightarrow> Job \<times> Agent option" where
  "link_client job s = (case jo_clientAgent job of
     None \<Rightarrow> (case resolveAgentByWallet (jo_client job) s of
         None \<Rightarrow> (job, None)
       | Some a \<Rightarrow> (job\<lparr>jo_clientAgent := Some (ag_id a)\<rparr>, Some a))
   | Some i \<Rightarrow> (job, st_agents s i))"

definition link_provider :: "Job \<Rightarrow> Store \<Rightarrow> Job \<times> Agent option" where
  "link_provider job s = (case jo_provider job of
     None \<Rightarrow> (job, None)
   | Some p \<Rightarrow> (case jo_providerAgent job of
       None \<Rightarrow> (case resolveAgentByWallet p s of
           None \<Rightarrow> (job, None)
         | Some a \<Rightarrow> (job\<lparr>jo_providerAgent := Some (ag_id a)\<rparr>, Some a))
     | Some i \<Rightarrow> (job, st_agents s i)))"

definition linkWorkspaces :: "Host \<Rightarrow> Job \<Rightarrow> Event \<Rightarrow> Store \<Rightarrow> Job \<times> Store" where
  "linkWorkspaces h job ev s =
     (let (job, clientAgent) = link_client job s;
          (job, providerAgent) = link_provider job s
      in if jo_engagement job \<noteq> None then (job, s)
         else case (clientAgent, providerAgent) of
           (Some clientAgent, Some providerAgent) \<Rightarrow>
             (let engagement = getOrCreateEngagement h clientAgent providerAgent (ev_timestamp ev) s;
                  engagement = engagement\<lparr>en_jobCount := en_jobCount engagement + 1, en_updatedAt := event_time ev\<rparr>;
                  s = saveEngagement engagement s;
                  job = job\<lparr>jo_engagement := Some (en_id engagement)\<rparr>;
                  s = saveAgent (clientAgent\<lparr>ag_jobsAsClient := ag_jobsAsClient clientAgent + 1\<rparr>) s;
                  s = saveAgent (providerAgent\<lparr>ag_jobsAsProvider := ag_jobsAsProvider providerAgent + 1\<rparr>) s
              in (job, s))
         | _ \<Rightarrow> (job, s))"

definition new_job :: "Host \<Rightarrow> Event \<Rightarrow> AgenticCommerce \<Rightarrow> int \<Rightarrow> bytes \<Rightarrow> bytes \<Rightarrow> int \<Rightarrow> Job" where
  "new_job h ev agenticCommerce jobId client evaluator expiredAt =
     \<lparr>jo_id = jobEntityId (cm_chainId agenticCommerce) (ev_address ev) jobId,
      jo_agenticCommerce = cm_id agenticCommerce, jo_jobId = jobId, jo_status = OPEN,
      jo_client = client, jo_provider = None, jo_evaluator = evaluator, jo_clientAgent = None,
      jo_providerAgent = None, jo_engagement = None, jo_expiresAt = toTimestampSeconds expiredAt,
      jo_submittedAt = None, jo_budget = 0, jo_paymentToken = contextPaymentToken h, jo_hook = None,
      jo_description = '''', jo_providerPayment = 0, jo_evaluatorFeePaid = 0, jo_refundedAmount = 0,
      jo_settled = False, jo_settledAt = None, jo_deliverable = None, jo_completionReason = None,
      jo_rejectionReason = None, jo_createdAt = event_time ev, jo_createdAtBlock = ev_blockNumber ev,
      jo_createdAtTransaction = ev_txHash ev, jo_updatedAt = event_time ev,
      jo_updatedAtBlock = ev_blockNumber ev, jo_updatedAtTransaction = ev_txHash ev\<rparr>"

text \<open>The part of \<open>handleJobCreated\<close> up to the link: the accounts, the new job and what the contract's
  view adds to it.\<close>

definition prepare_job ::
  "Host \<Rightarrow> Event \<Rightarrow> AgenticCommerce \<Rightarrow> int \<Rightarrow> bytes \<Rightarrow> bytes \<Rightarrow> bytes \<Rightarrow> int \<Rightarrow> bytes \<Rightarrow> Store \<Rightarrow> Account \<times> Job \<times> Store" where
  "prepare_job h ev agenticCommerce jobId p_client p_provider p_evaluator expiredAt hook s =
     (let (client, s) = getOrCreateAccount p_client s;
          (evaluator, s) = getOrCreateAccount p_evaluator s;
          job = touchJob (new_job h ev agenticCommerce jobId (ac_id client) (ac_id evaluator) expiredAt) ev;
          (job, s) = (if p_provider \<noteq> zero_address
            then let (account, s) = getOrCreateAccount p_provider s in (job\<lparr>jo_provider := Some (ac_id account)\<rparr>, s)
            else (job, s));
          job = (if hook \<noteq> zero_address then job\<lparr>jo_hook := Some hook\<rparr> else job);
          job = (case h_getJob h (ev_blockNumber ev) (ev_address ev) jobId of
              None \<Rightarrow> job
            | Some (description, budget) \<Rightarrow>
                job\<lparr>jo_description := description,
                    jo_budget := (if jo_budget job = 0 then budget else jo_budget job)\<rparr>)
      in (client, job, s))"

definition handleJobCreated ::
  "Host \<Rightarrow> Event \<Rightarrow> int \<Rightarrow> bytes \<Rightarrow> bytes \<Rightarrow> bytes \<Rightarrow> int \<Rightarrow> bytes \<Rightarrow> Store \<Rightarrow> Store" where
  "handleJobCreated h ev jobId p_client p_provider p_evaluator expiredAt hook s =
     (let (agenticCommerce, s) = getOrCreateAgenticCommerce h ev s;
          (client, job, s) = prepare_job h ev agenticCommerce jobId p_client p_provider p_evaluator expiredAt hook s;
          (job, s) = linkWorkspaces h job ev s;
          s = saveJob job s;
          s = saveCommerce (agenticCommerce\<lparr>cm_jobCount := cm_jobCount agenticCommerce + 1,
                cm_updatedAt := event_time ev\<rparr>) s
      in saveJobEvent ((createJobEvent ev job ''CREATED'')\<lparr>je_actor := Some (ac_id client),
           je_address := Some p_provider\<rparr>) s)"

definition handleProviderSet :: "Host \<Rightarrow> Event \<Rightarrow> int \<Rightarrow> bytes \<Rightarrow> Store \<Rightarrow> Store" where
  "handleProviderSet h ev jobId p_provider s = (case eventJob h ev jobId s of
     None \<Rightarrow> s
   | Some job \<Rightarrow>
       (let (provider, s) = getOrCreateAccount p_provider s;
            job = job\<lparr>jo_provider := Some (ac_id provider), jo_providerAgent := None\<rparr>;
            (job, s) = linkWorkspaces h job ev s;
            job = touchJob job ev;
            s = saveJob job s
        in saveJobEvent ((createJobEvent ev job ''PROVIDER_SET'')\<lparr>je_actor := Some (ac_id provider),
             je_address := Some p_provider\<rparr>) s))"

definition handleBudgetSet :: "Host \<Rightarrow> Event \<Rightarrow> int \<Rightarrow> int \<Rightarrow> Store \<Rightarrow> Store" where
  "handleBudgetSet h ev jobId amount s = (case eventJob h ev jobId s of
     None \<Rightarrow> s
   | Some job \<Rightarrow>
       (let job = touchJob (job\<lparr>jo_budget := amount\<rparr>) ev;
            s = saveJob job s
        in saveJobEvent ((createJobEvent ev job ''BUDGET_SET'')\<lparr>je_amount := Some amount\<rparr>) s))"

definition handleJobFunded :: "Host \<Rightarrow> Event \<Rightarrow> int \<Rightarrow> bytes \<Rightarrow> int \<Rightarrow> Store \<Rightarrow> Store" where
  "handleJobFunded h ev jobId p_client amount s = (case eventJob h ev jobId s of
     None \<Rightarrow> s
   | Some job \<Rightarrow>
       (let job = touchJob (job\<lparr>jo_status := FUNDED\<rparr>) ev;
            s = saveJob job s;
            (account, s) = getOrCreateAccount p_client s
        in saveJobEvent ((createJobEvent ev job ''FUNDED'')\<lparr>je_actor := Some (ac_id account),
             je_amount := Some amount\<rparr>) s))"

definition handleJobSubmitted :: "Host \<Rightarrow> Event \<Rightarrow> int \<Rightarrow> bytes \<Rightarrow> bytes \<Rightarrow> Store \<Rightarrow> Store" where
  "handleJobSubmitted h ev jobId p_provider deliverable s = (case eventJob h ev jobId s of
     None \<Rightarrow> s
   | Some job \<Rightarrow>
       (let job = touchJob (job\<lparr>jo_status := SUBMITTED, jo_submittedAt := Some (event_time ev),
                    jo_deliverable := Some deliverable\<rparr>) ev;
            s = saveJob job s;
            (account, s) = getOrCreateAccount p_provider s
        in saveJobEvent ((createJobEvent ev job ''SUBMITTED'')\<lparr>je_actor := Some (ac_id account),
             je_data := Some deliverable\<rparr>) s))"

definition handleJobCompleted :: "Host \<Rightarrow> Event \<Rightarrow> int \<Rightarrow> bytes \<Rightarrow> bytes \<Rightarrow> Store \<Rightarrow> Store" where
  "handleJobCompleted h ev jobId p_evaluator reason s = (case eventJob h ev jobId s of
     None \<Rightarrow> s
   | Some job \<Rightarrow>
       (let job = touchJob (job\<lparr>jo_status := COMPLETED, jo_completionReason := Some reason\<rparr>) ev;
            (job, s) = markSettledIfPaid job ev s;
            s = saveJob job s;
            (account, s) = getOrCreateAccount p_evaluator s
        in saveJobEvent ((createJobEvent ev job ''COMPLETED'')\<lparr>je_actor := Some (ac_id account),
             je_data := Some reason\<rparr>) s))"

definition handleJobRejected :: "Host \<Rightarrow> Event \<Rightarrow> int \<Rightarrow> bytes \<Rightarrow> bytes \<Rightarrow> Store \<Rightarrow> Store" where
  "handleJobRejected h ev jobId p_rejector reason s = (case eventJob h ev jobId s of
     None \<Rightarrow> s
   | Some job \<Rightarrow>
       (let job = touchJob (job\<lparr>jo_status := REJECTED, jo_rejectionReason := Some reason\<rparr>) ev;
            s = saveJob job s;
            (account, s) = getOrCreateAccount p_rejector s
        in saveJobEvent ((createJobEvent ev job ''REJECTED'')\<lparr>je_actor := Some (ac_id account),
             je_data := Some reason\<rparr>) s))"

definition handleJobExpired :: "Host \<Rightarrow> Event \<Rightarrow> int \<Rightarrow> Store \<Rightarrow> Store" where
  "handleJobExpired h ev jobId s = (case eventJob h ev jobId s of
     None \<Rightarrow> s
   | Some job \<Rightarrow>
       (let job = touchJob (job\<lparr>jo_status := EXPIRED\<rparr>) ev;
            s = saveJob job s
        in saveJobEvent (createJobEvent ev job ''EXPIRED'') s))"

section \<open>Payments (\<open>commerce/payments.ts\<close>)\<close>

definition handlePaymentReleased :: "Host \<Rightarrow> Event \<Rightarrow> int \<Rightarrow> bytes \<Rightarrow> int \<Rightarrow> Store \<Rightarrow> Store" where
  "handlePaymentReleased h ev jobId p_provider amount s = (case eventJob h ev jobId s of
     None \<Rightarrow> s
   | Some job \<Rightarrow>
       (let job = touchJob (job\<lparr>jo_providerPayment := jo_providerPayment job + amount\<rparr>) ev;
            (job, s) = markSettledIfPaid job ev s;
            s = saveJob job s;
            (account, s) = getOrCreateAccount p_provider s
        in saveJobEvent ((createJobEvent ev job ''PAYMENT_RELEASED'')\<lparr>je_actor := Some (ac_id account),
             je_amount := Some amount\<rparr>) s))"

definition handleEvaluatorFeePaid :: "Host \<Rightarrow> Event \<Rightarrow> int \<Rightarrow> bytes \<Rightarrow> int \<Rightarrow> Store \<Rightarrow> Store" where
  "handleEvaluatorFeePaid h ev jobId p_evaluator amount s = (case eventJob h ev jobId s of
     None \<Rightarrow> s
   | Some job \<Rightarrow>
       (let job = touchJob (job\<lparr>jo_evaluatorFeePaid := jo_evaluatorFeePaid job + amount\<rparr>) ev;
            s = saveJob job s;
            (account, s) = getOrCreateAccount p_evaluator s
        in saveJobEvent ((createJobEvent ev job ''EVALUATOR_FEE_PAID'')\<lparr>je_actor := Some (ac_id account),
             je_amount := Some amount\<rparr>) s))"

definition handleRefunded :: "Host \<Rightarrow> Event \<Rightarrow> int \<Rightarrow> bytes \<Rightarrow> int \<Rightarrow> Store \<Rightarrow> Store" where
  "handleRefunded h ev jobId p_client amount s = (case eventJob h ev jobId s of
     None \<Rightarrow> s
   | Some job \<Rightarrow>
       (let job = touchJob (job\<lparr>jo_refundedAmount := jo_refundedAmount job + amount\<rparr>) ev;
            s = saveJob job s;
            s = recordRefund job amount ev s;
            (account, s) = getOrCreateAccount p_client s
        in saveJobEvent ((createJobEvent ev job ''REFUNDED'')\<lparr>je_actor := Some (ac_id account),
             je_amount := Some amount\<rparr>) s))"

section \<open>Administration (\<open>commerce/admin.ts\<close>)\<close>

definition handleHookWhitelistUpdated :: "Host \<Rightarrow> Event \<Rightarrow> bytes \<Rightarrow> bool \<Rightarrow> Store \<Rightarrow> Store" where
  "handleHookWhitelistUpdated h ev hook status s =
     (let (agenticCommerce, s) = getOrCreateAgenticCommerce h ev s;
          i = cm_id agenticCommerce @ hook;
          entry = (case st_hooks s i of
              Some entry \<Rightarrow> entry
            | None \<Rightarrow> \<lparr>hk_id = i, hk_agenticCommerce = cm_id agenticCommerce, hk_hook = hook, hk_allowed = False,
                       hk_updatedAt = 0, hk_updatedAtBlock = 0, hk_updatedAtTransaction = []\<rparr>);
          entry = entry\<lparr>hk_allowed := status, hk_updatedAt := event_time ev,
                        hk_updatedAtBlock := ev_blockNumber ev, hk_updatedAtTransaction := ev_txHash ev\<rparr>;
          s = s\<lparr>st_hooks := (st_hooks s)(hk_id entry \<mapsto> entry)\<rparr>
      in saveCommerce (agenticCommerce\<lparr>cm_updatedAt := event_time ev\<rparr>) s)"

definition handleUpgraded :: "Host \<Rightarrow> Event \<Rightarrow> bytes \<Rightarrow> Store \<Rightarrow> Store" where
  "handleUpgraded h ev implementation s =
     (let (agenticCommerce, s) = getOrCreateAgenticCommerce h ev s
      in saveCommerce (agenticCommerce\<lparr>cm_implementation := Some implementation,
           cm_updatedAt := event_time ev\<rparr>) s)"

section \<open>The events of the escrow (\<open>mapping.ts\<close>)\<close>

datatype EscrowEvent =
  JobCreated int bytes bytes bytes int bytes
| ProviderSet int bytes
| BudgetSet int int
| JobFunded int bytes int
| JobSubmitted int bytes bytes
| JobCompleted int bytes bytes
| JobRejected int bytes bytes
| JobExpired int
| PaymentReleased int bytes int
| EvaluatorFeePaid int bytes int
| Refunded int bytes int
| HookWhitelistUpdated bytes bool
| Upgraded bytes

fun handleEscrow :: "Host \<Rightarrow> Event \<Rightarrow> EscrowEvent \<Rightarrow> Store \<Rightarrow> Store" where
  "handleEscrow h ev (JobCreated i c p e x k) s = handleJobCreated h ev i c p e x k s"
| "handleEscrow h ev (ProviderSet i p) s = handleProviderSet h ev i p s"
| "handleEscrow h ev (BudgetSet i a) s = handleBudgetSet h ev i a s"
| "handleEscrow h ev (JobFunded i c a) s = handleJobFunded h ev i c a s"
| "handleEscrow h ev (JobSubmitted i p d) s = handleJobSubmitted h ev i p d s"
| "handleEscrow h ev (JobCompleted i e r) s = handleJobCompleted h ev i e r s"
| "handleEscrow h ev (JobRejected i r d) s = handleJobRejected h ev i r d s"
| "handleEscrow h ev (JobExpired i) s = handleJobExpired h ev i s"
| "handleEscrow h ev (PaymentReleased i p a) s = handlePaymentReleased h ev i p a s"
| "handleEscrow h ev (EvaluatorFeePaid i e a) s = handleEvaluatorFeePaid h ev i e a s"
| "handleEscrow h ev (Refunded i c a) s = handleRefunded h ev i c a s"
| "handleEscrow h ev (HookWhitelistUpdated k b) s = handleHookWhitelistUpdated h ev k b s"
| "handleEscrow h ev (Upgraded i) s = handleUpgraded h ev i s"

text \<open>What the escrow contract guarantees of its log: a job number is created once, and amounts
  are unsigned.\<close>

fun escrow_admissible :: "Host \<Rightarrow> Event \<Rightarrow> EscrowEvent \<Rightarrow> Store \<Rightarrow> bool" where
  "escrow_admissible h ev (JobCreated i c p e x k) s = (st_jobs s (jobEntityId (h_chainId h) (ev_address ev) i) = None)"
| "escrow_admissible h ev (PaymentReleased i p a) s = (0 \<le> a)"
| "escrow_admissible h ev _ s = True"

end
