(* ===== verification/SG_Settlement.thy ===== *)
theory SG_Settlement
  imports SG_Commerce
begin

text \<open>
  What the escrow handlers keep true of the store: the counters of the contract and of the
  engagements are sums over the job table, a job is settled exactly when it was completed and
  paid, and the last settled job of an engagement is evidence that can be looked up. The
  predicates take the tables as arguments, so that handlers of other data sources, which leave
  these tables alone, keep them for free.
\<close>

section \<open>The invariant\<close>

definition job_ok :: "(bytes \<rightharpoonup> AgenticCommerce) \<Rightarrow> (bytes \<rightharpoonup> Engagement) \<Rightarrow> bytes \<Rightarrow> Job \<Rightarrow> bool" where
  "job_ok cs es k j \<longleftrightarrow> jo_id j = k \<and> cs (jo_agenticCommerce j) \<noteq> None
     \<and> (\<forall>e. jo_engagement j = Some e \<longrightarrow> es e \<noteq> None)
     \<and> 0 \<le> jo_providerPayment j
     \<and> (jo_settled j \<longrightarrow> 0 < jo_providerPayment j \<and> jo_settledAt j \<noteq> None)
     \<and> (jo_status j = COMPLETED \<and> jo_providerPayment j \<noteq> 0 \<longrightarrow> jo_settled j)
     \<and> 0 \<le> jo_expiresAt j \<and> jo_expiresAt j \<le> MAX_TIMESTAMP_SECONDS"

definition count_if :: "('a \<Rightarrow> bool) \<Rightarrow> 'a \<Rightarrow> int" where
  "count_if P x = (if P x then 1 else 0)"

definition amount_if :: "('a \<Rightarrow> bool) \<Rightarrow> ('a \<Rightarrow> int) \<Rightarrow> 'a \<Rightarrow> int" where
  "amount_if P f x = (if P x then f x else 0)"

text \<open>The row of a contract: its jobs, its settled jobs and the money that went back are counted
  exactly; the settled volume is what had been paid when the jobs settled.\<close>

definition commerce_ok :: "(bytes \<rightharpoonup> Job) \<Rightarrow> bytes \<Rightarrow> AgenticCommerce \<Rightarrow> bool" where
  "commerce_ok js c row \<longleftrightarrow> cm_id row = c
     \<and> cm_jobCount row = table_sum (count_if (\<lambda>j. jo_agenticCommerce j = c)) js
     \<and> cm_settledJobCount row = table_sum (count_if (\<lambda>j. jo_agenticCommerce j = c \<and> jo_settled j)) js
     \<and> cm_refundedVolume row = table_sum (amount_if (\<lambda>j. jo_agenticCommerce j = c) jo_refundedAmount) js
     \<and> cm_settledVolume row \<le> table_sum (amount_if (\<lambda>j. jo_agenticCommerce j = c \<and> jo_settled j) jo_providerPayment) js
     \<and> cm_settledJobCount row \<le> cm_settledVolume row"

definition engagement_ok :: "(bytes \<rightharpoonup> Job) \<Rightarrow> bytes \<Rightarrow> Engagement \<Rightarrow> bool" where
  "engagement_ok js e row \<longleftrightarrow> en_id row = e
     \<and> en_jobCount row = table_sum (count_if (\<lambda>j. jo_engagement j = Some e)) js
     \<and> 0 \<le> en_settledJobCount row
     \<and> en_settledJobCount row \<le> table_sum (count_if (\<lambda>j. jo_engagement j = Some e \<and> jo_settled j)) js
     \<and> (0 < en_settledJobCount row \<longrightarrow>
          (\<exists>k j. en_lastSettledJob row = Some k \<and> js k = Some j \<and> jo_settled j \<and> jo_engagement j = Some e))"

definition escrow_tables ::
  "(bytes \<rightharpoonup> Job) \<Rightarrow> (bytes \<rightharpoonup> AgenticCommerce) \<Rightarrow> (bytes \<rightharpoonup> Engagement) \<Rightarrow> bool" where
  "escrow_tables js cs es \<longleftrightarrow> finite (dom js)
     \<and> (\<forall>k j. js k = Some j \<longrightarrow> job_ok cs es k j)
     \<and> (\<forall>c row. cs c = Some row \<longrightarrow> commerce_ok js c row)
     \<and> (\<forall>e row. es e = Some row \<longrightarrow> engagement_ok js e row)"

definition same_chain :: "Host \<Rightarrow> (bytes \<rightharpoonup> AgenticCommerce) \<Rightarrow> bool" where
  "same_chain h cs \<longleftrightarrow> (\<forall>c row. cs c = Some row \<longrightarrow> cm_chainId row = h_chainId h)"

definition escrow_ok :: "Host \<Rightarrow> Store \<Rightarrow> bool" where
  "escrow_ok h s \<longleftrightarrow> escrow_tables (st_jobs s) (st_commerces s) (st_engagements s) \<and> same_chain h (st_commerces s)"

lemmas save_defs = saveAccount_def saveAgent_def saveJob_def saveJobEvent_def saveCommerce_def
  saveEngagement_def saveBinding_def saveIdentityRegistry_def saveReputationRegistry_def saveFeedback_def

section \<open>What the helpers leave alone\<close>

lemma getOrCreateAccount_frame [simp]:
  "st_jobs (snd (getOrCreateAccount a s)) = st_jobs s"
  "st_commerces (snd (getOrCreateAccount a s)) = st_commerces s"
  "st_engagements (snd (getOrCreateAccount a s)) = st_engagements s"
  "st_agents (snd (getOrCreateAccount a s)) = st_agents s"
  "st_bindings (snd (getOrCreateAccount a s)) = st_bindings s"
  "st_agentPoints (snd (getOrCreateAccount a s)) = st_agentPoints s"
  "st_feedback (snd (getOrCreateAccount a s)) = st_feedback s"
  "st_feedbackPoints (snd (getOrCreateAccount a s)) = st_feedbackPoints s"
  "st_identityRegistries (snd (getOrCreateAccount a s)) = st_identityRegistries s"
  "st_reputationRegistries (snd (getOrCreateAccount a s)) = st_reputationRegistries s"
  "st_documents (snd (getOrCreateAccount a s)) = st_documents s"
  by (auto simp: getOrCreateAccount_def saveAccount_def Let_def split: option.splits)

lemma saveJobEvent_frame [simp]:
  "st_jobs (saveJobEvent r s) = st_jobs s"
  "st_commerces (saveJobEvent r s) = st_commerces s"
  "st_engagements (saveJobEvent r s) = st_engagements s"
  "st_agents (saveJobEvent r s) = st_agents s"
  "st_bindings (saveJobEvent r s) = st_bindings s"
  "st_agentPoints (saveJobEvent r s) = st_agentPoints s"
  by (simp_all add: saveJobEvent_def)

lemma settle_agents_frame [simp]:
  "st_jobs (settle_provider j a t s) = st_jobs s"
  "st_commerces (settle_provider j a t s) = st_commerces s"
  "st_engagements (settle_provider j a t s) = st_engagements s"
  "st_bindings (settle_provider j a t s) = st_bindings s"
  "st_jobs (settle_client j a t s) = st_jobs s"
  "st_commerces (settle_client j a t s) = st_commerces s"
  "st_engagements (settle_client j a t s) = st_engagements s"
  "st_bindings (settle_client j a t s) = st_bindings s"
  by (auto simp: settle_provider_def settle_client_def recordAgentMetric_def saveAgent_def Let_def split: option.splits)

lemma settle_rows_frame [simp]:
  "st_jobs (settle_commerce j a t s) = st_jobs s"
  "st_engagements (settle_commerce j a t s) = st_engagements s"
  "st_agents (settle_commerce j a t s) = st_agents s"
  "st_bindings (settle_commerce j a t s) = st_bindings s"
  "st_agentPoints (settle_commerce j a t s) = st_agentPoints s"
  "st_jobs (settle_engagement j a t s) = st_jobs s"
  "st_commerces (settle_engagement j a t s) = st_commerces s"
  "st_agents (settle_engagement j a t s) = st_agents s"
  "st_bindings (settle_engagement j a t s) = st_bindings s"
  "st_agentPoints (settle_engagement j a t s) = st_agentPoints s"
  by (auto simp: settle_commerce_def settle_engagement_def saveCommerce_def saveEngagement_def split: option.splits)

section \<open>Settling as an effect on the tables\<close>

definition will_settle :: "Job \<Rightarrow> bool" where
  "will_settle j \<longleftrightarrow> \<not> jo_settled j \<and> jo_status j = COMPLETED \<and> jo_providerPayment j \<noteq> 0"

definition settled_job :: "Event \<Rightarrow> Job \<Rightarrow> Job" where
  "settled_job ev j = (if will_settle j then j\<lparr>jo_settled := True, jo_settledAt := Some (event_time ev)\<rparr> else j)"

definition settled_commerce :: "Event \<Rightarrow> Job \<Rightarrow> AgenticCommerce \<Rightarrow> AgenticCommerce" where
  "settled_commerce ev j c = c\<lparr>cm_settledJobCount := cm_settledJobCount c + 1,
     cm_settledVolume := cm_settledVolume c + jo_providerPayment j, cm_updatedAt := event_time ev\<rparr>"

definition settled_engagement :: "Event \<Rightarrow> Job \<Rightarrow> Engagement \<Rightarrow> Engagement" where
  "settled_engagement ev j e = e\<lparr>en_settledJobCount := en_settledJobCount e + 1,
     en_settledVolume := en_settledVolume e + jo_providerPayment j, en_lastSettledJob := Some (jo_id j),
     en_lastSettledAt := Some (event_time ev), en_updatedAt := event_time ev\<rparr>"

lemma settled_job_simps [simp]:
  "jo_id (settled_job ev j) = jo_id j"
  "jo_agenticCommerce (settled_job ev j) = jo_agenticCommerce j"
  "jo_engagement (settled_job ev j) = jo_engagement j"
  "jo_providerPayment (settled_job ev j) = jo_providerPayment j"
  "jo_refundedAmount (settled_job ev j) = jo_refundedAmount j"
  "jo_status (settled_job ev j) = jo_status j"
  "jo_expiresAt (settled_job ev j) = jo_expiresAt j"
  "jo_settled (settled_job ev j) = (jo_settled j \<or> will_settle j)"
  by (simp_all add: settled_job_def)

text \<open>A change of one row of a keyed table, by its identifier.\<close>

definition adjust :: "bytes \<Rightarrow> ('e \<Rightarrow> 'e) \<Rightarrow> (bytes \<rightharpoonup> 'e) \<Rightarrow> bytes \<rightharpoonup> 'e" where
  "adjust k f t = (case t k of None \<Rightarrow> t | Some x \<Rightarrow> t(k \<mapsto> f x))"

lemma adjust_chain:
  "same_chain h cs \<Longrightarrow> (\<And>row. cm_chainId (f row) = cm_chainId row) \<Longrightarrow> same_chain h (adjust c f cs)"
  by (auto simp: same_chain_def adjust_def split: option.splits if_splits)

lemma settled_chain: "same_chain h cs \<Longrightarrow> same_chain h (adjust c (settled_commerce ev j) cs)"
  by (rule adjust_chain) (simp_all add: settled_commerce_def)

lemma adjust_apply: "adjust k f t x = (if x = k then map_option f (t k) else t x)"
  by (simp add: adjust_def split: option.splits)

lemma markSettledIfPaid_effect:
  assumes "\<forall>c row. st_commerces s c = Some row \<longrightarrow> cm_id row = c"
    and "\<forall>e row. st_engagements s e = Some row \<longrightarrow> en_id row = e"
  shows "fst (markSettledIfPaid j ev s) = settled_job ev j"
    "st_jobs (snd (markSettledIfPaid j ev s)) = st_jobs s"
    "st_bindings (snd (markSettledIfPaid j ev s)) = st_bindings s"
    "st_commerces (snd (markSettledIfPaid j ev s)) =
       (if will_settle j then adjust (jo_agenticCommerce j) (settled_commerce ev j) (st_commerces s) else st_commerces s)"
    "st_engagements (snd (markSettledIfPaid j ev s)) =
       (if will_settle j then (case jo_engagement j of None \<Rightarrow> st_engagements s
          | Some e \<Rightarrow> adjust e (settled_engagement ev j) (st_engagements s)) else st_engagements s)"
proof -
  have c: "st_commerces (settle_commerce j' a (ev_timestamp ev) s) = adjust (jo_agenticCommerce j) (settled_commerce ev j) (st_commerces s)"
    if "jo_agenticCommerce j' = jo_agenticCommerce j" "a = jo_providerPayment j" for j' a
    using that assms(1)
    by (auto simp: settle_commerce_def saveCommerce_def adjust_def settled_commerce_def event_time_def split: option.splits)
  have e: "st_engagements (settle_engagement j' a (ev_timestamp ev) s') = (case jo_engagement j of None \<Rightarrow> st_engagements s
          | Some e \<Rightarrow> adjust e (settled_engagement ev j) (st_engagements s))"
    if "jo_engagement j' = jo_engagement j" "a = jo_providerPayment j" "jo_id j' = jo_id j" "st_engagements s' = st_engagements s" for j' a s'
    using that assms(2)
    by (auto simp: settle_engagement_def saveEngagement_def adjust_def settled_engagement_def event_time_def split: option.splits)
  show "fst (markSettledIfPaid j ev s) = settled_job ev j"
    "st_jobs (snd (markSettledIfPaid j ev s)) = st_jobs s"
    "st_bindings (snd (markSettledIfPaid j ev s)) = st_bindings s"
    by (simp_all add: markSettledIfPaid_def settled_job_def will_settle_def Let_def)
  show "st_commerces (snd (markSettledIfPaid j ev s)) =
       (if will_settle j then adjust (jo_agenticCommerce j) (settled_commerce ev j) (st_commerces s) else st_commerces s)"
    by (simp add: markSettledIfPaid_def will_settle_def Let_def c)
  show "st_engagements (snd (markSettledIfPaid j ev s)) =
       (if will_settle j then (case jo_engagement j of None \<Rightarrow> st_engagements s
          | Some e \<Rightarrow> adjust e (settled_engagement ev j) (st_engagements s)) else st_engagements s)"
    by (simp add: markSettledIfPaid_def will_settle_def Let_def e)
qed

section \<open>Changing one job\<close>

lemma job_ok_mono:
  assumes "job_ok cs es k j" "\<forall>c. cs c \<noteq> None \<longrightarrow> cs' c \<noteq> None" "\<forall>e. es e \<noteq> None \<longrightarrow> es' e \<noteq> None"
  shows "job_ok cs' es' k j"
  using assms by (auto simp: job_ok_def)

lemma escrow_update:
  assumes "escrow_tables js cs es"
    and "\<forall>c. cs c \<noteq> None \<longrightarrow> cs' c \<noteq> None" "\<forall>e. es e \<noteq> None \<longrightarrow> es' e \<noteq> None"
    and "job_ok cs' es' k j'"
    and "\<forall>c row. cs' c = Some row \<longrightarrow> commerce_ok (js(k \<mapsto> j')) c row"
    and "\<forall>e row. es' e = Some row \<longrightarrow> engagement_ok (js(k \<mapsto> j')) e row"
  shows "escrow_tables (js(k \<mapsto> j')) cs' es'"
proof -
  have "job_ok cs' es' x i" if "js x = Some i" for x i
    using assms(1) that by (intro job_ok_mono [OF _ assms(2,3)]) (simp add: escrow_tables_def)
  then show ?thesis using assms by (auto simp: escrow_tables_def)
qed

text \<open>Two versions of a job that count the same everywhere, the later one paid at least as much.\<close>

definition same_account :: "Job \<Rightarrow> Job \<Rightarrow> bool" where
  "same_account j j' \<longleftrightarrow> jo_id j' = jo_id j \<and> jo_agenticCommerce j' = jo_agenticCommerce j
     \<and> jo_engagement j' = jo_engagement j \<and> jo_settled j' = jo_settled j
     \<and> jo_settledAt j' = jo_settledAt j \<and> jo_refundedAmount j' = jo_refundedAmount j
     \<and> jo_expiresAt j' = jo_expiresAt j \<and> jo_providerPayment j \<le> jo_providerPayment j'"

lemma commerce_ok_same:
  assumes "commerce_ok js c row" "finite (dom js)" "js k = Some j" "same_account j j'"
  shows "commerce_ok (js(k \<mapsto> j')) c row"
  using assms by (auto simp: commerce_ok_def table_sum_upd count_if_def amount_if_def same_account_def)

lemma engagement_ok_same:
  assumes "engagement_ok js e row" "finite (dom js)" "js k = Some j"
    "jo_engagement j' = jo_engagement j" "jo_settled j' = jo_settled j"
  shows "engagement_ok (js(k \<mapsto> j')) e row"
proof -
  have "\<exists>x i. en_lastSettledJob row = Some x \<and> (js(k \<mapsto> j')) x = Some i \<and> jo_settled i \<and> jo_engagement i = Some e"
    if "0 < en_settledJobCount row"
  proof -
    from that assms(1) obtain x i where *: "en_lastSettledJob row = Some x" "js x = Some i" "jo_settled i" "jo_engagement i = Some e"
      by (auto simp: engagement_ok_def)
    show ?thesis
    proof (cases "x = k")
      case True
      with * assms(3-5) show ?thesis by (intro exI [of _ x] exI [of _ j']) auto
    next
      case False
      with * show ?thesis by auto
    qed
  qed
  then show ?thesis
    using assms by (auto simp: engagement_ok_def table_sum_upd count_if_def)
qed

lemma escrow_same:
  assumes T: "escrow_tables js cs es" and k: "js k = Some j" and j: "same_account j j'"
    and paid: "jo_status j' = COMPLETED \<and> jo_providerPayment j' \<noteq> 0 \<longrightarrow> jo_settled j'"
  shows "escrow_tables (js(k \<mapsto> j')) cs es"
proof (rule escrow_update [OF T])
  have "job_ok cs es k j" using T k by (simp add: escrow_tables_def)
  then show "job_ok cs es k j'" using j paid by (auto simp: job_ok_def same_account_def)
qed (use T k j in \<open>auto simp: escrow_tables_def same_account_def intro: commerce_ok_same engagement_ok_same\<close>)

text \<open>Settling: the job becomes settled, and the rows of its contract and engagement count it.\<close>

lemma commerce_ok_settle:
  assumes "commerce_ok js (jo_agenticCommerce j') row" "finite (dom js)" "js k = Some j" "same_account j j'"
    "\<not> jo_settled j" "0 < jo_providerPayment j'"
  shows "commerce_ok (js(k \<mapsto> j'\<lparr>jo_settled := True, jo_settledAt := t\<rparr>)) (jo_agenticCommerce j') (settled_commerce ev j' row)"
  using assms
  by (auto simp: commerce_ok_def table_sum_upd count_if_def amount_if_def same_account_def settled_commerce_def)

lemma commerce_ok_settle_other:
  assumes "commerce_ok js c row" "finite (dom js)" "js k = Some j" "same_account j j'" "c \<noteq> jo_agenticCommerce j'"
  shows "commerce_ok (js(k \<mapsto> j'\<lparr>jo_settled := True, jo_settledAt := t\<rparr>)) c row"
  using assms by (auto simp: commerce_ok_def table_sum_upd count_if_def amount_if_def same_account_def)

lemma engagement_ok_settle:
  assumes "engagement_ok js e row" "finite (dom js)" "js k = Some j" "same_account j j'"
    "\<not> jo_settled j" "jo_engagement j' = Some e" "jo_id j' = k"
  shows "engagement_ok (js(k \<mapsto> j'\<lparr>jo_settled := True, jo_settledAt := t\<rparr>)) e (settled_engagement ev j' row)"
  using assms
  by (auto simp: engagement_ok_def table_sum_upd count_if_def same_account_def settled_engagement_def)

lemma engagement_ok_settle_other:
  assumes "engagement_ok js e row" "finite (dom js)" "js k = Some j" "same_account j j'"
    "\<not> jo_settled j" "jo_engagement j' \<noteq> Some e"
  shows "engagement_ok (js(k \<mapsto> j'\<lparr>jo_settled := True, jo_settledAt := t\<rparr>)) e row"
proof -
  have "x \<noteq> k" if "js x = Some i" "jo_settled i" for x i using that assms(3,5) by auto
  then show ?thesis
    using assms by (auto simp: engagement_ok_def table_sum_upd count_if_def same_account_def)
qed

lemma escrow_settle:
  assumes T: "escrow_tables js cs es" and k: "js k = Some j" and j: "same_account j j'" and w: "will_settle j'"
  shows "escrow_tables (js(k \<mapsto> settled_job ev j'))
     (adjust (jo_agenticCommerce j') (settled_commerce ev j') cs)
     (case jo_engagement j' of None \<Rightarrow> es | Some e \<Rightarrow> adjust e (settled_engagement ev j') es)"
proof (rule escrow_update [OF T])
  have J: "job_ok cs es k j" using T k by (simp add: escrow_tables_def)
  have fin: "finite (dom js)" using T by (simp add: escrow_tables_def)
  from w j have u: "\<not> jo_settled j" by (auto simp: will_settle_def same_account_def)
  from w j J have p: "0 < jo_providerPayment j'" by (auto simp: will_settle_def same_account_def job_ok_def)
  from j J have i: "jo_id j' = k" by (auto simp: same_account_def job_ok_def)
  have s: "settled_job ev j' = j'\<lparr>jo_settled := True, jo_settledAt := Some (event_time ev)\<rparr>"
    using w by (simp add: settled_job_def)
  show d1: "\<forall>c. cs c \<noteq> None \<longrightarrow> adjust (jo_agenticCommerce j') (settled_commerce ev j') cs c \<noteq> None"
    by (simp add: adjust_apply)
  show d2: "\<forall>e. es e \<noteq> None \<longrightarrow>
      (case jo_engagement j' of None \<Rightarrow> es | Some e \<Rightarrow> adjust e (settled_engagement ev j') es) e \<noteq> None"
    by (simp add: adjust_apply split: option.splits)
  have "job_ok cs es k (settled_job ev j')"
    using J j w p i by (auto simp: job_ok_def same_account_def s)
  then show "job_ok (adjust (jo_agenticCommerce j') (settled_commerce ev j') cs)
      (case jo_engagement j' of None \<Rightarrow> es | Some e \<Rightarrow> adjust e (settled_engagement ev j') es) k (settled_job ev j')"
    by (rule job_ok_mono [OF _ d1 d2])
  show "\<forall>c row. adjust (jo_agenticCommerce j') (settled_commerce ev j') cs c = Some row \<longrightarrow>
      commerce_ok (js(k \<mapsto> settled_job ev j')) c row"
    using T u p by (auto simp: s adjust_apply escrow_tables_def split: if_splits
        intro: commerce_ok_settle [OF _ fin k j] commerce_ok_settle_other [OF _ fin k j])
  show "\<forall>e row. (case jo_engagement j' of None \<Rightarrow> es | Some e \<Rightarrow> adjust e (settled_engagement ev j') es) e = Some row \<longrightarrow>
      engagement_ok (js(k \<mapsto> settled_job ev j')) e row"
    using T by (auto simp: s adjust_apply escrow_tables_def split: if_splits option.splits
        intro: engagement_ok_settle [OF _ fin k j u _ i] engagement_ok_settle_other [OF _ fin k j u])
qed

section \<open>Refunding, linking and creating a job\<close>

lemma escrow_job_refs:
  assumes "escrow_tables js cs es" "js x = Some i"
  shows "cs (jo_agenticCommerce i) \<noteq> None" "jo_engagement i = Some e \<Longrightarrow> es e \<noteq> None"
proof -
  have "job_ok cs es x i" using assms by (simp add: escrow_tables_def)
  then show "cs (jo_agenticCommerce i) \<noteq> None" "jo_engagement i = Some e \<Longrightarrow> es e \<noteq> None"
    by (auto simp: job_ok_def)
qed

lemma escrow_refund:
  assumes T: "escrow_tables js cs es" and k: "js k = Some j"
    and j: "same_account (j\<lparr>jo_refundedAmount := jo_refundedAmount j + amount\<rparr>) j'"
    and paid: "jo_status j' = jo_status j" "jo_providerPayment j' = jo_providerPayment j"
    and f: "\<forall>row. cm_id (f row) = cm_id row \<and> cm_jobCount (f row) = cm_jobCount row
        \<and> cm_settledJobCount (f row) = cm_settledJobCount row \<and> cm_settledVolume (f row) = cm_settledVolume row
        \<and> cm_refundedVolume (f row) = cm_refundedVolume row + amount"
  shows "escrow_tables (js(k \<mapsto> j')) (adjust (jo_agenticCommerce j) f cs) es"
proof (rule escrow_update [OF T])
  have J: "job_ok cs es k j" and fin: "finite (dom js)" using T k by (auto simp: escrow_tables_def)
  show d: "\<forall>c. cs c \<noteq> None \<longrightarrow> adjust (jo_agenticCommerce j) f cs c \<noteq> None" by (simp add: adjust_apply)
  have "job_ok cs es k j'" using J j paid by (auto simp: job_ok_def same_account_def)
  then show "job_ok (adjust (jo_agenticCommerce j) f cs) es k j'" by (rule job_ok_mono [OF _ d]) simp
  have own: "commerce_ok (js(k \<mapsto> j')) (jo_agenticCommerce j) (f row)" if "commerce_ok js (jo_agenticCommerce j) row" for row
    using that k j f fin paid
    by (auto simp: commerce_ok_def table_sum_upd count_if_def amount_if_def same_account_def)
  have other: "commerce_ok (js(k \<mapsto> j')) c row" if "commerce_ok js c row" "c \<noteq> jo_agenticCommerce j" for c row
    using that k j fin paid
    by (auto simp: commerce_ok_def table_sum_upd count_if_def amount_if_def same_account_def)
  show "\<forall>c row. adjust (jo_agenticCommerce j) f cs c = Some row \<longrightarrow> commerce_ok (js(k \<mapsto> j')) c row"
    using T by (auto simp: adjust_apply escrow_tables_def intro: own other split: if_splits)
  show "\<forall>e row. es e = Some row \<longrightarrow> engagement_ok (js(k \<mapsto> j')) e row"
    using T k j fin by (auto simp: escrow_tables_def same_account_def intro: engagement_ok_same)
qed simp

text \<open>A job that was not part of an engagement is no evidence for it.\<close>

lemma evidence_keep:
  assumes "engagement_ok js e row" "\<forall>i. js k = Some i \<longrightarrow> jo_engagement i \<noteq> Some e" "0 < en_settledJobCount row"
  shows "\<exists>x i. en_lastSettledJob row = Some x \<and> (js(k \<mapsto> j')) x = Some i \<and> jo_settled i \<and> jo_engagement i = Some e"
proof -
  from assms(1,3) obtain x i where *: "en_lastSettledJob row = Some x" "js x = Some i" "jo_settled i" "jo_engagement i = Some e"
    by (auto simp: engagement_ok_def)
  with assms(2) have "x \<noteq> k" by auto
  with * show ?thesis by auto
qed

lemma engagement_ok_apart:
  assumes "engagement_ok js e row" "finite (dom js)" "\<forall>i. js k = Some i \<longrightarrow> jo_engagement i \<noteq> Some e" "jo_engagement j' \<noteq> Some e"
  shows "engagement_ok (js(k \<mapsto> j')) e row"
proof -
  have "0 < en_settledJobCount row \<longrightarrow> (\<exists>x i. en_lastSettledJob row = Some x \<and> (js(k \<mapsto> j')) x = Some i \<and> jo_settled i \<and> jo_engagement i = Some e)"
    using evidence_keep [OF assms(1,3)] by blast
  then show ?thesis
    using assms unfolding engagement_ok_def by (simp add: table_sum_upd count_if_def split: option.splits)
qed

lemma engagement_ok_joined:
  assumes "engagement_ok js e row" "finite (dom js)" "js k = Some j" "jo_engagement j = None" "jo_engagement j' = Some e"
    "en_id row' = en_id row" "en_jobCount row' = en_jobCount row + 1"
    "en_settledJobCount row' = en_settledJobCount row" "en_lastSettledJob row' = en_lastSettledJob row"
  shows "engagement_ok (js(k \<mapsto> j')) e row'"
proof -
  have "0 < en_settledJobCount row \<longrightarrow> (\<exists>x i. en_lastSettledJob row = Some x \<and> (js(k \<mapsto> j')) x = Some i \<and> jo_settled i \<and> jo_engagement i = Some e)"
    using evidence_keep [OF assms(1), of k j'] assms(3,4) by simp
  then show ?thesis
    using assms unfolding engagement_ok_def by (simp add: table_sum_upd count_if_def)
qed

lemma escrow_link:
  assumes T: "escrow_tables js cs es" and k: "js k = Some j" and n: "jo_engagement j = None"
    and j: "same_account (j\<lparr>jo_engagement := Some e\<rparr>) j'"
    and paid: "jo_status j' = jo_status j" "jo_providerPayment j' = jo_providerPayment j"
    and r: "es e = Some row \<or> es e = None \<and> en_id row = e \<and> en_jobCount row = 0 \<and> en_settledJobCount row = 0"
    and r': "en_id row' = en_id row" "en_jobCount row' = en_jobCount row + 1"
      "en_settledJobCount row' = en_settledJobCount row" "en_lastSettledJob row' = en_lastSettledJob row"
  shows "escrow_tables (js(k \<mapsto> j')) cs (es(e \<mapsto> row'))"
proof (rule escrow_update [OF T])
  have J: "job_ok cs es k j" and fin: "finite (dom js)" using T k by (auto simp: escrow_tables_def)
  show "job_ok cs (es(e \<mapsto> row')) k j'" using J j paid by (auto simp: job_ok_def same_account_def)
  have z: "engagement_ok js e row"
  proof (cases "es e")
    case None
    then have "\<forall>x i. js x = Some i \<longrightarrow> jo_engagement i \<noteq> Some e" using escrow_job_refs(2) [OF T] by blast
    then have "table_sum (count_if (\<lambda>j. jo_engagement j = Some e)) js = 0"
      "table_sum (count_if (\<lambda>j. jo_engagement j = Some e \<and> jo_settled j)) js = 0"
      by (auto simp: count_if_def intro!: table_sum_zero)
    with None r show ?thesis by (auto simp: engagement_ok_def)
  next
    case (Some a)
    with T r show ?thesis by (auto simp: escrow_tables_def)
  qed
  show "\<forall>e' row''. (es(e \<mapsto> row')) e' = Some row'' \<longrightarrow> engagement_ok (js(k \<mapsto> j')) e' row''"
  proof (intro allI impI)
    fix e' row'' assume *: "(es(e \<mapsto> row')) e' = Some row''"
    have "jo_engagement j' = Some e" using j by (simp add: same_account_def)
    then show "engagement_ok (js(k \<mapsto> j')) e' row''"
      using * T k n fin r' engagement_ok_joined [OF z fin k n _ r', of j']
      by (cases "e' = e") (auto simp: escrow_tables_def intro!: engagement_ok_apart)
  qed
  have "commerce_ok (js(k \<mapsto> j')) c row" if "commerce_ok js c row" for c row
    using that k j fin paid by (auto simp: commerce_ok_def table_sum_upd count_if_def amount_if_def same_account_def)
  then show "\<forall>c row. cs c = Some row \<longrightarrow> commerce_ok (js(k \<mapsto> j')) c row"
    using T by (simp add: escrow_tables_def)
qed simp_all

lemma escrow_new_job:
  assumes T: "escrow_tables js cs es" and k: "js k = None" and c: "cs c = Some row"
    and j: "jo_id j = k" "jo_agenticCommerce j = c" "jo_engagement j = None" "\<not> jo_settled j"
      "jo_refundedAmount j = 0" "jo_providerPayment j = 0" "0 \<le> jo_expiresAt j" "jo_expiresAt j \<le> MAX_TIMESTAMP_SECONDS"
    and r: "cm_id row' = cm_id row" "cm_jobCount row' = cm_jobCount row + 1" "cm_settledJobCount row' = cm_settledJobCount row"
      "cm_settledVolume row' = cm_settledVolume row" "cm_refundedVolume row' = cm_refundedVolume row"
  shows "escrow_tables (js(k \<mapsto> j)) (cs(c \<mapsto> row')) es"
proof (rule escrow_update [OF T])
  have fin: "finite (dom js)" using T by (simp add: escrow_tables_def)
  show "job_ok (cs(c \<mapsto> row')) es k j" using j by (auto simp: job_ok_def)
  show "\<forall>c' row''. (cs(c \<mapsto> row')) c' = Some row'' \<longrightarrow> commerce_ok (js(k \<mapsto> j)) c' row''"
  proof (intro allI impI)
    fix c' row'' assume *: "(cs(c \<mapsto> row')) c' = Some row''"
    show "commerce_ok (js(k \<mapsto> j)) c' row''"
    proof (cases "c' = c")
      case True
      have "commerce_ok js c row" using T c by (simp add: escrow_tables_def)
      with True * k j r fin show ?thesis
        by (auto simp: commerce_ok_def table_sum_upd count_if_def amount_if_def)
    next
      case False
      then have "commerce_ok js c' row''" using * T by (simp add: escrow_tables_def)
      with False k j fin show ?thesis
        by (auto simp: commerce_ok_def table_sum_upd count_if_def amount_if_def)
    qed
  qed
  show "\<forall>e row. es e = Some row \<longrightarrow> engagement_ok (js(k \<mapsto> j)) e row"
    using T k j(3) fin by (auto simp: escrow_tables_def intro!: engagement_ok_apart)
qed simp_all

text \<open>A contract seen for the first time has no jobs yet.\<close>

lemma escrow_new_commerce:
  assumes T: "escrow_tables js cs es" and c: "cs c = None"
    and r: "cm_id row = c" "cm_jobCount row = 0" "cm_settledJobCount row = 0" "cm_settledVolume row = 0" "cm_refundedVolume row = 0"
  shows "escrow_tables js (cs(c \<mapsto> row)) es"
proof -
  have none: "jo_agenticCommerce i \<noteq> c" if "js x = Some i" for x i
    using escrow_job_refs(1) [OF T that] c by auto
  have "table_sum (count_if (\<lambda>j. jo_agenticCommerce j = c)) js = 0"
    "table_sum (count_if (\<lambda>j. jo_agenticCommerce j = c \<and> jo_settled j)) js = 0"
    "table_sum (amount_if (\<lambda>j. jo_agenticCommerce j = c) jo_refundedAmount) js = 0"
    "table_sum (amount_if (\<lambda>j. jo_agenticCommerce j = c \<and> jo_settled j) jo_providerPayment) js = 0"
    using none by (auto simp: count_if_def amount_if_def intro!: table_sum_zero)
  then have "commerce_ok js c row" using r by (simp add: commerce_ok_def)
  then show ?thesis using T by (auto simp: escrow_tables_def job_ok_def)
qed

lemma escrow_row:
  assumes T: "escrow_tables js cs es" and c: "cs c = Some row"
    and r: "cm_id row' = cm_id row" "cm_jobCount row' = cm_jobCount row" "cm_settledJobCount row' = cm_settledJobCount row"
      "cm_settledVolume row' = cm_settledVolume row" "cm_refundedVolume row' = cm_refundedVolume row"
  shows "escrow_tables js (cs(c \<mapsto> row')) es"
proof -
  have "commerce_ok js c row" using T c by (simp add: escrow_tables_def)
  then have "commerce_ok js c row'" using r by (simp add: commerce_ok_def)
  then show ?thesis using T by (auto simp: escrow_tables_def job_ok_def)
qed

section \<open>The handlers keep the invariant\<close>

lemma escrow_keyed:
  assumes "escrow_ok h s"
  shows "\<forall>c row. st_commerces s c = Some row \<longrightarrow> cm_id row = c"
    "\<forall>e row. st_engagements s e = Some row \<longrightarrow> en_id row = e"
    "\<forall>k j. st_jobs s k = Some j \<longrightarrow> jo_id j = k"
  using assms by (auto simp: escrow_ok_def escrow_tables_def commerce_ok_def engagement_ok_def job_ok_def)

lemma eventJob_Some:
  assumes "escrow_ok h s" "eventJob h ev i s = Some j"
  shows "st_jobs s (jo_id j) = Some j" "jo_id j = jobEntityId (h_chainId h) (ev_address ev) i"
  using assms escrow_keyed(3) [OF assms(1)] by (auto simp: eventJob_def getJob_def)

lemma escrow_touch:
  assumes ok: "escrow_ok h s" and ev: "eventJob h ev i s = Some j" and a: "same_account j j'"
    and paid: "jo_status j' = COMPLETED \<longrightarrow> jo_status j = COMPLETED \<and> jo_providerPayment j' = jo_providerPayment j"
    and s': "st_jobs s' = (st_jobs s)(jo_id j \<mapsto> j')" "st_commerces s' = st_commerces s" "st_engagements s' = st_engagements s"
  shows "escrow_ok h s'"
proof -
  have "job_ok (st_commerces s) (st_engagements s) (jo_id j) j"
    using ok eventJob_Some(1) [OF ok ev] by (simp add: escrow_ok_def escrow_tables_def)
  then have "jo_status j' = COMPLETED \<and> jo_providerPayment j' \<noteq> 0 \<longrightarrow> jo_settled j'"
    using paid a by (auto simp: job_ok_def same_account_def)
  then show ?thesis
    using escrow_same [of "st_jobs s" "st_commerces s" "st_engagements s" "jo_id j" j j'] ok s' a
      eventJob_Some(1) [OF ok ev] by (simp add: escrow_ok_def)
qed

lemma touchJob_simps [simp]:
  "jo_id (touchJob j ev) = jo_id j"
  "jo_agenticCommerce (touchJob j ev) = jo_agenticCommerce j"
  "jo_engagement (touchJob j ev) = jo_engagement j"
  "jo_clientAgent (touchJob j ev) = jo_clientAgent j"
  "jo_providerAgent (touchJob j ev) = jo_providerAgent j"
  by (simp_all add: touchJob_def)

lemmas handler_simps = Let_def case_prod_beta touchJob_def saveJob_def same_account_def

lemma escrow_BudgetSet:
  assumes ok: "escrow_ok h s"
  shows "escrow_ok h (handleBudgetSet h ev i a s)"
proof (cases "eventJob h ev i s")
  case (Some j)
  show ?thesis
    by (rule escrow_touch [OF ok Some, where j' = "touchJob (j\<lparr>jo_budget := a\<rparr>) ev"])
       (simp_all add: handleBudgetSet_def Some handler_simps)
qed (use ok in \<open>simp add: handleBudgetSet_def\<close>)

lemma escrow_JobFunded:
  assumes ok: "escrow_ok h s"
  shows "escrow_ok h (handleJobFunded h ev i c a s)"
proof (cases "eventJob h ev i s")
  case (Some j)
  show ?thesis
    by (rule escrow_touch [OF ok Some, where j' = "touchJob (j\<lparr>jo_status := FUNDED\<rparr>) ev"])
       (simp_all add: handleJobFunded_def Some handler_simps)
qed (use ok in \<open>simp add: handleJobFunded_def\<close>)

lemma escrow_JobSubmitted:
  assumes ok: "escrow_ok h s"
  shows "escrow_ok h (handleJobSubmitted h ev i p d s)"
proof (cases "eventJob h ev i s")
  case (Some j)
  show ?thesis
    by (rule escrow_touch [OF ok Some, where j' = "touchJob (j\<lparr>jo_status := SUBMITTED, jo_submittedAt := Some (event_time ev), jo_deliverable := Some d\<rparr>) ev"])
       (simp_all add: handleJobSubmitted_def Some handler_simps)
qed (use ok in \<open>simp add: handleJobSubmitted_def\<close>)

lemma escrow_JobRejected:
  assumes ok: "escrow_ok h s"
  shows "escrow_ok h (handleJobRejected h ev i r d s)"
proof (cases "eventJob h ev i s")
  case (Some j)
  show ?thesis
    by (rule escrow_touch [OF ok Some, where j' = "touchJob (j\<lparr>jo_status := REJECTED, jo_rejectionReason := Some d\<rparr>) ev"])
       (simp_all add: handleJobRejected_def Some handler_simps)
qed (use ok in \<open>simp add: handleJobRejected_def\<close>)

lemma escrow_JobExpired:
  assumes ok: "escrow_ok h s"
  shows "escrow_ok h (handleJobExpired h ev i s)"
proof (cases "eventJob h ev i s")
  case (Some j)
  show ?thesis
    by (rule escrow_touch [OF ok Some, where j' = "touchJob (j\<lparr>jo_status := EXPIRED\<rparr>) ev"])
       (simp_all add: handleJobExpired_def Some handler_simps)
qed (use ok in \<open>simp add: handleJobExpired_def\<close>)

lemma escrow_EvaluatorFeePaid:
  assumes ok: "escrow_ok h s"
  shows "escrow_ok h (handleEvaluatorFeePaid h ev i e a s)"
proof (cases "eventJob h ev i s")
  case (Some j)
  show ?thesis
    by (rule escrow_touch [OF ok Some, where j' = "touchJob (j\<lparr>jo_evaluatorFeePaid := jo_evaluatorFeePaid j + a\<rparr>) ev"])
       (simp_all add: handleEvaluatorFeePaid_def Some handler_simps)
qed (use ok in \<open>simp add: handleEvaluatorFeePaid_def\<close>)

text \<open>The two handlers that can settle a job.\<close>

lemma escrow_mark:
  assumes ok: "escrow_ok h s" and ev: "eventJob h ev i s = Some j" and a: "same_account j j'"
    and s': "st_jobs s' = (st_jobs s)(jo_id j \<mapsto> fst (markSettledIfPaid j' ev s))"
      "st_commerces s' = st_commerces (snd (markSettledIfPaid j' ev s))"
      "st_engagements s' = st_engagements (snd (markSettledIfPaid j' ev s))"
  shows "escrow_ok h s'"
proof (cases "will_settle j'")
  case True
  then show ?thesis
    using escrow_settle [of "st_jobs s" "st_commerces s" "st_engagements s" "jo_id j" j j' ev] ok a s'
      eventJob_Some(1) [OF ok ev] markSettledIfPaid_effect [OF escrow_keyed(1,2) [OF ok]]
    by (simp add: escrow_ok_def settled_chain)
next
  case False
  then have "jo_status j' = COMPLETED \<and> jo_providerPayment j' \<noteq> 0 \<longrightarrow> jo_settled j'"
    by (auto simp: will_settle_def)
  then show ?thesis
    using escrow_same [of "st_jobs s" "st_commerces s" "st_engagements s" "jo_id j" j j'] ok a s' False
      eventJob_Some(1) [OF ok ev] markSettledIfPaid_effect [OF escrow_keyed(1,2) [OF ok]]
    by (simp add: escrow_ok_def settled_job_def)
qed

lemma escrow_JobCompleted:
  assumes ok: "escrow_ok h s"
  shows "escrow_ok h (handleJobCompleted h ev i e r s)"
proof (cases "eventJob h ev i s")
  case (Some j)
  show ?thesis
    by (rule escrow_mark [OF ok Some, where j' = "touchJob (j\<lparr>jo_status := COMPLETED, jo_completionReason := Some r\<rparr>) ev"])
       (simp_all add: handleJobCompleted_def Some handler_simps markSettledIfPaid_effect [OF escrow_keyed(1,2) [OF ok]])
qed (use ok in \<open>simp add: handleJobCompleted_def\<close>)

lemma escrow_PaymentReleased:
  assumes ok: "escrow_ok h s" and a: "0 \<le> a"
  shows "escrow_ok h (handlePaymentReleased h ev i p a s)"
proof (cases "eventJob h ev i s")
  case (Some j)
  show ?thesis
    by (rule escrow_mark [OF ok Some, where j' = "touchJob (j\<lparr>jo_providerPayment := jo_providerPayment j + a\<rparr>) ev"])
       (simp_all add: handlePaymentReleased_def Some handler_simps a markSettledIfPaid_effect [OF escrow_keyed(1,2) [OF ok]])
qed (use ok in \<open>simp add: handlePaymentReleased_def\<close>)

text \<open>Refunds.\<close>

definition refunded_commerce :: "Event \<Rightarrow> int \<Rightarrow> AgenticCommerce \<Rightarrow> AgenticCommerce" where
  "refunded_commerce ev amount c = c\<lparr>cm_refundedVolume := cm_refundedVolume c + amount, cm_updatedAt := event_time ev\<rparr>"

definition refunded_engagement :: "Event \<Rightarrow> int \<Rightarrow> Engagement \<Rightarrow> Engagement" where
  "refunded_engagement ev amount e = e\<lparr>en_refundedVolume := en_refundedVolume e + amount, en_updatedAt := event_time ev\<rparr>"

lemma recordRefund_effect:
  assumes "\<forall>c row. st_commerces s c = Some row \<longrightarrow> cm_id row = c"
    and "\<forall>e row. st_engagements s e = Some row \<longrightarrow> en_id row = e"
  shows "st_jobs (recordRefund j a ev s) = st_jobs s"
    "st_bindings (recordRefund j a ev s) = st_bindings s"
    "st_commerces (recordRefund j a ev s) = adjust (jo_agenticCommerce j) (refunded_commerce ev a) (st_commerces s)"
    "st_engagements (recordRefund j a ev s) = (case jo_engagement j of None \<Rightarrow> st_engagements s
       | Some e \<Rightarrow> adjust e (refunded_engagement ev a) (st_engagements s))"
  using assms
  by (simp_all add: recordRefund_def save_defs recordAgentMetric_def Let_def adjust_def refunded_commerce_def
      refunded_engagement_def event_time_def split: option.splits)

lemma escrow_adjust_engagement:
  assumes "escrow_tables js cs es"
    and "\<forall>row. en_id (f row) = en_id row \<and> en_jobCount (f row) = en_jobCount row
      \<and> en_settledJobCount (f row) = en_settledJobCount row \<and> en_lastSettledJob (f row) = en_lastSettledJob row"
  shows "escrow_tables js cs (adjust e f es)"
proof -
  have "engagement_ok js e (f row)" if "engagement_ok js e row" for row
    using that assms(2) by (auto simp: engagement_ok_def)
  moreover have "job_ok cs (adjust e f es) k j" if "job_ok cs es k j" for k j
    by (rule job_ok_mono [OF that]) (auto simp: adjust_apply)
  ultimately show ?thesis
    using assms(1) by (auto simp: escrow_tables_def adjust_apply split: if_splits)
qed

lemma escrow_Refunded:
  assumes ok: "escrow_ok h s"
  shows "escrow_ok h (handleRefunded h ev i c a s)"
proof (cases "eventJob h ev i s")
  case (Some j)
  let ?j = "touchJob (j\<lparr>jo_refundedAmount := jo_refundedAmount j + a\<rparr>) ev"
  have "escrow_tables ((st_jobs s)(jo_id j \<mapsto> ?j)) (adjust (jo_agenticCommerce j) (refunded_commerce ev a) (st_commerces s)) (st_engagements s)"
    using ok eventJob_Some(1) [OF ok Some]
    by (intro escrow_refund [where j = j and amount = a])
       (auto simp: escrow_ok_def same_account_def touchJob_def refunded_commerce_def)
  moreover have "escrow_tables js cs (adjust e (refunded_engagement ev a) es)" if "escrow_tables js cs es" for js cs es e
    by (rule escrow_adjust_engagement [OF that]) (simp add: refunded_engagement_def)
  moreover have keyed: "\<forall>c row. st_commerces (saveJob ?j s) c = Some row \<longrightarrow> cm_id row = c"
    "\<forall>e row. st_engagements (saveJob ?j s) e = Some row \<longrightarrow> en_id row = e"
    using escrow_keyed [OF ok] by (simp_all add: saveJob_def)
  moreover have "same_chain h (adjust (jo_agenticCommerce j) (refunded_commerce ev a) (st_commerces s))"
    using ok by (intro adjust_chain) (simp_all add: escrow_ok_def refunded_commerce_def)
  ultimately show ?thesis
    unfolding escrow_ok_def handleRefunded_def Let_def Some
    by (simp add: case_prod_beta recordRefund_effect [OF keyed]) (simp add: saveJob_def split: option.splits)
qed (use ok in \<open>simp add: handleRefunded_def\<close>)

text \<open>Linking a job to the workspaces behind it: the links change, and at most one engagement.\<close>

lemma link_client_effect: "\<exists>c. fst (link_client j s) = j\<lparr>jo_clientAgent := c\<rparr>"
  by (cases "jo_clientAgent j")
     (auto simp: link_client_def split: option.splits intro: exI [of _ "jo_clientAgent j"])

lemma link_provider_effect: "\<exists>p. fst (link_provider j s) = j\<lparr>jo_providerAgent := p\<rparr>"
  by (auto simp: link_provider_def split: option.splits intro: exI [of _ "jo_providerAgent j"])

lemma linkWorkspaces_frame [simp]:
  "st_jobs (snd (linkWorkspaces h j ev s)) = st_jobs s"
  "st_commerces (snd (linkWorkspaces h j ev s)) = st_commerces s"
  "st_bindings (snd (linkWorkspaces h j ev s)) = st_bindings s"
  by (auto simp: linkWorkspaces_def Let_def case_prod_beta save_defs split: option.splits)

lemma getOrCreateEngagement_fresh:
  assumes "\<forall>e row. st_engagements s e = Some row \<longrightarrow> en_id row = e"
  shows "st_engagements s (en_id (getOrCreateEngagement h c p t s)) = Some (getOrCreateEngagement h c p t s)
    \<or> st_engagements s (en_id (getOrCreateEngagement h c p t s)) = None
      \<and> en_jobCount (getOrCreateEngagement h c p t s) = 0 \<and> en_settledJobCount (getOrCreateEngagement h c p t s) = 0
      \<and> en_lastSettledJob (getOrCreateEngagement h c p t s) = None"
  using assms by (auto simp: getOrCreateEngagement_def Let_def split: option.splits)

definition joined_engagement :: "Event \<Rightarrow> Engagement \<Rightarrow> Engagement" where
  "joined_engagement ev e = e\<lparr>en_jobCount := en_jobCount e + 1, en_updatedAt := event_time ev\<rparr>"

text \<open>The engagement row a job joins: the one in the table, or a new one with no jobs.\<close>

definition joins :: "(bytes \<rightharpoonup> Engagement) \<Rightarrow> bytes \<Rightarrow> Engagement \<Rightarrow> bool" where
  "joins es e row \<longleftrightarrow> es e = Some row \<or> es e = None \<and> en_id row = e \<and> en_jobCount row = 0 \<and> en_settledJobCount row = 0"

lemma linkWorkspaces_effect:
  assumes "\<forall>e row. st_engagements s e = Some row \<longrightarrow> en_id row = e"
  obtains (unlinked) c p where "fst (linkWorkspaces h j ev s) = j\<lparr>jo_clientAgent := c, jo_providerAgent := p\<rparr>"
      "st_engagements (snd (linkWorkspaces h j ev s)) = st_engagements s"
    | (linked) c p e row where "jo_engagement j = None"
      "fst (linkWorkspaces h j ev s) = j\<lparr>jo_clientAgent := c, jo_providerAgent := p, jo_engagement := Some e\<rparr>"
      "joins (st_engagements s) e row"
      "st_engagements (snd (linkWorkspaces h j ev s)) = (st_engagements s)(e \<mapsto> joined_engagement ev row)"
proof -
  obtain c where c: "fst (link_client j s) = j\<lparr>jo_clientAgent := c\<rparr>" using link_client_effect by blast
  obtain p where p: "fst (link_provider (j\<lparr>jo_clientAgent := c\<rparr>) s) = j\<lparr>jo_clientAgent := c, jo_providerAgent := p\<rparr>"
    using link_provider_effect [of "j\<lparr>jo_clientAgent := c\<rparr>" s] by blast
  show thesis
  proof (cases "jo_engagement j = None \<and> snd (link_client j s) \<noteq> None \<and> snd (link_provider (j\<lparr>jo_clientAgent := c\<rparr>) s) \<noteq> None")
    case True
    then obtain ca pa where *: "jo_engagement j = None" "snd (link_client j s) = Some ca" "snd (link_provider (j\<lparr>jo_clientAgent := c\<rparr>) s) = Some pa"
      by auto
    let ?row = "getOrCreateEngagement h ca pa (ev_timestamp ev) s"
    have "fst (linkWorkspaces h j ev s) = j\<lparr>jo_clientAgent := c, jo_providerAgent := p, jo_engagement := Some (en_id ?row)\<rparr>"
      "st_engagements (snd (linkWorkspaces h j ev s)) = (st_engagements s)(en_id ?row \<mapsto> joined_engagement ev ?row)"
      using * by (simp_all add: linkWorkspaces_def case_prod_beta c p Let_def saveAgent_def saveEngagement_def joined_engagement_def)
    moreover have "joins (st_engagements s) (en_id ?row) ?row"
      using getOrCreateEngagement_fresh [OF assms, of h ca pa "ev_timestamp ev"] by (auto simp: joins_def)
    ultimately show thesis using linked *(1) by blast
  next
    case False
    then have "fst (linkWorkspaces h j ev s) = j\<lparr>jo_clientAgent := c, jo_providerAgent := p\<rparr>"
      "st_engagements (snd (linkWorkspaces h j ev s)) = st_engagements s"
      by (auto simp: linkWorkspaces_def case_prod_beta c p split: option.splits)
    then show thesis using unlinked by blast
  qed
qed

text \<open>A job that is in the table and gets linked, then possibly changed where nothing counts.\<close>

lemma escrow_linked:
  assumes T: "escrow_tables js cs (st_engagements s)" and k: "js k = Some j"
    and paid: "jo_status j1 = jo_status j" "jo_providerPayment j1 = jo_providerPayment j"
    and a: "same_account j j1"
    and l: "linkWorkspaces h j1 ev s = (j2, s')"
    and b: "same_account j2 j3" "jo_status j3 = jo_status j2" "jo_providerPayment j3 = jo_providerPayment j2"
  shows "escrow_tables (js(k \<mapsto> j3)) cs (st_engagements s')"
proof -
  have K: "\<forall>e row. st_engagements s e = Some row \<longrightarrow> en_id row = e"
    using T by (auto simp: escrow_tables_def engagement_ok_def)
  have J: "job_ok cs (st_engagements s) k j" using T k by (simp add: escrow_tables_def)
  show ?thesis
  proof (rule linkWorkspaces_effect [OF K, of h j1 ev])
    fix c p
    assume "fst (linkWorkspaces h j1 ev s) = j1\<lparr>jo_clientAgent := c, jo_providerAgent := p\<rparr>"
      "st_engagements (snd (linkWorkspaces h j1 ev s)) = st_engagements s"
    with J paid a b l show ?thesis
      using escrow_same [OF T k, of j3] by (auto simp: same_account_def job_ok_def)
  next
    fix c p e row
    assume "jo_engagement j1 = None"
      "fst (linkWorkspaces h j1 ev s) = j1\<lparr>jo_clientAgent := c, jo_providerAgent := p, jo_engagement := Some e\<rparr>"
      "joins (st_engagements s) e row"
      "st_engagements (snd (linkWorkspaces h j1 ev s)) = (st_engagements s)(e \<mapsto> joined_engagement ev row)"
    then show ?thesis
      using paid a b l escrow_link [OF T k, of e j3 row "joined_engagement ev row"]
      by (auto simp: same_account_def joined_engagement_def joins_def)
  qed
qed

lemma escrow_ProviderSet:
  assumes ok: "escrow_ok h s"
  shows "escrow_ok h (handleProviderSet h ev i p s)"
proof (cases "eventJob h ev i s")
  case (Some j)
  obtain a s1 where a: "getOrCreateAccount p s = (a, s1)" by (cases "getOrCreateAccount p s")
  then have s1: "st_jobs s1 = st_jobs s" "st_commerces s1 = st_commerces s" "st_engagements s1 = st_engagements s"
    using getOrCreateAccount_frame(1-3) [of p s] by simp_all
  let ?j1 = "j\<lparr>jo_provider := Some (ac_id a), jo_providerAgent := None\<rparr>"
  obtain j2 s2 where l: "linkWorkspaces h ?j1 ev s1 = (j2, s2)" by (cases "linkWorkspaces h ?j1 ev s1")
  have s2: "st_jobs s2 = st_jobs s" "st_commerces s2 = st_commerces s"
    using linkWorkspaces_frame [of h ?j1 ev s1] l s1 by simp_all
  have j2: "jo_id j2 = jo_id j"
    by (rule linkWorkspaces_effect [of s1 h ?j1 ev]) (use escrow_keyed(2) [OF ok] s1 l in auto)
  have "escrow_tables ((st_jobs s)(jo_id j \<mapsto> touchJob j2 ev)) (st_commerces s1) (st_engagements s2)"
    by (rule escrow_linked [OF _ _ _ _ _ l, where j = j])
       (use ok eventJob_Some(1) [OF ok Some] s1 in \<open>auto simp: escrow_ok_def same_account_def touchJob_def\<close>)
  then show ?thesis
    using ok s1 s2 j2 by (simp add: handleProviderSet_def Some a l escrow_ok_def saveJob_def Let_def)
qed (use ok in \<open>simp add: handleProviderSet_def\<close>)

lemma getOrCreateAgenticCommerce_frame [simp]:
  "st_jobs (snd (getOrCreateAgenticCommerce h ev s)) = st_jobs s"
  "st_engagements (snd (getOrCreateAgenticCommerce h ev s)) = st_engagements s"
  "st_agents (snd (getOrCreateAgenticCommerce h ev s)) = st_agents s"
  "st_bindings (snd (getOrCreateAgenticCommerce h ev s)) = st_bindings s"
  "st_agentPoints (snd (getOrCreateAgenticCommerce h ev s)) = st_agentPoints s"
  by (auto simp: getOrCreateAgenticCommerce_def Let_def case_prod_beta saveCommerce_def split: option.splits)

lemma getOrCreateAgenticCommerce_row:
  "cm_id row = agenticCommerceEntityId (h_chainId h) (ev_address ev) \<and> cm_chainId row = h_chainId h
     \<and> cm_jobCount row = 0 \<and> cm_settledJobCount row = 0 \<and> cm_settledVolume row = 0 \<and> cm_refundedVolume row = 0
     \<and> st_commerces s' = (st_commerces s)(cm_id row \<mapsto> row)"
  if "getOrCreateAgenticCommerce h ev s = (row, s')" "st_commerces s (agenticCommerceEntityId (h_chainId h) (ev_address ev)) = None"
  using that
  by (auto simp: getOrCreateAgenticCommerce_def Let_def case_prod_beta saveCommerce_def split: option.splits if_splits)

lemma getOrCreateAgenticCommerce_ok:
  assumes ok: "escrow_ok h s" and g: "getOrCreateAgenticCommerce h ev s = (row, s')"
  shows "escrow_ok h s'" "st_commerces s' (cm_id row) = Some row" "cm_chainId row = h_chainId h"
    "cm_id row = agenticCommerceEntityId (h_chainId h) (ev_address ev)"
proof -
  have fr: "st_jobs s' = st_jobs s" "st_engagements s' = st_engagements s"
    using getOrCreateAgenticCommerce_frame [of h ev s] g by simp_all
  let ?c = "agenticCommerceEntityId (h_chainId h) (ev_address ev)"
  have "escrow_ok h s' \<and> st_commerces s' (cm_id row) = Some row \<and> cm_chainId row = h_chainId h \<and> cm_id row = ?c"
  proof (cases "st_commerces s ?c")
    case None
    note r = getOrCreateAgenticCommerce_row [OF g None]
    have "escrow_tables (st_jobs s) ((st_commerces s)(?c \<mapsto> row)) (st_engagements s)"
      by (rule escrow_new_commerce) (use ok None r in \<open>auto simp: escrow_ok_def\<close>)
    then show ?thesis using r fr ok by (auto simp: escrow_ok_def same_chain_def)
  next
    case (Some x)
    then have "row = x" "s' = s" using g by (auto simp: getOrCreateAgenticCommerce_def Let_def)
    then show ?thesis using Some ok escrow_keyed(1) [OF ok] by (auto simp: escrow_ok_def same_chain_def)
  qed
  then show "escrow_ok h s'" "st_commerces s' (cm_id row) = Some row" "cm_chainId row = h_chainId h"
    "cm_id row = ?c" by auto
qed

lemma escrow_admin:
  assumes ok: "escrow_ok h s"
  shows "escrow_ok h (handleHookWhitelistUpdated h ev hook st s)" "escrow_ok h (handleUpgraded h ev impl s)"
proof -
  obtain row s' where g: "getOrCreateAgenticCommerce h ev s = (row, s')" by (cases "getOrCreateAgenticCommerce h ev s")
  note r = getOrCreateAgenticCommerce_ok [OF ok g]
  have "escrow_tables (st_jobs s') ((st_commerces s')(cm_id row \<mapsto> row\<lparr>cm_updatedAt := t\<rparr>)) (st_engagements s')"
    "escrow_tables (st_jobs s') ((st_commerces s')(cm_id row \<mapsto> row\<lparr>cm_implementation := i, cm_updatedAt := t\<rparr>)) (st_engagements s')" for t i
    by (rule escrow_row [where row = row]; use r(1,2) in \<open>simp add: escrow_ok_def\<close>)+
  then show "escrow_ok h (handleHookWhitelistUpdated h ev hook st s)" "escrow_ok h (handleUpgraded h ev impl s)"
    using r(1,3)
    by (auto simp: handleHookWhitelistUpdated_def handleUpgraded_def g Let_def saveCommerce_def escrow_ok_def same_chain_def)
qed

lemma toTimestampSeconds_clamp: "toTimestampSeconds v = max 0 (min v MAX_TIMESTAMP_SECONDS)"
  using toI64_id [of v] by (auto simp: toTimestampSeconds_def MAX_TIMESTAMP_SECONDS_def)

lemma toTimestampSeconds_bounds: "0 \<le> toTimestampSeconds v" "toTimestampSeconds v \<le> MAX_TIMESTAMP_SECONDS"
  by (simp_all add: toTimestampSeconds_clamp MAX_TIMESTAMP_SECONDS_def)

text \<open>The job of \<open>handleJobCreated\<close> before it is linked; account rows are all that is written with it.\<close>

definition created_job :: "Event \<Rightarrow> AgenticCommerce \<Rightarrow> int \<Rightarrow> Job \<Rightarrow> bool" where
  "created_job ev row i j \<longleftrightarrow> jo_id j = jobEntityId (cm_chainId row) (ev_address ev) i \<and> jo_agenticCommerce j = cm_id row
     \<and> jo_engagement j = None \<and> \<not> jo_settled j \<and> jo_settledAt j = None \<and> jo_refundedAmount j = 0 \<and> jo_providerPayment j = 0
     \<and> jo_status j = OPEN \<and> 0 \<le> jo_expiresAt j \<and> jo_expiresAt j \<le> MAX_TIMESTAMP_SECONDS"

lemma prepare_job_effect:
  "created_job ev row i (fst (snd (prepare_job h ev row i c p e x k s)))"
  "st_jobs (snd (snd (prepare_job h ev row i c p e x k s))) = st_jobs s"
  "st_commerces (snd (snd (prepare_job h ev row i c p e x k s))) = st_commerces s"
  "st_engagements (snd (snd (prepare_job h ev row i c p e x k s))) = st_engagements s"
  "st_agents (snd (snd (prepare_job h ev row i c p e x k s))) = st_agents s"
  "st_bindings (snd (snd (prepare_job h ev row i c p e x k s))) = st_bindings s"
  "st_agentPoints (snd (snd (prepare_job h ev row i c p e x k s))) = st_agentPoints s"
  by (auto simp: prepare_job_def Let_def case_prod_beta created_job_def touchJob_def new_job_def
      toTimestampSeconds_bounds split: option.splits)

lemma escrow_JobCreated:
  assumes ok: "escrow_ok h s" and new: "st_jobs s (jobEntityId (h_chainId h) (ev_address ev) i) = None"
  shows "escrow_ok h (handleJobCreated h ev i c p e x k s)"
proof -
  obtain row s1 where g: "getOrCreateAgenticCommerce h ev s = (row, s1)" by (cases "getOrCreateAgenticCommerce h ev s")
  obtain ca j s2 where P: "prepare_job h ev row i c p e x k s1 = (ca, j, s2)" by (cases "prepare_job h ev row i c p e x k s1")
  obtain j' s3 where l: "linkWorkspaces h j ev s2 = (j', s3)" by (cases "linkWorkspaces h j ev s2")
  note r = getOrCreateAgenticCommerce_ok [OF ok g]
  note j = prepare_job_effect [where ev = ev and row = row and i = i and h = h and c = c and p = p and e = e and x = x and k = k and s = s1, unfolded P fst_conv snd_conv]
  have js: "st_jobs s1 = st_jobs s" using getOrCreateAgenticCommerce_frame(1) [of h ev s] g by simp
  let ?row = "row\<lparr>cm_jobCount := cm_jobCount row + 1, cm_updatedAt := event_time ev\<rparr>"
  have T: "escrow_tables ((st_jobs s2)(jo_id j \<mapsto> j)) ((st_commerces s2)(cm_id row \<mapsto> ?row)) (st_engagements s2)"
    using r j new js by (intro escrow_new_job [where row = row]) (auto simp: escrow_ok_def created_job_def)
  have i: "jo_id j' = jo_id j"
    by (rule linkWorkspaces_effect [of s2 h j ev]) (use escrow_keyed(2) [OF r(1)] j l in auto)
  have "escrow_tables ((st_jobs s2)(jo_id j \<mapsto> j, jo_id j \<mapsto> j')) ((st_commerces s2)(cm_id row \<mapsto> ?row)) (st_engagements s3)"
    using escrow_linked [OF T _ _ _ _ l, where j = j and k = "jo_id j" and ?j3.0 = j'] by (simp add: same_account_def)
  moreover have "st_jobs s3 = st_jobs s2" "st_commerces s3 = st_commerces s2"
    using linkWorkspaces_frame [of h j ev s2] l by simp_all
  ultimately show ?thesis
    using r(1,3) j i
    by (auto simp: handleJobCreated_def g P l Let_def saveCommerce_def saveJob_def escrow_ok_def same_chain_def)
qed

end
