(* ===== verification/SG_Metrics.thy ===== *)
theory SG_Metrics
  imports SG_Settlement
begin

text \<open>
  The agents (workspaces) under the escrow handlers. Those handlers change nothing of an agent but
  its job counters (\<open>agent_core\<close> is the rest), and the settlement counters of an agent are the
  counts and sums of its time series points (\<open>bufi/metrics.ts\<close>), which is what the daily
  aggregation of \<open>schema.graphql\<close> adds up.
\<close>

section \<open>Agents apart from their job counters\<close>

definition agent_core :: "Agent \<Rightarrow> Agent" where
  "agent_core a = a\<lparr>ag_jobsAsClient := 0, ag_jobsAsProvider := 0, ag_settledAsClient := 0,
     ag_settledAsProvider := 0, ag_settledVolumeAsClient := 0, ag_settledVolumeAsProvider := 0,
     ag_refundedVolumeAsClient := 0\<rparr>"

definition agents_core :: "(bytes \<rightharpoonup> Agent) \<Rightarrow> bytes \<rightharpoonup> Agent" where
  "agents_core t = (\<lambda>k. map_option agent_core (t k))"

definition agents_keyed :: "(bytes \<rightharpoonup> Agent) \<Rightarrow> bool" where
  "agents_keyed t \<longleftrightarrow> (\<forall>k a. t k = Some a \<longrightarrow> ag_id a = k)"

lemma agents_keyed_iff: "agents_keyed (st_agents s) \<longleftrightarrow> agents.keyed s"
  by (simp add: agents_keyed_def agents.keyed_def)

lemma agent_core_upd [simp]:
  "agent_core (a\<lparr>ag_jobsAsClient := i\<rparr>) = agent_core a"
  "agent_core (a\<lparr>ag_jobsAsProvider := i\<rparr>) = agent_core a"
  "agent_core (a\<lparr>ag_settledAsProvider := i, ag_settledVolumeAsProvider := v\<rparr>) = agent_core a"
  "agent_core (a\<lparr>ag_settledAsClient := i, ag_settledVolumeAsClient := v\<rparr>) = agent_core a"
  "agent_core (a\<lparr>ag_refundedVolumeAsClient := v\<rparr>) = agent_core a"
  by (simp_all add: agent_core_def)

lemma agents_core_same: "t k = Some a \<Longrightarrow> agent_core b = agent_core a \<Longrightarrow> agents_core (t(k \<mapsto> b)) = agents_core t"
  by (auto simp: agents_core_def fun_eq_iff)

lemma agents_core_lookup:
  assumes "agents_core t' = agents_core t" "t k = Some a"
  obtains b where "t' k = Some b" "agent_core b = agent_core a"
proof -
  have "map_option agent_core (t' k) = map_option agent_core (t k)"
    using assms(1) by (simp add: agents_core_def fun_eq_iff)
  with assms(2) that show thesis by (cases "t' k") auto
qed

lemma agent_core_fields:
  assumes "agent_core b = agent_core a"
  shows "ag_id b = ag_id a" "ag_agentWallet b = ag_agentWallet a" "ag_registry b = ag_registry a"
    "ag_isBurned b = ag_isBurned a" "ag_feedbackCount b = ag_feedbackCount a"
    "ag_activeFeedbackCount b = ag_activeFeedbackCount a" "ag_verifiedFeedbackCount b = ag_verifiedFeedbackCount a"
    "ag_agentId b = ag_agentId a" "ag_bufiScore b = ag_bufiScore a"
  using assms by (cases a; cases b; simp add: agent_core_def)+

lemma agents_core_keyed: "agents_core t' = agents_core t \<Longrightarrow> agents_keyed t = agents_keyed t'"
  unfolding agents_keyed_def by (metis agent_core_fields(1) agents_core_lookup)

section \<open>Points\<close>

definition points_count :: "AgentMetricPoint list \<Rightarrow> bytes \<Rightarrow> string \<Rightarrow> int" where
  "points_count ps k kind = int (length (filter (\<lambda>p. mp_agent p = k \<and> mp_kind p = kind) ps))"

definition points_volume :: "AgentMetricPoint list \<Rightarrow> bytes \<Rightarrow> string \<Rightarrow> int" where
  "points_volume ps k kind = sum_list (map mp_amount (filter (\<lambda>p. mp_agent p = k \<and> mp_kind p = kind) ps))"

definition agent_metrics_ok :: "AgentMetricPoint list \<Rightarrow> bytes \<Rightarrow> Agent \<Rightarrow> bool" where
  "agent_metrics_ok ps k a \<longleftrightarrow> ag_id a = k
     \<and> ag_settledAsProvider a = points_count ps k METRIC_SETTLED_AS_PROVIDER
     \<and> ag_settledVolumeAsProvider a = points_volume ps k METRIC_SETTLED_AS_PROVIDER
     \<and> ag_settledAsClient a = points_count ps k METRIC_SETTLED_AS_CLIENT
     \<and> ag_settledVolumeAsClient a = points_volume ps k METRIC_SETTLED_AS_CLIENT
     \<and> ag_refundedVolumeAsClient a = points_volume ps k METRIC_REFUNDED_AS_CLIENT"

definition metrics_ok :: "(bytes \<rightharpoonup> Agent) \<Rightarrow> AgentMetricPoint list \<Rightarrow> bool" where
  "metrics_ok t ps \<longleftrightarrow> (\<forall>k a. t k = Some a \<longrightarrow> agent_metrics_ok ps k a) \<and> (\<forall>p \<in> set ps. t (mp_agent p) \<noteq> None)"

lemma metric_kinds [simp]:
  "METRIC_SETTLED_AS_PROVIDER \<noteq> METRIC_SETTLED_AS_CLIENT" "METRIC_SETTLED_AS_CLIENT \<noteq> METRIC_SETTLED_AS_PROVIDER"
  "METRIC_SETTLED_AS_PROVIDER \<noteq> METRIC_REFUNDED_AS_CLIENT" "METRIC_REFUNDED_AS_CLIENT \<noteq> METRIC_SETTLED_AS_PROVIDER"
  "METRIC_SETTLED_AS_CLIENT \<noteq> METRIC_REFUNDED_AS_CLIENT" "METRIC_REFUNDED_AS_CLIENT \<noteq> METRIC_SETTLED_AS_CLIENT"
  by (simp_all add: METRIC_SETTLED_AS_PROVIDER_def METRIC_SETTLED_AS_CLIENT_def METRIC_REFUNDED_AS_CLIENT_def)

lemma points_snoc [simp]:
  "points_count (ps @ [p]) k kind = points_count ps k kind + (if mp_agent p = k \<and> mp_kind p = kind then 1 else 0)"
  "points_volume (ps @ [p]) k kind = points_volume ps k kind + (if mp_agent p = k \<and> mp_kind p = kind then mp_amount p else 0)"
  by (simp_all add: points_count_def points_volume_def)

text \<open>The counters that points explain.\<close>

definition agent_money :: "Agent \<Rightarrow> bytes \<times> int \<times> int \<times> int \<times> int \<times> int" where
  "agent_money a = (ag_id a, ag_settledAsProvider a, ag_settledVolumeAsProvider a, ag_settledAsClient a,
     ag_settledVolumeAsClient a, ag_refundedVolumeAsClient a)"

lemma metrics_ok_same:
  assumes "metrics_ok t ps" "t k = Some a" "agent_money b = agent_money a"
  shows "metrics_ok (t(k \<mapsto> b)) ps"
proof -
  have "agent_metrics_ok ps k a" using assms by (simp add: metrics_ok_def)
  then have "agent_metrics_ok ps k b" using assms(3) by (simp add: agent_metrics_ok_def agent_money_def)
  then show ?thesis using assms(1) by (simp add: metrics_ok_def)
qed

text \<open>Recording a point together with the counters it stands for.\<close>

lemma metrics_ok_point:
  assumes "metrics_ok t ps" "t k = Some a" "mp_agent p = k" "ag_id b = k"
    and "ag_settledAsProvider b = ag_settledAsProvider a + (if mp_kind p = METRIC_SETTLED_AS_PROVIDER then 1 else 0)"
    and "ag_settledVolumeAsProvider b = ag_settledVolumeAsProvider a + (if mp_kind p = METRIC_SETTLED_AS_PROVIDER then mp_amount p else 0)"
    and "ag_settledAsClient b = ag_settledAsClient a + (if mp_kind p = METRIC_SETTLED_AS_CLIENT then 1 else 0)"
    and "ag_settledVolumeAsClient b = ag_settledVolumeAsClient a + (if mp_kind p = METRIC_SETTLED_AS_CLIENT then mp_amount p else 0)"
    and "ag_refundedVolumeAsClient b = ag_refundedVolumeAsClient a + (if mp_kind p = METRIC_REFUNDED_AS_CLIENT then mp_amount p else 0)"
  shows "metrics_ok (t(k \<mapsto> b)) (ps @ [p])"
proof -
  have a: "agent_metrics_ok ps k a" using assms(1,2) by (simp add: metrics_ok_def)
  have "agent_metrics_ok (ps @ [p]) k b"
    unfolding agent_metrics_ok_def assms(4-9) points_snoc assms(3) using a unfolding agent_metrics_ok_def by simp
  moreover have "agent_metrics_ok (ps @ [p]) x c" if "x \<noteq> k" "t x = Some c" for x c
  proof -
    have "agent_metrics_ok ps x c" using assms(1) that by (simp add: metrics_ok_def)
    then show ?thesis using that assms(3) by (simp add: agent_metrics_ok_def)
  qed
  ultimately show ?thesis using assms(1,3) by (auto simp: metrics_ok_def)
qed

section \<open>The escrow handlers and the agents\<close>

text \<open>What every escrow handler keeps: bindings, the agents apart from their job counters, and the
  agreement of counters and points.\<close>

definition workspace_step :: "Store \<Rightarrow> Store \<Rightarrow> bool" where
  "workspace_step s s' \<longleftrightarrow> st_bindings s' = st_bindings s \<and> agents_core (st_agents s') = agents_core (st_agents s)
     \<and> metrics_ok (st_agents s') (st_agentPoints s')"

lemma workspace_step_trans:
  "workspace_step s s' \<Longrightarrow> workspace_step s' s'' \<Longrightarrow> workspace_step s s''"
  by (simp add: workspace_step_def)

lemma workspace_step_frame:
  assumes "metrics_ok (st_agents s) (st_agentPoints s)" "st_bindings s' = st_bindings s" "st_agents s' = st_agents s" "st_agentPoints s' = st_agentPoints s"
  shows "workspace_step s s'"
  using assms by (simp add: workspace_step_def)

lemma metrics_keyed: "metrics_ok t ps \<Longrightarrow> t k = Some a \<Longrightarrow> ag_id a = k"
  by (auto simp: metrics_ok_def agent_metrics_ok_def)

lemma step_settle_provider:
  assumes "metrics_ok (st_agents s) (st_agentPoints s)"
  shows "workspace_step s (settle_provider j a t s)"
proof (cases "\<exists>i p. jo_providerAgent j = Some i \<and> st_agents s i = Some p")
  case True
  then obtain i p where *: "jo_providerAgent j = Some i" "st_agents s i = Some p" by blast
  then have **: "jo_providerAgent j = Some (ag_id p)" "st_agents s (ag_id p) = Some p" using metrics_keyed [OF assms *(2)] by simp_all
  then show ?thesis
    by (auto simp: settle_provider_def Let_def recordAgentMetric_def saveAgent_def workspace_step_def
        intro!: agents_core_same metrics_ok_point [OF assms **(2)])
next
  case False
  with assms show ?thesis by (auto simp: settle_provider_def workspace_step_def split: option.splits)
qed

lemma step_settle_client:
  assumes "metrics_ok (st_agents s) (st_agentPoints s)"
  shows "workspace_step s (settle_client j a t s)"
proof (cases "\<exists>i p. jo_clientAgent j = Some i \<and> st_agents s i = Some p")
  case True
  then obtain i p where *: "jo_clientAgent j = Some i" "st_agents s i = Some p" by blast
  then have **: "jo_clientAgent j = Some (ag_id p)" "st_agents s (ag_id p) = Some p" using metrics_keyed [OF assms *(2)] by simp_all
  then show ?thesis
    by (auto simp: settle_client_def Let_def recordAgentMetric_def saveAgent_def workspace_step_def
        intro!: agents_core_same metrics_ok_point [OF assms **(2)])
next
  case False
  with assms show ?thesis by (auto simp: settle_client_def workspace_step_def split: option.splits)
qed

lemma step_markSettled:
  assumes "metrics_ok (st_agents s) (st_agentPoints s)"
  shows "workspace_step s (snd (markSettledIfPaid j ev s))"
proof -
  let ?j = "j\<lparr>jo_settled := True, jo_settledAt := Some (event_time ev)\<rparr>"
  let ?s1 = "settle_commerce ?j (jo_providerPayment j) (ev_timestamp ev) s"
  let ?s2 = "settle_provider ?j (jo_providerPayment j) (ev_timestamp ev) ?s1"
  let ?s3 = "settle_client ?j (jo_providerPayment j) (ev_timestamp ev) ?s2"
  have 1: "workspace_step s ?s1" using assms by (intro workspace_step_frame) simp_all
  then have 2: "workspace_step ?s1 ?s2" by (intro step_settle_provider) (simp add: workspace_step_def)
  then have 3: "workspace_step ?s2 ?s3" by (intro step_settle_client) (simp add: workspace_step_def)
  then have 4: "workspace_step ?s3 (settle_engagement ?j (jo_providerPayment j) (ev_timestamp ev) ?s3)"
    by (intro workspace_step_frame) (simp_all add: workspace_step_def)
  note workspace_step_trans [OF workspace_step_trans [OF workspace_step_trans [OF 1 2] 3] 4]
  moreover have "workspace_step s s" using assms by (simp add: workspace_step_def)
  ultimately show ?thesis by (simp add: markSettledIfPaid_def Let_def)
qed

lemma step_recordRefund:
  assumes "metrics_ok (st_agents s) (st_agentPoints s)"
  shows "workspace_step s (recordRefund j a ev s)"
proof (cases "\<exists>i p. jo_clientAgent j = Some i \<and> st_agents s i = Some p")
  case True
  then obtain i p where *: "jo_clientAgent j = Some i" "st_agents s i = Some p" by blast
  then have **: "jo_clientAgent j = Some (ag_id p)" "st_agents s (ag_id p) = Some p" using metrics_keyed [OF assms *(2)] by simp_all
  then show ?thesis
    by (auto simp: recordRefund_def Let_def recordAgentMetric_def save_defs workspace_step_def
        split: option.splits intro!: agents_core_same metrics_ok_point [OF assms **(2)])
next
  case False
  with assms show ?thesis
    by (auto simp: recordRefund_def Let_def save_defs workspace_step_def split: option.splits)
qed

text \<open>The agents found behind a job are rows of the table.\<close>

lemma link_client_agent: "snd (link_client j s) = Some a \<Longrightarrow> \<exists>k. st_agents s k = Some a"
  by (auto simp: link_client_def resolveAgentByWallet_def split: option.splits)

lemma link_provider_agent: "snd (link_provider j s) = Some a \<Longrightarrow> \<exists>k. st_agents s k = Some a"
  by (auto simp: link_provider_def resolveAgentByWallet_def split: option.splits)

lemma linkWorkspaces_agents:
  "st_agents (snd (linkWorkspaces h j ev s)) =
     (case (snd (link_client j s), snd (link_provider (fst (link_client j s)) s)) of
        (Some c, Some p) \<Rightarrow>
          (if jo_engagement j = None then
            (st_agents s)(ag_id c \<mapsto> c\<lparr>ag_jobsAsClient := ag_jobsAsClient c + 1\<rparr>,
                          ag_id p \<mapsto> p\<lparr>ag_jobsAsProvider := ag_jobsAsProvider p + 1\<rparr>)
           else st_agents s)
      | _ \<Rightarrow> st_agents s)"
  "st_agentPoints (snd (linkWorkspaces h j ev s)) = st_agentPoints s"
proof -
  have "jo_engagement (fst (link_provider (fst (link_client j s)) s)) = jo_engagement j"
    using link_client_effect [of j s] link_provider_effect [of "fst (link_client j s)" s] by auto
  then show "st_agents (snd (linkWorkspaces h j ev s)) =
     (case (snd (link_client j s), snd (link_provider (fst (link_client j s)) s)) of
        (Some c, Some p) \<Rightarrow>
          (if jo_engagement j = None then
            (st_agents s)(ag_id c \<mapsto> c\<lparr>ag_jobsAsClient := ag_jobsAsClient c + 1\<rparr>,
                          ag_id p \<mapsto> p\<lparr>ag_jobsAsProvider := ag_jobsAsProvider p + 1\<rparr>)
           else st_agents s)
      | _ \<Rightarrow> st_agents s)" "st_agentPoints (snd (linkWorkspaces h j ev s)) = st_agentPoints s"
    by (auto simp: linkWorkspaces_def Let_def case_prod_beta saveEngagement_def saveAgent_def split: option.splits)
qed

lemma step_linkWorkspaces:
  assumes m: "metrics_ok (st_agents s) (st_agentPoints s)"
  shows "workspace_step s (snd (linkWorkspaces h j ev s))"
proof (cases "\<exists>c p. snd (link_client j s) = Some c \<and> snd (link_provider (fst (link_client j s)) s) = Some p \<and> jo_engagement j = None")
  case True
  then obtain c p where *: "snd (link_client j s) = Some c" "snd (link_provider (fst (link_client j s)) s) = Some p" "jo_engagement j = None"
    by blast
  then have rows: "st_agents s (ag_id c) = Some c" "st_agents s (ag_id p) = Some p"
    using link_client_agent link_provider_agent metrics_keyed [OF m] by metis+
  let ?t = "(st_agents s)(ag_id c \<mapsto> c\<lparr>ag_jobsAsClient := ag_jobsAsClient c + 1\<rparr>)"
  have m1: "metrics_ok ?t (st_agentPoints s)" "agents_core ?t = agents_core (st_agents s)"
    using rows(1) by (auto intro!: metrics_ok_same [OF m] agents_core_same simp: agent_money_def)
  obtain q where q: "?t (ag_id p) = Some q" "agent_core q = agent_core p" "agent_money q = agent_money p"
    using rows by (cases "ag_id p = ag_id c") (auto simp: agent_money_def)
  have "metrics_ok (?t(ag_id p \<mapsto> p\<lparr>ag_jobsAsProvider := ag_jobsAsProvider p + 1\<rparr>)) (st_agentPoints s)"
    "agents_core (?t(ag_id p \<mapsto> p\<lparr>ag_jobsAsProvider := ag_jobsAsProvider p + 1\<rparr>)) = agents_core ?t"
    using q by (auto intro!: metrics_ok_same [OF m1(1)] agents_core_same simp: agent_money_def simp del: fun_upd_apply)
  with * m1(2) show ?thesis by (simp add: workspace_step_def linkWorkspaces_agents)
next
  case False
  with m show ?thesis by (auto simp: workspace_step_def linkWorkspaces_agents split: option.splits)
qed

text \<open>A step is determined by the three tables it is about.\<close>

lemma workspace_step_cong:
  assumes "workspace_step s1 s2"
    and "st_bindings s = st_bindings s1" "st_agents s = st_agents s1"
    and "st_bindings s' = st_bindings s2" "st_agents s' = st_agents s2" "st_agentPoints s' = st_agentPoints s2"
  shows "workspace_step s s'"
  using assms by (simp add: workspace_step_def)

lemma saves_frame [simp]:
  "st_bindings (saveJob j s) = st_bindings s" "st_agents (saveJob j s) = st_agents s"
  "st_agentPoints (saveJob j s) = st_agentPoints s"
  "st_bindings (saveCommerce c s) = st_bindings s" "st_agents (saveCommerce c s) = st_agents s"
  "st_agentPoints (saveCommerce c s) = st_agentPoints s"
  by (simp_all add: saveJob_def saveCommerce_def)

lemma step_JobCreated:
  assumes m: "metrics_ok (st_agents s) (st_agentPoints s)"
  shows "workspace_step s (handleJobCreated h ev i c p e x k s)"
proof -
  obtain row s1 where g: "getOrCreateAgenticCommerce h ev s = (row, s1)" by (cases "getOrCreateAgenticCommerce h ev s")
  obtain ca j s2 where P: "prepare_job h ev row i c p e x k s1 = (ca, j, s2)" by (cases "prepare_job h ev row i c p e x k s1")
  obtain j' s3 where l: "linkWorkspaces h j ev s2 = (j', s3)" by (cases "linkWorkspaces h j ev s2")
  have s2: "st_agents s2 = st_agents s" "st_bindings s2 = st_bindings s" "st_agentPoints s2 = st_agentPoints s"
    using prepare_job_effect [where ev = ev and row = row and i = i and h = h and c = c and p = p and e = e and x = x and k = k and s = s1]
      getOrCreateAgenticCommerce_frame [of h ev s] by (simp_all add: g P)
  have "workspace_step s2 s3" using step_linkWorkspaces [of s2 h j ev] m s2 l by simp
  then show ?thesis
    by (rule workspace_step_cong) (simp_all add: s2 handleJobCreated_def g P l Let_def)
qed

lemma step_ProviderSet:
  assumes m: "metrics_ok (st_agents s) (st_agentPoints s)"
  shows "workspace_step s (handleProviderSet h ev i p s)"
proof (cases "eventJob h ev i s")
  case (Some j)
  let ?s1 = "snd (getOrCreateAccount p s)"
  let ?j = "j\<lparr>jo_provider := Some (ac_id (fst (getOrCreateAccount p s))), jo_providerAgent := None\<rparr>"
  have "workspace_step ?s1 (snd (linkWorkspaces h ?j ev ?s1))" using m by (intro step_linkWorkspaces) simp
  then show ?thesis
    by (rule workspace_step_cong) (simp_all add: handleProviderSet_def Some Let_def case_prod_beta)
qed (use m in \<open>simp add: handleProviderSet_def workspace_step_frame\<close>)

lemma step_mark_handlers:
  assumes m: "metrics_ok (st_agents s) (st_agentPoints s)"
  shows "workspace_step s (handleJobCompleted h ev i e r s)" "workspace_step s (handlePaymentReleased h ev i p a s)"
proof -
  have f: "workspace_step s (saveJobEvent x (snd (getOrCreateAccount y (saveJob z s'))))"
    if "markSettledIfPaid j ev s = (z, s')" for x y z j s'
  proof -
    have "workspace_step s s'" using step_markSettled [OF m, of j ev] that by simp
    then show ?thesis by (rule workspace_step_cong) simp_all
  qed
  show "workspace_step s (handleJobCompleted h ev i e r s)"
  proof (cases "eventJob h ev i s")
    case (Some j)
    obtain z s' where "markSettledIfPaid (touchJob (j\<lparr>jo_status := COMPLETED, jo_completionReason := Some r\<rparr>) ev) ev s = (z, s')"
      by (cases "markSettledIfPaid (touchJob (j\<lparr>jo_status := COMPLETED, jo_completionReason := Some r\<rparr>) ev) ev s")
    then show ?thesis using f by (simp add: handleJobCompleted_def Some Let_def case_prod_beta)
  qed (use m in \<open>simp add: handleJobCompleted_def workspace_step_frame\<close>)
  show "workspace_step s (handlePaymentReleased h ev i p a s)"
  proof (cases "eventJob h ev i s")
    case (Some j)
    obtain z s' where "markSettledIfPaid (touchJob (j\<lparr>jo_providerPayment := jo_providerPayment j + a\<rparr>) ev) ev s = (z, s')"
      by (cases "markSettledIfPaid (touchJob (j\<lparr>jo_providerPayment := jo_providerPayment j + a\<rparr>) ev) ev s")
    then show ?thesis using f by (simp add: handlePaymentReleased_def Some Let_def case_prod_beta)
  qed (use m in \<open>simp add: handlePaymentReleased_def workspace_step_frame\<close>)
qed

lemma step_Refunded:
  assumes m: "metrics_ok (st_agents s) (st_agentPoints s)"
  shows "workspace_step s (handleRefunded h ev i c a s)"
proof (cases "eventJob h ev i s")
  case (Some j)
  let ?j = "touchJob (j\<lparr>jo_refundedAmount := jo_refundedAmount j + a\<rparr>) ev"
  have "workspace_step (saveJob ?j s) (recordRefund ?j a ev (saveJob ?j s))" using m by (intro step_recordRefund) simp
  then show ?thesis
    by (rule workspace_step_cong) (simp_all add: handleRefunded_def Some Let_def case_prod_beta)
qed (use m in \<open>simp add: handleRefunded_def workspace_step_frame\<close>)

lemma step_plain_handlers:
  assumes m: "metrics_ok (st_agents s) (st_agentPoints s)"
  shows "workspace_step s (handleBudgetSet h ev i a s)" "workspace_step s (handleJobFunded h ev i c a s)"
    "workspace_step s (handleJobSubmitted h ev i p d s)" "workspace_step s (handleJobRejected h ev i r d s)"
    "workspace_step s (handleJobExpired h ev i s)" "workspace_step s (handleEvaluatorFeePaid h ev i e a s)"
    "workspace_step s (handleHookWhitelistUpdated h ev k b s)" "workspace_step s (handleUpgraded h ev im s)"
  by (rule workspace_step_frame [OF m];
      simp add: handleBudgetSet_def handleJobFunded_def handleJobSubmitted_def handleJobRejected_def
        handleJobExpired_def handleEvaluatorFeePaid_def handleHookWhitelistUpdated_def handleUpgraded_def
        Let_def case_prod_beta split: option.splits)+

text \<open>The summary used by the other data sources: every escrow event keeps bindings, identities and
  the agreement of counters with points, and the escrow invariant.\<close>

lemma escrow_step:
  assumes "metrics_ok (st_agents s) (st_agentPoints s)"
  shows "workspace_step s (handleEscrow h ev e s)"
  using assms by (cases e) (simp_all add: step_JobCreated step_ProviderSet step_mark_handlers step_Refunded step_plain_handlers)

lemma escrow_preserved:
  assumes "escrow_ok h s" "escrow_admissible h ev e s"
  shows "escrow_ok h (handleEscrow h ev e s)"
  using assms
  by (cases e) (simp_all add: escrow_JobCreated escrow_ProviderSet escrow_BudgetSet escrow_JobFunded escrow_JobSubmitted
      escrow_JobCompleted escrow_JobRejected escrow_JobExpired escrow_PaymentReleased escrow_EvaluatorFeePaid
      escrow_Refunded escrow_admin)

text \<open>The escrow never touches the registries, the feedback or the documents.\<close>

definition other_tables :: "Store \<Rightarrow> (bytes \<rightharpoonup> Feedback) \<times> FeedbackMetricPoint list \<times> (bytes \<rightharpoonup> IdentityRegistry)
    \<times> (bytes \<rightharpoonup> ReputationRegistry) \<times> Documents" where
  "other_tables s = (st_feedback s, st_feedbackPoints s, st_identityRegistries s, st_reputationRegistries s, st_documents s)"

lemma other_tables_saves [simp]:
  "other_tables (saveJob j s) = other_tables s" "other_tables (saveCommerce c s) = other_tables s"
  "other_tables (saveJobEvent r s) = other_tables s" "other_tables (saveEngagement e s) = other_tables s"
  "other_tables (saveAgent a s) = other_tables s" "other_tables (recordAgentMetric a k m t s) = other_tables s"
  "other_tables (snd (getOrCreateAccount x s)) = other_tables s"
  "other_tables (s\<lparr>st_hooks := hs\<rparr>) = other_tables s"
  by (simp_all add: other_tables_def save_defs recordAgentMetric_def getOrCreateAccount_def Let_def split: option.splits)

lemma other_tables_helpers [simp]:
  "other_tables (snd (getOrCreateAgenticCommerce h ev s)) = other_tables s"
  "other_tables (snd (markSettledIfPaid j ev s)) = other_tables s"
  "other_tables (recordRefund j a ev s) = other_tables s"
  "other_tables (snd (linkWorkspaces h j ev s)) = other_tables s"
  "other_tables (snd (snd (prepare_job h ev row i c p e x k s))) = other_tables s"
  by (auto simp: getOrCreateAgenticCommerce_def markSettledIfPaid_def settle_commerce_def settle_provider_def
      settle_client_def settle_engagement_def recordRefund_def linkWorkspaces_def prepare_job_def Let_def case_prod_beta
      split: option.splits)

lemma escrow_frame: "other_tables (handleEscrow h ev e s) = other_tables s"
  by (cases e)
     (auto simp: handleJobCreated_def handleProviderSet_def handleBudgetSet_def handleJobFunded_def
      handleJobSubmitted_def handleJobCompleted_def handleJobRejected_def handleJobExpired_def
      handlePaymentReleased_def handleEvaluatorFeePaid_def handleRefunded_def handleHookWhitelistUpdated_def
      handleUpgraded_def Let_def case_prod_beta split: option.splits)

end
