(* ===== verification/SG_Identity.thy ===== *)
theory SG_Identity
  imports SG_Metrics
begin

text \<open>
  The identity registry data source (\<open>identity/identity-registry.ts\<close>): registration, metadata,
  URI updates, transfers and approvals. The lemmas below the handlers show what each does to the
  agents and wallet bindings and that the invariants of the escrow and of the metrics survive.
\<close>

section \<open>Handlers\<close>

definition getOrCreateIdentityRegistry :: "Host \<Rightarrow> bytes \<Rightarrow> int \<Rightarrow> Store \<Rightarrow> IdentityRegistry" where
  "getOrCreateIdentityRegistry h address timestamp s =
     (let chainId = h_chainId h;
          i = registryEntityId chainId address
      in case st_identityRegistries s i of
        Some registry \<Rightarrow> registry
      | None \<Rightarrow> \<lparr>ir_id = i, ir_network = h_network h, ir_chainId = chainId,
          ir_agentRegistry = toEip155Caip10 chainId address, ir_agentCount = 0, ir_unburnedAgentCount = 0,
          ir_createdAt = toI64 timestamp, ir_updatedAt = 0\<rparr>)"

definition agentWalletFromMetadataValue :: "bytes \<Rightarrow> bytes option" where
  "agentWalletFromMetadataValue v =
     (if length v < 20 then None
      else let address = drop (length v - 20) v in if address = zero_address then None else Some address)"

definition touchAgent :: "Agent \<Rightarrow> Event \<Rightarrow> Agent" where
  "touchAgent agent ev = agent\<lparr>ag_updatedAt := event_time ev, ag_updatedAtBlock := ev_blockNumber ev,
     ag_updatedAtTransaction := ev_txHash ev\<rparr>"

definition handleRegistered :: "Host \<Rightarrow> Event \<Rightarrow> int \<Rightarrow> string \<Rightarrow> bytes \<Rightarrow> Store \<Rightarrow> Store" where
  "handleRegistered h ev agentId agentURI p_owner s =
     (let registry = getOrCreateIdentityRegistry h (ev_address ev) (ev_timestamp ev) s;
          registry = registry\<lparr>ir_agentCount := ir_agentCount registry + 1,
                              ir_unburnedAgentCount := ir_unburnedAgentCount registry + 1,
                              ir_updatedAt := event_time ev\<rparr>;
          s = saveIdentityRegistry registry s;
          (owner, s) = getOrCreateAccount p_owner s;
          agentURIKind = classifyUri agentURI;
          agentIdBytes = agentEntityId (ir_chainId registry) (ev_address ev) agentId;
          (registrationId, docs) = resolveAgentRegistration h agentIdBytes agentURI agentURIKind (st_documents s);
          s = s\<lparr>st_documents := docs\<rparr>;
          agent = \<lparr>ag_id = agentIdBytes, ag_registry = ir_id registry, ag_agentId = agentId,
            ag_owner = Some (ac_id owner), ag_approved = None, ag_agentWallet = None, ag_isBurned = False,
            ag_agentURI = agentURI, ag_agentURIKind = agentURIKind, ag_uriRevision = 0,
            ag_registration = registrationId, ag_feedbackCount = 0, ag_activeFeedbackCount = 0,
            ag_responseCount = 0, ag_verifiedFeedbackCount = 0, ag_bufiScore = None,
            ag_bufiScoreVersion = None, ag_bufiScoreDate = None, ag_bufiScoreHash = None,
            ag_bufiScoreUpdatedAt = None, ag_jobsAsClient = 0, ag_jobsAsProvider = 0, ag_settledAsClient = 0,
            ag_settledAsProvider = 0, ag_settledVolumeAsClient = 0, ag_settledVolumeAsProvider = 0,
            ag_refundedVolumeAsClient = 0, ag_createdAt = event_time ev, ag_createdAtBlock = ev_blockNumber ev,
            ag_createdAtTransaction = ev_txHash ev, ag_updatedAt = event_time ev,
            ag_updatedAtBlock = ev_blockNumber ev, ag_updatedAtTransaction = ev_txHash ev\<rparr>;
          s = saveAgent agent s;
          revision = \<lparr>lg_id = eventId ev, lg_blockNumber = ev_blockNumber ev, lg_timestamp = event_time ev,
            lg_transactionHash = ev_txHash ev, lg_logIndex = ev_logIndex ev, ur_agent = ag_id agent,
            ur_revision = 0, ur_uri = agentURI, ur_uriKind = agentURIKind, ur_updatedBy = ac_id owner,
            ur_registration = registrationId\<rparr>
      in s\<lparr>st_uriRevisions := (st_uriRevisions s)(lg_id revision \<mapsto> revision)\<rparr>)"

text \<open>The wallet and score part of \<open>handleMetadataSet\<close>.\<close>

definition apply_metadata :: "Host \<Rightarrow> Event \<Rightarrow> Agent \<Rightarrow> string \<Rightarrow> bytes \<Rightarrow> Store \<Rightarrow> Agent \<times> Store" where
  "apply_metadata h ev agent metadataKey metadataValue s =
     (if metadataKey = ''agentWallet''
      then let s = unbindWallet agent (ag_agentWallet agent) s;
               wallet = agentWalletFromMetadataValue metadataValue;
               agent = agent\<lparr>ag_agentWallet := wallet\<rparr>
           in (agent, (case wallet of None \<Rightarrow> s | Some w \<Rightarrow> bindWallet agent w ev s))
      else if metadataKey = BUFI_SCORE_KEY
      then (applyScoreAttestation h agent metadataValue (ev_timestamp ev), s)
      else (agent, s))"

definition handleMetadataSet :: "Host \<Rightarrow> Event \<Rightarrow> int \<Rightarrow> string \<Rightarrow> bytes \<Rightarrow> Store \<Rightarrow> Store" where
  "handleMetadataSet h ev agentId metadataKey metadataValue s =
     (case getAgent (agentEntityId (h_chainId h) (ev_address ev) agentId) s of
        None \<Rightarrow> s
      | Some agent \<Rightarrow>
          (let (agent, s) = apply_metadata h ev agent metadataKey metadataValue s;
               keyHash = h_keccak256 h (fromUTF8 metadataKey);
               metadataId = ag_id agent @ keyHash;
               metadata = (case st_metadata s metadataId of
                   Some metadata \<Rightarrow> metadata
                 | None \<Rightarrow> \<lparr>md_id = metadataId, md_agent = ag_id agent, md_key = metadataKey, md_keyHash = keyHash,
                            md_value = [], md_updatedAt = 0, md_updatedAtBlock = 0, md_updatedAtTransaction = []\<rparr>);
               metadata = metadata\<lparr>md_value := metadataValue, md_updatedAt := event_time ev,
                 md_updatedAtBlock := ev_blockNumber ev, md_updatedAtTransaction := ev_txHash ev\<rparr>;
               s = s\<lparr>st_metadata := (st_metadata s)(md_id metadata \<mapsto> metadata)\<rparr>;
               revision = \<lparr>lg_id = eventId ev, lg_blockNumber = ev_blockNumber ev, lg_timestamp = event_time ev,
                 lg_transactionHash = ev_txHash ev, lg_logIndex = ev_logIndex ev, mr_agent = ag_id agent,
                 mr_key = metadataKey, mr_keyHash = keyHash, mr_value = metadataValue\<rparr>;
               s = s\<lparr>st_metadataRevisions := (st_metadataRevisions s)(lg_id revision \<mapsto> revision)\<rparr>
           in saveAgent (touchAgent agent ev) s))"

definition handleURIUpdated :: "Host \<Rightarrow> Event \<Rightarrow> int \<Rightarrow> string \<Rightarrow> bytes \<Rightarrow> Store \<Rightarrow> Store" where
  "handleURIUpdated h ev agentId newURI p_updatedBy s =
     (case getAgent (agentEntityId (h_chainId h) (ev_address ev) agentId) s of
        None \<Rightarrow> s
      | Some agent \<Rightarrow>
          (let (updatedBy, s) = getOrCreateAccount p_updatedBy s;
               uriKind = classifyUri newURI;
               (registrationId, docs) = resolveAgentRegistration h (ag_id agent) newURI uriKind (st_documents s);
               s = s\<lparr>st_documents := docs\<rparr>;
               agent = touchAgent (agent\<lparr>ag_agentURI := newURI, ag_agentURIKind := uriKind,
                 ag_uriRevision := ag_uriRevision agent + 1, ag_registration := registrationId\<rparr>) ev;
               s = saveAgent agent s;
               revision = \<lparr>lg_id = eventId ev, lg_blockNumber = ev_blockNumber ev, lg_timestamp = event_time ev,
                 lg_transactionHash = ev_txHash ev, lg_logIndex = ev_logIndex ev, ur_agent = ag_id agent,
                 ur_revision = ag_uriRevision agent, ur_uri = newURI, ur_uriKind = uriKind,
                 ur_updatedBy = ac_id updatedBy, ur_registration = registrationId\<rparr>
           in s\<lparr>st_uriRevisions := (st_uriRevisions s)(lg_id revision \<mapsto> revision)\<rparr>))"

definition handleTransfer :: "Host \<Rightarrow> Event \<Rightarrow> bytes \<Rightarrow> bytes \<Rightarrow> int \<Rightarrow> Store \<Rightarrow> Store" where
  "handleTransfer h ev p_from p_to tokenId s =
     (if p_from = zero_address then s
      else case getAgent (agentEntityId (h_chainId h) (ev_address ev) tokenId) s of
        None \<Rightarrow> s
      | Some agent \<Rightarrow>
          (let (from, s) = getOrCreateAccount p_from s;
               (to, s) = getOrCreateAccount p_to s;
               isBurn = (p_to = zero_address);
               agent = agent\<lparr>ag_owner := (if isBurn then None else Some (ac_id to)), ag_approved := None\<rparr>;
               s = unbindWallet agent (ag_agentWallet agent) s;
               agent = touchAgent (agent\<lparr>ag_agentWallet := None, ag_isBurned := isBurn\<rparr>) ev;
               s = saveAgent agent s;
               transfer = \<lparr>lg_id = eventId ev, lg_blockNumber = ev_blockNumber ev, lg_timestamp = event_time ev,
                 lg_transactionHash = ev_txHash ev, lg_logIndex = ev_logIndex ev, tf_agent = ag_id agent,
                 tf_from = ac_id from, tf_to = ac_id to\<rparr>;
               s = s\<lparr>st_transfers := (st_transfers s)(lg_id transfer \<mapsto> transfer)\<rparr>
           in if \<not> isBurn then s
              else case st_identityRegistries s (registryEntityId (h_chainId h) (ev_address ev)) of
                None \<Rightarrow> s
              | Some registry \<Rightarrow> saveIdentityRegistry (registry\<lparr>
                  ir_unburnedAgentCount := ir_unburnedAgentCount registry - 1, ir_updatedAt := event_time ev\<rparr>) s))"

definition handleApproval :: "Host \<Rightarrow> Event \<Rightarrow> bytes \<Rightarrow> bytes \<Rightarrow> int \<Rightarrow> Store \<Rightarrow> Store" where
  "handleApproval h ev p_owner p_approved tokenId s =
     (case getAgent (agentEntityId (h_chainId h) (ev_address ev) tokenId) s of
        None \<Rightarrow> s
      | Some agent \<Rightarrow>
          (let (owner, s) = getOrCreateAccount p_owner s;
               (approved, s) = getOrCreateAccount p_approved s;
               clearsApproval = (p_approved = zero_address);
               agent = touchAgent (agent\<lparr>ag_approved := (if clearsApproval then None else Some (ac_id approved))\<rparr>) ev;
               s = saveAgent agent s;
               change = \<lparr>lg_id = eventId ev, lg_blockNumber = ev_blockNumber ev, lg_timestamp = event_time ev,
                 lg_transactionHash = ev_txHash ev, lg_logIndex = ev_logIndex ev, ap_agent = ag_id agent,
                 ap_owner = ac_id owner, ap_approved = ac_id approved\<rparr>
           in s\<lparr>st_approvalChanges := (st_approvalChanges s)(lg_id change \<mapsto> change)\<rparr>))"

definition handleApprovalForAll :: "Event \<Rightarrow> bytes \<Rightarrow> bytes \<Rightarrow> bool \<Rightarrow> Store \<Rightarrow> Store" where
  "handleApprovalForAll ev p_owner p_operator p_approved s =
     (let (owner, s) = getOrCreateAccount p_owner s;
          (operator, s) = getOrCreateAccount p_operator s;
          i = ac_id owner @ ac_id operator;
          approval = (case st_operatorApprovals s i of
              Some approval \<Rightarrow> approval
            | None \<Rightarrow> \<lparr>oa_id = i, oa_owner = ac_id owner, oa_operator = ac_id operator, oa_approved = False,
                       oa_updatedAt = 0, oa_updatedAtBlock = 0, oa_updatedAtTransaction = []\<rparr>);
          approval = approval\<lparr>oa_approved := p_approved, oa_updatedAt := event_time ev,
            oa_updatedAtBlock := ev_blockNumber ev, oa_updatedAtTransaction := ev_txHash ev\<rparr>;
          s = s\<lparr>st_operatorApprovals := (st_operatorApprovals s)(oa_id approval \<mapsto> approval)\<rparr>;
          change = \<lparr>lg_id = eventId ev, lg_blockNumber = ev_blockNumber ev, lg_timestamp = event_time ev,
            lg_transactionHash = ev_txHash ev, lg_logIndex = ev_logIndex ev, oc_owner = ac_id owner,
            oc_operator = ac_id operator, oc_approved = p_approved\<rparr>
      in s\<lparr>st_operatorApprovalChanges := (st_operatorApprovalChanges s)(lg_id change \<mapsto> change)\<rparr>)"

section \<open>The events of the identity registry\<close>

datatype IdentityEvent =
  Registered int string bytes
| MetadataSet int string bytes
| URIUpdated int string bytes
| Transfer bytes bytes int
| Approval bytes bytes int
| ApprovalForAll bytes bytes bool

fun handleIdentity :: "Host \<Rightarrow> Event \<Rightarrow> IdentityEvent \<Rightarrow> Store \<Rightarrow> Store" where
  "handleIdentity h ev (Registered i u a) s = handleRegistered h ev i u a s"
| "handleIdentity h ev (MetadataSet i k v) s = handleMetadataSet h ev i k v s"
| "handleIdentity h ev (URIUpdated i u a) s = handleURIUpdated h ev i u a s"
| "handleIdentity h ev (Transfer f t i) s = handleTransfer h ev f t i s"
| "handleIdentity h ev (Approval a b i) s = handleApproval h ev a b i s"
| "handleIdentity h ev (ApprovalForAll a b x) s = handleApprovalForAll ev a b x s"

text \<open>What the registry contract guarantees of its log: an agent number is registered once, and a
  burnt token is never transferred again.\<close>

fun identity_admissible :: "Host \<Rightarrow> Event \<Rightarrow> IdentityEvent \<Rightarrow> Store \<Rightarrow> bool" where
  "identity_admissible h ev (Registered i u a) s = (st_agents s (agentEntityId (h_chainId h) (ev_address ev) i) = None)"
| "identity_admissible h ev (Transfer f t i) s =
     (case st_agents s (agentEntityId (h_chainId h) (ev_address ev) i) of None \<Rightarrow> True | Some a \<Rightarrow> \<not> ag_isBurned a)"
| "identity_admissible h ev _ s = True"

section \<open>Invariants\<close>

text \<open>Every agent sits under the identifier made of its chain, registry address and number; the
  registry rows count the agents and those not burnt.\<close>

definition agent_placed :: "Host \<Rightarrow> bytes \<Rightarrow> Agent \<Rightarrow> bool" where
  "agent_placed h k a \<longleftrightarrow> ag_id a = k \<and> (\<exists>address. k = agentEntityId (h_chainId h) address (ag_agentId a)
     \<and> ag_registry a = registryEntityId (h_chainId h) address)"

definition registry_ok :: "Host \<Rightarrow> (bytes \<rightharpoonup> Agent) \<Rightarrow> bytes \<Rightarrow> IdentityRegistry \<Rightarrow> bool" where
  "registry_ok h t i r \<longleftrightarrow> ir_id r = i \<and> ir_chainId r = h_chainId h
     \<and> ir_agentCount r = table_sum (count_if (\<lambda>a. ag_registry a = i)) t
     \<and> ir_unburnedAgentCount r = table_sum (count_if (\<lambda>a. ag_registry a = i \<and> \<not> ag_isBurned a)) t"

definition identity_tables :: "Host \<Rightarrow> (bytes \<rightharpoonup> Agent) \<Rightarrow> (bytes \<rightharpoonup> IdentityRegistry) \<Rightarrow> bool" where
  "identity_tables h t rs \<longleftrightarrow> finite (dom t)
     \<and> (\<forall>k a. t k = Some a \<longrightarrow> agent_placed h k a \<and> rs (ag_registry a) \<noteq> None)
     \<and> (\<forall>i r. rs i = Some r \<longrightarrow> registry_ok h t i r)"

text \<open>A bound wallet is the wallet of the agent it is bound to.\<close>

definition wallets_ok :: "(bytes \<rightharpoonup> Agent) \<Rightarrow> (bytes \<rightharpoonup> WalletBinding) \<Rightarrow> bool" where
  "wallets_ok t bs \<longleftrightarrow> (\<forall>w b. bs w = Some b \<longrightarrow> wb_id b = w
     \<and> (\<exists>a. t (wb_agent b) = Some a \<and> ag_agentWallet a = Some w))"

text \<open>Versions of an agent that differ in neither its place nor its counters.\<close>

definition same_agent :: "Agent \<Rightarrow> Agent \<Rightarrow> bool" where
  "same_agent a b \<longleftrightarrow> ag_id b = ag_id a \<and> ag_registry b = ag_registry a \<and> ag_agentId b = ag_agentId a
     \<and> ag_isBurned b = ag_isBurned a"

lemma same_agent_refl [simp]: "same_agent a a"
  by (simp add: same_agent_def)

lemma identity_tables_same:
  assumes T: "identity_tables h t rs" and k: "t k = Some a" and s: "same_agent a b"
  shows "identity_tables h (t(k \<mapsto> b)) rs"
proof -
  have fin: "finite (dom t)" using T by (simp add: identity_tables_def)
  have "registry_ok h (t(k \<mapsto> b)) i r" if "registry_ok h t i r" for i r
    using that k s fin by (simp add: registry_ok_def table_sum_upd count_if_def same_agent_def)
  moreover have "agent_placed h k b" "rs (ag_registry b) \<noteq> None"
    using T k s by (auto simp: identity_tables_def agent_placed_def same_agent_def)
  ultimately show ?thesis using T by (simp add: identity_tables_def)
qed

lemma identity_tables_new:
  assumes T: "identity_tables h t rs" and k: "t k = None" and a: "agent_placed h k a" "\<not> ag_isBurned a"
    and r: "r = (case rs (ag_registry a) of None \<Rightarrow> r0 | Some x \<Rightarrow> x)"
    and r0: "ir_id r0 = ag_registry a" "ir_chainId r0 = h_chainId h" "ir_agentCount r0 = 0" "ir_unburnedAgentCount r0 = 0"
    and r': "ir_id r' = ir_id r" "ir_chainId r' = ir_chainId r" "ir_agentCount r' = ir_agentCount r + 1"
      "ir_unburnedAgentCount r' = ir_unburnedAgentCount r + 1"
  shows "identity_tables h (t(k \<mapsto> a)) (rs(ag_registry a \<mapsto> r'))"
proof -
  have fin: "finite (dom t)" using T by (simp add: identity_tables_def)
  have "registry_ok h t (ag_registry a) r"
  proof (cases "rs (ag_registry a)")
    case None
    then have "ag_registry x \<noteq> ag_registry a" if "t y = Some x" for x y
      using T that unfolding identity_tables_def by metis
    then have "table_sum (count_if (\<lambda>x. ag_registry x = ag_registry a)) t = 0"
      "table_sum (count_if (\<lambda>x. ag_registry x = ag_registry a \<and> \<not> ag_isBurned x)) t = 0"
      by (auto simp: count_if_def intro!: table_sum_zero)
    with None r r0 show ?thesis by (simp add: registry_ok_def)
  next
    case (Some x)
    with T r show ?thesis by (simp add: identity_tables_def)
  qed
  then have "registry_ok h (t(k \<mapsto> a)) (ag_registry a) r'"
    using r' k a fin by (simp add: registry_ok_def table_sum_upd count_if_def)
  moreover have "registry_ok h (t(k \<mapsto> a)) i x" if "registry_ok h t i x" "i \<noteq> ag_registry a" for i x
    using that k fin by (simp add: registry_ok_def table_sum_upd count_if_def)
  ultimately show ?thesis using T a by (auto simp: identity_tables_def)
qed

lemma identity_tables_transfer:
  assumes T: "identity_tables h t rs" and k: "t k = Some a" "\<not> ag_isBurned a"
    and b: "ag_id b = ag_id a" "ag_registry b = ag_registry a" "ag_agentId b = ag_agentId a" "ag_isBurned b"
    and r: "rs (ag_registry a) = Some r"
    and r': "ir_id r' = ir_id r" "ir_chainId r' = ir_chainId r" "ir_agentCount r' = ir_agentCount r"
      "ir_unburnedAgentCount r' = ir_unburnedAgentCount r - 1"
  shows "identity_tables h (t(k \<mapsto> b)) (rs(ag_registry a \<mapsto> r'))"
proof -
  have fin: "finite (dom t)" using T by (simp add: identity_tables_def)
  have "registry_ok h t (ag_registry a) r" using T r by (simp add: identity_tables_def)
  then have "registry_ok h (t(k \<mapsto> b)) (ag_registry a) r'"
    using r' k b fin by (simp add: registry_ok_def table_sum_upd count_if_def)
  moreover have "registry_ok h (t(k \<mapsto> b)) i x" if "registry_ok h t i x" "i \<noteq> ag_registry a" for i x
    using that k b fin by (simp add: registry_ok_def table_sum_upd count_if_def)
  moreover have "agent_placed h k b" using T k b by (auto simp: identity_tables_def agent_placed_def)
  ultimately show ?thesis using T k b by (auto simp: identity_tables_def)
qed

text \<open>Wallets: unbinding removes what points at the agent, binding points the wallet at it.\<close>

lemma unbindWallet_bindings:
  "st_bindings (unbindWallet a w s) = (case w of None \<Rightarrow> st_bindings s
     | Some x \<Rightarrow> (case st_bindings s x of None \<Rightarrow> st_bindings s
         | Some b \<Rightarrow> if wb_agent b = ag_id a then (st_bindings s)(x := None) else st_bindings s))"
  by (simp add: unbindWallet_def split: option.splits)

lemma unbindWallet_clears:
  assumes ok: "wallets_ok (st_agents s) (st_bindings s)" and a: "st_agents s (ag_id a) = Some a'"
    "ag_agentWallet a' = ag_agentWallet a"
    and b: "st_bindings (unbindWallet a (ag_agentWallet a) s) w = Some b"
  shows "wb_agent b \<noteq> ag_id a" "st_bindings s w = Some b"
proof -
  show w: "st_bindings s w = Some b"
    using b by (auto simp: unbindWallet_bindings split: option.splits if_splits)
  show "wb_agent b \<noteq> ag_id a"
  proof
    assume *: "wb_agent b = ag_id a"
    with ok w a have "ag_agentWallet a = Some w" unfolding wallets_ok_def by fastforce
    with * w have "st_bindings (unbindWallet a (ag_agentWallet a) s) w = None" by (simp add: unbindWallet_bindings)
    with b show False by simp
  qed
qed

lemma unbindWallet_frame [simp]:
  "st_agents (unbindWallet a w s) = st_agents s" "st_agentPoints (unbindWallet a w s) = st_agentPoints s"
  "st_jobs (unbindWallet a w s) = st_jobs s" "st_commerces (unbindWallet a w s) = st_commerces s"
  "st_engagements (unbindWallet a w s) = st_engagements s"
  "st_identityRegistries (unbindWallet a w s) = st_identityRegistries s"
  "st_reputationRegistries (unbindWallet a w s) = st_reputationRegistries s"
  "st_feedback (unbindWallet a w s) = st_feedback s" "st_feedbackPoints (unbindWallet a w s) = st_feedbackPoints s"
  by (auto simp: unbindWallet_def split: option.splits)

lemma bindWallet_frame [simp]:
  "st_agents (bindWallet a w ev s) = st_agents s" "st_agentPoints (bindWallet a w ev s) = st_agentPoints s"
  "st_jobs (bindWallet a w ev s) = st_jobs s" "st_commerces (bindWallet a w ev s) = st_commerces s"
  "st_engagements (bindWallet a w ev s) = st_engagements s"
  "st_identityRegistries (bindWallet a w ev s) = st_identityRegistries s"
  "st_reputationRegistries (bindWallet a w ev s) = st_reputationRegistries s"
  "st_feedback (bindWallet a w ev s) = st_feedback s" "st_feedbackPoints (bindWallet a w ev s) = st_feedbackPoints s"
  by (auto simp: bindWallet_def Let_def case_prod_beta saveBinding_def)

lemma bindWallet_bindings:
  assumes "\<forall>w b. st_bindings s w = Some b \<longrightarrow> wb_id b = w"
  obtains b where "st_bindings (bindWallet a w ev s) = (st_bindings s)(w \<mapsto> b)" "wb_id b = w" "wb_agent b = ag_id a"
proof -
  let ?b = "(case st_bindings s w of Some b \<Rightarrow> b
      | None \<Rightarrow> \<lparr>wb_id = w, wb_account = [], wb_agent = [], wb_boundAt = 0, wb_boundAtTransaction = []\<rparr>)
      \<lparr>wb_account := ac_id (fst (getOrCreateAccount w s)), wb_agent := ag_id a,
       wb_boundAt := event_time ev, wb_boundAtTransaction := ev_txHash ev\<rparr>"
  have "wb_id ?b = w" using assms by (auto split: option.splits)
  moreover have "st_bindings (bindWallet a w ev s) = (st_bindings s)(wb_id ?b \<mapsto> ?b)"
    by (simp add: bindWallet_def Let_def case_prod_beta saveBinding_def)
  ultimately show thesis using that [of ?b] by simp
qed

definition identity_ok :: "Host \<Rightarrow> Store \<Rightarrow> bool" where
  "identity_ok h s \<longleftrightarrow> identity_tables h (st_agents s) (st_identityRegistries s)
     \<and> wallets_ok (st_agents s) (st_bindings s) \<and> metrics_ok (st_agents s) (st_agentPoints s)"

lemma wallets_ok_keyed: "wallets_ok t bs \<Longrightarrow> \<forall>w b. bs w = Some b \<longrightarrow> wb_id b = w"
  by (simp add: wallets_ok_def)

lemma wallets_ok_upd:
  assumes "wallets_ok t bs" "\<forall>w b. bs' w = Some b \<longrightarrow> (bs w = Some b \<and> wb_agent b \<noteq> k) \<or> (wb_id b = w \<and> wb_agent b = k \<and> ag_agentWallet a = Some w)"
  shows "wallets_ok (t(k \<mapsto> a)) bs'"
  using assms unfolding wallets_ok_def by (metis fun_upd_apply)

lemma wallets_ok_same:
  assumes "wallets_ok t bs" "t k = Some a" "ag_agentWallet b = ag_agentWallet a"
  shows "wallets_ok (t(k \<mapsto> b)) bs"
  using assms unfolding wallets_ok_def by (metis fun_upd_apply option.inject)

lemma wallets_ok_new: "wallets_ok t bs \<Longrightarrow> t k = None \<Longrightarrow> wallets_ok (t(k \<mapsto> a)) bs"
  unfolding wallets_ok_def by (metis fun_upd_apply option.distinct(1))

lemma metrics_ok_new:
  assumes m: "metrics_ok t ps" and k: "t k = None" and a: "agent_money a = (k, 0, 0, 0, 0, 0)"
  shows "metrics_ok (t(k \<mapsto> a)) ps"
proof -
  have "filter (\<lambda>p. mp_agent p = k \<and> mp_kind p = kind) ps = []" for kind
    using m k by (auto simp: metrics_ok_def filter_empty_conv)
  then have "agent_metrics_ok ps k a"
    using a by (simp add: agent_metrics_ok_def agent_money_def points_count_def points_volume_def)
  then show ?thesis using m by (auto simp: metrics_ok_def)
qed

lemma getAgent_placed:
  assumes "identity_ok h s" "getAgent (agentEntityId (h_chainId h) address i) s = Some a"
  shows "st_agents s (ag_id a) = Some a" "ag_id a = agentEntityId (h_chainId h) address i"
    "ag_registry a = registryEntityId (h_chainId h) address" "st_identityRegistries s (ag_registry a) \<noteq> None"
proof -
  have "agent_placed h (agentEntityId (h_chainId h) address i) a \<and> st_identityRegistries s (ag_registry a) \<noteq> None"
    using assms by (auto simp: identity_ok_def identity_tables_def getAgent_def)
  then show "st_agents s (ag_id a) = Some a" "ag_id a = agentEntityId (h_chainId h) address i"
    "ag_registry a = registryEntityId (h_chainId h) address" "st_identityRegistries s (ag_registry a) \<noteq> None"
    using assms(2) by (auto simp: agent_placed_def getAgent_def)
qed

text \<open>Handlers that change an agent in neither place, wallet nor counters.\<close>

lemma identity_ok_same:
  assumes "identity_ok h s" "st_agents s (ag_id a) = Some a" "same_agent a b" "agent_money b = agent_money a"
    "ag_agentWallet b = ag_agentWallet a"
    "st_agents s' = (st_agents s)(ag_id a \<mapsto> b)" "st_identityRegistries s' = st_identityRegistries s"
    "st_bindings s' = st_bindings s" "st_agentPoints s' = st_agentPoints s"
  shows "identity_ok h s'"
  using assms by (simp add: identity_ok_def identity_tables_same wallets_ok_same metrics_ok_same)

lemma identity_Registered:
  assumes ok: "identity_ok h s" and new: "st_agents s (agentEntityId (h_chainId h) (ev_address ev) i) = None"
  shows "identity_ok h (handleRegistered h ev i u ow s)"
proof -
  let ?k = "agentEntityId (h_chainId h) (ev_address ev) i"
  let ?s' = "handleRegistered h ev i u ow s"
  let ?rid = "registryEntityId (h_chainId h) (ev_address ev)"
  define r where "r = getOrCreateIdentityRegistry h (ev_address ev) (ev_timestamp ev) s"
  have r: "ir_id r = ?rid" "ir_chainId r = h_chainId h"
    using ok by (auto simp: r_def getOrCreateIdentityRegistry_def Let_def identity_ok_def identity_tables_def registry_ok_def split: option.splits)
  obtain a where a: "st_agents ?s' = (st_agents s)(?k \<mapsto> a)" "ag_id a = ?k" "ag_agentId a = i" "ag_registry a = ?rid"
    "\<not> ag_isBurned a" "agent_money a = (?k, 0, 0, 0, 0, 0)"
    by (rule that [of "the (st_agents ?s' ?k)"])
       (simp_all add: handleRegistered_def Let_def case_prod_beta save_defs r_def [symmetric] r agent_money_def)
  have fr: "st_bindings ?s' = st_bindings s" "st_agentPoints ?s' = st_agentPoints s"
    "st_identityRegistries ?s' = (st_identityRegistries s)(?rid \<mapsto> r\<lparr>ir_agentCount := ir_agentCount r + 1,
        ir_unburnedAgentCount := ir_unburnedAgentCount r + 1, ir_updatedAt := event_time ev\<rparr>)"
    by (simp_all add: handleRegistered_def Let_def case_prod_beta save_defs r_def [symmetric] r)
  have "agent_placed h ?k a" using a by (auto simp: agent_placed_def)
  then have "identity_tables h ((st_agents s)(?k \<mapsto> a)) ((st_identityRegistries s)(ag_registry a \<mapsto> r\<lparr>ir_agentCount := ir_agentCount r + 1,
        ir_unburnedAgentCount := ir_unburnedAgentCount r + 1, ir_updatedAt := event_time ev\<rparr>))"
    using ok new a r
    by (intro identity_tables_new [where r = r and ?r0.0 = "\<lparr>ir_id = ?rid, ir_network = h_network h, ir_chainId = h_chainId h,
          ir_agentRegistry = toEip155Caip10 (h_chainId h) (ev_address ev), ir_agentCount = 0, ir_unburnedAgentCount = 0,
          ir_createdAt = toI64 (ev_timestamp ev), ir_updatedAt = 0\<rparr>"])
       (auto simp: identity_ok_def r_def getOrCreateIdentityRegistry_def Let_def split: option.splits)
  then show ?thesis
    using ok new a fr by (simp add: identity_ok_def wallets_ok_new metrics_ok_new)
qed

lemma touchAgent_simps [simp]:
  "same_agent a (touchAgent b ev) = same_agent a b" "agent_money (touchAgent b ev) = agent_money b"
  "ag_agentWallet (touchAgent b ev) = ag_agentWallet b" "ag_id (touchAgent b ev) = ag_id b"
  "ag_registry (touchAgent b ev) = ag_registry b" "ag_agentId (touchAgent b ev) = ag_agentId b"
  "ag_isBurned (touchAgent b ev) = ag_isBurned b"
  "ag_feedbackCount (touchAgent b ev) = ag_feedbackCount b"
  "ag_activeFeedbackCount (touchAgent b ev) = ag_activeFeedbackCount b"
  "ag_verifiedFeedbackCount (touchAgent b ev) = ag_verifiedFeedbackCount b"
  "ag_bufiScore (touchAgent b ev) = ag_bufiScore b"
  by (simp_all add: touchAgent_def same_agent_def agent_money_def)

lemma identity_URIUpdated:
  assumes ok: "identity_ok h s"
  shows "identity_ok h (handleURIUpdated h ev i u b s)"
proof (cases "getAgent (agentEntityId (h_chainId h) (ev_address ev) i) s")
  case (Some a)
  note p = getAgent_placed [OF ok Some]
  show ?thesis
    by (rule identity_ok_same [OF ok p(1), where b = "the (st_agents (handleURIUpdated h ev i u b s) (ag_id a))"])
       (simp_all add: handleURIUpdated_def Some Let_def case_prod_beta save_defs same_agent_def agent_money_def touchAgent_def)
qed (use ok in \<open>simp add: handleURIUpdated_def\<close>)

lemma identity_Approval:
  assumes ok: "identity_ok h s"
  shows "identity_ok h (handleApproval h ev ow b i s)"
proof (cases "getAgent (agentEntityId (h_chainId h) (ev_address ev) i) s")
  case (Some a)
  note p = getAgent_placed [OF ok Some]
  show ?thesis
    by (rule identity_ok_same [OF ok p(1), where b = "the (st_agents (handleApproval h ev ow b i s) (ag_id a))"])
       (simp_all add: handleApproval_def Some Let_def case_prod_beta save_defs same_agent_def agent_money_def touchAgent_def)
qed (use ok in \<open>simp add: handleApproval_def\<close>)

lemma identity_ApprovalForAll:
  assumes "identity_ok h s"
  shows "identity_ok h (handleApprovalForAll ev ow b x s)"
  using assms by (simp add: identity_ok_def handleApprovalForAll_def Let_def case_prod_beta)

lemma applyScoreAttestation_keeps [simp]:
  "same_agent a (applyScoreAttestation h a v t)" "agent_money (applyScoreAttestation h a v t) = agent_money a"
  "ag_agentWallet (applyScoreAttestation h a v t) = ag_agentWallet a" "ag_id (applyScoreAttestation h a v t) = ag_id a"
  "ag_feedbackCount (applyScoreAttestation h a v t) = ag_feedbackCount a"
  "ag_activeFeedbackCount (applyScoreAttestation h a v t) = ag_activeFeedbackCount a"
  "ag_verifiedFeedbackCount (applyScoreAttestation h a v t) = ag_verifiedFeedbackCount a"
  by (auto simp: applyScoreAttestation_def same_agent_def agent_money_def Let_def split: option.splits)

text \<open>The effect of \<open>handleMetadataSet\<close> on the tables of the invariant.\<close>

lemma handleMetadataSet_effect:
  assumes "getAgent (agentEntityId (h_chainId h) (ev_address ev) i) s = Some a"
    "apply_metadata h ev a key v s = (b, s1)"
  shows "st_agents (handleMetadataSet h ev i key v s) = (st_agents s1)(ag_id b \<mapsto> touchAgent b ev)"
    "st_bindings (handleMetadataSet h ev i key v s) = st_bindings s1"
    "st_identityRegistries (handleMetadataSet h ev i key v s) = st_identityRegistries s1"
    "st_agentPoints (handleMetadataSet h ev i key v s) = st_agentPoints s1"
    "st_jobs (handleMetadataSet h ev i key v s) = st_jobs s1"
    "st_commerces (handleMetadataSet h ev i key v s) = st_commerces s1"
    "st_engagements (handleMetadataSet h ev i key v s) = st_engagements s1"
    "st_reputationRegistries (handleMetadataSet h ev i key v s) = st_reputationRegistries s1"
    "st_feedback (handleMetadataSet h ev i key v s) = st_feedback s1"
    "st_feedbackPoints (handleMetadataSet h ev i key v s) = st_feedbackPoints s1"
  using assms by (simp_all add: handleMetadataSet_def Let_def save_defs)

lemma apply_metadata_keeps:
  assumes "apply_metadata h ev a key v s = (b, s1)"
  shows "ag_id b = ag_id a" "same_agent a b" "agent_money b = agent_money a" "st_agents s1 = st_agents s"
    "st_identityRegistries s1 = st_identityRegistries s" "st_agentPoints s1 = st_agentPoints s"
    "st_jobs s1 = st_jobs s" "st_commerces s1 = st_commerces s" "st_engagements s1 = st_engagements s"
    "st_reputationRegistries s1 = st_reputationRegistries s" "st_feedback s1 = st_feedback s"
    "st_feedbackPoints s1 = st_feedbackPoints s" "ag_feedbackCount b = ag_feedbackCount a"
    "ag_activeFeedbackCount b = ag_activeFeedbackCount a" "ag_verifiedFeedbackCount b = ag_verifiedFeedbackCount a"
proof -
  have [simp]: "same_agent a (a\<lparr>ag_agentWallet := w\<rparr>)" "agent_money (a\<lparr>ag_agentWallet := w\<rparr>) = agent_money a" "same_agent a a" for w
    by (simp_all add: same_agent_def agent_money_def)
  show "ag_id b = ag_id a" "same_agent a b" "agent_money b = agent_money a" "st_agents s1 = st_agents s"
    "st_identityRegistries s1 = st_identityRegistries s" "st_agentPoints s1 = st_agentPoints s"
    "st_jobs s1 = st_jobs s" "st_commerces s1 = st_commerces s" "st_engagements s1 = st_engagements s"
    "st_reputationRegistries s1 = st_reputationRegistries s" "st_feedback s1 = st_feedback s"
    "st_feedbackPoints s1 = st_feedbackPoints s" "ag_feedbackCount b = ag_feedbackCount a"
    "ag_activeFeedbackCount b = ag_activeFeedbackCount a" "ag_verifiedFeedbackCount b = ag_verifiedFeedbackCount a"
    using assms by (auto simp: apply_metadata_def Let_def split: if_splits option.splits)
qed

lemma apply_metadata_wallets:
  assumes ok: "wallets_ok (st_agents s) (st_bindings s)" and a: "st_agents s (ag_id a) = Some a"
    and m: "apply_metadata h ev a key v s = (b, s1)"
  shows "wallets_ok ((st_agents s)(ag_id a \<mapsto> b)) (st_bindings s1)"
proof (cases "key = ''agentWallet''")
  case True
  let ?u = "unbindWallet a (ag_agentWallet a) s"
  have u: "\<forall>w c. st_bindings ?u w = Some c \<longrightarrow> wb_agent c \<noteq> ag_id a \<and> st_bindings s w = Some c"
    using unbindWallet_clears [OF ok a] by blast
  then have keyed: "\<forall>w c. st_bindings ?u w = Some c \<longrightarrow> wb_id c = w"
    using wallets_ok_keyed [OF ok] by blast
  show ?thesis
  proof (cases "agentWalletFromMetadataValue v")
    case None
    with True m have "b = a\<lparr>ag_agentWallet := None\<rparr>" "s1 = ?u" by (simp_all add: apply_metadata_def Let_def)
    with u show ?thesis by (intro wallets_ok_upd [OF ok]) blast
  next
    case (Some w)
    with True m have b: "b = a\<lparr>ag_agentWallet := Some w\<rparr>" "s1 = bindWallet b w ev ?u"
      by (auto simp: apply_metadata_def Let_def)
    obtain c where "st_bindings s1 = (st_bindings ?u)(w \<mapsto> c)" "wb_id c = w" "wb_agent c = ag_id b"
      unfolding b(2) by (rule bindWallet_bindings [OF keyed])
    with u b(1) show ?thesis by (intro wallets_ok_upd [OF ok]) auto
  qed
next
  case False
  then have "st_bindings s1 = st_bindings s" "ag_agentWallet b = ag_agentWallet a"
    using m by (auto simp: apply_metadata_def split: if_splits)
  with ok a show ?thesis by (simp add: wallets_ok_same)
qed

lemma wallets_ok_touch:
  assumes "wallets_ok (t(k \<mapsto> b)) bs"
  shows "wallets_ok (t(k \<mapsto> touchAgent b ev)) bs"
  using wallets_ok_same [OF assms, of k b "touchAgent b ev"] by simp

lemma identity_MetadataSet:
  assumes ok: "identity_ok h s"
  shows "identity_ok h (handleMetadataSet h ev i key v s)"
proof (cases "getAgent (agentEntityId (h_chainId h) (ev_address ev) i) s")
  case (Some a)
  note p = getAgent_placed(1) [OF ok Some]
  obtain b s1 where m: "apply_metadata h ev a key v s = (b, s1)" by (cases "apply_metadata h ev a key v s")
  note k = apply_metadata_keeps [OF m]
  have "wallets_ok ((st_agents s)(ag_id a \<mapsto> b)) (st_bindings s1)"
    using apply_metadata_wallets [OF _ p m] ok by (simp add: identity_ok_def)
  then show ?thesis
    using ok p k
    by (simp add: identity_ok_def handleMetadataSet_effect [OF Some m] identity_tables_same metrics_ok_same wallets_ok_touch)
qed (use ok in \<open>simp add: handleMetadataSet_def\<close>)

lemma handleTransfer_effect:
  assumes "getAgent (agentEntityId (h_chainId h) (ev_address ev) i) s = Some a" "f \<noteq> zero_address"
    "\<forall>i r. st_identityRegistries s i = Some r \<longrightarrow> ir_id r = i"
  obtains b where "st_agents (handleTransfer h ev f t i s) = (st_agents s)(ag_id a \<mapsto> b)"
    "ag_id b = ag_id a" "ag_registry b = ag_registry a" "ag_agentId b = ag_agentId a" "ag_agentWallet b = None"
    "ag_isBurned b = (t = zero_address)" "agent_money b = agent_money a" "ag_feedbackCount b = ag_feedbackCount a"
    "ag_activeFeedbackCount b = ag_activeFeedbackCount a" "ag_verifiedFeedbackCount b = ag_verifiedFeedbackCount a"
    "st_bindings (handleTransfer h ev f t i s) = st_bindings (unbindWallet a (ag_agentWallet a) s)"
    "st_agentPoints (handleTransfer h ev f t i s) = st_agentPoints s"
    "st_identityRegistries (handleTransfer h ev f t i s) = (if t = zero_address
        then adjust (registryEntityId (h_chainId h) (ev_address ev)) (\<lambda>r. r\<lparr>ir_unburnedAgentCount := ir_unburnedAgentCount r - 1,
          ir_updatedAt := event_time ev\<rparr>) (st_identityRegistries s) else st_identityRegistries s)"
proof (rule that [of "touchAgent (a\<lparr>ag_owner := (if t = zero_address then None else Some (ac_id (fst (getOrCreateAccount t (snd (getOrCreateAccount f s)))))),
      ag_approved := None, ag_agentWallet := None, ag_isBurned := (t = zero_address)\<rparr>) ev"])
qed (use assms(1-3) in \<open>auto simp: handleTransfer_def Let_def case_prod_beta save_defs unbindWallet_bindings agent_money_def
    adjust_def touchAgent_def split: option.splits\<close>)

lemma identity_Transfer:
  assumes ok: "identity_ok h s" and nb: "\<forall>a. st_agents s (agentEntityId (h_chainId h) (ev_address ev) i) = Some a \<longrightarrow> \<not> ag_isBurned a"
  shows "identity_ok h (handleTransfer h ev f t i s)"
proof (cases "f = zero_address \<or> getAgent (agentEntityId (h_chainId h) (ev_address ev) i) s = None")
  case True
  with ok show ?thesis by (auto simp: handleTransfer_def)
next
  case False
  then obtain a where g: "getAgent (agentEntityId (h_chainId h) (ev_address ev) i) s = Some a" and f: "f \<noteq> zero_address" by auto
  note p = getAgent_placed [OF ok g]
  have na: "\<not> ag_isBurned a" using nb g by (simp add: getAgent_def)
  have T: "identity_tables h (st_agents s) (st_identityRegistries s)" using ok by (simp add: identity_ok_def)
  then have keyed: "\<forall>i r. st_identityRegistries s i = Some r \<longrightarrow> ir_id r = i" by (simp add: identity_tables_def registry_ok_def)
  obtain b where b: "st_agents (handleTransfer h ev f t i s) = (st_agents s)(ag_id a \<mapsto> b)"
    "ag_id b = ag_id a" "ag_registry b = ag_registry a" "ag_agentId b = ag_agentId a" "ag_agentWallet b = None"
    "ag_isBurned b = (t = zero_address)" "agent_money b = agent_money a"
    "st_bindings (handleTransfer h ev f t i s) = st_bindings (unbindWallet a (ag_agentWallet a) s)"
    "st_agentPoints (handleTransfer h ev f t i s) = st_agentPoints s"
    "st_identityRegistries (handleTransfer h ev f t i s) = (if t = zero_address
        then adjust (registryEntityId (h_chainId h) (ev_address ev)) (\<lambda>r. r\<lparr>ir_unburnedAgentCount := ir_unburnedAgentCount r - 1,
          ir_updatedAt := event_time ev\<rparr>) (st_identityRegistries s) else st_identityRegistries s)"
    by (rule handleTransfer_effect [OF g f keyed])
  have "identity_tables h ((st_agents s)(ag_id a \<mapsto> b)) (st_identityRegistries (handleTransfer h ev f t i s))"
  proof (cases "t = zero_address")
    case True
    obtain r where "st_identityRegistries s (ag_registry a) = Some r" using p(4) by auto
    with True b show ?thesis
      using identity_tables_transfer [OF T p(1) na, of b r] p(3) by (simp add: adjust_def)
  next
    case False
    with b na show ?thesis using identity_tables_same [OF T p(1), of b] by (simp add: same_agent_def)
  qed
  moreover have "wallets_ok ((st_agents s)(ag_id a \<mapsto> b)) (st_bindings (unbindWallet a (ag_agentWallet a) s))"
    using ok unbindWallet_clears [of s a a] p(1) by (intro wallets_ok_upd) (auto simp: identity_ok_def)
  ultimately show ?thesis
    using ok b p(1) by (simp add: identity_ok_def metrics_ok_same)
qed

lemma identity_preserved:
  assumes "identity_ok h s" "identity_admissible h ev e s"
  shows "identity_ok h (handleIdentity h ev e s)"
  using assms
  by (cases e) (simp_all add: identity_Registered identity_MetadataSet identity_URIUpdated identity_Transfer
      identity_Approval identity_ApprovalForAll split: option.splits)

text \<open>The escrow keeps the identity invariant, and the identity registry leaves the escrow alone.\<close>

lemma identity_tables_core:
  assumes T: "identity_tables h t rs" and c: "agents_core t' = agents_core t"
  shows "identity_tables h t' rs"
proof -
  have n: "(t' k = None) = (t k = None)" for k
    using fun_cong [OF c, of k] by (cases "t k"; cases "t' k") (simp_all add: agents_core_def)
  have d: "dom t' = dom t" unfolding dom_def by (simp add: n)
  have same: "agent_core (the (t' k)) = agent_core (the (t k))" if "k \<in> dom t" for k
    using that d fun_cong [OF c, of k] by (auto simp: agents_core_def)
  have sums: "table_sum (count_if P) t' = table_sum (count_if P) t"
    if "\<And>a b. agent_core a = agent_core b \<Longrightarrow> P a = P b" for P
    unfolding table_sum_def d
  proof (rule sum.cong [OF refl])
    fix k assume "k \<in> dom t"
    from that [OF same [OF this]] show "count_if P (the (t' k)) = count_if P (the (t k))" by (simp add: count_if_def)
  qed
  have "table_sum (count_if (\<lambda>a. ag_registry a = i)) t' = table_sum (count_if (\<lambda>a. ag_registry a = i)) t"
    "table_sum (count_if (\<lambda>a. ag_registry a = i \<and> \<not> ag_isBurned a)) t' = table_sum (count_if (\<lambda>a. ag_registry a = i \<and> \<not> ag_isBurned a)) t" for i
    using agent_core_fields(3,4) by (intro sums; metis)+
  then have "registry_ok h t' i r" if "registry_ok h t i r" for i r
    using that by (simp add: registry_ok_def)
  moreover have "agent_placed h k b \<and> rs (ag_registry b) \<noteq> None" if "t' k = Some b" for k b
  proof -
    obtain a where a: "t k = Some a" "agent_core a = agent_core b" by (rule agents_core_lookup [OF c [symmetric] \<open>t' k = Some b\<close>])
    have "agent_placed h k a" "rs (ag_registry a) \<noteq> None" using T a(1) by (simp_all add: identity_tables_def)
    then show ?thesis using agent_core_fields [OF a(2)] by (simp add: agent_placed_def)
  qed
  ultimately show ?thesis using T d by (simp add: identity_tables_def)
qed

lemma wallets_ok_core:
  assumes ok: "wallets_ok t bs" and c: "agents_core t' = agents_core t"
  shows "wallets_ok t' bs"
  unfolding wallets_ok_def
proof (intro allI impI conjI)
  fix w b assume w: "bs w = Some b"
  then show "wb_id b = w" using ok by (simp add: wallets_ok_def)
  obtain a where a: "t (wb_agent b) = Some a" "ag_agentWallet a = Some w" using ok w by (auto simp: wallets_ok_def)
  obtain a' where "t' (wb_agent b) = Some a'" "agent_core a' = agent_core a" by (rule agents_core_lookup [OF c a(1)])
  with a(2) show "\<exists>a. t' (wb_agent b) = Some a \<and> ag_agentWallet a = Some w"
    using agent_core_fields(2) [of a' a] by auto
qed

lemma identity_under_escrow:
  assumes "identity_ok h s"
  shows "identity_ok h (handleEscrow h ev e s)"
proof -
  have "workspace_step s (handleEscrow h ev e s)" using assms by (intro escrow_step) (simp add: identity_ok_def)
  moreover have "st_identityRegistries (handleEscrow h ev e s) = st_identityRegistries s"
    using escrow_frame [of h ev e s] by (simp add: other_tables_def)
  ultimately show ?thesis
    using assms identity_tables_core [of h "st_agents s"] wallets_ok_core [of "st_agents s"]
    by (simp add: identity_ok_def workspace_step_def)
qed

lemma identity_frame_escrow:
  "st_jobs (handleIdentity h ev e s) = st_jobs s" "st_commerces (handleIdentity h ev e s) = st_commerces s"
  "st_engagements (handleIdentity h ev e s) = st_engagements s"
  "st_feedback (handleIdentity h ev e s) = st_feedback s" "st_feedbackPoints (handleIdentity h ev e s) = st_feedbackPoints s"
  "st_reputationRegistries (handleIdentity h ev e s) = st_reputationRegistries s"
  by (cases e; auto simp: handleRegistered_def handleMetadataSet_def handleURIUpdated_def handleTransfer_def
      handleApproval_def handleApprovalForAll_def apply_metadata_def Let_def case_prod_beta save_defs split: option.splits)+

lemma escrow_under_identity: "escrow_ok h s \<Longrightarrow> escrow_ok h (handleIdentity h ev e s)"
  by (simp add: escrow_ok_def identity_frame_escrow)

end
