(* ===== verification/SG_Reputation.thy ===== *)
theory SG_Reputation
  imports SG_Identity
begin

text \<open>
  The reputation registry data source (\<open>identity/reputation-registry.ts\<close>): new feedback, its
  revocation, and responses. The lemmas show that the counters of agents and registries and the
  cumulative sums of the feedback points describe exactly the feedback that is not revoked, and
  that a verified rating carries a settled job between the two workspaces as evidence.
\<close>

section \<open>Handlers\<close>

record NewFeedbackParams =
  nf_agentId :: int
  nf_clientAddress :: bytes
  nf_feedbackIndex :: int
  nf_value :: int
  nf_valueDecimals :: int
  nf_indexedTag1 :: bytes
  nf_tag1 :: string
  nf_tag2 :: string
  nf_endpoint :: string
  nf_feedbackURI :: string
  nf_feedbackHash :: bytes

definition getOrCreateReputationRegistry :: "Host \<Rightarrow> bytes \<Rightarrow> int \<Rightarrow> Store \<Rightarrow> ReputationRegistry" where
  "getOrCreateReputationRegistry h address timestamp s =
     (let chainId = h_chainId h;
          i = registryEntityId chainId address
      in case st_reputationRegistries s i of
        Some registry \<Rightarrow> registry
      | None \<Rightarrow> \<lparr>rr_id = i, rr_network = h_network h, rr_chainId = chainId,
          rr_identityRegistry = registryEntityId chainId (h_identityRegistry h), rr_feedbackCount = 0,
          rr_activeFeedbackCount = 0, rr_responseCount = 0, rr_createdAt = toI64 timestamp, rr_updatedAt = 0\<rparr>)"

definition normalizeValue :: "Host \<Rightarrow> int \<Rightarrow> int \<Rightarrow> rat" where
  "normalizeValue h v valueDecimals = h_divDecimal h v (10 ^ nat (valueDecimals mod 256))"

text \<open>Who is rating, and had they already settled work with the rated workspace: the rating agent,
  the engagement, whether the rating is verified, and its evidence.\<close>

definition rating_context :: "Host \<Rightarrow> Event \<Rightarrow> Agent \<Rightarrow> bytes \<Rightarrow> Store \<Rightarrow> (Agent \<times> Engagement) option \<times> bool \<times> bytes option" where
  "rating_context h ev agent clientAddress s = (case resolveAgentByWallet clientAddress s of
     None \<Rightarrow> (None, False, None)
   | Some clientAgent \<Rightarrow>
       (let engagement = getOrCreateEngagement h clientAgent agent (ev_timestamp ev) s in
        if en_settledJobCount engagement > 0
        then (Some (clientAgent, engagement), True, en_lastSettledJob engagement)
        else (Some (clientAgent, engagement), False, None)))"

definition new_feedback ::
  "Host \<Rightarrow> Event \<Rightarrow> NewFeedbackParams \<Rightarrow> ReputationRegistry \<Rightarrow> Agent \<Rightarrow> Account \<Rightarrow> bytes option \<Rightarrow> bool \<Rightarrow> bytes option \<Rightarrow> bytes option \<Rightarrow> Feedback" where
  "new_feedback h ev p registry agent client clientAgent verified evidence documentId =
     \<lparr>fb_id = feedbackEntityId (rr_chainId registry) (ev_address ev) (nf_agentId p) (nf_clientAddress p) (nf_feedbackIndex p),
      fb_registry = rr_id registry, fb_agent = ag_id agent, fb_client = ac_id client,
      fb_clientAgent = clientAgent, fb_verified = verified, fb_evidence = evidence,
      fb_feedbackIndex = nf_feedbackIndex p, fb_value = nf_value p, fb_valueDecimals = nf_valueDecimals p,
      fb_normalizedValue = normalizeValue h (nf_value p) (nf_valueDecimals p), fb_tag1 = nf_tag1 p,
      fb_tag1Hash = nf_indexedTag1 p, fb_tag2 = nf_tag2 p, fb_endpoint = nf_endpoint p,
      fb_feedbackURI = nf_feedbackURI p, fb_feedbackURIKind = classifyUri (nf_feedbackURI p),
      fb_feedbackHash = nf_feedbackHash p, fb_hasFeedbackHash = (\<not> isZeroHash (nf_feedbackHash p)),
      fb_document = documentId, fb_isRevoked = False, fb_revokedAt = None, fb_revokedAtBlock = None,
      fb_revokedAtTransaction = None, fb_responseCount = 0, fb_createdAt = event_time ev,
      fb_createdAtBlock = ev_blockNumber ev, fb_createdAtTransaction = ev_txHash ev,
      fb_createdAtLogIndex = ev_logIndex ev\<rparr>"

definition handleNewFeedback :: "Host \<Rightarrow> Event \<Rightarrow> NewFeedbackParams \<Rightarrow> Store \<Rightarrow> Store" where
  "handleNewFeedback h ev p s =
     (let registry = getOrCreateReputationRegistry h (ev_address ev) (ev_timestamp ev) s in
      case getAgent (agentEntityId (rr_chainId registry) (h_identityRegistry h) (nf_agentId p)) s of
        None \<Rightarrow> s
      | Some agent \<Rightarrow>
          (let (client, s) = getOrCreateAccount (nf_clientAddress p) s;
               (rating, verified, evidence) = rating_context h ev agent (nf_clientAddress p) s;
               feedbackId = feedbackEntityId (rr_chainId registry) (ev_address ev) (nf_agentId p) (nf_clientAddress p) (nf_feedbackIndex p);
               (documentId, docs) = resolveFeedbackDocument h feedbackId (nf_feedbackURI p) (classifyUri (nf_feedbackURI p)) (st_documents s);
               s = s\<lparr>st_documents := docs\<rparr>;
               feedback = new_feedback h ev p registry agent client (map_option (\<lambda>(c, e). ag_id c) rating) verified evidence documentId;
               s = saveFeedback feedback s;
               agent = agent\<lparr>ag_feedbackCount := ag_feedbackCount agent + 1,
                             ag_activeFeedbackCount := ag_activeFeedbackCount agent + 1,
                             ag_verifiedFeedbackCount := ag_verifiedFeedbackCount agent + (if verified then 1 else 0)\<rparr>;
               s = saveAgent (touchAgent agent ev) s;
               s = (case rating of
                   None \<Rightarrow> s
                 | Some (clientAgent, engagement) \<Rightarrow>
                     saveEngagement (engagement\<lparr>en_feedbackCount := en_feedbackCount engagement + 1,
                       en_verifiedFeedbackCount := en_verifiedFeedbackCount engagement + (if verified then 1 else 0),
                       en_lastFeedbackAt := Some (event_time ev), en_updatedAt := event_time ev\<rparr>) s);
               s = saveReputationRegistry (registry\<lparr>rr_feedbackCount := rr_feedbackCount registry + 1,
                     rr_activeFeedbackCount := rr_activeFeedbackCount registry + 1, rr_updatedAt := event_time ev\<rparr>) s
           in createFeedbackMetricPoint (ev_timestamp ev) (rr_id registry) (ag_id agent) (fb_tag1 feedback) (fb_tag2 feedback)
                1 (fb_normalizedValue feedback) s))"

definition revoke_engagement :: "Host \<Rightarrow> Event \<Rightarrow> Feedback \<Rightarrow> Agent \<Rightarrow> Store \<Rightarrow> Store" where
  "revoke_engagement h ev feedback agent s = (case fb_clientAgent feedback of
     None \<Rightarrow> s
   | Some c \<Rightarrow> (case st_agents s c of
       None \<Rightarrow> s
     | Some rater \<Rightarrow> (case st_engagements s (engagementId h rater agent) of
         None \<Rightarrow> s
       | Some engagement \<Rightarrow>
           saveEngagement (engagement\<lparr>en_feedbackCount := en_feedbackCount engagement - 1,
             en_verifiedFeedbackCount := en_verifiedFeedbackCount engagement - (if fb_verified feedback then 1 else 0),
             en_updatedAt := event_time ev\<rparr>) s)))"

definition handleFeedbackRevoked :: "Host \<Rightarrow> Event \<Rightarrow> int \<Rightarrow> bytes \<Rightarrow> int \<Rightarrow> Store \<Rightarrow> Store" where
  "handleFeedbackRevoked h ev agentId clientAddress feedbackIndex s =
     (case st_reputationRegistries s (registryEntityId (h_chainId h) (ev_address ev)) of
        None \<Rightarrow> s
      | Some registry \<Rightarrow>
     (case getAgent (agentEntityId (rr_chainId registry) (h_identityRegistry h) agentId) s of
        None \<Rightarrow> s
      | Some agent \<Rightarrow>
     (case getFeedback (feedbackEntityId (rr_chainId registry) (ev_address ev) agentId clientAddress feedbackIndex) s of
        None \<Rightarrow> s
      | Some feedback \<Rightarrow>
          (let feedback = feedback\<lparr>fb_isRevoked := True, fb_revokedAt := Some (event_time ev),
                 fb_revokedAtBlock := Some (ev_blockNumber ev), fb_revokedAtTransaction := Some (ev_txHash ev)\<rparr>;
               s = saveFeedback feedback s;
               agent = agent\<lparr>ag_activeFeedbackCount := ag_activeFeedbackCount agent - 1,
                 ag_verifiedFeedbackCount := ag_verifiedFeedbackCount agent - (if fb_verified feedback then 1 else 0)\<rparr>;
               s = revoke_engagement h ev feedback agent s;
               s = saveAgent (touchAgent agent ev) s;
               s = saveReputationRegistry (registry\<lparr>rr_activeFeedbackCount := rr_activeFeedbackCount registry - 1,
                     rr_updatedAt := event_time ev\<rparr>) s
           in createFeedbackMetricPoint (ev_timestamp ev) (rr_id registry) (ag_id agent) (fb_tag1 feedback) (fb_tag2 feedback)
                (- 1) (- fb_normalizedValue feedback) s))))"

definition handleResponseAppended ::
  "Host \<Rightarrow> Event \<Rightarrow> int \<Rightarrow> bytes \<Rightarrow> int \<Rightarrow> bytes \<Rightarrow> string \<Rightarrow> bytes \<Rightarrow> Store \<Rightarrow> Store" where
  "handleResponseAppended h ev agentId clientAddress feedbackIndex p_responder responseURI responseHash s =
     (case st_reputationRegistries s (registryEntityId (h_chainId h) (ev_address ev)) of
        None \<Rightarrow> s
      | Some registry \<Rightarrow>
     (case getAgent (agentEntityId (rr_chainId registry) (h_identityRegistry h) agentId) s of
        None \<Rightarrow> s
      | Some agent \<Rightarrow>
     (case getFeedback (feedbackEntityId (rr_chainId registry) (ev_address ev) agentId clientAddress feedbackIndex) s of
        None \<Rightarrow> s
      | Some feedback \<Rightarrow>
          (let (responder, s) = getOrCreateAccount p_responder s;
               response = \<lparr>lg_id = eventId ev, lg_blockNumber = ev_blockNumber ev, lg_timestamp = event_time ev,
                 lg_transactionHash = ev_txHash ev, lg_logIndex = ev_logIndex ev, fr_feedback = fb_id feedback,
                 fr_responder = ac_id responder, fr_responseURI = responseURI,
                 fr_responseURIKind = classifyUri responseURI, fr_responseHash = responseHash,
                 fr_hasResponseHash = (\<not> isZeroHash responseHash)\<rparr>;
               s = s\<lparr>st_responses := (st_responses s)(lg_id response \<mapsto> response)\<rparr>;
               s = saveFeedback (feedback\<lparr>fb_responseCount := fb_responseCount feedback + 1\<rparr>) s;
               s = saveAgent (touchAgent (agent\<lparr>ag_responseCount := ag_responseCount agent + 1\<rparr>) ev) s
           in saveReputationRegistry (registry\<lparr>rr_responseCount := rr_responseCount registry + 1,
                rr_updatedAt := event_time ev\<rparr>) s))))"

section \<open>The events of the reputation registry\<close>

datatype ReputationEvent =
  NewFeedback NewFeedbackParams
| FeedbackRevoked int bytes int
| ResponseAppended int bytes int bytes string bytes

fun handleReputation :: "Host \<Rightarrow> Event \<Rightarrow> ReputationEvent \<Rightarrow> Store \<Rightarrow> Store" where
  "handleReputation h ev (NewFeedback p) s = handleNewFeedback h ev p s"
| "handleReputation h ev (FeedbackRevoked i c n) s = handleFeedbackRevoked h ev i c n s"
| "handleReputation h ev (ResponseAppended i c n r u x) s = handleResponseAppended h ev i c n r u x s"

text \<open>What the registry contract guarantees of its log: a client numbers its feedback for an agent
  without reuse, and feedback is revoked at most once.\<close>

fun reputation_admissible :: "Host \<Rightarrow> Event \<Rightarrow> ReputationEvent \<Rightarrow> Store \<Rightarrow> bool" where
  "reputation_admissible h ev (NewFeedback p) s =
     (st_feedback s (feedbackEntityId (h_chainId h) (ev_address ev) (nf_agentId p) (nf_clientAddress p) (nf_feedbackIndex p)) = None)"
| "reputation_admissible h ev (FeedbackRevoked i c n) s =
     (case st_feedback s (feedbackEntityId (h_chainId h) (ev_address ev) i c n) of None \<Rightarrow> True | Some f \<Rightarrow> \<not> fb_isRevoked f)"
| "reputation_admissible h ev _ s = True"

section \<open>Invariants\<close>

definition feedback_placed :: "Host \<Rightarrow> bytes \<Rightarrow> Feedback \<Rightarrow> bool" where
  "feedback_placed h k f \<longleftrightarrow> fb_id f = k \<and> (\<exists>address i c n. k = feedbackEntityId (h_chainId h) address i c n
     \<and> fb_agent f = agentEntityId (h_chainId h) (h_identityRegistry h) i
     \<and> fb_registry f = registryEntityId (h_chainId h) address)"

definition is_active :: "Feedback \<Rightarrow> bool" where
  "is_active f \<longleftrightarrow> \<not> fb_isRevoked f"

definition rated_ok :: "(bytes \<rightharpoonup> Feedback) \<Rightarrow> bytes \<Rightarrow> Agent \<Rightarrow> bool" where
  "rated_ok fs k a \<longleftrightarrow> ag_feedbackCount a = table_sum (count_if (\<lambda>f. fb_agent f = k)) fs
     \<and> ag_activeFeedbackCount a = table_sum (count_if (\<lambda>f. fb_agent f = k \<and> is_active f)) fs
     \<and> ag_verifiedFeedbackCount a = table_sum (count_if (\<lambda>f. fb_agent f = k \<and> is_active f \<and> fb_verified f)) fs"

definition reputation_ok :: "Host \<Rightarrow> (bytes \<rightharpoonup> Feedback) \<Rightarrow> bytes \<Rightarrow> ReputationRegistry \<Rightarrow> bool" where
  "reputation_ok h fs i r \<longleftrightarrow> rr_id r = i \<and> rr_chainId r = h_chainId h
     \<and> rr_feedbackCount r = table_sum (count_if (\<lambda>f. fb_registry f = i)) fs
     \<and> rr_activeFeedbackCount r = table_sum (count_if (\<lambda>f. fb_registry f = i \<and> is_active f)) fs"

text \<open>A selection of feedback by registry, agent and tags, as the aggregations group it.\<close>

type_synonym selection = "bytes \<Rightarrow> bytes \<Rightarrow> string \<Rightarrow> string \<Rightarrow> bool"

definition point_in :: "selection \<Rightarrow> FeedbackMetricPoint \<Rightarrow> bool" where
  "point_in Q p = Q (fp_registry p) (fp_agent p) (fp_tag1 p) (fp_tag2 p)"

definition feedback_in :: "selection \<Rightarrow> Feedback \<Rightarrow> bool" where
  "feedback_in Q f = Q (fb_registry f) (fb_agent f) (fb_tag1 f) (fb_tag2 f)"

definition points_agree :: "(bytes \<rightharpoonup> Feedback) \<Rightarrow> FeedbackMetricPoint list \<Rightarrow> bool" where
  "points_agree fs ps \<longleftrightarrow> (\<forall>Q.
     sum_list (map fp_feedbackCountDelta (filter (point_in Q) ps))
       = table_sum (count_if (\<lambda>f. feedback_in Q f \<and> is_active f)) fs
   \<and> sum_list (map fp_valueDelta (filter (point_in Q) ps))
       = table_sum (\<lambda>f. if feedback_in Q f \<and> is_active f then fb_normalizedValue f else 0) fs)"

definition feedback_tables ::
  "Host \<Rightarrow> (bytes \<rightharpoonup> Feedback) \<Rightarrow> (bytes \<rightharpoonup> Agent) \<Rightarrow> (bytes \<rightharpoonup> ReputationRegistry) \<Rightarrow> FeedbackMetricPoint list \<Rightarrow> bool" where
  "feedback_tables h fs t rs ps \<longleftrightarrow> finite (dom fs)
     \<and> (\<forall>k f. fs k = Some f \<longrightarrow> feedback_placed h k f \<and> t (fb_agent f) \<noteq> None \<and> rs (fb_registry f) \<noteq> None)
     \<and> (\<forall>k a. t k = Some a \<longrightarrow> rated_ok fs k a)
     \<and> (\<forall>i r. rs i = Some r \<longrightarrow> reputation_ok h fs i r)
     \<and> points_agree fs ps"

text \<open>Changing one feedback row (or adding it) together with the counters and points it moves.\<close>

lemma points_agree_upd:
  assumes P: "points_agree fs ps" and fin: "finite (dom fs)"
    and p: "fp_registry p = fb_registry f" "fp_agent p = fb_agent f" "fp_tag1 p = fb_tag1 f" "fp_tag2 p = fb_tag2 f"
    and new: "fs k = None \<and> is_active f \<and> fp_feedbackCountDelta p = 1 \<and> fp_valueDelta p = fb_normalizedValue f
      \<or> (\<exists>f0. fs k = Some f0 \<and> is_active f0 \<and> \<not> is_active f \<and> fp_feedbackCountDelta p = - 1 \<and> fp_valueDelta p = - fb_normalizedValue f
           \<and> fb_registry f0 = fb_registry f \<and> fb_agent f0 = fb_agent f \<and> fb_tag1 f0 = fb_tag1 f \<and> fb_tag2 f0 = fb_tag2 f
           \<and> fb_normalizedValue f0 = fb_normalizedValue f)"
  shows "points_agree (fs(k \<mapsto> f)) (ps @ [p])"
  unfolding points_agree_def
proof (intro allI conjI)
  fix Q
  have Q: "point_in Q p = feedback_in Q f" using p by (simp add: point_in_def feedback_in_def)
  have c: "sum_list (map fp_feedbackCountDelta (filter (point_in Q) ps)) = table_sum (count_if (\<lambda>f. feedback_in Q f \<and> is_active f)) fs"
    and v: "sum_list (map fp_valueDelta (filter (point_in Q) ps)) = table_sum (\<lambda>f. if feedback_in Q f \<and> is_active f then fb_normalizedValue f else 0) fs"
    using P by (simp_all add: points_agree_def)
  show "sum_list (map fp_feedbackCountDelta (filter (point_in Q) (ps @ [p]))) = table_sum (count_if (\<lambda>f. feedback_in Q f \<and> is_active f)) (fs(k \<mapsto> f))"
    using new fin c Q by (auto simp: table_sum_upd count_if_def feedback_in_def)
  show "sum_list (map fp_valueDelta (filter (point_in Q) (ps @ [p]))) = table_sum (\<lambda>f. if feedback_in Q f \<and> is_active f then fb_normalizedValue f else 0) (fs(k \<mapsto> f))"
    using new fin v Q by (auto simp: table_sum_upd feedback_in_def)
qed

lemma points_agree_same:
  assumes P: "points_agree fs ps" and fin: "finite (dom fs)" and k: "fs k = Some f0"
    and f: "fb_registry f = fb_registry f0" "fb_agent f = fb_agent f0" "fb_tag1 f = fb_tag1 f0" "fb_tag2 f = fb_tag2 f0"
      "is_active f = is_active f0" "fb_normalizedValue f = fb_normalizedValue f0"
  shows "points_agree (fs(k \<mapsto> f)) ps"
  using assms by (auto simp: points_agree_def table_sum_upd count_if_def feedback_in_def)

lemma rated_ok_other:
  assumes "rated_ok fs k a" "finite (dom fs)" "fb_agent f \<noteq> k" "\<forall>f0. fs i = Some f0 \<longrightarrow> fb_agent f0 \<noteq> k"
  shows "rated_ok (fs(i \<mapsto> f)) k a"
  using assms by (cases "fs i") (auto simp: rated_ok_def table_sum_upd count_if_def)

lemma reputation_ok_other:
  assumes "reputation_ok h fs k r" "finite (dom fs)" "fb_registry f \<noteq> k" "\<forall>f0. fs i = Some f0 \<longrightarrow> fb_registry f0 \<noteq> k"
  shows "reputation_ok h (fs(i \<mapsto> f)) k r"
  using assms by (cases "fs i") (auto simp: reputation_ok_def table_sum_upd count_if_def)

lemma feedback_add:
  assumes T: "feedback_tables h fs t rs ps" and k: "fs k = None" and f: "feedback_placed h k f" "is_active f"
    and a: "t (fb_agent f) = Some a" and b: "ag_feedbackCount b = ag_feedbackCount a + 1"
      "ag_activeFeedbackCount b = ag_activeFeedbackCount a + 1"
      "ag_verifiedFeedbackCount b = ag_verifiedFeedbackCount a + (if fb_verified f then 1 else 0)"
    and r: "reputation_ok h fs (fb_registry f) r" and r': "rr_id r' = rr_id r" "rr_chainId r' = rr_chainId r"
      "rr_feedbackCount r' = rr_feedbackCount r + 1" "rr_activeFeedbackCount r' = rr_activeFeedbackCount r + 1"
    and p: "fp_registry p = fb_registry f" "fp_agent p = fb_agent f" "fp_tag1 p = fb_tag1 f" "fp_tag2 p = fb_tag2 f"
      "fp_feedbackCountDelta p = 1" "fp_valueDelta p = fb_normalizedValue f"
  shows "feedback_tables h (fs(k \<mapsto> f)) (t(fb_agent f \<mapsto> b)) (rs(fb_registry f \<mapsto> r')) (ps @ [p])"
proof -
  have fin: "finite (dom fs)" and P: "points_agree fs ps" and ra: "rated_ok fs (fb_agent f) a"
    using T a by (auto simp: feedback_tables_def)
  have "rated_ok (fs(k \<mapsto> f)) (fb_agent f) b"
    using ra b k f fin by (simp add: rated_ok_def table_sum_upd count_if_def)
  moreover have "rated_ok (fs(k \<mapsto> f)) x c" if "rated_ok fs x c" "x \<noteq> fb_agent f" for x c
    using that k fin by (intro rated_ok_other) auto
  moreover have "reputation_ok h (fs(k \<mapsto> f)) (fb_registry f) r'"
    using r r' k f fin by (simp add: reputation_ok_def table_sum_upd count_if_def)
  moreover have "reputation_ok h (fs(k \<mapsto> f)) x c" if "reputation_ok h fs x c" "x \<noteq> fb_registry f" for x c
    using that k fin by (intro reputation_ok_other) auto
  moreover have "points_agree (fs(k \<mapsto> f)) (ps @ [p])" using P fin k f p by (intro points_agree_upd) auto
  ultimately show ?thesis using T f by (auto simp: feedback_tables_def)
qed

lemma feedback_revoke:
  assumes T: "feedback_tables h fs t rs ps" and k: "fs k = Some old" "is_active old"
    and f: "fb_id f = fb_id old" "fb_agent f = fb_agent old" "fb_registry f = fb_registry old" "fb_tag1 f = fb_tag1 old"
      "fb_tag2 f = fb_tag2 old" "fb_verified f = fb_verified old" "fb_normalizedValue f = fb_normalizedValue old" "\<not> is_active f"
    and a: "t (fb_agent f) = Some a" and b: "ag_feedbackCount b = ag_feedbackCount a"
      "ag_activeFeedbackCount b = ag_activeFeedbackCount a - 1"
      "ag_verifiedFeedbackCount b = ag_verifiedFeedbackCount a - (if fb_verified f then 1 else 0)"
    and r: "rs (fb_registry f) = Some r" and r': "rr_id r' = rr_id r" "rr_chainId r' = rr_chainId r"
      "rr_feedbackCount r' = rr_feedbackCount r" "rr_activeFeedbackCount r' = rr_activeFeedbackCount r - 1"
    and p: "fp_registry p = fb_registry f" "fp_agent p = fb_agent f" "fp_tag1 p = fb_tag1 f" "fp_tag2 p = fb_tag2 f"
      "fp_feedbackCountDelta p = - 1" "fp_valueDelta p = - fb_normalizedValue f"
  shows "feedback_tables h (fs(k \<mapsto> f)) (t(fb_agent f \<mapsto> b)) (rs(fb_registry f \<mapsto> r')) (ps @ [p])"
proof -
  have fin: "finite (dom fs)" and P: "points_agree fs ps" and ra: "rated_ok fs (fb_agent f) a"
    and rr: "reputation_ok h fs (fb_registry f) r" and pl: "feedback_placed h k old"
    using T a r k by (auto simp: feedback_tables_def)
  have "rated_ok (fs(k \<mapsto> f)) (fb_agent f) b"
    using ra b k f fin by (simp add: rated_ok_def table_sum_upd count_if_def)
  moreover have "rated_ok (fs(k \<mapsto> f)) x c" if "rated_ok fs x c" "x \<noteq> fb_agent f" for x c
    using that k f fin by (intro rated_ok_other) auto
  moreover have "reputation_ok h (fs(k \<mapsto> f)) (fb_registry f) r'"
    using rr r' k f fin by (simp add: reputation_ok_def table_sum_upd count_if_def)
  moreover have "reputation_ok h (fs(k \<mapsto> f)) x c" if "reputation_ok h fs x c" "x \<noteq> fb_registry f" for x c
    using that k f fin by (intro reputation_ok_other) auto
  moreover have "points_agree (fs(k \<mapsto> f)) (ps @ [p])" using P fin k f p by (intro points_agree_upd) auto
  moreover have "feedback_placed h k f" using pl f by (simp add: feedback_placed_def)
  ultimately show ?thesis using T by (auto simp: feedback_tables_def)
qed

section \<open>The handlers and the other invariants\<close>

lemma joins_ok:
  assumes T: "escrow_tables js cs es" and r: "joins es e row"
  shows "engagement_ok js e row"
proof (cases "es e")
  case None
  then have "\<forall>x i. js x = Some i \<longrightarrow> jo_engagement i \<noteq> Some e" using escrow_job_refs(2) [OF T] by blast
  then have "table_sum (count_if (\<lambda>j. jo_engagement j = Some e)) js = 0"
    "table_sum (count_if (\<lambda>j. jo_engagement j = Some e \<and> jo_settled j)) js = 0"
    by (auto simp: count_if_def intro!: table_sum_zero)
  with None r show ?thesis by (auto simp: engagement_ok_def joins_def)
next
  case (Some a)
  with T r show ?thesis by (auto simp: escrow_tables_def joins_def)
qed

lemma escrow_engagement_row:
  assumes T: "escrow_tables js cs es" and r: "joins es e row"
    and r': "en_id row' = en_id row" "en_jobCount row' = en_jobCount row" "en_settledJobCount row' = en_settledJobCount row"
      "en_lastSettledJob row' = en_lastSettledJob row"
  shows "escrow_tables js cs (es(e \<mapsto> row'))"
proof -
  have "engagement_ok js e row'" using joins_ok [OF T r] r' by (simp add: engagement_ok_def)
  moreover have "job_ok cs (es(e \<mapsto> row')) k j" if "job_ok cs es k j" for k j
    by (rule job_ok_mono [OF that]) auto
  ultimately show ?thesis using T by (simp add: escrow_tables_def)
qed

lemma rating_context_cases:
  assumes "\<forall>e row. st_engagements s e = Some row \<longrightarrow> en_id row = e"
  obtains "rating_context h ev a w s = (None, False, None)"
  | c e where "rating_context h ev a w s = (Some (c, e), False, None)" "joins (st_engagements s) (en_id e) e"
      "en_id e = engagementId h c a" "\<exists>k. st_agents s k = Some c"
  | c e where "rating_context h ev a w s = (Some (c, e), True, en_lastSettledJob e)" "st_engagements s (en_id e) = Some e"
      "en_id e = engagementId h c a" "0 < en_settledJobCount e" "\<exists>k. st_agents s k = Some c"
proof (cases "resolveAgentByWallet w s")
  case None
  then show ?thesis using that(1) by (simp add: rating_context_def)
next
  case (Some c)
  let ?e = "getOrCreateEngagement h c a (ev_timestamp ev) s"
  have i: "en_id ?e = engagementId h c a"
    using assms by (auto simp: getOrCreateEngagement_def Let_def split: option.splits)
  have j: "joins (st_engagements s) (en_id ?e) ?e"
    using getOrCreateEngagement_fresh [OF assms, of h c a "ev_timestamp ev"] by (auto simp: joins_def)
  have c: "\<exists>k. st_agents s k = Some c"
    using Some by (auto simp: resolveAgentByWallet_def split: option.splits)
  show ?thesis
  proof (cases "0 < en_settledJobCount ?e")
    case True
    moreover from this j have "st_engagements s (en_id ?e) = Some ?e" by (auto simp: joins_def)
    ultimately show ?thesis using Some i c that(3) [of c ?e] by (simp add: rating_context_def Let_def)
  next
    case False
    then show ?thesis using Some i j c that(2) [of c ?e] by (simp add: rating_context_def Let_def)
  qed
qed

text \<open>The effect of new feedback on the tables.\<close>

definition rated_engagement :: "Event \<Rightarrow> bool \<Rightarrow> Engagement \<Rightarrow> Engagement" where
  "rated_engagement ev verified e = e\<lparr>en_feedbackCount := en_feedbackCount e + 1,
     en_verifiedFeedbackCount := en_verifiedFeedbackCount e + (if verified then 1 else 0),
     en_lastFeedbackAt := Some (event_time ev), en_updatedAt := event_time ev\<rparr>"

definition rated_agent :: "Event \<Rightarrow> bool \<Rightarrow> Agent \<Rightarrow> Agent" where
  "rated_agent ev verified a = touchAgent (a\<lparr>ag_feedbackCount := ag_feedbackCount a + 1,
     ag_activeFeedbackCount := ag_activeFeedbackCount a + 1,
     ag_verifiedFeedbackCount := ag_verifiedFeedbackCount a + (if verified then 1 else 0)\<rparr>) ev"

lemma resolve_frame [simp]:
  "resolveAgentByWallet w (snd (getOrCreateAccount a s)) = resolveAgentByWallet w s"
  by (simp add: resolveAgentByWallet_def split: option.splits)

lemma rating_context_frame [simp]:
  "rating_context h ev a w (snd (getOrCreateAccount x s)) = rating_context h ev a w s"
  by (simp add: rating_context_def getOrCreateEngagement_def split: option.splits)

lemma handleNewFeedback_effect:
  assumes r: "getOrCreateReputationRegistry h (ev_address ev) (ev_timestamp ev) s = r"
    and a: "getAgent (agentEntityId (rr_chainId r) (h_identityRegistry h) (nf_agentId p)) s = Some a"
    and c: "rating_context h ev a (nf_clientAddress p) s = (rating, verified, evidence)"
  obtains f q where
    "fb_id f = feedbackEntityId (rr_chainId r) (ev_address ev) (nf_agentId p) (nf_clientAddress p) (nf_feedbackIndex p)"
    "fb_agent f = ag_id a" "fb_registry f = rr_id r" "is_active f" "fb_verified f = verified" "fb_evidence f = evidence"
    "fb_clientAgent f = map_option (\<lambda>(c, e). ag_id c) rating"
    "fp_registry q = fb_registry f" "fp_agent q = fb_agent f" "fp_tag1 q = fb_tag1 f" "fp_tag2 q = fb_tag2 f"
    "fp_feedbackCountDelta q = 1" "fp_valueDelta q = fb_normalizedValue f"
    "st_feedback (handleNewFeedback h ev p s) = (st_feedback s)(fb_id f \<mapsto> f)"
    "st_agents (handleNewFeedback h ev p s) = (st_agents s)(ag_id a \<mapsto> rated_agent ev verified a)"
    "st_engagements (handleNewFeedback h ev p s) = (case rating of None \<Rightarrow> st_engagements s
       | Some (c, e) \<Rightarrow> (st_engagements s)(en_id e \<mapsto> rated_engagement ev verified e))"
    "st_reputationRegistries (handleNewFeedback h ev p s) = (st_reputationRegistries s)(rr_id r \<mapsto>
       r\<lparr>rr_feedbackCount := rr_feedbackCount r + 1, rr_activeFeedbackCount := rr_activeFeedbackCount r + 1, rr_updatedAt := event_time ev\<rparr>)"
    "st_feedbackPoints (handleNewFeedback h ev p s) = st_feedbackPoints s @ [q]"
    "st_jobs (handleNewFeedback h ev p s) = st_jobs s" "st_commerces (handleNewFeedback h ev p s) = st_commerces s"
    "st_bindings (handleNewFeedback h ev p s) = st_bindings s" "st_agentPoints (handleNewFeedback h ev p s) = st_agentPoints s"
    "st_identityRegistries (handleNewFeedback h ev p s) = st_identityRegistries s"
proof -
  obtain client s1 where g: "getOrCreateAccount (nf_clientAddress p) s = (client, s1)" by (cases "getOrCreateAccount (nf_clientAddress p) s")
  note fr = getOrCreateAccount_frame [of "nf_clientAddress p" s, unfolded g snd_conv]
  have c1: "rating_context h ev a (nf_clientAddress p) s1 = (rating, verified, evidence)"
    using c rating_context_frame [of h ev a "nf_clientAddress p" "nf_clientAddress p" s] by (simp add: g)
  let ?fid = "feedbackEntityId (rr_chainId r) (ev_address ev) (nf_agentId p) (nf_clientAddress p) (nf_feedbackIndex p)"
  obtain did docs where d: "resolveFeedbackDocument h ?fid (nf_feedbackURI p) (classifyUri (nf_feedbackURI p)) (st_documents s) = (did, docs)"
    by (cases "resolveFeedbackDocument h ?fid (nf_feedbackURI p) (classifyUri (nf_feedbackURI p)) (st_documents s)")
  let ?f = "new_feedback h ev p r a client (map_option (\<lambda>(c, e). ag_id c) rating) verified evidence did"
  let ?q = "\<lparr>fp_timestamp = toI64 (ev_timestamp ev), fp_registry = rr_id r, fp_agent = ag_id a, fp_tag1 = fb_tag1 ?f,
         fp_tag2 = fb_tag2 ?f, fp_feedbackCountDelta = 1, fp_valueDelta = fb_normalizedValue ?f\<rparr>"
  show thesis
    by (rule that [of ?f ?q])
       (simp_all add: handleNewFeedback_def r a g c1 d Let_def save_defs createFeedbackMetricPoint_def fr rated_agent_def
         rated_engagement_def is_active_def new_feedback_def split: option.splits prod.splits)
qed

definition revoked_feedback :: "Event \<Rightarrow> Feedback \<Rightarrow> Feedback" where
  "revoked_feedback ev f = f\<lparr>fb_isRevoked := True, fb_revokedAt := Some (event_time ev),
     fb_revokedAtBlock := Some (ev_blockNumber ev), fb_revokedAtTransaction := Some (ev_txHash ev)\<rparr>"

definition unrated_agent :: "Event \<Rightarrow> bool \<Rightarrow> Agent \<Rightarrow> Agent" where
  "unrated_agent ev verified a = touchAgent (a\<lparr>ag_activeFeedbackCount := ag_activeFeedbackCount a - 1,
     ag_verifiedFeedbackCount := ag_verifiedFeedbackCount a - (if verified then 1 else 0)\<rparr>) ev"

definition unrated_engagement :: "Event \<Rightarrow> bool \<Rightarrow> Engagement \<Rightarrow> Engagement" where
  "unrated_engagement ev verified e = e\<lparr>en_feedbackCount := en_feedbackCount e - 1,
     en_verifiedFeedbackCount := en_verifiedFeedbackCount e - (if verified then 1 else 0), en_updatedAt := event_time ev\<rparr>"

lemma revoke_engagement_frame [simp]:
  "st_feedback (revoke_engagement h ev f a s) = st_feedback s" "st_agents (revoke_engagement h ev f a s) = st_agents s"
  "st_jobs (revoke_engagement h ev f a s) = st_jobs s" "st_commerces (revoke_engagement h ev f a s) = st_commerces s"
  "st_bindings (revoke_engagement h ev f a s) = st_bindings s" "st_agentPoints (revoke_engagement h ev f a s) = st_agentPoints s"
  "st_identityRegistries (revoke_engagement h ev f a s) = st_identityRegistries s"
  "st_reputationRegistries (revoke_engagement h ev f a s) = st_reputationRegistries s"
  "st_feedbackPoints (revoke_engagement h ev f a s) = st_feedbackPoints s"
  by (auto simp: revoke_engagement_def saveEngagement_def split: option.splits)

lemma revoke_engagement_rows:
  assumes "\<forall>e row. st_engagements s e = Some row \<longrightarrow> en_id row = e"
  obtains "st_engagements (revoke_engagement h ev f a s) = st_engagements s"
  | e where "st_engagements (revoke_engagement h ev f a s) = adjust e (unrated_engagement ev (fb_verified f)) (st_engagements s)"
proof (cases "\<exists>c r. fb_clientAgent f = Some c \<and> st_agents s c = Some r")
  case True
  then obtain c r where "fb_clientAgent f = Some c" "st_agents s c = Some r" by blast
  then have "st_engagements (revoke_engagement h ev f a s) = adjust (engagementId h r a) (unrated_engagement ev (fb_verified f)) (st_engagements s)"
    using assms by (cases "st_engagements s (engagementId h r a)")
      (auto simp: revoke_engagement_def saveEngagement_def adjust_def unrated_engagement_def)
  then show thesis using that(2) by blast
next
  case False
  then have "st_engagements (revoke_engagement h ev f a s) = st_engagements s"
    by (auto simp: revoke_engagement_def split: option.splits)
  then show thesis using that(1) by blast
qed

lemma handleFeedbackRevoked_effect:
  assumes r: "st_reputationRegistries s (registryEntityId (h_chainId h) (ev_address ev)) = Some r"
    and a: "getAgent (agentEntityId (rr_chainId r) (h_identityRegistry h) i) s = Some a"
    and f: "getFeedback (feedbackEntityId (rr_chainId r) (ev_address ev) i c n) s = Some f"
  obtains q where
    "fp_registry q = rr_id r" "fp_agent q = ag_id a" "fp_tag1 q = fb_tag1 f" "fp_tag2 q = fb_tag2 f"
    "fp_feedbackCountDelta q = - 1" "fp_valueDelta q = - fb_normalizedValue f"
    "st_feedback (handleFeedbackRevoked h ev i c n s) = (st_feedback s)(fb_id f \<mapsto> revoked_feedback ev f)"
    "st_agents (handleFeedbackRevoked h ev i c n s) = (st_agents s)(ag_id a \<mapsto> unrated_agent ev (fb_verified f) a)"
    "\<exists>f' a' s'. st_engagements s' = st_engagements s
       \<and> st_engagements (handleFeedbackRevoked h ev i c n s) = st_engagements (revoke_engagement h ev f' a' s')"
    "st_reputationRegistries (handleFeedbackRevoked h ev i c n s) = (st_reputationRegistries s)(rr_id r \<mapsto>
       r\<lparr>rr_activeFeedbackCount := rr_activeFeedbackCount r - 1, rr_updatedAt := event_time ev\<rparr>)"
    "st_feedbackPoints (handleFeedbackRevoked h ev i c n s) = st_feedbackPoints s @ [q]"
    "st_jobs (handleFeedbackRevoked h ev i c n s) = st_jobs s" "st_commerces (handleFeedbackRevoked h ev i c n s) = st_commerces s"
    "st_bindings (handleFeedbackRevoked h ev i c n s) = st_bindings s" "st_agentPoints (handleFeedbackRevoked h ev i c n s) = st_agentPoints s"
    "st_identityRegistries (handleFeedbackRevoked h ev i c n s) = st_identityRegistries s"
proof -
  let ?q = "\<lparr>fp_timestamp = toI64 (ev_timestamp ev), fp_registry = rr_id r, fp_agent = ag_id a, fp_tag1 = fb_tag1 f,
         fp_tag2 = fb_tag2 f, fp_feedbackCountDelta = - 1, fp_valueDelta = - fb_normalizedValue f\<rparr>"
  let ?a = "a\<lparr>ag_activeFeedbackCount := ag_activeFeedbackCount a - 1,
     ag_verifiedFeedbackCount := ag_verifiedFeedbackCount a - (if fb_verified f then 1 else 0)\<rparr>"
  let ?s = "saveFeedback (revoked_feedback ev f) s"
  have H: "handleFeedbackRevoked h ev i c n s = createFeedbackMetricPoint (ev_timestamp ev) (rr_id r) (ag_id a) (fb_tag1 f) (fb_tag2 f)
      (- 1) (- fb_normalizedValue f) (saveReputationRegistry (r\<lparr>rr_activeFeedbackCount := rr_activeFeedbackCount r - 1,
         rr_updatedAt := event_time ev\<rparr>) (saveAgent (touchAgent ?a ev) (revoke_engagement h ev (revoked_feedback ev f) ?a ?s)))"
    using r a f by (simp add: handleFeedbackRevoked_def Let_def revoked_feedback_def)
  have e: "\<exists>f' a' s'. st_engagements s' = st_engagements s
       \<and> st_engagements (handleFeedbackRevoked h ev i c n s) = st_engagements (revoke_engagement h ev f' a' s')"
    by (intro exI [of _ "revoked_feedback ev f"] exI [of _ ?a] exI [of _ ?s])
       (simp add: H createFeedbackMetricPoint_def saveReputationRegistry_def saveAgent_def saveFeedback_def)
  show thesis
    by (rule that [of ?q]) (rule e | simp add: H save_defs createFeedbackMetricPoint_def unrated_agent_def revoked_feedback_def)+
qed

section \<open>Preservation\<close>

definition feedback_ok :: "Host \<Rightarrow> Store \<Rightarrow> bool" where
  "feedback_ok h s \<longleftrightarrow> feedback_tables h (st_feedback s) (st_agents s) (st_reputationRegistries s) (st_feedbackPoints s)"

text \<open>A verified rating names its rater and, as evidence, a settled job of the engagement from the
  rater to the rated agent.\<close>

definition evidenced :: "Host \<Rightarrow> (bytes \<rightharpoonup> Job) \<Rightarrow> Feedback \<Rightarrow> bool" where
  "evidenced h js f \<longleftrightarrow> (fb_verified f \<longrightarrow>
     (\<exists>c i j. fb_clientAgent f = Some c \<and> fb_evidence f = Some i \<and> js i = Some j \<and> jo_settled j
        \<and> jo_engagement j = Some (h_keccak256 h (c @ fb_agent f))))"

definition evidence_ok :: "Host \<Rightarrow> (bytes \<rightharpoonup> Feedback) \<Rightarrow> (bytes \<rightharpoonup> Job) \<Rightarrow> bool" where
  "evidence_ok h fs js \<longleftrightarrow> (\<forall>k f. fs k = Some f \<longrightarrow> evidenced h js f)"

lemma evidence_ok_upd: "evidence_ok h fs js \<Longrightarrow> evidenced h js f \<Longrightarrow> evidence_ok h (fs(k \<mapsto> f)) js"
  by (simp add: evidence_ok_def)

lemma evidenced_same:
  assumes "evidenced h js f" "fb_verified f' = fb_verified f" "fb_clientAgent f' = fb_clientAgent f" "fb_evidence f' = fb_evidence f" "fb_agent f' = fb_agent f"
  shows "evidenced h js f'"
  using assms by (simp add: evidenced_def)

definition store_ok :: "Host \<Rightarrow> Store \<Rightarrow> bool" where
  "store_ok h s \<longleftrightarrow> escrow_ok h s \<and> identity_ok h s \<and> feedback_ok h s \<and> evidence_ok h (st_feedback s) (st_jobs s)"

lemma reputation_row_ok:
  assumes "feedback_ok h s"
  shows "reputation_ok h (st_feedback s) (registryEntityId (h_chainId h) address)
    (getOrCreateReputationRegistry h address t s)"
proof (cases "st_reputationRegistries s (registryEntityId (h_chainId h) address)")
  case None
  let ?i = "registryEntityId (h_chainId h) address"
  have T: "\<forall>k f. st_feedback s k = Some f \<longrightarrow> fb_registry f \<noteq> ?i"
    using assms None unfolding feedback_ok_def feedback_tables_def by metis
  then have "table_sum (count_if (\<lambda>f. fb_registry f = ?i)) (st_feedback s) = 0"
    "table_sum (count_if (\<lambda>f. fb_registry f = ?i \<and> is_active f)) (st_feedback s) = 0"
    by (auto simp: count_if_def intro!: table_sum_zero)
  then show ?thesis using None by (simp add: getOrCreateReputationRegistry_def reputation_ok_def Let_def)
next
  case (Some r)
  then show ?thesis using assms by (simp add: getOrCreateReputationRegistry_def feedback_ok_def feedback_tables_def Let_def)
qed

lemma store_NewFeedback:
  assumes ok: "store_ok h s" and adm: "reputation_admissible h ev (NewFeedback p) s"
  shows "store_ok h (handleNewFeedback h ev p s)"
proof -
  let ?r = "getOrCreateReputationRegistry h (ev_address ev) (ev_timestamp ev) s"
  have e: "escrow_ok h s" and i: "identity_ok h s" and f: "feedback_ok h s" and v: "evidence_ok h (st_feedback s) (st_jobs s)"
    using ok by (simp_all add: store_ok_def)
  have r: "reputation_ok h (st_feedback s) (registryEntityId (h_chainId h) (ev_address ev)) ?r" by (rule reputation_row_ok [OF f])
  then have rc: "rr_chainId ?r = h_chainId h" "rr_id ?r = registryEntityId (h_chainId h) (ev_address ev)"
    by (simp_all add: reputation_ok_def)
  show ?thesis
  proof (cases "getAgent (agentEntityId (h_chainId h) (h_identityRegistry h) (nf_agentId p)) s")
    case None
    then show ?thesis using ok rc by (simp add: handleNewFeedback_def Let_def)
  next
    case (Some a)
    note pl = getAgent_placed [OF i Some]
    obtain rating verified evidence where c: "rating_context h ev a (nf_clientAddress p) s = (rating, verified, evidence)"
      by (cases "rating_context h ev a (nf_clientAddress p) s")
    obtain f' q where F:
      "fb_id f' = feedbackEntityId (rr_chainId ?r) (ev_address ev) (nf_agentId p) (nf_clientAddress p) (nf_feedbackIndex p)"
      "fb_agent f' = ag_id a" "fb_registry f' = rr_id ?r" "is_active f'" "fb_verified f' = verified" "fb_evidence f' = evidence"
      "fb_clientAgent f' = map_option (\<lambda>(c, e). ag_id c) rating"
      "fp_registry q = fb_registry f'" "fp_agent q = fb_agent f'" "fp_tag1 q = fb_tag1 f'" "fp_tag2 q = fb_tag2 f'"
      "fp_feedbackCountDelta q = 1" "fp_valueDelta q = fb_normalizedValue f'"
      and S: "st_feedback (handleNewFeedback h ev p s) = (st_feedback s)(fb_id f' \<mapsto> f')"
      "st_agents (handleNewFeedback h ev p s) = (st_agents s)(ag_id a \<mapsto> rated_agent ev verified a)"
      "st_engagements (handleNewFeedback h ev p s) = (case rating of None \<Rightarrow> st_engagements s
         | Some (c, e) \<Rightarrow> (st_engagements s)(en_id e \<mapsto> rated_engagement ev verified e))"
      "st_reputationRegistries (handleNewFeedback h ev p s) = (st_reputationRegistries s)(rr_id ?r \<mapsto>
         ?r\<lparr>rr_feedbackCount := rr_feedbackCount ?r + 1, rr_activeFeedbackCount := rr_activeFeedbackCount ?r + 1, rr_updatedAt := event_time ev\<rparr>)"
      "st_feedbackPoints (handleNewFeedback h ev p s) = st_feedbackPoints s @ [q]"
      "st_jobs (handleNewFeedback h ev p s) = st_jobs s" "st_commerces (handleNewFeedback h ev p s) = st_commerces s"
      "st_bindings (handleNewFeedback h ev p s) = st_bindings s" "st_agentPoints (handleNewFeedback h ev p s) = st_agentPoints s"
      "st_identityRegistries (handleNewFeedback h ev p s) = st_identityRegistries s"
      by (rule handleNewFeedback_effect [OF refl _ c]) (use Some rc in simp)
    have new: "st_feedback s (fb_id f') = None" using adm F(1) rc by simp
    have "identity_ok h (handleNewFeedback h ev p s)"
      by (rule identity_ok_same [OF i pl(1) _ _ _ S(2) S(10) S(8) S(9)])
         (simp_all add: rated_agent_def, simp_all add: same_agent_def agent_money_def)
    moreover have "feedback_tables h ((st_feedback s)(fb_id f' \<mapsto> f')) ((st_agents s)(fb_agent f' \<mapsto> rated_agent ev verified a))
        ((st_reputationRegistries s)(fb_registry f' \<mapsto> ?r\<lparr>rr_feedbackCount := rr_feedbackCount ?r + 1, rr_activeFeedbackCount := rr_activeFeedbackCount ?r + 1, rr_updatedAt := event_time ev\<rparr>))
        (st_feedbackPoints s @ [q])"
    proof (rule feedback_add [where a = a and r = ?r])
      show "feedback_placed h (fb_id f') f'" using F(1-3) pl(2) rc by (auto simp: feedback_placed_def)
    qed (use f new F pl r rc in \<open>simp_all add: feedback_ok_def rated_agent_def\<close>)
    then have "feedback_ok h (handleNewFeedback h ev p s)" using S F(2,3) by (simp add: feedback_ok_def)
    moreover have "escrow_ok h (handleNewFeedback h ev p s) \<and> evidence_ok h (st_feedback (handleNewFeedback h ev p s)) (st_jobs (handleNewFeedback h ev p s))"
    proof (rule rating_context_cases [OF escrow_keyed(2) [OF e], of h ev a "nf_clientAddress p"])
      assume "rating_context h ev a (nf_clientAddress p) s = (None, False, None)"
      with c have "rating = None" "\<not> verified" by simp_all
      then show ?thesis using S e evidence_ok_upd [OF v] F(5) by (simp add: escrow_ok_def evidenced_def)
    next
      fix ca en
      assume *: "rating_context h ev a (nf_clientAddress p) s = (Some (ca, en), False, None)" "joins (st_engagements s) (en_id en) en"
      have "escrow_tables (st_jobs s) (st_commerces s) ((st_engagements s)(en_id en \<mapsto> rated_engagement ev False en))"
        using e by (intro escrow_engagement_row [OF _ *(2)]) (simp_all add: escrow_ok_def rated_engagement_def)
      moreover have "rating = Some (ca, en)" "\<not> verified" using c *(1) by simp_all
      ultimately show ?thesis using S e evidence_ok_upd [OF v] F(5) by (simp add: escrow_ok_def evidenced_def)
    next
      fix ca en
      assume *: "rating_context h ev a (nf_clientAddress p) s = (Some (ca, en), True, en_lastSettledJob en)"
        "st_engagements s (en_id en) = Some en" "en_id en = engagementId h ca a" "0 < en_settledJobCount en"
      have "escrow_tables (st_jobs s) (st_commerces s) ((st_engagements s)(en_id en \<mapsto> rated_engagement ev True en))"
        using e *(2) by (intro escrow_engagement_row [where row = en]) (simp_all add: escrow_ok_def rated_engagement_def joins_def)
      moreover obtain x j where "en_lastSettledJob en = Some x" "st_jobs s x = Some j" "jo_settled j" "jo_engagement j = Some (en_id en)"
        using e *(2,4) unfolding escrow_ok_def escrow_tables_def engagement_ok_def by blast
      moreover have "rating = Some (ca, en)" "verified" "evidence = en_lastSettledJob en" using c *(1) by simp_all
      ultimately show ?thesis using S e evidence_ok_upd [OF v] F(2,5,6,7) *(3) by (simp add: escrow_ok_def evidenced_def engagementId_def)
    qed
    ultimately show ?thesis by (simp add: store_ok_def)
  qed
qed

lemma store_FeedbackRevoked:
  assumes ok: "store_ok h s" and adm: "reputation_admissible h ev (FeedbackRevoked i c n) s"
  shows "store_ok h (handleFeedbackRevoked h ev i c n s)"
proof (cases "st_reputationRegistries s (registryEntityId (h_chainId h) (ev_address ev))")
  case None
  then show ?thesis using ok by (simp add: handleFeedbackRevoked_def)
next
  case (Some r)
  have e: "escrow_ok h s" and d: "identity_ok h s" and T: "feedback_ok h s" and v: "evidence_ok h (st_feedback s) (st_jobs s)"
    using ok by (simp_all add: store_ok_def)
  have r: "rr_chainId r = h_chainId h" "rr_id r = registryEntityId (h_chainId h) (ev_address ev)"
    using T Some by (auto simp: feedback_ok_def feedback_tables_def reputation_ok_def)
  show ?thesis
  proof (cases "getAgent (agentEntityId (rr_chainId r) (h_identityRegistry h) i) s = None
      \<or> getFeedback (feedbackEntityId (rr_chainId r) (ev_address ev) i c n) s = None")
    case True
    then show ?thesis using ok Some by (auto simp: handleFeedbackRevoked_def split: option.splits)
  next
    case False
    then obtain a f where a: "getAgent (agentEntityId (rr_chainId r) (h_identityRegistry h) i) s = Some a"
      and f: "getFeedback (feedbackEntityId (rr_chainId r) (ev_address ev) i c n) s = Some f" by auto
    note pl = getAgent_placed [OF d a [unfolded r(1)]]
    have row: "st_feedback s (feedbackEntityId (h_chainId h) (ev_address ev) i c n) = Some f" using f r by (simp add: getFeedback_def)
    then have fp: "feedback_placed h (feedbackEntityId (h_chainId h) (ev_address ev) i c n) f"
      using T unfolding feedback_ok_def feedback_tables_def by blast
    then have fid: "fb_id f = feedbackEntityId (h_chainId h) (ev_address ev) i c n" "fb_agent f = ag_id a" "fb_registry f = rr_id r"
      using pl(2) r by (auto simp: feedback_placed_def)
    have act: "is_active f" using adm row by (simp add: is_active_def)
    obtain q where q: "fp_registry q = rr_id r" "fp_agent q = ag_id a" "fp_tag1 q = fb_tag1 f" "fp_tag2 q = fb_tag2 f"
      "fp_feedbackCountDelta q = - 1" "fp_valueDelta q = - fb_normalizedValue f"
      and S: "st_feedback (handleFeedbackRevoked h ev i c n s) = (st_feedback s)(fb_id f \<mapsto> revoked_feedback ev f)"
      "st_agents (handleFeedbackRevoked h ev i c n s) = (st_agents s)(ag_id a \<mapsto> unrated_agent ev (fb_verified f) a)"
      "\<exists>f' a' s'. st_engagements s' = st_engagements s
         \<and> st_engagements (handleFeedbackRevoked h ev i c n s) = st_engagements (revoke_engagement h ev f' a' s')"
      "st_reputationRegistries (handleFeedbackRevoked h ev i c n s) = (st_reputationRegistries s)(rr_id r \<mapsto>
         r\<lparr>rr_activeFeedbackCount := rr_activeFeedbackCount r - 1, rr_updatedAt := event_time ev\<rparr>)"
      "st_feedbackPoints (handleFeedbackRevoked h ev i c n s) = st_feedbackPoints s @ [q]"
      "st_jobs (handleFeedbackRevoked h ev i c n s) = st_jobs s" "st_commerces (handleFeedbackRevoked h ev i c n s) = st_commerces s"
      "st_bindings (handleFeedbackRevoked h ev i c n s) = st_bindings s" "st_agentPoints (handleFeedbackRevoked h ev i c n s) = st_agentPoints s"
      "st_identityRegistries (handleFeedbackRevoked h ev i c n s) = st_identityRegistries s"
      by (rule handleFeedbackRevoked_effect [OF Some a f])
    have "identity_ok h (handleFeedbackRevoked h ev i c n s)"
      by (rule identity_ok_same [OF d pl(1) _ _ _ S(2) S(10) S(8) S(9)])
         (simp_all add: unrated_agent_def, simp_all add: same_agent_def agent_money_def)
    moreover have "feedback_tables h ((st_feedback s)(fb_id f \<mapsto> revoked_feedback ev f))
        ((st_agents s)(fb_agent (revoked_feedback ev f) \<mapsto> unrated_agent ev (fb_verified f) a))
        ((st_reputationRegistries s)(fb_registry (revoked_feedback ev f) \<mapsto>
           r\<lparr>rr_activeFeedbackCount := rr_activeFeedbackCount r - 1, rr_updatedAt := event_time ev\<rparr>)) (st_feedbackPoints s @ [q])"
      by (rule feedback_revoke [where old = f and a = a and r = r])
         (use T row act fid pl(1) q Some r in \<open>simp_all add: feedback_ok_def revoked_feedback_def is_active_def unrated_agent_def\<close>)
    then have "feedback_ok h (handleFeedbackRevoked h ev i c n s)"
      using S fid by (simp add: feedback_ok_def revoked_feedback_def)
    moreover have "evidence_ok h (st_feedback (handleFeedbackRevoked h ev i c n s)) (st_jobs (handleFeedbackRevoked h ev i c n s))"
    proof -
      have "evidenced h (st_jobs s) f" using v row unfolding evidence_ok_def by blast
      then have "evidenced h (st_jobs s) (revoked_feedback ev f)" by (simp add: evidenced_def revoked_feedback_def)
      then show ?thesis using S evidence_ok_upd [OF v] by simp
    qed
    moreover have "escrow_ok h (handleFeedbackRevoked h ev i c n s)"
    proof -
      obtain f' a' s' where E: "st_engagements s' = st_engagements s"
        "st_engagements (handleFeedbackRevoked h ev i c n s) = st_engagements (revoke_engagement h ev f' a' s')"
        using S(3) by blast
      have keyed: "\<forall>e row. st_engagements s' e = Some row \<longrightarrow> en_id row = e" using escrow_keyed(2) [OF e] E(1) by simp
      have X: "escrow_tables (st_jobs s) (st_commerces s) (st_engagements s)" using e by (simp add: escrow_ok_def)
      have "escrow_tables (st_jobs s) (st_commerces s) (adjust x (unrated_engagement ev b) (st_engagements s))" for x b
        using X escrow_engagement_row [OF X, of x _ "unrated_engagement ev b (the (st_engagements s x))"]
        by (cases "st_engagements s x") (auto simp: adjust_def joins_def unrated_engagement_def)
      then have "escrow_tables (st_jobs s) (st_commerces s) (st_engagements (handleFeedbackRevoked h ev i c n s))"
        using revoke_engagement_rows [OF keyed, of h ev f' a'] E X by metis
      then show ?thesis using e S by (simp add: escrow_ok_def)
    qed
    ultimately show ?thesis by (simp add: store_ok_def)
  qed
qed

lemma rated_ok_cong:
  assumes "rated_ok fs k a" "ag_feedbackCount b = ag_feedbackCount a" "ag_activeFeedbackCount b = ag_activeFeedbackCount a"
    "ag_verifiedFeedbackCount b = ag_verifiedFeedbackCount a"
  shows "rated_ok fs k b"
  using assms by (simp add: rated_ok_def)

lemma store_ResponseAppended:
  assumes ok: "store_ok h s"
  shows "store_ok h (handleResponseAppended h ev i c n p u x s)"
proof (cases "st_reputationRegistries s (registryEntityId (h_chainId h) (ev_address ev))")
  case None
  then show ?thesis using ok by (simp add: handleResponseAppended_def)
next
  case (Some r)
  let ?k = "feedbackEntityId (h_chainId h) (ev_address ev) i c n"
  have e: "escrow_ok h s" and d: "identity_ok h s" and T: "feedback_ok h s" and v: "evidence_ok h (st_feedback s) (st_jobs s)"
    using ok by (simp_all add: store_ok_def)
  have r: "rr_chainId r = h_chainId h" "rr_id r = registryEntityId (h_chainId h) (ev_address ev)"
    using T Some by (auto simp: feedback_ok_def feedback_tables_def reputation_ok_def)
  show ?thesis
  proof (cases "getAgent (agentEntityId (h_chainId h) (h_identityRegistry h) i) s = None \<or> getFeedback ?k s = None")
    case True
    then show ?thesis using ok Some r by (auto simp: handleResponseAppended_def split: option.splits)
  next
    case False
    then obtain a f where a: "getAgent (agentEntityId (h_chainId h) (h_identityRegistry h) i) s = Some a"
      and f: "getFeedback ?k s = Some f" by auto
    note pl = getAgent_placed [OF d a]
    have row: "st_feedback s ?k = Some f" using f by (simp add: getFeedback_def)
    then have fid: "feedback_placed h ?k f" using T unfolding feedback_ok_def feedback_tables_def by blast
    then have fi: "fb_id f = ?k" by (simp add: feedback_placed_def)
    let ?f = "f\<lparr>fb_responseCount := fb_responseCount f + 1\<rparr>" and ?a = "touchAgent (a\<lparr>ag_responseCount := ag_responseCount a + 1\<rparr>) ev"
      and ?r = "r\<lparr>rr_responseCount := rr_responseCount r + 1, rr_updatedAt := event_time ev\<rparr>" and ?s = "handleResponseAppended h ev i c n p u x s"
    have S: "st_feedback ?s = (st_feedback s)(?k \<mapsto> ?f)" "st_agents ?s = (st_agents s)(ag_id a \<mapsto> ?a)"
      "st_reputationRegistries ?s = (st_reputationRegistries s)(rr_id r \<mapsto> ?r)" "st_identityRegistries ?s = st_identityRegistries s"
      "st_bindings ?s = st_bindings s" "st_agentPoints ?s = st_agentPoints s" "st_feedbackPoints ?s = st_feedbackPoints s"
      "st_jobs ?s = st_jobs s" "st_commerces ?s = st_commerces s" "st_engagements ?s = st_engagements s"
      using Some a f fi by (simp_all add: handleResponseAppended_def r(1) Let_def case_prod_beta save_defs)
    have F: "finite (dom (st_feedback s))" "points_agree (st_feedback s) (st_feedbackPoints s)"
      "\<forall>k a. st_agents s k = Some a \<longrightarrow> rated_ok (st_feedback s) k a"
      "\<forall>i r. st_reputationRegistries s i = Some r \<longrightarrow> reputation_ok h (st_feedback s) i r"
      "\<forall>k f. st_feedback s k = Some f \<longrightarrow> feedback_placed h k f \<and> st_agents s (fb_agent f) \<noteq> None \<and> st_reputationRegistries s (fb_registry f) \<noteq> None"
      using T by (simp_all add: feedback_ok_def feedback_tables_def)
    have sums: "table_sum (count_if P) ((st_feedback s)(?k \<mapsto> ?f)) = table_sum (count_if P) (st_feedback s)" if "P ?f = P f" for P
      using F(1) row that by (simp add: table_sum_upd count_if_def)
    have ra: "rated_ok ((st_feedback s)(?k \<mapsto> ?f)) k b = rated_ok (st_feedback s) k b"
      and re: "reputation_ok h ((st_feedback s)(?k \<mapsto> ?f)) k g = reputation_ok h (st_feedback s) k g" for k b g
      by (simp_all add: rated_ok_def reputation_ok_def sums is_active_def)
    have "rated_ok (st_feedback s) (ag_id a) a" "reputation_ok h (st_feedback s) (rr_id r) r" using F(3,4) pl(1) Some r(2) by simp_all
    then have "rated_ok (st_feedback s) (ag_id a) ?a" "reputation_ok h (st_feedback s) (rr_id r) ?r"
      by (simp_all add: rated_ok_def reputation_ok_def touchAgent_def)
    moreover have "feedback_placed h ?k ?f" using fid by (simp add: feedback_placed_def)
    moreover have "points_agree ((st_feedback s)(?k \<mapsto> ?f)) (st_feedbackPoints s)"
      by (rule points_agree_same [OF F(2,1) row]) (simp_all add: is_active_def)
    moreover have "st_agents s (fb_agent f) \<noteq> None \<and> st_reputationRegistries s (fb_registry f) \<noteq> None" using F(5) row by blast
    ultimately have "feedback_ok h ?s"
      using F by (auto simp: feedback_ok_def feedback_tables_def S ra re)
    moreover have "identity_ok h ?s"
      by (rule identity_ok_same [OF d pl(1) _ _ _ S(2) S(4-6)]) (simp_all add: same_agent_def agent_money_def touchAgent_def)
    moreover have "evidence_ok h (st_feedback ?s) (st_jobs ?s)"
    proof -
      have "evidenced h (st_jobs s) f" using v row unfolding evidence_ok_def by blast
      then have "evidenced h (st_jobs s) ?f" by (simp add: evidenced_def)
      then show ?thesis using S evidence_ok_upd [OF v] by simp
    qed
    ultimately show ?thesis using e S by (simp add: store_ok_def escrow_ok_def)
  qed
qed

lemma store_reputation:
  assumes "store_ok h s" "reputation_admissible h ev e s"
  shows "store_ok h (handleReputation h ev e s)"
  using assms by (cases e) (simp_all add: store_NewFeedback store_FeedbackRevoked store_ResponseAppended del: reputation_admissible.simps)

end
