(* ===== verification/SG_Index.thy ===== *)
theory SG_Index
  imports SG_Reputation
begin

text \<open>
  The subgraph as one state machine: a block's logs, in order, each given to the handler the
  manifest names for it (\<open>mapping.ts\<close>). The store after any admissible sequence of logs satisfies the
  invariants of the escrow, the identity registry and the reputation registry together.
\<close>

section \<open>What the other data sources leave of the ratings\<close>

text \<open>Agents keep their rating counters, and an agent that is new has none.\<close>

definition ratings_kept :: "(bytes \<rightharpoonup> Agent) \<Rightarrow> (bytes \<rightharpoonup> Agent) \<Rightarrow> bool" where
  "ratings_kept t t' \<longleftrightarrow> (\<forall>k. t k \<noteq> None \<longrightarrow> t' k \<noteq> None) \<and> (\<forall>k b. t' k = Some b \<longrightarrow>
     (case t k of
        None \<Rightarrow> ag_feedbackCount b = 0 \<and> ag_activeFeedbackCount b = 0 \<and> ag_verifiedFeedbackCount b = 0
      | Some a \<Rightarrow> ag_feedbackCount b = ag_feedbackCount a \<and> ag_activeFeedbackCount b = ag_activeFeedbackCount a
          \<and> ag_verifiedFeedbackCount b = ag_verifiedFeedbackCount a))"

lemma ratings_kept_refl [simp]: "ratings_kept t t"
  by (simp add: ratings_kept_def)

lemma ratings_keptD:
  assumes "ratings_kept t t'" "t' k = Some b"
  shows "t k = None \<Longrightarrow> ag_feedbackCount b = 0 \<and> ag_activeFeedbackCount b = 0 \<and> ag_verifiedFeedbackCount b = 0"
    "t k = Some a \<Longrightarrow> ag_feedbackCount b = ag_feedbackCount a \<and> ag_activeFeedbackCount b = ag_activeFeedbackCount a
       \<and> ag_verifiedFeedbackCount b = ag_verifiedFeedbackCount a"
  using assms unfolding ratings_kept_def by fastforce+

lemma ratings_kept_row:
  assumes "t k = Some a" "ag_feedbackCount b = ag_feedbackCount a" "ag_activeFeedbackCount b = ag_activeFeedbackCount a"
    "ag_verifiedFeedbackCount b = ag_verifiedFeedbackCount a"
  shows "ratings_kept t (t(k \<mapsto> b))"
  using assms by (auto simp: ratings_kept_def split: option.splits)

lemma ratings_kept_core:
  assumes c: "agents_core t' = agents_core t"
  shows "ratings_kept t t'"
  unfolding ratings_kept_def
proof (intro conjI allI impI)
  fix k assume "t k \<noteq> None"
  then obtain a where "t k = Some a" by auto
  then show "t' k \<noteq> None" by (rule agents_core_lookup [OF c]) simp
next
  fix k b assume "t' k = Some b"
  then obtain a where "t k = Some a" "agent_core a = agent_core b" by (rule agents_core_lookup [OF c [symmetric]])
  then show "case t k of None \<Rightarrow> ag_feedbackCount b = 0 \<and> ag_activeFeedbackCount b = 0 \<and> ag_verifiedFeedbackCount b = 0
      | Some a \<Rightarrow> ag_feedbackCount b = ag_feedbackCount a \<and> ag_activeFeedbackCount b = ag_activeFeedbackCount a
          \<and> ag_verifiedFeedbackCount b = ag_verifiedFeedbackCount a"
    using agent_core_fields(5-7) [of a b] by simp
qed

lemma feedback_kept:
  assumes T: "feedback_tables h fs t rs ps" and k: "ratings_kept t t'"
  shows "feedback_tables h fs t' rs ps"
proof -
  have "rated_ok fs x b" if b: "t' x = Some b" for x b
  proof (cases "t x")
    case None
    then have "\<forall>k f. fs k = Some f \<longrightarrow> fb_agent f \<noteq> x" using T unfolding feedback_tables_def by metis
    then have "table_sum (count_if (\<lambda>f. fb_agent f = x)) fs = 0"
      "table_sum (count_if (\<lambda>f. fb_agent f = x \<and> is_active f)) fs = 0"
      "table_sum (count_if (\<lambda>f. fb_agent f = x \<and> is_active f \<and> fb_verified f)) fs = 0"
      by (auto simp: count_if_def intro!: table_sum_zero)
    with ratings_keptD(1) [OF k b None] show ?thesis by (simp add: rated_ok_def)
  next
    case (Some a)
    then have "rated_ok fs x a" using T by (simp add: feedback_tables_def)
    then show ?thesis by (rule rated_ok_cong) (use ratings_keptD(2) [OF k b Some] in simp_all)
  qed
  with T k show ?thesis unfolding feedback_tables_def ratings_kept_def by blast
qed

lemma identity_ratings:
  assumes ok: "identity_ok h s" and adm: "identity_admissible h ev e s"
  shows "ratings_kept (st_agents s) (st_agents (handleIdentity h ev e s))"
proof (cases e)
  case (Registered i u a)
  have "ir_chainId (getOrCreateIdentityRegistry h (ev_address ev) (ev_timestamp ev) s) = h_chainId h"
    using ok by (auto simp: getOrCreateIdentityRegistry_def Let_def identity_ok_def identity_tables_def registry_ok_def split: option.splits)
  then show ?thesis
    using adm Registered by (auto simp: handleRegistered_def Let_def case_prod_beta save_defs ratings_kept_def split: option.splits)
next
  case (MetadataSet i key v)
  show ?thesis
  proof (cases "getAgent (agentEntityId (h_chainId h) (ev_address ev) i) s")
    case (Some a)
    obtain b s1 where m: "apply_metadata h ev a key v s = (b, s1)" by (cases "apply_metadata h ev a key v s")
    note keeps = apply_metadata_keeps [OF m] and row = getAgent_placed(1) [OF ok Some]
    have "ratings_kept (st_agents s) ((st_agents s)(ag_id a \<mapsto> touchAgent b ev))"
      by (rule ratings_kept_row [where a = a]) (simp_all add: row keeps touchAgent_def)
    then show ?thesis using MetadataSet keeps by (simp add: handleMetadataSet_effect [OF Some m])
  qed (simp add: MetadataSet handleMetadataSet_def)
next
  case (URIUpdated i u a)
  show ?thesis
  proof (cases "getAgent (agentEntityId (h_chainId h) (ev_address ev) i) s")
    case (Some a)
    from getAgent_placed(1) [OF ok Some] show ?thesis
      by (auto simp: URIUpdated handleURIUpdated_def Some Let_def case_prod_beta save_defs touchAgent_def intro!: ratings_kept_row)
  qed (simp add: URIUpdated handleURIUpdated_def)
next
  case (Transfer f t i)
  have keyed: "\<forall>i r. st_identityRegistries s i = Some r \<longrightarrow> ir_id r = i"
    using ok by (simp add: identity_ok_def identity_tables_def registry_ok_def)
  show ?thesis
  proof (cases "f = zero_address \<or> getAgent (agentEntityId (h_chainId h) (ev_address ev) i) s = None")
    case True
    then show ?thesis using Transfer by (auto simp: handleTransfer_def)
  next
    case False
    then obtain a where g: "getAgent (agentEntityId (h_chainId h) (ev_address ev) i) s = Some a" and f: "f \<noteq> zero_address" by auto
    note row = getAgent_placed(1) [OF ok g]
    show ?thesis
      by (rule handleTransfer_effect [OF g f keyed, of t]) (simp add: Transfer ratings_kept_row [where a = a] row)
  qed
next
  case (Approval a b i)
  show ?thesis
  proof (cases "getAgent (agentEntityId (h_chainId h) (ev_address ev) i) s")
    case (Some a)
    from getAgent_placed(1) [OF ok Some] show ?thesis
      by (auto simp: Approval handleApproval_def Some Let_def case_prod_beta save_defs touchAgent_def intro!: ratings_kept_row)
  qed (simp add: Approval handleApproval_def)
next
  case (ApprovalForAll a b x)
  then show ?thesis by (simp add: handleApprovalForAll_def Let_def case_prod_beta)
qed

lemma store_identity:
  assumes "store_ok h s" "identity_admissible h ev e s"
  shows "store_ok h (handleIdentity h ev e s)"
  using assms identity_preserved [of h s ev e] escrow_under_identity [of h s ev e] identity_ratings [of h s ev e]
  by (auto simp: store_ok_def feedback_ok_def identity_frame_escrow intro: feedback_kept)

section \<open>Settled work stays settled\<close>

definition keeps_settled :: "(bytes \<rightharpoonup> Job) \<Rightarrow> (bytes \<rightharpoonup> Job) \<Rightarrow> bool" where
  "keeps_settled js js' \<longleftrightarrow> (\<forall>i j e. js i = Some j \<and> jo_settled j \<and> jo_engagement j = Some e \<longrightarrow>
     (\<exists>j'. js' i = Some j' \<and> jo_settled j' \<and> jo_engagement j' = Some e))"

lemma keeps_settled_refl [simp]: "keeps_settled js js"
  by (simp add: keeps_settled_def)

lemma keeps_settled_new: "js k = None \<Longrightarrow> keeps_settled js (js(k \<mapsto> j))"
  by (auto simp: keeps_settled_def)

lemma keeps_settled_row:
  assumes "js k = Some j" "jo_settled j \<Longrightarrow> jo_settled j'" "\<And>e. jo_engagement j = Some e \<Longrightarrow> jo_engagement j' = Some e"
  shows "keeps_settled js (js(k \<mapsto> j'))"
  using assms by (auto simp: keeps_settled_def)

lemma linkWorkspaces_job:
  "jo_id (fst (linkWorkspaces h j ev s)) = jo_id j" "jo_settled (fst (linkWorkspaces h j ev s)) = jo_settled j"
  "jo_engagement j = Some e \<Longrightarrow> jo_engagement (fst (linkWorkspaces h j ev s)) = Some e"
  by (auto simp: linkWorkspaces_def link_client_def link_provider_def Let_def case_prod_beta split: option.splits)

lemma markSettledIfPaid_job: "fst (markSettledIfPaid j ev s) = settled_job ev j"
  by (simp add: markSettledIfPaid_def settled_job_def will_settle_def Let_def)

lemma recordRefund_jobs [simp]: "st_jobs (recordRefund j a ev s) = st_jobs s"
  by (auto simp: recordRefund_def Let_def save_defs recordAgentMetric_def split: option.splits)

lemma mark_jobs [simp]: "st_jobs (snd (markSettledIfPaid j ev s)) = st_jobs s"
  by (simp add: markSettledIfPaid_def Let_def)

lemma escrow_keeps_settled:
  assumes ok: "escrow_ok h s" and adm: "escrow_admissible h ev e s"
  shows "keeps_settled (st_jobs s) (st_jobs (handleEscrow h ev e s))"
proof -
  have row: "st_jobs s (jo_id j) = Some j" if "eventJob h ev i s = Some j" for i j by (rule eventJob_Some(1) [OF ok that])
  note defs = Let_def case_prod_beta saveJob_def touchJob_def linkWorkspaces_job markSettledIfPaid_job
  show ?thesis
  proof (cases e)
    case (JobCreated i c p e x k)
    obtain r s1 where g: "getOrCreateAgenticCommerce h ev s = (r, s1)" by (cases "getOrCreateAgenticCommerce h ev s")
    note r = getOrCreateAgenticCommerce_ok [OF ok g]
    have js: "st_jobs s1 = st_jobs s" using getOrCreateAgenticCommerce_frame(1) [of h ev s] g by simp
    note P = prepare_job_effect(1,2) [where ev = ev and row = r and i = i and h = h and c = c and p = p and e = e and x = x and k = k and s = s1]
    have "cm_chainId r = h_chainId h" using r by (auto simp: escrow_ok_def same_chain_def)
    then have new: "st_jobs s (jo_id (fst (snd (prepare_job h ev r i c p e x k s1)))) = None"
      using P(1) adm JobCreated by (simp add: created_job_def)
    then show ?thesis
      by (simp add: JobCreated handleJobCreated_def g defs P(2) js saveCommerce_def keeps_settled_new)
  next
    case (ProviderSet i p)
    then show ?thesis
      by (cases "eventJob h ev i s") (auto simp: handleProviderSet_def defs row intro!: keeps_settled_row)
  qed (auto simp: handleBudgetSet_def handleJobFunded_def handleJobSubmitted_def handleJobCompleted_def handleJobRejected_def
      handleJobExpired_def handlePaymentReleased_def handleEvaluatorFeePaid_def handleRefunded_def
      handleHookWhitelistUpdated_def handleUpgraded_def defs saveCommerce_def row intro!: keeps_settled_row split: option.splits)
qed

lemma evidence_kept: "evidence_ok h fs js \<Longrightarrow> keeps_settled js js' \<Longrightarrow> evidence_ok h fs js'"
  unfolding evidence_ok_def evidenced_def keeps_settled_def by metis

lemma store_escrow:
  assumes ok: "store_ok h s" and adm: "escrow_admissible h ev e s"
  shows "store_ok h (handleEscrow h ev e s)"
proof -
  have "workspace_step s (handleEscrow h ev e s)" using ok by (intro escrow_step) (simp add: store_ok_def identity_ok_def)
  then have "ratings_kept (st_agents s) (st_agents (handleEscrow h ev e s))"
    by (intro ratings_kept_core) (simp add: workspace_step_def)
  moreover have "st_feedback (handleEscrow h ev e s) = st_feedback s" "st_feedbackPoints (handleEscrow h ev e s) = st_feedbackPoints s"
    "st_reputationRegistries (handleEscrow h ev e s) = st_reputationRegistries s"
    using escrow_frame [of h ev e s] by (simp_all add: other_tables_def)
  ultimately show ?thesis
    using ok escrow_preserved [of h s, OF _ adm] identity_under_escrow [of h s ev e] escrow_keeps_settled [of h s, OF _ adm]
    by (auto simp: store_ok_def feedback_ok_def intro: feedback_kept evidence_kept)
qed

section \<open>The machine\<close>

datatype IndexEvent = Escrow EscrowEvent | Identity IdentityEvent | Reputation ReputationEvent

fun handleEvent :: "Host \<Rightarrow> Event \<Rightarrow> IndexEvent \<Rightarrow> Store \<Rightarrow> Store" where
  "handleEvent h ev (Escrow e) s = handleEscrow h ev e s"
| "handleEvent h ev (Identity e) s = handleIdentity h ev e s"
| "handleEvent h ev (Reputation e) s = handleReputation h ev e s"

fun admissible :: "Host \<Rightarrow> Event \<Rightarrow> IndexEvent \<Rightarrow> Store \<Rightarrow> bool" where
  "admissible h ev (Escrow e) s = escrow_admissible h ev e s"
| "admissible h ev (Identity e) s = identity_admissible h ev e s"
| "admissible h ev (Reputation e) s = reputation_admissible h ev e s"

text \<open>The stores that indexing can reach, as a step relation, and as the result of a log.\<close>

inductive indexed :: "Host \<Rightarrow> Store \<Rightarrow> bool" for h where
  start: "indexed h empty_store"
| log: "indexed h s \<Longrightarrow> admissible h ev e s \<Longrightarrow> indexed h (handleEvent h ev e s)"

inductive_cases indexed_cases: "indexed h s"

fun index_log :: "Host \<Rightarrow> (Event \<times> IndexEvent) list \<Rightarrow> Store \<Rightarrow> Store" where
  "index_log h [] s = s"
| "index_log h ((ev, e) # es) s = index_log h es (handleEvent h ev e s)"

fun admissible_log :: "Host \<Rightarrow> (Event \<times> IndexEvent) list \<Rightarrow> Store \<Rightarrow> bool" where
  "admissible_log h [] s = True"
| "admissible_log h ((ev, e) # es) s = (admissible h ev e s \<and> admissible_log h es (handleEvent h ev e s))"

lemma index_log_append: "index_log h (xs @ ys) s = index_log h ys (index_log h xs s)"
  by (induction xs arbitrary: s) auto

lemma indexed_log: "indexed h s \<Longrightarrow> admissible_log h es s \<Longrightarrow> indexed h (index_log h es s)"
  by (induction es arbitrary: s) (auto simp: indexed.log)

lemma admissible_log_append: "admissible_log h (xs @ ys) s \<longleftrightarrow> admissible_log h xs s \<and> admissible_log h ys (index_log h xs s)"
  by (induction xs arbitrary: s) auto

lemma indexed_iff: "indexed h s \<longleftrightarrow> (\<exists>es. admissible_log h es empty_store \<and> s = index_log h es empty_store)"
proof
  assume "indexed h s"
  then show "\<exists>es. admissible_log h es empty_store \<and> s = index_log h es empty_store"
  proof induction
    case start
    show ?case by (rule exI [of _ "[]"]) simp
  next
    case (log s ev e)
    then obtain es where "admissible_log h es empty_store" "s = index_log h es empty_store" by blast
    with log show ?case by (intro exI [of _ "es @ [(ev, e)]"]) (simp add: index_log_append admissible_log_append)
  qed
qed (use indexed_log [OF indexed.start] in blast)

section \<open>Invariants of indexing\<close>

text \<open>An invariant holds initially and is kept by every admissible log; it then holds of every store
  that is reached.\<close>

definition index_step :: "Host \<Rightarrow> Store \<Rightarrow> Store \<Rightarrow> bool" where
  "index_step h s s' \<longleftrightarrow> (\<exists>ev e. admissible h ev e s \<and> s' = handleEvent h ev e s)"

lemma indexed_run: "indexed h s \<longleftrightarrow> (index_step h)\<^sup>*\<^sup>* empty_store s"
proof
  show "(index_step h)\<^sup>*\<^sup>* empty_store s" if "indexed h s"
    using that by induction (auto simp: index_step_def intro: rtranclp.rtrancl_into_rtrancl)
  show "indexed h s" if "(index_step h)\<^sup>*\<^sup>* empty_store s"
    using that by induction (auto simp: index_step_def intro: indexed.intros)
qed

locale indexing_invariant =
  fixes h :: Host and inv :: "Store \<Rightarrow> bool"
  assumes init: "inv empty_store"
    and step: "inv s \<Longrightarrow> admissible h ev e s \<Longrightarrow> inv (handleEvent h ev e s)"
begin

lemma index_step_kept: "index_step h s s' \<Longrightarrow> inv s \<Longrightarrow> inv s'"
  by (auto simp: index_step_def intro: step)

end

sublocale indexing_invariant \<subseteq> log_run: machine_invariant "index_step h" inv
  by unfold_locales (rule index_step_kept)

context indexing_invariant
begin

lemma reached: "indexed h s \<Longrightarrow> inv s"
  using log_run.run init by (simp add: indexed_run)

lemma after_log: "admissible_log h es empty_store \<Longrightarrow> inv (index_log h es empty_store)"
  by (rule reached) (rule indexed_log [OF indexed.start])

end

lemma store_ok_empty: "store_ok h empty_store"
  by (simp add: store_ok_def empty_store_def escrow_ok_def escrow_tables_def same_chain_def identity_ok_def identity_tables_def
      wallets_ok_def metrics_ok_def feedback_ok_def feedback_tables_def points_agree_def evidence_ok_def)

interpretation store: indexing_invariant h "store_ok h" for h
proof unfold_locales
  show "store_ok h empty_store" by (rule store_ok_empty)
  show "store_ok h (handleEvent h ev e s)" if "store_ok h s" "admissible h ev e s" for s ev e
    using that by (cases e) (simp_all add: store_escrow store_identity store_reputation)
qed

text \<open>The attested score of an agent, where it has one, is in the range the attestation allows.\<close>

definition score_ok :: "Agent \<Rightarrow> bool" where
  "score_ok a \<longleftrightarrow> (\<forall>v. ag_bufiScore a = Some v \<longrightarrow> 0 \<le> v \<and> v \<le> 100000)
     \<and> (\<forall>v. ag_bufiScoreVersion a = Some v \<longrightarrow> 0 \<le> v \<and> v \<le> 1000)"

definition scores_ok :: "Store \<Rightarrow> bool" where
  "scores_ok s \<longleftrightarrow> (\<forall>k a. st_agents s k = Some a \<longrightarrow> score_ok a)"

lemma score_ok_cong: "ag_bufiScore b = ag_bufiScore a \<Longrightarrow> ag_bufiScoreVersion b = ag_bufiScoreVersion a \<Longrightarrow> score_ok b = score_ok a"
  by (simp add: score_ok_def)

lemma score_ok_core: "agent_core b = agent_core a \<Longrightarrow> score_ok b = score_ok a"
  by (cases a; cases b; simp add: agent_core_def score_ok_def)

lemma score_ok_attested: "score_ok a \<Longrightarrow> score_ok (applyScoreAttestation h a v t)"
  using asWholeI32_range
  by (fastforce simp: applyScoreAttestation_def score_ok_def Let_def present_int_def split: option.splits)

lemma scores_row: "scores_ok s \<Longrightarrow> score_ok b \<Longrightarrow> st_agents s' = (st_agents s)(k \<mapsto> b) \<Longrightarrow> scores_ok s'"
  by (simp add: scores_ok_def)

lemma getAgent_score: "scores_ok s \<Longrightarrow> getAgent k s = Some a \<Longrightarrow> score_ok a"
  by (simp add: scores_ok_def getAgent_def)

lemma apply_metadata_score:
  "score_ok a \<Longrightarrow> score_ok (fst (apply_metadata h ev a key v s))"
  "st_agents (snd (apply_metadata h ev a key v s)) = st_agents s"
proof -
  show "score_ok (fst (apply_metadata h ev a key v s))" if "score_ok a"
    using that score_ok_attested [OF that, of h v "ev_timestamp ev"] by (simp add: apply_metadata_def Let_def) (simp add: score_ok_def)
  show "st_agents (snd (apply_metadata h ev a key v s)) = st_agents s"
    using apply_metadata_keeps(4) [of h ev a key v s "fst (apply_metadata h ev a key v s)"] by simp
qed

lemma scores_identity:
  assumes "scores_ok s"
  shows "scores_ok (handleIdentity h ev e s)"
proof (cases e)
  case (MetadataSet i key v)
  show ?thesis
  proof (cases "getAgent (agentEntityId (h_chainId h) (ev_address ev) i) s")
    case (Some a)
    obtain b s1 where m: "apply_metadata h ev a key v s = (b, s1)" by (cases "apply_metadata h ev a key v s")
    have "score_ok b" "st_agents s1 = st_agents s"
      using apply_metadata_score [where a = a and h = h and ev = ev and key = key and v = v and s = s] getAgent_score [OF assms Some] m by simp_all
    then have "score_ok (touchAgent b ev)" by (simp add: score_ok_def touchAgent_def)
    then show ?thesis
      using \<open>st_agents s1 = st_agents s\<close> handleMetadataSet_effect(1) [OF Some m] MetadataSet by (auto intro: scores_row [OF assms])
  qed (use assms MetadataSet in \<open>simp add: handleMetadataSet_def\<close>)
qed (use assms getAgent_score [OF assms] in \<open>auto simp: handleRegistered_def handleURIUpdated_def handleTransfer_def handleApproval_def
    handleApprovalForAll_def Let_def case_prod_beta save_defs scores_ok_def score_ok_def touchAgent_def split: option.splits if_splits\<close>)

lemma scores_reputation:
  assumes "scores_ok s"
  shows "scores_ok (handleReputation h ev e s)"
  using assms getAgent_score [OF assms]
  by (cases e)
     (auto simp: handleNewFeedback_def handleFeedbackRevoked_def handleResponseAppended_def revoke_engagement_def
       createFeedbackMetricPoint_def Let_def case_prod_beta save_defs scores_ok_def score_ok_def touchAgent_def split: option.splits)

interpretation scores: indexing_invariant h "\<lambda>s. store_ok h s \<and> scores_ok s" for h
proof unfold_locales
  show "store_ok h empty_store \<and> scores_ok empty_store" using store_ok_empty by (simp add: scores_ok_def) (simp add: empty_store_def)
  show "store_ok h (handleEvent h ev e s) \<and> scores_ok (handleEvent h ev e s)" if "store_ok h s \<and> scores_ok s" "admissible h ev e s" for s ev e
  proof
    show "store_ok h (handleEvent h ev e s)" using that store.step by blast
    have "scores_ok (handleEscrow h ev x s)" for x
    proof -
      have "workspace_step s (handleEscrow h ev x s)" using that by (intro escrow_step) (simp add: store_ok_def identity_ok_def)
      then have c: "agents_core (st_agents s) = agents_core (st_agents (handleEscrow h ev x s))" by (simp add: workspace_step_def)
      show ?thesis unfolding scores_ok_def
      proof (intro allI impI)
        fix k b assume "st_agents (handleEscrow h ev x s) k = Some b"
        then obtain a where "st_agents s k = Some a" "agent_core a = agent_core b" by (rule agents_core_lookup [OF c])
        then show "score_ok b" using that(1) score_ok_core [of a b] by (simp add: scores_ok_def)
      qed
    qed
    then show "scores_ok (handleEvent h ev e s)"
      using that(1) scores_identity scores_reputation by (cases e) auto
  qed
qed

end
