(* ===== verification/SG_Guarantees.thy ===== *)
theory SG_Guarantees
  imports SG_Index
begin

text \<open>
  What a reader of the subgraph may rely on after any admissible log: the counters are counts of
  rows, settled means completed and paid, verified ratings have evidence, wallets resolve to the
  agent that named them. One log with two agents, a paid job and a verified rating serves the
  witnesses.
\<close>

section \<open>A log\<close>

definition demo_event :: "8 word \<Rightarrow> int \<Rightarrow> Event" where
  "demo_event a n = \<lparr>ev_address = replicate 20 a, ev_blockNumber = n, ev_timestamp = 1000 + n, ev_txHash = [of_int n], ev_logIndex = n\<rparr>"

definition demo_rating :: NewFeedbackParams where
  "demo_rating = \<lparr>nf_agentId = 2, nf_clientAddress = replicate 20 1, nf_feedbackIndex = 1, nf_value = 90, nf_valueDecimals = 0,
     nf_indexedTag1 = [], nf_tag1 = ''quality'', nf_tag2 = '''', nf_endpoint = '''', nf_feedbackURI = '''', nf_feedbackHash = []\<rparr>"

definition demo_log :: "(Event \<times> IndexEvent) list" where
  "demo_log =
     [(demo_event 8 1, Identity (Registered 1 '''' (replicate 20 5))),
      (demo_event 8 2, Identity (Registered 2 '''' (replicate 20 6))),
      (demo_event 8 3, Identity (MetadataSet 1 ''agentWallet'' (replicate 20 1))),
      (demo_event 8 4, Identity (MetadataSet 2 ''agentWallet'' (replicate 20 2))),
      (demo_event 9 5, Escrow (JobCreated 7 (replicate 20 1) (replicate 20 2) (replicate 20 4) 2000 zero_address)),
      (demo_event 9 6, Escrow (PaymentReleased 7 (replicate 20 2) 100)),
      (demo_event 9 7, Escrow (JobCompleted 7 (replicate 20 4) [1])),
      (demo_event 7 8, Reputation (NewFeedback demo_rating))]"

definition demo_store :: Store where
  "demo_store = index_log demo_host demo_log empty_store"

lemmas run_registries = handleRegistered_def handleMetadataSet_def apply_metadata_def unbindWallet_def bindWallet_def
  agentWalletFromMetadataValue_def getOrCreateIdentityRegistry_def getOrCreateAccount_def resolveAgentRegistration_def
  classifyUri_def URI_KIND_NONE_def URI_KIND_DATA_def getAgent_def touchAgent_def handleNewFeedback_def getOrCreateReputationRegistry_def
  rating_context_def new_feedback_def resolveFeedbackDocument_def normalizeValue_def createFeedbackMetricPoint_def isZeroHash_def

lemmas run_escrow = handleJobCreated_def getOrCreateAgenticCommerce_def prepare_job_def new_job_def touchJob_def linkWorkspaces_def
  link_client_def link_provider_def resolveAgentByWallet_def getOrCreateEngagement_def engagementId_def createJobEvent_def
  contextPaymentToken_def handlePaymentReleased_def handleJobCompleted_def eventJob_def getJob_def markSettledIfPaid_def
  settle_commerce_def settle_provider_def settle_client_def settle_engagement_def recordAgentMetric_def

lemmas run_demo = run_registries run_escrow demo_host_def demo_event_def demo_rating_def demo_log_def Let_def save_defs
  empty_store_def event_time_def empty_documents_def zero_address_def

abbreviation demo_client :: bytes where "demo_client \<equiv> agentEntityId 5042002 (replicate 20 8) 1"
abbreviation demo_provider :: bytes where "demo_provider \<equiv> agentEntityId 5042002 (replicate 20 8) 2"
abbreviation demo_job :: bytes where "demo_job \<equiv> jobEntityId 5042002 (replicate 20 9) 7"
abbreviation demo_escrow :: bytes where "demo_escrow \<equiv> agenticCommerceEntityId 5042002 (replicate 20 9)"

lemma demo_admissible: "admissible_log demo_host demo_log empty_store"
  by (simp add: run_demo)

text \<open>The rows the witnesses look at, collected so that the log is run once.\<close>

definition demo_view :: "Store \<Rightarrow> bool" where
  "demo_view s \<longleftrightarrow>
     (\<exists>f. st_feedback s (feedbackEntityId 5042002 (replicate 20 7) 2 (replicate 20 1) 1) = Some f \<and> fb_verified f)
   \<and> (\<exists>c. st_commerces s demo_escrow = Some c \<and> cm_settledJobCount c = 1)
   \<and> (\<exists>j. st_jobs s demo_job = Some j \<and> jo_settled j \<and> jo_engagement j = Some (demo_client @ demo_provider))
   \<and> (\<exists>b. st_bindings s (replicate 20 1) = Some b \<and> wb_agent b = demo_client)
   \<and> (\<exists>a. st_agents s demo_provider = Some a \<and> ag_verifiedFeedbackCount a = 1 \<and> ag_settledAsProvider a = 1)
   \<and> (\<exists>e. st_engagements s (demo_client @ demo_provider) = Some e \<and> en_settledJobCount e = 1)
   \<and> (\<exists>r. st_identityRegistries s (registryEntityId 5042002 (replicate 20 8)) = Some r \<and> ir_agentCount r = 2)
   \<and> (\<exists>r. st_reputationRegistries s (registryEntityId 5042002 (replicate 20 7)) = Some r \<and> rr_activeFeedbackCount r = 1)"

lemma demo_rows: "demo_view demo_store"
  by (simp add: demo_store_def run_demo) (simp add: demo_view_def)

section \<open>What the index promises\<close>

text \<open>The parts of the invariant, at a reached store.\<close>

lemma reached_parts:
  assumes "indexed h s"
  shows "escrow_tables (st_jobs s) (st_commerces s) (st_engagements s)"
    "identity_tables h (st_agents s) (st_identityRegistries s)" "wallets_ok (st_agents s) (st_bindings s)"
    "metrics_ok (st_agents s) (st_agentPoints s)"
    "feedback_tables h (st_feedback s) (st_agents s) (st_reputationRegistries s) (st_feedbackPoints s)"
    "evidence_ok h (st_feedback s) (st_jobs s)" "scores_ok s"
  using scores.reached [OF assms] by (simp_all add: store_ok_def escrow_ok_def identity_ok_def feedback_ok_def)

lemma demo_indexed: "indexed demo_host demo_store"
  unfolding demo_store_def by (rule indexed_log [OF indexed.start demo_admissible])

lemma count_rows: "finite (dom t) \<Longrightarrow> table_sum (count_if P) t = int (card {k. \<exists>v. t k = Some v \<and> P v})"
  using table_sum_card [of t P] by (simp add: count_if_def [abs_def])

text \<open>(C9) The counters of an escrow contract are exact after any admissible log: its jobs, its settled
  jobs, and the refunded volume as the sum of what its jobs got back.\<close>

theorem escrow_counters_exact:
  assumes "indexed h s" "st_commerces s c = Some row"
  shows "cm_jobCount row = int (card {k. \<exists>j. st_jobs s k = Some j \<and> jo_agenticCommerce j = c})
    \<and> cm_settledJobCount row = int (card {k. \<exists>j. st_jobs s k = Some j \<and> jo_agenticCommerce j = c \<and> jo_settled j})
    \<and> cm_refundedVolume row = (\<Sum>k \<in> dom (st_jobs s). if jo_agenticCommerce (the (st_jobs s k)) = c then jo_refundedAmount (the (st_jobs s k)) else 0)"
  using reached_parts(1) [OF assms(1)] assms(2)
  by (simp add: escrow_tables_def commerce_ok_def count_rows) (simp add: table_sum_def amount_if_def)

theorem escrow_counters_exact_witness:
  "\<exists>row. st_commerces demo_store demo_escrow = Some row
    \<and> 1 = int (card {k. \<exists>j. st_jobs demo_store k = Some j \<and> jo_agenticCommerce j = demo_escrow \<and> jo_settled j})"
proof -
  obtain row where r: "st_commerces demo_store demo_escrow = Some row" "cm_settledJobCount row = 1"
    using demo_rows by (auto simp: demo_view_def)
  from escrow_counters_exact [OF demo_indexed r(1)] r(2)
  have "1 = int (card {k. \<exists>j. st_jobs demo_store k = Some j \<and> jo_agenticCommerce j = demo_escrow \<and> jo_settled j})" by simp
  with r(1) show ?thesis by blast
qed

text \<open>(C4) A job is a settlement only when the provider was paid, and always when it is completed and
  paid: at every reached store a settled job has a positive provider payment and a settlement time, a
  job whose status is COMPLETED is settled exactly when the payment is not zero, and no job expires
  outside the range a timestamp can hold.\<close>

theorem settled_means_paid:
  assumes "indexed h s" "st_jobs s k = Some j"
  shows "(jo_settled j \<longrightarrow> 0 < jo_providerPayment j \<and> jo_settledAt j \<noteq> None)
    \<and> (jo_status j = COMPLETED \<longrightarrow> (jo_settled j \<longleftrightarrow> jo_providerPayment j \<noteq> 0))
    \<and> 0 \<le> jo_expiresAt j \<and> jo_expiresAt j \<le> MAX_TIMESTAMP_SECONDS"
proof -
  have "job_ok (st_commerces s) (st_engagements s) k j"
    using reached_parts(1) [OF assms(1)] assms(2) by (simp add: escrow_tables_def)
  then show ?thesis by (auto simp: job_ok_def)
qed

theorem settled_means_paid_witness:
  "\<exists>j. st_jobs demo_store demo_job = Some j \<and> jo_settled j \<and> 0 < jo_providerPayment j"
proof -
  obtain j where j: "st_jobs demo_store demo_job = Some j" "jo_settled j"
    using demo_rows by (auto simp: demo_view_def)
  from settled_means_paid [OF demo_indexed j(1)] j show ?thesis by blast
qed

text \<open>(C7) A verified rating carries its evidence: at every reached store, feedback flagged as verified
  names the agent that rated and a job that is settled, was settled with a payment, and belongs to the
  engagement from that agent to the rated one.\<close>

theorem verified_rating_has_evidence:
  assumes "indexed h s" "st_feedback s k = Some f" "fb_verified f"
  shows "\<exists>c i j. fb_clientAgent f = Some c \<and> fb_evidence f = Some i \<and> st_jobs s i = Some j \<and> jo_settled j
    \<and> 0 < jo_providerPayment j \<and> jo_engagement j = Some (h_keccak256 h (c @ fb_agent f))"
proof -
  have "evidenced h (st_jobs s) f" using reached_parts(6) [OF assms(1)] assms(2) unfolding evidence_ok_def by blast
  then obtain c i j where *: "fb_clientAgent f = Some c" "fb_evidence f = Some i" "st_jobs s i = Some j" "jo_settled j"
    "jo_engagement j = Some (h_keccak256 h (c @ fb_agent f))"
    using assms(3) unfolding evidenced_def by blast
  have "job_ok (st_commerces s) (st_engagements s) i j"
    using reached_parts(1) [OF assms(1)] *(3) by (simp add: escrow_tables_def)
  with * show ?thesis by (auto simp: job_ok_def)
qed

theorem verified_rating_has_evidence_witness:
  "\<exists>f i j. st_feedback demo_store (feedbackEntityId 5042002 (replicate 20 7) 2 (replicate 20 1) 1) = Some f
    \<and> fb_evidence f = Some i \<and> st_jobs demo_store i = Some j \<and> jo_settled j"
proof -
  obtain f where f: "st_feedback demo_store (feedbackEntityId 5042002 (replicate 20 7) 2 (replicate 20 1) 1) = Some f" "fb_verified f"
    using demo_rows by (auto simp: demo_view_def)
  from verified_rating_has_evidence [OF demo_indexed f] f(1) show ?thesis by blast
qed

text \<open>(C32) The rating counters are counts of rows: an agent's feedback, active feedback and verified
  feedback counters, and a reputation registry's two counters, equal the number of its feedback rows,
  of those not revoked, and of those verified and not revoked.\<close>

theorem rating_counters_exact:
  assumes "indexed h s"
  shows "(\<forall>k a. st_agents s k = Some a \<longrightarrow>
      ag_feedbackCount a = int (card {x. \<exists>f. st_feedback s x = Some f \<and> fb_agent f = k})
    \<and> ag_activeFeedbackCount a = int (card {x. \<exists>f. st_feedback s x = Some f \<and> fb_agent f = k \<and> \<not> fb_isRevoked f})
    \<and> ag_verifiedFeedbackCount a = int (card {x. \<exists>f. st_feedback s x = Some f \<and> fb_agent f = k \<and> \<not> fb_isRevoked f \<and> fb_verified f}))
   \<and> (\<forall>i r. st_reputationRegistries s i = Some r \<longrightarrow>
      rr_feedbackCount r = int (card {x. \<exists>f. st_feedback s x = Some f \<and> fb_registry f = i})
    \<and> rr_activeFeedbackCount r = int (card {x. \<exists>f. st_feedback s x = Some f \<and> fb_registry f = i \<and> \<not> fb_isRevoked f}))"
  using reached_parts(5) [OF assms] by (simp add: feedback_tables_def rated_ok_def reputation_ok_def count_rows is_active_def)

theorem rating_counters_exact_witness:
  "\<exists>a. st_agents demo_store demo_provider = Some a
    \<and> 1 = int (card {x. \<exists>f. st_feedback demo_store x = Some f \<and> fb_agent f = demo_provider \<and> \<not> fb_isRevoked f \<and> fb_verified f})"
proof -
  obtain a where a: "st_agents demo_store demo_provider = Some a" "ag_verifiedFeedbackCount a = 1"
    using demo_rows by (auto simp: demo_view_def)
  from rating_counters_exact [OF demo_indexed, THEN conjunct1, rule_format, OF a(1)] a show ?thesis by simp
qed

text \<open>The feedback time series adds up to the ratings that stand: for every selection of registry,
  agent and tags, the sum of the count deltas is the number of ratings in the selection that are not
  revoked, and the sum of the value deltas is the sum of their normalised values.\<close>

theorem feedback_points_add_up:
  assumes "indexed h s"
  shows "sum_list (map fp_feedbackCountDelta (filter (point_in Q) (st_feedbackPoints s)))
      = int (card {x. \<exists>f. st_feedback s x = Some f \<and> feedback_in Q f \<and> \<not> fb_isRevoked f})
    \<and> sum_list (map fp_valueDelta (filter (point_in Q) (st_feedbackPoints s)))
      = (\<Sum>x \<in> dom (st_feedback s). let f = the (st_feedback s x) in if feedback_in Q f \<and> \<not> fb_isRevoked f then fb_normalizedValue f else 0)"
proof -
  have fin: "finite (dom (st_feedback s))" and P: "points_agree (st_feedback s) (st_feedbackPoints s)"
    using reached_parts(5) [OF assms] by (simp_all add: feedback_tables_def)
  from P [unfolded points_agree_def, rule_format, of Q] show ?thesis
    by (simp add: count_rows [OF fin] is_active_def) (simp add: table_sum_def Let_def)
qed

theorem feedback_points_add_up_witness:
  "sum_list (map fp_feedbackCountDelta (filter (point_in (\<lambda>_ a _ _. a = demo_provider)) (st_feedbackPoints demo_store)))
    = int (card {x. \<exists>f. st_feedback demo_store x = Some f \<and> fb_agent f = demo_provider \<and> \<not> fb_isRevoked f})"
  using feedback_points_add_up [OF demo_indexed, of "\<lambda>_ a _ _. a = demo_provider"] by (simp add: feedback_in_def)

text \<open>(C33) A wallet resolves to the agent that named it: at every reached store a bound address resolves
  to an agent whose current agent wallet is that address, and an agent is bound to at most one address.\<close>

theorem wallet_resolves_to_its_agent:
  assumes "indexed h s"
  shows "(\<forall>w b. st_bindings s w = Some b \<longrightarrow>
      (\<exists>a. resolveAgentByWallet w s = Some a \<and> ag_id a = wb_agent b \<and> ag_agentWallet a = Some w))
    \<and> (\<forall>w w' b b'. st_bindings s w = Some b \<and> st_bindings s w' = Some b' \<and> wb_agent b = wb_agent b' \<longrightarrow> w = w')"
proof -
  note W = reached_parts(3) [OF assms, unfolded wallets_ok_def] and I = reached_parts(2) [OF assms]
  have "\<exists>a. resolveAgentByWallet w s = Some a \<and> ag_id a = wb_agent b \<and> ag_agentWallet a = Some w" if b: "st_bindings s w = Some b" for w b
  proof -
    obtain a where a: "st_agents s (wb_agent b) = Some a" "ag_agentWallet a = Some w" using W b by blast
    have "ag_id a = wb_agent b" using I a(1) by (auto simp: identity_tables_def agent_placed_def)
    with a b show ?thesis by (simp add: resolveAgentByWallet_def)
  qed
  moreover have "w = w'" if "st_bindings s w = Some b" "st_bindings s w' = Some b'" "wb_agent b = wb_agent b'" for w w' b b'
    using W that by (metis option.inject)
  ultimately show ?thesis by blast
qed

theorem wallet_resolves_to_its_agent_witness:
  "\<exists>a. resolveAgentByWallet (replicate 20 1) demo_store = Some a \<and> ag_agentWallet a = Some (replicate 20 1)"
proof -
  obtain b where "st_bindings demo_store (replicate 20 1) = Some b" using demo_rows by (auto simp: demo_view_def)
  from wallet_resolves_to_its_agent [OF demo_indexed, THEN conjunct1, rule_format, OF this] show ?thesis by blast
qed

text \<open>An identity registry counts its agents exactly: all of them, and those not burnt.\<close>

theorem agent_counters_exact:
  assumes "indexed h s" "st_identityRegistries s i = Some r"
  shows "ir_agentCount r = int (card {k. \<exists>a. st_agents s k = Some a \<and> ag_registry a = i})
    \<and> ir_unburnedAgentCount r = int (card {k. \<exists>a. st_agents s k = Some a \<and> ag_registry a = i \<and> \<not> ag_isBurned a})"
  using reached_parts(2) [OF assms(1)] assms(2) by (simp add: identity_tables_def registry_ok_def count_rows)

theorem agent_counters_exact_witness:
  "2 = int (card {k. \<exists>a. st_agents demo_store k = Some a \<and> ag_registry a = registryEntityId 5042002 (replicate 20 8)})"
proof -
  obtain r where r: "st_identityRegistries demo_store (registryEntityId 5042002 (replicate 20 8)) = Some r" "ir_agentCount r = 2"
    using demo_rows by (auto simp: demo_view_def)
  from agent_counters_exact [OF demo_indexed r(1)] r(2) show ?thesis by simp
qed

text \<open>An engagement counts the jobs that joined it, never counts more settlements than there are
  settled jobs in it, and whenever it counts one, its last settled job is a settled job of its own.\<close>

theorem engagement_counters:
  assumes "indexed h s" "st_engagements s e = Some row"
  shows "en_jobCount row = int (card {k. \<exists>j. st_jobs s k = Some j \<and> jo_engagement j = Some e})
    \<and> en_settledJobCount row \<le> int (card {k. \<exists>j. st_jobs s k = Some j \<and> jo_engagement j = Some e \<and> jo_settled j})
    \<and> (0 < en_settledJobCount row \<longrightarrow>
         (\<exists>k j. en_lastSettledJob row = Some k \<and> st_jobs s k = Some j \<and> jo_settled j \<and> jo_engagement j = Some e))"
proof -
  have "finite (dom (st_jobs s))" and "engagement_ok (st_jobs s) e row"
    using reached_parts(1) [OF assms(1)] assms(2) by (simp_all add: escrow_tables_def)
  then show ?thesis by (simp add: engagement_ok_def count_rows)
qed

theorem engagement_counters_witness:
  "1 \<le> card {k. \<exists>j. st_jobs demo_store k = Some j \<and> jo_engagement j = Some (demo_client @ demo_provider) \<and> jo_settled j}"
proof -
  obtain e where e: "st_engagements demo_store (demo_client @ demo_provider) = Some e" "en_settledJobCount e = 1"
    using demo_rows by (auto simp: demo_view_def)
  from engagement_counters [OF demo_indexed e(1)] e(2) show ?thesis by linarith
qed

text \<open>The metric time series explains the money counters of an agent: its settlements and volumes as
  provider and as client, and its refunds, are the counts and sums of its points, and every point is of
  an agent in the table.\<close>

theorem agent_points_add_up:
  assumes "indexed h s"
  shows "(\<forall>k a. st_agents s k = Some a \<longrightarrow>
      ag_settledAsProvider a = points_count (st_agentPoints s) k METRIC_SETTLED_AS_PROVIDER
    \<and> ag_settledVolumeAsProvider a = points_volume (st_agentPoints s) k METRIC_SETTLED_AS_PROVIDER
    \<and> ag_settledAsClient a = points_count (st_agentPoints s) k METRIC_SETTLED_AS_CLIENT
    \<and> ag_settledVolumeAsClient a = points_volume (st_agentPoints s) k METRIC_SETTLED_AS_CLIENT
    \<and> ag_refundedVolumeAsClient a = points_volume (st_agentPoints s) k METRIC_REFUNDED_AS_CLIENT)
   \<and> (\<forall>p \<in> set (st_agentPoints s). st_agents s (mp_agent p) \<noteq> None)"
  using reached_parts(4) [OF assms] by (simp add: metrics_ok_def agent_metrics_ok_def)

theorem agent_points_add_up_witness:
  "1 = points_count (st_agentPoints demo_store) demo_provider METRIC_SETTLED_AS_PROVIDER"
proof -
  obtain a where a: "st_agents demo_store demo_provider = Some a" "ag_settledAsProvider a = 1"
    using demo_rows by (auto simp: demo_view_def)
  from agent_points_add_up [OF demo_indexed, THEN conjunct1, rule_format, OF a(1)] a(2) show ?thesis by simp
qed

text \<open>An attested score is in range: after any admissible log, whatever the metadata bytes were, an
  agent's score lies between 0 and 100000 and its version between 0 and 1000.\<close>

theorem scores_in_range:
  assumes "indexed h s" "st_agents s k = Some a"
  shows "(\<forall>v. ag_bufiScore a = Some v \<longrightarrow> 0 \<le> v \<and> v \<le> 100000) \<and> (\<forall>v. ag_bufiScoreVersion a = Some v \<longrightarrow> 0 \<le> v \<and> v \<le> 1000)"
  using reached_parts(7) [OF assms(1)] assms(2) by (simp add: scores_ok_def score_ok_def)

theorem scores_in_range_witness:
  "\<exists>a. st_agents demo_store demo_provider = Some a \<and> (\<forall>v. ag_bufiScore a = Some v \<longrightarrow> 0 \<le> v \<and> v \<le> 100000)"
proof -
  obtain a where "st_agents demo_store demo_provider = Some a" using demo_rows by (auto simp: demo_view_def)
  with scores_in_range [OF demo_indexed this] show ?thesis by blast
qed

section \<open>Settlement\<close>

text \<open>Settling is idempotent: running \<open>markSettledIfPaid\<close> again on the job and store it returned,
  at any other event, changes nothing.\<close>

theorem mark_settled_idempotent:
  "markSettledIfPaid (fst (markSettledIfPaid j ev s)) ev' (snd (markSettledIfPaid j ev s)) = markSettledIfPaid j ev s"
  by (simp add: markSettledIfPaid_def Let_def)

text \<open>Settlement reads and writes four tables only.\<close>

definition money_tables :: "Store \<Rightarrow> (bytes \<rightharpoonup> AgenticCommerce) \<times> (bytes \<rightharpoonup> Agent) \<times> (bytes \<rightharpoonup> Engagement) \<times> AgentMetricPoint list" where
  "money_tables s = (st_commerces s, st_agents s, st_engagements s, st_agentPoints s)"

lemma money_tables_frame [simp]:
  "money_tables (saveJob j s) = money_tables s" "money_tables (saveJobEvent e s) = money_tables s"
  "money_tables (snd (getOrCreateAccount a s)) = money_tables s" "money_tables (s\<lparr>st_jobs := js\<rparr>) = money_tables s"
  by (auto simp: money_tables_def saveJob_def saveJobEvent_def)

lemma settle_cong:
  assumes "money_tables s = money_tables s'"
  shows "money_tables (settle_commerce j a t s) = money_tables (settle_commerce j a t s')"
    "money_tables (settle_provider j a t s) = money_tables (settle_provider j a t s')"
    "money_tables (settle_client j a t s) = money_tables (settle_client j a t s')"
    "money_tables (settle_engagement j a t s) = money_tables (settle_engagement j a t s')"
  using assms
  by (auto simp: money_tables_def settle_commerce_def settle_provider_def settle_client_def settle_engagement_def
      save_defs recordAgentMetric_def Let_def split: option.splits)

lemma mark_cong:
  assumes "money_tables s = money_tables s'" "ev_timestamp ev = ev_timestamp ev'"
  shows "fst (markSettledIfPaid j ev s) = fst (markSettledIfPaid j ev' s')"
    "money_tables (snd (markSettledIfPaid j ev s)) = money_tables (snd (markSettledIfPaid j ev' s'))"
  using assms by (auto simp: markSettledIfPaid_def Let_def event_time_def intro!: settle_cong)

lemma mark_unsettled: "\<not> will_settle j \<Longrightarrow> markSettledIfPaid j ev s = (j, s)"
  by (auto simp: markSettledIfPaid_def will_settle_def)

text \<open>(C34) The two events that complete a settlement may arrive in either order: for a job that is not yet
  completed nor paid, a completion and a payment of the same transaction leave the same job, contract,
  agent and engagement rows and the same metric points, whichever is handled first.\<close>

theorem settlement_order_irrelevant:
  assumes "escrow_ok h s" "eventJob h ev i s = Some j" "jo_status j \<noteq> COMPLETED" "jo_providerPayment j = 0"
    and same: "ev_address ev' = ev_address ev" "ev_timestamp ev' = ev_timestamp ev" "ev_blockNumber ev' = ev_blockNumber ev"
      "ev_txHash ev' = ev_txHash ev"
  shows "st_jobs (handleJobCompleted h ev' i e r (handlePaymentReleased h ev i p a s))
       = st_jobs (handlePaymentReleased h ev i p a (handleJobCompleted h ev' i e r s))
    \<and> money_tables (handleJobCompleted h ev' i e r (handlePaymentReleased h ev i p a s))
       = money_tables (handlePaymentReleased h ev i p a (handleJobCompleted h ev' i e r s))"
proof -
  have j: "st_jobs s (jo_id j) = Some j" "jo_id j = jobEntityId (h_chainId h) (ev_address ev) i"
    by (rule eventJob_Some [OF assms(1,2)])+
  let ?paid = "touchJob (j\<lparr>jo_providerPayment := a\<rparr>) ev"
  let ?done = "touchJob (j\<lparr>jo_status := COMPLETED, jo_completionReason := Some r\<rparr>) ev'"
  let ?both = "touchJob (j\<lparr>jo_status := COMPLETED, jo_completionReason := Some r, jo_providerPayment := a\<rparr>) ev"
  have nset: "\<not> will_settle ?paid" "\<not> will_settle ?done"
    using assms(3,4) by (simp_all add: will_settle_def touchJob_def)
  have same_job: "touchJob (?paid\<lparr>jo_status := COMPLETED, jo_completionReason := Some r\<rparr>) ev' = ?both"
    "touchJob (?done\<lparr>jo_providerPayment := jo_providerPayment ?done + a\<rparr>) ev = ?both"
    using same assms(4) by (simp_all add: touchJob_def event_time_def)
  let ?s1 = "handlePaymentReleased h ev i p a s" and ?s2 = "handleJobCompleted h ev' i e r s"
  have jobs: "st_jobs ?s1 = (st_jobs s)(jo_id j \<mapsto> ?paid)" "st_jobs ?s2 = (st_jobs s)(jo_id j \<mapsto> ?done)"
    using assms(2,4) same(1) nset mark_unsettled [OF nset(1)] mark_unsettled [OF nset(2)]
    by (simp_all add: handlePaymentReleased_def handleJobCompleted_def eventJob_def Let_def case_prod_beta saveJob_def)
  have m: "money_tables ?s1 = money_tables s" "money_tables ?s2 = money_tables s"
    using assms(2,4) same(1) mark_unsettled [OF nset(1)] mark_unsettled [OF nset(2)]
    by (simp_all add: handlePaymentReleased_def handleJobCompleted_def eventJob_def Let_def case_prod_beta)
  have ev: "eventJob h ev' i ?s1 = Some ?paid" "eventJob h ev i ?s2 = Some ?done"
    using j(2) same(1) by (simp_all add: eventJob_def getJob_def jobs)
  note cong = mark_cong [of ?s1 ?s2 ev' ev ?both, OF _ same(2)]
  show ?thesis
    using cong m jobs
    by (simp add: handleJobCompleted_def [of h ev' i e r ?s1] handlePaymentReleased_def [of h ev i p a ?s2] ev Let_def case_prod_beta
        same_job saveJob_def markSettledIfPaid_job)
qed

definition demo_open :: Store where
  "demo_open = index_log demo_host (take 5 demo_log) empty_store"

lemma demo_open_ok: "store_ok demo_host demo_open"
proof -
  have "admissible_log demo_host (take 5 demo_log) empty_store"
    using demo_admissible admissible_log_append [of demo_host "take 5 demo_log" "drop 5 demo_log"] by (simp only: append_take_drop_id)
  then show ?thesis unfolding demo_open_def by (rule store.after_log)
qed

lemma demo_open_job:
  "\<exists>j. eventJob demo_host (demo_event 9 6) 7 demo_open = Some j \<and> jo_status j = OPEN \<and> jo_providerPayment j = 0"
proof -
  have "\<exists>j. st_jobs demo_open demo_job = Some j \<and> jo_status j = OPEN \<and> jo_providerPayment j = 0"
    by (simp add: demo_open_def run_demo)
  then show ?thesis by (simp add: eventJob_def getJob_def demo_event_def) (simp add: demo_host_def)
qed

theorem settlement_order_irrelevant_witness:
  "money_tables (handleJobCompleted demo_host (demo_event 9 6\<lparr>ev_logIndex := 7\<rparr>) 7 [4] [1] (handlePaymentReleased demo_host (demo_event 9 6) 7 [2] 100 demo_open))
    = money_tables (handlePaymentReleased demo_host (demo_event 9 6) 7 [2] 100 (handleJobCompleted demo_host (demo_event 9 6\<lparr>ev_logIndex := 7\<rparr>) 7 [4] [1] demo_open))"
proof -
  have e: "escrow_ok demo_host demo_open" using demo_open_ok by (simp add: store_ok_def)
  obtain j where "eventJob demo_host (demo_event 9 6) 7 demo_open = Some j" "jo_status j = OPEN" "jo_providerPayment j = 0"
    using demo_open_job by blast
  then show ?thesis
    using settlement_order_irrelevant [OF e, of "demo_event 9 6" 7 j "demo_event 9 6\<lparr>ev_logIndex := 7\<rparr>" "[4]" "[1]" "[2]" 100] by simp
qed

text \<open>(C37) Money released after a job settled reaches no volume: \<open>PaymentReleased\<close> on a settled job raises
  the job's own payment and leaves the contract, agent and engagement rows and the metric points as
  they were.\<close>

theorem late_payment_not_counted:
  assumes "escrow_ok h s" "eventJob h ev i s = Some j" "jo_settled j"
  shows "money_tables (handlePaymentReleased h ev i p a s) = money_tables s
    \<and> map_option jo_providerPayment (st_jobs (handlePaymentReleased h ev i p a s) (jo_id j)) = Some (jo_providerPayment j + a)"
proof -
  let ?j = "touchJob (j\<lparr>jo_providerPayment := jo_providerPayment j + a\<rparr>) ev"
  have "markSettledIfPaid ?j ev s = (?j, s)" using assms(3) by (simp add: markSettledIfPaid_def touchJob_def)
  then show ?thesis
    using assms(2) by (simp add: handlePaymentReleased_def Let_def case_prod_beta) (simp add: saveJob_def touchJob_def)
qed

theorem late_payment_not_counted_witness:
  "\<exists>j. st_jobs demo_store demo_job = Some j \<and> jo_settled j
    \<and> money_tables (handlePaymentReleased demo_host (demo_event 9 9) 7 [2] 50 demo_store) = money_tables demo_store"
proof -
  obtain j where j: "st_jobs demo_store demo_job = Some j" "jo_settled j" using demo_rows by (auto simp: demo_view_def)
  have "escrow_ok demo_host demo_store" using store.reached [OF demo_indexed] by (simp add: store_ok_def)
  moreover have "eventJob demo_host (demo_event 9 9) 7 demo_store = Some j"
    using j(1) by (simp add: eventJob_def getJob_def demo_event_def) (simp add: demo_host_def)
  ultimately show ?thesis using late_payment_not_counted [of demo_host demo_store "demo_event 9 9" 7 j "[2]" 50] j by blast
qed

text \<open>(C38) A workspace that hires itself is counted once, not twice: when the client and the provider of a
  job resolve to one agent, linking the job raises that agent's provider counter and leaves its client
  counter as it was (the second save overwrites the first).\<close>

theorem self_hire_loses_client_count:
  assumes "jo_clientAgent j = None" "jo_providerAgent j = None" "jo_engagement j = None" "jo_provider j = Some p"
    "resolveAgentByWallet (jo_client j) s = Some a" "resolveAgentByWallet p s = Some a"
  shows "st_agents (snd (linkWorkspaces h j ev s)) (ag_id a) = Some (a\<lparr>ag_jobsAsProvider := ag_jobsAsProvider a + 1\<rparr>)"
  using assms by (simp add: linkWorkspaces_agents link_client_def link_provider_def)

theorem self_hire_loses_client_count_witness:
  "\<exists>j a. resolveAgentByWallet (replicate 20 1) demo_store = Some a \<and> jo_client j = replicate 20 1
    \<and> st_agents (snd (linkWorkspaces demo_host j (demo_event 9 9) demo_store)) (ag_id a) = Some (a\<lparr>ag_jobsAsProvider := ag_jobsAsProvider a + 1\<rparr>)"
proof -
  obtain b where b: "st_bindings demo_store (replicate 20 1) = Some b" using demo_rows by (auto simp: demo_view_def)
  then obtain a where a: "resolveAgentByWallet (replicate 20 1) demo_store = Some a"
    using reached_parts(3) [OF demo_indexed] by (auto simp: wallets_ok_def resolveAgentByWallet_def)
  let ?j = "(new_job demo_host (demo_event 9 9) undefined 8 (replicate 20 1) [] 0)\<lparr>jo_provider := Some (replicate 20 1)\<rparr>"
  have "st_agents (snd (linkWorkspaces demo_host ?j (demo_event 9 9) demo_store)) (ag_id a) = Some (a\<lparr>ag_jobsAsProvider := ag_jobsAsProvider a + 1\<rparr>)"
    by (rule self_hire_loses_client_count) (use a in \<open>simp_all add: new_job_def\<close>)
  moreover have "jo_client ?j = replicate 20 1" by (simp add: new_job_def)
  ultimately show ?thesis using a by blast
qed

end
