(* ===== verification/AG_Types.thy ===== *)
theory AG_Types
  imports Prelude
begin

text \<open>
  The interface between the treasury kit and the agent app (\<open>packages/treasury-kit/src/types.ts\<close>,
  \<open>apps/agent/src/kit-contract.ts\<close>): chains, treasuries, signers, the agent's grant and the
  conduit requests the owners approve. Addresses and byte strings are the \<open>0x\<close> texts the source
  passes around, so that the places where it compares them without regard to case are visible.
  The library that hashes, encodes and signs is not part of the repository: it is the record
  \<open>Viem\<close> of functions, an argument of the definitions that call it.
\<close>

type_synonym Address = string
type_synonym Hex = string

section \<open>Chains\<close>

datatype TreasuryChainKey = LOCAL | ARC_TESTNET | AVAX_FUJI | ARB_SEPOLIA | BASE_SEPOLIA | ARC | AVAX

text \<open>The key as the text the source uses.\<close>

fun chain_text :: "TreasuryChainKey \<Rightarrow> string" where
  "chain_text LOCAL = ''LOCAL''"
| "chain_text ARC_TESTNET = ''ARC-TESTNET''"
| "chain_text AVAX_FUJI = ''AVAX-FUJI''"
| "chain_text ARB_SEPOLIA = ''ARB-SEPOLIA''"
| "chain_text BASE_SEPOLIA = ''BASE-SEPOLIA''"
| "chain_text ARC = ''ARC''"
| "chain_text AVAX = ''AVAX''"

definition CHAIN_KEYS :: "TreasuryChainKey list" where
  "CHAIN_KEYS = [LOCAL, ARC_TESTNET, AVAX_FUJI, ARB_SEPOLIA, BASE_SEPOLIA, ARC, AVAX]"

record TreasuryChain =
  tc_key :: TreasuryChainKey
  tc_chainId :: int
  tc_modularPath :: "string option"
  tc_rpcUrl :: string
  tc_deploymentFile :: string
  tc_usdc :: Address
  tc_eurc :: "Address option"
  tc_erc3009Domain :: "(string \<times> string \<times> string) list"
  tc_conduit :: "Address option"
  tc_targets :: "string \<rightharpoonup> Address"
  tc_explorer :: "string option"

section \<open>Treasuries and signers\<close>

record KitOwner =
  ko_address :: Address
  ko_weight :: int

record OwnerSigner =
  os_address :: Address
  os_signDigest :: "Hex \<Rightarrow> Hex"

record DeployTreasuryInput =
  dti_chains :: "TreasuryChainKey list"
  dti_owners :: "KitOwner list"
  dti_thresholdWeight :: int
  dti_allowlist :: "Address list"
  dti_salt :: "Hex option"
  dti_signer :: OwnerSigner

record DeployedTreasury =
  dt_chain :: TreasuryChainKey
  dt_address :: Address
  dt_owners :: "KitOwner list"
  dt_thresholdWeight :: int
  dt_allowlist :: "Address list"
  dt_userOpHashes :: "Hex list"

record DeployTreasuryResult =
  dr_deployed :: "DeployedTreasury list"
  dr_failed :: "(TreasuryChainKey \<times> string) list"

record Quorum =
  qu_treasury :: Address
  qu_chain :: TreasuryChainKey
  qu_owners :: "OwnerSigner list"

record TreasuryStatusReport =
  ts_deployed :: bool
  ts_owners :: "KitOwner list"
  ts_thresholdWeight :: int
  ts_allowlist :: "Address list"
  ts_balances :: "string \<rightharpoonup> int"

section \<open>The agent face\<close>

record GasBudget =
  gb_limit :: int
  gb_refreshIntervalSeconds :: int

record Erc20Budget =
  eb_token :: Address
  eb_limit :: int
  eb_refreshIntervalSeconds :: int

record GrantTarget =
  gt_target :: Address
  gt_selectors :: "Hex list option"

record AgentGrant =
  gr_allow :: "GrantTarget list"
  gr_erc20Budget :: "Erc20Budget list option"
  gr_gasBudget :: "GasBudget option"
  gr_validUntil :: int

record DeployAgentFaceInput =
  dfi_chain :: TreasuryChainKey
  dfi_treasury :: Address
  dfi_quorum :: Quorum
  dfi_sessionKey :: Address
  dfi_grant :: AgentGrant
  dfi_salt :: "Hex option"

record DeployedAgentFace =
  df_chain :: TreasuryChainKey
  df_address :: Address
  df_sessionKey :: Address
  df_grant :: AgentGrant
  df_userOpHashes :: "Hex list"

section \<open>Conduit requests\<close>

record ConduitIntent =
  ci_target :: Address
  ci_data :: Hex
  ci_tokenIn :: Address
  ci_amountIn :: int
  ci_tokenOut :: Address
  ci_minOut :: int
  ci_beneficiary :: Address
  ci_deadline :: int

record ConduitAuthorization =
  ca_token :: Address
  ca_from :: Address
  ca_value :: int
  ca_validAfter :: int
  ca_validBefore :: int
  ca_nonce :: Hex

datatype ConduitKind = Swap | EarnDeposit | EarnWithdraw | Custom

record ConduitFacts =
  cf_kind :: ConduitKind
  cf_chain :: TreasuryChainKey
  cf_treasury :: Address
  cf_target :: Address
  cf_spend_token :: Address
  cf_spend_symbol :: string
  cf_spend_amount :: string
  cf_receive_token :: Address
  cf_receive_symbol :: string
  cf_receive_minimum :: string
  cf_deadline :: string
  cf_lines :: "string list"

record ConduitRequest =
  cr_chain :: TreasuryChainKey
  cr_intent :: ConduitIntent
  cr_authorization :: ConduitAuthorization
  cr_facts :: ConduitFacts

record ApprovedConduitRequest =
  ap_request :: ConduitRequest
  ap_quorumSignature :: Hex
  ap_calldata :: Hex

record ConduitReceipt =
  rc_chain :: TreasuryChainKey
  rc_txHash :: Hex
  rc_gained :: int
  rc_tokenOut :: Address

datatype SubmitVia = EoaSubmit Hex | AgentSubmit Address OwnerSigner

datatype Stablecoin = USDC | EURC

fun coin_text :: "Stablecoin \<Rightarrow> string" where
  "coin_text USDC = ''USDC''"
| "coin_text EURC = ''EURC''"

record BuildSwapRequestInput =
  bs_chain :: TreasuryChainKey
  bs_treasury :: Address
  bs_tokenIn :: Stablecoin
  bs_tokenOut :: Stablecoin
  bs_amountIn :: int
  bs_minOut :: int
  bs_validForSeconds :: "int option"
  bs_route_target :: Address
  bs_route_data :: Hex
  bs_route_label :: string

record BuildEarnDepositRequestInput =
  be_chain :: TreasuryChainKey
  be_treasury :: Address
  be_vault :: Address
  be_token :: Stablecoin
  be_amountIn :: int
  be_minShares :: int
  be_validForSeconds :: "int option"

datatype PodsAction = Lend | Withdraw

fun action_text :: "PodsAction \<Rightarrow> string" where
  "action_text Lend = ''lend''"
| "action_text Withdraw = ''withdraw''"

record BuildFromPodsBytecodeInput =
  bp_action :: PodsAction
  bp_to :: Address
  bp_bytecode :: Hex
  bp_tokenIn :: Address
  bp_amountIn :: int
  bp_tokenOut :: Address
  bp_minOut :: int
  bp_destinationAddress :: Address
  bp_chain :: TreasuryChainKey
  bp_treasury :: Address
  bp_validForSeconds :: "int option"

section \<open>The library\<close>

datatype AbiValue = AbiHex string | AbiInt int | AbiText string

record Viem =
  v_keccak256 :: "Hex \<Rightarrow> Hex"
  v_textToHex :: "string \<Rightarrow> Hex"
  v_intToHex :: "int \<Rightarrow> Hex"
  v_getAddress :: "string \<Rightarrow> Address"
  v_concatHex :: "Hex list \<Rightarrow> Hex"
  v_encodeAbi :: "(string \<times> AbiValue) list \<Rightarrow> Hex"
  v_encodeExecute :: "ConduitAuthorization \<Rightarrow> Hex \<Rightarrow> ConduitIntent \<Rightarrow> Hex"
  v_encodeDeposit :: "int \<Rightarrow> Address \<Rightarrow> Hex"
  v_encodeSwap :: "Address \<Rightarrow> Address \<Rightarrow> int \<Rightarrow> Address \<Rightarrow> Hex"
  v_formatUnits :: "int \<Rightarrow> int \<Rightarrow> string"
  v_privateKeyToAddress :: "Hex \<Rightarrow> Address"
  v_sign :: "Hex \<Rightarrow> Hex \<Rightarrow> Hex"

section \<open>Text of addresses\<close>

text \<open>Two addresses name the same account when they agree up to case.\<close>

definition same_address :: "Address \<Rightarrow> Address \<Rightarrow> bool" where
  "same_address a b \<longleftrightarrow> to_lower a = to_lower b"

lemma same_address_equiv [simp]:
  "same_address a a" "same_address a b \<Longrightarrow> same_address b a" "same_address a b \<Longrightarrow> same_address b c \<Longrightarrow> same_address a c"
  by (simp_all add: same_address_def)

lemma lower_char_idem [simp]: "lower_char (lower_char c) = lower_char c"
proof -
  have "of_char (char_of (of_char c + 32 :: nat) :: char) = (of_char c + 32 :: nat)" if "of_char c \<le> (90 :: nat)"
    using that by (intro of_char_char_of_small) simp
  then show ?thesis by (auto simp: lower_char_def Let_def)
qed

lemma to_lower_idem [simp]: "to_lower (to_lower s) = to_lower s"
  by (simp add: to_lower_def)

text \<open>\<open>BigInt(address)\<close>: the number a \<open>0x\<close> text denotes.\<close>

definition hex_digit_value :: "char \<Rightarrow> int" where
  "hex_digit_value c = (let n = of_char c :: nat in
     int (if n \<le> 57 then n - 48 else if n \<le> 70 then n - 55 else n - 87))"

definition hex_int :: "Hex \<Rightarrow> int" where
  "hex_int s = foldl (\<lambda>n c. 16 * n + hex_digit_value c) 0 (drop 2 s)"

lemma chain_text_inj [simp]: "chain_text a = chain_text b \<longleftrightarrow> a = b"
  by (cases a; cases b) simp_all

lemma chain_text_no_colon: "CHR '':'' \<notin> set (chain_text k)"
  by (cases k) simp_all

lemma CHAIN_KEYS_all: "k \<in> set CHAIN_KEYS" "distinct CHAIN_KEYS"
  by (cases k) (simp_all add: CHAIN_KEYS_def)

end
