(* ===== verification/AG_Kit.thy ===== *)
theory AG_Kit
  imports AG_Types "HOL-Library.AList"
begin

text \<open>
  The in-memory treasury kit of the agent app (\<open>apps/agent/src/kit-stub.ts\<close>): deployed treasuries and
  their balances, conduit requests, approval by a quorum of owners, and submission. The three
  module variables of the source are the record \<open>Stub\<close>; \<open>Date.now()\<close> in seconds is the argument
  \<open>now\<close>. An error that the source throws is a value of \<open>kit_error\<close>.
\<close>

datatype kit_error =
  NoEurc TreasuryChainKey
| NoConduit TreasuryChainKey
| SameToken
| PodsDestination Address Address
| NoTreasury TreasuryChainKey Address
| NotAnOwner Address
| UnderThreshold int int
| AlreadyUsed
| IntentExpired
| NeedsSessionKey
| Insufficient string string
| BelowFloor string string
| InvalidDate

section \<open>Chains\<close>

definition placeholder :: "Viem \<Rightarrow> string \<Rightarrow> Address" where
  "placeholder v label = v_getAddress v (''0x'' @ drop 26 (v_keccak256 v (v_textToHex v (''bufi6900-stub:'' @ label))))"

definition chain_entry :: "Viem \<Rightarrow> TreasuryChainKey \<Rightarrow> int \<Rightarrow> string option \<Rightarrow> TreasuryChain" where
  "chain_entry v key chainId modularPath =
     \<lparr>tc_key = key, tc_chainId = chainId, tc_modularPath = modularPath, tc_rpcUrl = '''',
      tc_deploymentFile = ''contracts/deployments/'' @ to_lower (chain_text key) @ ''.json'',
      tc_usdc = placeholder v (chain_text key @ '':usdc''), tc_eurc = Some (placeholder v (chain_text key @ '':eurc'')),
      tc_erc3009Domain = [(''USDC'', ''USDC'', ''2''), (''EURC'', ''EURC'', ''2'')],
      tc_conduit = Some (placeholder v (chain_text key @ '':conduit'')),
      tc_targets = [''router'' \<mapsto> placeholder v (chain_text key @ '':router''), ''vault'' \<mapsto> placeholder v (chain_text key @ '':vault'')],
      tc_explorer = None\<rparr>"

fun STUB_CHAINS :: "Viem \<Rightarrow> TreasuryChainKey \<Rightarrow> TreasuryChain" where
  "STUB_CHAINS v LOCAL = (chain_entry v LOCAL 31337 None)\<lparr>tc_usdc := ''0x38B45856e28E86985560f9c4B87113E8Eb86b0AD''\<rparr>"
| "STUB_CHAINS v ARC_TESTNET = chain_entry v ARC_TESTNET 5042002 (Some ''/arcTestnet'')"
| "STUB_CHAINS v AVAX_FUJI = chain_entry v AVAX_FUJI 43113 (Some ''/avalancheFuji'')"
| "STUB_CHAINS v ARB_SEPOLIA = chain_entry v ARB_SEPOLIA 421614 (Some ''/arbitrumSepolia'')"
| "STUB_CHAINS v BASE_SEPOLIA = chain_entry v BASE_SEPOLIA 84532 (Some ''/baseSepolia'')"
| "STUB_CHAINS v ARC = (chain_entry v ARC 5042 (Some ''/arc''))\<lparr>tc_conduit := None, tc_targets := Map.empty\<rparr>"
| "STUB_CHAINS v AVAX = (chain_entry v AVAX 43114 (Some ''/avalanche''))\<lparr>tc_conduit := None, tc_targets := Map.empty\<rparr>"

text \<open>Every key of the type is in the table, so the lookup of \<open>getChain\<close> never fails.\<close>

definition getChain :: "Viem \<Rightarrow> TreasuryChainKey \<Rightarrow> TreasuryChain" where
  "getChain v key = STUB_CHAINS v key"

definition withConduit :: "TreasuryChain \<Rightarrow> Address \<Rightarrow> (string \<rightharpoonup> Address) \<Rightarrow> TreasuryChain" where
  "withConduit base conduit targets = base\<lparr>tc_conduit := Some conduit, tc_targets := tc_targets base ++ targets\<rparr>"

section \<open>Signing\<close>

definition localKeySigner :: "Viem \<Rightarrow> Hex \<Rightarrow> OwnerSigner" where
  "localKeySigner v privateKey = \<lparr>os_address = v_privateKeyToAddress v privateKey, os_signDigest = (\<lambda>digest. v_sign v digest privateKey)\<rparr>"

definition sortedOwners :: "OwnerSigner list \<Rightarrow> OwnerSigner list" where
  "sortedOwners owners = js_sort (\<lambda>a b. if hex_int (os_address a) < hex_int (os_address b) then - 1 else 1) owners"

section \<open>Conduit encoding\<close>

definition INTENT_TYPEHASH :: "Viem \<Rightarrow> Hex" where
  "INTENT_TYPEHASH v = v_keccak256 v (v_textToHex v
     ''Intent(address target,bytes data,address tokenIn,uint256 amountIn,address tokenOut,uint256 minOut,address beneficiary,uint256 deadline)'')"

definition intentNonce :: "Viem \<Rightarrow> ConduitIntent \<Rightarrow> Hex" where
  "intentNonce v intent = v_keccak256 v (v_encodeAbi v
     [(''bytes32'', AbiHex (INTENT_TYPEHASH v)), (''address'', AbiHex (ci_target intent)),
      (''bytes32'', AbiHex (v_keccak256 v (ci_data intent))), (''address'', AbiHex (ci_tokenIn intent)),
      (''uint256'', AbiInt (ci_amountIn intent)), (''address'', AbiHex (ci_tokenOut intent)),
      (''uint256'', AbiInt (ci_minOut intent)), (''address'', AbiHex (ci_beneficiary intent)),
      (''uint256'', AbiInt (ci_deadline intent))])"

section \<open>The ledger\<close>

record StubTreasury =
  st_owners :: "KitOwner list"
  st_thresholdWeight :: int
  st_allowlist :: "Address list"
  st_balances :: "(string \<times> int) list"

record Stub =
  sb_treasuries :: "string \<rightharpoonup> StubTreasury"
  sb_usedNonces :: "string set"
  sb_txCounter :: int

definition ledgerKey :: "TreasuryChainKey \<Rightarrow> Address \<Rightarrow> string" where
  "ledgerKey chainKey treasury = chain_text chainKey @ '':'' @ to_lower treasury"

definition resetStub :: Stub where
  "resetStub = \<lparr>sb_treasuries = Map.empty, sb_usedNonces = {}, sb_txCounter = 0\<rparr>"

definition SEED_USDC :: int where
  "SEED_USDC = 1000000000"

definition symbolOf :: "TreasuryChain \<Rightarrow> Address \<Rightarrow> string" where
  "symbolOf c token =
     (if to_lower token = to_lower (tc_usdc c) then ''USDC''
      else if (case tc_eurc c of None \<Rightarrow> False | Some eurc \<Rightarrow> eurc \<noteq> '''' \<and> to_lower token = to_lower eurc) then ''EURC''
      else if (case tc_targets c ''vault'' of None \<Rightarrow> False | Some vault \<Rightarrow> vault \<noteq> '''' \<and> to_lower token = to_lower vault) then ''shares''
      else ''tokens'')"

definition tokenOf :: "TreasuryChain \<Rightarrow> Stablecoin \<Rightarrow> kit_error + Address" where
  "tokenOf c symbol = (case symbol of
     USDC \<Rightarrow> Inr (tc_usdc c)
   | EURC \<Rightarrow> (case tc_eurc c of None \<Rightarrow> Inl (NoEurc (tc_key c)) | Some e \<Rightarrow> if e = '''' then Inl (NoEurc (tc_key c)) else Inr e))"

definition conduitOf :: "TreasuryChain \<Rightarrow> kit_error + Address" where
  "conduitOf c = (case tc_conduit c of None \<Rightarrow> Inl (NoConduit (tc_key c))
     | Some a \<Rightarrow> if a = '''' then Inl (NoConduit (tc_key c)) else Inr a)"

section \<open>Treasuries\<close>

definition deriveTreasury :: "Viem \<Rightarrow> DeployTreasuryInput \<Rightarrow> Address" where
  "deriveTreasury v input =
     (let seed = v_concatHex v ((case dti_salt input of None \<Rightarrow> ''0x00'' | Some salt \<Rightarrow> salt)
                   # map ko_address (dti_owners input) @ [v_intToHex v (dti_thresholdWeight input)])
      in placeholder v (''treasury:'' @ v_keccak256 v seed))"

definition new_treasury :: "Viem \<Rightarrow> DeployTreasuryInput \<Rightarrow> TreasuryChainKey \<Rightarrow> StubTreasury" where
  "new_treasury v input key =
     \<lparr>st_owners = dti_owners input, st_thresholdWeight = dti_thresholdWeight input,
      st_allowlist = dti_allowlist input, st_balances = [(to_lower (tc_usdc (getChain v key)), SEED_USDC)]\<rparr>"

definition deployTreasury :: "Viem \<Rightarrow> DeployTreasuryInput \<Rightarrow> Stub \<Rightarrow> DeployTreasuryResult \<times> Stub" where
  "deployTreasury v input s =
     (let address = deriveTreasury v input;
          s = fold (\<lambda>key s. s\<lparr>sb_treasuries := (sb_treasuries s)(ledgerKey key address \<mapsto> new_treasury v input key)\<rparr>) (dti_chains input) s;
          deployed = map (\<lambda>key. \<lparr>dt_chain = key, dt_address = address, dt_owners = dti_owners input,
              dt_thresholdWeight = dti_thresholdWeight input, dt_allowlist = dti_allowlist input,
              dt_userOpHashes = [v_keccak256 v (v_textToHex v (chain_text key @ '':create'')),
                                 v_keccak256 v (v_textToHex v (chain_text key @ '':address-book''))]\<rparr>) (dti_chains input)
      in (\<lparr>dr_deployed = deployed, dr_failed = []\<rparr>, s))"

definition treasuryStatus :: "Viem \<Rightarrow> TreasuryChainKey \<Rightarrow> Address \<Rightarrow> Stub \<Rightarrow> TreasuryStatusReport" where
  "treasuryStatus v key treasury s =
     (let c = getChain v key in
      case sb_treasuries s (ledgerKey key treasury) of
        None \<Rightarrow> \<lparr>ts_deployed = False, ts_owners = [], ts_thresholdWeight = 0, ts_allowlist = [], ts_balances = Map.empty\<rparr>
      | Some t \<Rightarrow>
          (let balances = fold (\<lambda>(token, amount) m. m(symbolOf c (v_getAddress v token) \<mapsto> amount)) (st_balances t) Map.empty
           in \<lparr>ts_deployed = True, ts_owners = st_owners t, ts_thresholdWeight = st_thresholdWeight t,
               ts_allowlist = st_allowlist t, ts_balances = balances\<rparr>))"

section \<open>The agent face\<close>

definition EXECUTE_SELECTOR :: "Viem \<Rightarrow> Hex" where
  "EXECUTE_SELECTOR v = ''0x'' @ take 8 (drop 2 (v_keccak256 v (v_textToHex v
     ''execute((address,address,uint256,uint256,uint256,bytes32),bytes,(address,bytes,address,uint256,address,uint256,address,uint256))'')))"

definition conduitExecutorGrant :: "Viem \<Rightarrow> Address \<Rightarrow> int \<Rightarrow> GasBudget option \<Rightarrow> AgentGrant" where
  "conduitExecutorGrant v conduit validUntil gasBudget =
     \<lparr>gr_allow = [\<lparr>gt_target = conduit, gt_selectors = Some [EXECUTE_SELECTOR v]\<rparr>], gr_erc20Budget = None,
      gr_gasBudget = gasBudget, gr_validUntil = validUntil\<rparr>"

definition deployAgentFace :: "Viem \<Rightarrow> DeployAgentFaceInput \<Rightarrow> Stub \<Rightarrow> kit_error + DeployedAgentFace" where
  "deployAgentFace v input s =
     (if sb_treasuries s (ledgerKey (dfi_chain input) (dfi_treasury input)) = None
      then Inl (NoTreasury (dfi_chain input) (dfi_treasury input))
      else let address = placeholder v (''agent:'' @ chain_text (dfi_chain input) @ '':'' @ dfi_treasury input @ '':''
                 @ dfi_sessionKey input @ '':'' @ (case dfi_salt input of None \<Rightarrow> '''' | Some salt \<Rightarrow> salt))
           in Inr \<lparr>df_chain = dfi_chain input, df_address = address, df_sessionKey = dfi_sessionKey input,
                   df_grant = dfi_grant input,
                   df_userOpHashes = [v_keccak256 v (v_textToHex v (address @ '':create'')),
                                      v_keccak256 v (v_textToHex v (address @ '':session-key''))]\<rparr>)"

section \<open>Time as text\<close>

text \<open>\<open>new Date(Number(s) * 1000).toISOString()\<close>: a time outside the range of \<open>Date\<close> throws.\<close>

definition pad_left :: "nat \<Rightarrow> string \<Rightarrow> string" where
  "pad_left n s = replicate (n - length s) CHR ''0'' @ s"

definition year_text :: "int \<Rightarrow> string" where
  "year_text y = (if 0 \<le> y \<and> y \<le> 9999 then pad_left 4 (dec_int y)
     else (if y < 0 then ''-'' else ''+'') @ pad_left 6 (dec_int \<bar>y\<bar>))"

definition date_text :: "int \<Rightarrow> string" where
  "date_text days =
     (let z = days + 719468;
          era = z div 146097;
          doe = z mod 146097;
          yoe = (doe - doe div 1460 + doe div 36524 - doe div 146096) div 365;
          doy = doe - (365 * yoe + yoe div 4 - yoe div 100);
          mp = (5 * doy + 2) div 153;
          d = doy - (153 * mp + 2) div 5 + 1;
          m = (if mp < 10 then mp + 3 else mp - 9);
          y = yoe + era * 400 + (if m \<le> 2 then 1 else 0)
      in year_text y @ ''-'' @ pad_left 2 (dec_int m) @ ''-'' @ pad_left 2 (dec_int d))"

definition iso_date :: "int \<Rightarrow> kit_error + string" where
  "iso_date seconds =
     (if \<bar>seconds\<bar> > 8640000000000 then Inl InvalidDate
      else let s = seconds mod 86400
           in Inr (date_text (seconds div 86400) @ ''T'' @ pad_left 2 (dec_int (s div 3600)) @ '':''
                @ pad_left 2 (dec_int (s div 60 mod 60)) @ '':'' @ pad_left 2 (dec_int (s mod 60)) @ ''.000Z''))"

section \<open>Requests\<close>

definition human :: "Viem \<Rightarrow> int \<Rightarrow> string" where
  "human v amount = v_formatUnits v amount 6"

definition assemble ::
  "Viem \<Rightarrow> int \<Rightarrow> TreasuryChain \<Rightarrow> Address \<Rightarrow> ConduitKind \<Rightarrow> (Address \<times> Hex \<times> Address \<times> int \<times> Address \<times> int)
    \<Rightarrow> string \<Rightarrow> string list \<Rightarrow> int \<Rightarrow> kit_error + ConduitRequest" where
  "assemble v now c treasury kind intent receiveSymbol notes validForSeconds =
     (let (target, data, tokenIn, amountIn, tokenOut, minOut) = intent;
          deadline = now + validForSeconds;
          full = \<lparr>ci_target = target, ci_data = data, ci_tokenIn = tokenIn, ci_amountIn = amountIn,
                  ci_tokenOut = tokenOut, ci_minOut = minOut, ci_beneficiary = treasury, ci_deadline = deadline\<rparr>;
          nonce = intentNonce v full;
          spendSymbol = symbolOf c tokenIn
      in ebind (iso_date deadline) (\<lambda>date.
         ebind (conduitOf c) (\<lambda>conduit.
         Inr \<lparr>cr_chain = tc_key c, cr_intent = full,
              cr_authorization = \<lparr>ca_token = tokenIn, ca_from = treasury, ca_value = amountIn, ca_validAfter = 0,
                ca_validBefore = deadline, ca_nonce = nonce\<rparr>,
              cr_facts = \<lparr>cf_kind = kind, cf_chain = tc_key c, cf_treasury = treasury, cf_target = target,
                cf_spend_token = tokenIn, cf_spend_symbol = spendSymbol, cf_spend_amount = human v amountIn,
                cf_receive_token = tokenOut, cf_receive_symbol = receiveSymbol, cf_receive_minimum = human v minOut,
                cf_deadline = date,
                cf_lines = notes @
                  [''Treasury '' @ treasury @ '' signs an ERC-3009 authorization for '' @ human v amountIn @ '' ''
                     @ spendSymbol @ '' to the conduit '' @ conduit,
                   ''Nonce '' @ nonce @ '' binds the signature to this exact intent; it cannot be replayed'',
                   ''Everything returns to the treasury; the conduit holds nothing after the transaction'',
                   ''Valid until '' @ date]\<rparr>\<rparr>)))"

definition valid_for :: "int option \<Rightarrow> int" where
  "valid_for seconds = (case seconds of None \<Rightarrow> 3600 | Some n \<Rightarrow> n)"

definition buildSwapRequest :: "Viem \<Rightarrow> int \<Rightarrow> BuildSwapRequestInput \<Rightarrow> kit_error + ConduitRequest" where
  "buildSwapRequest v now input =
     (let c = getChain v (bs_chain input)
      in ebind (throw_if (bs_tokenIn input = bs_tokenOut input) SameToken) (\<lambda>_.
         ebind (tokenOf c (bs_tokenIn input)) (\<lambda>tokenIn.
         ebind (tokenOf c (bs_tokenOut input)) (\<lambda>tokenOut.
         assemble v now c (bs_treasury input) Swap
           (bs_route_target input, bs_route_data input, tokenIn, bs_amountIn input, tokenOut, bs_minOut input)
           (coin_text (bs_tokenOut input))
           [''Swap '' @ human v (bs_amountIn input) @ '' '' @ coin_text (bs_tokenIn input) @ '' for at least ''
              @ human v (bs_minOut input) @ '' '' @ coin_text (bs_tokenOut input) @ '' on '' @ chain_text (tc_key c),
            ''Route: '' @ bs_route_label input @ '' at '' @ bs_route_target input]
           (valid_for (bs_validForSeconds input))))))"

definition buildEarnDepositRequest :: "Viem \<Rightarrow> int \<Rightarrow> BuildEarnDepositRequestInput \<Rightarrow> kit_error + ConduitRequest" where
  "buildEarnDepositRequest v now input =
     (let c = getChain v (be_chain input)
      in ebind (tokenOf c (be_token input)) (\<lambda>tokenIn.
         assemble v now c (be_treasury input) EarnDeposit
           (be_vault input, v_encodeDeposit v (be_amountIn input) (be_treasury input), tokenIn, be_amountIn input,
            be_vault input, be_minShares input)
           ''shares''
           [''Deposit '' @ human v (be_amountIn input) @ '' '' @ coin_text (be_token input) @ '' into the ERC-4626 vault ''
              @ be_vault input @ '' on '' @ chain_text (tc_key c),
            ''The treasury must receive at least '' @ human v (be_minShares input) @ '' vault shares'']
           (valid_for (be_validForSeconds input))))"

text \<open>The number \<open>length / 2 - 1\<close> as text.\<close>

definition half_text :: "int \<Rightarrow> string" where
  "half_text n = (if n mod 2 = 0 then dec_int (n div 2 - 1)
     else if n = 1 then ''-0.5'' else dec_int (n div 2 - 1) @ ''.5'')"

definition buildFromPodsBytecode :: "Viem \<Rightarrow> int \<Rightarrow> BuildFromPodsBytecodeInput \<Rightarrow> kit_error + ConduitRequest" where
  "buildFromPodsBytecode v now input =
     (let c = getChain v (bp_chain input)
      in ebind (throw_if (to_lower (bp_destinationAddress input) \<noteq> to_lower (bp_treasury input))
                  (PodsDestination (bp_destinationAddress input) (bp_treasury input))) (\<lambda>_.
         assemble v now c (bp_treasury input) Custom
           (bp_to input, bp_bytecode input, bp_tokenIn input, bp_amountIn input, bp_tokenOut input, bp_minOut input)
           (symbolOf c (bp_tokenOut input))
           [''Pods '' @ action_text (bp_action input) @ '': '' @ human v (bp_amountIn input) @ '' ''
              @ symbolOf c (bp_tokenIn input) @ '' through '' @ bp_to input @ '' on '' @ chain_text (tc_key c),
            ''Calldata is Pods' bytecode, reviewed as-is ('' @ half_text (int (length (bp_bytecode input))) @ '' bytes)'']
           (valid_for (bp_validForSeconds input))))"

section \<open>Approval and submission\<close>

definition authorizationDigest :: "Viem \<Rightarrow> ConduitRequest \<Rightarrow> kit_error + Hex" where
  "authorizationDigest v request =
     (let a = cr_authorization request in
      ebind (conduitOf (getChain v (cr_chain request))) (\<lambda>conduit.
      Inr (v_keccak256 v (v_encodeAbi v
        [(''string'', AbiText (chain_text (cr_chain request) @ '':ReceiveWithAuthorization'')),
         (''address'', AbiHex conduit), (''address'', AbiHex (ca_token a)), (''address'', AbiHex (ca_from a)),
         (''uint256'', AbiInt (ca_value a)), (''uint256'', AbiInt (ca_validAfter a)),
         (''uint256'', AbiInt (ca_validBefore a)), (''bytes32'', AbiHex (ca_nonce a))]))))"

text \<open>The weight of the quorum: every signer must be an owner.\<close>

definition find_owner :: "KitOwner list \<Rightarrow> Address \<Rightarrow> KitOwner option" where
  "find_owner owners a = find (\<lambda>x. to_lower (ko_address x) = to_lower a) owners"

definition add_weight :: "StubTreasury \<Rightarrow> OwnerSigner \<Rightarrow> int \<Rightarrow> kit_error + int" where
  "add_weight t signer weight = (case find_owner (st_owners t) (os_address signer) of
     None \<Rightarrow> Inl (NotAnOwner (os_address signer)) | Some owner \<Rightarrow> Inr (weight + ko_weight owner))"

definition approveWithQuorum :: "Viem \<Rightarrow> ConduitRequest \<Rightarrow> Quorum \<Rightarrow> Stub \<Rightarrow> kit_error + ApprovedConduitRequest" where
  "approveWithQuorum v request quorum s =
     (case sb_treasuries s (ledgerKey (cr_chain request) (ci_beneficiary (cr_intent request))) of
        None \<Rightarrow> Inl (NoTreasury (cr_chain request) (ci_beneficiary (cr_intent request)))
      | Some t \<Rightarrow>
          ebind (efold (add_weight t) (qu_owners quorum) 0) (\<lambda>weight.
          ebind (throw_if (weight < st_thresholdWeight t) (UnderThreshold weight (st_thresholdWeight t))) (\<lambda>_.
          ebind (authorizationDigest v request) (\<lambda>digest.
          let parts = map (\<lambda>signer. os_signDigest signer digest) (sortedOwners (qu_owners quorum));
              quorumSignature = v_concatHex v parts
          in Inr \<lparr>ap_request = request, ap_quorumSignature = quorumSignature,
                  ap_calldata = v_encodeExecute v (cr_authorization request) quorumSignature (cr_intent request)\<rparr>))))"

definition simulateGain :: "TreasuryChain \<Rightarrow> ConduitIntent \<Rightarrow> ConduitKind \<Rightarrow> int" where
  "simulateGain c intent kind =
     (if kind \<noteq> Swap then ci_amountIn intent
      else let inSym = symbolOf c (ci_tokenIn intent); outSym = symbolOf c (ci_tokenOut intent)
        in if inSym = ''USDC'' \<and> outSym = ''EURC'' then bigint_div (ci_amountIn intent * 8000) 10000
           else if inSym = ''EURC'' \<and> outSym = ''USDC'' then bigint_div (ci_amountIn intent * 12500) 10000
           else ci_amountIn intent)"

definition nonce_key :: "ConduitRequest \<Rightarrow> string" where
  "nonce_key r = chain_text (cr_chain r) @ '':'' @ ca_nonce (cr_authorization r)"

definition balance :: "StubTreasury \<Rightarrow> string \<Rightarrow> int" where
  "balance t token = (case map_of (st_balances t) token of None \<Rightarrow> 0 | Some n \<Rightarrow> n)"

definition set_balance :: "string \<Rightarrow> int \<Rightarrow> StubTreasury \<Rightarrow> StubTreasury" where
  "set_balance token n t = t\<lparr>st_balances := AList.update token n (st_balances t)\<rparr>"

text \<open>The move of a treasury's balances: pay the input token, then gain the output token.\<close>

definition move_balances :: "ConduitIntent \<Rightarrow> int \<Rightarrow> StubTreasury \<Rightarrow> StubTreasury" where
  "move_balances intent gained t =
     (let inKey = to_lower (ci_tokenIn intent);
          t = set_balance inKey (balance t inKey - ci_amountIn intent) t;
          outKey = to_lower (ci_tokenOut intent)
      in set_balance outKey (balance t outKey + gained) t)"

definition submitApproved :: "Viem \<Rightarrow> int \<Rightarrow> ApprovedConduitRequest \<Rightarrow> SubmitVia \<Rightarrow> Stub \<Rightarrow> kit_error + ConduitReceipt \<times> Stub" where
  "submitApproved v now approved via s =
     (let r = ap_request approved; intent = cr_intent r; c = getChain v (cr_chain r); nonceKey = nonce_key r
      in ebind (throw_if (nonceKey \<in> sb_usedNonces s) AlreadyUsed) (\<lambda>_.
         ebind (throw_if (now > ci_deadline intent) IntentExpired) (\<lambda>_.
         ebind (throw_if (case via of AgentSubmit agent sessionKey \<Rightarrow> os_address sessionKey = '''' | EoaSubmit k \<Rightarrow> False) NeedsSessionKey) (\<lambda>_.
         case sb_treasuries s (ledgerKey (cr_chain r) (ci_beneficiary intent)) of
           None \<Rightarrow> Inl (NoTreasury (cr_chain r) (ci_beneficiary intent))
         | Some t \<Rightarrow>
             let have_in = balance t (to_lower (ci_tokenIn intent)) in
             ebind (throw_if (have_in < ci_amountIn intent) (Insufficient (symbolOf c (ci_tokenIn intent)) (human v have_in))) (\<lambda>_.
             let gained = simulateGain c intent (cf_kind (cr_facts r)) in
             ebind (throw_if (gained < ci_minOut intent) (BelowFloor (human v gained) (human v (ci_minOut intent)))) (\<lambda>_.
             let s = \<lparr>sb_treasuries = (sb_treasuries s)(ledgerKey (cr_chain r) (ci_beneficiary intent) \<mapsto> move_balances intent gained t),
                      sb_usedNonces = insert nonceKey (sb_usedNonces s), sb_txCounter = sb_txCounter s + 1\<rparr>
             in Inr (\<lparr>rc_chain = cr_chain r,
                      rc_txHash = v_keccak256 v (v_concatHex v [ap_calldata approved, v_intToHex v (sb_txCounter s)]),
                      rc_gained = gained, rc_tokenOut = ci_tokenOut intent\<rparr>, s)))))))"

section \<open>Approval\<close>

lemma efold_add_weight:
  "efold (add_weight t) signers n = Inr m \<longleftrightarrow>
     (\<forall>signer \<in> set signers. find_owner (st_owners t) (os_address signer) \<noteq> None)
     \<and> m = n + sum_list (map (\<lambda>signer. ko_weight (the (find_owner (st_owners t) (os_address signer)))) signers)"
  by (induction signers arbitrary: n) (auto simp: add_weight_def res_simps split: option.splits)

text \<open>The approved request carries the request unchanged and calldata over exactly its intent and
  authorization.\<close>

lemma approveWithQuorum_Inr:
  "approveWithQuorum v request quorum s = Inr approved \<longleftrightarrow>
     (\<exists>t digest weight. sb_treasuries s (ledgerKey (cr_chain request) (ci_beneficiary (cr_intent request))) = Some t
      \<and> efold (add_weight t) (qu_owners quorum) 0 = Inr weight \<and> st_thresholdWeight t \<le> weight
      \<and> authorizationDigest v request = Inr digest
      \<and> approved = \<lparr>ap_request = request,
          ap_quorumSignature = v_concatHex v (map (\<lambda>signer. os_signDigest signer digest) (sortedOwners (qu_owners quorum))),
          ap_calldata = v_encodeExecute v (cr_authorization request)
            (v_concatHex v (map (\<lambda>signer. os_signDigest signer digest) (sortedOwners (qu_owners quorum)))) (cr_intent request)\<rparr>)"
  by (auto simp: approveWithQuorum_def res_simps Let_def not_less split: option.splits)

section \<open>Submission\<close>

lemma balance_set [simp]: "balance (set_balance k n t) x = (if x = k then n else balance t x)"
  by (simp add: balance_def set_balance_def update_conv)

lemma set_balance_frame [simp]:
  "st_owners (set_balance k n t) = st_owners t" "st_thresholdWeight (set_balance k n t) = st_thresholdWeight t"
  "st_allowlist (set_balance k n t) = st_allowlist t"
  by (simp_all add: set_balance_def)

lemma move_balances_frame [simp]:
  "st_owners (move_balances i g t) = st_owners t" "st_thresholdWeight (move_balances i g t) = st_thresholdWeight t"
  "st_allowlist (move_balances i g t) = st_allowlist t"
  by (simp_all add: move_balances_def Let_def)

lemma balance_move:
  "balance (move_balances i g t) x = balance t x - (if x = to_lower (ci_tokenIn i) then ci_amountIn i else 0)
     + (if x = to_lower (ci_tokenOut i) then g else 0)"
  by (auto simp: move_balances_def Let_def)

text \<open>When a submission succeeds, and what it then returns and changes.\<close>

lemma submitApproved_Inr:
  "submitApproved v now approved via s = Inr (receipt, s') \<longleftrightarrow>
     (let r = ap_request approved; intent = cr_intent r; key = ledgerKey (cr_chain r) (ci_beneficiary intent);
          gained = simulateGain (getChain v (cr_chain r)) intent (cf_kind (cr_facts r))
      in nonce_key r \<notin> sb_usedNonces s \<and> now \<le> ci_deadline intent
       \<and> (case via of AgentSubmit agent sessionKey \<Rightarrow> os_address sessionKey \<noteq> '''' | EoaSubmit k \<Rightarrow> True)
       \<and> (\<exists>t. sb_treasuries s key = Some t \<and> ci_amountIn intent \<le> balance t (to_lower (ci_tokenIn intent))
          \<and> ci_minOut intent \<le> gained
          \<and> s' = \<lparr>sb_treasuries = (sb_treasuries s)(key \<mapsto> move_balances intent gained t),
                  sb_usedNonces = insert (nonce_key r) (sb_usedNonces s), sb_txCounter = sb_txCounter s + 1\<rparr>
          \<and> receipt = \<lparr>rc_chain = cr_chain r,
                  rc_txHash = v_keccak256 v (v_concatHex v [ap_calldata approved, v_intToHex v (sb_txCounter s + 1)]),
                  rc_gained = gained, rc_tokenOut = ci_tokenOut intent\<rparr>))"
  by (auto simp: submitApproved_def Let_def res_simps not_less not_le split: option.splits SubmitVia.splits)

end
