(* ===== verification/AG_Gate.thy ===== *)
theory AG_Gate
  imports AG_Ledger
begin

text \<open>
  The approval gate (\<open>apps/agent/src/gate.ts\<close>), the texts it shows (\<open>facts.ts\<close>), the quotes that set a floor
  (\<open>quote.ts\<close>) and the check of a Pods destination (\<open>pods.ts\<close>). The gate is defined over any kit; the
  locale \<open>treasury_kit\<close> states what it relies on, and the in-memory kit is an interpretation of it. The
  characters of the printed texts that are no single byte (a dash, an arrow, a bullet, an ellipsis) are
  written as their UTF-8 bytes.
\<close>

section \<open>Texts (\<open>facts.ts\<close>)\<close>

definition em_dash :: string where "em_dash = [CHR 0xE2, CHR 0x80, CHR 0x94]"
definition right_arrow :: string where "right_arrow = [CHR 0xE2, CHR 0x86, CHR 0x92]"
definition bullet :: string where "bullet = [CHR 0xE2, CHR 0x80, CHR 0xA2]"
definition ellipsis :: string where "ellipsis = [CHR 0xE2, CHR 0x80, CHR 0xA6]"

definition GATE_LABEL :: string where
  "GATE_LABEL = ''Quorum approval '' @ em_dash @ '' owners sign the ERC-3009 authorization''"

fun KIND_TITLES :: "ConduitKind \<Rightarrow> string" where
  "KIND_TITLES Swap = ''Swap''"
| "KIND_TITLES EarnDeposit = ''Earn deposit''"
| "KIND_TITLES EarnWithdraw = ''Earn withdrawal''"
| "KIND_TITLES Custom = ''Custom protocol call''"

definition formatAmount :: "Viem \<Rightarrow> int \<Rightarrow> string" where
  "formatAmount v atomic = v_formatUnits v atomic 6"

definition renderFacts :: "ConduitRequest \<Rightarrow> string" where
  "renderFacts request =
     (let f = cr_facts request;
          title = KIND_TITLES (cf_kind f) @ '' on '' @ chain_text (cf_chain f) @ '' '' @ em_dash @ '' treasury '' @ cf_treasury f;
          summary = ''Spend '' @ cf_spend_amount f @ '' '' @ cf_spend_symbol f @ '' '' @ right_arrow @ '' receive at least ''
            @ cf_receive_minimum f @ '' '' @ cf_receive_symbol f @ '' (deadline '' @ cf_deadline f @ '')'';
          notes = map (\<lambda>line. ''  '' @ bullet @ '' '' @ line) (cf_lines f)
      in join_with CHR 0x0A (title # summary # notes))"

definition renderReceipt :: "Viem \<Rightarrow> ConduitReceipt \<Rightarrow> ConduitRequest \<Rightarrow> string" where
  "renderReceipt v receipt request = join_with CHR 0x0A
     [''Executed on '' @ chain_text (rc_chain receipt), ''tx '' @ rc_txHash receipt,
      ''treasury gained '' @ formatAmount v (rc_gained receipt) @ '' '' @ cf_receive_symbol (cr_facts request)
        @ '' ('' @ rc_tokenOut receipt @ '')'']"

definition REJECTED_LINE :: string where
  "REJECTED_LINE = ''The owners did not approve. Nothing was signed and nothing moved.''"

section \<open>The gate (\<open>gate.ts\<close>)\<close>

datatype approval = Approve | Reject

definition parseApproval :: "string \<Rightarrow> approval" where
  "parseApproval answer = (let a = to_lower (trim answer) in if a = ''y'' \<or> a = ''yes'' then Approve else Reject)"

definition gatePrompt :: string where
  "gatePrompt = GATE_LABEL @ '' [y/N] ''"

record GateSigners =
  gs_owners :: "OwnerSigner list"
  gs_agent :: Address
  gs_sessionKey :: OwnerSigner

datatype GateOutcome = Rejected string | Executed ConduitReceipt string

text \<open>What the gate does to the outside, in order: lines printed, the question, a request given to the
  owners to sign, an approved request submitted.\<close>

datatype GateEffect = Print string | Ask string | Sign ConduitRequest Quorum | Submit ApprovedConduitRequest SubmitVia

type_synonym ('e, 's) approver = "ConduitRequest \<Rightarrow> Quorum \<Rightarrow> 's \<Rightarrow> 'e + ApprovedConduitRequest"
type_synonym ('e, 's) submitter = "ApprovedConduitRequest \<Rightarrow> SubmitVia \<Rightarrow> 's \<Rightarrow> 'e + ConduitReceipt \<times> 's"

definition runGate ::
  "Viem \<Rightarrow> ('e, 's) approver \<Rightarrow> ('e, 's) submitter \<Rightarrow> ConduitRequest \<Rightarrow> GateSigners \<Rightarrow> string \<Rightarrow> 's \<Rightarrow> GateEffect list \<times> ('e + GateOutcome) \<times> 's" where
  "runGate v approve submit request signers answer s =
     (let shown = [Print (CHR 0x0A # renderFacts request @ [CHR 0x0A]), Ask gatePrompt] in
      if parseApproval answer = Reject
      then (shown @ [Print REJECTED_LINE], Inr (Rejected REJECTED_LINE), s)
      else
        let quorum = \<lparr>qu_treasury = ci_beneficiary (cr_intent request), qu_chain = cr_chain request, qu_owners = gs_owners signers\<rparr>;
            signing = shown @ [Print (''owners signing ('' @ join_text '', '' (map os_address (gs_owners signers)) @ '') '' @ ellipsis),
                               Sign request quorum]
        in case approve request quorum s of
             Inl e \<Rightarrow> (signing, Inl e, s)
           | Inr approved \<Rightarrow>
               let via = AgentSubmit (gs_agent signers) (gs_sessionKey signers);
                   submitting = signing @ [Print (''agent '' @ gs_agent signers @ '' submitting through its session key ''
                     @ os_address (gs_sessionKey signers) @ '' '' @ ellipsis), Submit approved via]
               in case submit approved via s of
                    Inl e \<Rightarrow> (submitting, Inl e, s)
                  | Inr (receipt, s') \<Rightarrow>
                      let text = renderReceipt v receipt request
                      in (submitting @ [Print text], Inr (Executed receipt text), s'))"

section \<open>Quotes (\<open>quote.ts\<close>)\<close>

datatype quote_error = BadSlippage rat | NoRpcUrl TreasuryChainKey

definition encodeMockSwap :: "Viem \<Rightarrow> Address \<Rightarrow> Address \<Rightarrow> int \<Rightarrow> Address \<Rightarrow> Hex" where
  "encodeMockSwap v tokenIn tokenOut amountIn receiver = v_encodeSwap v tokenIn tokenOut amountIn receiver"

text \<open>A \<open>number\<close> that is finite is a rational; \<open>Number.isInteger\<close> asks for denominator 1.\<close>

definition applySlippage :: "int \<Rightarrow> rat \<Rightarrow> quote_error + int" where
  "applySlippage expected slippageBps =
     (if snd (quotient_of slippageBps) \<noteq> 1 \<or> slippageBps < 0 \<or> slippageBps > 10000 then Inl (BadSlippage slippageBps)
      else Inr (bigint_div (expected * (10000 - fst (quotient_of slippageBps))) 10000))"

definition rpcUrlOf :: "TreasuryChain \<Rightarrow> string option \<Rightarrow> quote_error + string" where
  "rpcUrlOf c override =
     (let url = (case override of Some u \<Rightarrow> u | None \<Rightarrow> tc_rpcUrl c) in if url = '''' then Inl (NoRpcUrl (tc_key c)) else Inr url)"

text \<open>The two quotes of \<open>createStubQuoter\<close>.\<close>

definition stub_routerRateBps :: "TreasuryChain \<Rightarrow> Address \<Rightarrow> Address \<Rightarrow> int" where
  "stub_routerRateBps c tokenIn tokenOut =
     (let isUsdc = (\<lambda>t. to_lower t = to_lower (tc_usdc c))
      in if isUsdc tokenIn \<and> \<not> isUsdc tokenOut then 8000 else if \<not> isUsdc tokenIn \<and> isUsdc tokenOut then 12500 else 10000)"

definition stub_previewDeposit :: "int \<Rightarrow> int" where
  "stub_previewDeposit assets = assets"

section \<open>Pods (\<open>pods.ts\<close>)\<close>

definition PODS_ON_BEHALF_OF_CAVEAT :: string where
  "PODS_ON_BEHALF_OF_CAVEAT = ''Pods maps destinationAddress to the protocol's onBehalfOf / to once their fix ships; a destination other than the treasury would hand the position (aToken / vault share) to that address, not to the treasury. Refused.''"

definition isPodsDestinationTreasury :: "string \<Rightarrow> Address \<Rightarrow> bool" where
  "isPodsDestinationTreasury destinationAddress treasury = (to_lower (trim destinationAddress) = to_lower treasury)"

definition podsRefusal :: "string \<Rightarrow> Address \<Rightarrow> string option" where
  "podsRefusal destinationAddress treasury =
     (if isPodsDestinationTreasury destinationAddress treasury then None
      else Some (''destinationAddress '' @ destinationAddress @ '' is not the treasury '' @ treasury @ ''. '' @ PODS_ON_BEHALF_OF_CAVEAT))"

section \<open>The gate over a kit\<close>

text \<open>What the gate relies on: the approved request is the request, a submission that succeeded is burnt, and
  a burnt request is refused.\<close>

locale treasury_kit =
  fixes approve :: "('e, 's) approver" and submit :: "('e, 's) submitter" and burnt :: "ConduitRequest \<Rightarrow> 's \<Rightarrow> bool"
  assumes approve_request: "approve r q s = Inr a \<Longrightarrow> ap_request a = r"
    and submit_burns: "submit a via s = Inr (receipt, s') \<Longrightarrow> burnt (ap_request a) s'"
    and burnt_refused: "burnt (ap_request a) s \<Longrightarrow> \<exists>e. submit a via s = Inl e"
begin

lemma executed:
  assumes "runGate v approve submit request signers answer s = (effects, Inr (Executed receipt text), s')"
  obtains approved where "parseApproval answer = Approve"
    "approve request \<lparr>qu_treasury = ci_beneficiary (cr_intent request), qu_chain = cr_chain request, qu_owners = gs_owners signers\<rparr> s = Inr approved"
    "ap_request approved = request"
    "submit approved (AgentSubmit (gs_agent signers) (gs_sessionKey signers)) s = Inr (receipt, s')" "burnt request s'"
proof -
  let ?q = "\<lparr>qu_treasury = ci_beneficiary (cr_intent request), qu_chain = cr_chain request, qu_owners = gs_owners signers\<rparr>"
  obtain approved where a: "parseApproval answer = Approve" "approve request ?q s = Inr approved"
    "submit approved (AgentSubmit (gs_agent signers) (gs_sessionKey signers)) s = Inr (receipt, s')"
    using assms by (cases "parseApproval answer") (auto simp: runGate_def Let_def split: if_splits sum.splits prod.splits)
  have "ap_request approved = request" by (rule approve_request [OF a(2)])
  with a submit_burns [OF a(3)] that show thesis by simp
qed

lemma burnt_stops:
  assumes "burnt request s"
  shows "snd (snd (runGate v approve submit request signers answer s)) = s
    \<and> (\<forall>receipt text. fst (snd (runGate v approve submit request signers answer s)) \<noteq> Inr (Executed receipt text))"
proof -
  let ?q = "\<lparr>qu_treasury = ci_beneficiary (cr_intent request), qu_chain = cr_chain request, qu_owners = gs_owners signers\<rparr>"
  show ?thesis
  proof (cases "approve request ?q s")
    case (Inr a)
    then have "burnt (ap_request a) s" using approve_request assms by simp
    then obtain e where "submit a (AgentSubmit (gs_agent signers) (gs_sessionKey signers)) s = Inl e" using burnt_refused by blast
    with Inr show ?thesis by (simp add: runGate_def Let_def)
  qed (simp add: runGate_def Let_def)
qed

lemma never_twice:
  assumes "runGate v approve submit request signers answer s = (effects, Inr (Executed receipt text), s')"
  shows "snd (snd (runGate v approve submit request signers' answer' s')) = s'
    \<and> (\<forall>receipt text. fst (snd (runGate v approve submit request signers' answer' s')) \<noteq> Inr (Executed receipt text))"
  using executed [OF assms] burnt_stops by metis

end

interpretation stub_kit: treasury_kit "approveWithQuorum v" "submitApproved v now" "\<lambda>r s. nonce_key r \<in> sb_usedNonces s" for v now
proof unfold_locales
  show "ap_request a = r" if "approveWithQuorum v r q s = Inr a" for r q s a using that by (auto simp: approveWithQuorum_Inr)
  show "nonce_key (ap_request a) \<in> sb_usedNonces s'" if "submitApproved v now a via s = Inr (receipt, s')" for a via s receipt s'
    using submit_nonces [OF that] by simp
  show "\<exists>e. submitApproved v now a via s = Inl e" if "nonce_key (ap_request a) \<in> sb_usedNonces s" for a s via
    using that by (simp add: submitApproved_def)
qed

section \<open>Properties\<close>

text \<open>(C2) Nothing is signed without an explicit yes: over any kit, when the answer is not y or yes (up to case
  and surrounding blanks) the gate signs nothing, submits nothing and changes nothing, and says so. When it
  does sign, the facts were shown and the question asked first, and every signed request is the one shown.\<close>

theorem gate_needs_explicit_yes:
  "(to_lower (trim answer) \<notin> {''y'', ''yes''} \<longrightarrow>
      runGate v approve submit request signers answer s
        = ([Print (CHR 0x0A # renderFacts request @ [CHR 0x0A]), Ask gatePrompt, Print REJECTED_LINE], Inr (Rejected REJECTED_LINE), s))
   \<and> (\<exists>rest. fst (runGate v approve submit request signers answer s)
        = Print (CHR 0x0A # renderFacts request @ [CHR 0x0A]) # Ask gatePrompt # rest
       \<and> (\<forall>r q. Sign r q \<in> set rest \<longrightarrow> to_lower (trim answer) \<in> {''y'', ''yes''} \<and> r = request \<and> q = \<lparr>qu_treasury = ci_beneficiary (cr_intent request), qu_chain = cr_chain request, qu_owners = gs_owners signers\<rparr>)
       \<and> (\<forall>a via. Submit a via \<in> set rest \<longrightarrow> (\<exists>q. Sign request q \<in> set rest \<and> approve request q s = Inr a)))"
  by (auto simp: runGate_def parseApproval_def Let_def split: sum.splits prod.splits)

theorem gate_needs_explicit_yes_witness:
  "\<forall>request signers. runGate demo_viem (approveWithQuorum demo_viem) (submitApproved demo_viem 200) request signers '' sure'' demo_stub
     = ([Print (CHR 0x0A # renderFacts request @ [CHR 0x0A]), Ask gatePrompt, Print REJECTED_LINE], Inr (Rejected REJECTED_LINE), demo_stub)"
proof -
  have n: "to_lower (trim '' sure'') \<notin> {''y'', ''yes''}" by (simp add: trim_def is_space_def to_lower_def lower_char_def)
  show ?thesis by (intro allI) (rule gate_needs_explicit_yes [THEN conjunct1, rule_format, OF n])
qed

text \<open>The gate executes a request at most once: after a run that executed, running the same request through
  the gate of the in-memory kit again, at any later time, with any signers and any answer, moves nothing.\<close>

theorem gate_executes_once:
  assumes "runGate v (approveWithQuorum v) (submitApproved v now) request signers answer s = (effects, Inr (Executed receipt text), s')"
  shows "snd (snd (runGate v (approveWithQuorum v) (submitApproved v now') request signers' answer' s')) = s'
    \<and> ci_minOut (cr_intent request) \<le> rc_gained receipt
    \<and> (\<exists>t. sb_treasuries s (ledgerKey (cr_chain request) (ci_beneficiary (cr_intent request))) = Some t
        \<and> (\<forall>signer \<in> set (gs_owners signers). find_owner (st_owners t) (os_address signer) \<noteq> None))"
proof (rule stub_kit.executed [OF assms])
  let ?q = "\<lparr>qu_treasury = ci_beneficiary (cr_intent request), qu_chain = cr_chain request, qu_owners = gs_owners signers\<rparr>"
  fix approved
  assume a: "approveWithQuorum v request ?q s = Inr approved" "ap_request approved = request"
    "submitApproved v now approved (AgentSubmit (gs_agent signers) (gs_sessionKey signers)) s = Inr (receipt, s')"
    "nonce_key request \<in> sb_usedNonces s'"
  from stub_kit.burnt_stops [OF a(4), of v v now' signers' answer'] a show ?thesis
    by (auto simp: approveWithQuorum_Inr submitApproved_Inr Let_def efold_add_weight)
qed


lemma whole_rat: "snd (quotient_of q) = 1 \<longleftrightarrow> (\<exists>n::int. q = of_int n)" for q :: rat
proof
  assume s: "snd (quotient_of q) = 1"
  have "q = of_int (fst (quotient_of q))" using quotient_of_div [of q "fst (quotient_of q)" 1] s by (metis div_by_1 of_int_1 prod.collapse)
  then show "\<exists>n::int. q = of_int n" by blast
qed auto

lemma slippage_range:
  "\<not> (snd (quotient_of bps) \<noteq> 1 \<or> bps < 0 \<or> bps > 10000) \<longleftrightarrow> (\<exists>n::int. bps = of_int n \<and> 0 \<le> n \<and> n \<le> 10000)"
  unfolding whole_rat by (auto simp: not_less)

lemma bigint_div_exact: "n \<noteq> 0 \<Longrightarrow> bigint_div (a * n) n = a"
  by (simp add: bigint_div_def abs_mult sgn_mult sgn_mult_abs mult.assoc)

lemma slippage_bound:
  assumes "applySlippage expected bps = Inr m" "0 \<le> expected"
  shows "0 \<le> m \<and> m \<le> expected \<and> m = (expected * (10000 - \<lfloor>bps\<rfloor>)) div 10000"
proof -
  from assms(1) slippage_range [of bps] obtain n :: int where n: "bps = of_int n" "0 \<le> n" "n \<le> 10000"
    by (auto simp: applySlippage_def split: if_splits)
  then have m: "m = (expected * (10000 - n)) div 10000"
    using assms slippage_range [of bps] by (auto simp: applySlippage_def bigint_div_nonneg split: if_splits)
  have "expected * (10000 - n) \<le> expected * 10000" using n assms(2) by (intro mult_left_mono) auto
  then have "m \<le> (expected * 10000) div 10000" unfolding m by (rule zdiv_mono1) simp
  moreover have "0 \<le> expected * (10000 - n)" using n assms(2) by simp
  ultimately show ?thesis using m n by (simp add: pos_imp_zdiv_nonneg_iff)
qed

lemma runGate_executed:
  assumes "parseApproval answer = Approve"
    "approve request \<lparr>qu_treasury = ci_beneficiary (cr_intent request), qu_chain = cr_chain request, qu_owners = gs_owners signers\<rparr> s = Inr a"
    "submit a (AgentSubmit (gs_agent signers) (gs_sessionKey signers)) s = Inr (receipt, s')"
  shows "\<exists>effects. runGate v approve submit request signers answer s
    = (effects, Inr (Executed receipt (renderReceipt v receipt request)), s')"
  using assms by (simp add: runGate_def Let_def)

definition demo_signers :: GateSigners where
  "demo_signers = \<lparr>gs_owners = map (localKeySigner demo_viem) [''0xa1'', ''0xb2''], gs_agent = ''0xd4'', gs_sessionKey = localKeySigner demo_viem ''0xe5''\<rparr>"

lemma demo_owner_b:
  "find_owner [\<lparr>ko_address = ''0xa1'', ko_weight = 1\<rparr>, \<lparr>ko_address = ''0xb2'', ko_weight = 1\<rparr>] ''0xb2'' = Some \<lparr>ko_address = ''0xb2'', ko_weight = 1\<rparr>"
  by (simp add: find_owner_def to_lower_def lower_char_def)

lemma demo_approval:
  assumes "cr_chain r = LOCAL" "ci_beneficiary (cr_intent r) = demo_treasury"
  shows "\<exists>a. approveWithQuorum demo_viem r (demo_quorum [''0xa1'', ''0xb2'']) demo_stub = Inr a \<and> ap_request a = r"
proof -
  have q: "qu_owners (demo_quorum ks) = map (localKeySigner demo_viem) ks" for ks by (simp add: demo_quorum_def)
  have "\<exists>d. authorizationDigest demo_viem r = Inr d" by (simp add: authorizationDigest_def assms demo_chain Let_def)
  then show ?thesis by (auto simp: approveWithQuorum_def assms demo_deployed q add_weight_def demo_owners demo_owner_b Let_def)
qed

lemma demo_gate:
  "\<exists>r effects receipt msg s'. buildSwapRequest demo_viem 100 demo_swap = Inr r \<and> ci_minOut (cr_intent r) = 790000
     \<and> runGate demo_viem (approveWithQuorum demo_viem) (submitApproved demo_viem 200) r demo_signers '' Yes'' demo_stub
       = (effects, Inr (Executed receipt msg), s')"
proof -
  obtain r where r: "buildSwapRequest demo_viem 100 demo_swap = Inr r" "cr_chain r = LOCAL" "ci_beneficiary (cr_intent r) = demo_treasury"
    "ci_minOut (cr_intent r) = 790000" using demo_request by blast
  obtain a where a: "approveWithQuorum demo_viem r (demo_quorum [''0xa1'', ''0xb2'']) demo_stub = Inr a" "ap_request a = r"
    using demo_approval [OF r(2,3)] by blast
  obtain a' where a': "ap_request a' = r" "\<exists>receipt s'. submitApproved demo_viem 200 a' (EoaSubmit []) demo_stub = Inr (receipt, s')"
    using demo_submits r(1) by auto
  have k: "os_address (gs_sessionKey demo_signers) \<noteq> ''''" by (simp add: demo_signers_def demo_owners)
  have "\<exists>receipt s'. submitApproved demo_viem 200 a (AgentSubmit (gs_agent demo_signers) (gs_sessionKey demo_signers)) demo_stub = Inr (receipt, s')"
    using a' k unfolding submitApproved_Inr Let_def a(2) by auto
  then obtain receipt s' where s: "submitApproved demo_viem 200 a (AgentSubmit (gs_agent demo_signers) (gs_sessionKey demo_signers)) demo_stub = Inr (receipt, s')"
    by blast
  have q: "\<lparr>qu_treasury = demo_treasury, qu_chain = LOCAL, qu_owners = gs_owners demo_signers\<rparr> = demo_quorum [''0xa1'', ''0xb2'']"
    by (simp add: demo_signers_def demo_quorum_def)
  have y: "parseApproval '' Yes'' = Approve" by code_simp
  from runGate_executed [where approve = "approveWithQuorum demo_viem" and submit = "submitApproved demo_viem 200" and request = r and signers = demo_signers and v = demo_viem,
      unfolded r(2,3) q, OF y a(1) s] r(1,4)
  show ?thesis by blast
qed


theorem gate_executes_once_witness:
  "\<exists>r effects receipt msg s'.
     runGate demo_viem (approveWithQuorum demo_viem) (submitApproved demo_viem 200) r demo_signers '' Yes'' demo_stub = (effects, Inr (Executed receipt msg), s')
     \<and> snd (snd (runGate demo_viem (approveWithQuorum demo_viem) (submitApproved demo_viem 300) r demo_signers '' Yes'' s')) = s'"
proof -
  obtain r effects receipt msg s' where g:
    "runGate demo_viem (approveWithQuorum demo_viem) (submitApproved demo_viem 200) r demo_signers '' Yes'' demo_stub = (effects, Inr (Executed receipt msg), s')"
    using demo_gate by blast
  from gate_executes_once [OF g, THEN conjunct1] g show ?thesis by blast
qed

text \<open>A slippage tolerance gives a floor between zero and the expected amount, exactly the expected amount at
  zero tolerance and zero at full tolerance; a tolerance that is no whole number of basis points between 0
  and 10000 is refused.\<close>

theorem slippage_floor:
  "(\<forall>e. applySlippage expected bps = Inl e \<longleftrightarrow> e = BadSlippage bps \<and> \<not> (\<exists>n::int. bps = of_int n \<and> 0 \<le> n \<and> n \<le> 10000))
   \<and> (\<forall>m. applySlippage expected bps = Inr m \<and> 0 \<le> expected \<longrightarrow> 0 \<le> m \<and> m \<le> expected
        \<and> m = (expected * (10000 - \<lfloor>bps\<rfloor>)) div 10000)
   \<and> applySlippage expected 0 = Inr expected \<and> applySlippage expected 10000 = Inr 0"
proof (intro conjI allI impI)
  show "applySlippage expected bps = Inl e \<longleftrightarrow> e = BadSlippage bps \<and> \<not> (\<exists>n::int. bps = of_int n \<and> 0 \<le> n \<and> n \<le> 10000)" for e
    unfolding applySlippage_def slippage_range [symmetric] by auto
  show "applySlippage expected 0 = Inr expected" by (simp add: applySlippage_def bigint_div_exact)
  show "applySlippage expected 10000 = Inr 0" by (simp add: applySlippage_def bigint_div_def)
qed (use slippage_bound in blast)+

theorem slippage_floor_witness:
  "applySlippage 1000001 50 = Inr 995000 \<and> (0::int) \<le> 995000 \<and> (995000::int) \<le> 1000001 \<and> applySlippage 1000001 (1 / 2) = Inl (BadSlippage (1 / 2))"
proof -
  have a: "applySlippage 1000001 50 = Inr 995000" by (simp add: applySlippage_def bigint_div_def quotient_of_int)
  have h: "\<not> (\<exists>n::int. 1 / 2 = (of_int n :: rat) \<and> 0 \<le> n \<and> n \<le> 10000)"
  proof
    assume "\<exists>n::int. 1 / 2 = (of_int n :: rat) \<and> 0 \<le> n \<and> n \<le> 10000"
    then obtain n :: int where "1 / 2 = (of_int n :: rat)" by blast
    then have "(of_int (2 * n) :: rat) = of_int 1" by simp
    then show False by (metis of_int_eq_iff odd_one even_mult_iff even_numeral)
  qed
  have "applySlippage 1000001 (1 / 2) = Inl (BadSlippage (1 / 2))"
    by (rule slippage_floor [THEN conjunct1, THEN spec, THEN iffD2, OF conjI [OF refl h]])
  moreover have "(0::int) \<le> 995000 \<and> (995000::int) \<le> 1000001"
    using slippage_floor [THEN conjunct2, THEN conjunct1, rule_format, OF conjI [OF a]] by simp
  ultimately show ?thesis using a by simp
qed

text \<open>The quote is the venue's price: for the two coins of a chain the rate the stub quoter returns gives
  exactly the amount the stub kit pays out, so a swap whose floor is that quote less any accepted slippage
  never falls below its floor.\<close>

theorem quote_meets_floor:
  assumes c: "tc_eurc c = Some eurc" "eurc \<noteq> ''''" "to_lower eurc \<noteq> to_lower (tc_usdc c)"
    and tokens: "ci_tokenIn i \<in> {tc_usdc c, eurc}" "ci_tokenOut i \<in> {tc_usdc c, eurc}" and amount: "0 \<le> ci_amountIn i"
    and quote: "quote = bigint_div (ci_amountIn i * stub_routerRateBps c (ci_tokenIn i) (ci_tokenOut i)) 10000"
  shows "simulateGain c i Swap = quote \<and> (applySlippage quote bps = Inr (ci_minOut i) \<longrightarrow> ci_minOut i \<le> simulateGain c i Swap)"
proof -
  have s: "symbolOf c (tc_usdc c) = ''USDC''" "symbolOf c eurc = ''EURC''" using c by (simp_all add: symbolOf_def)
  have g: "simulateGain c i Swap = quote"
  proof -
    from tokens consider "ci_tokenIn i = tc_usdc c" "ci_tokenOut i = tc_usdc c" | "ci_tokenIn i = tc_usdc c" "ci_tokenOut i = eurc"
      | "ci_tokenIn i = eurc" "ci_tokenOut i = tc_usdc c" | "ci_tokenIn i = eurc" "ci_tokenOut i = eurc" by blast
    then show ?thesis by cases (simp_all add: quote simulateGain_def stub_routerRateBps_def Let_def s c(3) bigint_div_exact)
  qed
  have "0 \<le> ci_amountIn i * stub_routerRateBps c (ci_tokenIn i) (ci_tokenOut i)"
    using amount by (simp add: stub_routerRateBps_def Let_def)
  then have "0 \<le> quote" unfolding quote by (simp add: bigint_div_nonneg)
  with g slippage_bound show ?thesis by auto
qed

theorem quote_meets_floor_witness:
  "let c = getChain demo_viem LOCAL;
       i = \<lparr>ci_target = [], ci_data = [], ci_tokenIn = tc_usdc c, ci_amountIn = 1000001, ci_tokenOut = ''0x'', ci_minOut = 796000, ci_beneficiary = [], ci_deadline = 1\<rparr>
   in applySlippage 800000 50 = Inr (ci_minOut i) \<and> ci_minOut i \<le> simulateGain c i Swap"
proof -
  define i where "i = \<lparr>ci_target = [], ci_data = [], ci_tokenIn = tc_usdc (getChain demo_viem LOCAL), ci_amountIn = 1000001, ci_tokenOut = ''0x'', ci_minOut = 796000, ci_beneficiary = [], ci_deadline = 1\<rparr>"
  have l: "to_lower ''0x'' \<noteq> to_lower (tc_usdc (getChain demo_viem LOCAL))" unfolding demo_chain by (simp add: to_lower_def)
  have q: "800000 = bigint_div (ci_amountIn i * stub_routerRateBps (getChain demo_viem LOCAL) (ci_tokenIn i) (ci_tokenOut i)) 10000"
    using l by (simp add: i_def stub_routerRateBps_def bigint_div_def Let_def)
  have a: "applySlippage 800000 50 = Inr (ci_minOut i)" by (simp add: applySlippage_def i_def bigint_div_def quotient_of_int)
  from quote_meets_floor [OF demo_chain(5) _ l _ _ _ q, of 50] a show ?thesis by (simp add: i_def Let_def)
qed

lemma is_space_lower [simp]: "is_space (lower_char c) = is_space c"
proof (cases "65 \<le> (of_char c :: nat) \<and> (of_char c :: nat) \<le> 90")
  case True
  then have "of_char (char_of (of_char c + 32 :: nat) :: char) = (of_char c + 32 :: nat)" by (intro of_char_char_of_small) simp
  with True show ?thesis by (auto simp: is_space_def lower_char_def Let_def)
qed (auto simp: lower_char_def Let_def)

lemma assemble_no_destination: "assemble v now c treasury kind intent symbol notes valid \<noteq> Inl (PodsDestination d t)"
  by (cases intent) (auto simp: assemble_def Let_def res_simps iso_date_def conduitOf_def split: option.splits if_splits)

text \<open>The refusal of a Pods destination agrees with the kit: an accepted destination without surrounding
  blanks is never refused by the kit, and a refused one (for a treasury address without blanks) never
  becomes a request: the kit refuses it too.\<close>

theorem pods_refusal_agrees:
  "(podsRefusal (bp_destinationAddress input) (bp_treasury input) = None \<and> trim (bp_destinationAddress input) = bp_destinationAddress input
      \<longrightarrow> buildFromPodsBytecode v now input \<noteq> Inl (PodsDestination (bp_destinationAddress input) (bp_treasury input)))
   \<and> (podsRefusal (bp_destinationAddress input) (bp_treasury input) \<noteq> None \<and> trim (bp_treasury input) = bp_treasury input
      \<longrightarrow> buildFromPodsBytecode v now input = Inl (PodsDestination (bp_destinationAddress input) (bp_treasury input)))"
proof (intro conjI impI)
  have l: "trim (to_lower s) = to_lower (trim s)" for s
    by (simp add: trim_def to_lower_def dropWhile_map rev_map o_def)
  show "buildFromPodsBytecode v now input \<noteq> Inl (PodsDestination (bp_destinationAddress input) (bp_treasury input))"
    if "podsRefusal (bp_destinationAddress input) (bp_treasury input) = None \<and> trim (bp_destinationAddress input) = bp_destinationAddress input"
  proof -
    have "to_lower (bp_destinationAddress input) = to_lower (bp_treasury input)"
      using that by (simp add: podsRefusal_def isPodsDestinationTreasury_def split: if_splits)
    then show ?thesis by (simp add: buildFromPodsBytecode_def Let_def assemble_no_destination)
  qed
  show "buildFromPodsBytecode v now input = Inl (PodsDestination (bp_destinationAddress input) (bp_treasury input))"
    if r: "podsRefusal (bp_destinationAddress input) (bp_treasury input) \<noteq> None \<and> trim (bp_treasury input) = bp_treasury input"
  proof -
    have "to_lower (trim (bp_destinationAddress input)) \<noteq> to_lower (trim (bp_treasury input))"
      using r by (simp add: podsRefusal_def isPodsDestinationTreasury_def split: if_splits)
    then have "to_lower (bp_destinationAddress input) \<noteq> to_lower (bp_treasury input)" unfolding l [symmetric] by metis
    then show ?thesis by (simp add: buildFromPodsBytecode_def Let_def)
  qed
qed

definition demo_pods :: "Address \<Rightarrow> BuildFromPodsBytecodeInput" where
  "demo_pods dest = \<lparr>bp_action = Lend, bp_to = ''0xc3'', bp_bytecode = ''0x00'', bp_tokenIn = ''0x01'', bp_amountIn = 1,
     bp_tokenOut = ''0x02'', bp_minOut = 1, bp_destinationAddress = dest, bp_chain = LOCAL, bp_treasury = ''0xAB'', bp_validForSeconds = None\<rparr>"

theorem pods_refusal_agrees_witness:
  "podsRefusal ''0xab'' ''0xAB'' = None \<and> buildFromPodsBytecode demo_viem 100 (demo_pods ''0xab'') \<noteq> Inl (PodsDestination ''0xab'' ''0xAB'')
   \<and> buildFromPodsBytecode demo_viem 100 (demo_pods ''0xcd'') = Inl (PodsDestination ''0xcd'' ''0xAB'')"
proof -
  have d: "bp_destinationAddress (demo_pods x) = x" "bp_treasury (demo_pods x) = ''0xAB''" for x by (simp_all add: demo_pods_def)
  have r: "podsRefusal ''0xab'' ''0xAB'' = None" "trim ''0xab'' = ''0xab''" "trim ''0xAB'' = ''0xAB''" "podsRefusal ''0xcd'' ''0xAB'' \<noteq> None"
    by code_simp+
  from pods_refusal_agrees [of "demo_pods ''0xab''" demo_viem 100] pods_refusal_agrees [of "demo_pods ''0xcd''" demo_viem 100] r
  show ?thesis unfolding d by blast
qed

end
