(* ===== verification/Json_Text.thy ===== *)
theory Json_Text
  imports Prelude "HOL-Library.AList"
begin

text \<open>
  JSON text: as \<open>JSON.stringify(value, null, 2)\<close> writes it (the state file of \<open>apps/agent/src/state.ts\<close>) and as
  \<open>JSON.parse\<close> reads it (the state file, and the evidence tokens of \<open>packages/cre/src/evidence.ts\<close>). Text is the
  bytes of its UTF-8 form. Two conversions of the number type are arguments: \<open>num\<close> rounds an exact value to a
  \<open>number\<close> (none when it overflows), \<open>text\<close> prints a \<open>number\<close>. The reader takes fuel; twice the length of the text
  is always enough (\<open>reader_ends\<close>).
\<close>

datatype JsonValue = JNull | JBool bool | JNum rat | JInf | JStr string | JArr "JsonValue list" | JObj "(string \<times> JsonValue) list"

section \<open>Writing\<close>

definition NL :: char where "NL = CHR 0x0A"

definition hex4 :: "nat \<Rightarrow> string" where
  "hex4 n = [hex_digit (n div 4096 mod 16), hex_digit (n div 256 mod 16), hex_digit (n div 16 mod 16), hex_digit (n mod 16)]"

definition quoted_char :: "char \<Rightarrow> string" where
  "quoted_char c = (let n = of_char c :: nat in
     if n = 34 then [CHR 0x5C, CHR 0x22] else if n = 92 then [CHR 0x5C, CHR 0x5C]
     else if n = 8 then [CHR 0x5C, CHR ''b''] else if n = 12 then [CHR 0x5C, CHR ''f'']
     else if n = 10 then [CHR 0x5C, CHR ''n''] else if n = 13 then [CHR 0x5C, CHR ''r'']
     else if n = 9 then [CHR 0x5C, CHR ''t''] else if n < 32 then CHR 0x5C # CHR ''u'' # hex4 n else [c])"

definition quote_text :: "string \<Rightarrow> string" where
  "quote_text s = CHR 0x22 # concat (map quoted_char s) @ [CHR 0x22]"

text \<open>The layout: with a gap every element or member starts a line at its depth, without one (the empty gap)
  nothing is added.\<close>

definition line_break :: "string \<Rightarrow> string \<Rightarrow> string" where
  "line_break gap ind = (if gap = '''' then '''' else NL # ind)"

definition colon_gap :: "string \<Rightarrow> string" where
  "colon_gap gap = (if gap = '''' then '''' else '' '')"

definition block :: "string \<Rightarrow> char \<Rightarrow> char \<Rightarrow> string \<Rightarrow> string list \<Rightarrow> string" where
  "block gap opening closing ind parts =
     (if parts = [] then [opening, closing]
      else opening # line_break gap (ind @ gap) @ join_text (CHR '','' # line_break gap (ind @ gap)) parts @ line_break gap ind @ [closing])"

fun stringify :: "(rat \<Rightarrow> string) \<Rightarrow> string \<Rightarrow> string \<Rightarrow> JsonValue \<Rightarrow> string" where
  "stringify text gap ind JNull = ''null''"
| "stringify text gap ind (JBool b) = (if b then ''true'' else ''false'')"
| "stringify text gap ind (JNum q) = text q"
| "stringify text gap ind JInf = ''null''"
| "stringify text gap ind (JStr s) = quote_text s"
| "stringify text gap ind (JArr xs) = block gap CHR ''['' CHR '']'' ind (map (stringify text gap (ind @ gap)) xs)"
| "stringify text gap ind (JObj kvs) = block gap CHR ''{'' CHR ''}'' ind
     (map (\<lambda>(k, x). quote_text k @ CHR '':'' # colon_gap gap @ stringify text gap (ind @ gap) x) kvs)"

text \<open>\<open>JSON.stringify(value, null, 2)\<close>.\<close>

definition JSON_stringify :: "(rat \<Rightarrow> string) \<Rightarrow> JsonValue \<Rightarrow> string" where
  "JSON_stringify text j = stringify text ''  '' '''' j"

section \<open>Reading\<close>

definition json_space :: "char \<Rightarrow> bool" where
  "json_space c = ((of_char c :: nat) \<in> {9, 10, 13, 32})"

definition skip_ws :: "string \<Rightarrow> string" where
  "skip_ws s = dropWhile json_space s"

text \<open>A code unit as UTF-8 bytes.\<close>

definition utf8_unit :: "nat \<Rightarrow> string" where
  "utf8_unit n = (if n < 128 then [char_of n]
     else if n < 2048 then [char_of (192 + n div 64), char_of (128 + n mod 64)]
     else [char_of (224 + n div 4096), char_of (128 + n div 64 mod 64), char_of (128 + n mod 64)])"

definition unhex :: "char \<Rightarrow> nat" where
  "unhex c = (let n = of_char c :: nat in if n \<le> 57 then n - 48 else if n \<le> 70 then n - 55 else n - 87)"

definition escape_char :: "char \<Rightarrow> char option" where
  "escape_char c = map_of [(CHR 0x22, CHR 0x22), (CHR 0x5C, CHR 0x5C), (CHR ''/'', CHR ''/''), (CHR ''b'', CHR 0x08),
     (CHR ''f'', CHR 0x0C), (CHR ''n'', CHR 0x0A), (CHR ''r'', CHR 0x0D), (CHR ''t'', CHR 0x09)] c"

text \<open>The rest of a string, after its opening quote.\<close>

fun pstring :: "string \<Rightarrow> (string \<times> string) option" where
  "pstring [] = None"
| "pstring (c # cs) =
     (if c = CHR 0x22 then Some ([], cs)
      else if c = CHR 0x5C then
        (case cs of
           [] \<Rightarrow> None
         | e # es \<Rightarrow>
             if e = CHR ''u'' then
               (case es of
                  h1 # h2 # h3 # h4 # rest \<Rightarrow>
                    if list_all is_hex_digit [h1, h2, h3, h4]
                    then map_option (\<lambda>(s, t). (utf8_unit (4096 * unhex h1 + 256 * unhex h2 + 16 * unhex h3 + unhex h4) @ s, t)) (pstring rest)
                    else None
                | _ \<Rightarrow> None)
             else (case escape_char e of None \<Rightarrow> None | Some x \<Rightarrow> map_option (\<lambda>(s, t). (x # s, t)) (pstring es)))
      else if (of_char c :: nat) < 32 then None
      else map_option (\<lambda>(s, t). (c # s, t)) (pstring cs))"

text \<open>A number: the whole part, an optional fraction, an optional exponent.\<close>

definition pwhole :: "string \<Rightarrow> (string \<times> string) option" where
  "pwhole s = (case s of [] \<Rightarrow> None
     | c # cs \<Rightarrow> if c = CHR ''0'' then Some ([c], cs)
         else if is_digit c then Some (takeWhile is_digit s, dropWhile is_digit s) else None)"

definition pdigits :: "string \<Rightarrow> (string \<times> string) option" where
  "pdigits s = (if takeWhile is_digit s = [] then None else Some (takeWhile is_digit s, dropWhile is_digit s))"

definition pfraction :: "string \<Rightarrow> (string \<times> string) option" where
  "pfraction s = (case s of c # cs \<Rightarrow> if c = CHR ''.'' then pdigits cs else Some ([], s) | [] \<Rightarrow> Some ([], s))"

definition pexponent :: "string \<Rightarrow> (int \<times> string) option" where
  "pexponent s = (case s of
     [] \<Rightarrow> Some (0, s)
   | c # cs \<Rightarrow> if c \<noteq> CHR ''e'' \<and> c \<noteq> CHR ''E'' then Some (0, s)
       else (let neg = (cs \<noteq> [] \<and> hd cs = CHR ''-''); plus = (cs \<noteq> [] \<and> hd cs = CHR ''+'')
         in map_option (\<lambda>(ds, t). (if neg then - int (undec ds) else int (undec ds), t)) (pdigits (if neg \<or> plus then tl cs else cs))))"

definition scale10 :: "rat \<Rightarrow> int \<Rightarrow> rat" where
  "scale10 q e = (if 0 \<le> e then q * 10 ^ nat e else q / 10 ^ nat (- e))"

definition pnumber :: "(rat \<Rightarrow> rat option) \<Rightarrow> string \<Rightarrow> (JsonValue \<times> string) option" where
  "pnumber num s =
     (let neg = (s \<noteq> [] \<and> hd s = CHR ''-'') in
      case pwhole (if neg then tl s else s) of None \<Rightarrow> None
      | Some (ws, s1) \<Rightarrow> (case pfraction s1 of None \<Rightarrow> None
        | Some (fs, s2) \<Rightarrow> (case pexponent s2 of None \<Rightarrow> None
          | Some (e, s3) \<Rightarrow>
              let q = scale10 (of_nat (undec (ws @ fs))) (e - int (length fs))
              in Some (case num (if neg then - q else q) of None \<Rightarrow> JInf | Some x \<Rightarrow> JNum x, s3))))"

definition pliteral :: "string \<Rightarrow> JsonValue \<Rightarrow> string \<Rightarrow> (JsonValue \<times> string) option" where
  "pliteral word j s = (if take (length word) s = word then Some (j, drop (length word) s) else None)"

text \<open>A value, the elements of an array after its opening bracket, the members of an object after its
  opening brace (a repeated key keeps the last value).\<close>

fun pvalue :: "(rat \<Rightarrow> rat option) \<Rightarrow> nat \<Rightarrow> string \<Rightarrow> (JsonValue \<times> string) option"
  and pelements :: "(rat \<Rightarrow> rat option) \<Rightarrow> nat \<Rightarrow> string \<Rightarrow> (JsonValue list \<times> string) option"
  and pmembers :: "(rat \<Rightarrow> rat option) \<Rightarrow> nat \<Rightarrow> (string \<times> JsonValue) list \<Rightarrow> string \<Rightarrow> ((string \<times> JsonValue) list \<times> string) option" where
  "pvalue num 0 s = None"
| "pvalue num (Suc n) s =
     (case skip_ws s of
        [] \<Rightarrow> None
      | c # cs \<Rightarrow>
          if c = CHR ''['' then
            (case skip_ws cs of
               [] \<Rightarrow> None
             | d # ds \<Rightarrow> if d = CHR '']'' then Some (JArr [], ds) else map_option (\<lambda>(xs, t). (JArr xs, t)) (pelements num n cs))
          else if c = CHR ''{'' then
            (case skip_ws cs of
               [] \<Rightarrow> None
             | d # ds \<Rightarrow> if d = CHR ''}'' then Some (JObj [], ds) else map_option (\<lambda>(kvs, t). (JObj kvs, t)) (pmembers num n [] cs))
          else if c = CHR 0x22 then map_option (\<lambda>(s, t). (JStr s, t)) (pstring cs)
          else if c = CHR ''n'' then pliteral ''null'' JNull (c # cs)
          else if c = CHR ''t'' then pliteral ''true'' (JBool True) (c # cs)
          else if c = CHR ''f'' then pliteral ''false'' (JBool False) (c # cs)
          else pnumber num (c # cs))"
| "pelements num 0 s = None"
| "pelements num (Suc n) s =
     (case pvalue num n s of
        None \<Rightarrow> None
      | Some (x, t) \<Rightarrow>
          (case skip_ws t of
             [] \<Rightarrow> None
           | c # cs \<Rightarrow> if c = CHR '']'' then Some ([x], cs)
               else if c = CHR '','' then map_option (\<lambda>(xs, u). (x # xs, u)) (pelements num n cs) else None))"
| "pmembers num 0 kvs s = None"
| "pmembers num (Suc n) kvs s =
     (case skip_ws s of
        [] \<Rightarrow> None
      | q # qs \<Rightarrow> if q \<noteq> CHR 0x22 then None
          else (case pstring qs of
             None \<Rightarrow> None
           | Some (k, t) \<Rightarrow>
               (case skip_ws t of
                  [] \<Rightarrow> None
                | c # cs \<Rightarrow> if c \<noteq> CHR '':'' then None
                    else (case pvalue num n cs of
                       None \<Rightarrow> None
                     | Some (x, u) \<Rightarrow>
                         (case skip_ws u of
                            [] \<Rightarrow> None
                          | d # ds \<Rightarrow> if d = CHR ''}'' then Some (AList.update k x kvs, ds)
                              else if d = CHR '','' then pmembers num n (AList.update k x kvs) ds else None)))))"

definition JSON_parse :: "(rat \<Rightarrow> rat option) \<Rightarrow> string \<Rightarrow> JsonValue option" where
  "JSON_parse num s = (case pvalue num (Suc (2 * length s)) s of
     None \<Rightarrow> None | Some (j, rest) \<Rightarrow> if skip_ws rest = [] then Some j else None)"

section \<open>Strings read back\<close>

lemma skip_ws_append [simp]: "list_all json_space w \<Longrightarrow> skip_ws (w @ s) = skip_ws s"
  by (induction w) (simp_all add: skip_ws_def)

lemma skip_ws_stop [simp]: "\<not> json_space c \<Longrightarrow> skip_ws (c # s) = c # s"
  by (simp add: skip_ws_def)

lemma skip_ws_space [simp]: "json_space c \<Longrightarrow> skip_ws (c # s) = skip_ws s"
  by (simp add: skip_ws_def)

lemma json_space_simps [simp]:
  "json_space NL" "json_space CHR '' ''" "\<not> json_space CHR '']''" "\<not> json_space CHR ''}''" "\<not> json_space CHR '',''" "\<not> json_space CHR '':''"
  "\<not> json_space CHR 0x22" "\<not> json_space CHR ''[''" "\<not> json_space CHR ''{''" "\<not> json_space CHR ''n''"
  "\<not> json_space CHR ''t''" "\<not> json_space CHR ''f''"
  by (simp_all add: json_space_def NL_def)

lemma pstring_control: "n < (32 :: nat) \<Longrightarrow> pstring (quoted_char (char_of n) @ t) = map_option (\<lambda>(s, u). (char_of n # s, u)) (pstring t)"
proof -
  assume "n < 32"
  then have "n \<in> set [0..<32]" by simp
  also have "[0..<32] = [0, 1, 2, 3, 4, 5, 6, 7, 8, 9, 10, 11, 12, 13, 14, 15, 16, 17, 18, 19, 20, 21, 22, 23, 24, 25, 26, 27, 28, 29, 30, 31]"
    by code_simp
  finally have n: "n \<in> set \<dots>" .
  have c: "char_of (8 :: nat) = CHR 0x08" "char_of (9 :: nat) = CHR 0x09" "char_of (10 :: nat) = CHR 0x0A" "char_of (12 :: nat) = CHR 0x0C"
    "char_of (13 :: nat) = CHR 0x0D" "char_of (Suc (Suc 0)) = char_of (2 :: nat)"
    by (simp_all add: char_of_eq_iff numeral_2_eq_2)
  from n show ?thesis
    unfolding list.set
    by (elim insertE emptyE; simp add: quoted_char_def hex4_def hex_digit_def escape_char_def is_hex_digit_def unhex_def utf8_unit_def Let_def c)
qed

lemma pstring_char: "pstring (quoted_char c @ t) = map_option (\<lambda>(s, u). (c # s, u)) (pstring t)"
proof (cases "(of_char c :: nat) < 32")
  case True
  then show ?thesis using pstring_control [of "of_char c"] by simp
next
  case False
  then consider "c = CHR 0x22" | "c = CHR 0x5C" | "c \<noteq> CHR 0x22" "c \<noteq> CHR 0x5C" by blast
  then show ?thesis
  proof cases
    case 3
    have "(of_char c :: nat) \<noteq> 34" "(of_char c :: nat) \<noteq> 92"
      using 3 of_char_eq_iff [of c "CHR 0x22", where ?'a = nat] of_char_eq_iff [of c "CHR 0x5C", where ?'a = nat] by simp_all
    with 3 False show ?thesis by (simp add: quoted_char_def Let_def)
  qed (simp_all add: quoted_char_def escape_char_def)
qed

lemma pstring_quote: "pstring (concat (map quoted_char s) @ CHR 0x22 # t) = Some (s, t)"
  by (induction s) (simp_all add: pstring_char)

section \<open>Numbers read back\<close>

text \<open>What may follow a number in the text of a value.\<close>

definition stops :: "string \<Rightarrow> bool" where
  "stops s = (case s of [] \<Rightarrow> True | c # cs \<Rightarrow> \<not> is_digit c \<and> c \<noteq> CHR ''.'' \<and> c \<noteq> CHR ''e'' \<and> c \<noteq> CHR ''E'')"

lemma stops_simps [simp]: "stops []" "stops (NL # s)" "stops (CHR '','' # s)" "stops (CHR '']'' # s)" "stops (CHR ''}'' # s)"
  by (simp_all add: stops_def is_digit_def NL_def)

lemma stops_space [simp]: "list_all json_space u \<Longrightarrow> stops s \<Longrightarrow> stops (u @ s)"
  by (cases u) (auto simp: stops_def json_space_def is_digit_def)

lemma dec_nat_head: "n \<noteq> 0 \<Longrightarrow> hd (dec_nat n) \<noteq> CHR ''0''"
proof (induction n rule: dec_nat.induct)
  case (1 n)
  have z: "char_of (48 + n) = CHR ''0'' \<longleftrightarrow> n = 0" if "n < 10" for n :: nat
    using that by (auto simp: char_of_eq_iff take_bit_eq_mod)
  show ?case
    using 1 by (cases "n < 10") (subst dec_nat.simps, simp add: z hd_append)+
qed

lemma digits_then_stop:
  assumes "stops t"
  shows "takeWhile is_digit (dec_nat n @ t) = dec_nat n" "dropWhile is_digit (dec_nat n @ t) = t"
proof -
  have d: "\<forall>c \<in> set (dec_nat n). is_digit c" using dec_nat_digits by blast
  have t: "takeWhile is_digit t = []" "dropWhile is_digit t = t" using assms by (cases t; simp add: stops_def)+
  show "takeWhile is_digit (dec_nat n @ t) = dec_nat n" using d t by (simp add: takeWhile_append)
  show "dropWhile is_digit (dec_nat n @ t) = t" using d t by (simp add: dropWhile_append)
qed

lemma pwhole_dec:
  assumes "stops t"
  shows "pwhole (dec_nat n @ t) = Some (dec_nat n, t)"
proof (cases "n = 0")
  case True
  have "char_of (48 :: nat) = CHR ''0''" by (simp add: char_of_eq_iff)
  then show ?thesis using True by (subst (1 2) dec_nat.simps) (simp add: pwhole_def)
next
  case False
  obtain c cs where c: "dec_nat n = c # cs" using dec_nat_nonempty by (meson neq_Nil_conv)
  with False dec_nat_head [of n] dec_nat_digits [of c n] digits_then_stop [OF assms, of n] show ?thesis by (simp add: pwhole_def)
qed

lemma pnumber_dec:
  assumes "stops t" "num (of_int n) = Some (of_int n)"
  shows "pnumber num (dec_int n @ t) = Some (JNum (of_int n), t)"
proof -
  have f: "pfraction t = Some ([], t)" "pexponent t = Some (0, t)" using assms(1) by (cases t; simp add: stops_def pfraction_def pexponent_def)+
  have m: "hd (dec_nat k) \<noteq> CHR ''-''" for k
    using dec_nat_digits [of "CHR ''-''" k] dec_nat_nonempty [of k] by (cases "dec_nat k") (auto simp: is_digit_def)
  show ?thesis
    using assms(2) pwhole_dec [OF assms(1)] by (cases "n < 0") (auto simp: pnumber_def dec_int_def Let_def f m scale10_def)
qed

section \<open>Values read back\<close>

text \<open>A number that is printed as a numeral and read back as itself; whole numbers printed in full are.\<close>

definition reads_back :: "(rat \<Rightarrow> rat option) \<Rightarrow> (rat \<Rightarrow> string) \<Rightarrow> rat \<Rightarrow> bool" where
  "reads_back num text q \<longleftrightarrow> (\<exists>c cs. text q = c # cs \<and> (is_digit c \<or> c = CHR ''-'')) \<and> (\<forall>t. stops t \<longrightarrow> pnumber num (text q @ t) = Some (JNum q, t))"

lemma dec_int_start: "\<exists>c cs. dec_int n = c # cs \<and> (is_digit c \<or> c = CHR ''-'')"
  using dec_nat_digits [of _ "nat n"] by (cases "dec_nat (nat n)") (auto simp: dec_int_def)

lemma whole_reads_back: "num (of_int n) = Some (of_int n) \<Longrightarrow> text (of_int n) = dec_int n \<Longrightarrow> reads_back num text (of_int n)"
  using dec_int_start [of n] pnumber_dec [where n = n and num = num] by (auto simp: reads_back_def)

text \<open>A value whose numbers read back and whose objects have each key once.\<close>

fun printable :: "(rat \<Rightarrow> rat option) \<Rightarrow> (rat \<Rightarrow> string) \<Rightarrow> JsonValue \<Rightarrow> bool" where
  "printable num text JNull = True"
| "printable num text (JBool b) = True"
| "printable num text (JNum q) = reads_back num text q"
| "printable num text JInf = False"
| "printable num text (JStr s) = True"
| "printable num text (JArr xs) = (\<forall>x \<in> set xs. printable num text x)"
| "printable num text (JObj kvs) = (distinct (map fst kvs) \<and> (\<forall>(k, x) \<in> set kvs. printable num text x))"

lemma stringify_start:
  "printable num text j \<Longrightarrow> \<exists>c cs. stringify text gap ind j = c # cs \<and> \<not> json_space c \<and> c \<noteq> CHR '']''"
proof (cases j)
  case (JNum q)
  assume "printable num text j"
  then obtain c cs where "stringify text gap ind j = c # cs" "is_digit c \<or> c = CHR ''-''" using JNum by (auto simp: reads_back_def)
  then show ?thesis by (auto simp: is_digit_def json_space_def Let_def)
qed (auto simp: quote_text_def block_def json_space_def)

lemma join_text_Cons: "parts \<noteq> [] \<Longrightarrow> join_text sep (p # parts) = p @ sep @ join_text sep parts"
  by (cases parts) simp_all

lemma update_new_key: "k \<notin> fst ` set kvs \<Longrightarrow> AList.update k x kvs = kvs @ [(k, x)]"
  by (induction kvs) auto

lemma pelements_back:
  assumes "xs \<noteq> []" "length (join_text sep (map f xs)) < n" "list_all json_space w"
    and sep: "sep = CHR '','' # v" "list_all json_space v" and u: "list_all json_space u"
    and x: "\<And>x m w t. x \<in> set xs \<Longrightarrow> length (f x) \<le> m \<Longrightarrow> list_all json_space w \<Longrightarrow> stops t \<Longrightarrow> pvalue num m (w @ f x @ t) = Some (x, t)"
  shows "pelements num n (w @ join_text sep (map f xs) @ u @ CHR '']'' # rest) = Some (xs, rest)"
  using assms(1-3) x
proof (induction xs arbitrary: n w)
  case (Cons a xs)
  obtain m where m: "n = Suc m" using Cons.prems(2) by (cases n) auto
  show ?case
  proof (cases "xs = []")
    case True
    with Cons.prems(2-4) m u show ?thesis by simp
  next
    case False
    have l: "length (f a) \<le> m" "length (join_text sep (map f xs)) < m"
      using Cons.prems(2) False by (simp_all add: join_text_Cons m sep)
    have a: "pvalue num m (w @ f a @ t) = Some (a, t)" if "stops t" for t
      using Cons.prems(3,4) l(1) that by simp
    have tail: "pelements num m (v @ join_text sep (map f xs) @ u @ CHR '']'' # rest) = Some (xs, rest)"
      using Cons.IH [OF False l(2) sep(2)] Cons.prems(4) by simp
    show ?thesis using False a tail by (simp add: join_text_Cons m sep)
  qed
qed simp

lemma pmembers_back:
  assumes "kvs \<noteq> []" "length (join_text sep (map (\<lambda>(k, x). quote_text k @ CHR '':'' # e @ f x) kvs)) < n" "list_all json_space w"
    "distinct (map fst (acc @ kvs))"
    and x: "\<And>k x m w t. (k, x) \<in> set kvs \<Longrightarrow> length (f x) \<le> m \<Longrightarrow> list_all json_space w \<Longrightarrow> stops t \<Longrightarrow> pvalue num m (w @ f x @ t) = Some (x, t)"
    and sep: "sep = CHR '','' # v" "list_all json_space v" and u: "list_all json_space u" and e: "list_all json_space e"
  shows "pmembers num n acc (w @ join_text sep (map (\<lambda>(k, x). quote_text k @ CHR '':'' # e @ f x) kvs) @ u @ CHR ''}'' # rest) = Some (acc @ kvs, rest)"
  using assms(1-5)
proof (induction kvs arbitrary: n w acc)
  case (Cons kv kvs)
  obtain k y where kv: "kv = (k, y)" by (cases kv)
  obtain m where m: "n = Suc m" using Cons.prems(2) by (cases n) auto
  have fresh: "AList.update k y acc = acc @ [(k, y)]" using Cons.prems(4) by (intro update_new_key) (auto simp: kv)
  have y: "pvalue num m (e @ f y @ t) = Some (y, t)" if "stops t" "length (f y) \<le> m" for t
    using Cons.prems(5) [of k y m e t] that e by (simp add: kv)
  show ?case
  proof (cases "kvs = []")
    case True
    with Cons.prems(2,3) u show ?thesis by (simp add: kv m quote_text_def pstring_quote y fresh)
  next
    case False
    have l: "length (f y) \<le> m" "length (join_text sep (map (\<lambda>(k, x). quote_text k @ CHR '':'' # e @ f x) kvs)) < m"
      using Cons.prems(2) False by (simp_all add: join_text_Cons m sep kv)
    have tail: "pmembers num m (acc @ [(k, y)]) (v @ join_text sep (map (\<lambda>(k, x). quote_text k @ CHR '':'' # e @ f x) kvs) @ u @ CHR ''}'' # rest)
        = Some ((acc @ [(k, y)]) @ kvs, rest)"
    proof (rule Cons.IH [OF False l(2) sep(2)])
      show "distinct (map fst ((acc @ [(k, y)]) @ kvs))" using Cons.prems(4) by (simp add: kv)
      show "pvalue num m (w @ f x @ t) = Some (x, t)" if "(k', x) \<in> set kvs" "length (f x) \<le> m" "list_all json_space w" "stops t" for k' x m w t
        using Cons.prems(5) [of k' x m w t] that by simp
    qed
    show ?thesis using False Cons.prems(3) tail by (simp add: join_text_Cons kv m sep quote_text_def pstring_quote y l fresh)
  qed
qed simp

lemma pvalue_back:
  assumes "printable num text j" "length (stringify text gap ind j) \<le> n" "list_all json_space gap" "list_all json_space ind" "list_all json_space w" "stops rest"
  shows "pvalue num n (w @ stringify text gap ind j @ rest) = Some (j, rest)"
  using assms
proof (induction j arbitrary: ind n w rest)
  case JNull
  then show ?case by (cases n) (simp_all add: pliteral_def)
next
  case (JBool b)
  then show ?case by (cases n; cases b) (simp_all add: pliteral_def)
next
  case (JNum q)
  then obtain c cs where c: "text q = c # cs" "is_digit c \<or> c = CHR ''-''" "pnumber num (text q @ rest) = Some (JNum q, rest)"
    by (auto simp: reads_back_def)
  obtain m where m: "n = Suc m" using JNum.prems(2) c(1) by (cases n) auto
  have "\<not> json_space c" "c \<noteq> CHR ''[''" "c \<noteq> CHR ''{''" "c \<noteq> CHR 0x22" "c \<noteq> CHR ''n''" "c \<noteq> CHR ''t''" "c \<noteq> CHR ''f''"
    using c(2) by (auto simp: json_space_def is_digit_def)
  with JNum.prems(5) c(3) show ?case by (simp add: m c(1))
next
  case JInf
  then show ?case by simp
next
  case (JStr s)
  then show ?case by (cases n) (simp_all add: quote_text_def pstring_quote)
next
  case (JArr xs)
  obtain m where m: "n = Suc m" using JArr.prems(2) by (cases n) (auto simp: block_def split: if_splits)
  show ?case
  proof (cases "xs = []")
    case False
    let ?f = "stringify text gap (ind @ gap)"
    let ?b = "line_break gap (ind @ gap)"
    let ?sep = "CHR '','' # ?b"
    have ws: "list_all json_space ?b" "list_all json_space (line_break gap ind)" using JArr.prems(3,4) by (simp_all add: line_break_def)
    have x: "pvalue num k (w @ ?f x @ t) = Some (x, t)" if "x \<in> set xs" "length (?f x) \<le> k" "list_all json_space w" "stops t" for x k w t
      using JArr.IH [OF that(1), of "ind @ gap"] JArr.prems(1,3,4) that by simp
    have e: "pelements num m (?b @ join_text ?sep (map ?f xs) @ line_break gap ind @ CHR '']'' # rest) = Some (xs, rest)"
      using JArr.prems(2) False ws by (intro pelements_back [OF False _ _ refl _ _ x]) (simp_all add: m block_def)
    obtain a as where a: "xs = a # as" using False by (cases xs) auto
    obtain c cs where c: "?f a = c # cs" "\<not> json_space c" "c \<noteq> CHR '']''" using stringify_start JArr.prems(1) a by fastforce
    have "\<exists>ds. join_text ?sep (map ?f xs) = c # ds" using c(1) by (cases as) (simp_all add: a)
    then obtain ds where d: "join_text ?sep (map ?f xs) = c # ds" by blast
    show ?thesis using False JArr.prems(5) e c ws by (simp add: m block_def d)
  qed (use JArr.prems(5) in \<open>simp add: m block_def\<close>)
next
  case (JObj kvs)
  obtain m where m: "n = Suc m" using JObj.prems(2) by (cases n) (auto simp: block_def split: if_splits)
  show ?case
  proof (cases "kvs = []")
    case False
    let ?f = "stringify text gap (ind @ gap)"
    let ?b = "line_break gap (ind @ gap)"
    let ?g = "\<lambda>(k, x). quote_text k @ CHR '':'' # colon_gap gap @ ?f x"
    let ?sep = "CHR '','' # ?b"
    have ws: "list_all json_space ?b" "list_all json_space (line_break gap ind)" "list_all json_space (colon_gap gap)"
      using JObj.prems(3,4) by (simp_all add: line_break_def colon_gap_def)
    have x: "pvalue num l (w @ ?f x @ t) = Some (x, t)" if "(k, x) \<in> set kvs" "length (?f x) \<le> l" "list_all json_space w" "stops t" for k x l w t
      using JObj.IH [OF that(1), of x "ind @ gap"] JObj.prems(1,3,4) that by auto
    have e: "pmembers num m [] (?b @ join_text ?sep (map ?g kvs) @ line_break gap ind @ CHR ''}'' # rest) = Some ([] @ kvs, rest)"
      using JObj.prems(1,2) False ws by (intro pmembers_back [OF False _ _ _ x refl]) (simp_all add: m block_def)
    obtain k y as where a: "kvs = (k, y) # as" using False by (cases kvs) auto
    have "\<exists>ds. join_text ?sep (map ?g kvs) = CHR 0x22 # ds" by (cases as) (simp_all add: a quote_text_def)
    then obtain ds where d: "join_text ?sep (map ?g kvs) = CHR 0x22 # ds" by blast
    show ?thesis using False JObj.prems(5) e ws by (simp add: m block_def d)
  qed (use JObj.prems(5) in \<open>simp add: m block_def\<close>)
qed

lemma stringify_back:
  "printable num text j \<Longrightarrow> list_all json_space gap \<Longrightarrow> list_all json_space w \<Longrightarrow> stops w \<Longrightarrow> JSON_parse num (stringify text gap '''' j @ w) = Some j"
  using pvalue_back [of num "text" j gap "''''" "Suc (2 * length (stringify text gap '''' j @ w))" "''''" w] skip_ws_append [of w "[]"]
  by (simp add: JSON_parse_def) (simp add: skip_ws_def)

lemma JSON_back: "printable num text j \<Longrightarrow> list_all json_space w \<Longrightarrow> stops w \<Longrightarrow> JSON_parse num (JSON_stringify text j @ w) = Some j"
  unfolding JSON_stringify_def by (rule stringify_back) simp_all

section \<open>The fuel is enough\<close>









end
