(* ===== verification/AG_State.thy ===== *)
theory AG_State
  imports AG_Types Json_Text
begin

text \<open>
  The agent's state file (\<open>apps/agent/src/state.ts\<close>): the schema, the conversion between the file's JSON and
  the state in memory (\<open>bigint\<close> values as decimal texts), reading and writing the text, and the two operations
  on the deployments. The schema library is not part of the repository: its parser is the argument \<open>zod\<close>,
  with what it documents as \<open>zod_accepts\<close> (a value that fits the schema is returned) and \<open>zod_sound\<close> (what it
  returns fits). The number conversions of JSON text are arguments too, exact on whole numbers up to
  \<open>Number.MAX_SAFE_INTEGER\<close> (\<open>number_laws\<close>).
\<close>

section \<open>The schema\<close>

definition hex_text :: "string \<Rightarrow> bool" where
  "hex_text s = (take 2 s = ''0x'' \<and> list_all is_hex_digit (drop 2 s))"

definition address_text :: "string \<Rightarrow> bool" where
  "address_text s = (hex_text s \<and> length s = 42)"

definition private_key_text :: "string \<Rightarrow> bool" where
  "private_key_text s = (hex_text s \<and> length s = 66)"

definition bigint_text :: "string \<Rightarrow> bool" where
  "bigint_text s = (s \<noteq> '''' \<and> list_all is_digit s)"

text \<open>\<open>z.number().int()\<close>: a whole number that a \<open>number\<close> holds exactly.\<close>

definition safe_int :: "int \<Rightarrow> bool" where
  "safe_int n = (\<bar>n\<bar> \<le> 2 ^ 53 - 1)"

text \<open>The types the schema infers.\<close>

record Erc20BudgetJson =
  ej_token :: string
  ej_limit :: string
  ej_refreshIntervalSeconds :: int

record GasBudgetJson =
  gj_limit :: string
  gj_refreshIntervalSeconds :: int

record GrantJson =
  gn_allow :: "GrantTarget list"
  gn_erc20Budget :: "Erc20BudgetJson list option"
  gn_gasBudget :: "GasBudgetJson option"
  gn_validUntil :: int

record OwnerJson =
  oj_address :: string
  oj_weight :: string

record AgentJson =
  aj_address :: string
  aj_sessionKey :: string
  aj_grant :: GrantJson

record DeploymentJson =
  dj_chain :: TreasuryChainKey
  dj_treasury :: string
  dj_conduit :: string
  dj_owners :: "OwnerJson list"
  dj_thresholdWeight :: string
  dj_allowlist :: "string list"
  dj_agent :: "AgentJson option"

record StateJson =
  sj_sessionPrivateKey :: "string option"
  sj_deployments :: "DeploymentJson list"

definition opt_all :: "('a \<Rightarrow> bool) \<Rightarrow> 'a option \<Rightarrow> bool" where
  "opt_all P x = (case x of None \<Rightarrow> True | Some a \<Rightarrow> P a)"

definition grantSchema :: "GrantJson \<Rightarrow> bool" where
  "grantSchema g =
     (list_all (\<lambda>a. address_text (gt_target a) \<and> opt_all (list_all hex_text) (gt_selectors a)) (gn_allow g)
      \<and> opt_all (list_all (\<lambda>b. address_text (ej_token b) \<and> bigint_text (ej_limit b) \<and> safe_int (ej_refreshIntervalSeconds b))) (gn_erc20Budget g)
      \<and> opt_all (\<lambda>b. bigint_text (gj_limit b) \<and> safe_int (gj_refreshIntervalSeconds b)) (gn_gasBudget g)
      \<and> safe_int (gn_validUntil g))"

definition deploymentSchema :: "DeploymentJson \<Rightarrow> bool" where
  "deploymentSchema d =
     (address_text (dj_treasury d) \<and> address_text (dj_conduit d)
      \<and> list_all (\<lambda>w. address_text (oj_address w) \<and> bigint_text (oj_weight w)) (dj_owners d)
      \<and> bigint_text (dj_thresholdWeight d) \<and> list_all address_text (dj_allowlist d)
      \<and> opt_all (\<lambda>a. address_text (aj_address a) \<and> address_text (aj_sessionKey a) \<and> grantSchema (aj_grant a)) (dj_agent d))"

definition stateSchema :: "StateJson \<Rightarrow> bool" where
  "stateSchema s = (opt_all private_key_text (sj_sessionPrivateKey s) \<and> list_all deploymentSchema (sj_deployments s))"

text \<open>The value as JSON: members that are \<open>undefined\<close> are not written.\<close>

definition object :: "(string \<times> JsonValue option) list \<Rightarrow> JsonValue" where
  "object members = JObj (List.map_filter (\<lambda>(k, x). map_option (Pair k) x) members)"

definition num_json :: "int \<Rightarrow> JsonValue" where
  "num_json n = JNum (of_int n)"

definition target_json :: "GrantTarget \<Rightarrow> JsonValue" where
  "target_json a = object [(''target'', Some (JStr (gt_target a))), (''selectors'', map_option (\<lambda>l. JArr (map JStr l)) (gt_selectors a))]"

definition erc20_json :: "Erc20BudgetJson \<Rightarrow> JsonValue" where
  "erc20_json b = object [(''token'', Some (JStr (ej_token b))), (''limit'', Some (JStr (ej_limit b))),
     (''refreshIntervalSeconds'', Some (num_json (ej_refreshIntervalSeconds b)))]"

definition gas_json :: "GasBudgetJson \<Rightarrow> JsonValue" where
  "gas_json b = object [(''limit'', Some (JStr (gj_limit b))), (''refreshIntervalSeconds'', Some (num_json (gj_refreshIntervalSeconds b)))]"

definition grant_json :: "GrantJson \<Rightarrow> JsonValue" where
  "grant_json g = object [(''allow'', Some (JArr (map target_json (gn_allow g)))),
     (''erc20Budget'', map_option (\<lambda>l. JArr (map erc20_json l)) (gn_erc20Budget g)),
     (''gasBudget'', map_option gas_json (gn_gasBudget g)), (''validUntil'', Some (num_json (gn_validUntil g)))]"

definition owner_json :: "OwnerJson \<Rightarrow> JsonValue" where
  "owner_json w = object [(''address'', Some (JStr (oj_address w))), (''weight'', Some (JStr (oj_weight w)))]"

definition agent_json :: "AgentJson \<Rightarrow> JsonValue" where
  "agent_json a = object [(''address'', Some (JStr (aj_address a))), (''sessionKey'', Some (JStr (aj_sessionKey a))),
     (''grant'', Some (grant_json (aj_grant a)))]"

definition deployment_json :: "DeploymentJson \<Rightarrow> JsonValue" where
  "deployment_json d = object [(''chain'', Some (JStr (chain_text (dj_chain d)))), (''treasury'', Some (JStr (dj_treasury d))),
     (''conduit'', Some (JStr (dj_conduit d))), (''owners'', Some (JArr (map owner_json (dj_owners d)))),
     (''thresholdWeight'', Some (JStr (dj_thresholdWeight d))), (''allowlist'', Some (JArr (map JStr (dj_allowlist d)))),
     (''agent'', map_option agent_json (dj_agent d))]"

definition state_json :: "StateJson \<Rightarrow> JsonValue" where
  "state_json s = object [(''version'', Some (num_json 1)), (''sessionPrivateKey'', map_option JStr (sj_sessionPrivateKey s)),
     (''deployments'', Some (JArr (map deployment_json (sj_deployments s))))]"

section \<open>The state\<close>

record StoredAgent =
  sa_address :: Address
  sa_sessionKey :: Address
  sa_grant :: AgentGrant

record StoredDeployment =
  sd_chain :: TreasuryChainKey
  sd_treasury :: Address
  sd_conduit :: Address
  sd_owners :: "KitOwner list"
  sd_thresholdWeight :: int
  sd_allowlist :: "Address list"
  sd_agent :: "StoredAgent option"

record AgentState =
  as_sessionPrivateKey :: "Hex option"
  as_deployments :: "StoredDeployment list"

definition emptyState :: AgentState where
  "emptyState = \<lparr>as_sessionPrivateKey = None, as_deployments = []\<rparr>"

text \<open>\<open>BigInt(s)\<close> on a text of digits.\<close>

definition BigInt :: "string \<Rightarrow> int" where
  "BigInt s = int (undec s)"

definition grantFromJson :: "GrantJson \<Rightarrow> AgentGrant" where
  "grantFromJson g =
     \<lparr>gr_allow = map (\<lambda>a. \<lparr>gt_target = gt_target a, gt_selectors = gt_selectors a\<rparr>) (gn_allow g),
      gr_erc20Budget = map_option (map (\<lambda>b. \<lparr>eb_token = ej_token b, eb_limit = BigInt (ej_limit b),
        eb_refreshIntervalSeconds = ej_refreshIntervalSeconds b\<rparr>)) (gn_erc20Budget g),
      gr_gasBudget = map_option (\<lambda>b. \<lparr>gb_limit = BigInt (gj_limit b), gb_refreshIntervalSeconds = gj_refreshIntervalSeconds b\<rparr>) (gn_gasBudget g),
      gr_validUntil = gn_validUntil g\<rparr>"

definition grantToJson :: "AgentGrant \<Rightarrow> GrantJson" where
  "grantToJson g =
     \<lparr>gn_allow = map (\<lambda>a. \<lparr>gt_target = gt_target a, gt_selectors = gt_selectors a\<rparr>) (gr_allow g),
      gn_erc20Budget = map_option (map (\<lambda>b. \<lparr>ej_token = eb_token b, ej_limit = dec_int (eb_limit b),
        ej_refreshIntervalSeconds = eb_refreshIntervalSeconds b\<rparr>)) (gr_erc20Budget g),
      gn_gasBudget = map_option (\<lambda>b. \<lparr>gj_limit = dec_int (gb_limit b), gj_refreshIntervalSeconds = gb_refreshIntervalSeconds b\<rparr>) (gr_gasBudget g),
      gn_validUntil = gr_validUntil g\<rparr>"

definition deploymentFromJson :: "DeploymentJson \<Rightarrow> StoredDeployment" where
  "deploymentFromJson d =
     \<lparr>sd_chain = dj_chain d, sd_treasury = dj_treasury d, sd_conduit = dj_conduit d,
      sd_owners = map (\<lambda>w. \<lparr>ko_address = oj_address w, ko_weight = BigInt (oj_weight w)\<rparr>) (dj_owners d),
      sd_thresholdWeight = BigInt (dj_thresholdWeight d), sd_allowlist = dj_allowlist d,
      sd_agent = map_option (\<lambda>a. \<lparr>sa_address = aj_address a, sa_sessionKey = aj_sessionKey a, sa_grant = grantFromJson (aj_grant a)\<rparr>) (dj_agent d)\<rparr>"

definition deploymentToJson :: "StoredDeployment \<Rightarrow> DeploymentJson" where
  "deploymentToJson d =
     \<lparr>dj_chain = sd_chain d, dj_treasury = sd_treasury d, dj_conduit = sd_conduit d,
      dj_owners = map (\<lambda>w. \<lparr>oj_address = ko_address w, oj_weight = dec_int (ko_weight w)\<rparr>) (sd_owners d),
      dj_thresholdWeight = dec_int (sd_thresholdWeight d), dj_allowlist = sd_allowlist d,
      dj_agent = map_option (\<lambda>a. \<lparr>aj_address = sa_address a, aj_sessionKey = sa_sessionKey a, aj_grant = grantToJson (sa_grant a)\<rparr>) (sd_agent d)\<rparr>"

datatype state_error = BadJson | BadSchema | Unreadable

definition parseState :: "(rat \<Rightarrow> rat option) \<Rightarrow> (JsonValue \<Rightarrow> StateJson option) \<Rightarrow> string \<Rightarrow> state_error + AgentState" where
  "parseState num zod s =
     (case JSON_parse num s of None \<Rightarrow> Inl BadJson
      | Some j \<Rightarrow> (case zod j of None \<Rightarrow> Inl BadSchema
        | Some raw \<Rightarrow> Inr \<lparr>as_sessionPrivateKey = sj_sessionPrivateKey raw, as_deployments = map deploymentFromJson (sj_deployments raw)\<rparr>))"

definition stateToJson :: "AgentState \<Rightarrow> StateJson" where
  "stateToJson s = \<lparr>sj_sessionPrivateKey = as_sessionPrivateKey s, sj_deployments = map deploymentToJson (as_deployments s)\<rparr>"

definition serializeState :: "(rat \<Rightarrow> string) \<Rightarrow> AgentState \<Rightarrow> string" where
  "serializeState text s = JSON_stringify text (state_json (stateToJson s)) @ [NL]"

text \<open>The file: absent (\<open>ENOENT\<close>), not readable for another reason, or its text.\<close>

datatype state_file = NoFile | Locked | File string

definition loadState :: "(rat \<Rightarrow> rat option) \<Rightarrow> (JsonValue \<Rightarrow> StateJson option) \<Rightarrow> state_file \<Rightarrow> state_error + AgentState" where
  "loadState num zod f = (case f of NoFile \<Rightarrow> Inr emptyState | Locked \<Rightarrow> Inl Unreadable | File s \<Rightarrow> parseState num zod s)"

definition saveState :: "(rat \<Rightarrow> string) \<Rightarrow> AgentState \<Rightarrow> state_file" where
  "saveState text s = File (serializeState text s)"

definition upsertDeployment :: "AgentState \<Rightarrow> StoredDeployment \<Rightarrow> AgentState" where
  "upsertDeployment s d = s\<lparr>as_deployments := filter (\<lambda>x. sd_chain x \<noteq> sd_chain d) (as_deployments s) @ [d]\<rparr>"

definition findDeployment :: "AgentState \<Rightarrow> TreasuryChainKey \<Rightarrow> StoredDeployment option" where
  "findDeployment s chain = find (\<lambda>d. sd_chain d = chain) (as_deployments s)"

section \<open>Round trip\<close>

definition number_laws :: "(rat \<Rightarrow> rat option) \<Rightarrow> (rat \<Rightarrow> string) \<Rightarrow> bool" where
  "number_laws num text \<longleftrightarrow> (\<forall>n. safe_int n \<longrightarrow> num (of_int n) = Some (of_int n) \<and> text (of_int n) = dec_int n)"

definition zod_accepts :: "(JsonValue \<Rightarrow> StateJson option) \<Rightarrow> bool" where
  "zod_accepts zod \<longleftrightarrow> (\<forall>r. stateSchema r \<longrightarrow> zod (state_json r) = Some r)"

definition zod_sound :: "(JsonValue \<Rightarrow> StateJson option) \<Rightarrow> bool" where
  "zod_sound zod \<longleftrightarrow> (\<forall>j r. zod j = Some r \<longrightarrow> stateSchema r)"

text \<open>A state that fits the schema once written: addresses and keys of the right form, no negative amount,
  times and intervals that a \<open>number\<close> holds exactly.\<close>

definition storable :: "AgentState \<Rightarrow> bool" where
  "storable s = stateSchema (stateToJson s)"

lemma bigint_text_dec [simp]: "bigint_text (dec_int n) \<longleftrightarrow> 0 \<le> n"
proof (cases "n < 0")
  case False
  have "list_all is_digit (dec_nat (nat n))" using dec_nat_digits by (simp add: list_all_iff)
  with False show ?thesis by (simp add: bigint_text_def dec_int_def)
qed (simp add: bigint_text_def dec_int_def is_digit_def)

lemma BigInt_dec [simp]: "0 \<le> n \<Longrightarrow> BigInt (dec_int n) = n"
  by (simp add: BigInt_def dec_int_def)

lemma BigInt_nonneg [simp]: "0 \<le> BigInt s"
  by (simp add: BigInt_def)

lemmas schema_defs = opt_all_def grantSchema_def deploymentSchema_def stateSchema_def grantToJson_def deploymentToJson_def stateToJson_def
  grantFromJson_def deploymentFromJson_def

lemma grant_back: "grantSchema (grantToJson g) \<Longrightarrow> grantFromJson (grantToJson g) = g"
  by (cases g) (auto simp: schema_defs list_all_iff o_def map_idI intro!: map_idI split: option.splits)

lemma deployment_back: "deploymentSchema (deploymentToJson d) \<Longrightarrow> deploymentFromJson (deploymentToJson d) = d"
  using grant_back
  by (cases d) (auto simp: deploymentSchema_def deploymentToJson_def deploymentFromJson_def opt_all_def list_all_iff o_def intro!: map_idI split: option.splits)

lemma grant_kept: "grantSchema j \<Longrightarrow> grantSchema (grantToJson (grantFromJson j))"
  by (auto simp: schema_defs list_all_iff split: option.splits)

lemma deployment_kept: "deploymentSchema j \<Longrightarrow> deploymentSchema (deploymentToJson (deploymentFromJson j))"
  using grant_kept
  by (auto simp: deploymentSchema_def deploymentToJson_def deploymentFromJson_def opt_all_def list_all_iff split: option.splits)

lemma Some_eq_map [simp]: "Some x = map_option f y \<longleftrightarrow> (\<exists>z. y = Some z \<and> x = f z)"
  by (cases y) auto

lemma printable_object:
  assumes "distinct (map fst members)" "\<And>k y x. (k, y) \<in> set members \<Longrightarrow> y = Some x \<Longrightarrow> printable num text x"
  shows "printable num text (object members)"
proof -
  have k: "fst ` set (List.map_filter (\<lambda>(k, x). map_option (Pair k) x) ms) \<subseteq> fst ` set ms" for ms :: "(string \<times> JsonValue option) list"
    by (force simp: List.map_filter_def)
  have "distinct (map fst (List.map_filter (\<lambda>(k, x). map_option (Pair k) x) members))"
    using assms(1)
  proof (induction members)
    case (Cons m ms)
    then show ?case using k [of ms] by (cases m; cases "snd m") (auto simp: List.map_filter_simps)
  qed (simp add: List.map_filter_simps)
  then show ?thesis using assms(2) by (auto simp: object_def List.map_filter_def)
qed

lemma printable_num: "number_laws num text \<Longrightarrow> safe_int n \<Longrightarrow> printable num text (num_json n)"
  by (simp add: number_laws_def num_json_def whole_reads_back)

lemmas json_defs = target_json_def erc20_json_def gas_json_def owner_json_def agent_json_def

lemma printable_grant: "number_laws num text \<Longrightarrow> grantSchema g \<Longrightarrow> printable num text (grant_json g)"
  unfolding grant_json_def
  by (rule printable_object) (auto simp: json_defs grantSchema_def opt_all_def list_all_iff printable_num split: option.splits intro!: printable_object)

lemma printable_deployment: "number_laws num text \<Longrightarrow> deploymentSchema d \<Longrightarrow> printable num text (deployment_json d)"
  unfolding deployment_json_def
  by (rule printable_object) (auto simp: json_defs deploymentSchema_def opt_all_def list_all_iff printable_grant split: option.splits intro!: printable_object)

lemma printable_state: "number_laws num text \<Longrightarrow> stateSchema s \<Longrightarrow> printable num text (state_json s)"
  unfolding state_json_def
  by (rule printable_object) (auto simp: stateSchema_def list_all_iff printable_deployment printable_num safe_int_def)

lemma state_back:
  assumes "number_laws num text" "zod_accepts zod" "storable s"
  shows "parseState num zod (serializeState text s) = Inr s"
proof -
  have p: "JSON_parse num (serializeState text s) = Some (state_json (stateToJson s))"
    using assms unfolding serializeState_def by (intro JSON_back printable_state) (simp_all add: storable_def)
  have d: "map (\<lambda>d. deploymentFromJson (deploymentToJson d)) (as_deployments s) = as_deployments s"
    using assms(3) by (intro map_idI deployment_back) (simp add: storable_def stateSchema_def stateToJson_def list_all_iff)
  show ?thesis using assms(2,3) d by (simp add: parseState_def p zod_accepts_def storable_def stateToJson_def o_def)
qed

lemma parsed_storable:
  assumes "zod_sound zod" "parseState num zod t = Inr s"
  shows "storable s"
  using assms deployment_kept
  by (auto simp: parseState_def zod_sound_def storable_def stateSchema_def stateToJson_def list_all_iff split: option.splits)

section \<open>A schema parser\<close>

text \<open>A parser with the documented behaviour: objects by their members (others are ignored), a member that may
  be missing, texts that match, whole numbers.\<close>

definition zstring :: "(string \<Rightarrow> bool) \<Rightarrow> JsonValue \<Rightarrow> string option" where
  "zstring P j = (case j of JStr s \<Rightarrow> if P s then Some s else None | _ \<Rightarrow> None)"

definition zint :: "JsonValue \<Rightarrow> int option" where
  "zint j = (case j of JNum q \<Rightarrow> if q = of_int \<lfloor>q\<rfloor> \<and> safe_int \<lfloor>q\<rfloor> then Some \<lfloor>q\<rfloor> else None | _ \<Rightarrow> None)"

definition zarray :: "(JsonValue \<Rightarrow> 'a option) \<Rightarrow> JsonValue \<Rightarrow> 'a list option" where
  "zarray f j = (case j of JArr xs \<Rightarrow> those (map f xs) | _ \<Rightarrow> None)"

definition zmember :: "string \<Rightarrow> (JsonValue \<Rightarrow> 'a option) \<Rightarrow> JsonValue \<Rightarrow> 'a option" where
  "zmember k f j = (case j of JObj kvs \<Rightarrow> Option.bind (map_of kvs k) f | _ \<Rightarrow> None)"

definition zoptional :: "string \<Rightarrow> (JsonValue \<Rightarrow> 'a option) \<Rightarrow> JsonValue \<Rightarrow> 'a option option" where
  "zoptional k f j = (case j of JObj kvs \<Rightarrow> (case map_of kvs k of None \<Rightarrow> Some None | Some x \<Rightarrow> map_option Some (f x)) | _ \<Rightarrow> None)"

definition zchain :: "JsonValue \<Rightarrow> TreasuryChainKey option" where
  "zchain j = (case j of JStr s \<Rightarrow> find (\<lambda>k. chain_text k = s) CHAIN_KEYS | _ \<Rightarrow> None)"

definition ztarget :: "JsonValue \<Rightarrow> GrantTarget option" where
  "ztarget j = Option.bind (zmember ''target'' (zstring address_text) j) (\<lambda>t.
     Option.bind (zoptional ''selectors'' (zarray (zstring hex_text)) j) (\<lambda>l. Some \<lparr>gt_target = t, gt_selectors = l\<rparr>))"

definition zerc20 :: "JsonValue \<Rightarrow> Erc20BudgetJson option" where
  "zerc20 j = Option.bind (zmember ''token'' (zstring address_text) j) (\<lambda>t. Option.bind (zmember ''limit'' (zstring bigint_text) j) (\<lambda>l.
     Option.bind (zmember ''refreshIntervalSeconds'' zint j) (\<lambda>n. Some \<lparr>ej_token = t, ej_limit = l, ej_refreshIntervalSeconds = n\<rparr>)))"

definition zgas :: "JsonValue \<Rightarrow> GasBudgetJson option" where
  "zgas j = Option.bind (zmember ''limit'' (zstring bigint_text) j) (\<lambda>l.
     Option.bind (zmember ''refreshIntervalSeconds'' zint j) (\<lambda>n. Some \<lparr>gj_limit = l, gj_refreshIntervalSeconds = n\<rparr>))"

definition zgrant :: "JsonValue \<Rightarrow> GrantJson option" where
  "zgrant j = Option.bind (zmember ''allow'' (zarray ztarget) j) (\<lambda>a. Option.bind (zoptional ''erc20Budget'' (zarray zerc20) j) (\<lambda>e.
     Option.bind (zoptional ''gasBudget'' zgas j) (\<lambda>g. Option.bind (zmember ''validUntil'' zint j) (\<lambda>n.
     Some \<lparr>gn_allow = a, gn_erc20Budget = e, gn_gasBudget = g, gn_validUntil = n\<rparr>))))"

definition zowner :: "JsonValue \<Rightarrow> OwnerJson option" where
  "zowner j = Option.bind (zmember ''address'' (zstring address_text) j) (\<lambda>a. Option.bind (zmember ''weight'' (zstring bigint_text) j) (\<lambda>w.
     Some \<lparr>oj_address = a, oj_weight = w\<rparr>))"

definition zagent :: "JsonValue \<Rightarrow> AgentJson option" where
  "zagent j = Option.bind (zmember ''address'' (zstring address_text) j) (\<lambda>a. Option.bind (zmember ''sessionKey'' (zstring address_text) j) (\<lambda>k.
     Option.bind (zmember ''grant'' zgrant j) (\<lambda>g. Some \<lparr>aj_address = a, aj_sessionKey = k, aj_grant = g\<rparr>)))"

definition zdeployment :: "JsonValue \<Rightarrow> DeploymentJson option" where
  "zdeployment j = Option.bind (zmember ''chain'' zchain j) (\<lambda>c. Option.bind (zmember ''treasury'' (zstring address_text) j) (\<lambda>t.
     Option.bind (zmember ''conduit'' (zstring address_text) j) (\<lambda>d. Option.bind (zmember ''owners'' (zarray zowner) j) (\<lambda>ws.
     Option.bind (zmember ''thresholdWeight'' (zstring bigint_text) j) (\<lambda>h. Option.bind (zmember ''allowlist'' (zarray (zstring address_text)) j) (\<lambda>l.
     Option.bind (zoptional ''agent'' zagent j) (\<lambda>a.
     Some \<lparr>dj_chain = c, dj_treasury = t, dj_conduit = d, dj_owners = ws, dj_thresholdWeight = h, dj_allowlist = l, dj_agent = a\<rparr>)))))))"

definition zstate :: "JsonValue \<Rightarrow> StateJson option" where
  "zstate j = Option.bind (zmember ''version'' (\<lambda>x. if x = JNum 1 then Some () else None) j) (\<lambda>_.
     Option.bind (zoptional ''sessionPrivateKey'' (zstring private_key_text) j) (\<lambda>k.
     Option.bind (zmember ''deployments'' (zarray zdeployment) j) (\<lambda>d. Some \<lparr>sj_sessionPrivateKey = k, sj_deployments = d\<rparr>)))"

lemma map_of_object:
  assumes "distinct (map fst members)"
  shows "map_of (List.map_filter (\<lambda>(k, x). map_option (Pair k) x) members) k = Option.bind (map_of members k) (\<lambda>x. x)"
  using assms
proof (induction members)
  case (Cons m ms)
  have "map_of ms k = None" if "k \<notin> fst ` set ms" using that by (simp add: map_of_eq_None_iff)
  with Cons show ?case by (cases m; cases "snd m") (auto simp: List.map_filter_simps)
qed (simp add: List.map_filter_simps)

lemma zmember_object: "distinct (map fst ms) \<Longrightarrow> zmember k f (object ms) = Option.bind (Option.bind (map_of ms k) (\<lambda>x. x)) f"
  by (simp add: zmember_def object_def map_of_object)

lemma zoptional_object: "distinct (map fst ms) \<Longrightarrow>
    zoptional k f (object ms) = (case Option.bind (map_of ms k) (\<lambda>x. x) of None \<Rightarrow> Some None | Some x \<Rightarrow> map_option Some (f x))"
  by (simp add: zoptional_def object_def map_of_object)

lemma those_map: "(\<And>x. x \<in> set xs \<Longrightarrow> f (g x) = Some x) \<Longrightarrow> those (map f (map g xs)) = Some xs"
  by (induction xs) simp_all

lemma those_all: "those ys = Some xs \<Longrightarrow> x \<in> set xs \<Longrightarrow> Some x \<in> set ys"
  by (induction ys arbitrary: xs) (auto split: option.splits)

lemma zstring_back [simp]: "zstring P (JStr s) = (if P s then Some s else None)"
  by (simp add: zstring_def)

lemma zint_back [simp]: "zint (num_json n) = (if safe_int n then Some n else None)"
  by (simp add: zint_def num_json_def)

lemma zchain_back [simp]: "zchain (JStr (chain_text k)) = Some k"
  by (cases k) (simp_all add: zchain_def CHAIN_KEYS_def)

lemma zarray_back: "(\<And>x. x \<in> set xs \<Longrightarrow> f (g x) = Some x) \<Longrightarrow> zarray f (JArr (map g xs)) = Some xs"
  unfolding zarray_def by (simp add: those_map del: map_map)

lemmas z_objects = zmember_object zoptional_object opt_all_def list_all_iff

lemma z_back:
  "address_text (gt_target a) \<Longrightarrow> opt_all (list_all hex_text) (gt_selectors a) \<Longrightarrow> ztarget (target_json a) = Some a"
  "address_text (ej_token e) \<Longrightarrow> bigint_text (ej_limit e) \<Longrightarrow> safe_int (ej_refreshIntervalSeconds e) \<Longrightarrow> zerc20 (erc20_json e) = Some e"
  "bigint_text (gj_limit b) \<Longrightarrow> safe_int (gj_refreshIntervalSeconds b) \<Longrightarrow> zgas (gas_json b) = Some b"
  "address_text (oj_address w) \<Longrightarrow> bigint_text (oj_weight w) \<Longrightarrow> zowner (owner_json w) = Some w"
  by (cases "gt_selectors a"; simp add: ztarget_def target_json_def z_objects zarray_back)
     (simp_all add: zerc20_def erc20_json_def zgas_def gas_json_def zowner_def owner_json_def z_objects)

lemma zgrant_back: "grantSchema g \<Longrightarrow> zgrant (grant_json g) = Some g"
  by (cases "gn_erc20Budget g"; cases "gn_gasBudget g")
     (simp_all add: zgrant_def grant_json_def z_objects zarray_back z_back grantSchema_def)

lemma zagent_back: "address_text (aj_address a) \<Longrightarrow> address_text (aj_sessionKey a) \<Longrightarrow> grantSchema (aj_grant a) \<Longrightarrow> zagent (agent_json a) = Some a"
  by (simp add: zagent_def agent_json_def z_objects zgrant_back)

lemma zdeployment_back: "deploymentSchema d \<Longrightarrow> zdeployment (deployment_json d) = Some d"
  by (cases "dj_agent d")
     (simp_all add: zdeployment_def deployment_json_def z_objects zarray_back z_back zagent_back deploymentSchema_def)

lemma zstate_accepts: "zod_accepts zstate"
  unfolding zod_accepts_def
proof (intro allI impI)
  fix r
  assume "stateSchema r"
  then show "zstate (state_json r) = Some r"
    by (cases "sj_sessionPrivateKey r") (simp_all add: zstate_def state_json_def z_objects zarray_back zdeployment_back stateSchema_def num_json_def)
qed

text \<open>What the parser returns fits the schema.\<close>

lemma z_sound:
  "zstring P j = Some s \<Longrightarrow> P s" "zint j = Some n \<Longrightarrow> safe_int n"
  by (auto simp: zstring_def zint_def split: JsonValue.splits if_splits)

lemma zmember_Some: "zmember k f j = Some x \<Longrightarrow> \<exists>y. f y = Some x"
  by (auto simp: zmember_def bind_eq_Some_conv split: JsonValue.splits)

lemma zoptional_Some: "zoptional k f j = Some (Some x) \<Longrightarrow> \<exists>y. f y = Some x"
  by (auto simp: zoptional_def split: JsonValue.splits option.splits)

lemma zarray_Some: "zarray f j = Some xs \<Longrightarrow> x \<in> set xs \<Longrightarrow> \<exists>y. f y = Some x"
  by (auto simp: zarray_def split: JsonValue.splits dest!: those_all) metis

lemma zarray_all: "zarray f j = Some xs \<Longrightarrow> (\<And>y x. f y = Some x \<Longrightarrow> P x) \<Longrightarrow> list_all P xs"
  using zarray_Some by (fastforce simp: list_all_iff)

lemma zmember_all: "zmember k f j = Some x \<Longrightarrow> (\<And>y x. f y = Some x \<Longrightarrow> P x) \<Longrightarrow> P x"
  using zmember_Some by fastforce

lemma zoptional_all: "zoptional k f j = Some z \<Longrightarrow> (\<And>y x. f y = Some x \<Longrightarrow> P x) \<Longrightarrow> opt_all P z"
  using zoptional_Some [of k f j] by (cases z) (fastforce simp: opt_all_def)+

lemma z_dests:
  "zmember k (zstring P) j = Some s \<Longrightarrow> P s" "zmember k zint j = Some n \<Longrightarrow> safe_int n"
  "zmember k (zarray (zstring P)) j = Some l \<Longrightarrow> list_all P l" "zoptional k (zarray (zstring P)) j = Some y \<Longrightarrow> opt_all (list_all P) y"
  "zoptional k (zstring P) j = Some z \<Longrightarrow> opt_all P z"
  by (erule zmember_all zoptional_all, (erule zarray_all)?, erule z_sound)+

lemma z_parts_sound:
  "ztarget j = Some a \<Longrightarrow> address_text (gt_target a) \<and> opt_all (list_all hex_text) (gt_selectors a)"
  "zerc20 j = Some e \<Longrightarrow> address_text (ej_token e) \<and> bigint_text (ej_limit e) \<and> safe_int (ej_refreshIntervalSeconds e)"
  "zgas j = Some b \<Longrightarrow> bigint_text (gj_limit b) \<and> safe_int (gj_refreshIntervalSeconds b)"
  "zowner j = Some w \<Longrightarrow> address_text (oj_address w) \<and> bigint_text (oj_weight w)"
  by (auto simp: ztarget_def zerc20_def zgas_def zowner_def bind_eq_Some_conv dest: z_dests)

lemma zgrant_sound:
  assumes "zgrant j = Some g"
  shows "grantSchema g"
proof -
  from assms have "zmember ''allow'' (zarray ztarget) j = Some (gn_allow g)" "zoptional ''erc20Budget'' (zarray zerc20) j = Some (gn_erc20Budget g)"
    "zoptional ''gasBudget'' zgas j = Some (gn_gasBudget g)" "zmember ''validUntil'' zint j = Some (gn_validUntil g)"
    by (auto simp: zgrant_def bind_eq_Some_conv)
  then show ?thesis unfolding grantSchema_def
    by (intro conjI) (erule z_dests zmember_all zoptional_all, (erule zarray_all)?, (erule z_parts_sound)?)+
qed

lemma zmember_grant: "zmember k zgrant j = Some g \<Longrightarrow> grantSchema g"
  by (erule zmember_all, erule zgrant_sound)

lemma zagent_sound: "zagent j = Some a \<Longrightarrow> address_text (aj_address a) \<and> address_text (aj_sessionKey a) \<and> grantSchema (aj_grant a)"
  by (auto simp: zagent_def bind_eq_Some_conv dest: z_dests zmember_grant)

lemma zdeployment_sound:
  assumes "zdeployment j = Some d"
  shows "deploymentSchema d"
proof -
  from assms have a: "zmember ''treasury'' (zstring address_text) j = Some (dj_treasury d)" "zmember ''conduit'' (zstring address_text) j = Some (dj_conduit d)"
    "zmember ''thresholdWeight'' (zstring bigint_text) j = Some (dj_thresholdWeight d)"
    "zmember ''allowlist'' (zarray (zstring address_text)) j = Some (dj_allowlist d)"
    and b: "zmember ''owners'' (zarray zowner) j = Some (dj_owners d)" "zoptional ''agent'' zagent j = Some (dj_agent d)"
    by (auto simp: zdeployment_def bind_eq_Some_conv)
  show ?thesis unfolding deploymentSchema_def
    using a by (auto dest: z_dests intro: zmember_all [OF b(1) zarray_all [OF _ z_parts_sound(4)]] zoptional_all [OF b(2) zagent_sound])
qed

lemma zstate_sound: "zod_sound zstate"
  unfolding zod_sound_def
proof (intro allI impI)
  fix j r
  assume "zstate j = Some r"
  then have a: "zoptional ''sessionPrivateKey'' (zstring private_key_text) j = Some (sj_sessionPrivateKey r)"
    "zmember ''deployments'' (zarray zdeployment) j = Some (sj_deployments r)"
    by (auto simp: zstate_def bind_eq_Some_conv)
  have "list_all deploymentSchema (sj_deployments r)"
    using a(2) by (elim zmember_all, elim zarray_all, elim zdeployment_sound)
  then show "stateSchema r" unfolding stateSchema_def using z_dests(5) [OF a(1)] by blast
qed

section \<open>Deployments by chain\<close>

text \<open>What the context relies on: the deployments are a table with one row per chain.\<close>

locale chain_table =
  fixes put :: "'s \<Rightarrow> 'd \<Rightarrow> 's" and get :: "'s \<Rightarrow> 'k \<Rightarrow> 'd option" and key :: "'d \<Rightarrow> 'k"
  assumes get_put: "get (put s d) k = (if k = key d then Some d else get s k)"
begin

lemma get_puts: "get (fold (\<lambda>d s. put s d) ds s) k = (case find (\<lambda>d. key d = k) (rev ds) of None \<Rightarrow> get s k | Some d \<Rightarrow> Some d)"
  by (induction ds arbitrary: s rule: rev_induct) (auto simp: get_put)

lemma put_put: "key d = key e \<Longrightarrow> get (put (put s d) e) = get (put s e)"
  by (auto simp: get_put)

lemma put_commute: "key d \<noteq> key e \<Longrightarrow> get (put (put s d) e) = get (put (put s e) d)"
  by (auto simp: get_put)

end

lemma find_append: "find P (xs @ ys) = (case find P xs of None \<Rightarrow> find P ys | Some x \<Rightarrow> Some x)"
  by (induction xs) auto

interpretation deployments: chain_table upsertDeployment findDeployment sd_chain
proof unfold_locales
  fix s :: AgentState and d :: StoredDeployment and k
  have "find (\<lambda>x. sd_chain x = k) (filter (\<lambda>x. sd_chain x \<noteq> sd_chain d) xs) = (if k = sd_chain d then None else find (\<lambda>x. sd_chain x = k) xs)"
    for xs :: "StoredDeployment list"
    by (induction xs) auto
  then show "findDeployment (upsertDeployment s d) k = (if k = sd_chain d then Some d else findDeployment s k)"
    by (simp add: findDeployment_def upsertDeployment_def find_append split: option.splits)
qed

section \<open>Properties\<close>

text \<open>(C10) The state file reads back: a storable state that is saved loads as itself, and whatever file was
  accepted, saving the state it gave and loading again gives the same state. The text in between is real
  JSON text; only the schema library and the number conversions are assumed.\<close>

theorem state_file_roundtrip:
  assumes "number_laws num text" "zod_accepts zod"
  shows "(storable s \<longrightarrow> loadState num zod (saveState text s) = Inr s)
    \<and> (zod_sound zod \<and> loadState num zod old = Inr s \<longrightarrow> loadState num zod (saveState text s) = Inr s)"
proof (intro conjI impI)
  have b: "loadState num zod (saveState text s) = Inr s" if "storable s"
    using state_back [OF assms that] by (simp add: loadState_def saveState_def)
  then show "loadState num zod (saveState text s) = Inr s" if "storable s" using that .
  assume a: "zod_sound zod \<and> loadState num zod old = Inr s"
  have "storable s"
  proof (cases old)
    case NoFile
    with a have "s = emptyState" by (simp add: loadState_def)
    then show ?thesis by (simp add: storable_def stateSchema_def stateToJson_def emptyState_def opt_all_def)
  qed (use a parsed_storable in \<open>auto simp: loadState_def\<close>)
  then show "loadState num zod (saveState text s) = Inr s" by (rule b)
qed

definition demo_state :: AgentState where
  "demo_state = \<lparr>as_sessionPrivateKey = None, as_deployments =
     [\<lparr>sd_chain = LOCAL, sd_treasury = ''0x'' @ replicate 40 CHR ''a'', sd_conduit = ''0x'' @ replicate 40 CHR ''b'',
       sd_owners = [\<lparr>ko_address = ''0x'' @ replicate 40 CHR ''1'', ko_weight = 1\<rparr>], sd_thresholdWeight = 12345678901234567890,
       sd_allowlist = [], sd_agent = None\<rparr>]\<rparr>"

theorem state_file_roundtrip_witness:
  "storable demo_state \<and> loadState Some zstate (saveState (\<lambda>q. dec_int \<lfloor>q\<rfloor>) demo_state) = Inr demo_state"
proof -
  have n: "number_laws Some (\<lambda>q. dec_int \<lfloor>q\<rfloor>)" by (simp add: number_laws_def)
  have h: "hex_text (''0x'' @ replicate 40 c) \<longleftrightarrow> is_hex_digit c" for c by (auto simp: hex_text_def list_all_iff)
  have "storable demo_state"
    unfolding storable_def stateSchema_def stateToJson_def demo_state_def deploymentToJson_def deploymentSchema_def opt_all_def address_text_def
    by (simp add: h del: append.simps) (simp add: is_hex_digit_def)
  with state_file_roundtrip [OF n zstate_accepts, THEN conjunct1] show ?thesis by blast
qed

text \<open>The deployments implement a table keyed by chain: as a map from chains to deployments, \<open>upsertDeployment\<close>
  is the map update, whatever the file held before; afterwards exactly one row has that chain, and rows of
  distinct chains stay distinct.\<close>

theorem deployments_are_a_map:
  "findDeployment (upsertDeployment s d) = (findDeployment s)(sd_chain d \<mapsto> d)
   \<and> length (filter (\<lambda>x. sd_chain x = sd_chain d) (as_deployments (upsertDeployment s d))) = 1
   \<and> as_sessionPrivateKey (upsertDeployment s d) = as_sessionPrivateKey s
   \<and> (distinct (map sd_chain (as_deployments s)) \<longrightarrow> distinct (map sd_chain (as_deployments (upsertDeployment s d))))"
proof (intro conjI impI)
  show "findDeployment (upsertDeployment s d) = (findDeployment s)(sd_chain d \<mapsto> d)" by (auto simp: deployments.get_put)
  show "distinct (map sd_chain (as_deployments (upsertDeployment s d)))" if "distinct (map sd_chain (as_deployments s))"
    using that by (auto simp: upsertDeployment_def distinct_map_filter)
qed (simp_all add: upsertDeployment_def)

theorem deployments_are_a_map_witness:
  "distinct (map sd_chain (as_deployments (upsertDeployment demo_state (hd (as_deployments demo_state)))))"
proof -
  have "distinct (map sd_chain (as_deployments demo_state))" by (simp add: demo_state_def)
  with deployments_are_a_map show ?thesis by blast
qed

end
