(* ===== verification/AG_Config.thy ===== *)
theory AG_Config
  imports AG_State
begin

text \<open>
  The configuration of the agent app (\<open>apps/agent/src/config.ts\<close>, \<open>kit.ts\<close>), read once from the environment: the
  chains, the owner keys of the quorum, the session key, the per-chain address overrides, the endpoints of
  the kit and the model provider. The environment is a map from names to texts; every message the source
  throws is a constructor of \<open>config_error\<close>.
\<close>

type_synonym env = "string \<rightharpoonup> string"

datatype config_error = NoProviderKey | UnknownChains "string list" | EmptyChains | OwnerKeysRequired | BadOwnerKey
  | NotTwoKeys nat | BadAddress string | BadSessionKey

text \<open>\<open>env.NAME?.trim()\<close>, and \<open>x || undefined\<close>.\<close>

definition env_trim :: "env \<Rightarrow> string \<Rightarrow> string option" where
  "env_trim env name = map_option trim (env name)"

definition nonempty :: "string option \<Rightarrow> string option" where
  "nonempty x = (case x of None \<Rightarrow> None | Some s \<Rightarrow> if s = '''' then None else Some s)"

definition env_text :: "env \<Rightarrow> string \<Rightarrow> string option" where
  "env_text env name = nonempty (env_trim env name)"

section \<open>Model provider\<close>

datatype LLMProvider = Anthropic | OpenAI

record ProviderConfig =
  pc_provider :: LLMProvider
  pc_providerApiKey :: string
  pc_model :: string

record AgentProviderConfig =
  apc_primary :: ProviderConfig
  apc_fallback :: "ProviderConfig option"

definition DEFAULT_ANTHROPIC_MODEL :: string where "DEFAULT_ANTHROPIC_MODEL = ''claude-opus-5''"
definition DEFAULT_OPENAI_MODEL :: string where "DEFAULT_OPENAI_MODEL = ''gpt-5.6-sol''"

definition loadProviderConfig :: "env \<Rightarrow> config_error + AgentProviderConfig" where
  "loadProviderConfig env =
     (let anthropicKey = env_text env ''ANTHROPIC_API_KEY''; openaiKey = env_text env ''OPENAI_API_KEY'';
          override = env_text env ''LLM_MODEL''
      in case anthropicKey of
           Some k \<Rightarrow> Inr \<lparr>apc_primary = \<lparr>pc_provider = Anthropic, pc_providerApiKey = k,
               pc_model = (case override of Some m \<Rightarrow> m | None \<Rightarrow> DEFAULT_ANTHROPIC_MODEL)\<rparr>,
             apc_fallback = map_option (\<lambda>o'. \<lparr>pc_provider = OpenAI, pc_providerApiKey = o', pc_model = DEFAULT_OPENAI_MODEL\<rparr>) openaiKey\<rparr>
         | None \<Rightarrow> (case openaiKey of
             Some k \<Rightarrow> Inr \<lparr>apc_primary = \<lparr>pc_provider = OpenAI, pc_providerApiKey = k,
                 pc_model = (case override of Some m \<Rightarrow> m | None \<Rightarrow> DEFAULT_OPENAI_MODEL)\<rparr>, apc_fallback = None\<rparr>
           | None \<Rightarrow> Inl NoProviderKey))"

section \<open>Chains and keys\<close>

definition ANVIL_OWNER_3 :: Hex where "ANVIL_OWNER_3 = ''0x7c852118294e51e653712a81e05800f419141751be58f605c371e15141b007a6''"
definition ANVIL_OWNER_4 :: Hex where "ANVIL_OWNER_4 = ''0x47e179ec197488593b187f80a00eb0da91f1b9d0b13f8733639f19c30a34926a''"

text \<open>The key a text names.\<close>

definition chain_named :: "string \<Rightarrow> TreasuryChainKey option" where
  "chain_named s = find (\<lambda>k. chain_text k = s) CHAIN_KEYS"

definition listed_chains :: "string option \<Rightarrow> string list" where
  "listed_chains raw = filter (\<lambda>s. s \<noteq> '''')
     (map (\<lambda>s. to_upper (trim s)) (split_on CHR '','' (case raw of None \<Rightarrow> ''LOCAL'' | Some s \<Rightarrow> s)))"

definition parseChains :: "string option \<Rightarrow> config_error + TreasuryChainKey list" where
  "parseChains raw =
     (let keys = listed_chains raw; bad = filter (\<lambda>k. chain_named k = None) keys
      in ebind (throw_if (bad \<noteq> []) (UnknownChains bad)) (\<lambda>_.
         ebind (throw_if (keys = []) EmptyChains) (\<lambda>_.
         Inr (List.map_filter chain_named (new_set keys)))))"

definition listed_keys :: "string option \<Rightarrow> string list" where
  "listed_keys raw = filter (\<lambda>s. s \<noteq> '''') (map trim (split_on CHR '','' (case raw of None \<Rightarrow> '''' | Some s \<Rightarrow> s)))"

definition parseOwnerKeys :: "string option \<Rightarrow> TreasuryChainKey list \<Rightarrow> config_error + Hex list" where
  "parseOwnerKeys raw keys =
     (let listed = listed_keys raw in
      if listed = [] then
        (let onlyLocal = list_all (\<lambda>c. c = LOCAL) keys
         in ebind (throw_if (\<not> onlyLocal) OwnerKeysRequired) (\<lambda>_. Inr [ANVIL_OWNER_3, ANVIL_OWNER_4]))
      else
        ebind (throw_if (\<not> list_all private_key_text listed) BadOwnerKey) (\<lambda>_.
        ebind (throw_if (length listed \<noteq> 2) (NotTwoKeys (length listed))) (\<lambda>_. Inr listed)))"

text \<open>\<open>key.replace(/-/g, '_')\<close>.\<close>

definition underscored :: "string \<Rightarrow> string" where
  "underscored s = map (\<lambda>c. if c = CHR ''-'' then CHR ''_'' else c) s"

definition chainEnvName :: "string \<Rightarrow> TreasuryChainKey \<Rightarrow> string" where
  "chainEnvName pre chain = pre @ ''_'' @ underscored (chain_text chain)"

definition readAddress :: "env \<Rightarrow> string \<Rightarrow> config_error + Address option" where
  "readAddress env name = (case env_text env name of None \<Rightarrow> Inr None
     | Some v \<Rightarrow> if \<not> address_text v then Inl (BadAddress name) else Inr (Some v))"

record ChainOverrides =
  co_conduit :: "Address option"
  co_router :: "Address option"
  co_vault :: "Address option"

definition loadChainOverrides :: "env \<Rightarrow> TreasuryChainKey \<Rightarrow> config_error + ChainOverrides" where
  "loadChainOverrides env chain =
     ebind (readAddress env (chainEnvName ''AGENT_CONDUIT'' chain)) (\<lambda>c.
     ebind (readAddress env (chainEnvName ''AGENT_SWAP_ROUTER'' chain)) (\<lambda>r.
     ebind (readAddress env (chainEnvName ''AGENT_EARN_VAULT'' chain)) (\<lambda>w.
     Inr \<lparr>co_conduit = c, co_router = r, co_vault = w\<rparr>)))"

section \<open>The kit's endpoints\<close>

record KitEnv =
  ke_circleClientUrl :: "string option"
  ke_circleClientKey :: "string option"
  ke_mockCircleUrl :: string
  ke_rpcUrls :: "TreasuryChainKey \<rightharpoonup> string"

definition loadKitEnv :: "env \<Rightarrow> KitEnv" where
  "loadKitEnv env =
     \<lparr>ke_circleClientUrl = env_text env ''CIRCLE_CLIENT_URL'', ke_circleClientKey = env_text env ''CIRCLE_CLIENT_KEY'',
      ke_mockCircleUrl = (case env_text env ''MOCK_CIRCLE_URL'' of Some u \<Rightarrow> u | None \<Rightarrow> ''http://127.0.0.1:8788/v1/rpc/w3s/buidl''),
      ke_rpcUrls = fold (\<lambda>key m. case env_text env (chainEnvName ''RPC_URL'' key) of None \<Rightarrow> m | Some url \<Rightarrow> m(key \<mapsto> url)) CHAIN_KEYS Map.empty\<rparr>"

datatype kit_mode = StubKit | RealKit

definition kitMode :: "env \<Rightarrow> kit_mode" where
  "kitMode env = (if map_option to_lower (env_trim env ''AGENT_KIT'') = Some ''stub'' then StubKit else RealKit)"

section \<open>The configuration\<close>

record AgentConfig =
  ac_provider :: AgentProviderConfig
  ac_chains :: "TreasuryChainKey list"
  ac_ownerKeys :: "Hex list"
  ac_ownerAddresses :: "Address list"
  ac_sessionKeyFromEnv :: "Hex option"
  ac_kitEnv :: KitEnv
  ac_overrides :: "TreasuryChainKey \<Rightarrow> config_error + ChainOverrides"
  ac_statePath :: string

definition loadConfig :: "Viem \<Rightarrow> env \<Rightarrow> string \<Rightarrow> config_error + AgentConfig" where
  "loadConfig v env statePath =
     ebind (parseChains (env ''AGENT_CHAINS'')) (\<lambda>chains.
     ebind (parseOwnerKeys (env ''TREASURY_OWNER_KEYS'') chains) (\<lambda>ownerKeys.
     let sessionKey = env_text env ''AGENT_SESSION_KEY'' in
     ebind (throw_if (\<not> opt_all private_key_text sessionKey) BadSessionKey) (\<lambda>_.
     ebind (loadProviderConfig env) (\<lambda>provider.
     Inr \<lparr>ac_provider = provider, ac_chains = chains, ac_ownerKeys = ownerKeys,
          ac_ownerAddresses = map (v_privateKeyToAddress v) ownerKeys, ac_sessionKeyFromEnv = sessionKey,
          ac_kitEnv = loadKitEnv env, ac_overrides = loadChainOverrides env, ac_statePath = statePath\<rparr>))))"

section \<open>Properties\<close>

lemma chain_named_iff [simp]: "chain_named s = Some k \<longleftrightarrow> s = chain_text k"
  by (cases k) (auto simp: chain_named_def CHAIN_KEYS_def split: if_splits)

lemma chain_named_None: "chain_named s = None \<longleftrightarrow> (\<forall>k. s \<noteq> chain_text k)"
  by (metis chain_named_iff not_None_eq)

lemma map_filter_set [simp]: "set (List.map_filter f xs) = {y. \<exists>x \<in> set xs. f x = Some y}"
  by (force simp: List.map_filter_def)

lemma distinct_named: "distinct xs \<Longrightarrow> distinct (List.map_filter chain_named xs)"
  by (induction xs) (auto simp: List.map_filter_simps split: option.splits)

lemma named_listed: "set (List.map_filter chain_named (new_set l)) = {k. chain_text k \<in> set l}"
  by auto

lemma chains_listed:
  assumes "parseChains raw = Inr ks"
  shows "ks \<noteq> [] \<and> distinct ks \<and> set ks = {k. chain_text k \<in> set (listed_chains raw)}"
proof -
  let ?l = "listed_chains raw"
  from assms have l: "?l \<noteq> []" "\<forall>s \<in> set ?l. \<exists>k. s = chain_text k" "ks = List.map_filter chain_named (new_set ?l)"
    by (auto simp: parseChains_def res_simps Let_def filter_empty_conv chain_named_None)
  have "ks \<noteq> []"
  proof
    assume "ks = []"
    with l(3) named_listed [of ?l] have "\<forall>k. chain_text k \<notin> set ?l" by (simp add: set_eq_iff)
    with l(1,2) show False by (cases ?l) fastforce+
  qed
  with l(3) show ?thesis by (simp add: distinct_named)
qed

text \<open>The chains of the configuration: when the list is accepted it is not empty, has each chain once and names
  exactly the chains that are listed up to case and blanks; it is refused exactly when some entry is no chain,
  with all such entries in order, or when there is no entry at all.\<close>

theorem configured_chains:
  "(\<forall>ks. parseChains raw = Inr ks \<longrightarrow> ks \<noteq> [] \<and> distinct ks \<and> set ks = {k. chain_text k \<in> set (listed_chains raw)})
   \<and> ((\<exists>ks. parseChains raw = Inr ks) \<longleftrightarrow> listed_chains raw \<noteq> [] \<and> (\<forall>s \<in> set (listed_chains raw). \<exists>k. s = chain_text k))
   \<and> (\<forall>bad. parseChains raw = Inl (UnknownChains bad) \<longrightarrow> bad \<noteq> [] \<and> bad = filter (\<lambda>s. \<forall>k. s \<noteq> chain_text k) (listed_chains raw))"
proof -
  have "filter (\<lambda>s. \<forall>k. s \<noteq> chain_text k) (listed_chains raw) = [] \<longleftrightarrow> (\<forall>s \<in> set (listed_chains raw). \<exists>k. s = chain_text k)"
    by (simp add: filter_empty_conv)
  then show ?thesis
    using chains_listed [of raw] by (auto simp: parseChains_def res_simps Let_def chain_named_None)
qed

theorem configured_chains_witness:
  "parseChains (Some ''local, ARC,local,'') = Inr [LOCAL, ARC] \<and> distinct [LOCAL, ARC] \<and> set [LOCAL, ARC] = {k. chain_text k \<in> {''LOCAL'', ''ARC''}}
   \<and> parseChains (Some ''ARC,mars'') = Inl (UnknownChains [''MARS''])"
proof -
  have a: "parseChains (Some ''local, ARC,local,'') = Inr [LOCAL, ARC]" and l: "listed_chains (Some ''local, ARC,local,'') = [''LOCAL'', ''ARC'', ''LOCAL'']"
    and b: "parseChains (Some ''ARC,mars'') = Inl (UnknownChains [''MARS''])" by code_simp+
  from configured_chains [THEN conjunct1, rule_format, OF a] have "set [LOCAL, ARC] = {k. chain_text k \<in> {''LOCAL'', ''ARC''}}"
    unfolding l by auto
  with a b show ?thesis by simp
qed

lemma anvil_keys: "private_key_text ANVIL_OWNER_3" "private_key_text ANVIL_OWNER_4"
  by code_simp+

lemma owner_keys:
  "parseOwnerKeys raw on = Inr ks \<longleftrightarrow>
     (if listed_keys raw = [] then (\<forall>c \<in> set on. c = LOCAL) \<and> ks = [ANVIL_OWNER_3, ANVIL_OWNER_4]
      else ks = listed_keys raw \<and> length ks = 2 \<and> list_all private_key_text ks)"
  by (auto simp: parseOwnerKeys_def Let_def res_simps list_all_iff)

text \<open>(C35) A loaded configuration is sound: it has chains, each once, exactly two owner keys of the right form and
  their addresses, a session key only of the right form, and the public test keys stand in for missing owner
  keys only when every chain is the local one; on any other chain the keys are the ones the environment lists.\<close>

theorem config_sound:
  assumes "loadConfig v env path = Inr c"
  shows "ac_chains c \<noteq> [] \<and> distinct (ac_chains c) \<and> length (ac_ownerKeys c) = 2 \<and> list_all private_key_text (ac_ownerKeys c)
    \<and> ac_ownerAddresses c = map (v_privateKeyToAddress v) (ac_ownerKeys c)
    \<and> (\<forall>k. ac_sessionKeyFromEnv c = Some k \<longrightarrow> private_key_text k)
    \<and> (ac_ownerKeys c = listed_keys (env ''TREASURY_OWNER_KEYS'')
       \<or> (ac_ownerKeys c = [ANVIL_OWNER_3, ANVIL_OWNER_4] \<and> set (ac_chains c) = {LOCAL}))"
proof -
  from assms obtain p where c: "parseChains (env ''AGENT_CHAINS'') = Inr (ac_chains c)"
    "parseOwnerKeys (env ''TREASURY_OWNER_KEYS'') (ac_chains c) = Inr (ac_ownerKeys c)"
    "opt_all private_key_text (ac_sessionKeyFromEnv c)" "ac_ownerAddresses c = map (v_privateKeyToAddress v) (ac_ownerKeys c)"
    by (auto simp: loadConfig_def Let_def res_simps)
  have "ac_chains c \<noteq> []" "distinct (ac_chains c)" using chains_listed [OF c(1)] by auto
  moreover have "set (ac_chains c) = {LOCAL}" if "\<forall>k \<in> set (ac_chains c). k = LOCAL"
    using that \<open>ac_chains c \<noteq> []\<close> by (cases "ac_chains c") auto
  ultimately show ?thesis
    using c(2-4) anvil_keys by (auto simp: owner_keys opt_all_def split: if_splits option.splits)
qed

definition demo_env :: env where
  "demo_env = [''AGENT_CHAINS'' \<mapsto> ''arc-testnet'', ''ANTHROPIC_API_KEY'' \<mapsto> ''key'',
     ''TREASURY_OWNER_KEYS'' \<mapsto> ''0x'' @ replicate 64 CHR ''1'' @ '', 0x'' @ replicate 64 CHR ''2'']"

theorem config_sound_witness:
  "\<forall>v. \<exists>c. loadConfig v demo_env ''.agent-state.json'' = Inr c \<and> ac_chains c = [ARC_TESTNET] \<and> length (ac_ownerKeys c) = 2"
proof
  fix v
  have e: "demo_env ''AGENT_CHAINS'' = Some ''arc-testnet''" "env_text demo_env ''AGENT_SESSION_KEY'' = None" "env_text demo_env ''ANTHROPIC_API_KEY'' = Some ''key''"
    by (simp_all add: demo_env_def env_text_def env_trim_def nonempty_def trim_def is_space_def)
  have c: "parseChains (Some ''arc-testnet'') = Inr [ARC_TESTNET]" by code_simp
  have "parseOwnerKeys (demo_env ''TREASURY_OWNER_KEYS'') [ARC_TESTNET] = Inr [''0x'' @ replicate 64 CHR ''1'', ''0x'' @ replicate 64 CHR ''2'']"
    by code_simp
  then obtain c where l: "loadConfig v demo_env ''.agent-state.json'' = Inr c" "ac_chains c = [ARC_TESTNET]"
    by (auto simp: loadConfig_def e c opt_all_def loadProviderConfig_def)
  from config_sound [OF l(1)] l show "\<exists>c. loadConfig v demo_env ''.agent-state.json'' = Inr c \<and> ac_chains c = [ARC_TESTNET] \<and> length (ac_ownerKeys c) = 2"
    by blast
qed

text \<open>Per-chain settings do not mix: the names of the four kinds of per-chain setting are distinct for distinct
  chains, and the endpoints the kit gets are, chain by chain, the texts of the environment under those names.\<close>

theorem per_chain_settings:
  "inj_on (\<lambda>(p, k). chainEnvName p k) ({''AGENT_CONDUIT'', ''AGENT_SWAP_ROUTER'', ''AGENT_EARN_VAULT'', ''RPC_URL''} \<times> UNIV)
   \<and> ke_rpcUrls (loadKitEnv env) = (\<lambda>k. env_text env (chainEnvName ''RPC_URL'' k))"
proof
  have u: "underscored (chain_text a) = underscored (chain_text b) \<longleftrightarrow> a = b" for a b
    by (cases a; cases b) (simp_all add: underscored_def)
  show "inj_on (\<lambda>(p, k). chainEnvName p k) ({''AGENT_CONDUIT'', ''AGENT_SWAP_ROUTER'', ''AGENT_EARN_VAULT'', ''RPC_URL''} \<times> UNIV)"
    by (auto simp: inj_on_def chainEnvName_def u)
  have "fold (\<lambda>key m. case f key of None \<Rightarrow> m | Some url \<Rightarrow> m(key \<mapsto> url)) ks m = (\<lambda>k. if k \<in> set ks \<and> f k \<noteq> None then f k else m k)"
    for f :: "TreasuryChainKey \<rightharpoonup> string" and ks m
    by (induction ks arbitrary: m) (auto simp: fun_eq_iff split: option.splits)
  then show "ke_rpcUrls (loadKitEnv env) = (\<lambda>k. env_text env (chainEnvName ''RPC_URL'' k))"
    by (auto simp: loadKitEnv_def CHAIN_KEYS_all)
qed

text \<open>The two owner keys may be one: the count of two is a count of entries, and one key listed twice is accepted
  as the keys of a two-of-two treasury.\<close>

theorem one_owner_key_twice:
  "parseOwnerKeys (Some (''0x'' @ replicate 64 CHR ''1'' @ '',0x'' @ replicate 64 CHR ''1'')) [ARC]
   = Inr [''0x'' @ replicate 64 CHR ''1'', ''0x'' @ replicate 64 CHR ''1'']"
  by code_simp

end
