(* ===== verification/AG_Context.thy ===== *)
theory AG_Context
  imports AG_Config
begin

text \<open>
  The session context (\<open>apps/agent/src/context.ts\<close>): the session key, the chains with the overrides of this app,
  and the deployments in memory and in the state file. The state file is a value of type \<open>state_file\<close>; what a
  context function does to it is the new value. The kit is any: its chain table, \<open>withConduit\<close> and the signer
  of a local key are arguments, and so is the key \<open>generatePrivateKey\<close> returns.
\<close>

datatype context_error = StateError state_error | ConfigError config_error | NoConduitAddress TreasuryChainKey
  | NoDeployment TreasuryChainKey | NotConfigured string | SeveralChains

record TreasuryContext =
  cx_config :: AgentConfig
  cx_state :: AgentState
  cx_sessionKey :: OwnerSigner
  cx_ownerSigners :: "OwnerSigner list"



text \<open>The chain of the kit with the overrides applied.\<close>

definition override_targets :: "ChainOverrides \<Rightarrow> string \<rightharpoonup> Address" where
  "override_targets ov =
     (let t = (case co_router ov of None \<Rightarrow> Map.empty | Some r \<Rightarrow> if r = '''' then Map.empty else [''router'' \<mapsto> r])
      in case co_vault ov of None \<Rightarrow> t | Some w \<Rightarrow> if w = '''' then t else t(''vault'' \<mapsto> w))"

definition chainOf ::
  "(TreasuryChainKey \<Rightarrow> TreasuryChain) \<Rightarrow> (TreasuryChain \<Rightarrow> Address \<Rightarrow> (string \<rightharpoonup> Address) \<Rightarrow> TreasuryChain) \<Rightarrow> AgentConfig
    \<Rightarrow> TreasuryChainKey \<Rightarrow> context_error + TreasuryChain" where
  "chainOf chain with_conduit config key =
     (let base = chain key in
      case ac_overrides config key of
        Inl e \<Rightarrow> Inl (ConfigError e)
      | Inr ov \<Rightarrow>
          let conduit = (case co_conduit ov of Some c \<Rightarrow> Some c | None \<Rightarrow> tc_conduit base);
              targets = override_targets ov
          in case nonempty conduit of
               None \<Rightarrow> Inr (base\<lparr>tc_targets := tc_targets base ++ targets\<rparr>)
             | Some c \<Rightarrow> Inr (with_conduit base c targets))"

definition contextConduit ::
  "(TreasuryChainKey \<Rightarrow> TreasuryChain) \<Rightarrow> (TreasuryChain \<Rightarrow> Address \<Rightarrow> (string \<rightharpoonup> Address) \<Rightarrow> TreasuryChain) \<Rightarrow> AgentConfig
    \<Rightarrow> TreasuryChainKey \<Rightarrow> context_error + Address" where
  "contextConduit chain with_conduit config key =
     ebind (chainOf chain with_conduit config key) (\<lambda>c.
     case nonempty (tc_conduit c) of None \<Rightarrow> Inl (NoConduitAddress key) | Some a \<Rightarrow> Inr a)"

definition recordDeployment :: "(rat \<Rightarrow> string) \<Rightarrow> StoredDeployment \<Rightarrow> TreasuryContext \<Rightarrow> TreasuryContext \<times> state_file" where
  "recordDeployment text d ctx =
     (let s = cx_state ctx; s' = s\<lparr>as_deployments := filter (\<lambda>x. sd_chain x \<noteq> sd_chain d) (as_deployments s) @ [d]\<rparr>
      in (ctx\<lparr>cx_state := s'\<rparr>, saveState text s'))"

definition requireDeployment :: "TreasuryContext \<Rightarrow> TreasuryChainKey \<Rightarrow> context_error + StoredDeployment" where
  "requireDeployment ctx key = (case findDeployment (cx_state ctx) key of None \<Rightarrow> Inl (NoDeployment key) | Some d \<Rightarrow> Inr d)"

definition resolveChain :: "AgentConfig \<Rightarrow> string option \<Rightarrow> context_error + TreasuryChainKey" where
  "resolveChain config key =
     (case nonempty (map_option trim key) of
        Some s \<Rightarrow> (let k = to_upper s in case chain_named k of
            Some c \<Rightarrow> if c \<in> set (ac_chains config) then Inr c else Inl (NotConfigured k)
          | None \<Rightarrow> Inl (NotConfigured k))
      | None \<Rightarrow> (case ac_chains config of [c] \<Rightarrow> Inr c | _ \<Rightarrow> Inl SeveralChains))"

section \<open>Memory and file\<close>



lemma record_is_upsert: "recordDeployment text d ctx
    = (ctx\<lparr>cx_state := upsertDeployment (cx_state ctx) d\<rparr>, saveState text (upsertDeployment (cx_state ctx) d))"
  by (simp add: recordDeployment_def upsertDeployment_def Let_def)






section \<open>Properties\<close>


definition demo_config :: AgentConfig where
  "demo_config = \<lparr>ac_provider = \<lparr>apc_primary = \<lparr>pc_provider = Anthropic, pc_providerApiKey = ''key'', pc_model = DEFAULT_ANTHROPIC_MODEL\<rparr>, apc_fallback = None\<rparr>,
     ac_chains = [LOCAL], ac_ownerKeys = [ANVIL_OWNER_3, ANVIL_OWNER_4], ac_ownerAddresses = [], ac_sessionKeyFromEnv = None,
     ac_kitEnv = loadKitEnv Map.empty, ac_overrides = loadChainOverrides Map.empty, ac_statePath = ''.agent-state.json''\<rparr>"


text \<open>The context finds what was recorded: after any recordings, the deployment required for a chain is the last
  one recorded for it, or the one that was there before; a chain that never had one is refused by name.\<close>

theorem recorded_deployments:
  "requireDeployment (fold (\<lambda>d c. fst (recordDeployment text d c)) ds ctx) key =
     (case find (\<lambda>d. sd_chain d = key) (rev ds) of Some d \<Rightarrow> Inr d
      | None \<Rightarrow> (case findDeployment (cx_state ctx) key of Some d \<Rightarrow> Inr d | None \<Rightarrow> Inl (NoDeployment key)))"
proof -
  have "cx_state (fold (\<lambda>d c. fst (recordDeployment text d c)) ds ctx) = fold (\<lambda>d s. upsertDeployment s d) ds (cx_state ctx)"
    by (induction ds arbitrary: ctx) (simp_all add: record_is_upsert)
  then show ?thesis by (simp add: requireDeployment_def deployments.get_puts split: option.splits)
qed

text \<open>A tool only acts on a configured chain: a resolved chain is one of the configured ones, each of them is
  reached by its name, and no name resolves only when there is exactly one.\<close>

theorem resolved_chain_configured:
  "(\<forall>key k. resolveChain config key = Inr k \<longrightarrow> k \<in> set (ac_chains config))
   \<and> (\<forall>k \<in> set (ac_chains config). resolveChain config (Some (chain_text k)) = Inr k)
   \<and> (\<forall>k. resolveChain config None = Inr k \<longleftrightarrow> ac_chains config = [k])"
proof (intro conjI allI ballI impI)
  show "k \<in> set (ac_chains config)" if "resolveChain config key = Inr k" for key k
    using that by (auto simp: resolveChain_def Let_def split: option.splits if_splits list.splits)
  have t: "trim (chain_text k) = chain_text k" "to_upper (chain_text k) = chain_text k" "chain_text k \<noteq> ''''" for k
    by (cases k; simp add: trim_def is_space_def to_upper_def upper_char_def)+
  show "resolveChain config (Some (chain_text k)) = Inr k" if "k \<in> set (ac_chains config)" for k
  proof -
    have n: "chain_named (chain_text k) = Some k" by simp
    show ?thesis using that by (simp add: resolveChain_def nonempty_def t Let_def n del: chain_named_iff)
  qed
  show "resolveChain config None = Inr k \<longleftrightarrow> ac_chains config = [k]" for k
    by (auto simp: resolveChain_def nonempty_def split: list.splits)
qed

theorem resolved_chain_configured_witness:
  "resolveChain demo_config (Some '' local '') = Inr LOCAL \<and> LOCAL \<in> set (ac_chains demo_config)"
proof -
  have c: "ac_chains demo_config = [LOCAL]" by (simp add: demo_config_def)
  have "nonempty (map_option trim (Some '' local '')) = Some ''local''" "to_upper ''local'' = ''LOCAL''" "chain_named ''LOCAL'' = Some LOCAL" by code_simp+
  then have r: "resolveChain demo_config (Some '' local '') = Inr LOCAL" by (simp add: resolveChain_def c Let_def del: chain_named_iff)
  from resolved_chain_configured [THEN conjunct1, rule_format, OF r] r show ?thesis by blast
qed

end
