(* ===== verification/CR_Values.thy ===== *)
theory CR_Values
  imports Json_Text "HOL-Library.Multiset" "HOL-Library.List_Lexorder" "HOL-Library.Char_ord"
begin

text \<open>
  The values the evidence module takes from outside (\<open>packages/cre/src/evidence.ts\<close>): checked references and
  integers, decimals in canonical form, and the deterministic JSON text whose hash is a commitment. A value of
  type \<open>unknown\<close> is a \<open>JsValue\<close>; \<open>VOther\<close> stands for functions, symbols and big integers, with the text
  \<open>String(value)\<close> gives. Text is the bytes of its UTF-8 form; \<open>.length\<close> counts its UTF-16 units
  (\<open>text_length\<close>), and keys are ordered by their bytes, which is the order of their units but for keys that differ
  between a character beyond the basic plane and one of U+E000 to U+FFFF.
\<close>

datatype JsValue = VUndefined | VNull | VBool bool | VNum rat | VNotFinite | VStr string | VArr "JsValue list"
  | VObj "(string \<times> JsValue) list" | VOther string

datatype cre_error = BadReference string | NotInteger string | BadDecimal | NonFinite | HasUndefined | UnsupportedValue
  | BadContractEvent | BadWorkspace | BadPhase string | BadAgreement | BadChainId | NotReady string | BadTtl | TokenTooLarge
  | BadToken | TokenExpired | BadLifetime | NotExecuted | BadRecipientCount | BadRecipients | BadRecipientGroup | BadRecipient
  | CountMismatch | NotCompleted | IncompleteSources | NotAttestable | NotPaid | BadItems | BadSettlement
  | BadCommitment string | BadResponse | BadItemsHash | BadKind

text \<open>Reading a member of an object, truth of a value, \<open>Number.isSafeInteger\<close>.\<close>

fun member :: "JsValue \<Rightarrow> string \<Rightarrow> JsValue" where
  "member (VObj kvs) k = (case map_of kvs k of None \<Rightarrow> VUndefined | Some v \<Rightarrow> v)"
| "member v k = VUndefined"

fun truthy :: "JsValue \<Rightarrow> bool" where
  "truthy VUndefined = False"
| "truthy VNull = False"
| "truthy (VBool b) = b"
| "truthy (VNum q) = (q \<noteq> 0)"
| "truthy VNotFinite = True"
| "truthy (VStr s) = (s \<noteq> '''')"
| "truthy (VArr xs) = True"
| "truthy (VObj kvs) = True"
| "truthy (VOther s) = (s \<noteq> ''0'')"

definition safe_integer :: "rat \<Rightarrow> bool" where
  "safe_integer q = (snd (quotient_of q) = 1 \<and> \<bar>q\<bar> \<le> 2 ^ 53 - 1)"

section \<open>Checked scalars\<close>

definition MAX_REFERENCE_LENGTH :: nat where "MAX_REFERENCE_LENGTH = 256"

definition control_char :: "char \<Rightarrow> bool" where
  "control_char c = (let n = of_char c :: nat in n < 32 \<or> n = 127)"

text \<open>UTF-16 units of a text in UTF-8: a byte that continues a character adds none, one that opens a character of four bytes adds two.\<close>

definition text_length :: "string \<Rightarrow> nat" where
  "text_length s = sum_list (map (\<lambda>c. let n = of_char c :: nat in if 128 \<le> n \<and> n < 192 then 0 else if 240 \<le> n then 2 else 1) s)"

definition reference_text :: "string \<Rightarrow> bool" where
  "reference_text s = (s \<noteq> '''' \<and> text_length s \<le> MAX_REFERENCE_LENGTH \<and> \<not> list_ex control_char s)"

definition requiredReference :: "JsValue \<Rightarrow> string \<Rightarrow> cre_error + string" where
  "requiredReference value field = (case value of
     VStr s \<Rightarrow> if reference_text s then Inr s else Inl (BadReference field)
   | _ \<Rightarrow> Inl (BadReference field))"

definition requiredInteger :: "JsValue \<Rightarrow> string \<Rightarrow> cre_error + int" where
  "requiredInteger value field = (case value of
     VNum q \<Rightarrow> if safe_integer q then Inr \<lfloor>q\<rfloor> else Inl (NotInteger field)
   | _ \<Rightarrow> Inl (NotInteger field))"

section \<open>Decimals\<close>

text \<open>\<open>String(value)\<close>: an array is its elements joined by commas, \<open>null\<close> and \<open>undefined\<close> among them as empty texts.\<close>

fun js_String :: "(rat \<Rightarrow> string) \<Rightarrow> JsValue \<Rightarrow> string" where
  "js_String text VUndefined = ''undefined''"
| "js_String text VNull = ''null''"
| "js_String text (VBool b) = (if b then ''true'' else ''false'')"
| "js_String text (VNum q) = text q"
| "js_String text VNotFinite = ''NaN''"
| "js_String text (VStr s) = s"
| "js_String text (VArr xs) = join_text '','' (map (\<lambda>x. case x of VUndefined \<Rightarrow> '''' | VNull \<Rightarrow> '''' | _ \<Rightarrow> js_String text x) xs)"
| "js_String text (VObj kvs) = ''[object Object]''"
| "js_String text (VOther s) = s"

text \<open>The grammar: digits, and possibly a point and more digits.\<close>

definition decimal_form :: "string \<Rightarrow> bool" where
  "decimal_form s = (case split_on CHR ''.'' s of
     [i] \<Rightarrow> i \<noteq> '''' \<and> list_all is_digit i
   | [i, f] \<Rightarrow> i \<noteq> '''' \<and> list_all is_digit i \<and> f \<noteq> '''' \<and> list_all is_digit f
   | _ \<Rightarrow> False)"

text \<open>Leading zeros before another digit go, trailing zeros go.\<close>

definition strip_leading :: "string \<Rightarrow> string" where
  "strip_leading s = (case dropWhile (\<lambda>c. c = CHR ''0'') s of [] \<Rightarrow> ''0'' | t \<Rightarrow> t)"

definition strip_trailing :: "string \<Rightarrow> string" where
  "strip_trailing s = rev (dropWhile (\<lambda>c. c = CHR ''0'') (rev s))"

definition canonical_parts :: "string \<Rightarrow> string \<Rightarrow> string" where
  "canonical_parts i f = (let ni = strip_leading i; nf = strip_trailing f in if nf \<noteq> '''' then ni @ ''.'' @ nf else ni)"

definition canonicalDecimal :: "(rat \<Rightarrow> string) \<Rightarrow> JsValue \<Rightarrow> cre_error + string" where
  "canonicalDecimal text value =
     (let raw = js_String text value in
      if \<not> decimal_form raw then Inl BadDecimal
      else Inr (case split_on CHR ''.'' raw of i # f # _ \<Rightarrow> canonical_parts i f | [i] \<Rightarrow> canonical_parts i '''' | [] \<Rightarrow> canonical_parts ''0'' ''''))"

section \<open>Deterministic JSON\<close>

lemma emap_cong [fundef_cong]: "xs = ys \<Longrightarrow> (\<And>x. x \<in> set ys \<Longrightarrow> f x = g x) \<Longrightarrow> emap f xs = emap g ys"
  by (induction xs arbitrary: ys) auto

text \<open>The members of an object by key (each key occurs once, so sorting the keys sorts the members).\<close>

function stableStringify :: "(rat \<Rightarrow> string) \<Rightarrow> JsValue \<Rightarrow> cre_error + string" where
  "stableStringify text VNull = Inr ''null''"
| "stableStringify text (VBool b) = Inr (if b then ''true'' else ''false'')"
| "stableStringify text (VStr s) = Inr (quote_text s)"
| "stableStringify text VNotFinite = Inl NonFinite"
| "stableStringify text (VNum q) = Inr (text q)"
| "stableStringify text (VArr xs) = ebind (emap (stableStringify text) xs) (\<lambda>parts. Inr (''['' @ join_text '','' parts @ '']''))"
| "stableStringify text (VObj kvs) =
     ebind (emap (\<lambda>(k, x). ebind (throw_if (x = VUndefined) HasUndefined) (\<lambda>_.
              ebind (stableStringify text x) (\<lambda>p. Inr (quote_text k @ '':'' @ p)))) (sort_key fst kvs))
       (\<lambda>entries. Inr (''{'' @ join_text '','' entries @ ''}''))"
| "stableStringify text VUndefined = Inl UnsupportedValue"
| "stableStringify text (VOther s) = Inl UnsupportedValue"
  by pat_completeness auto
termination
proof (relation "measure (\<lambda>(t, v). size v)")
  show "((text, x), text, VObj kvs) \<in> measure (\<lambda>(t, v). size v)" if "z \<in> set (sort_key fst kvs)" "(k, x) = z" for z k x "text" and kvs :: "(string \<times> JsValue) list"
    using that by (auto dest!: size_list_estimation' [where f = "size_prod (\<lambda>_. 0) size", OF _ order_refl])
qed (auto simp: less_Suc_eq_le size_list_estimation')

section \<open>The text determines the value\<close>

text \<open>A value up to the order of members, as JSON.\<close>

function normal :: "JsValue \<Rightarrow> JsonValue" where
  "normal VNull = JNull"
| "normal (VBool b) = JBool b"
| "normal (VStr s) = JStr s"
| "normal VNotFinite = JInf"
| "normal (VNum q) = JNum q"
| "normal (VArr xs) = JArr (map normal xs)"
| "normal (VObj kvs) = JObj (map (\<lambda>(k, x). (k, normal x)) (sort_key fst kvs))"
| "normal VUndefined = JNull"
| "normal (VOther s) = JNull"
  by pat_completeness auto
termination
proof (relation "measure size")
  show "(x, VObj kvs) \<in> measure size" if "z \<in> set (sort_key fst kvs)" "(k, x) = z" for z k x and kvs :: "(string \<times> JsValue) list"
    using that by (auto dest!: size_list_estimation' [where f = "size_prod (\<lambda>_. 0) size", OF _ order_refl])
qed (auto simp: less_Suc_eq_le size_list_estimation')

text \<open>Values that JSON can carry: no \<open>undefined\<close>, no functions, numbers that read back, each key once.\<close>

fun plain :: "(rat \<Rightarrow> rat option) \<Rightarrow> (rat \<Rightarrow> string) \<Rightarrow> JsValue \<Rightarrow> bool" where
  "plain num text VNull = True"
| "plain num text (VBool b) = True"
| "plain num text (VStr s) = True"
| "plain num text VNotFinite = False"
| "plain num text (VNum q) = reads_back num text q"
| "plain num text (VArr xs) = (\<forall>x \<in> set xs. plain num text x)"
| "plain num text (VObj kvs) = (distinct (map fst kvs) \<and> (\<forall>(k, x) \<in> set kvs. plain num text x))"
| "plain num text VUndefined = False"
| "plain num text (VOther s) = False"

lemma compact_block: "block '''' opening closing '''' parts = opening # join_text '','' parts @ [closing]"
  by (simp add: block_def line_break_def)

text \<open>The deterministic text is the compact JSON text of the normal form.\<close>

lemma stable_is_compact: "plain num text v \<Longrightarrow> stableStringify text v = Inr (stringify text '''' '''' (normal v))"
proof (induction v rule: normal.induct)
  case (6 xs)
  then have "emap (stableStringify text) xs = Inr (map (\<lambda>x. stringify text '''' '''' (normal x)) xs)" by (intro emap_InrI) auto
  then show ?case by (simp add: compact_block o_def)
next
  case (7 kvs)
  have "emap (\<lambda>(k, x). ebind (throw_if (x = VUndefined) HasUndefined) (\<lambda>_. ebind (stableStringify text x) (\<lambda>p. Inr (quote_text k @ '':'' @ p)))) (sort_key fst kvs)
      = Inr (map (\<lambda>(k, x). quote_text k @ '':'' @ stringify text '''' '''' (normal x)) (sort_key fst kvs))"
  proof (rule emap_InrI)
    fix z
    assume z: "z \<in> set (sort_key fst kvs)"
    obtain k x where kx: "z = (k, x)" by (cases z)
    have x: "plain num text x" using 7(2) z by (auto simp: kx)
    then have "x \<noteq> VUndefined" by auto
    with 7(1) [OF z kx [symmetric] x] show "(case z of (k, x) \<Rightarrow> ebind (throw_if (x = VUndefined) HasUndefined)
        (\<lambda>_. ebind (stableStringify text x) (\<lambda>p. Inr (quote_text k @ '':'' @ p))))
      = Inr (case z of (k, x) \<Rightarrow> quote_text k @ '':'' @ stringify text '''' '''' (normal x))" by (simp add: kx)
  qed
  then show ?case by (simp add: compact_block o_def colon_gap_def split_def)
qed simp_all

lemma sort_key_distinct: "distinct (map fst kvs) \<Longrightarrow> distinct (map fst (sort_key fst kvs))" for kvs :: "(string \<times> 'a) list"
  by (simp add: distinct_map)

lemma printable_normal: "plain num text v \<Longrightarrow> printable num text (normal v)"
proof (induction v rule: normal.induct)
  case (7 kvs)
  then have "distinct (map fst (map (\<lambda>(k, x). (k, normal x)) (sort_key fst kvs)))"
    using sort_key_distinct [of kvs] by (simp add: o_def case_prod_beta)
  with 7 show ?case by fastforce
qed simp_all

lemma stable_parses:
  "plain num text v \<Longrightarrow> stableStringify text v = Inr s \<Longrightarrow> JSON_parse num s = Some (normal v)"
  using stringify_back [OF printable_normal, where gap = "''''" and w = "''''"] by (auto simp: stable_is_compact)

text \<open>The order of the members does not matter.\<close>

lemma normal_perm:
  assumes "distinct (map fst kvs)" "mset kvs = mset kvs'"
  shows "normal (VObj kvs) = normal (VObj kvs')"
proof -
  have "inj_on fst (set kvs)" using assms(1) by (simp add: distinct_map)
  then have "sort_key fst kvs = sort_key fst kvs'"
    using assms(2) by (intro sort_key_inj_key_eq) simp_all
  then show ?thesis by simp
qed

section \<open>Canonical decimals\<close>

text \<open>The number a decimal text denotes.\<close>

definition decimal_value :: "string \<Rightarrow> rat" where
  "decimal_value s = (case split_on CHR ''.'' s of
     [i] \<Rightarrow> of_nat (undec i) | i # f # _ \<Rightarrow> of_nat (undec i) + of_nat (undec f) / 10 ^ length f | _ \<Rightarrow> 0)"

definition digit_of :: "char \<Rightarrow> nat" where "digit_of c = of_char c - 48"

lemma undec_nil [simp]: "undec [] = 0"
  by (simp add: undec_def)

lemma undec_snoc' [simp]: "undec (s @ [c]) = 10 * undec s + digit_of c"
  by (simp add: undec_snoc digit_of_def)

lemma digit_of_bound: "is_digit c \<Longrightarrow> digit_of c < 10"
  by (auto simp: is_digit_def digit_of_def Let_def)

lemma digit_of_inj: "is_digit c \<Longrightarrow> is_digit d \<Longrightarrow> digit_of c = digit_of d \<Longrightarrow> c = d"
proof -
  assume "is_digit c" "is_digit d" "digit_of c = digit_of d"
  then have "(of_char c :: nat) = of_char d" unfolding is_digit_def digit_of_def Let_def by linarith
  then show ?thesis by simp
qed

lemma digit_of_zero: "is_digit c \<Longrightarrow> digit_of c = 0 \<longleftrightarrow> c = CHR ''0''"
  using digit_of_inj [of c "CHR ''0''"] by (auto simp: is_digit_def digit_of_def)

lemma undec_bound: "list_all is_digit s \<Longrightarrow> undec s < 10 ^ length s"
proof (induction s rule: rev_induct)
  case (snoc c s)
  then have "undec s + 1 \<le> 10 ^ length s" "digit_of c < 10" using digit_of_bound by simp_all
  then show ?case by simp
qed simp

lemma undec_inj: "list_all is_digit s \<Longrightarrow> list_all is_digit t \<Longrightarrow> length s = length t \<Longrightarrow> undec s = undec t \<Longrightarrow> s = t"
proof (induction s arbitrary: t rule: rev_induct)
  case (snoc c s)
  obtain d u where t: "t = u @ [d]" using snoc.prems(3) by (cases t rule: rev_cases) auto
  have b: "digit_of c < 10" "digit_of d < 10" using snoc.prems digit_of_bound by (simp_all add: t)
  have e: "10 * undec s + digit_of c = 10 * undec u + digit_of d" using snoc.prems(4) by (simp add: t)
  then have "digit_of c = digit_of d" "undec s = undec u" using b by presburger+
  with snoc t show ?case using digit_of_inj by simp
qed simp

text \<open>Two fractions without trailing zeros that denote one number are one text.\<close>

lemma fraction_unique:
  assumes "list_all is_digit f" "list_all is_digit g" "f = [] \<or> last f \<noteq> CHR ''0''" "g = [] \<or> last g \<noteq> CHR ''0''"
    and v: "undec f * 10 ^ length g = undec g * 10 ^ length f"
  shows "f = g"
proof -
  have shorter: "\<not> length f < length g" if "list_all is_digit g" "g = [] \<or> last g \<noteq> CHR ''0''" "undec f * 10 ^ length g = undec g * 10 ^ length f" for f g
  proof
    assume l: "length f < length g"
    then obtain h c where g: "g = h @ [c]" by (cases g rule: rev_cases) auto
    obtain n where n: "length g = length f + Suc n" using l less_iff_Suc_add by auto
    have "undec f * 10 ^ Suc n * 10 ^ length f = undec g * 10 ^ length f" using that(3) unfolding n power_add by (simp add: ac_simps)
    then have "undec g = 10 * (undec f * 10 ^ n)" by simp
    then have "(10 * undec h + digit_of c) mod 10 = 0" by (simp add: g)
    then have "digit_of c = 0" using digit_of_bound [of c] that(1) by (simp add: g)
    with digit_of_zero [of c] that(1,2) show False by (simp add: g)
  qed
  have "length f = length g" using shorter [of g f] shorter [of f g] assms by (metis linorder_neqE_nat)
  with undec_inj [OF assms(1,2)] v show ?thesis by simp
qed

lemma strip_leading_undec:
  assumes "list_all is_digit s" "s \<noteq> []"
  shows "strip_leading s = dec_nat (undec s)"
proof -
  have z: "undec s = undec (dropWhile (\<lambda>c. c = CHR ''0'') s)" for s
  proof (induction s)
    case (Cons c s)
    have "undec (CHR ''0'' # s) = undec s" by (simp add: undec_def)
    with Cons show ?case by simp
  qed simp
  have d: "t = dec_nat (undec t) \<and> 0 < undec t" if "list_all is_digit t" "t \<noteq> []" "hd t \<noteq> CHR ''0''" for t
    using that
  proof (induction t rule: rev_induct)
    case (snoc c t)
    have c: "char_of (48 + digit_of c) = c" "digit_of c < 10"
      using snoc.prems(1) digit_of_bound by (auto simp: is_digit_def digit_of_def Let_def)
    show ?case
    proof (cases "t = []")
      case True
      have "digit_of c \<noteq> 0" using digit_of_zero snoc.prems True by simp
      moreover have "undec [c] = digit_of c" by (simp add: undec_def digit_of_def)
      moreover have "dec_nat (digit_of c) = [c]" using c by (subst dec_nat.simps) simp
      ultimately show ?thesis using True by simp
    next
      case False
      with snoc have t: "t = dec_nat (undec t)" "0 < undec t" by simp_all
      have "dec_nat (10 * undec t + digit_of c) = dec_nat (undec t) @ [c]"
        using c t(2) by (subst dec_nat.simps) simp
      with t show ?thesis by simp
    qed
  qed simp
  show ?thesis
  proof (cases "dropWhile (\<lambda>c. c = CHR ''0'') s")
    case Nil
    have "dec_nat 0 = ''0''" by (simp add: dec_nat.simps char_of_eq_iff)
    moreover have "undec s = 0" using z [of s] unfolding Nil by simp
    ultimately show ?thesis unfolding strip_leading_def Nil by simp
  next
    case (Cons c t)
    have "list_all is_digit (c # t)" using assms(1) Cons set_dropWhileD [of _ "\<lambda>c. c = CHR ''0''" s] by (metis list_all_iff)
    moreover have "c \<noteq> CHR ''0''" using Cons dropWhile_eq_Cons_conv [of "\<lambda>c. c = CHR ''0''" s c t] by auto
    ultimately show ?thesis using d [of "c # t"] z [of s] Cons by (simp add: strip_leading_def)
  qed
qed

lemma strip_trailing_value:
  assumes "list_all is_digit f"
  shows "list_all is_digit (strip_trailing f)" "strip_trailing f = [] \<or> last (strip_trailing f) \<noteq> CHR ''0''"
    "(of_nat (undec (strip_trailing f)) :: rat) / 10 ^ length (strip_trailing f) = of_nat (undec f) / 10 ^ length f"
proof -
  have "list_all is_digit (strip_trailing f) \<and> (strip_trailing f = [] \<or> last (strip_trailing f) \<noteq> CHR ''0'')
    \<and> (of_nat (undec (strip_trailing f)) :: rat) / 10 ^ length (strip_trailing f) = of_nat (undec f) / 10 ^ length f"
    using assms
  proof (induction f rule: rev_induct)
    case (snoc c f)
    show ?case
    proof (cases "c = CHR ''0''")
      case True
      have "strip_trailing (f @ [c]) = strip_trailing f" by (simp add: strip_trailing_def True)
      moreover have "(of_nat (undec (f @ [c])) :: rat) / 10 ^ length (f @ [c]) = of_nat (undec f) / 10 ^ length f"
        by (simp add: True digit_of_def)
      ultimately show ?thesis using snoc by simp
    next
      case False
      then have "strip_trailing (f @ [c]) = f @ [c]" by (simp add: strip_trailing_def)
      with snoc.prems False show ?thesis by simp
    qed
  qed (simp add: strip_trailing_def)
  then show "list_all is_digit (strip_trailing f)" "strip_trailing f = [] \<or> last (strip_trailing f) \<noteq> CHR ''0''"
    "(of_nat (undec (strip_trailing f)) :: rat) / 10 ^ length (strip_trailing f) = of_nat (undec f) / 10 ^ length f" by blast+
qed

lemma digits_no_point: "list_all is_digit s \<Longrightarrow> CHR ''.'' \<notin> set s"
  by (auto simp: list_all_iff is_digit_def)

text \<open>The parts of a decimal text, and what its canonical form denotes.\<close>

lemma decimal_parts:
  assumes "decimal_form s"
  obtains i f where "list_all is_digit i" "i \<noteq> ''''" "list_all is_digit f" "decimal_value s = of_nat (undec i) + of_nat (undec f) / 10 ^ length f"
    "(case split_on CHR ''.'' s of i # f # _ \<Rightarrow> canonical_parts i f | [i] \<Rightarrow> canonical_parts i '''' | [] \<Rightarrow> canonical_parts ''0'' '''') = canonical_parts i f"
proof -
  from assms consider i where "split_on CHR ''.'' s = [i]" "i \<noteq> ''''" "list_all is_digit i"
    | i f where "split_on CHR ''.'' s = [i, f]" "i \<noteq> ''''" "list_all is_digit i" "list_all is_digit f"
    by (auto simp: decimal_form_def split: list.splits)
  then show thesis
  proof cases
    case (1 i)
    then show ?thesis by (intro that [of i "''''"]) (simp_all add: decimal_value_def)
  next
    case (2 i f)
    then show ?thesis by (intro that [of i f]) (simp_all add: decimal_value_def)
  qed
qed

lemma canonical_parts_text:
  assumes "list_all is_digit i" "i \<noteq> ''''" "list_all is_digit f"
  shows "decimal_form (canonical_parts i f)" "decimal_value (canonical_parts i f) = of_nat (undec i) + of_nat (undec f) / 10 ^ length f"
proof -
  let ?i = "dec_nat (undec i)" and ?f = "strip_trailing f"
  have i: "strip_leading i = ?i" by (rule strip_leading_undec [OF assms(1,2)])
  have d: "list_all is_digit ?i" using dec_nat_digits by (simp add: list_all_iff)
  note f = strip_trailing_value [OF assms(3)]
  have s: "split_on CHR ''.'' (canonical_parts i f) = (if ?f = [] then [?i] else [?i, ?f])"
    using split_on_part [OF digits_no_point [OF d]] split_on_none [OF digits_no_point [OF d]] split_on_none [OF digits_no_point [OF f(1)]]
    by (simp add: canonical_parts_def i Let_def)
  show "decimal_form (canonical_parts i f)" using d f(1) by (simp add: decimal_form_def s)
  show "decimal_value (canonical_parts i f) = of_nat (undec i) + of_nat (undec f) / 10 ^ length f"
    using f(3) by (auto simp: decimal_value_def s)
qed

lemma canonical_parts_unique:
  assumes i: "list_all is_digit i" "i \<noteq> ''''" and f: "list_all is_digit f" and j: "list_all is_digit j" "j \<noteq> ''''" and g: "list_all is_digit g"
    and v: "(of_nat (undec i) + of_nat (undec f) / 10 ^ length f :: rat) = of_nat (undec j) + of_nat (undec g) / 10 ^ length g"
  shows "canonical_parts i f = canonical_parts j g"
proof -
  have b: "0 \<le> (of_nat (undec h) :: rat) / 10 ^ length h \<and> (of_nat (undec h) :: rat) / 10 ^ length h < 1" if "list_all is_digit h" for h
  proof -
    have "(of_nat (undec h) :: rat) < of_nat (10 ^ length h)" using undec_bound [OF that] by (simp only: of_nat_less_iff)
    then show ?thesis by (simp add: divide_less_eq)
  qed
  have "\<lfloor>(of_nat (undec i) + of_nat (undec f) / 10 ^ length f :: rat)\<rfloor> = int (undec i)" using b [OF f] by (intro floor_unique) simp_all
  moreover have "\<lfloor>(of_nat (undec j) + of_nat (undec g) / 10 ^ length g :: rat)\<rfloor> = int (undec j)" using b [OF g] by (intro floor_unique) simp_all
  ultimately have n: "undec i = undec j" using v by simp
  note s = strip_trailing_value [OF f] and t = strip_trailing_value [OF g]
  have "(of_nat (undec (strip_trailing f)) :: rat) / 10 ^ length (strip_trailing f) = of_nat (undec (strip_trailing g)) / 10 ^ length (strip_trailing g)"
    using v n s(3) t(3) by simp
  then have "(of_nat (undec (strip_trailing f) * 10 ^ length (strip_trailing g)) :: rat) = of_nat (undec (strip_trailing g) * 10 ^ length (strip_trailing f))"
    by (simp add: field_simps)
  then have "strip_trailing f = strip_trailing g"
    unfolding of_nat_eq_iff by (rule fraction_unique [OF s(1) t(1) s(2) t(2)])
  then show ?thesis by (simp add: canonical_parts_def strip_leading_undec i j n)
qed

lemma canonical_forms:
  "(canonicalDecimal text a = Inl BadDecimal \<longleftrightarrow> \<not> decimal_form (js_String text a))
   \<and> (\<forall>x y. canonicalDecimal text a = Inr x \<and> canonicalDecimal text b = Inr y \<longrightarrow>
        (x = y \<longleftrightarrow> decimal_value (js_String text a) = decimal_value (js_String text b))
        \<and> decimal_value x = decimal_value (js_String text a) \<and> canonicalDecimal text (VStr x) = Inr x)"
proof (intro conjI allI impI)
  show "canonicalDecimal text a = Inl BadDecimal \<longleftrightarrow> \<not> decimal_form (js_String text a)" by (simp add: canonicalDecimal_def Let_def)
  have parts: "\<exists>i f. list_all is_digit i \<and> i \<noteq> '''' \<and> list_all is_digit f \<and> z = canonical_parts i f
      \<and> decimal_value (js_String text c) = of_nat (undec i) + of_nat (undec f) / 10 ^ length f" if c: "canonicalDecimal text c = Inr z" for c z
  proof -
    have d: "decimal_form (js_String text c)" using c by (auto simp: canonicalDecimal_def Let_def split: if_splits)
    obtain i f where h: "list_all is_digit i" "i \<noteq> ''''" "list_all is_digit f"
      "decimal_value (js_String text c) = of_nat (undec i) + of_nat (undec f) / 10 ^ length f"
      "(case split_on CHR ''.'' (js_String text c) of i # f # _ \<Rightarrow> canonical_parts i f | [i] \<Rightarrow> canonical_parts i '''' | [] \<Rightarrow> canonical_parts ''0'' '''') = canonical_parts i f"
      by (rule decimal_parts [OF d])
    have z: "z = canonical_parts i f" using c d unfolding canonicalDecimal_def Let_def h(5) by simp
    show ?thesis by (intro exI [of _ i] exI [of _ f] conjI h(1-4) z)
  qed
  fix x y
  assume xy: "canonicalDecimal text a = Inr x \<and> canonicalDecimal text b = Inr y"
  obtain i f where p: "list_all is_digit i" "i \<noteq> ''''" "list_all is_digit f" "x = canonical_parts i f"
    "decimal_value (js_String text a) = of_nat (undec i) + of_nat (undec f) / 10 ^ length f" using parts xy by blast
  obtain j g where q: "list_all is_digit j" "j \<noteq> ''''" "list_all is_digit g" "y = canonical_parts j g"
    "decimal_value (js_String text b) = of_nat (undec j) + of_nat (undec g) / 10 ^ length g" using parts xy by blast
  note cx = canonical_parts_text [OF p(1-3)] and cy = canonical_parts_text [OF q(1-3)]
  show "x = y \<longleftrightarrow> decimal_value (js_String text a) = decimal_value (js_String text b)"
    using canonical_parts_unique [OF p(1-3) q(1-3)] cx cy p(4,5) q(4,5) by auto
  show v: "decimal_value x = decimal_value (js_String text a)" using cx p by simp
  have dx: "decimal_form x" using cx(1) p(4) by simp
  obtain i' f' where r: "list_all is_digit i'" "i' \<noteq> ''''" "list_all is_digit f'" "decimal_value x = of_nat (undec i') + of_nat (undec f') / 10 ^ length f'"
    "(case split_on CHR ''.'' x of i # f # _ \<Rightarrow> canonical_parts i f | [i] \<Rightarrow> canonical_parts i '''' | [] \<Rightarrow> canonical_parts ''0'' '''') = canonical_parts i' f'"
    by (rule decimal_parts [OF dx])
  then have "canonical_parts i' f' = x" using canonical_parts_unique [OF r(1-3) p(1-3)] v p(4,5) by simp
  then show "canonicalDecimal text (VStr x) = Inr x" using r(5) dx by (simp add: canonicalDecimal_def Let_def)
qed


text \<open>Two amounts have one canonical form exactly when they denote one number; the form denotes that number, is
  itself an accepted decimal and its own canonical form; everything else is refused.\<close>

theorem canonical_decimals:
  "(canonicalDecimal text a = Inl BadDecimal \<longleftrightarrow> \<not> decimal_form (js_String text a))
   \<and> (\<forall>x y. canonicalDecimal text a = Inr x \<and> canonicalDecimal text b = Inr y \<longrightarrow>
        (x = y \<longleftrightarrow> decimal_value (js_String text a) = decimal_value (js_String text b))
        \<and> decimal_value x = decimal_value (js_String text a) \<and> canonicalDecimal text (VStr x) = Inr x)"
  by (rule canonical_forms)

theorem canonical_decimals_witness:
  "canonicalDecimal (\<lambda>_. ''7'') (VStr ''007.50'') = Inr ''7.5'' \<and> canonicalDecimal (\<lambda>_. ''7'') (VNum 7) = Inr ''7'' \<and>
   decimal_value (js_String (\<lambda>_. ''7'') (VStr ''007.50'')) \<noteq> decimal_value (js_String (\<lambda>_. ''7'') (VNum 7))"
proof -
  have "canonicalDecimal (\<lambda>_. ''7'') (VStr ''007.50'') = Inr ''7.5''" "canonicalDecimal (\<lambda>_. ''7'') (VNum 7) = Inr ''7''" by code_simp+
  moreover from this have "''7.5'' = ''7'' \<longleftrightarrow> decimal_value (js_String (\<lambda>_. ''7'') (VStr ''007.50'')) = decimal_value (js_String (\<lambda>_. ''7'') (VNum 7))"
    using canonical_decimals [of "\<lambda>_. ''7''" "VStr ''007.50''" "VNum 7"] by blast
  ultimately show ?thesis by simp
qed

end
