(* ===== verification/CR_Evidence.thy ===== *)
theory CR_Evidence
  imports CR_Values
begin

text \<open>
  Evidence references, tokens and commitments (\<open>packages/cre/src/evidence.ts\<close>). A token is a sealed, short-lived
  reference; a commitment is the hash of the deterministic JSON text of a snapshot. The hash and its hex input,
  the hex test and the printing of numbers belong to libraries and are the record \<open>CreLib\<close>; sealing and
  unsealing are arguments, as in the source.
\<close>

type_synonym Commitment = string

record CreLib =
  lib_keccak256 :: "string \<Rightarrow> Commitment"
  lib_toHex :: "string \<Rightarrow> string"
  lib_isHex :: "string \<Rightarrow> bool"
  lib_numberText :: "rat \<Rightarrow> string"

definition hash_text :: "CreLib \<Rightarrow> string \<Rightarrow> Commitment" where
  "hash_text L s = lib_keccak256 L (lib_toHex L s)"

definition commitment :: "CreLib \<Rightarrow> JsValue \<Rightarrow> cre_error + Commitment" where
  "commitment L value = ebind (stableStringify (lib_numberText L) value) (\<lambda>s. Inr (hash_text L s))"

section \<open>References\<close>

datatype ContractLifecycleEvidenceEvent = ContractDeploy | ContractSign | ContractFund | ContractComplete | ContractCancel

fun event_text :: "ContractLifecycleEvidenceEvent \<Rightarrow> string" where
  "event_text ContractDeploy = ''contract_deploy''"
| "event_text ContractSign = ''contract_sign''"
| "event_text ContractFund = ''contract_fund''"
| "event_text ContractComplete = ''contract_complete''"
| "event_text ContractCancel = ''contract_cancel''"

datatype ProjectEvidencePhase = PhaseSent | PhasePaid | PhaseClosed

fun phase_text :: "ProjectEvidencePhase \<Rightarrow> string" where
  "phase_text PhaseSent = ''sent''"
| "phase_text PhasePaid = ''paid''"
| "phase_text PhaseClosed = ''closed''"

datatype CreEvidenceReference = RefPaymentScore string string | RefContract string string ContractLifecycleEvidenceEvent
  | RefPayroll string string "string option" | RefReimbursement string string ProjectEvidencePhase | RefReport string string
  | RefProject string string ProjectEvidencePhase

definition requiredContractEvent :: "JsValue \<Rightarrow> cre_error + ContractLifecycleEvidenceEvent" where
  "requiredContractEvent value =
     (case find (\<lambda>e. value = VStr (event_text e)) [ContractDeploy, ContractSign, ContractFund, ContractComplete, ContractCancel] of
        Some e \<Rightarrow> Inr e | None \<Rightarrow> Inl BadContractEvent)"

definition phase_among :: "ProjectEvidencePhase list \<Rightarrow> string \<Rightarrow> JsValue \<Rightarrow> cre_error + ProjectEvidencePhase" where
  "phase_among phases kind value = (case find (\<lambda>p. value = VStr (phase_text p)) phases of Some p \<Rightarrow> Inr p | None \<Rightarrow> Inl (BadPhase kind))"

definition uuid_text :: "string \<Rightarrow> bool" where
  "uuid_text s = (map length (split_on CHR ''-'' s) = [8, 4, 4, 4, 12] \<and> list_all (list_all is_hex_digit) (split_on CHR ''-'' s))"

text \<open>A kind that none of the cases names leaves the function without a result.\<close>

definition validateReference :: "JsValue \<Rightarrow> cre_error + CreEvidenceReference option" where
  "validateReference r =
     ebind (requiredReference (member r ''entityId'') ''entityId'') (\<lambda>entityId.
     ebind (requiredReference (member r ''teamId'') ''teamId'') (\<lambda>teamId.
     let kind = member r ''kind'' in
     if kind = VStr ''payment-score'' then
       (if entityId \<noteq> teamId \<or> \<not> uuid_text teamId then Inl BadWorkspace else Inr (Some (RefPaymentScore entityId teamId)))
     else if kind = VStr ''contract'' then
       ebind (requiredContractEvent (member r ''event'')) (\<lambda>e. Inr (Some (RefContract entityId teamId e)))
     else if kind = VStr ''payroll'' then
       (if truthy (member r ''batchId'')
        then ebind (requiredReference (member r ''batchId'') ''batchId'') (\<lambda>b. Inr (Some (RefPayroll entityId teamId (Some b))))
        else Inr (Some (RefPayroll entityId teamId None)))
     else if kind = VStr ''reimbursement'' then
       ebind (phase_among [PhaseSent, PhasePaid] ''reimbursement'' (member r ''phase'')) (\<lambda>p. Inr (Some (RefReimbursement entityId teamId p)))
     else if kind = VStr ''report'' then Inr (Some (RefReport entityId teamId))
     else if kind = VStr ''project'' then
       ebind (phase_among [PhaseSent, PhasePaid, PhaseClosed] ''project'' (member r ''phase'')) (\<lambda>p. Inr (Some (RefProject entityId teamId p)))
     else Inr None))"

text \<open>A reference as an object.\<close>

fun reference_fields :: "CreEvidenceReference \<Rightarrow> (string \<times> JsValue) list" where
  "reference_fields (RefPaymentScore e t) = [(''kind'', VStr ''payment-score''), (''entityId'', VStr e), (''teamId'', VStr t)]"
| "reference_fields (RefContract e t ev) = [(''kind'', VStr ''contract''), (''entityId'', VStr e), (''teamId'', VStr t), (''event'', VStr (event_text ev))]"
| "reference_fields (RefPayroll e t b) = [(''kind'', VStr ''payroll''), (''entityId'', VStr e), (''teamId'', VStr t)]
     @ (case b of None \<Rightarrow> [] | Some b \<Rightarrow> [(''batchId'', VStr b)])"
| "reference_fields (RefReimbursement e t p) = [(''kind'', VStr ''reimbursement''), (''entityId'', VStr e), (''teamId'', VStr t), (''phase'', VStr (phase_text p))]"
| "reference_fields (RefReport e t) = [(''kind'', VStr ''report''), (''entityId'', VStr e), (''teamId'', VStr t)]"
| "reference_fields (RefProject e t p) = [(''kind'', VStr ''project''), (''entityId'', VStr e), (''teamId'', VStr t), (''phase'', VStr (phase_text p))]"

section \<open>Tokens\<close>

definition TOKEN_PREFIX :: string where "TOKEN_PREFIX = ''bufi_cre_evidence_v1.''"
definition TOKEN_AUDIENCE :: string where "TOKEN_AUDIENCE = ''bufi-cre-evidence''"
definition MAX_TOKEN_LENGTH :: nat where "MAX_TOKEN_LENGTH = 8192"
definition MAX_TTL_SECONDS :: int where "MAX_TTL_SECONDS = 15 * 60"
definition CLOCK_SKEW_SECONDS :: int where "CLOCK_SKEW_SECONDS = 30"

record CreEvidenceClaims =
  cc_reference :: "CreEvidenceReference option"
  cc_expiresAt :: int
  cc_issuedAt :: int
  cc_nonce :: string

definition claims_fields :: "CreEvidenceClaims \<Rightarrow> (string \<times> JsValue) list" where
  "claims_fields c = (case cc_reference c of None \<Rightarrow> [] | Some r \<Rightarrow> reference_fields r)
     @ [(''audience'', VStr TOKEN_AUDIENCE), (''expiresAt'', VNum (of_int (cc_expiresAt c))), (''issuedAt'', VNum (of_int (cc_issuedAt c))),
        (''nonce'', VStr (cc_nonce c)), (''version'', VNum 1)]"

text \<open>Times are milliseconds; \<open>Math.floor(ms / 1000)\<close> is the second.\<close>

definition createCreEvidenceToken ::
  "CreLib \<Rightarrow> (string \<Rightarrow> string) \<Rightarrow> CreEvidenceReference \<Rightarrow> int \<Rightarrow> rat option \<Rightarrow> string \<Rightarrow> cre_error + string" where
  "createCreEvidenceToken L seal reference now_ms ttl nonce =
     ebind (validateReference (VObj (reference_fields reference))) (\<lambda>normalized.
     let issuedAt = now_ms div 1000; ttlSeconds = (case ttl of None \<Rightarrow> 5 * 60 | Some t \<Rightarrow> t) in
     ebind (throw_if (\<not> safe_integer ttlSeconds \<or> ttlSeconds < 1 \<or> ttlSeconds > of_int MAX_TTL_SECONDS) BadTtl) (\<lambda>_.
     ebind (requiredReference (VStr nonce) ''nonce'') (\<lambda>nonce.
     let claims = \<lparr>cc_reference = normalized, cc_expiresAt = issuedAt + \<lfloor>ttlSeconds\<rfloor>, cc_issuedAt = issuedAt, cc_nonce = nonce\<rparr> in
     ebind (stableStringify (lib_numberText L) (VObj (claims_fields claims))) (\<lambda>s.
     let token = TOKEN_PREFIX @ seal s in
     ebind (throw_if (text_length token > MAX_TOKEN_LENGTH) TokenTooLarge) (\<lambda>_. Inr token)))))"

text \<open>The value \<open>JSON.parse\<close> returns.\<close>

fun js_of :: "JsonValue \<Rightarrow> JsValue" where
  "js_of JNull = VNull"
| "js_of (JBool b) = VBool b"
| "js_of (JNum q) = VNum q"
| "js_of JInf = VNotFinite"
| "js_of (JStr s) = VStr s"
| "js_of (JArr xs) = VArr (map js_of xs)"
| "js_of (JObj kvs) = VObj (map (\<lambda>(k, x). (k, js_of x)) kvs)"

definition openCreEvidenceToken ::
  "(rat \<Rightarrow> rat option) \<Rightarrow> (string \<Rightarrow> string option) \<Rightarrow> string \<Rightarrow> int \<Rightarrow> cre_error + CreEvidenceClaims" where
  "openCreEvidenceToken num unseal token now_ms =
     (let n = length TOKEN_PREFIX in
      ebind (throw_if (take n token \<noteq> TOKEN_PREFIX \<or> length token \<le> n \<or> text_length token > MAX_TOKEN_LENGTH) BadToken) (\<lambda>_.
      case Option.bind (unseal (drop n token)) (JSON_parse num) of
        Some (JObj kvs) \<Rightarrow>
          (let claims = js_of (JObj kvs) in
           ebind (throw_if (member claims ''version'' \<noteq> VNum 1 \<or> member claims ''audience'' \<noteq> VStr TOKEN_AUDIENCE) BadToken) (\<lambda>_.
           ebind (requiredInteger (member claims ''issuedAt'') ''issuedAt'') (\<lambda>issuedAt.
           ebind (requiredInteger (member claims ''expiresAt'') ''expiresAt'') (\<lambda>expiresAt.
           let current = now_ms div 1000 in
           ebind (throw_if (issuedAt > current + CLOCK_SKEW_SECONDS \<or> expiresAt \<le> current) TokenExpired) (\<lambda>_.
           ebind (throw_if (expiresAt \<le> issuedAt \<or> expiresAt - issuedAt > MAX_TTL_SECONDS) BadLifetime) (\<lambda>_.
           ebind (requiredReference (member claims ''nonce'') ''nonce'') (\<lambda>nonce.
           ebind (validateReference claims) (\<lambda>reference.
           Inr \<lparr>cc_reference = reference, cc_expiresAt = expiresAt, cc_issuedAt = issuedAt, cc_nonce = nonce\<rparr>))))))))
      | _ \<Rightarrow> Inl BadToken))"

section \<open>Records\<close>

record ContractLifecycleEvidenceRecord =
  cl_agreementId :: string
  cl_teamId :: string
  cl_status :: string
  cl_agreementHash :: "string option"
  cl_chainId :: "rat option"
  cl_totalAmount :: JsValue
  cl_fundedAmount :: JsValue
  cl_fundedAt :: "string option"
  cl_escrowAddress :: "string option"
  cl_updatedAt :: string
  cl_agreement :: JsValue

record PayrollEvidenceRecord =
  py_payrollId :: string
  py_teamId :: string
  py_status :: string
  py_payPeriodStart :: string
  py_payPeriodEnd :: string
  py_totalAmountUsdc :: JsValue
  py_totalAmountEurc :: JsValue
  py_recipientCount :: rat
  py_recipients :: JsValue
  py_executedAt :: "string option"

record ReportEvidenceRecord =
  rp_reportId :: string
  rp_teamId :: string
  rp_reportNumber :: string
  rp_status :: string
  rp_fromDate :: string
  rp_toDate :: string
  rp_createdAt :: string
  rp_transactionsData :: JsValue
  rp_financialMetrics :: JsValue
  rp_aiAnalysis :: JsValue

record ReimbursementEvidenceRecord =
  rb_requestId :: string
  rb_teamId :: string
  rb_status :: string
  rb_currency :: string
  rb_subtotal :: JsValue
  rb_markupPercent :: JsValue
  rb_markupAmount :: JsValue
  rb_total :: JsValue
  rb_sentAt :: "string option"
  rb_paidAt :: "string option"
  rb_paidTxHash :: "string option"

record EvidenceFacts =
  ef_phase :: ProjectEvidencePhase
  ef_itemCount :: rat
  ef_itemsHash :: string
  ef_settledTotal :: JsValue
  ef_settlementCount :: JsValue

record ProjectEvidenceRecord =
  pj_projectId :: string
  pj_teamId :: string
  pj_status :: string
  pj_closedAt :: "string option"

datatype CreEvidenceCommitments =
    CommitContract ContractLifecycleEvidenceEvent Commitment Commitment Commitment Commitment
  | CommitPayroll Commitment Commitment Commitment Commitment
  | CommitReimbursement ProjectEvidencePhase Commitment Commitment string Commitment
  | CommitReport Commitment Commitment Commitment Commitment Commitment Commitment
  | CommitProject ProjectEvidencePhase Commitment Commitment string Commitment

text \<open>A text that may be \<open>null\<close>, and its truth.\<close>

definition nullable :: "string option \<Rightarrow> JsValue" where
  "nullable x = (case x of None \<Rightarrow> VNull | Some s \<Rightarrow> VStr s)"

definition SHA256_HEX :: "string \<Rightarrow> bool" where
  "SHA256_HEX s = (length s = 64 \<and> list_all (\<lambda>c. is_hex_digit c \<and> lower_char c = c) s)"

section \<open>Commitments\<close>

text \<open>When an event of a contract may be attested.\<close>

definition contract_ready :: "ContractLifecycleEvidenceEvent \<Rightarrow> ContractLifecycleEvidenceRecord \<Rightarrow> string \<Rightarrow> string \<Rightarrow> cre_error + unit" where
  "contract_ready event record status fundedAmount =
     ebind (throw_if (event = ContractFund \<and> (\<not> truthy (nullable (cl_fundedAt record)) \<or> fundedAmount = ''0'')) (NotReady ''funding'')) (\<lambda>_.
     ebind (throw_if (event = ContractSign \<and> status \<noteq> ''pending_sign'' \<and> status \<noteq> ''active'' \<and> status \<noteq> ''completed'') (NotReady ''signing'')) (\<lambda>_.
     ebind (throw_if (event = ContractComplete \<and> status \<noteq> ''completed'') (NotReady ''completion'')) (\<lambda>_.
     ebind (throw_if (event = ContractCancel \<and> status \<noteq> ''cancelled'' \<and> status \<noteq> ''canceled'') (NotReady ''cancellation'')) (\<lambda>_.
     throw_if (event = ContractDeploy \<and> \<not> truthy (nullable (cl_escrowAddress record)) \<and> status \<noteq> ''deploying'' \<and> status \<noteq> ''active''
       \<and> status \<noteq> ''completed'') (NotReady ''deployment'')))))"

definition is_object :: "JsValue \<Rightarrow> bool" where
  "is_object v = (case v of VArr xs \<Rightarrow> True | VObj kvs \<Rightarrow> True | _ \<Rightarrow> False)"

definition buildContractLifecycleEvidenceCommitments ::
  "CreLib \<Rightarrow> ContractLifecycleEvidenceRecord \<Rightarrow> ContractLifecycleEvidenceEvent \<Rightarrow> cre_error + CreEvidenceCommitments" where
  "buildContractLifecycleEvidenceCommitments L record event =
     ebind (requiredReference (VStr (cl_agreementId record)) ''agreementId'') (\<lambda>agreementId.
     ebind (requiredReference (VStr (cl_teamId record)) ''teamId'') (\<lambda>teamId.
     ebind (requiredContractEvent (VStr (event_text event))) (\<lambda>normalizedEvent.
     ebind (requiredReference (VStr (cl_status record)) ''contract status'') (\<lambda>status.
     ebind (requiredReference (VStr (cl_updatedAt record)) ''contract updatedAt'') (\<lambda>updatedAt.
     ebind (throw_if (\<not> is_object (cl_agreement record)) BadAgreement) (\<lambda>_.
     ebind (throw_if (case cl_chainId record of None \<Rightarrow> False | Some c \<Rightarrow> \<not> safe_integer c \<or> c < 1) BadChainId) (\<lambda>_.
     ebind (canonicalDecimal (lib_numberText L) (cl_fundedAmount record)) (\<lambda>fundedAmount.
     ebind (canonicalDecimal (lib_numberText L) (cl_totalAmount record)) (\<lambda>totalAmount.
     ebind (contract_ready normalizedEvent record status fundedAmount) (\<lambda>_.
     ebind (commitment L (cl_agreement record)) (\<lambda>agreementCommitment.
     ebind (commitment L (VObj [(''agreementHash'', nullable (cl_agreementHash record)),
         (''chainId'', case cl_chainId record of None \<Rightarrow> VNull | Some c \<Rightarrow> VNum c),
         (''escrowConfigured'', VBool (truthy (nullable (cl_escrowAddress record)))), (''fundedAmount'', VStr fundedAmount),
         (''fundedAt'', nullable (cl_fundedAt record)), (''status'', VStr status), (''totalAmount'', VStr totalAmount),
         (''updatedAt'', VStr updatedAt)])) (\<lambda>stateCommitment.
     ebind (commitment L (VObj [(''agreementCommitment'', VStr agreementCommitment), (''event'', VStr (event_text normalizedEvent)),
         (''stateCommitment'', VStr stateCommitment), (''teamCommitment'', VStr (hash_text L (''team:'' @ teamId)))])) (\<lambda>snapshot.
     Inr (CommitContract normalizedEvent (hash_text L (''contract:'' @ agreementId)) agreementCommitment stateCommitment snapshot))))))))))))))"

text \<open>The recipients of a payroll: groups of objects with an amount and a wallet, counted.\<close>

definition count_recipient :: "CreLib \<Rightarrow> JsValue \<Rightarrow> nat \<Rightarrow> cre_error + nat" where
  "count_recipient L recipient n = (case recipient of
     VObj kvs \<Rightarrow> ebind (canonicalDecimal (lib_numberText L) (member recipient ''amount'')) (\<lambda>_.
       ebind (requiredReference (member recipient ''walletAddress'') ''recipient wallet'') (\<lambda>_. Inr (n + 1)))
   | _ \<Rightarrow> Inl BadRecipient)"

definition count_group :: "CreLib \<Rightarrow> JsValue \<Rightarrow> nat \<Rightarrow> cre_error + nat" where
  "count_group L grp n = (case grp of VArr rs \<Rightarrow> efold (count_recipient L) rs n | _ \<Rightarrow> Inl BadRecipientGroup)"

text \<open>\<open>Object.values\<close> of an object or an array.\<close>

definition object_values :: "JsValue \<Rightarrow> JsValue list" where
  "object_values v = (case v of VObj kvs \<Rightarrow> map snd kvs | VArr xs \<Rightarrow> xs | _ \<Rightarrow> [])"

definition buildPayrollEvidenceCommitments :: "CreLib \<Rightarrow> PayrollEvidenceRecord \<Rightarrow> string option \<Rightarrow> cre_error + CreEvidenceCommitments" where
  "buildPayrollEvidenceCommitments L record batchId =
     ebind (requiredReference (VStr (py_payrollId record)) ''payrollId'') (\<lambda>payrollId.
     ebind (requiredReference (VStr (py_teamId record)) ''teamId'') (\<lambda>teamId.
     ebind (throw_if (py_status record \<noteq> ''executed'' \<or> \<not> truthy (nullable (py_executedAt record))) NotExecuted) (\<lambda>_.
     ebind (throw_if (\<not> safe_integer (py_recipientCount record) \<or> py_recipientCount record < 1) BadRecipientCount) (\<lambda>_.
     ebind (throw_if (\<not> is_object (py_recipients record)) BadRecipients) (\<lambda>_.
     ebind (efold (count_group L) (object_values (py_recipients record)) 0) (\<lambda>counted.
     ebind (throw_if (of_nat counted \<noteq> py_recipientCount record) CountMismatch) (\<lambda>_.
     ebind (requiredReference (VStr (py_payPeriodStart record)) ''payPeriodStart'') (\<lambda>start.
     ebind (requiredReference (VStr (py_payPeriodEnd record)) ''payPeriodEnd'') (\<lambda>finish.
     ebind (canonicalDecimal (lib_numberText L) (py_totalAmountUsdc record)) (\<lambda>usdc.
     ebind (canonicalDecimal (lib_numberText L) (py_totalAmountEurc record)) (\<lambda>eurc.
     ebind (requiredReference (nullable (py_executedAt record)) ''executedAt'') (\<lambda>executedAt.
     ebind (commitment L (VObj [(''payrollId'', VStr payrollId), (''teamId'', VStr teamId), (''payPeriodStart'', VStr start),
         (''payPeriodEnd'', VStr finish), (''totalAmountUsdc'', VStr usdc), (''totalAmountEurc'', VStr eurc),
         (''recipientCount'', VNum (py_recipientCount record)), (''executedAt'', VStr executedAt)])) (\<lambda>recordCommitment.
     ebind (commitment L (py_recipients record)) (\<lambda>recipientCommitment.
     ebind (if truthy (nullable batchId)
            then ebind (requiredReference (nullable batchId) ''batchId'') (\<lambda>b. Inr (hash_text L (''payroll-batch:'' @ b)))
            else Inr (hash_text L (''payroll-record:'' @ recordCommitment))) (\<lambda>batchCommitment.
     Inr (CommitPayroll (hash_text L (''payroll:'' @ payrollId)) recordCommitment recipientCommitment batchCommitment))))))))))))))))"

definition buildReportEvidenceCommitments :: "CreLib \<Rightarrow> ReportEvidenceRecord \<Rightarrow> cre_error + CreEvidenceCommitments" where
  "buildReportEvidenceCommitments L record =
     ebind (requiredReference (VStr (rp_reportId record)) ''reportId'') (\<lambda>reportId.
     ebind (requiredReference (VStr (rp_teamId record)) ''teamId'') (\<lambda>teamId.
     ebind (throw_if (rp_status record \<noteq> ''completed'') NotCompleted) (\<lambda>_.
     ebind (throw_if (rp_transactionsData record \<in> {VNull, VUndefined} \<or> rp_financialMetrics record \<in> {VNull, VUndefined}
         \<or> rp_aiAnalysis record \<in> {VNull, VUndefined}) IncompleteSources) (\<lambda>_.
     ebind (commitment L (rp_transactionsData record)) (\<lambda>transactionsHash.
     ebind (commitment L (rp_financialMetrics record)) (\<lambda>metricsHash.
     ebind (commitment L (rp_aiAnalysis record)) (\<lambda>analysisHash.
     ebind (commitment L (VObj [(''analysisHash'', VStr analysisHash), (''metricsHash'', VStr metricsHash),
         (''transactionsHash'', VStr transactionsHash)])) (\<lambda>combinedHash.
     ebind (requiredReference (VStr (rp_reportNumber record)) ''reportNumber'') (\<lambda>reportNumber.
     ebind (requiredReference (VStr (rp_fromDate record)) ''fromDate'') (\<lambda>fromDate.
     ebind (requiredReference (VStr (rp_toDate record)) ''toDate'') (\<lambda>toDate.
     ebind (requiredReference (VStr (rp_createdAt record)) ''createdAt'') (\<lambda>createdAt.
     ebind (commitment L (VObj [(''reportId'', VStr reportId), (''teamId'', VStr teamId), (''reportNumber'', VStr reportNumber),
         (''fromDate'', VStr fromDate), (''toDate'', VStr toDate), (''createdAt'', VStr createdAt), (''combinedHash'', VStr combinedHash)])) (\<lambda>reportCommitment.
     Inr (CommitReport (hash_text L (''financial-report:'' @ reportId)) reportCommitment transactionsHash metricsHash analysisHash combinedHash))))))))))))))"

definition item_evidence :: "EvidenceFacts \<Rightarrow> bool" where
  "item_evidence facts = (safe_integer (ef_itemCount facts) \<and> \<not> ef_itemCount facts < 1 \<and> SHA256_HEX (ef_itemsHash facts))"

definition settlement_evidence :: "EvidenceFacts \<Rightarrow> bool" where
  "settlement_evidence facts = (ef_settledTotal facts \<notin> {VNull, VUndefined}
     \<and> (case ef_settlementCount facts of VNum n \<Rightarrow> safe_integer n \<and> \<not> n < 1 | _ \<Rightarrow> False))"

definition buildReimbursementEvidenceCommitments ::
  "CreLib \<Rightarrow> ReimbursementEvidenceRecord \<Rightarrow> EvidenceFacts \<Rightarrow> cre_error + CreEvidenceCommitments" where
  "buildReimbursementEvidenceCommitments L record facts =
     ebind (requiredReference (VStr (rb_requestId record)) ''requestId'') (\<lambda>requestId.
     ebind (requiredReference (VStr (rb_teamId record)) ''teamId'') (\<lambda>teamId.
     ebind (throw_if (rb_status record = ''draft'' \<or> rb_status record = ''canceled'') NotAttestable) (\<lambda>_.
     ebind (throw_if (ef_phase facts = PhasePaid \<and> rb_status record \<noteq> ''paid'') NotPaid) (\<lambda>_.
     ebind (throw_if (\<not> item_evidence facts) BadItems) (\<lambda>_.
     ebind (canonicalDecimal (lib_numberText L) (rb_subtotal record)) (\<lambda>subtotal.
     ebind (if rb_markupPercent record = VNull then Inr VNull
            else ebind (canonicalDecimal (lib_numberText L) (rb_markupPercent record)) (\<lambda>m. Inr (VStr m))) (\<lambda>markupPercent.
     ebind (canonicalDecimal (lib_numberText L) (rb_markupAmount record)) (\<lambda>markupAmount.
     ebind (canonicalDecimal (lib_numberText L) (rb_total record)) (\<lambda>totalText.
     ebind (requiredReference (VStr (rb_currency record)) ''currency'') (\<lambda>currency.
     ebind (commitment L (VObj [(''requestId'', VStr requestId), (''teamId'', VStr teamId), (''phase'', VStr (phase_text (ef_phase facts))),
         (''itemCount'', VNum (ef_itemCount facts)), (''subtotal'', VStr subtotal), (''markupPercent'', markupPercent),
         (''markupAmount'', VStr markupAmount), (''total'', VStr totalText), (''itemsHash'', VStr (ef_itemsHash facts)),
         (''currency'', VStr currency), (''sentAt'', nullable (rb_sentAt record))])) (\<lambda>requestCommitment.
     ebind (if ef_phase facts = PhasePaid then
              ebind (throw_if (\<not> settlement_evidence facts) BadSettlement) (\<lambda>_.
              ebind (canonicalDecimal (lib_numberText L) (ef_settledTotal facts)) (\<lambda>settledTotal.
              commitment L (VObj [(''settledTotal'', VStr settledTotal), (''settlementCount'', ef_settlementCount facts),
                (''paidAt'', nullable (rb_paidAt record)), (''paidTxHash'', nullable (rb_paidTxHash record))])))
            else Inr (hash_text L ''reimbursement:settlement:not-paid'')) (\<lambda>settlementCommitment.
     Inr (CommitReimbursement (ef_phase facts) (hash_text L (''reimbursement:'' @ requestId)) requestCommitment (ef_itemsHash facts) settlementCommitment)))))))))))))"

definition buildProjectEvidenceCommitments :: "CreLib \<Rightarrow> ProjectEvidenceRecord \<Rightarrow> EvidenceFacts \<Rightarrow> cre_error + CreEvidenceCommitments" where
  "buildProjectEvidenceCommitments L record facts =
     ebind (requiredReference (VStr (pj_projectId record)) ''projectId'') (\<lambda>projectId.
     ebind (requiredReference (VStr (pj_teamId record)) ''teamId'') (\<lambda>teamId.
     ebind (requiredReference (VStr (pj_status record)) ''project status'') (\<lambda>status.
     ebind (throw_if (\<not> item_evidence facts) BadItems) (\<lambda>_.
     ebind (if ef_phase facts = PhaseClosed then ebind (requiredReference (nullable (pj_closedAt record)) ''closedAt'') (\<lambda>c. Inr (VStr c))
            else Inr (nullable (pj_closedAt record))) (\<lambda>closedAt.
     ebind (commitment L (VObj [(''projectId'', VStr projectId), (''teamId'', VStr teamId), (''phase'', VStr (phase_text (ef_phase facts))),
         (''status'', VStr status), (''itemCount'', VNum (ef_itemCount facts)), (''itemsHash'', VStr (ef_itemsHash facts)), (''closedAt'', closedAt)])) (\<lambda>projectCommitment.
     ebind (if ef_phase facts = PhasePaid \<or> ef_phase facts = PhaseClosed then
              ebind (throw_if (\<not> settlement_evidence facts) BadSettlement) (\<lambda>_.
              ebind (canonicalDecimal (lib_numberText L) (ef_settledTotal facts)) (\<lambda>settledTotal.
              commitment L (VObj [(''settledTotal'', VStr settledTotal), (''settlementCount'', ef_settlementCount facts), (''closedAt'', closedAt)])))
            else Inr (hash_text L ''project:settlement:not-paid'')) (\<lambda>settlementCommitment.
     Inr (CommitProject (ef_phase facts) (hash_text L (''project:'' @ projectId)) projectCommitment (ef_itemsHash facts) settlementCommitment))))))))"

section \<open>Reading commitments\<close>

definition requiredCommitment :: "CreLib \<Rightarrow> JsValue \<Rightarrow> string \<Rightarrow> cre_error + Commitment" where
  "requiredCommitment L value field = (case value of
     VStr s \<Rightarrow> if lib_isHex L s \<and> length s = 66 then Inr s else Inl (BadCommitment field)
   | _ \<Rightarrow> Inl (BadCommitment field))"

definition items_hash :: "JsValue \<Rightarrow> cre_error + string" where
  "items_hash value = (case value of VStr s \<Rightarrow> if SHA256_HEX s then Inr s else Inl BadItemsHash | _ \<Rightarrow> Inl BadItemsHash)"

definition parseCreEvidenceCommitments :: "CreLib \<Rightarrow> JsValue \<Rightarrow> cre_error + CreEvidenceCommitments" where
  "parseCreEvidenceCommitments L value =
     (let required = (\<lambda>e k. requiredCommitment L (member e k) k);
          is_record = (\<lambda>v. case v of VObj kvs \<Rightarrow> True | _ \<Rightarrow> False) in
      ebind (throw_if (\<not> is_record value) BadResponse) (\<lambda>_.
      let e = (if member value ''success'' = VBool True then member value ''evidence'' else value) in
      ebind (throw_if (\<not> is_record e) BadResponse) (\<lambda>_.
      ebind (required e ''entityCommitment'') (\<lambda>entity.
      let kind = member e ''kind'' in
      if kind = VStr ''contract'' then
        ebind (requiredContractEvent (member e ''event'')) (\<lambda>event. ebind (required e ''agreementCommitment'') (\<lambda>agreement.
        ebind (required e ''stateCommitment'') (\<lambda>state. ebind (required e ''snapshotCommitment'') (\<lambda>snapshot.
        Inr (CommitContract event entity agreement state snapshot)))))
      else if kind = VStr ''payroll'' then
        ebind (required e ''recordCommitment'') (\<lambda>record. ebind (required e ''recipientCommitment'') (\<lambda>recipient.
        ebind (required e ''batchCommitment'') (\<lambda>batch. Inr (CommitPayroll entity record recipient batch))))
      else if kind = VStr ''reimbursement'' then
        ebind (phase_among [PhaseSent, PhasePaid] ''reimbursement'' (member e ''phase'')) (\<lambda>p. ebind (items_hash (member e ''itemsHash'')) (\<lambda>items.
        ebind (required e ''requestCommitment'') (\<lambda>request. ebind (required e ''settlementCommitment'') (\<lambda>settlement.
        Inr (CommitReimbursement p entity request items settlement)))))
      else if kind = VStr ''report'' then
        ebind (required e ''reportCommitment'') (\<lambda>report. ebind (required e ''transactionsHash'') (\<lambda>transactions.
        ebind (required e ''metricsHash'') (\<lambda>metrics. ebind (required e ''analysisHash'') (\<lambda>analysis.
        ebind (required e ''combinedHash'') (\<lambda>combined. Inr (CommitReport entity report transactions metrics analysis combined))))))
      else if kind = VStr ''project'' then
        ebind (phase_among [PhaseSent, PhasePaid, PhaseClosed] ''project'' (member e ''phase'')) (\<lambda>p. ebind (items_hash (member e ''itemsHash'')) (\<lambda>items.
        ebind (required e ''projectCommitment'') (\<lambda>project. ebind (required e ''settlementCommitment'') (\<lambda>settlement.
        Inr (CommitProject p entity project items settlement)))))
      else Inl BadKind))))"

section \<open>Members of a parsed object\<close>

lemma map_of_sorted: "distinct (map fst kvs) \<Longrightarrow> map_of (sort_key fst kvs) = map_of kvs" for kvs :: "(string \<times> 'a) list"
  using sort_key_distinct [of kvs] by (metis map_of_inject_set set_sort)

lemma member_parsed:
  assumes "distinct (map fst kvs)" "\<And>k x. (k, x) \<in> set kvs \<Longrightarrow> js_of (normal x) = x"
  shows "member (js_of (normal (VObj kvs))) k = member (VObj kvs) k"
proof -
  have e: "map (\<lambda>(k, x). (k, js_of x)) (map (\<lambda>(k, x). (k, normal x)) (sort_key fst kvs)) = map (\<lambda>(k, x). (k, js_of (normal x))) (sort_key fst kvs)"
    by (simp add: o_def split_def)
  have "map (\<lambda>(k, x). (k, js_of (normal x))) (sort_key fst kvs) = sort_key fst kvs"
    using assms(2) by (intro map_idI) auto
  then show ?thesis using map_of_sorted [OF assms(1)] unfolding normal.simps js_of.simps e by simp
qed

lemma validateReference_cong:
  assumes "member a ''entityId'' = member b ''entityId''" "member a ''teamId'' = member b ''teamId''" "member a ''kind'' = member b ''kind''"
    "member a ''event'' = member b ''event''" "member a ''batchId'' = member b ''batchId''" "member a ''phase'' = member b ''phase''"
  shows "validateReference a = validateReference b"
  unfolding validateReference_def assms ..

lemma event_among [simp]: "requiredContractEvent (VStr (event_text e)) = Inr e"
  by (cases e) (simp_all add: requiredContractEvent_def)

lemma phase_text_inj [simp]: "phase_text p = phase_text q \<longleftrightarrow> p = q"
  by (cases p; cases q) simp_all

lemma phase_among_back: "p \<in> set ps \<Longrightarrow> phase_among ps kind (VStr (phase_text p)) = Inr p"
proof -
  have "find (\<lambda>q. p = q) ps = Some p" if "p \<in> set ps" using that by (induction ps) auto
  then show "p \<in> set ps \<Longrightarrow> phase_among ps kind (VStr (phase_text p)) = Inr p" by (simp add: phase_among_def)
qed

lemma phase_among_Inr: "phase_among ps kind v = Inr p \<Longrightarrow> p \<in> set ps \<and> v = VStr (phase_text p)"
  by (auto simp: phase_among_def find_Some_iff split: option.splits)

lemma requiredReference_VStr [simp]: "requiredReference (VStr s) k = (if reference_text s then Inr s else Inl (BadReference k))"
  by (simp add: requiredReference_def)

text \<open>When a reference is valid, and as what.\<close>

lemma validate_Inr:
  "validateReference (VObj (reference_fields (RefPaymentScore e t))) = Inr n \<longleftrightarrow> reference_text e \<and> reference_text t \<and> e = t \<and> uuid_text t \<and> n = Some (RefPaymentScore e t)"
  "validateReference (VObj (reference_fields (RefContract e t ev))) = Inr n \<longleftrightarrow> reference_text e \<and> reference_text t \<and> n = Some (RefContract e t ev)"
  "validateReference (VObj (reference_fields (RefPayroll e t None))) = Inr n \<longleftrightarrow> reference_text e \<and> reference_text t \<and> n = Some (RefPayroll e t None)"
  "validateReference (VObj (reference_fields (RefPayroll e t (Some b)))) = Inr n \<longleftrightarrow> reference_text e \<and> reference_text t
     \<and> (if b = '''' then n = Some (RefPayroll e t None) else reference_text b \<and> n = Some (RefPayroll e t (Some b)))"
  "validateReference (VObj (reference_fields (RefReimbursement e t p))) = Inr n \<longleftrightarrow> reference_text e \<and> reference_text t \<and> p \<noteq> PhaseClosed \<and> n = Some (RefReimbursement e t p)"
  "validateReference (VObj (reference_fields (RefReport e t))) = Inr n \<longleftrightarrow> reference_text e \<and> reference_text t \<and> n = Some (RefReport e t)"
  "validateReference (VObj (reference_fields (RefProject e t p))) = Inr n \<longleftrightarrow> reference_text e \<and> reference_text t \<and> n = Some (RefProject e t p)"
  subgoal by (auto simp: validateReference_def)
  subgoal by (auto simp: validateReference_def)
  subgoal by (auto simp: validateReference_def)
  subgoal by (auto simp: validateReference_def)
  subgoal by (cases p) (auto simp: validateReference_def phase_among_def)
  subgoal by (auto simp: validateReference_def)
  subgoal by (cases p) (auto simp: validateReference_def phase_among_def)
  done

lemma validated_again:
  assumes "validateReference (VObj (reference_fields r)) = Inr n"
  shows "\<exists>r'. n = Some r' \<and> validateReference (VObj (reference_fields r')) = Inr (Some r')"
proof (cases r)
  case (RefPayroll e t b)
  with assms show ?thesis by (cases b) (auto simp only: validate_Inr split: if_splits)
qed (use assms in \<open>auto simp only: validate_Inr\<close>)

lemma requiredReference_Inr: "requiredReference x k = Inr s \<longleftrightarrow> x = VStr s \<and> reference_text s"
  by (auto simp: requiredReference_def split: JsValue.splits)

lemma validated_reference:
  assumes "validateReference v = Inr (Some r)"
  shows "validateReference (VObj (reference_fields r)) = Inr (Some r)"
proof -
  obtain e t where h: "member v ''entityId'' = VStr e" "member v ''teamId'' = VStr t" "reference_text e" "reference_text t"
    using assms unfolding validateReference_def ebind_Inr_iff requiredReference_Inr by blast
  obtain kind where k: "member v ''kind'' = kind" by blast
  note a = assms [unfolded validateReference_def Let_def h(1,2) requiredReference_VStr if_P [OF h(3)] if_P [OF h(4)] ebind_simps k]
  note [simp del] = reference_fields.simps member.simps and [simp] = h(3,4) validate_Inr
  consider "kind = VStr ''payment-score''" | "kind = VStr ''contract''" | "kind = VStr ''payroll''" | "kind = VStr ''reimbursement''"
    | "kind = VStr ''report''" | "kind = VStr ''project''"
    | "kind \<noteq> VStr ''payment-score'' \<and> kind \<noteq> VStr ''contract'' \<and> kind \<noteq> VStr ''payroll'' \<and> kind \<noteq> VStr ''reimbursement''
        \<and> kind \<noteq> VStr ''report'' \<and> kind \<noteq> VStr ''project''" by blast
  then show ?thesis
  proof cases
    case 1 show ?thesis using a unfolding 1 by (auto split: if_splits)
  next
    case 2 show ?thesis using a unfolding 2 by (auto simp: res_simps)
  next
    case 3 show ?thesis using a unfolding 3 by (auto simp: res_simps requiredReference_Inr split: if_splits)
  next
    case 4 show ?thesis using a unfolding 4 by (auto simp: res_simps dest!: phase_among_Inr)
  next
    case 5 show ?thesis using a unfolding 5 by auto
  next
    case 6 show ?thesis using a unfolding 6 by (auto simp: res_simps)
  next
    case 7 show ?thesis using a 7 by simp
  qed
qed

section \<open>Tokens: properties\<close>

definition whole_numbers :: "(rat \<Rightarrow> rat option) \<Rightarrow> (rat \<Rightarrow> string) \<Rightarrow> bool" where
  "whole_numbers num text \<longleftrightarrow> (\<forall>n. \<bar>n\<bar> \<le> 2 ^ 53 - 1 \<longrightarrow> num (of_int n) = Some (of_int n) \<and> text (of_int n) = dec_int n)"

definition seal_laws :: "(string \<Rightarrow> string) \<Rightarrow> (string \<Rightarrow> string option) \<Rightarrow> bool" where
  "seal_laws seal unseal \<longleftrightarrow> (\<forall>s. unseal (seal s) = Some s \<and> seal s \<noteq> '''')"

lemma claims_members:
  assumes "cc_reference c = Some r"
  shows "distinct (map fst (claims_fields c))" "(k, x) \<in> set (claims_fields c) \<Longrightarrow> js_of (normal x) = x"
    "member (VObj (claims_fields c)) ''version'' = VNum 1" "member (VObj (claims_fields c)) ''audience'' = VStr TOKEN_AUDIENCE"
    "member (VObj (claims_fields c)) ''issuedAt'' = VNum (of_int (cc_issuedAt c))" "member (VObj (claims_fields c)) ''expiresAt'' = VNum (of_int (cc_expiresAt c))"
    "member (VObj (claims_fields c)) ''nonce'' = VStr (cc_nonce c)"
  by (cases r; auto simp: claims_fields_def assms split: option.splits)+

lemma claims_reference:
  "cc_reference c = Some r \<Longrightarrow> validateReference (VObj (claims_fields c)) = validateReference (VObj (reference_fields r))"
  by (rule validateReference_cong; cases r; simp add: claims_fields_def split: option.splits)

lemma claims_plain:
  assumes "whole_numbers num text" "\<bar>cc_issuedAt c\<bar> \<le> 2 ^ 53 - 1" "\<bar>cc_expiresAt c\<bar> \<le> 2 ^ 53 - 1" "cc_reference c = Some r"
  shows "plain num text (VObj (claims_fields c))"
proof -
  have n: "reads_back num text (of_int n)" if "\<bar>n\<bar> \<le> 2 ^ 53 - 1" for n
    using assms(1) that by (intro whole_reads_back) (simp_all add: whole_numbers_def)
  have "plain num text x" if "(k, x) \<in> set (claims_fields c)" for k x
    using that n [OF assms(2)] n [OF assms(3)] n [of 1]
    by (cases r) (auto simp: claims_fields_def assms(4) split: option.splits)
  then show ?thesis using claims_members(1) [OF assms(4)] by auto
qed

lemma safe_integer_int [simp]: "safe_integer (of_int n) \<longleftrightarrow> \<bar>n\<bar> \<le> 2 ^ 53 - 1"
proof -
  have "\<bar>of_int n :: rat\<bar> = of_int \<bar>n\<bar>" "(2 ^ 53 - 1 :: rat) = of_int (2 ^ 53 - 1)" by simp_all
  then have "\<bar>of_int n :: rat\<bar> \<le> 2 ^ 53 - 1 \<longleftrightarrow> \<bar>n\<bar> \<le> 2 ^ 53 - 1" by (simp only: of_int_le_iff)
  then show ?thesis by (simp add: safe_integer_def)
qed


text \<open>What an issued token contains.\<close>

lemma token_issued:
  assumes "createCreEvidenceToken L seal r now_ms ttl nonce = Inr token"
  obtains r' d s where "validateReference (VObj (reference_fields r)) = Inr (Some r')" "validateReference (VObj (reference_fields r')) = Inr (Some r')"
    "1 \<le> d" "d \<le> MAX_TTL_SECONDS" "d = \<lfloor>case ttl of None \<Rightarrow> 5 * 60 | Some t \<Rightarrow> t\<rfloor>" "reference_text nonce"
    "stableStringify (lib_numberText L) (VObj (claims_fields \<lparr>cc_reference = Some r', cc_expiresAt = now_ms div 1000 + d, cc_issuedAt = now_ms div 1000, cc_nonce = nonce\<rparr>)) = Inr s"
    "token = TOKEN_PREFIX @ seal s" "text_length token \<le> MAX_TOKEN_LENGTH"
proof -
  let ?t = "case ttl of None \<Rightarrow> 5 * 60 | Some t \<Rightarrow> t"
  from assms obtain n where n: "validateReference (VObj (reference_fields r)) = Inr n"
    by (auto simp: createCreEvidenceToken_def res_simps)
  obtain r' where r': "n = Some r'" "validateReference (VObj (reference_fields r')) = Inr (Some r')" using validated_again [OF n] by blast
  from assms have t: "1 \<le> ?t" "?t \<le> of_int MAX_TTL_SECONDS" "reference_text nonce"
    by (auto simp: createCreEvidenceToken_def n Let_def not_less res_simps simp del: stableStringify.simps split: if_splits)
  with assms have "\<exists>s. stableStringify (lib_numberText L) (VObj (claims_fields \<lparr>cc_reference = Some r', cc_expiresAt = now_ms div 1000 + \<lfloor>?t\<rfloor>, cc_issuedAt = now_ms div 1000, cc_nonce = nonce\<rparr>)) = Inr s
      \<and> token = TOKEN_PREFIX @ seal s \<and> text_length token \<le> MAX_TOKEN_LENGTH"
    by (auto simp: createCreEvidenceToken_def n r' Let_def res_simps simp del: stableStringify.simps split: if_splits)
  moreover have "1 \<le> \<lfloor>?t\<rfloor>" "\<lfloor>?t\<rfloor> \<le> MAX_TTL_SECONDS" using t by (simp_all add: le_floor_iff floor_le_iff)
  ultimately show thesis using that n r' t(3) by blast
qed


text \<open>What reading the sealed claims of a token gives.\<close>

lemma sealed_claims_read:
  assumes "whole_numbers num text" "\<bar>cc_issuedAt c\<bar> \<le> 2 ^ 53 - 1" "\<bar>cc_expiresAt c\<bar> \<le> 2 ^ 53 - 1" "cc_reference c = Some r"
    "stableStringify text (VObj (claims_fields c)) = Inr s"
  obtains kvs where "JSON_parse num s = Some (JObj kvs)" "\<And>k. member (js_of (JObj kvs)) k = member (VObj (claims_fields c)) k"
proof -
  have p: "JSON_parse num s = Some (normal (VObj (claims_fields c)))"
    by (rule stable_parses [OF claims_plain [OF assms(1-4)] assms(5)])
  obtain kvs where kvs: "normal (VObj (claims_fields c)) = JObj kvs" by simp
  have "member (js_of (JObj kvs)) k = member (VObj (claims_fields c)) k" for k
    using member_parsed [OF claims_members(1,2) [OF assms(4)]] unfolding kvs .
  with p kvs show thesis using that by simp
qed

lemma opened_again:
  assumes t: "take (length TOKEN_PREFIX) token = TOKEN_PREFIX" "length TOKEN_PREFIX < length token" "text_length token \<le> MAX_TOKEN_LENGTH"
    and u: "unseal (drop (length TOKEN_PREFIX) token) = Some s" "JSON_parse num s = Some (JObj kvs)"
    and m: "\<And>k. member (js_of (JObj kvs)) k = member (VObj (claims_fields c)) k" "cc_reference c = Some r"
    and b: "\<bar>cc_issuedAt c\<bar> \<le> 2 ^ 53 - 1" "\<bar>cc_expiresAt c\<bar> \<le> 2 ^ 53 - 1" "cc_issuedAt c < cc_expiresAt c"
      "cc_expiresAt c - cc_issuedAt c \<le> MAX_TTL_SECONDS" "reference_text (cc_nonce c)" "validateReference (VObj (reference_fields r)) = Inr (Some r)"
  shows "openCreEvidenceToken num unseal token now_ms =
    (if cc_issuedAt c > now_ms div 1000 + CLOCK_SKEW_SECONDS \<or> cc_expiresAt c \<le> now_ms div 1000 then Inl TokenExpired else Inr c)"
proof -
  note f = claims_members(3-) [OF m(2)]
  have v: "validateReference (js_of (JObj kvs)) = Inr (Some r)"
    using validateReference_cong [of "js_of (JObj kvs)" "VObj (claims_fields c)"] claims_reference [OF m(2)] b(6) m(1) by metis
  have i: "requiredInteger (VNum (of_int (cc_issuedAt c))) k = Inr (cc_issuedAt c)" "requiredInteger (VNum (of_int (cc_expiresAt c))) k = Inr (cc_expiresAt c)" for k
    using b by (simp_all add: requiredInteger_def)
  have c: "\<lparr>cc_reference = Some r, cc_expiresAt = cc_expiresAt c, cc_issuedAt = cc_issuedAt c, cc_nonce = cc_nonce c\<rparr> = c" using m(2) by simp
  show ?thesis
    using t b(3-5) unfolding openCreEvidenceToken_def Let_def u bind.simps
    by (simp add: m(1) f i v c del: js_of.simps member.simps)
qed


text \<open>(C28) A token that was issued opens again for as long as it lives: at every later or earlier moment it is either refused as
  expired, exactly when that moment is outside the window from issue (less the clock skew) to expiry, or gives back
  the normalised reference, the two times and the nonce it was issued with. Its life is between one second and the
  longest time allowed. Sealing has to be undone by unsealing, and whole numbers have to survive printing and reading.\<close>

theorem token_roundtrip:
  assumes "whole_numbers num (lib_numberText L)" "seal_laws seal unseal" "\<bar>now_ms div 1000\<bar> \<le> 2 ^ 53 - 1000"
    "createCreEvidenceToken L seal reference now_ms ttl nonce = Inr token"
  shows "\<exists>r d. validateReference (VObj (reference_fields reference)) = Inr (Some r) \<and> d = \<lfloor>case ttl of None \<Rightarrow> 5 * 60 | Some t \<Rightarrow> t\<rfloor>
    \<and> 1 \<le> d \<and> d \<le> MAX_TTL_SECONDS
    \<and> (\<forall>later. openCreEvidenceToken num unseal token later =
         (if now_ms div 1000 > later div 1000 + CLOCK_SKEW_SECONDS \<or> now_ms div 1000 + d \<le> later div 1000 then Inl TokenExpired
          else Inr \<lparr>cc_reference = Some r, cc_expiresAt = now_ms div 1000 + d, cc_issuedAt = now_ms div 1000, cc_nonce = nonce\<rparr>))"
proof -
  from assms(4) obtain r d s where h: "validateReference (VObj (reference_fields reference)) = Inr (Some r)" "validateReference (VObj (reference_fields r)) = Inr (Some r)"
    "1 \<le> d" "d \<le> MAX_TTL_SECONDS" "d = \<lfloor>case ttl of None \<Rightarrow> 5 * 60 | Some t \<Rightarrow> t\<rfloor>" "reference_text nonce"
    "stableStringify (lib_numberText L) (VObj (claims_fields \<lparr>cc_reference = Some r, cc_expiresAt = now_ms div 1000 + d, cc_issuedAt = now_ms div 1000, cc_nonce = nonce\<rparr>)) = Inr s"
    "token = TOKEN_PREFIX @ seal s" "text_length token \<le> MAX_TOKEN_LENGTH" by (rule token_issued)
  let ?c = "\<lparr>cc_reference = Some r, cc_expiresAt = now_ms div 1000 + d, cc_issuedAt = now_ms div 1000, cc_nonce = nonce\<rparr>"
  have b: "\<bar>cc_issuedAt ?c\<bar> \<le> 2 ^ 53 - 1" "\<bar>cc_expiresAt ?c\<bar> \<le> 2 ^ 53 - 1" using assms(3) h(3,4) by (simp_all add: MAX_TTL_SECONDS_def)
  obtain kvs where k: "JSON_parse num s = Some (JObj kvs)" "\<And>k. member (js_of (JObj kvs)) k = member (VObj (claims_fields ?c)) k"
    by (rule sealed_claims_read [where c = ?c and s = s and r = r, OF assms(1) b _ h(7)]) simp_all
  have "openCreEvidenceToken num unseal token later =
      (if cc_issuedAt ?c > later div 1000 + CLOCK_SKEW_SECONDS \<or> cc_expiresAt ?c \<le> later div 1000 then Inl TokenExpired else Inr ?c)" for later
    using assms(2) h by (intro opened_again [where kvs = kvs and s = s and r = r, OF _ _ _ _ k(1) k(2) _ b]) (simp_all add: seal_laws_def)
  with h show ?thesis by (intro exI [of _ r] exI [of _ d]) simp
qed

definition witness_lib :: CreLib where
  "witness_lib = \<lparr>lib_keccak256 = (\<lambda>s. ''0x'' @ replicate (64 - length s mod 16) CHR ''a'' @ replicate (length s mod 16) CHR ''b''),
     lib_toHex = (\<lambda>s. s), lib_isHex = (\<lambda>s. take 2 s = ''0x''), lib_numberText = (\<lambda>q. dec_int \<lfloor>q\<rfloor>)\<rparr>"

lemma witness_whole: "whole_numbers Some (lib_numberText witness_lib)"
  by (simp add: whole_numbers_def witness_lib_def)

definition witness_token :: "cre_error + string" where
  "witness_token = createCreEvidenceToken witness_lib (Cons CHR ''x'') (RefPayroll ''run-1'' ''team'' (Some '''')) 5999 None ''n1''"

lemma witness_token_text: "witness_token = Inr (TOKEN_PREFIX @
  ''x{\"audience\":\"bufi-cre-evidence\",\"entityId\":\"run-1\",\"expiresAt\":305,\"issuedAt\":5,\"kind\":\"payroll\",\"nonce\":\"n1\",\"teamId\":\"team\",\"version\":1}'')"
  by code_simp

theorem token_roundtrip_witness:
  "\<exists>r d. validateReference (VObj (reference_fields (RefPayroll ''run-1'' ''team'' (Some '''')))) = Inr (Some r) \<and> d = \<lfloor>case None of None \<Rightarrow> 5 * 60 :: rat | Some t \<Rightarrow> t\<rfloor>
    \<and> 1 \<le> d \<and> d \<le> MAX_TTL_SECONDS
    \<and> (\<forall>later. openCreEvidenceToken Some (\<lambda>s. Some (tl s)) (projr witness_token) later =
         (if 5999 div 1000 > later div 1000 + CLOCK_SKEW_SECONDS \<or> 5999 div 1000 + d \<le> later div 1000 then Inl TokenExpired
          else Inr \<lparr>cc_reference = Some r, cc_expiresAt = 5999 div 1000 + d, cc_issuedAt = 5999 div 1000, cc_nonce = ''n1''\<rparr>))"
proof (rule token_roundtrip [OF witness_whole])
  show "seal_laws (Cons CHR ''x'') (\<lambda>s. Some (tl s))" by (simp add: seal_laws_def)
  show "createCreEvidenceToken witness_lib (Cons CHR ''x'') (RefPayroll ''run-1'' ''team'' (Some '''')) 5999 None ''n1'' = Inr (projr witness_token)"
    unfolding witness_token_text using witness_token_text by (simp add: witness_token_def)
qed simp

text \<open>A token that is accepted is fresh: it was not issued in the future beyond the clock skew, has not expired, lives
  at most the longest time allowed, and its nonce is a proper reference. If it names a reference, that reference is
  valid.\<close>

theorem accepted_token_fresh:
  assumes "openCreEvidenceToken num unseal token now_ms = Inr c"
  shows "take (length TOKEN_PREFIX) token = TOKEN_PREFIX \<and> text_length token \<le> MAX_TOKEN_LENGTH
    \<and> cc_issuedAt c \<le> now_ms div 1000 + CLOCK_SKEW_SECONDS \<and> now_ms div 1000 < cc_expiresAt c
    \<and> cc_issuedAt c < cc_expiresAt c \<and> cc_expiresAt c \<le> cc_issuedAt c + MAX_TTL_SECONDS \<and> reference_text (cc_nonce c)
    \<and> (\<forall>r. cc_reference c = Some r \<longrightarrow> validateReference (VObj (reference_fields r)) = Inr (Some r))"
  using assms
  by (auto simp: openCreEvidenceToken_def Let_def res_simps not_less not_le requiredReference_def dest: validated_reference simp del: js_of.simps member.simps
      split: option.splits JsonValue.splits JsValue.splits if_splits)

definition witness_claims :: CreEvidenceClaims where
  "witness_claims = \<lparr>cc_reference = Some (RefPayroll ''run-1'' ''team'' None), cc_expiresAt = 305, cc_issuedAt = 5, cc_nonce = ''n1''\<rparr>"

lemma witness_token_opens: "openCreEvidenceToken Some (\<lambda>s. Some (tl s)) (projr witness_token) 6000 = Inr witness_claims"
  by code_simp

theorem accepted_token_fresh_witness:
  "take (length TOKEN_PREFIX) (projr witness_token) = TOKEN_PREFIX \<and> text_length (projr witness_token) \<le> MAX_TOKEN_LENGTH
    \<and> (5::int) \<le> 6000 div 1000 + CLOCK_SKEW_SECONDS \<and> 6000 div 1000 < (305::int) \<and> (305::int) \<le> 5 + MAX_TTL_SECONDS \<and> reference_text ''n1''
    \<and> validateReference (VObj (reference_fields (RefPayroll ''run-1'' ''team'' None))) = Inr (Some (RefPayroll ''run-1'' ''team'' None))"
  using accepted_token_fresh [OF witness_token_opens] unfolding witness_claims_def by simp

text \<open>A reference of a kind the module does not know is not refused: it validates to no reference, and a token with such
  claims opens.\<close>

theorem unknown_kind_passes:
  assumes "member v ''kind'' \<notin> VStr ` {''payment-score'', ''contract'', ''payroll'', ''reimbursement'', ''report'', ''project''}"
    "requiredReference (member v ''entityId'') ''entityId'' = Inr e" "requiredReference (member v ''teamId'') ''teamId'' = Inr t"
  shows "validateReference v = Inr None"
  using assms by (auto simp: validateReference_def Let_def simp del: member.simps)

theorem unknown_kind_passes_witness: "validateReference (VObj [(''kind'', VStr ''refund''), (''entityId'', VStr ''e''), (''teamId'', VStr ''t'')]) = Inr None"
  by (rule unknown_kind_passes [where e = "''e''" and t = "''t''"]) (auto simp: reference_text_def text_length_def MAX_REFERENCE_LENGTH_def control_char_def)

end
