(* ===== verification/CR_Commitments.thy ===== *)
theory CR_Commitments
  imports CR_Evidence
begin

text \<open>
  What the commitments of \<open>packages/cre/src/evidence.ts\<close> guarantee: a commitment stands for one value up to the order
  of members and a collision of the hash, evidence is only committed to when its record is ready, and the reader of
  an evidence response accepts exactly what the builders produce.
\<close>

section \<open>Binding\<close>

text \<open>(C27) Two values get one commitment exactly when they are equal up to the order of members, or when their texts collide
  under the hash; and the order in which an object lists its members never matters.\<close>

theorem commitments_bind:
  assumes "plain num (lib_numberText L) a" "plain num (lib_numberText L) b"
  shows "(\<exists>s t. stableStringify (lib_numberText L) a = Inr s \<and> stableStringify (lib_numberText L) b = Inr t \<and> commitment L a = Inr (hash_text L s)
    \<and> (s = t \<longleftrightarrow> normal a = normal b) \<and> (commitment L a = commitment L b \<longleftrightarrow> normal a = normal b \<or> (s \<noteq> t \<and> hash_text L s = hash_text L t)))
    \<and> (\<forall>kvs kvs'. a = VObj kvs \<and> mset kvs = mset kvs' \<longrightarrow> commitment L (VObj kvs') = commitment L a)"
proof (intro conjI allI impI)
  fix kvs kvs'
  assume h: "a = VObj kvs \<and> mset kvs = mset kvs'"
  then have "sort_key fst kvs = sort_key fst kvs'"
    using assms(1) by (intro sort_key_inj_key_eq) (simp_all add: distinct_map)
  with h show "commitment L (VObj kvs') = commitment L a" by (simp add: commitment_def)
next
  note a = stable_is_compact [OF assms(1)] and b = stable_is_compact [OF assms(2)]
  let ?s = "stringify (lib_numberText L) '''' '''' (normal a)" and ?t = "stringify (lib_numberText L) '''' '''' (normal b)"
  have e: "?s = ?t \<longleftrightarrow> normal a = normal b"
  proof
    assume "?s = ?t"
    then have "Some (normal a) = Some (normal b)" using stable_parses [OF assms(1) a] stable_parses [OF assms(2) b] by (simp only:)
    then show "normal a = normal b" by (simp only: option.inject)
  qed (simp only:)
  show "\<exists>s t. stableStringify (lib_numberText L) a = Inr s \<and> stableStringify (lib_numberText L) b = Inr t \<and> commitment L a = Inr (hash_text L s)
    \<and> (s = t \<longleftrightarrow> normal a = normal b) \<and> (commitment L a = commitment L b \<longleftrightarrow> normal a = normal b \<or> (s \<noteq> t \<and> hash_text L s = hash_text L t))"
  proof (intro exI conjI)
    show "commitment L a = Inr (hash_text L ?s)" unfolding commitment_def a by simp
    show "commitment L a = commitment L b \<longleftrightarrow> normal a = normal b \<or> (?s \<noteq> ?t \<and> hash_text L ?s = hash_text L ?t)"
      unfolding commitment_def a b ebind_simps sum.inject e [symmetric] by metis
  qed (rule a b e)+
qed

theorem commitments_bind_witness:
  "commitment witness_lib (VObj [(''b'', VNull), (''a'', VNum 1)]) = commitment witness_lib (VObj [(''a'', VNum 1), (''b'', VNull)])
   \<and> (\<exists>s t. stableStringify (lib_numberText witness_lib) (VObj [(''b'', VNull), (''a'', VNum 1)]) = Inr s
     \<and> stableStringify (lib_numberText witness_lib) (VObj [(''b'', VNull), (''a'', VStr ''1'')]) = Inr t
     \<and> (commitment witness_lib (VObj [(''b'', VNull), (''a'', VNum 1)]) = commitment witness_lib (VObj [(''b'', VNull), (''a'', VStr ''1'')])
        \<longleftrightarrow> normal (VObj [(''b'', VNull), (''a'', VNum 1)]) = normal (VObj [(''b'', VNull), (''a'', VStr ''1'')]) \<or> (s \<noteq> t \<and> hash_text witness_lib s = hash_text witness_lib t)))"
proof -
  have "reads_back Some (lib_numberText witness_lib) (of_int 1)"
    by (rule whole_reads_back) (simp_all add: witness_lib_def)
  then have p: "plain Some (lib_numberText witness_lib) (VObj [(''b'', VNull), (''a'', VNum 1)])"
    "plain Some (lib_numberText witness_lib) (VObj [(''b'', VNull), (''a'', VStr ''1'')])" by simp_all
  have "mset [(''b'', VNull), (''a'', VNum 1)] = mset [(''a'', VNum 1), (''b'', VNull)]" by simp
  with commitments_bind [OF p] show ?thesis by metis
qed

section \<open>Responses\<close>

text \<open>Commitments as an object, and their shape.\<close>

fun commitments_fields :: "CreEvidenceCommitments \<Rightarrow> (string \<times> JsValue) list" where
  "commitments_fields (CommitContract e entity agreement state snapshot) = [(''kind'', VStr ''contract''), (''event'', VStr (event_text e)),
     (''entityCommitment'', VStr entity), (''agreementCommitment'', VStr agreement), (''stateCommitment'', VStr state), (''snapshotCommitment'', VStr snapshot)]"
| "commitments_fields (CommitPayroll entity rec recipient batch) = [(''kind'', VStr ''payroll''), (''entityCommitment'', VStr entity),
     (''recordCommitment'', VStr rec), (''recipientCommitment'', VStr recipient), (''batchCommitment'', VStr batch)]"
| "commitments_fields (CommitReimbursement p entity request items settlement) = [(''kind'', VStr ''reimbursement''), (''phase'', VStr (phase_text p)),
     (''entityCommitment'', VStr entity), (''requestCommitment'', VStr request), (''itemsHash'', VStr items), (''settlementCommitment'', VStr settlement)]"
| "commitments_fields (CommitReport entity report transactions metrics analysis combined) = [(''kind'', VStr ''report''), (''entityCommitment'', VStr entity),
     (''reportCommitment'', VStr report), (''transactionsHash'', VStr transactions), (''metricsHash'', VStr metrics), (''analysisHash'', VStr analysis),
     (''combinedHash'', VStr combined)]"
| "commitments_fields (CommitProject p entity project items settlement) = [(''kind'', VStr ''project''), (''phase'', VStr (phase_text p)),
     (''entityCommitment'', VStr entity), (''projectCommitment'', VStr project), (''itemsHash'', VStr items), (''settlementCommitment'', VStr settlement)]"

definition bytes32 :: "CreLib \<Rightarrow> string \<Rightarrow> bool" where
  "bytes32 L s \<longleftrightarrow> lib_isHex L s \<and> length s = 66"

fun well_formed :: "CreLib \<Rightarrow> CreEvidenceCommitments \<Rightarrow> bool" where
  "well_formed L (CommitContract e a b c d) = list_all (bytes32 L) [a, b, c, d]"
| "well_formed L (CommitPayroll a b c d) = list_all (bytes32 L) [a, b, c, d]"
| "well_formed L (CommitReimbursement p a b i c) = (p \<noteq> PhaseClosed \<and> SHA256_HEX i \<and> list_all (bytes32 L) [a, b, c])"
| "well_formed L (CommitReport a b c d e f) = list_all (bytes32 L) [a, b, c, d, e, f]"
| "well_formed L (CommitProject p a b i c) = (SHA256_HEX i \<and> list_all (bytes32 L) [a, b, c])"

lemma requiredCommitment_Inr: "requiredCommitment L v k = Inr s \<longleftrightarrow> v = VStr s \<and> bytes32 L s"
  by (auto simp: requiredCommitment_def bytes32_def split: JsValue.splits)

lemma requiredCommitment_VStr: "bytes32 L s \<Longrightarrow> requiredCommitment L (VStr s) k = Inr s"
  by (simp add: requiredCommitment_def bytes32_def)

lemma items_hash_VStr: "SHA256_HEX s \<Longrightarrow> items_hash (VStr s) = Inr s"
  by (simp add: items_hash_def)

lemma items_hash_Inr: "items_hash v = Inr s \<longleftrightarrow> v = VStr s \<and> SHA256_HEX s"
  by (auto simp: items_hash_def split: JsValue.splits)

lemma well_formed_reads: "well_formed L c \<Longrightarrow> parseCreEvidenceCommitments L (VObj (commitments_fields c)) = Inr c"
proof (cases c)
  case (CommitReimbursement p a b i d)
  then show "well_formed L c \<Longrightarrow> ?thesis" by (cases p) (simp_all add: parseCreEvidenceCommitments_def requiredCommitment_VStr items_hash_VStr phase_among_def)
next
  case (CommitProject p a b i d)
  then show "well_formed L c \<Longrightarrow> ?thesis" by (cases p) (simp_all add: parseCreEvidenceCommitments_def requiredCommitment_VStr items_hash_VStr phase_among_def)
qed (simp_all add: parseCreEvidenceCommitments_def requiredCommitment_VStr)

lemma parse_wrapped:
  "map_of kvs ''success'' = None \<Longrightarrow>
     parseCreEvidenceCommitments L (VObj [(''success'', VBool True), (''evidence'', VObj kvs)]) = parseCreEvidenceCommitments L (VObj kvs)"
  by (simp add: parseCreEvidenceCommitments_def)


text \<open>The builders: what one of them returns is attested.\<close>

inductive attested :: "CreLib \<Rightarrow> CreEvidenceCommitments \<Rightarrow> bool" for L where
  contract: "buildContractLifecycleEvidenceCommitments L contract_record event = Inr c \<Longrightarrow> attested L c"
| payroll: "buildPayrollEvidenceCommitments L payroll_record batchId = Inr c \<Longrightarrow> attested L c"
| report: "buildReportEvidenceCommitments L report_record = Inr c \<Longrightarrow> attested L c"
| reimbursement: "ef_phase facts \<noteq> PhaseClosed \<Longrightarrow> buildReimbursementEvidenceCommitments L request_record facts = Inr c \<Longrightarrow> attested L c"
| project: "buildProjectEvidenceCommitments L project_record facts = Inr c \<Longrightarrow> attested L c"

definition hash32 :: "CreLib \<Rightarrow> bool" where
  "hash32 L \<longleftrightarrow> (\<forall>s. bytes32 L (hash_text L s))"

lemma commitment_bytes32: "hash32 L \<Longrightarrow> commitment L v = Inr h \<Longrightarrow> bytes32 L h"
  by (auto simp: commitment_def hash32_def res_simps)

lemma attested_well_formed:
  assumes "hash32 L" "attested L c"
  shows "well_formed L c"
  using assms(2)
proof cases
  case (contract r event)
  then show ?thesis
    unfolding buildContractLifecycleEvidenceCommitments_def ebind_Inr_iff using assms(1) commitment_bytes32 by (auto simp: hash32_def)
next
  case (payroll r batchId)
  then show ?thesis
    unfolding buildPayrollEvidenceCommitments_def ebind_Inr_iff using assms(1) commitment_bytes32 by (auto simp: hash32_def res_simps split: if_splits)
next
  case (report r)
  then show ?thesis
    unfolding buildReportEvidenceCommitments_def ebind_Inr_iff using assms(1) commitment_bytes32 by (auto simp: hash32_def)
next
  case (reimbursement facts r)
  then show ?thesis
    unfolding buildReimbursementEvidenceCommitments_def ebind_Inr_iff using assms(1) commitment_bytes32
    by (auto simp: hash32_def throw_if_Inr_iff item_evidence_def ebind_Inr_iff split: if_splits)
next
  case (project r facts)
  then show ?thesis
    unfolding buildProjectEvidenceCommitments_def ebind_Inr_iff using assms(1) commitment_bytes32
    by (auto simp: hash32_def throw_if_Inr_iff item_evidence_def ebind_Inr_iff split: if_splits)
qed


text \<open>The reader accepts what the builders return, bare or wrapped in a success response, and reads it back unchanged.
  The hash has to return 32 bytes in hexadecimal.\<close>

theorem attested_reads_back:
  assumes "hash32 L" "attested L c"
  shows "parseCreEvidenceCommitments L (VObj (commitments_fields c)) = Inr c
    \<and> parseCreEvidenceCommitments L (VObj [(''success'', VBool True), (''evidence'', VObj (commitments_fields c))]) = Inr c"
proof -
  have r: "parseCreEvidenceCommitments L (VObj (commitments_fields c)) = Inr c"
    by (rule well_formed_reads [OF attested_well_formed [OF assms]])
  moreover have "map_of (commitments_fields c) ''success'' = None" by (cases c) simp_all
  ultimately show ?thesis by (simp only: parse_wrapped)
qed

text \<open>A response that is accepted has the shape of commitments, and only its commitments are kept: reading them again gives
  the same.\<close>

theorem responses_checked:
  assumes "parseCreEvidenceCommitments L v = Inr c"
  shows "well_formed L c \<and> parseCreEvidenceCommitments L (VObj (commitments_fields c)) = Inr c"
proof -
  have "well_formed L c" using assms
    unfolding parseCreEvidenceCommitments_def Let_def
    by (auto simp: ebind_Inr_iff throw_if_Inr_iff requiredCommitment_Inr items_hash_Inr simp del: member.simps dest!: phase_among_Inr split: if_splits)
  then show ?thesis using well_formed_reads by simp
qed

section \<open>Readiness\<close>

lemma nullable_truthy: "truthy (nullable x) \<longleftrightarrow> (\<exists>s. x = Some s \<and> s \<noteq> '''')"
  by (auto simp: nullable_def split: option.splits)

lemma canonical_not_zero:
  assumes "canonicalDecimal text a = Inr x" "x \<noteq> ''0''"
  shows "decimal_value (js_String text a) \<noteq> 0"
proof -
  have z: "canonicalDecimal text (VStr ''0'') = Inr ''0''" by code_simp
  have "decimal_value (js_String text (VStr ''0'')) = 0" by (simp add: decimal_value_def) code_simp
  then show ?thesis using canonical_forms assms z by metis
qed

text \<open>A lifecycle event of a contract is only attested when the contract's record shows it: funding needs a time and an
  amount other than zero, signing, completion and cancellation need their status, deployment an escrow or a status
  that comes after it. The commitments name that event and the contract.\<close>

theorem contract_event_ready:
  assumes "buildContractLifecycleEvidenceCommitments L r event = Inr c"
  shows "(\<exists>agreement state snapshot. c = CommitContract event (hash_text L (''contract:'' @ cl_agreementId r)) agreement state snapshot)
    \<and> (event = ContractFund \<longrightarrow> (\<exists>t. cl_fundedAt r = Some t \<and> t \<noteq> '''') \<and> decimal_value (js_String (lib_numberText L) (cl_fundedAmount r)) \<noteq> 0)
    \<and> (event = ContractSign \<longrightarrow> cl_status r \<in> {''pending_sign'', ''active'', ''completed''})
    \<and> (event = ContractComplete \<longrightarrow> cl_status r = ''completed'')
    \<and> (event = ContractCancel \<longrightarrow> cl_status r \<in> {''cancelled'', ''canceled''})
    \<and> (event = ContractDeploy \<longrightarrow> (\<exists>a. cl_escrowAddress r = Some a \<and> a \<noteq> '''') \<or> cl_status r \<in> {''deploying'', ''active'', ''completed''})"
proof -
  obtain fundedAmount where h: "canonicalDecimal (lib_numberText L) (cl_fundedAmount r) = Inr fundedAmount"
    "contract_ready event r (cl_status r) fundedAmount = Inr ()"
    "\<exists>agreement state snapshot. c = CommitContract event (hash_text L (''contract:'' @ cl_agreementId r)) agreement state snapshot"
    using assms unfolding buildContractLifecycleEvidenceCommitments_def
    by (auto simp: ebind_Inr_iff requiredReference_Inr simp del: requiredReference_VStr)
  show ?thesis using h(2,3) canonical_not_zero [OF h(1)]
    by (cases event) (auto simp: contract_ready_def res_simps nullable_truthy)
qed


text \<open>The payroll's recipients: what the count establishes.\<close>

definition recipient_ok :: "CreLib \<Rightarrow> JsValue \<Rightarrow> bool" where
  "recipient_ok L x = (decimal_form (js_String (lib_numberText L) (member x ''amount''))
     \<and> (case member x ''walletAddress'' of VStr w \<Rightarrow> reference_text w | _ \<Rightarrow> False))"

definition group_members :: "JsValue \<Rightarrow> JsValue list" where
  "group_members grp = (case grp of VArr rs \<Rightarrow> rs | _ \<Rightarrow> [])"

lemma counted_recipients:
  "efold (count_recipient L) rs n = Inr m \<Longrightarrow> m = n + length rs \<and> list_all (recipient_ok L) rs"
proof (induction rs arbitrary: n)
  case (Cons x rs)
  then obtain k where k: "count_recipient L x n = Inr k" "efold (count_recipient L) rs k = Inr m" by (auto simp: ebind_Inr_iff)
  have "k = n + 1 \<and> recipient_ok L x"
    using k(1) by (auto simp: count_recipient_def recipient_ok_def ebind_Inr_iff requiredReference_Inr canonicalDecimal_def Let_def
        simp del: member.simps split: JsValue.splits if_splits)
  with Cons.IH [OF k(2)] show ?case by simp
qed simp

lemma counted_groups:
  "efold (count_group L) gs n = Inr m \<Longrightarrow> m = n + length (concat (map group_members gs)) \<and> list_all (recipient_ok L) (concat (map group_members gs))"
proof (induction gs arbitrary: n)
  case (Cons g gs)
  then obtain k where k: "count_group L g n = Inr k" "efold (count_group L) gs k = Inr m" by (auto simp: ebind_Inr_iff)
  have "k = n + length (group_members g) \<and> list_all (recipient_ok L) (group_members g)"
    using k(1) counted_recipients by (auto simp: count_group_def group_members_def split: JsValue.splits)
  with Cons.IH [OF k(2)] show ?case by simp
qed simp

text \<open>A payroll is only attested once it was executed, with as many recipients as it states, each with an amount and a
  wallet; a batch names itself, a payroll without a batch is bound to its own record.\<close>

theorem payroll_ready:
  assumes "buildPayrollEvidenceCommitments L r batchId = Inr c"
  shows "py_status r = ''executed'' \<and> (\<exists>t. py_executedAt r = Some t \<and> reference_text t)
    \<and> of_nat (length (concat (map group_members (object_values (py_recipients r))))) = py_recipientCount r \<and> 1 \<le> py_recipientCount r
    \<and> list_all (recipient_ok L) (concat (map group_members (object_values (py_recipients r))))
    \<and> (\<exists>rec recipients. commitment L (py_recipients r) = Inr recipients
        \<and> c = CommitPayroll (hash_text L (''payroll:'' @ py_payrollId r)) rec recipients
            (case batchId of Some b \<Rightarrow> if b = '''' then hash_text L (''payroll-record:'' @ rec) else hash_text L (''payroll-batch:'' @ b)
             | None \<Rightarrow> hash_text L (''payroll-record:'' @ rec)))"
proof -
  obtain n where n: "efold (count_group L) (object_values (py_recipients r)) 0 = Inr n" "of_nat n = py_recipientCount r" "\<not> py_recipientCount r < 1"
    "py_status r = ''executed''"
    using assms unfolding buildPayrollEvidenceCommitments_def by (auto simp: ebind_Inr_iff throw_if_Inr_iff)
  obtain t where "requiredReference (nullable (py_executedAt r)) ''executedAt'' = Inr t"
    using assms unfolding buildPayrollEvidenceCommitments_def ebind_Inr_iff by blast
  then have t: "\<exists>t. py_executedAt r = Some t \<and> reference_text t"
    by (auto simp: requiredReference_Inr nullable_def split: option.splits)
  obtain rec recipients batch where e: "commitment L (py_recipients r) = Inr recipients"
    "(if truthy (nullable batchId) then ebind (requiredReference (nullable batchId) ''batchId'') (\<lambda>b. Inr (hash_text L (''payroll-batch:'' @ b)))
      else Inr (hash_text L (''payroll-record:'' @ rec))) = Inr batch"
    "c = CommitPayroll (hash_text L (''payroll:'' @ py_payrollId r)) rec recipients batch"
    using assms unfolding buildPayrollEvidenceCommitments_def
    by (elim ebind_InrE) (rule that, assumption, assumption, simp only: requiredReference_Inr JsValue.inject sum.inject)
  have "batch = (case batchId of Some b \<Rightarrow> if b = '''' then hash_text L (''payroll-record:'' @ rec) else hash_text L (''payroll-batch:'' @ b)
      | None \<Rightarrow> hash_text L (''payroll-record:'' @ rec))"
    using e(2) by (cases batchId) (auto simp: nullable_def split: if_splits)
  with e(1,3) show ?thesis using counted_groups [OF n(1)] n(2-4) t by (auto simp: not_less)
qed


section \<open>Instances\<close>

definition witness_payroll :: PayrollEvidenceRecord where
  "witness_payroll = \<lparr>py_payrollId = ''run-1'', py_teamId = ''team'', py_status = ''executed'', py_payPeriodStart = ''2026-01-01'',
     py_payPeriodEnd = ''2026-01-31'', py_totalAmountUsdc = VStr ''10.50'', py_totalAmountEurc = VNum 0, py_recipientCount = 1,
     py_recipients = VObj [(''staff'', VArr [VObj [(''walletAddress'', VStr ''0xabc''), (''amount'', VStr ''10.50'')]])],
     py_executedAt = Some ''2026-02-01''\<rparr>"

definition witness_payroll_commitments :: CreEvidenceCommitments where
  "witness_payroll_commitments = projr (buildPayrollEvidenceCommitments witness_lib witness_payroll None)"

lemma witness_payroll_built: "buildPayrollEvidenceCommitments witness_lib witness_payroll None = Inr witness_payroll_commitments"
proof -
  have "isl (buildPayrollEvidenceCommitments witness_lib witness_payroll None) = False" by code_simp
  then show ?thesis by (simp add: witness_payroll_commitments_def)
qed

theorem payroll_ready_witness:
  "py_status witness_payroll = ''executed'' \<and> (\<exists>t. py_executedAt witness_payroll = Some t \<and> reference_text t)
    \<and> of_nat (length (concat (map group_members (object_values (py_recipients witness_payroll))))) = py_recipientCount witness_payroll
    \<and> 1 \<le> py_recipientCount witness_payroll
    \<and> list_all (recipient_ok witness_lib) (concat (map group_members (object_values (py_recipients witness_payroll))))
    \<and> (\<exists>rec recipients. commitment witness_lib (py_recipients witness_payroll) = Inr recipients
        \<and> witness_payroll_commitments = CommitPayroll (hash_text witness_lib (''payroll:'' @ py_payrollId witness_payroll)) rec recipients
            (case None of Some b \<Rightarrow> if b = '''' then hash_text witness_lib (''payroll-record:'' @ rec) else hash_text witness_lib (''payroll-batch:'' @ b)
             | None \<Rightarrow> hash_text witness_lib (''payroll-record:'' @ rec)))"
  by (rule payroll_ready [OF witness_payroll_built])

lemma witness_hash32: "hash32 witness_lib"
proof -
  have "64 - n mod 16 + n mod 16 = 64" for n :: nat using mod_less_divisor [of 16 n] by simp
  then show ?thesis by (simp add: hash32_def bytes32_def hash_text_def witness_lib_def)
qed

theorem attested_reads_back_witness:
  "parseCreEvidenceCommitments witness_lib (VObj (commitments_fields witness_payroll_commitments)) = Inr witness_payroll_commitments
    \<and> parseCreEvidenceCommitments witness_lib (VObj [(''success'', VBool True), (''evidence'', VObj (commitments_fields witness_payroll_commitments))])
      = Inr witness_payroll_commitments"
  by (rule attested_reads_back [OF witness_hash32 attested.payroll [OF witness_payroll_built]])

definition witness_response :: JsValue where
  "witness_response = VObj [(''extra'', VNull), (''kind'', VStr ''project''), (''phase'', VStr ''closed''), (''entityCommitment'', VStr (hash_text witness_lib ''a'')),
     (''projectCommitment'', VStr (hash_text witness_lib ''b'')), (''itemsHash'', VStr (replicate 64 CHR ''e'')), (''settlementCommitment'', VStr (hash_text witness_lib ''c''))]"

definition witness_project_commitments :: CreEvidenceCommitments where
  "witness_project_commitments = CommitProject PhaseClosed (hash_text witness_lib ''a'') (hash_text witness_lib ''b'') (replicate 64 CHR ''e'') (hash_text witness_lib ''c'')"

lemma witness_response_read: "parseCreEvidenceCommitments witness_lib witness_response = Inr witness_project_commitments"
  by code_simp

theorem responses_checked_witness:
  "well_formed witness_lib witness_project_commitments
    \<and> parseCreEvidenceCommitments witness_lib (VObj (commitments_fields witness_project_commitments)) = Inr witness_project_commitments"
  by (rule responses_checked [OF witness_response_read])

definition witness_contract :: ContractLifecycleEvidenceRecord where
  "witness_contract = \<lparr>cl_agreementId = ''c-1'', cl_teamId = ''team'', cl_status = ''active'', cl_agreementHash = None, cl_chainId = Some 1,
     cl_totalAmount = VStr ''100'', cl_fundedAmount = VStr ''40.0'', cl_fundedAt = Some ''2026-02-01'', cl_escrowAddress = None,
     cl_updatedAt = ''2026-02-02'', cl_agreement = VObj [(''title'', VStr ''x'')]\<rparr>"

definition witness_contract_commitments :: CreEvidenceCommitments where
  "witness_contract_commitments = projr (buildContractLifecycleEvidenceCommitments witness_lib witness_contract ContractFund)"

lemma witness_contract_built: "buildContractLifecycleEvidenceCommitments witness_lib witness_contract ContractFund = Inr witness_contract_commitments"
proof -
  have "isl (buildContractLifecycleEvidenceCommitments witness_lib witness_contract ContractFund) = False" by code_simp
  then show ?thesis by (simp add: witness_contract_commitments_def)
qed

theorem contract_event_ready_witness:
  "(\<exists>t. cl_fundedAt witness_contract = Some t \<and> t \<noteq> '''')
    \<and> decimal_value (js_String (lib_numberText witness_lib) (cl_fundedAmount witness_contract)) \<noteq> 0
    \<and> (\<exists>agreement state snapshot. witness_contract_commitments =
         CommitContract ContractFund (hash_text witness_lib (''contract:'' @ cl_agreementId witness_contract)) agreement state snapshot)"
  using contract_event_ready [OF witness_contract_built] by blast

end
