(* ===== verification/MW_Grants.thy ===== *)
theory MW_Grants
  imports AG_Types CR_Values
begin

text \<open>
  The agent policy vocabulary of the wallet SDK (\<open>packages/modular-wallets-core\<close>): grants, the presets for the agent
  roles (\<open>cascade/agentGrantPresets.ts\<close>) and the compiler from a grant to the ordered permission updates the session key
  plugin accepts (\<open>actions/plugins/sessionKey/buildBufiGrant.ts\<close>, \<open>permissionUpdates.ts\<close>). The ABI encoder, the function
  selectors, hashing and the address and hash tests belong to a library and are the record \<open>MwLib\<close>; an encoder that
  throws returns \<open>None\<close>. A \<open>number\<close> is a rational, a \<open>bigint\<close> an integer.
\<close>

datatype mw_error = EmptyScope | BadExpiry | NoRecipients string | NoVaults | VaultIsToken Address | NegativeAmount Address
  | ShortOf int Address | NoSessionKeyPlugin | NoEarnModule | BadConfigHash | AbiError | BadDeployment string

datatype AbiArg = ArgAddress Address | ArgUint int | ArgNumber rat | ArgBool bool | ArgBytes4 Hex | ArgBytes Hex | ArgArray "AbiArg list"

record MwLib =
  mw_encode :: "string \<Rightarrow> AbiArg list \<Rightarrow> Hex option"
  mw_encodeParams :: "AbiArg list \<Rightarrow> Hex option"
  mw_selector :: "string \<Rightarrow> Hex"
  mw_keccak256 :: "Hex \<Rightarrow> Hex"
  mw_isAddress :: "string \<Rightarrow> bool"
  mw_isHash :: "string \<Rightarrow> bool"

text \<open>A call of the encoder, for a function given by its signature.\<close>

definition encodeFunctionData :: "MwLib \<Rightarrow> string \<Rightarrow> AbiArg list \<Rightarrow> mw_error + Hex" where
  "encodeFunctionData V signature args = (case mw_encode V signature args of None \<Rightarrow> Inl AbiError | Some h \<Rightarrow> Inr h)"

definition encodeAbiParameters :: "MwLib \<Rightarrow> AbiArg list \<Rightarrow> mw_error + Hex" where
  "encodeAbiParameters V args = (case mw_encodeParams V args of None \<Rightarrow> Inl AbiError | Some h \<Rightarrow> Inr h)"

section \<open>Permission updates\<close>

datatype ContractAccessControlType = Allowlist | Denylist | AllowAllAccess

fun access_type_number :: "ContractAccessControlType \<Rightarrow> rat" where
  "access_type_number Allowlist = 0"
| "access_type_number Denylist = 1"
| "access_type_number AllowAllAccess = 2"

definition encodeSetAccessListType :: "MwLib \<Rightarrow> ContractAccessControlType \<Rightarrow> mw_error + Hex" where
  "encodeSetAccessListType V t = encodeFunctionData V ''function setAccessListType(uint8)'' [ArgNumber (access_type_number t)]"

definition encodeUpdateAccessListAddressEntry :: "MwLib \<Rightarrow> Address \<Rightarrow> bool \<Rightarrow> bool \<Rightarrow> mw_error + Hex" where
  "encodeUpdateAccessListAddressEntry V contractAddress isOnList checkSelectors =
     encodeFunctionData V ''function updateAccessListAddressEntry(address,bool,bool)'' [ArgAddress contractAddress, ArgBool isOnList, ArgBool checkSelectors]"

definition encodeUpdateAccessListFunctionEntry :: "MwLib \<Rightarrow> Address \<Rightarrow> Hex \<Rightarrow> bool \<Rightarrow> mw_error + Hex" where
  "encodeUpdateAccessListFunctionEntry V contractAddress selector isOnList =
     encodeFunctionData V ''function updateAccessListFunctionEntry(address,bytes4,bool)'' [ArgAddress contractAddress, ArgBytes4 selector, ArgBool isOnList]"

definition encodeUpdateTimeRange :: "MwLib \<Rightarrow> rat \<Rightarrow> rat \<Rightarrow> mw_error + Hex" where
  "encodeUpdateTimeRange V validAfter validUntil =
     encodeFunctionData V ''function updateTimeRange(uint48,uint48)'' [ArgNumber validAfter, ArgNumber validUntil]"

definition encodeSetNativeTokenSpendLimit :: "MwLib \<Rightarrow> int \<Rightarrow> rat \<Rightarrow> mw_error + Hex" where
  "encodeSetNativeTokenSpendLimit V spendLimit refreshInterval =
     encodeFunctionData V ''function setNativeTokenSpendLimit(uint256,uint48)'' [ArgUint spendLimit, ArgNumber refreshInterval]"

definition encodeSetERC20SpendLimit :: "MwLib \<Rightarrow> Address \<Rightarrow> int \<Rightarrow> rat \<Rightarrow> mw_error + Hex" where
  "encodeSetERC20SpendLimit V token spendLimit refreshInterval =
     encodeFunctionData V ''function setERC20SpendLimit(address,uint256,uint48)'' [ArgAddress token, ArgUint spendLimit, ArgNumber refreshInterval]"

definition encodeSetGasSpendLimit :: "MwLib \<Rightarrow> int \<Rightarrow> rat \<Rightarrow> mw_error + Hex" where
  "encodeSetGasSpendLimit V spendLimit refreshInterval =
     encodeFunctionData V ''function setGasSpendLimit(uint256,uint48)'' [ArgUint spendLimit, ArgNumber refreshInterval]"

definition encodeSetRequiredPaymaster :: "MwLib \<Rightarrow> Address \<Rightarrow> mw_error + Hex" where
  "encodeSetRequiredPaymaster V requiredPaymaster =
     encodeFunctionData V ''function setRequiredPaymaster(address)'' [ArgAddress requiredPaymaster]"

section \<open>Grants\<close>

record BufiGrantScopeEntry =
  sc_target :: Address
  sc_selectors :: "Hex list option"

record BufiGrantSpendBudget =
  sb_limit :: int
  sb_refreshIntervalSeconds :: rat

record BufiGrantErc20Budget =
  eb_token :: Address
  eb_limit :: int
  eb_refreshIntervalSeconds :: rat

record BufiGrantBudget =
  bb_erc20 :: "BufiGrantErc20Budget list option"
  bb_native :: "BufiGrantSpendBudget option"
  bb_gas :: "BufiGrantSpendBudget option"

record BufiGrantExpiry =
  ex_validAfter :: "rat option"
  ex_validUntil :: rat

record BufiGrant =
  bg_scope :: "BufiGrantScopeEntry list"
  bg_budget :: "BufiGrantBudget option"
  bg_expiry :: BufiGrantExpiry
  bg_requiredPaymaster :: "Address option"

text \<open>\<open>x ?? []\<close>, and a text that counts as given: present and not empty.\<close>

definition or_empty :: "'a list option \<Rightarrow> 'a list" where
  "or_empty x = (case x of None \<Rightarrow> [] | Some xs \<Rightarrow> xs)"

definition given_text :: "string option \<Rightarrow> string option" where
  "given_text x = (case x of None \<Rightarrow> None | Some s \<Rightarrow> if s = '''' then None else Some s)"

text \<open>The updates of one scope entry: its address, then each selector.\<close>

definition scope_updates :: "MwLib \<Rightarrow> BufiGrantScopeEntry \<Rightarrow> mw_error + Hex list" where
  "scope_updates V entry =
     (let selectors = or_empty (sc_selectors entry) in
      ebind (encodeUpdateAccessListAddressEntry V (sc_target entry) True (selectors \<noteq> [])) (\<lambda>address.
      ebind (emap (\<lambda>selector. encodeUpdateAccessListFunctionEntry V (sc_target entry) selector True) selectors) (\<lambda>functions.
      Inr (address # functions))))"

definition erc20_updates :: "MwLib \<Rightarrow> BufiGrantErc20Budget \<Rightarrow> mw_error + Hex" where
  "erc20_updates V budget = encodeSetERC20SpendLimit V (eb_token budget) (eb_limit budget) (eb_refreshIntervalSeconds budget)"

text \<open>An update that is only pushed when its part of the grant is there.\<close>

definition optional_update :: "('a \<Rightarrow> mw_error + Hex) \<Rightarrow> 'a option \<Rightarrow> mw_error + Hex list" where
  "optional_update f x = (case x of None \<Rightarrow> Inr [] | Some a \<Rightarrow> ebind (f a) (\<lambda>h. Inr [h]))"

definition grant_erc20 :: "BufiGrant \<Rightarrow> BufiGrantErc20Budget list" where
  "grant_erc20 g = (case bg_budget g of None \<Rightarrow> [] | Some b \<Rightarrow> or_empty (bb_erc20 b))"

definition grant_native :: "BufiGrant \<Rightarrow> BufiGrantSpendBudget option" where
  "grant_native g = Option.bind (bg_budget g) bb_native"

definition grant_gas :: "BufiGrant \<Rightarrow> BufiGrantSpendBudget option" where
  "grant_gas g = Option.bind (bg_budget g) bb_gas"

definition grant_validAfter :: "BufiGrant \<Rightarrow> rat" where
  "grant_validAfter g = (case ex_validAfter (bg_expiry g) of None \<Rightarrow> 0 | Some t \<Rightarrow> t)"

definition buildBufiGrant :: "MwLib \<Rightarrow> BufiGrant \<Rightarrow> mw_error + Hex list" where
  "buildBufiGrant V grant =
     ebind (throw_if (bg_scope grant = []) EmptyScope) (\<lambda>_.
     let validAfter = grant_validAfter grant; validUntil = ex_validUntil (bg_expiry grant) in
     ebind (throw_if (validUntil \<le> validAfter) BadExpiry) (\<lambda>_.
     ebind (encodeSetAccessListType V Allowlist) (\<lambda>mode.
     ebind (emap (scope_updates V) (bg_scope grant)) (\<lambda>scope.
     ebind (emap (erc20_updates V) (grant_erc20 grant)) (\<lambda>erc20.
     ebind (optional_update (\<lambda>b. encodeSetNativeTokenSpendLimit V (sb_limit b) (sb_refreshIntervalSeconds b)) (grant_native grant)) (\<lambda>native.
     ebind (optional_update (\<lambda>b. encodeSetGasSpendLimit V (sb_limit b) (sb_refreshIntervalSeconds b)) (grant_gas grant)) (\<lambda>gas.
     ebind (encodeUpdateTimeRange V validAfter validUntil) (\<lambda>range.
     ebind (optional_update (encodeSetRequiredPaymaster V) (given_text (bg_requiredPaymaster grant))) (\<lambda>paymaster.
     Inr (mode # concat scope @ erc20 @ native @ gas @ range # paymaster))))))))))"


section \<open>Presets for agent roles\<close>

definition DEFAULT_AGENT_GAS_BUDGET :: BufiGrantSpendBudget where
  "DEFAULT_AGENT_GAS_BUDGET = \<lparr>sb_limit = 500000000000000000, sb_refreshIntervalSeconds = 86400\<rparr>"

definition ERC20_TRANSFER_SELECTOR :: "MwLib \<Rightarrow> Hex" where
  "ERC20_TRANSFER_SELECTOR V = mw_selector V ''function transfer(address,uint256)''"

definition ERC20_APPROVE_SELECTOR :: "MwLib \<Rightarrow> Hex" where
  "ERC20_APPROVE_SELECTOR V = mw_selector V ''function approve(address,uint256)''"

datatype Erc4626Function = Erc4626Withdraw | Erc4626Redeem

fun ERC4626_SELECTORS :: "MwLib \<Rightarrow> Erc4626Function \<Rightarrow> Hex" where
  "ERC4626_SELECTORS V Erc4626Withdraw = mw_selector V ''function withdraw(uint256,address,address)''"
| "ERC4626_SELECTORS V Erc4626Redeem = mw_selector V ''function redeem(uint256,address,address)''"

datatype Erc8183Function = CreateJob | SetBudget | FundJob | SubmitJob | CompleteJob | RejectJob

fun ERC8183_SELECTORS :: "MwLib \<Rightarrow> Erc8183Function \<Rightarrow> Hex" where
  "ERC8183_SELECTORS V CreateJob = mw_selector V ''function createJob(address,address,uint256,string,address)''"
| "ERC8183_SELECTORS V SetBudget = mw_selector V ''function setBudget(uint256,uint256,bytes)''"
| "ERC8183_SELECTORS V FundJob = mw_selector V ''function fund(uint256,bytes)''"
| "ERC8183_SELECTORS V SubmitJob = mw_selector V ''function submit(uint256,bytes32,bytes)''"
| "ERC8183_SELECTORS V CompleteJob = mw_selector V ''function complete(uint256,bytes32,bytes)''"
| "ERC8183_SELECTORS V RejectJob = mw_selector V ''function reject(uint256,bytes32,bytes)''"

definition ERC8004_GIVE_FEEDBACK_SIGNATURE :: string where
  "ERC8004_GIVE_FEEDBACK_SIGNATURE = ''function giveFeedback(uint256,int128,uint8,string,string,string,string,bytes32)''"

datatype GatewayFunction = GatewayDeposit | GatewayDepositFor

fun GATEWAY_SELECTORS :: "MwLib \<Rightarrow> GatewayFunction \<Rightarrow> Hex" where
  "GATEWAY_SELECTORS V GatewayDeposit = mw_selector V ''function deposit(address,uint256)''"
| "GATEWAY_SELECTORS V GatewayDepositFor = mw_selector V ''function depositFor(address,address,uint256)''"

definition ARC_TESTNET_ERC8183_JOBS :: Address where
  "ARC_TESTNET_ERC8183_JOBS = ''0x0747EEf0706327138c69792bF28Cd525089e4583''"

definition ARC_TESTNET_REPUTATION :: Address where
  "ARC_TESTNET_REPUTATION = ''0x8004B663056A597Dffe9eCcC1965A193B7388713''"

text \<open>What every preset takes: the expiry, a gas budget and a paymaster.\<close>

record AgentGrantPresetBase =
  gp_expiry :: BufiGrantExpiry
  gp_gas :: "BufiGrantSpendBudget option"
  gp_requiredPaymaster :: "Address option"

definition grant :: "BufiGrantScopeEntry list \<Rightarrow> AgentGrantPresetBase \<Rightarrow> (Address \<times> BufiGrantSpendBudget) option \<Rightarrow> BufiGrant" where
  "grant scope base erc20 = \<lparr>bg_scope = scope,
     bg_budget = Some \<lparr>
       bb_erc20 = map_option (\<lambda>(token, budget). [\<lparr>eb_token = token, eb_limit = sb_limit budget, eb_refreshIntervalSeconds = sb_refreshIntervalSeconds budget\<rparr>]) erc20,
       bb_native = None,
       bb_gas = Some (case gp_gas base of None \<Rightarrow> DEFAULT_AGENT_GAS_BUDGET | Some g \<Rightarrow> g)\<rparr>,
     bg_expiry = gp_expiry base,
     bg_requiredPaymaster = given_text (gp_requiredPaymaster base)\<rparr>"

definition scope_entry :: "Address \<Rightarrow> Hex list \<Rightarrow> BufiGrantScopeEntry" where
  "scope_entry target selectors = \<lparr>sc_target = target, sc_selectors = Some selectors\<rparr>"

definition erc8183BuyerGrant :: "MwLib \<Rightarrow> AgentGrantPresetBase \<Rightarrow> Address option \<Rightarrow> Address \<Rightarrow> BufiGrantSpendBudget \<Rightarrow> bool \<Rightarrow> BufiGrant" where
  "erc8183BuyerGrant V base jobContract token budget includeComplete =
     grant [scope_entry token [ERC20_APPROVE_SELECTOR V, ERC20_TRANSFER_SELECTOR V],
            scope_entry (case jobContract of None \<Rightarrow> ARC_TESTNET_ERC8183_JOBS | Some c \<Rightarrow> c)
              ([ERC8183_SELECTORS V CreateJob, ERC8183_SELECTORS V FundJob, ERC8183_SELECTORS V RejectJob]
               @ (if includeComplete then [ERC8183_SELECTORS V CompleteJob] else []))]
       base (Some (token, budget))"

definition erc8183ProviderGrant :: "MwLib \<Rightarrow> AgentGrantPresetBase \<Rightarrow> Address option \<Rightarrow> BufiGrant" where
  "erc8183ProviderGrant V base jobContract =
     grant [scope_entry (case jobContract of None \<Rightarrow> ARC_TESTNET_ERC8183_JOBS | Some c \<Rightarrow> c)
              [ERC8183_SELECTORS V SetBudget, ERC8183_SELECTORS V SubmitJob]] base None"

definition erc8004RaterGrant :: "MwLib \<Rightarrow> AgentGrantPresetBase \<Rightarrow> Address option \<Rightarrow> string option \<Rightarrow> BufiGrant" where
  "erc8004RaterGrant V base reputationRegistry giveFeedbackSignature =
     grant [scope_entry (case reputationRegistry of None \<Rightarrow> ARC_TESTNET_REPUTATION | Some r \<Rightarrow> r)
              [mw_selector V (case giveFeedbackSignature of None \<Rightarrow> ERC8004_GIVE_FEEDBACK_SIGNATURE | Some s \<Rightarrow> s)]] base None"

definition floatFunderGrant :: "MwLib \<Rightarrow> AgentGrantPresetBase \<Rightarrow> Address \<Rightarrow> Address list \<Rightarrow> BufiGrantSpendBudget \<Rightarrow> mw_error + BufiGrant" where
  "floatFunderGrant V base token recipients budget =
     (if recipients = [] then Inl (NoRecipients ''float-funder'')
      else Inr (grant [scope_entry token [ERC20_TRANSFER_SELECTOR V]] base (Some (token, budget))))"

definition gatewayDepositorGrant :: "MwLib \<Rightarrow> AgentGrantPresetBase \<Rightarrow> Address \<Rightarrow> Address \<Rightarrow> BufiGrantSpendBudget \<Rightarrow> BufiGrant" where
  "gatewayDepositorGrant V base gatewayWallet token budget =
     grant [scope_entry token [ERC20_APPROVE_SELECTOR V],
            scope_entry gatewayWallet [GATEWAY_SELECTORS V GatewayDeposit, GATEWAY_SELECTORS V GatewayDepositFor]] base (Some (token, budget))"

text \<open>The loop over the vaults: the vaults seen so far (in lower case) and the scope built so far.\<close>

definition add_vault :: "Address \<Rightarrow> Hex list \<Rightarrow> Address \<Rightarrow> string list \<times> BufiGrantScopeEntry list \<Rightarrow> mw_error + string list \<times> BufiGrantScopeEntry list" where
  "add_vault token vaultSelectors vault state =
     (case state of (seen, scope) \<Rightarrow>
        if to_lower vault = to_lower token then Inl (VaultIsToken token)
        else if to_lower vault \<in> set seen then Inr (seen, scope)
        else Inr (to_lower vault # seen, scope @ [scope_entry vault vaultSelectors]))"

definition spendFromYieldGrant ::
  "MwLib \<Rightarrow> AgentGrantPresetBase \<Rightarrow> Address \<Rightarrow> Address list \<Rightarrow> Address list \<Rightarrow> BufiGrantSpendBudget \<Rightarrow> bool \<Rightarrow> mw_error + BufiGrant" where
  "spendFromYieldGrant V base token vaults recipients budget includeRedeem =
     ebind (throw_if (vaults = []) NoVaults) (\<lambda>_.
     ebind (throw_if (recipients = []) (NoRecipients ''spend-from-yield'')) (\<lambda>_.
     let vaultSelectors = ERC4626_SELECTORS V Erc4626Withdraw # (if includeRedeem then [ERC4626_SELECTORS V Erc4626Redeem] else []) in
     ebind (efold (add_vault token vaultSelectors) vaults ([], [scope_entry token [ERC20_TRANSFER_SELECTOR V]])) (\<lambda>(seen, scope).
     Inr (grant scope base (Some (token, budget))))))"

section \<open>Describing a grant\<close>

definition describe_scope :: "BufiGrantScopeEntry \<Rightarrow> string" where
  "describe_scope entry = (case or_empty (sc_selectors entry) of
     [] \<Rightarrow> ''may call any function on '' @ sc_target entry
   | ss \<Rightarrow> ''may call '' @ join_text '', '' ss @ '' on '' @ sc_target entry)"

definition describeGrant :: "(rat \<Rightarrow> string) \<Rightarrow> BufiGrant \<Rightarrow> string list" where
  "describeGrant text g =
     map describe_scope (bg_scope g)
     @ map (\<lambda>b. ''may spend up to '' @ dec_int (eb_limit b) @ '' of '' @ eb_token b @ '' per '' @ text (eb_refreshIntervalSeconds b) @ ''s'') (grant_erc20 g)
     @ (case grant_native g of None \<Rightarrow> []
        | Some b \<Rightarrow> [''may spend up to '' @ dec_int (sb_limit b) @ '' wei of native token per '' @ text (sb_refreshIntervalSeconds b) @ ''s''])
     @ (case grant_gas g of None \<Rightarrow> []
        | Some b \<Rightarrow> [''may consume up to '' @ dec_int (sb_limit b) @ '' wei of gas per '' @ text (sb_refreshIntervalSeconds b) @ ''s''])
     @ [if grant_validAfter g > 0
        then ''valid from '' @ text (grant_validAfter g) @ '' until '' @ text (ex_validUntil (bg_expiry g))
        else ''valid until '' @ text (ex_validUntil (bg_expiry g))]
     @ (case given_text (bg_requiredPaymaster g) of None \<Rightarrow> [] | Some p \<Rightarrow> [''must be sponsored by '' @ p])"

end
