(* ===== verification/MW_Plugin.thy ===== *)
theory MW_Plugin
  imports MW_Grants "HOL-Library.Word"
begin

text \<open>
  The permissions of a session key as the on-chain plugin keeps and enforces them
  (\<open>contracts/src/bufi/v0.7/session/permissions/SessionKeyPermissions.sol\<close> and \<open>SessionKeyPermissionsBase.sol\<close>): the updates
  an owner sends, the check of a user operation, and the budgets that are charged when it executes. The state is
  that of one key of one account; a new key starts from empty storage, since key numbers are never used twice. Call
  data is its \<open>0x\<close> text; addresses and selectors are the numbers they stand for. Amounts are 256-bit and times
  48-bit words, and arithmetic that Solidity checks is an error here when it leaves its width.
\<close>

section \<open>Call data\<close>

definition hexval :: "string \<Rightarrow> nat" where
  "hexval s = foldl (\<lambda>v c. 16 * v + unhex c) 0 s"

definition chain_address :: "Address \<Rightarrow> nat" where
  "chain_address a = hexval (drop 2 a)"

definition chain_selector :: "Hex \<Rightarrow> nat" where
  "chain_selector s = hexval (drop 2 s)"

text \<open>The length of the data, its first four bytes (padded on the right), and the words after them.\<close>

definition data_length :: "Hex \<Rightarrow> nat" where
  "data_length h = length (drop 2 h) div 2"

definition bytes4_of :: "Hex \<Rightarrow> nat" where
  "bytes4_of h = hexval (take 8 (drop 2 h @ ''00000000''))"

definition arg_word :: "Hex \<Rightarrow> nat \<Rightarrow> nat" where
  "arg_word h i = hexval (take 64 (drop (10 + 64 * i) h))"

text \<open>\<open>abi.decode\<close> of static words: too little data, or a word that is no value of its type, reverts.\<close>

datatype plugin_error = InvalidPermissionsUpdate nat | BadEncoding | InvalidToken | ERC20SpendLimitExceeded nat
  | NativeTokenSpendLimitExceeded | ArithmeticPanic

definition decode_words :: "nat \<Rightarrow> Hex \<Rightarrow> plugin_error + nat list" where
  "decode_words n h = (if data_length h < 4 + 32 * n then Inl BadEncoding else Inr (map (arg_word h) [0..<n]))"

definition as_address :: "nat \<Rightarrow> plugin_error + nat" where
  "as_address w = (if w < 2 ^ 160 then Inr w else Inl BadEncoding)"

definition as_bool :: "nat \<Rightarrow> plugin_error + bool" where
  "as_bool w = (if w = 0 then Inr False else if w = 1 then Inr True else Inl BadEncoding)"

definition as_uint48 :: "nat \<Rightarrow> plugin_error + 48 word" where
  "as_uint48 w = (if w < 2 ^ 48 then Inr (word_of_nat w) else Inl BadEncoding)"

definition as_bytes4 :: "nat \<Rightarrow> plugin_error + nat" where
  "as_bytes4 w = (if w mod 2 ^ 224 = 0 then Inr (w div 2 ^ 224) else Inl BadEncoding)"

definition as_access_type :: "nat \<Rightarrow> plugin_error + ContractAccessControlType" where
  "as_access_type w = (if w = 0 then Inr Allowlist else if w = 1 then Inr Denylist else if w = 2 then Inr AllowAllAccess else Inl BadEncoding)"

section \<open>Storage of a key\<close>

record SpendLimitTimeInfo =
  ti_lastUsed :: "48 word"
  ti_refreshInterval :: "48 word"

record SpendLimit =
  sl_limitAmount :: "256 word"
  sl_limitUsed :: "256 word"

record SessionKeyData =
  kd_contractAccessControlType :: ContractAccessControlType
  kd_validAfter :: "48 word"
  kd_validUntil :: "48 word"
  kd_hasRequiredPaymaster :: bool
  kd_hasGasLimit :: bool
  kd_nativeTokenSpendLimitBypassed :: bool
  kd_gasLimitResetThisBundle :: bool
  kd_gasLimitTimeInfo :: SpendLimitTimeInfo
  kd_nativeTokenSpendLimitTimeInfo :: SpendLimitTimeInfo
  kd_requiredPaymaster :: nat
  kd_gasLimit :: SpendLimit
  kd_nativeTokenSpendLimit :: SpendLimit

record ContractData =
  cd_isOnList :: bool
  cd_checkSelectors :: bool
  cd_isERC20WithSpendLimit :: bool
  cd_erc20SpendLimitTimeInfo :: SpendLimitTimeInfo
  cd_erc20SpendLimit :: SpendLimit

record KeyStorage =
  ks_data :: SessionKeyData
  ks_contracts :: "nat \<Rightarrow> ContractData"
  ks_functions :: "nat \<Rightarrow> nat \<Rightarrow> bool"

definition no_time :: SpendLimitTimeInfo where "no_time = \<lparr>ti_lastUsed = 0, ti_refreshInterval = 0\<rparr>"
definition no_limit :: SpendLimit where "no_limit = \<lparr>sl_limitAmount = 0, sl_limitUsed = 0\<rparr>"

definition empty_storage :: KeyStorage where
  "empty_storage = \<lparr>
     ks_data = \<lparr>kd_contractAccessControlType = Allowlist, kd_validAfter = 0, kd_validUntil = 0, kd_hasRequiredPaymaster = False,
       kd_hasGasLimit = False, kd_nativeTokenSpendLimitBypassed = False, kd_gasLimitResetThisBundle = False, kd_gasLimitTimeInfo = no_time,
       kd_nativeTokenSpendLimitTimeInfo = no_time, kd_requiredPaymaster = 0, kd_gasLimit = no_limit, kd_nativeTokenSpendLimit = no_limit\<rparr>,
     ks_contracts = (\<lambda>_. \<lparr>cd_isOnList = False, cd_checkSelectors = False, cd_isERC20WithSpendLimit = False, cd_erc20SpendLimitTimeInfo = no_time,
       cd_erc20SpendLimit = no_limit\<rparr>),
     ks_functions = (\<lambda>_ _. False)\<rparr>"

section \<open>Updating permissions\<close>

text \<open>A limit of the largest number switches the limit off.\<close>

definition updateSpendLimits ::
  "256 word \<Rightarrow> 256 word \<Rightarrow> 48 word \<Rightarrow> SpendLimitTimeInfo \<Rightarrow> SpendLimit \<Rightarrow> bool \<times> SpendLimitTimeInfo \<times> SpendLimit" where
  "updateSpendLimits now newLimit newRefreshInterval timeInfo spendLimit =
     (if newLimit = - 1 then (False, timeInfo, spendLimit\<lparr>sl_limitUsed := 0\<rparr>)
      else (True, \<lparr>ti_lastUsed = (if newRefreshInterval = 0 then 0 else ucast now), ti_refreshInterval = newRefreshInterval\<rparr>,
            spendLimit\<lparr>sl_limitAmount := newLimit\<rparr>))"

definition setAccessListType :: "ContractAccessControlType \<Rightarrow> KeyStorage \<Rightarrow> KeyStorage" where
  "setAccessListType t k = k\<lparr>ks_data := (ks_data k)\<lparr>kd_contractAccessControlType := t\<rparr>\<rparr>"

definition updateAccessListAddressEntry :: "nat \<Rightarrow> bool \<Rightarrow> bool \<Rightarrow> KeyStorage \<Rightarrow> KeyStorage" where
  "updateAccessListAddressEntry a isOnList checkSelectors k =
     k\<lparr>ks_contracts := (ks_contracts k)(a := (ks_contracts k a)\<lparr>cd_isOnList := isOnList, cd_checkSelectors := checkSelectors\<rparr>)\<rparr>"

definition updateAccessListFunctionEntry :: "nat \<Rightarrow> nat \<Rightarrow> bool \<Rightarrow> KeyStorage \<Rightarrow> KeyStorage" where
  "updateAccessListFunctionEntry a selector isOnList k =
     k\<lparr>ks_functions := (ks_functions k)(a := (ks_functions k a)(selector := isOnList))\<rparr>"

definition updateTimeRange :: "48 word \<Rightarrow> 48 word \<Rightarrow> KeyStorage \<Rightarrow> KeyStorage" where
  "updateTimeRange after until k = k\<lparr>ks_data := (ks_data k)\<lparr>kd_validAfter := after, kd_validUntil := until\<rparr>\<rparr>"

definition setNativeTokenSpendLimit :: "256 word \<Rightarrow> 256 word \<Rightarrow> 48 word \<Rightarrow> KeyStorage \<Rightarrow> KeyStorage" where
  "setNativeTokenSpendLimit now limit refresh k =
     (let d = ks_data k; (enabled, t, l) = updateSpendLimits now limit refresh (kd_nativeTokenSpendLimitTimeInfo d) (kd_nativeTokenSpendLimit d)
      in k\<lparr>ks_data := d\<lparr>kd_nativeTokenSpendLimitBypassed := \<not> enabled, kd_nativeTokenSpendLimitTimeInfo := t, kd_nativeTokenSpendLimit := l\<rparr>\<rparr>)"

definition setERC20SpendLimit :: "256 word \<Rightarrow> nat \<Rightarrow> 256 word \<Rightarrow> 48 word \<Rightarrow> KeyStorage \<Rightarrow> plugin_error + KeyStorage" where
  "setERC20SpendLimit now token limit refresh k =
     (if token = 0 then Inl InvalidToken
      else let c = ks_contracts k token; (enabled, t, l) = updateSpendLimits now limit refresh (cd_erc20SpendLimitTimeInfo c) (cd_erc20SpendLimit c)
        in Inr (k\<lparr>ks_contracts := (ks_contracts k)(token := c\<lparr>cd_isERC20WithSpendLimit := enabled, cd_erc20SpendLimitTimeInfo := t, cd_erc20SpendLimit := l\<rparr>)\<rparr>))"

definition setGasSpendLimit :: "256 word \<Rightarrow> 256 word \<Rightarrow> 48 word \<Rightarrow> KeyStorage \<Rightarrow> KeyStorage" where
  "setGasSpendLimit now limit refresh k =
     (let d = ks_data k; (enabled, t, l) = updateSpendLimits now limit refresh (kd_gasLimitTimeInfo d) (kd_gasLimit d)
      in k\<lparr>ks_data := d\<lparr>kd_gasLimitResetThisBundle := False, kd_hasGasLimit := enabled, kd_gasLimitTimeInfo := t, kd_gasLimit := l\<rparr>\<rparr>)"

definition setRequiredPaymaster :: "nat \<Rightarrow> KeyStorage \<Rightarrow> KeyStorage" where
  "setRequiredPaymaster p k =
     (if p = 0 then k\<lparr>ks_data := (ks_data k)\<lparr>kd_hasRequiredPaymaster := False\<rparr>\<rparr>
      else k\<lparr>ks_data := (ks_data k)\<lparr>kd_hasRequiredPaymaster := True, kd_requiredPaymaster := p\<rparr>\<rparr>)"

definition update_selector :: "MwLib \<Rightarrow> string \<Rightarrow> nat" where
  "update_selector V signature = chain_selector (mw_selector V signature)"

definition performSessionKeyPermissionsUpdate :: "MwLib \<Rightarrow> 256 word \<Rightarrow> Hex \<Rightarrow> KeyStorage \<Rightarrow> plugin_error + KeyStorage" where
  "performSessionKeyPermissionsUpdate V now update k =
     (let s = bytes4_of update in
      if data_length update < 4 then Inl (InvalidPermissionsUpdate s)
      else if s = update_selector V ''function setAccessListType(uint8)'' then
        ebind (decode_words 1 update) (\<lambda>w. ebind (as_access_type (w ! 0)) (\<lambda>t. Inr (setAccessListType t k)))
      else if s = update_selector V ''function updateAccessListAddressEntry(address,bool,bool)'' then
        ebind (decode_words 3 update) (\<lambda>w. ebind (as_address (w ! 0)) (\<lambda>a. ebind (as_bool (w ! 1)) (\<lambda>b. ebind (as_bool (w ! 2)) (\<lambda>c.
          Inr (updateAccessListAddressEntry a b c k)))))
      else if s = update_selector V ''function updateAccessListFunctionEntry(address,bytes4,bool)'' then
        ebind (decode_words 3 update) (\<lambda>w. ebind (as_address (w ! 0)) (\<lambda>a. ebind (as_bytes4 (w ! 1)) (\<lambda>f. ebind (as_bool (w ! 2)) (\<lambda>b.
          Inr (updateAccessListFunctionEntry a f b k)))))
      else if s = update_selector V ''function updateTimeRange(uint48,uint48)'' then
        ebind (decode_words 2 update) (\<lambda>w. ebind (as_uint48 (w ! 0)) (\<lambda>a. ebind (as_uint48 (w ! 1)) (\<lambda>b. Inr (updateTimeRange a b k))))
      else if s = update_selector V ''function setNativeTokenSpendLimit(uint256,uint48)'' then
        ebind (decode_words 2 update) (\<lambda>w. ebind (as_uint48 (w ! 1)) (\<lambda>r. Inr (setNativeTokenSpendLimit now (word_of_nat (w ! 0)) r k)))
      else if s = update_selector V ''function setERC20SpendLimit(address,uint256,uint48)'' then
        ebind (decode_words 3 update) (\<lambda>w. ebind (as_address (w ! 0)) (\<lambda>a. ebind (as_uint48 (w ! 2)) (\<lambda>r.
          setERC20SpendLimit now a (word_of_nat (w ! 1)) r k)))
      else if s = update_selector V ''function setGasSpendLimit(uint256,uint48)'' then
        ebind (decode_words 2 update) (\<lambda>w. ebind (as_uint48 (w ! 1)) (\<lambda>r. Inr (setGasSpendLimit now (word_of_nat (w ! 0)) r k)))
      else if s = update_selector V ''function setRequiredPaymaster(address)'' then
        ebind (decode_words 1 update) (\<lambda>w. ebind (as_address (w ! 0)) (\<lambda>p. Inr (setRequiredPaymaster p k)))
      else Inl (InvalidPermissionsUpdate s))"

definition updateKeyPermissions :: "MwLib \<Rightarrow> 256 word \<Rightarrow> Hex list \<Rightarrow> KeyStorage \<Rightarrow> plugin_error + KeyStorage" where
  "updateKeyPermissions V now updates k = efold (performSessionKeyPermissionsUpdate V now) updates k"


section \<open>Checking a user operation\<close>

record ChainCall =
  ch_target :: nat
  ch_value :: "256 word"
  ch_data :: Hex

definition isAllowedERC20Function :: "MwLib \<Rightarrow> nat \<Rightarrow> bool" where
  "isAllowedERC20Function V selector \<longleftrightarrow>
     selector = update_selector V ''function transfer(address,uint256)'' \<or> selector = update_selector V ''function approve(address,uint256)''"

definition checkCallPermissions :: "MwLib \<Rightarrow> KeyStorage \<Rightarrow> ContractAccessControlType \<Rightarrow> nat \<Rightarrow> Hex \<Rightarrow> bool" where
  "checkCallPermissions V k accessControlType target callData =
     (let selector = bytes4_of callData; c = ks_contracts k target; f = ks_functions k target selector;
          erc20 = (\<lambda>ok. ok \<and> \<not> (cd_isERC20WithSpendLimit c \<and> \<not> isAllowedERC20Function V selector))
      in case accessControlType of
        Allowlist \<Rightarrow> if \<not> cd_isOnList c then False else if \<not> cd_checkSelectors c then True else erc20 f
      | Denylist \<Rightarrow> if \<not> cd_isOnList c then True else if \<not> cd_checkSelectors c then False else erc20 (\<not> f)
      | AllowAllAccess \<Rightarrow> erc20 True)"

text \<open>Checked additions of 48 and 256 bits, the second also for a product.\<close>

definition add48 :: "48 word \<Rightarrow> 48 word \<Rightarrow> plugin_error + 48 word" where
  "add48 a b = (if unat a + unat b < 2 ^ 48 then Inr (a + b) else Inl ArithmeticPanic)"

definition add256 :: "256 word \<Rightarrow> 256 word \<Rightarrow> plugin_error + 256 word" where
  "add256 a b = (if unat a + unat b < 2 ^ 256 then Inr (a + b) else Inl ArithmeticPanic)"

definition mul256 :: "256 word \<Rightarrow> 256 word \<Rightarrow> plugin_error + 256 word" where
  "mul256 a b = (if unat a * unat b < 2 ^ 256 then Inr (a * b) else Inl ArithmeticPanic)"

definition checkSpendLimitUsage :: "256 word \<Rightarrow> SpendLimitTimeInfo \<Rightarrow> SpendLimit \<Rightarrow> plugin_error + bool \<times> 48 word" where
  "checkSpendLimitUsage newUsage timeInfo limit =
     (let newTotalUsage = newUsage + sl_limitUsed limit; spendLimit = sl_limitAmount limit in
      if newTotalUsage < newUsage then Inr (False, 0)
      else if ti_refreshInterval timeInfo = 0 then Inr (newTotalUsage \<le> spendLimit, 0)
      else if newTotalUsage \<le> spendLimit then Inr (True, 0)
      else if newUsage \<le> spendLimit then ebind (add48 (ti_lastUsed timeInfo) (ti_refreshInterval timeInfo)) (\<lambda>t. Inr (True, t))
      else Inr (False, 0))"

definition checkAndUpdateGasLimitUsage :: "256 word \<Rightarrow> SessionKeyData \<Rightarrow> plugin_error + (bool \<times> 48 word) \<times> SessionKeyData" where
  "checkAndUpdateGasLimitUsage newUsage d =
     (let timeInfo = kd_gasLimitTimeInfo d; limit = kd_gasLimit d; gasLimit = sl_limitAmount limit;
          reset = kd_gasLimitResetThisBundle d; newTotalUsage = newUsage + sl_limitUsed limit;
          use = (\<lambda>n. d\<lparr>kd_gasLimit := limit\<lparr>sl_limitUsed := n\<rparr>\<rparr>) in
      if newTotalUsage < newUsage then Inr ((False, 0), d)
      else if ti_refreshInterval timeInfo = 0 then
        Inr ((newTotalUsage \<le> gasLimit, 0), if newTotalUsage \<le> gasLimit then use newTotalUsage else d)
      else if newTotalUsage \<le> gasLimit then
        ebind (if reset then add48 (ti_lastUsed timeInfo) (ti_refreshInterval timeInfo) else Inr 0) (\<lambda>t. Inr ((True, t), use newTotalUsage))
      else if newUsage \<le> gasLimit \<and> \<not> reset then
        ebind (add48 (ti_lastUsed timeInfo) (ti_refreshInterval timeInfo)) (\<lambda>t. Inr ((True, t), (use newUsage)\<lparr>kd_gasLimitResetThisBundle := True\<rparr>))
      else Inr ((False, 0), d))"

text \<open>A user operation, with the gas fields the entry point's library unpacks. The paymaster's fields are there when its
  data is not empty.\<close>

record UserOp =
  uo_nonce :: "256 word"
  uo_verificationGasLimit :: "256 word"
  uo_callGasLimit :: "256 word"
  uo_preVerificationGas :: "256 word"
  uo_maxFeePerGas :: "256 word"
  uo_paymaster :: "(nat \<times> 256 word \<times> 256 word) option"

definition getMaxGasCost :: "UserOp \<Rightarrow> plugin_error + 256 word" where
  "getMaxGasCost op =
     (let (v, p) = (case uo_paymaster op of None \<Rightarrow> (0, 0) | Some (_, v, p) \<Rightarrow> (v, p)) in
      ebind (add256 (uo_verificationGasLimit op) (uo_callGasLimit op)) (\<lambda>g.
      ebind (add256 g v) (\<lambda>g. ebind (add256 g p) (\<lambda>g. ebind (add256 g (uo_preVerificationGas op)) (\<lambda>g.
      mul256 g (uo_maxFeePerGas op))))))"

definition sum_values :: "ChainCall list \<Rightarrow> plugin_error + 256 word" where
  "sum_values calls = efold (\<lambda>c n. add256 n (ch_value c)) calls 0"

text \<open>The verdict, the end and the start of the window in which the operation is valid, and the key after the gas was
  charged.\<close>

definition checkUserOpPermissions ::
  "MwLib \<Rightarrow> UserOp \<Rightarrow> ChainCall list \<Rightarrow> nat \<Rightarrow> KeyStorage \<Rightarrow> plugin_error + (bool \<times> 48 word \<times> 48 word) \<times> KeyStorage" where
  "checkUserOpPermissions V op calls sessionKey k =
     (let d = ks_data k in
      ebind (sum_values calls) (\<lambda>nativeTokenSpend.
      let ok = (calls \<noteq> [] \<and> list_all (\<lambda>c. checkCallPermissions V k (kd_contractAccessControlType d) (ch_target c) (ch_data c)) calls) in
      ebind (if kd_nativeTokenSpendLimitBypassed d then Inr (ok, kd_validAfter d)
             else ebind (checkSpendLimitUsage nativeTokenSpend (kd_nativeTokenSpendLimitTimeInfo d) (kd_nativeTokenSpendLimit d))
               (\<lambda>(success, t). Inr (ok \<and> success, max (kd_validAfter d) t))) (\<lambda>(ok, after).
      let ok = (ok \<and> unat (uo_nonce op) div 2 ^ 64 = sessionKey) in
      ebind (if kd_hasGasLimit d
             then ebind (getMaxGasCost op) (\<lambda>maxGasFee. ebind (checkAndUpdateGasLimitUsage maxGasFee d) (\<lambda>((success, t), d).
               Inr (ok \<and> success, max after t, d)))
             else Inr (ok, after, d)) (\<lambda>(ok, after, d).
      let ok = (ok \<and> (kd_hasRequiredPaymaster d \<longrightarrow> (case uo_paymaster op of None \<Rightarrow> 0 | Some (p, _) \<Rightarrow> p) = kd_requiredPaymaster d)) in
      Inr ((ok, kd_validUntil d, after), k\<lparr>ks_data := d\<rparr>)))))"

section \<open>Charging the budgets\<close>

definition runtimeUpdateSpendLimitUsage ::
  "256 word \<Rightarrow> 256 word \<Rightarrow> SpendLimitTimeInfo \<Rightarrow> SpendLimit \<Rightarrow> plugin_error + bool \<times> SpendLimitTimeInfo \<times> SpendLimit" where
  "runtimeUpdateSpendLimitUsage now newUsage timeInfo limit =
     (let newTotalUsage = newUsage + sl_limitUsed limit; spendLimit = sl_limitAmount limit in
      ebind (if ti_refreshInterval timeInfo = 0 then Inr True
             else ebind (add48 (ti_lastUsed timeInfo) (ti_refreshInterval timeInfo)) (\<lambda>t. Inr (ucast t > now))) (\<lambda>active.
      if active then
        (if newTotalUsage < newUsage \<or> newTotalUsage > spendLimit then Inr (False, timeInfo, limit)
         else Inr (True, timeInfo, limit\<lparr>sl_limitUsed := newTotalUsage\<rparr>))
      else if newUsage > spendLimit then Inr (False, timeInfo, limit)
      else Inr (True, timeInfo\<lparr>ti_lastUsed := ucast now\<rparr>, limit\<lparr>sl_limitUsed := newUsage\<rparr>)))"

definition getTokenSpendAmount :: "MwLib \<Rightarrow> Hex \<Rightarrow> 256 word" where
  "getTokenSpendAmount V callData =
     (if isAllowedERC20Function V (bytes4_of callData) then (if data_length callData < 68 then 0 else word_of_nat (arg_word callData 1)) else 0)"

definition charge_call :: "MwLib \<Rightarrow> 256 word \<Rightarrow> ChainCall \<Rightarrow> KeyStorage \<times> 256 word \<Rightarrow> plugin_error + KeyStorage \<times> 256 word" where
  "charge_call V now call state =
     (case state of (k, used) \<Rightarrow>
        ebind (add256 used (ch_value call)) (\<lambda>used.
        let c = ks_contracts k (ch_target call) in
        if cd_isERC20WithSpendLimit c then
          ebind (runtimeUpdateSpendLimitUsage now (getTokenSpendAmount V (ch_data call)) (cd_erc20SpendLimitTimeInfo c) (cd_erc20SpendLimit c))
            (\<lambda>(success, t, l).
             if success then Inr (k\<lparr>ks_contracts := (ks_contracts k)(ch_target call := c\<lparr>cd_erc20SpendLimitTimeInfo := t, cd_erc20SpendLimit := l\<rparr>)\<rparr>, used)
             else Inl (ERC20SpendLimitExceeded (ch_target call)))
        else Inr (k, used)))"

definition updateLimitsPreExec :: "MwLib \<Rightarrow> 256 word \<Rightarrow> ChainCall list \<Rightarrow> KeyStorage \<Rightarrow> plugin_error + KeyStorage" where
  "updateLimitsPreExec V now calls k =
     ebind (efold (charge_call V now) calls (k, 0)) (\<lambda>(k, newNativeTokenUsage).
     let d = ks_data k in
     ebind (if kd_nativeTokenSpendLimitBypassed d then Inr k
            else ebind (runtimeUpdateSpendLimitUsage now newNativeTokenUsage (kd_nativeTokenSpendLimitTimeInfo d) (kd_nativeTokenSpendLimit d))
              (\<lambda>(success, t, l). if success then Inr (k\<lparr>ks_data := d\<lparr>kd_nativeTokenSpendLimitTimeInfo := t, kd_nativeTokenSpendLimit := l\<rparr>\<rparr>)
                else Inl NativeTokenSpendLimitExceeded)) (\<lambda>k.
     let d = ks_data k in
     Inr (if kd_gasLimitResetThisBundle d
          then k\<lparr>ks_data := d\<lparr>kd_gasLimitResetThisBundle := False, kd_gasLimitTimeInfo := (kd_gasLimitTimeInfo d)\<lparr>ti_lastUsed := ucast now\<rparr>\<rparr>\<rparr>
          else k)))"

definition resetSessionKeyGasLimitTimestamp :: "256 word \<Rightarrow> KeyStorage \<Rightarrow> KeyStorage" where
  "resetSessionKeyGasLimitTimestamp now k =
     (let d = ks_data k in
      if kd_gasLimitResetThisBundle d
      then k\<lparr>ks_data := d\<lparr>kd_gasLimitResetThisBundle := False, kd_gasLimitTimeInfo := (kd_gasLimitTimeInfo d)\<lparr>ti_lastUsed := ucast now\<rparr>\<rparr>\<rparr>
      else k)"

end
