(* ===== verification/MW_Policy.thy ===== *)
theory MW_Policy
  imports MW_Plugin
begin

text \<open>
  What a compiled grant means on chain: the plugin accepts the updates the compiler of \<open>buildBufiGrant.ts\<close> produces, and the
  key it leaves behind may do what the grant says and no more. The encoder of the library is taken to follow the ABI
  standard for static arguments (\<open>abi_standard\<close>), and the eight update functions to have different selectors.
\<close>

section \<open>The ABI standard\<close>

fun hex_pad :: "nat \<Rightarrow> nat \<Rightarrow> string" where
  "hex_pad 0 n = ''''"
| "hex_pad (Suc k) n = hex_pad k (n div 16) @ [hex_digit (n mod 16)]"

fun abi_word :: "AbiArg \<Rightarrow> string" where
  "abi_word (ArgAddress a) = replicate 24 CHR ''0'' @ to_lower (drop 2 a)"
| "abi_word (ArgUint n) = hex_pad 64 (nat n)"
| "abi_word (ArgNumber q) = hex_pad 64 (nat \<lfloor>q\<rfloor>)"
| "abi_word (ArgBool b) = hex_pad 64 (if b then 1 else 0)"
| "abi_word (ArgBytes4 s) = drop 2 s @ replicate 56 CHR ''0''"
| "abi_word (ArgBytes s) = ''''"
| "abi_word (ArgArray xs) = ''''"

fun static_arg :: "AbiArg \<Rightarrow> bool" where
  "static_arg (ArgBytes s) = False"
| "static_arg (ArgArray xs) = False"
| "static_arg _ = True"

definition hex_chars :: "nat \<Rightarrow> string \<Rightarrow> bool" where
  "hex_chars n s \<longleftrightarrow> length s = n + 2 \<and> take 2 s = ''0x'' \<and> list_all is_hex_digit (drop 2 s)"

text \<open>The values an argument can have; whole numbers are those of 48 bits.\<close>

fun fits :: "AbiArg \<Rightarrow> bool" where
  "fits (ArgAddress a) = hex_chars 40 a"
| "fits (ArgUint n) = (0 \<le> n \<and> n < 2 ^ 256)"
| "fits (ArgNumber q) = (q = of_int \<lfloor>q\<rfloor> \<and> 0 \<le> q \<and> q < 2 ^ 48)"
| "fits (ArgBytes4 s) = hex_chars 8 s"
| "fits _ = True"

definition abi_standard :: "MwLib \<Rightarrow> bool" where
  "abi_standard V \<longleftrightarrow> (\<forall>signature. hex_chars 8 (mw_selector V signature))
     \<and> (\<forall>signature args h. mw_encode V signature args = Some h \<longrightarrow> list_all static_arg args \<longrightarrow>
          list_all fits args \<and> h = mw_selector V signature @ concat (map abi_word args))"

definition update_signatures :: "string list" where
  "update_signatures = [''function setAccessListType(uint8)'', ''function updateAccessListAddressEntry(address,bool,bool)'',
     ''function updateAccessListFunctionEntry(address,bytes4,bool)'', ''function updateTimeRange(uint48,uint48)'',
     ''function setNativeTokenSpendLimit(uint256,uint48)'', ''function setERC20SpendLimit(address,uint256,uint48)'',
     ''function setGasSpendLimit(uint256,uint48)'', ''function setRequiredPaymaster(address)'']"

definition plugin_abi :: "MwLib \<Rightarrow> bool" where
  "plugin_abi V \<longleftrightarrow> abi_standard V \<and> distinct (map (update_selector V) update_signatures)"

section \<open>Reading what was encoded\<close>

lemma hexval_nil [simp]: "hexval [] = 0"
  by (simp add: hexval_def)

lemma hexval_snoc [simp]: "hexval (s @ [c]) = 16 * hexval s + unhex c"
  by (simp add: hexval_def)

lemma hexval_append: "hexval (s @ t) = hexval s * 16 ^ length t + hexval t"
proof (induction t rule: rev_induct)
  case (snoc c t)
  then show ?case unfolding append_assoc [symmetric] hexval_snoc by simp
qed simp

lemma unhex_zero [simp]: "unhex CHR ''0'' = 0"
  by (simp add: unhex_def)

lemma hexval_zeros [simp]: "hexval (replicate n CHR ''0'') = 0"
  by (induction n) (simp_all add: replicate_append_same [symmetric])

lemma unhex_digit [simp]: "n < 16 \<Longrightarrow> unhex (hex_digit n) = n"
  by (auto simp: unhex_def hex_digit_def)

lemma hexval_pad: "n < 16 ^ k \<Longrightarrow> hexval (hex_pad k n) = n"
  by (induction k arbitrary: n) (auto simp: less_mult_imp_div_less mult.commute)

lemma length_pad [simp]: "length (hex_pad k n) = k"
  by (induction k arbitrary: n) auto

lemma unhex_lower: "is_hex_digit c \<Longrightarrow> unhex (lower_char c) = unhex c"
  by (auto simp: is_hex_digit_def unhex_def lower_char_def Let_def)

lemma hexval_lower: "list_all is_hex_digit s \<Longrightarrow> hexval (to_lower s) = hexval s"
  by (induction s rule: rev_induct) (auto simp: to_lower_def unhex_lower)

lemma unhex_bound: "is_hex_digit c \<Longrightarrow> unhex c < 16"
  by (auto simp: is_hex_digit_def unhex_def Let_def)

lemma hexval_bound: "list_all is_hex_digit s \<Longrightarrow> hexval s < 16 ^ length s"
proof (induction s rule: rev_induct)
  case (snoc c s)
  then have "hexval s + 1 \<le> 16 ^ length s" "unhex c < 16" using unhex_bound by simp_all
  then show ?case by simp
qed simp


lemma word_of_nat_of_int: "0 \<le> n \<Longrightarrow> (word_of_nat (nat n) :: 'a::len word) = word_of_int n"
  by (metis of_int_of_nat_eq nat_0_le)

lemma length_word [simp]: "fits x \<Longrightarrow> static_arg x \<Longrightarrow> length (abi_word x) = 64"
  by (cases x) (auto simp: hex_chars_def to_lower_def)

lemma concat_nth:
  "list_all (\<lambda>w. length w = n) ws \<Longrightarrow> i < length ws \<Longrightarrow> take n (drop (n * i) (concat ws)) = ws ! i"
  by (induction ws arbitrary: i) (auto simp: nth_Cons split: nat.splits)

lemma concat_length: "list_all (\<lambda>w. length w = n) ws \<Longrightarrow> length (concat ws) = n * length ws"
  by (induction ws) auto

lemma encoded_call:
  assumes "abi_standard V" "encodeFunctionData V signature args = Inr h" "list_all static_arg args"
  shows "list_all fits args" "bytes4_of h = update_selector V signature" "data_length h = 4 + 32 * length args"
    "i < length args \<Longrightarrow> arg_word h i = hexval (abi_word (args ! i))"
    "decode_words (length args) h = Inr (map (\<lambda>x. hexval (abi_word x)) args)"
proof -
  have e: "mw_encode V signature args = Some h" using assms(2) by (auto simp: encodeFunctionData_def split: option.splits)
  show f: "list_all fits args" using assms(1,3) e by (auto simp: abi_standard_def)
  let ?s = "mw_selector V signature" and ?w = "concat (map abi_word args)"
  have h: "h = ?s @ ?w" using assms(1,3) e by (auto simp: abi_standard_def)
  have s: "hex_chars 8 ?s" using assms(1) by (simp add: abi_standard_def)
  have w: "list_all (\<lambda>w. length w = 64) (map abi_word args)" using f assms(3) by (auto simp: list_all_iff)
  note l = concat_length [OF w]
  show b: "bytes4_of h = update_selector V signature"
    using s by (simp add: bytes4_of_def h hex_chars_def update_selector_def chain_selector_def)
  show d: "data_length h = 4 + 32 * length args" using s l by (simp add: data_length_def h hex_chars_def)
  have a: "arg_word h i = hexval (abi_word (args ! i))" if "i < length args" for i
    using concat_nth [OF w, of i] that s by (simp add: arg_word_def h hex_chars_def)
  then show "i < length args \<Longrightarrow> arg_word h i = hexval (abi_word (args ! i))" .
  have "map (arg_word h) [0..<length args] = map (\<lambda>x. hexval (abi_word x)) args" using a by (intro nth_equalityI) simp_all
  then show "decode_words (length args) h = Inr (map (\<lambda>x. hexval (abi_word x)) args)" by (simp add: decode_words_def d)
qed

text \<open>What each kind of argument is on chain.\<close>

lemma word_address:
  assumes "hex_chars 40 a"
  shows "hexval (abi_word (ArgAddress a)) = chain_address a" "as_address (chain_address a) = Inr (chain_address a)"
proof -
  have d: "list_all is_hex_digit (drop 2 a)" "length (drop 2 a) = 40" using assms by (simp_all add: hex_chars_def)
  show "hexval (abi_word (ArgAddress a)) = chain_address a" using hexval_lower [OF d(1)] by (simp add: hexval_append chain_address_def)
  have "chain_address a < 2 ^ 160" using hexval_bound [OF d(1)] unfolding d(2) chain_address_def by simp
  then show "as_address (chain_address a) = Inr (chain_address a)" by (simp add: as_address_def)
qed

lemma word_number:
  assumes "fits (ArgNumber q)"
  shows "hexval (abi_word (ArgNumber q)) = nat \<lfloor>q\<rfloor>" "as_uint48 (nat \<lfloor>q\<rfloor>) = Inr (word_of_int \<lfloor>q\<rfloor>)"
proof -
  have q: "0 \<le> \<lfloor>q\<rfloor>" "\<lfloor>q\<rfloor> < 2 ^ 48" using assms by (auto simp: floor_less_iff)
  then have n: "nat \<lfloor>q\<rfloor> < 2 ^ 48" by (simp add: nat_less_iff)
  then show "hexval (abi_word (ArgNumber q)) = nat \<lfloor>q\<rfloor>" by (simp add: hexval_pad)
  have "(word_of_nat (nat \<lfloor>q\<rfloor>) :: 48 word) = word_of_int \<lfloor>q\<rfloor>" using q(1) by (simp add: word_of_nat_of_int)
  then show "as_uint48 (nat \<lfloor>q\<rfloor>) = Inr (word_of_int \<lfloor>q\<rfloor>)" using n by (simp add: as_uint48_def)
qed

lemma word_uint: "fits (ArgUint n) \<Longrightarrow> hexval (abi_word (ArgUint n)) = nat n \<and> (word_of_nat (nat n) :: 256 word) = word_of_int n"
  by (auto simp: hexval_pad nat_less_iff word_of_nat_of_int)

lemma word_bool: "as_bool (hexval (abi_word (ArgBool b))) = Inr b"
  by (cases b) (simp_all add: hexval_pad as_bool_def)

lemma word_bytes4:
  assumes "hex_chars 8 s"
  shows "as_bytes4 (hexval (abi_word (ArgBytes4 s))) = Inr (chain_selector s)"
proof -
  have "hexval (abi_word (ArgBytes4 s)) = chain_selector s * 2 ^ 224" by (simp add: hexval_append chain_selector_def)
  then show ?thesis by (simp only: as_bytes4_def mod_mult_self2_is_0 if_True) simp
qed

lemma word_access: "as_access_type (hexval (abi_word (ArgNumber (access_type_number t)))) = Inr t"
  by (cases t) (simp_all add: hexval_pad as_access_type_def)


section \<open>The plugin performs the encoded updates\<close>

lemma performed:
  assumes "plugin_abi V"
  shows
    "encodeSetAccessListType V t = Inr h \<Longrightarrow> performSessionKeyPermissionsUpdate V now h k = Inr (setAccessListType t k)"
    "encodeUpdateAccessListAddressEntry V a b c = Inr h \<Longrightarrow>
       performSessionKeyPermissionsUpdate V now h k = Inr (updateAccessListAddressEntry (chain_address a) b c k)"
    "encodeUpdateAccessListFunctionEntry V a s b = Inr h \<Longrightarrow>
       performSessionKeyPermissionsUpdate V now h k = Inr (updateAccessListFunctionEntry (chain_address a) (chain_selector s) b k)"
    "encodeUpdateTimeRange V p q = Inr h \<Longrightarrow> performSessionKeyPermissionsUpdate V now h k = Inr (updateTimeRange (word_of_int \<lfloor>p\<rfloor>) (word_of_int \<lfloor>q\<rfloor>) k)"
    "encodeSetNativeTokenSpendLimit V n q = Inr h \<Longrightarrow>
       performSessionKeyPermissionsUpdate V now h k = Inr (setNativeTokenSpendLimit now (word_of_int n) (word_of_int \<lfloor>q\<rfloor>) k)"
    "encodeSetERC20SpendLimit V a n q = Inr h \<Longrightarrow>
       performSessionKeyPermissionsUpdate V now h k = setERC20SpendLimit now (chain_address a) (word_of_int n) (word_of_int \<lfloor>q\<rfloor>) k"
    "encodeSetGasSpendLimit V n q = Inr h \<Longrightarrow>
       performSessionKeyPermissionsUpdate V now h k = Inr (setGasSpendLimit now (word_of_int n) (word_of_int \<lfloor>q\<rfloor>) k)"
    "encodeSetRequiredPaymaster V a = Inr h \<Longrightarrow> performSessionKeyPermissionsUpdate V now h k = Inr (setRequiredPaymaster (chain_address a) k)"
proof -
  have abi: "abi_standard V" using assms by (simp add: plugin_abi_def)
  have d: "distinct (rev (map (update_selector V) update_signatures))" using assms by (simp add: plugin_abi_def)
  note e = encoded_call [OF abi]
  note p = performSessionKeyPermissionsUpdate_def Let_def numeral_2_eq_2 numeral_3_eq_3
  note n = d [unfolded update_signatures_def, simplified]
  show "performSessionKeyPermissionsUpdate V now h k = Inr (setAccessListType t k)" if h: "encodeSetAccessListType V t = Inr h"
    using e(2,3,5) [OF h [unfolded encodeSetAccessListType_def]] n by (simp add: p word_access del: abi_word.simps fits.simps(3))
  show "performSessionKeyPermissionsUpdate V now h k = Inr (updateAccessListAddressEntry (chain_address a) b c k)" if h: "encodeUpdateAccessListAddressEntry V a b c = Inr h"
    using e [OF h [unfolded encodeUpdateAccessListAddressEntry_def]] n by (simp add: p word_address word_bool del: abi_word.simps fits.simps(3))
  show "performSessionKeyPermissionsUpdate V now h k = Inr (updateAccessListFunctionEntry (chain_address a) (chain_selector s) b k)" if h: "encodeUpdateAccessListFunctionEntry V a s b = Inr h"
    using e [OF h [unfolded encodeUpdateAccessListFunctionEntry_def]] n by (simp add: p word_address word_bytes4 word_bool del: abi_word.simps fits.simps(3))
  show "performSessionKeyPermissionsUpdate V now h k = Inr (updateTimeRange (word_of_int \<lfloor>p\<rfloor>) (word_of_int \<lfloor>q\<rfloor>) k)" if h: "encodeUpdateTimeRange V p q = Inr h"
    using e [OF h [unfolded encodeUpdateTimeRange_def]] n by (simp add: p word_number del: abi_word.simps fits.simps(3))
  show "performSessionKeyPermissionsUpdate V now h k = Inr (setNativeTokenSpendLimit now (word_of_int n) (word_of_int \<lfloor>q\<rfloor>) k)" if h: "encodeSetNativeTokenSpendLimit V n q = Inr h"
    using e [OF h [unfolded encodeSetNativeTokenSpendLimit_def]] n by (simp add: p word_number word_uint del: abi_word.simps fits.simps(3))
  show "performSessionKeyPermissionsUpdate V now h k = setERC20SpendLimit now (chain_address a) (word_of_int n) (word_of_int \<lfloor>q\<rfloor>) k" if h: "encodeSetERC20SpendLimit V a n q = Inr h"
    using e [OF h [unfolded encodeSetERC20SpendLimit_def]] n by (simp add: p word_address word_number word_uint del: abi_word.simps fits.simps(3))
  show "performSessionKeyPermissionsUpdate V now h k = Inr (setGasSpendLimit now (word_of_int n) (word_of_int \<lfloor>q\<rfloor>) k)" if h: "encodeSetGasSpendLimit V n q = Inr h"
    using e [OF h [unfolded encodeSetGasSpendLimit_def]] n by (simp add: p word_number word_uint del: abi_word.simps fits.simps(3))
  show "performSessionKeyPermissionsUpdate V now h k = Inr (setRequiredPaymaster (chain_address a) k)" if h: "encodeSetRequiredPaymaster V a = Inr h"
    using e [OF h [unfolded encodeSetRequiredPaymaster_def]] n by (simp add: p word_address del: abi_word.simps fits.simps(3))
qed


section \<open>The key a grant leaves behind\<close>

lemma efold_append: "efold f (xs @ ys) s = ebind (efold f xs s) (efold f ys)"
  by (induction xs arbitrary: s) (auto simp: ebind_def split: sum.splits)

lemma efold_encoded:
  assumes "emap f xs = Inr hs" "\<And>x h k. f x = Inr h \<Longrightarrow> g h k = G x k"
  shows "efold g hs k = efold G xs k"
  using assms(1)
proof (induction xs arbitrary: hs k)
  case (Cons x xs)
  then obtain h hs' where h: "f x = Inr h" "emap f xs = Inr hs'" "hs = h # hs'" by (auto simp: ebind_Inr_iff)
  then show ?case using Cons.IH [OF h(2)] assms(2) [OF h(1)] by (simp add: ebind_def split: sum.splits)
qed simp

lemma efold_blocks:
  assumes "emap f xs = Inr hss" "\<And>x hs k. f x = Inr hs \<Longrightarrow> efold g hs k = Inr (S x k)"
  shows "efold g (concat hss) k = Inr (fold S xs k)"
  using assms(1)
proof (induction xs arbitrary: hss k)
  case (Cons x xs)
  then obtain h hs' where h: "f x = Inr h" "emap f xs = Inr hs'" "hss = h # hs'" by (auto simp: ebind_Inr_iff)
  then show ?case using Cons.IH [OF h(2)] assms(2) [OF h(1)] by (simp add: efold_append)
qed simp

definition apply_entry :: "BufiGrantScopeEntry \<Rightarrow> KeyStorage \<Rightarrow> KeyStorage" where
  "apply_entry e k = fold (\<lambda>s. updateAccessListFunctionEntry (chain_address (sc_target e)) (chain_selector s) True) (or_empty (sc_selectors e))
     (updateAccessListAddressEntry (chain_address (sc_target e)) True (or_empty (sc_selectors e) \<noteq> []) k)"

lemma efold_Inr: "efold (\<lambda>x k. Inr (f x k)) xs k = Inr (fold f xs k)"
  by (induction xs arbitrary: k) auto

lemma scope_performed:
  assumes "plugin_abi V" "scope_updates V e = Inr hs"
  shows "efold (performSessionKeyPermissionsUpdate V now) hs k = Inr (apply_entry e k)"
proof -
  let ?ss = "or_empty (sc_selectors e)"
  obtain a fs where h: "encodeUpdateAccessListAddressEntry V (sc_target e) True (?ss \<noteq> []) = Inr a"
    "emap (\<lambda>s. encodeUpdateAccessListFunctionEntry V (sc_target e) s True) ?ss = Inr fs" "hs = a # fs"
    using assms(2) by (auto simp: scope_updates_def Let_def ebind_Inr_iff)
  have "efold (performSessionKeyPermissionsUpdate V now) fs k' =
      efold (\<lambda>s k. Inr (updateAccessListFunctionEntry (chain_address (sc_target e)) (chain_selector s) True k)) ?ss k'" for k'
    using h(2) performed(3) [OF assms(1)] by (rule efold_encoded)
  then show ?thesis unfolding h(3) efold.simps performed(2) [OF assms(1) h(1)] ebind_simps apply_entry_def efold_Inr by simp
qed

definition apply_erc20 :: "256 word \<Rightarrow> BufiGrantErc20Budget \<Rightarrow> KeyStorage \<Rightarrow> plugin_error + KeyStorage" where
  "apply_erc20 now b k = setERC20SpendLimit now (chain_address (eb_token b)) (word_of_int (eb_limit b)) (word_of_int \<lfloor>eb_refreshIntervalSeconds b\<rfloor>) k"

definition apply_spend :: "(256 word \<Rightarrow> 48 word \<Rightarrow> KeyStorage \<Rightarrow> KeyStorage) \<Rightarrow> BufiGrantSpendBudget option \<Rightarrow> KeyStorage \<Rightarrow> KeyStorage" where
  "apply_spend f x k = (case x of None \<Rightarrow> k | Some b \<Rightarrow> f (word_of_int (sb_limit b)) (word_of_int \<lfloor>sb_refreshIntervalSeconds b\<rfloor>) k)"

definition apply_paymaster :: "Address option \<Rightarrow> KeyStorage \<Rightarrow> KeyStorage" where
  "apply_paymaster x k = (case x of None \<Rightarrow> k | Some a \<Rightarrow> setRequiredPaymaster (chain_address a) k)"

text \<open>The updates of a grant, carried out.\<close>

lemma grant_performed:
  assumes abi: "plugin_abi V" and b: "buildBufiGrant V g = Inr updates"
  shows "updateKeyPermissions V now updates k =
    ebind (efold (apply_erc20 now) (grant_erc20 g) (fold apply_entry (bg_scope g) (setAccessListType Allowlist k))) (\<lambda>k.
      Inr (apply_paymaster (given_text (bg_requiredPaymaster g))
        (updateTimeRange (word_of_int \<lfloor>grant_validAfter g\<rfloor>) (word_of_int \<lfloor>ex_validUntil (bg_expiry g)\<rfloor>)
          (apply_spend (setGasSpendLimit now) (grant_gas g) (apply_spend (setNativeTokenSpendLimit now) (grant_native g) k)))))"
proof -
  let ?p = "performSessionKeyPermissionsUpdate V now"
  obtain mode scope erc20 native gas range paymaster where h: "encodeSetAccessListType V Allowlist = Inr mode"
    "emap (scope_updates V) (bg_scope g) = Inr scope" "emap (erc20_updates V) (grant_erc20 g) = Inr erc20"
    "optional_update (\<lambda>b. encodeSetNativeTokenSpendLimit V (sb_limit b) (sb_refreshIntervalSeconds b)) (grant_native g) = Inr native"
    "optional_update (\<lambda>b. encodeSetGasSpendLimit V (sb_limit b) (sb_refreshIntervalSeconds b)) (grant_gas g) = Inr gas"
    "encodeUpdateTimeRange V (grant_validAfter g) (ex_validUntil (bg_expiry g)) = Inr range"
    "optional_update (encodeSetRequiredPaymaster V) (given_text (bg_requiredPaymaster g)) = Inr paymaster"
    "updates = mode # concat scope @ erc20 @ native @ gas @ range # paymaster"
    using b unfolding buildBufiGrant_def Let_def by (elim ebind_InrE) (rule that, assumption+, simp)
  note f = performed [OF abi]
  have s: "efold ?p (concat scope) k = Inr (fold apply_entry (bg_scope g) k)" for k
    using h(2) scope_performed [OF abi] by (rule efold_blocks)
  have e: "efold ?p erc20 k = efold (apply_erc20 now) (grant_erc20 g) k" for k
    using h(3) by (rule efold_encoded) (simp add: erc20_updates_def f(6) apply_erc20_def)
  have n: "efold ?p native k = Inr (apply_spend (setNativeTokenSpendLimit now) (grant_native g) k)" for k
    using h(4) f(5) by (auto simp: optional_update_def apply_spend_def res_simps split: option.splits)
  have m: "efold ?p gas k = Inr (apply_spend (setGasSpendLimit now) (grant_gas g) k)" for k
    using h(5) f(7) by (auto simp: optional_update_def apply_spend_def res_simps split: option.splits)
  have q: "efold ?p paymaster k = Inr (apply_paymaster (given_text (bg_requiredPaymaster g)) k)" for k
    using h(7) f(8) by (auto simp: optional_update_def apply_paymaster_def res_simps split: option.splits)
  have r: "efold ?p (native @ gas @ range # paymaster) = (\<lambda>k. Inr (apply_paymaster (given_text (bg_requiredPaymaster g))
      (updateTimeRange (word_of_int \<lfloor>grant_validAfter g\<rfloor>) (word_of_int \<lfloor>ex_validUntil (bg_expiry g)\<rfloor>)
        (apply_spend (setGasSpendLimit now) (grant_gas g) (apply_spend (setNativeTokenSpendLimit now) (grant_native g) k)))))"
    by (rule ext) (simp add: efold_append n m q f(4) [OF h(6)])
  show ?thesis unfolding updateKeyPermissions_def h(8) efold.simps f(1) [OF h(1)] ebind_simps
      efold_append [of _ "concat scope"] efold_append [of _ erc20] s e r ..
qed

text \<open>The access list of the key: which contract is on it, with which selectors, and which contracts carry a limit.\<close>

definition entries_for :: "BufiGrant \<Rightarrow> nat \<Rightarrow> BufiGrantScopeEntry list" where
  "entries_for g t = filter (\<lambda>e. chain_address (sc_target e) = t) (bg_scope g)"

definition limits_for :: "BufiGrant \<Rightarrow> nat \<Rightarrow> BufiGrantErc20Budget list" where
  "limits_for g t = filter (\<lambda>b. chain_address (eb_token b) = t) (grant_erc20 g)"

definition limited :: "BufiGrant \<Rightarrow> nat \<Rightarrow> bool" where
  "limited g t \<longleftrightarrow> limits_for g t \<noteq> [] \<and> (word_of_int (eb_limit (last (limits_for g t))) :: 256 word) \<noteq> - 1"

definition lists_selector :: "nat \<Rightarrow> BufiGrantScopeEntry \<Rightarrow> bool" where
  "lists_selector s e \<longleftrightarrow> list_ex (\<lambda>f. chain_selector f = s) (or_empty (sc_selectors e))"

text \<open>What a grant allows: calls to a listed contract, with any function when the last entry for the contract names none, and
  else with a function that some entry for it names; on a contract with a limit only \<open>transfer\<close> and \<open>approve\<close>.\<close>

definition granted :: "MwLib \<Rightarrow> BufiGrant \<Rightarrow> nat \<Rightarrow> nat \<Rightarrow> bool" where
  "granted V g t s \<longleftrightarrow> entries_for g t \<noteq> [] \<and>
     (or_empty (sc_selectors (last (entries_for g t))) = []
      \<or> list_ex (lists_selector s) (entries_for g t) \<and> (limited g t \<longrightarrow> isAllowedERC20Function V s))"

lemma fold_functions:
  "ks_functions (fold (\<lambda>s. updateAccessListFunctionEntry a (chain_selector s) True) ss k) t x \<longleftrightarrow>
     ks_functions k t x \<or> (a = t \<and> list_ex (\<lambda>f. chain_selector f = x) ss)"
  "ks_contracts (fold (\<lambda>s. updateAccessListFunctionEntry a (chain_selector s) True) ss k) = ks_contracts k"
  "ks_data (fold (\<lambda>s. updateAccessListFunctionEntry a (chain_selector s) True) ss k) = ks_data k"
  by (induction ss arbitrary: k) (auto simp: updateAccessListFunctionEntry_def)

lemma apply_entry_storage:
  "ks_functions (apply_entry e k) t x \<longleftrightarrow> ks_functions k t x \<or> (chain_address (sc_target e) = t \<and> lists_selector x e)"
  "ks_contracts (apply_entry e k) t = (if chain_address (sc_target e) = t
     then (ks_contracts k t)\<lparr>cd_isOnList := True, cd_checkSelectors := (or_empty (sc_selectors e) \<noteq> [])\<rparr> else ks_contracts k t)"
  "ks_data (apply_entry e k) = ks_data k"
  by (auto simp: apply_entry_def fold_functions updateAccessListAddressEntry_def lists_selector_def)

lemma fold_entries:
  fixes es :: "BufiGrantScopeEntry list"
  defines "mine t \<equiv> filter (\<lambda>e. chain_address (sc_target e) = t) es"
  shows "ks_functions (fold apply_entry es k) t x \<longleftrightarrow> ks_functions k t x \<or> list_ex (lists_selector x) (mine t)"
    "ks_contracts (fold apply_entry es k) t = (if mine t = [] then ks_contracts k t
       else (ks_contracts k t)\<lparr>cd_isOnList := True, cd_checkSelectors := (or_empty (sc_selectors (last (mine t))) \<noteq> [])\<rparr>)"
    "ks_data (fold apply_entry es k) = ks_data k"
  unfolding mine_def by (induction es arbitrary: k rule: rev_induct) (auto simp: apply_entry_storage)

lemma fold_erc20:
  assumes "efold (apply_erc20 now) bs k = Inr k'"
  shows "ks_functions k' = ks_functions k" "ks_data k' = ks_data k"
    "cd_isOnList (ks_contracts k' t) = cd_isOnList (ks_contracts k t)" "cd_checkSelectors (ks_contracts k' t) = cd_checkSelectors (ks_contracts k t)"
    "cd_isERC20WithSpendLimit (ks_contracts k' t) = (case filter (\<lambda>b. chain_address (eb_token b) = t) bs of [] \<Rightarrow> cd_isERC20WithSpendLimit (ks_contracts k t)
       | mine \<Rightarrow> (word_of_int (eb_limit (last mine)) :: 256 word) \<noteq> - 1)"
  using assms
  by (induction bs arbitrary: k)
    (auto simp: ebind_Inr_iff apply_erc20_def setERC20SpendLimit_def updateSpendLimits_def Let_def split: if_splits list.splits)


lemma erc20_accepted: "list_all (\<lambda>b. chain_address (eb_token b) \<noteq> 0) bs \<Longrightarrow> \<exists>k'. efold (apply_erc20 now) bs k = Inr k'"
proof (induction bs arbitrary: k)
  case (Cons b bs)
  then obtain k1 where "apply_erc20 now b k = Inr k1"
    by (fastforce simp: apply_erc20_def setERC20SpendLimit_def Let_def split: prod.splits)
  with Cons show ?case by simp
qed simp

lemma spend_storage [simp]:
  "ks_contracts (apply_spend (setGasSpendLimit now) x k) = ks_contracts k" "ks_functions (apply_spend (setGasSpendLimit now) x k) = ks_functions k"
  "ks_contracts (apply_spend (setNativeTokenSpendLimit now) x k) = ks_contracts k"
  "ks_functions (apply_spend (setNativeTokenSpendLimit now) x k) = ks_functions k"
  "ks_contracts (updateTimeRange a b k) = ks_contracts k" "ks_functions (updateTimeRange a b k) = ks_functions k"
  "ks_contracts (apply_paymaster p k) = ks_contracts k" "ks_functions (apply_paymaster p k) = ks_functions k"
  by (simp_all add: apply_spend_def setGasSpendLimit_def setNativeTokenSpendLimit_def updateTimeRange_def apply_paymaster_def setRequiredPaymaster_def
      Let_def updateSpendLimits_def split: option.splits)

text \<open>The rules of the key that do not depend on the contract called.\<close>

lemma grant_rules:
  assumes "k' = apply_paymaster p (updateTimeRange a b (apply_spend (setGasSpendLimit now) gas (apply_spend (setNativeTokenSpendLimit now) native k)))"
  shows "kd_contractAccessControlType (ks_data k') = kd_contractAccessControlType (ks_data k)"
    "kd_validAfter (ks_data k') = a" "kd_validUntil (ks_data k') = b"
    "native = None \<Longrightarrow> kd_nativeTokenSpendLimitBypassed (ks_data k') = kd_nativeTokenSpendLimitBypassed (ks_data k)
       \<and> kd_nativeTokenSpendLimit (ks_data k') = kd_nativeTokenSpendLimit (ks_data k)"
    "native = Some n \<Longrightarrow> word_of_int (sb_limit n) \<noteq> (- 1 :: 256 word) \<Longrightarrow> \<not> kd_nativeTokenSpendLimitBypassed (ks_data k')
       \<and> sl_limitAmount (kd_nativeTokenSpendLimit (ks_data k')) = word_of_int (sb_limit n)"
    "gas = Some n \<Longrightarrow> word_of_int (sb_limit n) \<noteq> (- 1 :: 256 word) \<Longrightarrow> kd_hasGasLimit (ks_data k') \<and> sl_limitAmount (kd_gasLimit (ks_data k')) = word_of_int (sb_limit n)"
    "p = Some x \<Longrightarrow> chain_address x \<noteq> 0 \<Longrightarrow> kd_hasRequiredPaymaster (ks_data k') \<and> kd_requiredPaymaster (ks_data k') = chain_address x"
  unfolding assms
  by (auto simp: apply_spend_def setGasSpendLimit_def setNativeTokenSpendLimit_def updateTimeRange_def apply_paymaster_def setRequiredPaymaster_def
      Let_def updateSpendLimits_def split: option.splits)

lemma compiled_grant:
  assumes "plugin_abi V" "buildBufiGrant V g = Inr updates" "list_all (\<lambda>b. chain_address (eb_token b) \<noteq> 0) (grant_erc20 g)"
  shows "\<exists>k. updateKeyPermissions V now updates empty_storage = Inr k
    \<and> (\<forall>t callData. checkCallPermissions V k (kd_contractAccessControlType (ks_data k)) t callData \<longleftrightarrow> granted V g t (bytes4_of callData))
    \<and> kd_validAfter (ks_data k) = word_of_int \<lfloor>grant_validAfter g\<rfloor> \<and> kd_validUntil (ks_data k) = word_of_int \<lfloor>ex_validUntil (bg_expiry g)\<rfloor>
    \<and> (grant_native g = None \<longrightarrow> \<not> kd_nativeTokenSpendLimitBypassed (ks_data k) \<and> sl_limitAmount (kd_nativeTokenSpendLimit (ks_data k)) = 0)
    \<and> (\<forall>b. grant_gas g = Some b \<and> word_of_int (sb_limit b) \<noteq> (- 1 :: 256 word) \<longrightarrow>
         kd_hasGasLimit (ks_data k) \<and> sl_limitAmount (kd_gasLimit (ks_data k)) = word_of_int (sb_limit b))
    \<and> (\<forall>p. given_text (bg_requiredPaymaster g) = Some p \<and> chain_address p \<noteq> 0 \<longrightarrow>
         kd_hasRequiredPaymaster (ks_data k) \<and> kd_requiredPaymaster (ks_data k) = chain_address p)"
proof -
  let ?e = "fold apply_entry (bg_scope g) (setAccessListType Allowlist empty_storage)"
  obtain k1 where k1: "efold (apply_erc20 now) (grant_erc20 g) ?e = Inr k1" using erc20_accepted [OF assms(3)] by blast
  let ?k = "apply_paymaster (given_text (bg_requiredPaymaster g))
        (updateTimeRange (word_of_int \<lfloor>grant_validAfter g\<rfloor>) (word_of_int \<lfloor>ex_validUntil (bg_expiry g)\<rfloor>)
          (apply_spend (setGasSpendLimit now) (grant_gas g) (apply_spend (setNativeTokenSpendLimit now) (grant_native g) k1)))"
  have u: "updateKeyPermissions V now updates empty_storage = Inr ?k"
    using grant_performed [OF assms(1,2), of now empty_storage] k1 by simp
  note c = fold_erc20 [OF k1] and f = fold_entries [where es = "bg_scope g" and k = "setAccessListType Allowlist empty_storage"]
  have d: "ks_data k1 = ks_data empty_storage" unfolding c(2) f(3) by (simp add: setAccessListType_def empty_storage_def)
  have s: "ks_contracts (setAccessListType Allowlist empty_storage) t = ks_contracts empty_storage t"
    "ks_functions (setAccessListType Allowlist empty_storage) = ks_functions empty_storage" for t by (simp_all add: setAccessListType_def)
  have "checkCallPermissions V ?k Allowlist t callData \<longleftrightarrow> granted V g t (bytes4_of callData)" for t callData
    unfolding checkCallPermissions_def Let_def spend_storage c(1,3,4,5) f(1,2) s
    by (auto simp: granted_def limited_def entries_for_def limits_for_def empty_storage_def split: list.splits)
  moreover have "kd_contractAccessControlType (ks_data ?k) = Allowlist" unfolding grant_rules(1) [OF refl] d by (simp add: empty_storage_def)
  ultimately show ?thesis using u grant_rules [where k' = ?k, OF refl] d
    by (intro exI [of _ ?k] conjI allI impI) (auto simp: empty_storage_def no_limit_def)
qed

end
