(* ===== verification/MW_Presets.thy ===== *)
theory MW_Presets
  imports MW_Policy
begin

text \<open>
  The agent roles of \<open>cascade/agentGrantPresets.ts\<close> on chain: what a key may call after the plugin applied the compiled preset to a
  new key.
\<close>

definition key_may :: "MwLib \<Rightarrow> 256 word \<Rightarrow> BufiGrant \<Rightarrow> nat \<Rightarrow> Hex \<Rightarrow> bool" where
  "key_may V now g target callData =
     (case buildBufiGrant V g of Inl _ \<Rightarrow> False | Inr updates \<Rightarrow>
       (case updateKeyPermissions V now updates empty_storage of Inl _ \<Rightarrow> False
        | Inr k \<Rightarrow> checkCallPermissions V k (kd_contractAccessControlType (ks_data k)) target callData))"

text \<open>A grant that compiles, and that budgets no zero address.\<close>

definition usable :: "MwLib \<Rightarrow> BufiGrant \<Rightarrow> bool" where
  "usable V g \<longleftrightarrow> \<not> isl (buildBufiGrant V g) \<and> list_all (\<lambda>b. chain_address (eb_token b) \<noteq> 0) (grant_erc20 g)"

lemma key_may_granted:
  assumes "plugin_abi V" "usable V g"
  shows "key_may V now g t callData \<longleftrightarrow> granted V g t (bytes4_of callData)"
proof -
  obtain updates where u: "buildBufiGrant V g = Inr updates" using assms(2) by (cases "buildBufiGrant V g") (auto simp: usable_def)
  have "list_all (\<lambda>b. chain_address (eb_token b) \<noteq> 0) (grant_erc20 g)" using assms(2) by (simp add: usable_def)
  from compiled_grant [OF assms(1) u this, of now] show ?thesis by (auto simp: key_may_def u)
qed

lemma grant_parts [simp]:
  "bg_scope (grant scope base x) = scope"
  "grant_erc20 (grant scope base x) = (case x of None \<Rightarrow> []
     | Some (token, b) \<Rightarrow> [\<lparr>eb_token = token, eb_limit = sb_limit b, eb_refreshIntervalSeconds = sb_refreshIntervalSeconds b\<rparr>])"
  by (auto simp: grant_def grant_erc20_def or_empty_def split: option.splits)

lemma scope_entry_parts [simp]: "sc_target (scope_entry a ss) = a" "or_empty (sc_selectors (scope_entry a ss)) = ss"
  "lists_selector s (scope_entry a ss) \<longleftrightarrow> s \<in> chain_selector ` set ss"
  by (auto simp: scope_entry_def or_empty_def lists_selector_def list_ex_iff)

text \<open>On chain a selector of the SDK is the selector of its signature.\<close>

definition selects :: "MwLib \<Rightarrow> string \<Rightarrow> Hex \<Rightarrow> bool" where
  "selects V signature callData \<longleftrightarrow> bytes4_of callData = update_selector V (''function '' @ signature)"

lemma selects_simps:
  "bytes4_of d = chain_selector (ERC20_TRANSFER_SELECTOR V) \<longleftrightarrow> selects V ''transfer(address,uint256)'' d"
  "bytes4_of d = chain_selector (ERC20_APPROVE_SELECTOR V) \<longleftrightarrow> selects V ''approve(address,uint256)'' d"
  "bytes4_of d = chain_selector (ERC4626_SELECTORS V Erc4626Withdraw) \<longleftrightarrow> selects V ''withdraw(uint256,address,address)'' d"
  "bytes4_of d = chain_selector (ERC4626_SELECTORS V Erc4626Redeem) \<longleftrightarrow> selects V ''redeem(uint256,address,address)'' d"
  "bytes4_of d = chain_selector (ERC8183_SELECTORS V CreateJob) \<longleftrightarrow> selects V ''createJob(address,address,uint256,string,address)'' d"
  "bytes4_of d = chain_selector (ERC8183_SELECTORS V SetBudget) \<longleftrightarrow> selects V ''setBudget(uint256,uint256,bytes)'' d"
  "bytes4_of d = chain_selector (ERC8183_SELECTORS V FundJob) \<longleftrightarrow> selects V ''fund(uint256,bytes)'' d"
  "bytes4_of d = chain_selector (ERC8183_SELECTORS V SubmitJob) \<longleftrightarrow> selects V ''submit(uint256,bytes32,bytes)'' d"
  "bytes4_of d = chain_selector (ERC8183_SELECTORS V CompleteJob) \<longleftrightarrow> selects V ''complete(uint256,bytes32,bytes)'' d"
  "bytes4_of d = chain_selector (ERC8183_SELECTORS V RejectJob) \<longleftrightarrow> selects V ''reject(uint256,bytes32,bytes)'' d"
  "bytes4_of d = chain_selector (GATEWAY_SELECTORS V GatewayDeposit) \<longleftrightarrow> selects V ''deposit(address,uint256)'' d"
  "bytes4_of d = chain_selector (GATEWAY_SELECTORS V GatewayDepositFor) \<longleftrightarrow> selects V ''depositFor(address,address,uint256)'' d"
  "bytes4_of d = chain_selector (mw_selector V ERC8004_GIVE_FEEDBACK_SIGNATURE)
     \<longleftrightarrow> selects V ''giveFeedback(uint256,int128,uint8,string,string,string,string,bytes32)'' d"
  "isAllowedERC20Function V (bytes4_of d) \<longleftrightarrow> selects V ''transfer(address,uint256)'' d \<or> selects V ''approve(address,uint256)'' d"
  by (simp_all add: selects_def update_selector_def ERC20_TRANSFER_SELECTOR_def ERC20_APPROVE_SELECTOR_def isAllowedERC20Function_def
      ERC8004_GIVE_FEEDBACK_SIGNATURE_def)

lemmas granted_simps = granted_def entries_for_def limits_for_def limited_def

text \<open>The roles around jobs: a buyer may approve and transfer its token and create, fund and reject jobs, but complete one only when
  that was asked for; a provider may set its budget and submit, and never touches a token; a rater may give feedback.\<close>

theorem job_roles:
  assumes "plugin_abi V" "jobs = (case jobContract of None \<Rightarrow> ARC_TESTNET_ERC8183_JOBS | Some c \<Rightarrow> c)"
    "registry = (case reputationRegistry of None \<Rightarrow> ARC_TESTNET_REPUTATION | Some r \<Rightarrow> r)"
  shows "(usable V (erc8183BuyerGrant V base jobContract token budget includeComplete) \<and> chain_address jobs \<noteq> chain_address token \<longrightarrow>
      (key_may V now (erc8183BuyerGrant V base jobContract token budget includeComplete) t d \<longleftrightarrow>
         (t = chain_address token \<and> (selects V ''approve(address,uint256)'' d \<or> selects V ''transfer(address,uint256)'' d))
       \<or> (t = chain_address jobs \<and> (selects V ''createJob(address,address,uint256,string,address)'' d \<or> selects V ''fund(uint256,bytes)'' d
            \<or> selects V ''reject(uint256,bytes32,bytes)'' d \<or> (includeComplete \<and> selects V ''complete(uint256,bytes32,bytes)'' d)))))
    \<and> (usable V (erc8183ProviderGrant V base jobContract) \<longrightarrow>
      (key_may V now (erc8183ProviderGrant V base jobContract) t d \<longleftrightarrow>
         t = chain_address jobs \<and> (selects V ''setBudget(uint256,uint256,bytes)'' d \<or> selects V ''submit(uint256,bytes32,bytes)'' d)))
    \<and> (usable V (erc8004RaterGrant V base reputationRegistry None) \<longrightarrow>
      (key_may V now (erc8004RaterGrant V base reputationRegistry None) t d \<longleftrightarrow>
         t = chain_address registry \<and> selects V ''giveFeedback(uint256,int128,uint8,string,string,string,string,bytes32)'' d))"
proof (intro conjI impI; (elim conjE)?)
  assume u: "usable V (erc8183BuyerGrant V base jobContract token budget includeComplete)" and n: "chain_address jobs \<noteq> chain_address token"
  show "key_may V now (erc8183BuyerGrant V base jobContract token budget includeComplete) t d \<longleftrightarrow>
         (t = chain_address token \<and> (selects V ''approve(address,uint256)'' d \<or> selects V ''transfer(address,uint256)'' d))
       \<or> (t = chain_address jobs \<and> (selects V ''createJob(address,address,uint256,string,address)'' d \<or> selects V ''fund(uint256,bytes)'' d
            \<or> selects V ''reject(uint256,bytes32,bytes)'' d \<or> (includeComplete \<and> selects V ''complete(uint256,bytes32,bytes)'' d)))"
    unfolding key_may_granted [OF assms(1) u] unfolding erc8183BuyerGrant_def assms(2) [symmetric] using n
    by (auto simp: granted_simps selects_simps simp del: ERC8183_SELECTORS.simps split: if_splits)
next
  assume u: "usable V (erc8183ProviderGrant V base jobContract)"
  show "key_may V now (erc8183ProviderGrant V base jobContract) t d \<longleftrightarrow>
         t = chain_address jobs \<and> (selects V ''setBudget(uint256,uint256,bytes)'' d \<or> selects V ''submit(uint256,bytes32,bytes)'' d)"
    unfolding key_may_granted [OF assms(1) u] unfolding erc8183ProviderGrant_def assms(2) [symmetric]
    by (auto simp: granted_simps selects_simps simp del: ERC8183_SELECTORS.simps)
next
  assume u: "usable V (erc8004RaterGrant V base reputationRegistry None)"
  show "key_may V now (erc8004RaterGrant V base reputationRegistry None) t d \<longleftrightarrow>
         t = chain_address registry \<and> selects V ''giveFeedback(uint256,int128,uint8,string,string,string,string,bytes32)'' d"
    unfolding key_may_granted [OF assms(1) u] unfolding erc8004RaterGrant_def assms(3) [symmetric]
    by (auto simp: granted_simps selects_simps)
qed

section \<open>Addresses without regard to case\<close>

lemma lower_code: "is_hex_digit c \<Longrightarrow> lower_char c = (if unhex c < 10 then char_of (48 + unhex c) else char_of (87 + unhex c))"
  by (auto simp: is_hex_digit_def unhex_def lower_char_def Let_def)

lemma unhex_inj: "is_hex_digit c \<Longrightarrow> is_hex_digit d \<Longrightarrow> unhex c = unhex d \<Longrightarrow> lower_char c = lower_char d"
  by (simp add: lower_code)

lemma hexval_inj:
  "list_all is_hex_digit s \<Longrightarrow> list_all is_hex_digit t \<Longrightarrow> length s = length t \<Longrightarrow> hexval s = hexval t \<Longrightarrow> to_lower s = to_lower t"
proof (induction s arbitrary: t rule: rev_induct)
  case (snoc c s)
  obtain d u where t: "t = u @ [d]" using snoc.prems(3) by (cases t rule: rev_cases) auto
  have b: "unhex c < 16" "unhex d < 16" using snoc.prems unhex_bound by (simp_all add: t)
  have "16 * hexval s + unhex c = 16 * hexval u + unhex d" using snoc.prems(4) by (simp add: t)
  then have "unhex c = unhex d" "hexval s = hexval u" using b by presburger+
  with snoc show ?case using unhex_inj [of c d] by (simp add: t to_lower_def)
qed simp

lemma chain_address_lower:
  assumes "hex_chars 40 a" "hex_chars 40 b"
  shows "chain_address a = chain_address b \<longleftrightarrow> to_lower a = to_lower b"
proof
  have s: "a = ''0x'' @ drop 2 a" "b = ''0x'' @ drop 2 b" using assms append_take_drop_id [of 2] unfolding hex_chars_def by metis+
  have d: "list_all is_hex_digit (drop 2 a)" "list_all is_hex_digit (drop 2 b)" "length (drop 2 a) = length (drop 2 b)"
    using assms by (simp_all add: hex_chars_def)
  show "to_lower a = to_lower b" if "chain_address a = chain_address b"
    using hexval_inj [OF d] that by (subst s(1), subst s(2)) (simp add: chain_address_def to_lower_def)
  assume "to_lower a = to_lower b"
  then have "to_lower (drop 2 a) = to_lower (drop 2 b)" by (simp add: to_lower_def flip: drop_map)
  then show "chain_address a = chain_address b" using hexval_lower [OF d(1)] hexval_lower [OF d(2)] by (simp add: chain_address_def)
qed


section \<open>The spending roles\<close>

text \<open>The loop over the vaults: what it adds to the scope, each address once without regard to case.\<close>

lemma vaults_added:
  assumes "efold (add_vault token ss) vs (seen, scope) = Inr (seen', scope')"
  shows "\<exists>us. scope' = scope @ map (\<lambda>v. scope_entry v ss) us \<and> set us \<subseteq> set vs \<and> to_lower ` set us \<union> set seen = to_lower ` set vs \<union> set seen
    \<and> to_lower token \<notin> to_lower ` set vs"
  using assms
proof (induction vs arbitrary: seen scope)
  case (Cons v vs)
  then obtain seen1 scope1 where s: "add_vault token ss v (seen, scope) = Inr (seen1, scope1)"
    "efold (add_vault token ss) vs (seen1, scope1) = Inr (seen', scope')" by (auto simp: ebind_Inr_iff)
  have n: "to_lower v \<noteq> to_lower token" using s(1) by (auto simp: add_vault_def)
  obtain us where us: "scope' = scope1 @ map (\<lambda>v. scope_entry v ss) us" "set us \<subseteq> set vs"
    "to_lower ` set us \<union> set seen1 = to_lower ` set vs \<union> set seen1" "to_lower token \<notin> to_lower ` set vs" using Cons.IH [OF s(2)] by blast
  show ?case
  proof (cases "to_lower v \<in> set seen")
    case True
    then have "seen1 = seen" "scope1 = scope" using s(1) n by (simp_all add: add_vault_def)
    with us n True show ?thesis by (intro exI [of _ us]) auto
  next
    case False
    then have "seen1 = to_lower v # seen" "scope1 = scope @ [scope_entry v ss]" using s(1) n by (simp_all add: add_vault_def)
    with us n show ?thesis by (intro exI [of _ "v # us"]) auto
  qed
qed auto

lemma yield_scope:
  assumes "spendFromYieldGrant V base token vaults recipients budget includeRedeem = Inr g"
  obtains us where "g = grant (scope_entry token [ERC20_TRANSFER_SELECTOR V]
      # map (\<lambda>v. scope_entry v (ERC4626_SELECTORS V Erc4626Withdraw # (if includeRedeem then [ERC4626_SELECTORS V Erc4626Redeem] else []))) us) base (Some (token, budget))"
    "set us \<subseteq> set vaults" "to_lower ` set us = to_lower ` set vaults" "to_lower token \<notin> to_lower ` set vaults"
proof -
  let ?ss = "ERC4626_SELECTORS V Erc4626Withdraw # (if includeRedeem then [ERC4626_SELECTORS V Erc4626Redeem] else [])"
  obtain seen scope where s: "efold (add_vault token ?ss) vaults ([], [scope_entry token [ERC20_TRANSFER_SELECTOR V]]) = Inr (seen, scope)"
    "g = grant scope base (Some (token, budget))"
    using assms unfolding spendFromYieldGrant_def Let_def by (elim ebind_InrE) (auto simp del: ERC4626_SELECTORS.simps)
  show thesis using vaults_added [OF s(1)] s(2) that by auto
qed

lemma filter_entries: "filter (\<lambda>e. chain_address (sc_target e) = t) (map (\<lambda>v. scope_entry v ss) us) = map (\<lambda>v. scope_entry v ss) (filter (\<lambda>v. chain_address v = t) us)"
  by (induction us) auto

lemma last_entry: "us \<noteq> [] \<Longrightarrow> or_empty (sc_selectors (last (map (\<lambda>v. scope_entry v ss) us))) = ss"
  by (simp add: last_map)

lemma yield_granted:
  assumes "chain_address token \<notin> chain_address ` set us" "ss \<noteq> []"
  shows "granted V (grant (scope_entry token [f] # map (\<lambda>v. scope_entry v ss) us) base (Some (token, budget))) t s \<longleftrightarrow>
    (t = chain_address token \<and> s = chain_selector f \<and> (limited (grant (scope_entry token [f] # map (\<lambda>v. scope_entry v ss) us) base (Some (token, budget))) t
        \<longrightarrow> isAllowedERC20Function V s))
    \<or> (t \<in> chain_address ` set us \<and> s \<in> chain_selector ` set ss)"
proof (cases "filter (\<lambda>v. chain_address v = t) us = []")
  case True
  then have "t \<notin> chain_address ` set us" by (auto simp: filter_empty_conv)
  with True show ?thesis by (auto simp: granted_def entries_for_def filter_entries)
next
  case False
  then have m: "t \<in> chain_address ` set us" by (auto simp: filter_empty_conv)
  then have m2: "t \<noteq> chain_address token" using assms(1) by blast
  let ?g = "grant (scope_entry token [f] # map (\<lambda>v. scope_entry v ss) us) base (Some (token, budget))"
  have e: "entries_for ?g t = map (\<lambda>v. scope_entry v ss) (filter (\<lambda>v. chain_address v = t) us)"
    using m2 by (simp add: entries_for_def filter_entries)
  have l: "\<not> limited ?g t" using m2 by (auto simp: limited_def limits_for_def)
  have x: "list_ex (lists_selector s) (map (\<lambda>v. scope_entry v ss) (filter (\<lambda>v. chain_address v = t) us)) \<longleftrightarrow> s \<in> chain_selector ` set ss"
    using False by (auto simp: list_ex_iff filter_empty_conv)
  show ?thesis using m m2 False assms(2) l x unfolding granted_def e last_entry [OF False] by auto
qed

lemma yield_role:
  assumes abi: "plugin_abi V" and g: "spendFromYieldGrant V base token vaults recipients budget includeRedeem = Inr g" and u: "usable V g"
    and h: "list_all (hex_chars 40) (token # vaults)"
  shows "key_may V now g t d \<longleftrightarrow> (t = chain_address token \<and> selects V ''transfer(address,uint256)'' d)
        \<or> (t \<in> chain_address ` set vaults \<and> (selects V ''withdraw(uint256,address,address)'' d
             \<or> (includeRedeem \<and> selects V ''redeem(uint256,address,address)'' d)))"
proof -
  let ?ss = "ERC4626_SELECTORS V Erc4626Withdraw # (if includeRedeem then [ERC4626_SELECTORS V Erc4626Redeem] else [])"
  obtain us where us: "g = grant (scope_entry token [ERC20_TRANSFER_SELECTOR V] # map (\<lambda>v. scope_entry v ?ss) us) base (Some (token, budget))"
    "set us \<subseteq> set vaults" "to_lower ` set us = to_lower ` set vaults" "to_lower token \<notin> to_lower ` set vaults" using yield_scope [OF g] by blast
  have same: "chain_address a = chain_address b \<longleftrightarrow> to_lower a = to_lower b" if "a \<in> set (token # vaults)" "b \<in> set (token # vaults)" for a b
    using chain_address_lower h that by (metis list_all_iff)
  have n: "chain_address token \<notin> chain_address ` set us" using us(2,4) same by (auto simp: image_iff)
  have v: "chain_address ` set us = chain_address ` set vaults"
  proof (intro subset_antisym subsetI)
    fix x assume "x \<in> chain_address ` set vaults"
    then obtain w where w: "w \<in> set vaults" "x = chain_address w" by blast
    then obtain y where "y \<in> set us" "to_lower y = to_lower w" using us(3) by (metis imageE imageI)
    then have "y \<in> set us" "chain_address y = x" using w us(2) same [of y w] by auto
    then show "x \<in> chain_address ` set us" by blast
  qed (use us(2) in auto)
  show ?thesis unfolding key_may_granted [OF abi u] unfolding us(1) yield_granted [OF n list.distinct(2)] v
    by (auto simp: selects_simps simp del: ERC4626_SELECTORS.simps)
qed

text \<open>The roles that spend: a float funder may only transfer its token; a gateway depositor may only approve it and deposit; a key that
  pays out of a yield position may transfer the token and withdraw from the named vaults (and redeem only when that was asked
  for). A vault is never the budgeted token, in whatever case its address is written, so that its withdrawals stay possible.\<close>

theorem spending_roles:
  assumes "plugin_abi V"
  shows "(\<forall>g. floatFunderGrant V base token recipients budget = Inr g \<and> usable V g \<longrightarrow>
      recipients \<noteq> [] \<and> (key_may V now g t d \<longleftrightarrow> t = chain_address token \<and> selects V ''transfer(address,uint256)'' d))
    \<and> (usable V (gatewayDepositorGrant V base gateway token budget) \<and> chain_address gateway \<noteq> chain_address token \<longrightarrow>
      (key_may V now (gatewayDepositorGrant V base gateway token budget) t d \<longleftrightarrow>
        (t = chain_address token \<and> selects V ''approve(address,uint256)'' d)
        \<or> (t = chain_address gateway \<and> (selects V ''deposit(address,uint256)'' d \<or> selects V ''depositFor(address,address,uint256)'' d))))
    \<and> (\<forall>g. spendFromYieldGrant V base token vaults recipients budget includeRedeem = Inr g \<and> usable V g \<and> list_all (hex_chars 40) (token # vaults) \<longrightarrow>
      (key_may V now g t d \<longleftrightarrow> (t = chain_address token \<and> selects V ''transfer(address,uint256)'' d)
        \<or> (t \<in> chain_address ` set vaults \<and> (selects V ''withdraw(uint256,address,address)'' d
             \<or> (includeRedeem \<and> selects V ''redeem(uint256,address,address)'' d)))))"
proof (intro conjI allI impI; (elim conjE)?)
  show "recipients \<noteq> []" if "floatFunderGrant V base token recipients budget = Inr g" for g using that by (auto simp: floatFunderGrant_def)
next
  fix g
  assume g: "floatFunderGrant V base token recipients budget = Inr g" and u: "usable V g"
  have e: "g = grant [scope_entry token [ERC20_TRANSFER_SELECTOR V]] base (Some (token, budget))"
    using g by (simp add: floatFunderGrant_def split: if_splits)
  show "key_may V now g t d \<longleftrightarrow> t = chain_address token \<and> selects V ''transfer(address,uint256)'' d"
    unfolding key_may_granted [OF assms u] unfolding e by (auto simp: granted_simps selects_simps)
next
  assume u: "usable V (gatewayDepositorGrant V base gateway token budget)" and n: "chain_address gateway \<noteq> chain_address token"
  show "key_may V now (gatewayDepositorGrant V base gateway token budget) t d \<longleftrightarrow>
        (t = chain_address token \<and> selects V ''approve(address,uint256)'' d)
        \<or> (t = chain_address gateway \<and> (selects V ''deposit(address,uint256)'' d \<or> selects V ''depositFor(address,address,uint256)'' d))"
    unfolding key_may_granted [OF assms u] unfolding gatewayDepositorGrant_def using n
    by (auto simp: granted_simps selects_simps simp del: GATEWAY_SELECTORS.simps)
next
  fix g
  assume "spendFromYieldGrant V base token vaults recipients budget includeRedeem = Inr g" "usable V g" "list_all (hex_chars 40) (token # vaults)"
  then show "key_may V now g t d \<longleftrightarrow> (t = chain_address token \<and> selects V ''transfer(address,uint256)'' d)
        \<or> (t \<in> chain_address ` set vaults \<and> (selects V ''withdraw(uint256,address,address)'' d
             \<or> (includeRedeem \<and> selects V ''redeem(uint256,address,address)'' d)))"
    by (rule yield_role [OF assms])
qed


section \<open>Properties of grants\<close>

text \<open>(C13) A grant that compiles is accepted by the plugin (unless it budgets the zero address), and the new key may then call exactly
  what the grant allows: its validity window, its gas budget and its paymaster are those of the grant, and without a native budget
  it can send no native token at all.\<close>

theorem grant_is_policy:
  assumes "plugin_abi V" "buildBufiGrant V g = Inr updates" "list_all (\<lambda>b. chain_address (eb_token b) \<noteq> 0) (grant_erc20 g)"
  shows "\<exists>k. updateKeyPermissions V now updates empty_storage = Inr k
    \<and> (\<forall>t callData. checkCallPermissions V k (kd_contractAccessControlType (ks_data k)) t callData \<longleftrightarrow> granted V g t (bytes4_of callData))
    \<and> kd_validAfter (ks_data k) = word_of_int \<lfloor>grant_validAfter g\<rfloor> \<and> kd_validUntil (ks_data k) = word_of_int \<lfloor>ex_validUntil (bg_expiry g)\<rfloor>
    \<and> (grant_native g = None \<longrightarrow> \<not> kd_nativeTokenSpendLimitBypassed (ks_data k) \<and> sl_limitAmount (kd_nativeTokenSpendLimit (ks_data k)) = 0)
    \<and> (\<forall>b. grant_gas g = Some b \<and> word_of_int (sb_limit b) \<noteq> (- 1 :: 256 word) \<longrightarrow>
         kd_hasGasLimit (ks_data k) \<and> sl_limitAmount (kd_gasLimit (ks_data k)) = word_of_int (sb_limit b))
    \<and> (\<forall>p. given_text (bg_requiredPaymaster g) = Some p \<and> chain_address p \<noteq> 0 \<longrightarrow>
         kd_hasRequiredPaymaster (ks_data k) \<and> kd_requiredPaymaster (ks_data k) = chain_address p)"
  by (rule compiled_grant [OF assms])

text \<open>(C40) A budgeted token that the grant lists without selectors escapes its budget: the plugin accepts every function of it, also one
  whose amount it does not count.\<close>

theorem unscoped_token_escapes_budget:
  assumes "plugin_abi V" "usable V g" "entries_for g (chain_address token) \<noteq> []" "or_empty (sc_selectors (last (entries_for g (chain_address token)))) = []"
    "\<not> isAllowedERC20Function V (bytes4_of callData)"
  shows "key_may V now g (chain_address token) callData \<and> getTokenSpendAmount V callData = 0"
  using assms by (simp add: key_may_granted granted_def getTokenSpendAmount_def)

section \<open>An instance of the library\<close>

definition witness_signatures :: "string list" where
  "witness_signatures = update_signatures @ [''function transfer(address,uint256)'', ''function approve(address,uint256)'',
     ''function withdraw(uint256,address,address)'', ''function submit(uint256,bytes32,bytes)'', ''function setBudget(uint256,uint256,bytes)'']"

definition witness_mw :: MwLib where
  "witness_mw = (let sel = (\<lambda>s. ''0x'' @ hex_pad 8 (Suc (length (takeWhile (\<lambda>x. x \<noteq> s) witness_signatures)))) in
     \<lparr>mw_encode = (\<lambda>s args. if list_all fits args then Some (sel s @ concat (map abi_word args)) else None), mw_encodeParams = (\<lambda>args. Some ''0x''),
      mw_selector = sel, mw_keccak256 = (\<lambda>h. h), mw_isAddress = hex_chars 40, mw_isHash = hex_chars 64\<rparr>)"

lemma hex_digit_is: "n < 16 \<Longrightarrow> is_hex_digit (hex_digit n)"
  by (auto simp: is_hex_digit_def hex_digit_def Let_def)

lemma hex_pad_digits: "list_all is_hex_digit (hex_pad k n)"
  by (induction k arbitrary: n) (auto simp: hex_digit_is)

lemma witness_selector: "update_selector witness_mw s = Suc (length (takeWhile (\<lambda>x. x \<noteq> s) witness_signatures))"
proof -
  have "length (takeWhile (\<lambda>x. x \<noteq> s) witness_signatures) \<le> length witness_signatures" by (rule length_takeWhile_le)
  then have "Suc (length (takeWhile (\<lambda>x. x \<noteq> s) witness_signatures)) < 16 ^ 8" by (simp add: witness_signatures_def update_signatures_def)
  then show ?thesis by (simp add: update_selector_def witness_mw_def Let_def chain_selector_def hexval_pad)
qed

lemma witness_abi: "plugin_abi witness_mw"
proof -
  have "abi_standard witness_mw" using hex_pad_digits by (auto simp: abi_standard_def witness_mw_def Let_def hex_chars_def)
  moreover have "distinct (map (update_selector witness_mw) update_signatures)"
    unfolding update_signatures_def by (simp add: witness_selector witness_signatures_def update_signatures_def)
  ultimately show ?thesis by (simp add: plugin_abi_def)
qed

lemma witness_encodes: "encodeFunctionData witness_mw s args = (if list_all fits args then Inr (mw_selector witness_mw s @ concat (map abi_word args)) else Inl AbiError)"
  by (simp add: encodeFunctionData_def witness_mw_def Let_def)

lemma witness_selector_text: "hex_chars 8 (mw_selector witness_mw s)"
  using witness_abi by (simp add: plugin_abi_def abi_standard_def)

definition addr :: "char \<Rightarrow> Address" where
  "addr c = ''0x'' @ replicate 40 c"

lemma addr_text: "is_hex_digit c \<Longrightarrow> hex_chars 40 (addr c)"
  by (auto simp: addr_def hex_chars_def list_all_iff)

lemma addr_pos: "unhex c \<noteq> 0 \<Longrightarrow> chain_address (addr c) \<noteq> 0"
proof -
  have "replicate 40 c = replicate 39 c @ [c]" by (simp add: replicate_append_same flip: replicate_Suc)
  then show "unhex c \<noteq> 0 \<Longrightarrow> chain_address (addr c) \<noteq> 0" by (simp add: chain_address_def addr_def)
qed

definition witness_base :: AgentGrantPresetBase where
  "witness_base = \<lparr>gp_expiry = \<lparr>ex_validAfter = None, ex_validUntil = 100\<rparr>, gp_gas = Some \<lparr>sb_limit = 50, sb_refreshIntervalSeconds = 10\<rparr>,
     gp_requiredPaymaster = Some (addr CHR ''d'')\<rparr>"

definition witness_budget :: BufiGrantSpendBudget where
  "witness_budget = \<lparr>sb_limit = 30, sb_refreshIntervalSeconds = 10\<rparr>"

text \<open>A preset with the base above compiles for the instance when its addresses are proper and its scope is not empty.\<close>

lemma emap_total: "\<forall>x \<in> set xs. \<not> isl (f x) \<Longrightarrow> \<not> isl (emap f xs)"
  by (induction xs) (auto simp: ebind_def split: sum.splits)

lemma witness_scope:
  assumes "hex_chars 40 (sc_target e)" "list_all (hex_chars 8) (or_empty (sc_selectors e))"
  shows "\<not> isl (scope_updates witness_mw e)"
proof -
  have "\<not> isl (emap (\<lambda>s. encodeUpdateAccessListFunctionEntry witness_mw (sc_target e) s True) (or_empty (sc_selectors e)))"
    using assms by (intro emap_total) (auto simp: encodeUpdateAccessListFunctionEntry_def witness_encodes list_all_iff)
  then show ?thesis
    using assms by (auto simp: scope_updates_def Let_def encodeUpdateAccessListAddressEntry_def witness_encodes ebind_def split: sum.splits)
qed

lemma witness_usable:
  assumes "scope \<noteq> []" "\<forall>e \<in> set scope. hex_chars 40 (sc_target e) \<and> list_all (hex_chars 8) (or_empty (sc_selectors e))"
    "\<forall>t b. x = Some (t, b) \<longrightarrow> hex_chars 40 t \<and> chain_address t \<noteq> 0 \<and> b = witness_budget"
  shows "usable witness_mw (grant scope witness_base x)"
proof -
  have s: "\<not> isl (emap (scope_updates witness_mw) scope)" using assms(2) witness_scope by (intro emap_total) blast
  have e: "\<not> isl (emap (erc20_updates witness_mw) (grant_erc20 (grant scope witness_base x)))"
    using assms(3) by (intro emap_total) (auto simp: erc20_updates_def encodeSetERC20SpendLimit_def witness_encodes witness_budget_def split: option.splits)
  have "\<not> isl (buildBufiGrant witness_mw (grant scope witness_base x))"
    using s e assms(1) addr_text [of "CHR ''d''"]
    by (auto simp: buildBufiGrant_def Let_def ebind_def encodeSetAccessListType_def witness_encodes optional_update_def grant_native_def grant_gas_def
        grant_validAfter_def encodeUpdateTimeRange_def encodeSetGasSpendLimit_def encodeSetRequiredPaymaster_def given_text_def grant_def witness_base_def
        is_hex_digit_def addr_def split: sum.splits)
  then show ?thesis using assms(3) by (auto simp: usable_def split: option.splits)
qed


definition call_data :: "string \<Rightarrow> Hex" where
  "call_data signature = mw_selector witness_mw (''function '' @ signature)"

lemma call_data_selects: "bytes4_of (call_data s) = update_selector witness_mw (''function '' @ s)"
  using witness_selector_text [of "''function '' @ s"] by (simp add: call_data_def bytes4_of_def update_selector_def chain_selector_def hex_chars_def)

lemma witness_selects: "selects witness_mw s (call_data s') \<longleftrightarrow>
    length (takeWhile (\<lambda>x. x \<noteq> ''function '' @ s') witness_signatures) = length (takeWhile (\<lambda>x. x \<noteq> ''function '' @ s) witness_signatures)"
  by (simp add: selects_def call_data_selects witness_selector)

definition witness_float :: BufiGrant where
  "witness_float = grant [scope_entry (addr CHR ''a'') [ERC20_TRANSFER_SELECTOR witness_mw]] witness_base (Some (addr CHR ''a'', witness_budget))"

lemma witness_float_built: "floatFunderGrant witness_mw witness_base (addr CHR ''a'') [addr CHR ''b''] witness_budget = Inr witness_float"
  by (simp add: floatFunderGrant_def witness_float_def)

lemma witness_addrs: "hex_chars 40 (addr CHR ''a'')" "chain_address (addr CHR ''a'') \<noteq> 0" "hex_chars 40 (addr CHR ''d'')" "chain_address (addr CHR ''d'') \<noteq> 0"
  by (rule addr_text addr_pos, simp add: is_hex_digit_def unhex_def)+

lemma witness_float_usable: "usable witness_mw witness_float"
  unfolding witness_float_def using witness_selector_text witness_addrs
  by (intro witness_usable) (auto simp: ERC20_TRANSFER_SELECTOR_def)

theorem spending_roles_witness:
  "key_may witness_mw 5 witness_float (chain_address (addr CHR ''a'')) (call_data ''transfer(address,uint256)'')
   \<and> \<not> key_may witness_mw 5 witness_float (chain_address (addr CHR ''a'')) (call_data ''approve(address,uint256)'')
   \<and> \<not> key_may witness_mw 5 witness_float 0 (call_data ''transfer(address,uint256)'')"
proof -
  have "\<not> selects witness_mw ''transfer(address,uint256)'' (call_data ''approve(address,uint256)'')"
    unfolding witness_selects by (simp add: witness_signatures_def update_signatures_def)
  moreover have "selects witness_mw ''transfer(address,uint256)'' (call_data ''transfer(address,uint256)'')" unfolding witness_selects by simp
  ultimately show ?thesis
    using spending_roles [OF witness_abi, THEN conjunct1, rule_format, OF conjI [OF witness_float_built witness_float_usable], THEN conjunct2] witness_addrs by simp
qed

theorem job_roles_witness:
  "key_may witness_mw 5 (erc8183ProviderGrant witness_mw witness_base (Some (addr CHR ''a''))) (chain_address (addr CHR ''a'')) (call_data ''submit(uint256,bytes32,bytes)'')
   \<and> \<not> key_may witness_mw 5 (erc8183ProviderGrant witness_mw witness_base (Some (addr CHR ''a''))) (chain_address (addr CHR ''a'')) (call_data ''transfer(address,uint256)'')"
proof -
  have u: "usable witness_mw (erc8183ProviderGrant witness_mw witness_base (Some (addr CHR ''a'')))"
    unfolding erc8183ProviderGrant_def using witness_selector_text witness_addrs by (intro witness_usable) auto
  have "\<not> selects witness_mw ''submit(uint256,bytes32,bytes)'' (call_data ''transfer(address,uint256)'')"
    "\<not> selects witness_mw ''setBudget(uint256,uint256,bytes)'' (call_data ''transfer(address,uint256)'')"
    unfolding witness_selects by (simp_all add: witness_signatures_def update_signatures_def)
  moreover have "selects witness_mw ''submit(uint256,bytes32,bytes)'' (call_data ''submit(uint256,bytes32,bytes)'')" unfolding witness_selects by simp
  ultimately show ?thesis using job_roles [OF witness_abi refl refl, THEN conjunct2, THEN conjunct1, rule_format, OF u] by simp
qed


theorem grant_is_policy_witness:
  "\<exists>k. updateKeyPermissions witness_mw 5 (projr (buildBufiGrant witness_mw witness_float)) empty_storage = Inr k
    \<and> (checkCallPermissions witness_mw k (kd_contractAccessControlType (ks_data k)) (chain_address (addr CHR ''a'')) (call_data ''transfer(address,uint256)'')
       \<longleftrightarrow> granted witness_mw witness_float (chain_address (addr CHR ''a'')) (bytes4_of (call_data ''transfer(address,uint256)'')))
    \<and> kd_validUntil (ks_data k) = 100 \<and> kd_hasGasLimit (ks_data k) \<and> sl_limitAmount (kd_gasLimit (ks_data k)) = 50
    \<and> sl_limitAmount (kd_nativeTokenSpendLimit (ks_data k)) = 0 \<and> kd_requiredPaymaster (ks_data k) = chain_address (addr CHR ''d'')"
proof -
  have u: "buildBufiGrant witness_mw witness_float = Inr (projr (buildBufiGrant witness_mw witness_float))"
    "list_all (\<lambda>b. chain_address (eb_token b) \<noteq> 0) (grant_erc20 witness_float)"
    using witness_float_usable by (auto simp: usable_def)
  have f: "grant_native witness_float = None" "grant_gas witness_float = Some \<lparr>sb_limit = 50, sb_refreshIntervalSeconds = 10\<rparr>"
    "given_text (bg_requiredPaymaster witness_float) = Some (addr CHR ''d'')" "ex_validUntil (bg_expiry witness_float) = 100"
    by (simp_all add: witness_float_def grant_def witness_base_def grant_native_def grant_gas_def given_text_def addr_def)
  show ?thesis using grant_is_policy [OF witness_abi u, of 5] f witness_addrs by auto
qed

definition witness_unscoped :: BufiGrant where
  "witness_unscoped = grant [\<lparr>sc_target = addr CHR ''a'', sc_selectors = None\<rparr>] witness_base (Some (addr CHR ''a'', witness_budget))"

theorem unscoped_token_escapes_budget_witness:
  "key_may witness_mw 5 witness_unscoped (chain_address (addr CHR ''a'')) (call_data ''transferFrom(address,address,uint256)'')
   \<and> getTokenSpendAmount witness_mw (call_data ''transferFrom(address,address,uint256)'') = 0"
proof (rule unscoped_token_escapes_budget [OF witness_abi])
  show "usable witness_mw witness_unscoped"
    unfolding witness_unscoped_def using witness_addrs by (intro witness_usable) (auto simp: or_empty_def)
  show "entries_for witness_unscoped (chain_address (addr CHR ''a'')) \<noteq> []"
    "or_empty (sc_selectors (last (entries_for witness_unscoped (chain_address (addr CHR ''a''))))) = []"
    by (simp_all add: entries_for_def witness_unscoped_def or_empty_def)
  show "\<not> isAllowedERC20Function witness_mw (bytes4_of (call_data ''transferFrom(address,address,uint256)''))"
    unfolding isAllowedERC20Function_def call_data_selects witness_selector by (simp add: witness_signatures_def update_signatures_def)
qed

end
