(* ===== verification/MW_Budget.thy ===== *)
theory MW_Budget
  imports MW_Presets
begin

text \<open>
  Budgets over time. Every execution of a session key charges the budget of each limited token it calls; a run is a sequence of
  executions at given times. Whatever the run, what it charges is bounded by the budget of each window that can have opened
  since the budget was last refreshed.
\<close>

section \<open>One budget\<close>

definition charges :: "(256 word \<times> 256 word) list \<Rightarrow> SpendLimitTimeInfo \<times> SpendLimit \<Rightarrow> plugin_error + (SpendLimitTimeInfo \<times> SpendLimit)" where
  "charges cs s = efold (\<lambda>(now, amount) (t, l). ebind (runtimeUpdateSpendLimitUsage now amount t l)
     (\<lambda>(success, t, l). if success then Inr (t, l) else Inl (ERC20SpendLimitExceeded 0))) cs s"

lemma unat_add: "\<not> a + b < a \<Longrightarrow> unat (a + b) = unat a + unat b" for a b :: "256 word"
  by (simp add: not_less no_olen_add_nat unat_word_ariths)

lemma unat_widen: "unat (ucast w :: 256 word) = unat w" for w :: "48 word"
proof -
  have "unat w < 2 ^ 48" using unsigned_less [of w] by simp
  then have "unat w < 2 ^ 256" by (rule less_trans) simp
  then show ?thesis by (simp add: unsigned_ucast_eq take_bit_nat_eq_self_iff)
qed

lemma unat_narrow: "unat now < 2 ^ 48 \<Longrightarrow> unat (ucast now :: 48 word) = unat now" for now :: "256 word"
  by (simp add: unsigned_ucast_eq take_bit_nat_eq_self_iff)

text \<open>One charge: it either adds to the open window or opens a new one, and never exceeds the limit.\<close>

lemma charge_cases:
  assumes "runtimeUpdateSpendLimitUsage now amount t l = Inr (True, t', l')"
  shows "sl_limitAmount l' = sl_limitAmount l" "ti_refreshInterval t' = ti_refreshInterval t"
    "(t' = t \<and> unat (sl_limitUsed l') = unat amount + unat (sl_limitUsed l) \<and> unat (sl_limitUsed l') \<le> unat (sl_limitAmount l))
     \<or> (ti_refreshInterval t \<noteq> 0 \<and> unat (ti_lastUsed t) + unat (ti_refreshInterval t) \<le> unat now \<and> ti_lastUsed t' = ucast now
        \<and> sl_limitUsed l' = amount \<and> unat amount \<le> unat (sl_limitAmount l))"
proof -
  let ?r = "ti_refreshInterval t" and ?u = "ti_lastUsed t"
  obtain active where a: "(if ?r = 0 then Inr True else ebind (add48 ?u ?r) (\<lambda>t. Inr (ucast t > now))) = Inr active"
    "(if active then if amount + sl_limitUsed l < amount \<or> amount + sl_limitUsed l > sl_limitAmount l then Inr (False, t, l)
        else Inr (True, t, l\<lparr>sl_limitUsed := amount + sl_limitUsed l\<rparr>)
      else if amount > sl_limitAmount l then Inr (False, t, l)
      else Inr (True, t\<lparr>ti_lastUsed := ucast now\<rparr>, l\<lparr>sl_limitUsed := amount\<rparr>)) = (Inr (True, t', l') :: plugin_error + _)"
    using assms unfolding runtimeUpdateSpendLimitUsage_def Let_def by (elim ebind_InrE)
  show "sl_limitAmount l' = sl_limitAmount l" "ti_refreshInterval t' = ti_refreshInterval t" using a(2) by (auto split: if_splits)
  show "(t' = t \<and> unat (sl_limitUsed l') = unat amount + unat (sl_limitUsed l) \<and> unat (sl_limitUsed l') \<le> unat (sl_limitAmount l))
     \<or> (?r \<noteq> 0 \<and> unat ?u + unat ?r \<le> unat now \<and> ti_lastUsed t' = ucast now \<and> sl_limitUsed l' = amount \<and> unat amount \<le> unat (sl_limitAmount l))"
  proof (cases active)
    case True
    then show ?thesis using a(2) unat_add [of amount "sl_limitUsed l"] by (auto simp: not_less word_le_nat_alt split: if_splits)
  next
    case False
    then have r: "?r \<noteq> 0" using a(1) by (auto split: if_splits)
    with False a(1) have h: "unat ?u + unat ?r < 2 ^ 48" "\<not> (ucast (?u + ?r) :: 256 word) > now"
      by (auto simp: add48_def ebind_def split: if_splits)
    then have "unat (?u + ?r) = unat ?u + unat ?r" by (simp add: unat_word_ariths)
    then have "unat (ucast (?u + ?r) :: 256 word) = unat ?u + unat ?r" by (simp add: unat_widen)
    with h(2) have "unat ?u + unat ?r \<le> unat now" by (simp add: not_less word_le_nat_alt)
    then show ?thesis using a(2) False r by (auto simp: not_less word_le_nat_alt split: if_splits)
  qed
qed

lemma charges_bound:
  assumes "charges cs (t, l) = Inr (t', l')" "unat (sl_limitUsed l) \<le> unat (sl_limitAmount l)" "\<forall>(now, a) \<in> set cs. unat now \<le> T" "unat (ti_lastUsed t) \<le> T" "T < 2 ^ 48"
  shows "unat (sl_limitUsed l) + sum_list (map (\<lambda>(now, a). unat a) cs) \<le>
    unat (sl_limitAmount l) * (1 + (if ti_refreshInterval t = 0 then 0 else (T - unat (ti_lastUsed t)) div unat (ti_refreshInterval t)))"
  using assms
proof (induction cs arbitrary: t l)
  case (Cons c cs)
  obtain now a where c: "c = (now, a)" by (cases c)
  obtain t1 l1 where s: "runtimeUpdateSpendLimitUsage now a t l = Inr (True, t1, l1)" "charges cs (t1, l1) = Inr (t', l')"
    using Cons.prems(1) by (auto simp: charges_def c ebind_Inr_iff split: if_splits)
  note k = charge_cases [OF s(1)]
  let ?L = "unat (sl_limitAmount l)" and ?r = "unat (ti_refreshInterval t)" and ?u = "unat (ti_lastUsed t)" and ?S = "sum_list (map (\<lambda>(now, a). unat a) cs)"
  have p: "\<forall>(now, a) \<in> set cs. unat now \<le> T" "unat now \<le> T" using Cons.prems(3) by (auto simp: c)
  from k(3) show ?case
  proof
    assume e: "t1 = t \<and> unat (sl_limitUsed l1) = unat a + unat (sl_limitUsed l) \<and> unat (sl_limitUsed l1) \<le> ?L"
    then show ?thesis using Cons.IH [OF s(2) _ p(1)] Cons.prems(4,5) k(1) by (auto simp: c ac_simps split: if_splits)
  next
    assume e: "ti_refreshInterval t \<noteq> 0 \<and> ?u + ?r \<le> unat now \<and> ti_lastUsed t1 = ucast now \<and> sl_limitUsed l1 = a \<and> unat a \<le> ?L"
    have u1: "unat (ti_lastUsed t1) = unat now" using e p(2) Cons.prems(5) by (simp add: unat_narrow)
    have r: "0 < ?r" using e by (simp add: unat_gt_0)
    have i: "unat a + ?S \<le> ?L * (1 + (T - unat now) div ?r)"
      using Cons.IH [OF s(2) _ p(1)] e k(1,2) u1 p(2) Cons.prems(5) by simp
    have "?u + ?r + (T - unat now) \<le> T" using e p(2) by linarith
    then have "(T - unat now) + ?r \<le> T - ?u" by linarith
    then have "((T - unat now) + ?r) div ?r \<le> (T - ?u) div ?r" by (rule div_le_mono)
    then have "1 + (T - unat now) div ?r \<le> (T - ?u) div ?r" using r by simp
    then have "?L * (1 + (T - unat now) div ?r) \<le> ?L * ((T - ?u) div ?r)" by (rule mult_le_mono2)
    then have "unat (sl_limitUsed l) + (unat a + ?S) \<le> ?L + ?L * ((T - ?u) div ?r)" using i Cons.prems(2) by linarith
    then show ?thesis using e by (simp add: c algebra_simps)
  qed
qed (simp add: charges_def)

lemma charges_append: "charges (xs @ ys) s = ebind (charges xs s) (charges ys)"
  unfolding charges_def by (rule efold_append)

section \<open>Metered budgets\<close>

text \<open>The contract of a budget: while it is metered, an operation that succeeds has charged it what the operation spends, and
  leaves it metered. A run of such operations then charges the budget the concatenation of what they spend, so that the
  bound on charges carries over to the run.\<close>

locale metered =
  fixes step :: "'op \<Rightarrow> 's \<Rightarrow> plugin_error + 's"
    and budget :: "'s \<Rightarrow> SpendLimitTimeInfo \<times> SpendLimit"
    and spends :: "'op \<Rightarrow> (256 word \<times> 256 word) list"
    and active :: "'s \<Rightarrow> bool"
  assumes step_charges: "step x s = Inr s' \<Longrightarrow> active s \<Longrightarrow> charges (spends x) (budget s) = Inr (budget s')"
    and step_active: "step x s = Inr s' \<Longrightarrow> active s \<Longrightarrow> active s'"
begin

lemma run_charges: "efold step xs s = Inr s' \<Longrightarrow> active s \<Longrightarrow> charges (concat (map spends xs)) (budget s) = Inr (budget s')"
proof (induction xs arbitrary: s)
  case (Cons x xs)
  obtain s1 where s1: "step x s = Inr s1" "efold step xs s1 = Inr s'" using Cons.prems(1) by (auto simp: ebind_Inr_iff)
  show ?case using step_charges [OF s1(1)] Cons.IH [OF s1(2) step_active [OF s1(1)]] Cons.prems(2) by (simp add: charges_append)
qed (simp add: charges_def)

lemma run_bound:
  assumes "efold step xs s = Inr s'" "active s" "budget s = (t, l)" "unat (sl_limitUsed l) \<le> unat (sl_limitAmount l)"
    "\<forall>x \<in> set xs. \<forall>(now, a) \<in> set (spends x). unat now \<le> T" "unat (ti_lastUsed t) \<le> T" "T < 2 ^ 48"
  shows "unat (sl_limitUsed l) + sum_list (map (\<lambda>(now, a). unat a) (concat (map spends xs))) \<le>
    unat (sl_limitAmount l) * (1 + (if ti_refreshInterval t = 0 then 0 else (T - unat (ti_lastUsed t)) div unat (ti_refreshInterval t)))"
proof -
  obtain t' l' where "charges (concat (map spends xs)) (t, l) = Inr (t', l')" using run_charges [OF assms(1,2)] assms(3) by (cases "budget s'") simp
  then show ?thesis using assms(4-7) by (intro charges_bound) auto
qed

end

section \<open>The budget of a token over a run\<close>

text \<open>An execution: its time and its calls. What it asks a token to move: the amounts of its \<open>transfer\<close> and \<open>approve\<close> calls; what it
  sends of the native token: the values of its calls.\<close>

type_synonym execution = "256 word \<times> ChainCall list"

definition execute :: "MwLib \<Rightarrow> execution \<Rightarrow> KeyStorage \<Rightarrow> plugin_error + KeyStorage" where
  "execute V x k = updateLimitsPreExec V (fst x) (snd x) k"

definition run :: "MwLib \<Rightarrow> execution list \<Rightarrow> KeyStorage \<Rightarrow> plugin_error + KeyStorage" where
  "run V xs k = efold (execute V) xs k"

definition token_spends :: "MwLib \<Rightarrow> nat \<Rightarrow> execution \<Rightarrow> (256 word \<times> 256 word) list" where
  "token_spends V token x = map (\<lambda>c. (fst x, getTokenSpendAmount V (ch_data c))) (filter (\<lambda>c. ch_target c = token) (snd x))"

definition native_spends :: "execution \<Rightarrow> (256 word \<times> 256 word) list" where
  "native_spends x = [(fst x, sum_list (map ch_value (snd x)))]"

definition native_budget :: "KeyStorage \<Rightarrow> SpendLimitTimeInfo \<times> SpendLimit" where
  "native_budget k = (kd_nativeTokenSpendLimitTimeInfo (ks_data k), kd_nativeTokenSpendLimit (ks_data k))"

definition token_budget :: "nat \<Rightarrow> KeyStorage \<Rightarrow> SpendLimitTimeInfo \<times> SpendLimit" where
  "token_budget token k = (cd_erc20SpendLimitTimeInfo (ks_contracts k token), cd_erc20SpendLimit (ks_contracts k token))"

lemma call_charged:
  assumes "charge_call V now call (k, used) = Inr (k', used')" "cd_isERC20WithSpendLimit (ks_contracts k token)"
  shows "charges (if ch_target call = token then [(now, getTokenSpendAmount V (ch_data call))] else []) (token_budget token k) = Inr (token_budget token k')
    \<and> cd_isERC20WithSpendLimit (ks_contracts k' token)"
proof (cases "cd_isERC20WithSpendLimit (ks_contracts k (ch_target call))")
  case True
  let ?c = "ks_contracts k (ch_target call)"
  obtain t l where u: "runtimeUpdateSpendLimitUsage now (getTokenSpendAmount V (ch_data call)) (cd_erc20SpendLimitTimeInfo ?c) (cd_erc20SpendLimit ?c) = Inr (True, t, l)"
    and k': "k' = k\<lparr>ks_contracts := (ks_contracts k)(ch_target call := ?c\<lparr>cd_erc20SpendLimitTimeInfo := t, cd_erc20SpendLimit := l\<rparr>)\<rparr>"
    using assms(1) unfolding charge_call_def Let_def prod.case using True by (elim ebind_InrE) (auto elim!: ebind_InrE split: if_splits)
  show ?thesis
  proof (cases "ch_target call = token")
    case True
    then show ?thesis using u assms(2) by (simp add: charges_def token_budget_def k')
  next
    case False
    then show ?thesis using assms(2) by (simp add: charges_def token_budget_def k')
  qed
next
  case False
  then have "ch_target call \<noteq> token" using assms(2) by auto
  moreover have "k' = k" using assms(1) False by (auto simp: charge_call_def elim!: ebind_InrE)
  ultimately show ?thesis using assms(2) by (simp add: charges_def)
qed

lemma calls_charged:
  assumes "efold (charge_call V now) calls (k, used) = Inr (k', used')" "cd_isERC20WithSpendLimit (ks_contracts k token)"
  shows "charges (map (\<lambda>c. (now, getTokenSpendAmount V (ch_data c))) (filter (\<lambda>c. ch_target c = token) calls)) (token_budget token k) = Inr (token_budget token k')
    \<and> cd_isERC20WithSpendLimit (ks_contracts k' token)"
  using assms
proof (induction calls arbitrary: k used)
  case (Cons c calls)
  obtain k1 used1 where s: "charge_call V now c (k, used) = Inr (k1, used1)" "efold (charge_call V now) calls (k1, used1) = Inr (k', used')"
    using Cons.prems(1) by (auto simp: ebind_Inr_iff)
  note h = call_charged [OF s(1) Cons.prems(2)]
  have "charges (map (\<lambda>c. (now, getTokenSpendAmount V (ch_data c))) (filter (\<lambda>c. ch_target c = token) (c # calls))) (token_budget token k) =
      ebind (charges (if ch_target c = token then [(now, getTokenSpendAmount V (ch_data c))] else []) (token_budget token k))
        (charges (map (\<lambda>c. (now, getTokenSpendAmount V (ch_data c))) (filter (\<lambda>c. ch_target c = token) calls)))"
    unfolding charges_append [symmetric] by simp
  then show ?case using h Cons.IH [OF s(2)] by simp
qed (simp add: charges_def)

lemma execution_parts:
  assumes "updateLimitsPreExec V now calls k = Inr k'"
  obtains k1 used where "efold (charge_call V now) calls (k, 0) = Inr (k1, used)" "ks_contracts k' = ks_contracts k1"
    "kd_nativeTokenSpendLimitBypassed (ks_data k') = kd_nativeTokenSpendLimitBypassed (ks_data k1)"
    "\<not> kd_nativeTokenSpendLimitBypassed (ks_data k1) \<Longrightarrow> charges [(now, used)] (native_budget k1) = Inr (native_budget k')"
proof -
  obtain k1 used where c: "efold (charge_call V now) calls (k, 0) = Inr (k1, used)"
    "ebind (if kd_nativeTokenSpendLimitBypassed (ks_data k1) then Inr k1
        else ebind (runtimeUpdateSpendLimitUsage now used (kd_nativeTokenSpendLimitTimeInfo (ks_data k1)) (kd_nativeTokenSpendLimit (ks_data k1)))
          (\<lambda>(success, t, l). if success then Inr (k1\<lparr>ks_data := (ks_data k1)\<lparr>kd_nativeTokenSpendLimitTimeInfo := t, kd_nativeTokenSpendLimit := l\<rparr>\<rparr>)
            else Inl NativeTokenSpendLimitExceeded)) (\<lambda>k. let d = ks_data k in
      Inr (if kd_gasLimitResetThisBundle d
          then k\<lparr>ks_data := d\<lparr>kd_gasLimitResetThisBundle := False, kd_gasLimitTimeInfo := (kd_gasLimitTimeInfo d)\<lparr>ti_lastUsed := ucast now\<rparr>\<rparr>\<rparr>
          else k)) = Inr k'"
    using assms unfolding updateLimitsPreExec_def Let_def by (elim ebind_InrE) (auto split: prod.splits)
  show thesis
  proof (cases "kd_nativeTokenSpendLimitBypassed (ks_data k1)")
    case True
    then show ?thesis using c by (intro that [OF c(1)]) (auto simp: Let_def split: if_splits)
  next
    case False
    then obtain t l where u: "runtimeUpdateSpendLimitUsage now used (kd_nativeTokenSpendLimitTimeInfo (ks_data k1)) (kd_nativeTokenSpendLimit (ks_data k1)) = Inr (True, t, l)"
      using c(2) by (auto elim!: ebind_InrE split: if_splits)
    show ?thesis using c(2) False u by (intro that [OF c(1)]) (auto simp: Let_def charges_def native_budget_def split: if_splits)
  qed
qed

lemma values_charged:
  assumes "efold (charge_call V now) calls (k, n) = Inr (k', used)"
  shows "ks_data k' = ks_data k" "used = n + sum_list (map ch_value calls)" "unat used = unat n + sum_list (map (\<lambda>c. unat (ch_value c)) calls)"
proof -
  have "ks_data k' = ks_data k \<and> used = n + sum_list (map ch_value calls) \<and> unat used = unat n + sum_list (map (\<lambda>c. unat (ch_value c)) calls)"
    using assms
  proof (induction calls arbitrary: k n)
    case (Cons c calls)
    obtain k1 n1 where s: "charge_call V now c (k, n) = Inr (k1, n1)" "efold (charge_call V now) calls (k1, n1) = Inr (k', used)"
      using Cons.prems by (auto simp: ebind_Inr_iff)
    have "n1 = n + ch_value c \<and> unat n1 = unat n + unat (ch_value c) \<and> ks_data k1 = ks_data k"
      using s(1) by (auto simp: charge_call_def add256_def unat_word_ariths Let_def elim!: ebind_InrE split: if_splits)
    then show ?case using Cons.IH [OF s(2)] by (metis (no_types, lifting) add.assoc list.simps(9) sum_list.Cons)
  qed simp
  then show "ks_data k' = ks_data k" "used = n + sum_list (map ch_value calls)" "unat used = unat n + sum_list (map (\<lambda>c. unat (ch_value c)) calls)" by blast+
qed

text \<open>Both kinds of budget are metered by the execution: that of a token with a limit, and that of the native token unless the key bypasses
  it.\<close>

interpretation token: metered "execute V" "token_budget token" "token_spends V token" "\<lambda>k. cd_isERC20WithSpendLimit (ks_contracts k token)" for V token
proof
  fix x k k' assume e: "execute V x k = Inr k'" and a: "cd_isERC20WithSpendLimit (ks_contracts k token)"
  obtain k1 used where c: "efold (charge_call V (fst x)) (snd x) (k, 0) = Inr (k1, used)" "ks_contracts k' = ks_contracts k1"
    using execution_parts e unfolding execute_def by metis
  note h = calls_charged [OF c(1) a]
  show "charges (token_spends V token x) (token_budget token k) = Inr (token_budget token k')"
    using h c(2) by (simp add: token_spends_def token_budget_def)
  show "cd_isERC20WithSpendLimit (ks_contracts k' token)" using h c(2) by simp
qed

interpretation native: metered "execute V" native_budget native_spends "\<lambda>k. \<not> kd_nativeTokenSpendLimitBypassed (ks_data k)" for V
proof
  fix x k k' assume e: "execute V x k = Inr k'" and a: "\<not> kd_nativeTokenSpendLimitBypassed (ks_data k)"
  obtain k1 used where c: "efold (charge_call V (fst x)) (snd x) (k, 0) = Inr (k1, used)"
    "kd_nativeTokenSpendLimitBypassed (ks_data k') = kd_nativeTokenSpendLimitBypassed (ks_data k1)"
    "\<not> kd_nativeTokenSpendLimitBypassed (ks_data k1) \<Longrightarrow> charges [(fst x, used)] (native_budget k1) = Inr (native_budget k')"
    using execution_parts e unfolding execute_def by metis
  note v = values_charged [OF c(1)]
  show "charges (native_spends x) (native_budget k) = Inr (native_budget k')"
    using c(3) a v by (simp add: native_spends_def native_budget_def)
  show "\<not> kd_nativeTokenSpendLimitBypassed (ks_data k')" using c(2) a v(1) by simp
qed

section \<open>The budget a grant sets\<close>

lemma erc20_budget:
  assumes "efold (apply_erc20 now) bs k = Inr k'" "sl_limitUsed (cd_erc20SpendLimit (ks_contracts k t)) = 0"
  shows "sl_limitUsed (cd_erc20SpendLimit (ks_contracts k' t)) = 0"
    "filter (\<lambda>b. chain_address (eb_token b) = t) bs = mine @ [b] \<Longrightarrow> (word_of_int (eb_limit b) :: 256 word) \<noteq> - 1 \<Longrightarrow>
       token_budget t k' = (\<lparr>ti_lastUsed = (if (word_of_int \<lfloor>eb_refreshIntervalSeconds b\<rfloor> :: 48 word) = 0 then 0 else ucast now),
           ti_refreshInterval = word_of_int \<lfloor>eb_refreshIntervalSeconds b\<rfloor>\<rparr>, \<lparr>sl_limitAmount = word_of_int (eb_limit b), sl_limitUsed = 0\<rparr>)"
  using assms
proof (induction bs arbitrary: k' mine rule: rev_induct)
  case (snoc x bs)
  case 1
  obtain k1 where k1: "efold (apply_erc20 now) bs k = Inr k1" "apply_erc20 now x k1 = Inr k'" using 1(1) by (auto simp: efold_append ebind_Inr_iff)
  from snoc(1) [OF k1(1) 1(2)] k1(2) show ?case
    by (auto simp: apply_erc20_def setERC20SpendLimit_def updateSpendLimits_def Let_def split: if_splits)
next
  case (snoc x bs)
  case 2
  obtain k1 where k1: "efold (apply_erc20 now) bs k = Inr k1" "apply_erc20 now x k1 = Inr k'" using 2(3) by (auto simp: efold_append ebind_Inr_iff)
  note z = snoc(1) [OF k1(1) 2(4)]
  show ?case
  proof (cases "chain_address (eb_token x) = t")
    case True
    then have "x = b" using 2(1) by simp
    with True show ?thesis using k1(2) z 2(2)
      by (auto simp: apply_erc20_def setERC20SpendLimit_def updateSpendLimits_def Let_def token_budget_def split: if_splits)
  next
    case False
    then have "token_budget t k1 = token_budget t k'" using k1(2)
      by (auto simp: apply_erc20_def setERC20SpendLimit_def updateSpendLimits_def Let_def token_budget_def split: if_splits)
    with False show ?thesis using snoc(2) [OF _ 2(2) k1(1) 2(4), of mine] 2(1) by simp
  qed
qed auto

lemma erc20_tokens: "efold (apply_erc20 now) bs k = Inr k' \<Longrightarrow> list_all (\<lambda>b. chain_address (eb_token b) \<noteq> 0) bs"
  by (induction bs arbitrary: k) (auto simp: ebind_Inr_iff apply_erc20_def setERC20SpendLimit_def split: if_splits)

text \<open>The numbers of a budget that was encoded fit their words.\<close>

lemma numbers_fit:
  assumes "fits (ArgUint n)" "fits (ArgNumber q)"
  shows "unat (word_of_int n :: 256 word) = nat n" "unat (word_of_int \<lfloor>q\<rfloor> :: 48 word) = nat \<lfloor>q\<rfloor>"
proof -
  have f: "0 \<le> n" "n < 2 ^ 256" "0 \<le> \<lfloor>q\<rfloor>" "\<lfloor>q\<rfloor> < 2 ^ 48" using assms by (auto simp: floor_less_iff)
  then show "unat (word_of_int n :: 256 word) = nat n" "unat (word_of_int \<lfloor>q\<rfloor> :: 48 word) = nat \<lfloor>q\<rfloor>"
    by (simp_all add: unsigned_of_int take_bit_int_eq_self)
qed

lemma budget_fits:
  assumes "plugin_abi V" "buildBufiGrant V g = Inr updates" "b \<in> set (grant_erc20 g)"
  shows "unat (word_of_int (eb_limit b) :: 256 word) = nat (eb_limit b)"
    "unat (word_of_int \<lfloor>eb_refreshIntervalSeconds b\<rfloor> :: 48 word) = nat \<lfloor>eb_refreshIntervalSeconds b\<rfloor>"
proof -
  obtain erc20 where "emap (erc20_updates V) (grant_erc20 g) = Inr erc20"
    using assms(2) unfolding buildBufiGrant_def Let_def by (elim ebind_InrE) (rule that)
  then obtain h where "encodeSetERC20SpendLimit V (eb_token b) (eb_limit b) (eb_refreshIntervalSeconds b) = Inr h"
    using assms(3) unfolding erc20_updates_def by (blast dest: emap_InrD)
  then have "list_all fits [ArgAddress (eb_token b), ArgUint (eb_limit b), ArgNumber (eb_refreshIntervalSeconds b)]"
    unfolding encodeSetERC20SpendLimit_def using assms(1) by (intro encoded_call(1)) (auto simp: plugin_abi_def)
  then show "unat (word_of_int (eb_limit b) :: 256 word) = nat (eb_limit b)"
    "unat (word_of_int \<lfloor>eb_refreshIntervalSeconds b\<rfloor> :: 48 word) = nat \<lfloor>eb_refreshIntervalSeconds b\<rfloor>"
    by (auto intro!: numbers_fit simp del: fits.simps)
qed

lemma native_fits:
  assumes "plugin_abi V" "buildBufiGrant V g = Inr updates" "grant_native g = Some b"
  shows "unat (word_of_int (sb_limit b) :: 256 word) = nat (sb_limit b)"
    "unat (word_of_int \<lfloor>sb_refreshIntervalSeconds b\<rfloor> :: 48 word) = nat \<lfloor>sb_refreshIntervalSeconds b\<rfloor>"
proof -
  obtain native where "optional_update (\<lambda>b. encodeSetNativeTokenSpendLimit V (sb_limit b) (sb_refreshIntervalSeconds b)) (grant_native g) = Inr native"
    using assms(2) unfolding buildBufiGrant_def Let_def by (elim ebind_InrE) (rule that)
  then obtain h where "encodeSetNativeTokenSpendLimit V (sb_limit b) (sb_refreshIntervalSeconds b) = Inr h"
    using assms(3) by (auto simp: optional_update_def elim!: ebind_InrE)
  then have "list_all fits [ArgUint (sb_limit b), ArgNumber (sb_refreshIntervalSeconds b)]"
    unfolding encodeSetNativeTokenSpendLimit_def using assms(1) by (intro encoded_call(1)) (auto simp: plugin_abi_def)
  then show "unat (word_of_int (sb_limit b) :: 256 word) = nat (sb_limit b)"
    "unat (word_of_int \<lfloor>sb_refreshIntervalSeconds b\<rfloor> :: 48 word) = nat \<lfloor>sb_refreshIntervalSeconds b\<rfloor>"
    by (auto intro!: numbers_fit simp del: fits.simps)
qed

text \<open>The key of a grant: what the updates made of the token budgets, then of the native budget and the rest.\<close>

lemma granted_tokens:
  assumes "plugin_abi V" "buildBufiGrant V g = Inr updates" "updateKeyPermissions V now updates empty_storage = Inr k"
  obtains k1 where "efold (apply_erc20 now) (grant_erc20 g) (fold apply_entry (bg_scope g) (setAccessListType Allowlist empty_storage)) = Inr k1"
    "ks_contracts k = ks_contracts k1"
    "ks_data k1 = ks_data empty_storage" "native_budget k = native_budget (apply_spend (setNativeTokenSpendLimit now) (grant_native g) k1)"
    "kd_nativeTokenSpendLimitBypassed (ks_data k) = kd_nativeTokenSpendLimitBypassed (ks_data (apply_spend (setNativeTokenSpendLimit now) (grant_native g) k1))"
proof -
  let ?e = "fold apply_entry (bg_scope g) (setAccessListType Allowlist empty_storage)"
  obtain k1 where k1: "efold (apply_erc20 now) (grant_erc20 g) ?e = Inr k1"
    "k = apply_paymaster (given_text (bg_requiredPaymaster g)) (updateTimeRange (word_of_int \<lfloor>grant_validAfter g\<rfloor>) (word_of_int \<lfloor>ex_validUntil (bg_expiry g)\<rfloor>)
       (apply_spend (setGasSpendLimit now) (grant_gas g) (apply_spend (setNativeTokenSpendLimit now) (grant_native g) k1)))"
    using assms(3) unfolding grant_performed [OF assms(1,2)] by (elim ebind_InrE) auto
  have d: "ks_data k1 = ks_data empty_storage" unfolding fold_erc20(2) [OF k1(1)] fold_entries(3) by (simp add: setAccessListType_def empty_storage_def)
  have n: "native_budget (apply_paymaster p (updateTimeRange a b (apply_spend (setGasSpendLimit now) gas k))) = native_budget k"
    "kd_nativeTokenSpendLimitBypassed (ks_data (apply_paymaster p (updateTimeRange a b (apply_spend (setGasSpendLimit now) gas k))))
       = kd_nativeTokenSpendLimitBypassed (ks_data k)" for p a b gas k
    by (auto simp: native_budget_def apply_spend_def apply_paymaster_def setRequiredPaymaster_def updateTimeRange_def setGasSpendLimit_def updateSpendLimits_def
        Let_def split: option.splits)
  show thesis by (rule that [OF k1(1) _ d]) (simp_all only: k1(2) n spend_storage)
qed

lemma granted_budget:
  assumes "plugin_abi V" "buildBufiGrant V g = Inr updates" "updateKeyPermissions V now updates empty_storage = Inr k" "limited g t"
    "b = last (limits_for g t)"
  shows "token_budget t k = (\<lparr>ti_lastUsed = (if (word_of_int \<lfloor>eb_refreshIntervalSeconds b\<rfloor> :: 48 word) = 0 then 0 else ucast now),
           ti_refreshInterval = word_of_int \<lfloor>eb_refreshIntervalSeconds b\<rfloor>\<rparr>, \<lparr>sl_limitAmount = word_of_int (eb_limit b), sl_limitUsed = 0\<rparr>)"
    "cd_isERC20WithSpendLimit (ks_contracts k t)"
proof -
  let ?e = "fold apply_entry (bg_scope g) (setAccessListType Allowlist empty_storage)"
  obtain k1 where k1: "efold (apply_erc20 now) (grant_erc20 g) ?e = Inr k1" "ks_contracts k = ks_contracts k1"
    using granted_tokens [OF assms(1-3)] by blast
  have z: "sl_limitUsed (cd_erc20SpendLimit (ks_contracts ?e t)) = 0"
    unfolding fold_entries(2) by (simp add: setAccessListType_def empty_storage_def no_limit_def)
  have l: "limits_for g t \<noteq> []" "(word_of_int (eb_limit b) :: 256 word) \<noteq> - 1" using assms(4,5) by (auto simp: limited_def)
  have m: "filter (\<lambda>b. chain_address (eb_token b) = t) (grant_erc20 g) = butlast (limits_for g t) @ [b]"
    using l(1) assms(5) by (simp add: limits_for_def)
  show "cd_isERC20WithSpendLimit (ks_contracts k t)"
    unfolding k1(2) fold_erc20(5) [OF k1(1)] using l assms(5) by (auto simp: limits_for_def split: list.splits)
  show "token_budget t k = (\<lparr>ti_lastUsed = (if (word_of_int \<lfloor>eb_refreshIntervalSeconds b\<rfloor> :: 48 word) = 0 then 0 else ucast now),
      ti_refreshInterval = word_of_int \<lfloor>eb_refreshIntervalSeconds b\<rfloor>\<rparr>, \<lparr>sl_limitAmount = word_of_int (eb_limit b), sl_limitUsed = 0\<rparr>)"
    using erc20_budget(2) [OF k1(1) z m l(2)] k1(2) by (simp add: token_budget_def)
qed

lemma granted_native:
  assumes "plugin_abi V" "buildBufiGrant V g = Inr updates" "updateKeyPermissions V now updates empty_storage = Inr k"
    "\<forall>b. grant_native g = Some b \<longrightarrow> word_of_int (sb_limit b) \<noteq> (- 1 :: 256 word)"
  shows "\<not> kd_nativeTokenSpendLimitBypassed (ks_data k)"
    "native_budget k = (case grant_native g of None \<Rightarrow> (no_time, no_limit) | Some b \<Rightarrow>
       (\<lparr>ti_lastUsed = (if (word_of_int \<lfloor>sb_refreshIntervalSeconds b\<rfloor> :: 48 word) = 0 then 0 else ucast now),
         ti_refreshInterval = word_of_int \<lfloor>sb_refreshIntervalSeconds b\<rfloor>\<rparr>, \<lparr>sl_limitAmount = word_of_int (sb_limit b), sl_limitUsed = 0\<rparr>))"
proof -
  obtain k1 where k1: "ks_data k1 = ks_data empty_storage" "native_budget k = native_budget (apply_spend (setNativeTokenSpendLimit now) (grant_native g) k1)"
    "kd_nativeTokenSpendLimitBypassed (ks_data k) = kd_nativeTokenSpendLimitBypassed (ks_data (apply_spend (setNativeTokenSpendLimit now) (grant_native g) k1))"
    by (rule granted_tokens [OF assms(1-3)]) (rule that)
  show "\<not> kd_nativeTokenSpendLimitBypassed (ks_data k)" unfolding k1(3) using assms(4) k1(1)
    by (simp add: apply_spend_def setNativeTokenSpendLimit_def updateSpendLimits_def empty_storage_def Let_def split: option.splits)
  show "native_budget k = (case grant_native g of None \<Rightarrow> (no_time, no_limit) | Some b \<Rightarrow>
       (\<lparr>ti_lastUsed = (if (word_of_int \<lfloor>sb_refreshIntervalSeconds b\<rfloor> :: 48 word) = 0 then 0 else ucast now),
         ti_refreshInterval = word_of_int \<lfloor>sb_refreshIntervalSeconds b\<rfloor>\<rparr>, \<lparr>sl_limitAmount = word_of_int (sb_limit b), sl_limitUsed = 0\<rparr>))"
    unfolding k1(2) using assms(4) k1(1)
    by (simp add: native_budget_def apply_spend_def setNativeTokenSpendLimit_def updateSpendLimits_def empty_storage_def no_limit_def Let_def split: option.splits)
qed

text \<open>The bound of a budget by time \<open>T\<close>: the limit once for each window that can have opened.\<close>

definition window_bound :: "int \<Rightarrow> rat \<Rightarrow> 256 word \<Rightarrow> nat \<Rightarrow> nat" where
  "window_bound limit refresh now T = nat limit * (1 + (if \<lfloor>refresh\<rfloor> = 0 then 0 else (T - unat now) div nat \<lfloor>refresh\<rfloor>))"

lemma bound_is_window:
  assumes "unat (word_of_int n :: 256 word) = nat n" "unat (word_of_int \<lfloor>q\<rfloor> :: 48 word) = nat \<lfloor>q\<rfloor>" "unat now \<le> T" "T < 2 ^ 48"
    "t = \<lparr>ti_lastUsed = (if (word_of_int \<lfloor>q\<rfloor> :: 48 word) = 0 then 0 else ucast now), ti_refreshInterval = word_of_int \<lfloor>q\<rfloor>\<rparr>"
  shows "unat (ti_lastUsed t) \<le> T"
    "unat (word_of_int n :: 256 word) * (1 + (if ti_refreshInterval t = 0 then 0 else (T - unat (ti_lastUsed t)) div unat (ti_refreshInterval t))) \<le> window_bound n q now T"
proof -
  have u: "unat (ucast now :: 48 word) = unat now" using assms(3,4) by (simp add: unat_narrow)
  have r: "(word_of_int \<lfloor>q\<rfloor> :: 48 word) = 0 \<longleftrightarrow> nat \<lfloor>q\<rfloor> = 0" using assms(2) by (metis unat_eq_zero)
  show "unat (ti_lastUsed t) \<le> T" using assms(3) u by (simp add: assms(5))
  show "unat (word_of_int n :: 256 word) * (1 + (if ti_refreshInterval t = 0 then 0 else (T - unat (ti_lastUsed t)) div unat (ti_refreshInterval t))) \<le> window_bound n q now T"
    unfolding assms(1) window_bound_def using r u assms(2) by (intro mult_le_mono2) (auto simp: assms(5))
qed

text \<open>What a run sends of the native token.\<close>

lemma run_values:
  assumes "run V xs k = Inr k'"
  shows "sum_list (map (\<lambda>(now, a). unat a) (concat (map native_spends xs))) = sum_list (map (\<lambda>x. sum_list (map (\<lambda>c. unat (ch_value c)) (snd x))) xs)"
  using assms
proof (induction xs arbitrary: k)
  case (Cons x xs)
  obtain k1 where s: "updateLimitsPreExec V (fst x) (snd x) k = Inr k1" "run V xs k1 = Inr k'"
    using Cons.prems by (auto simp: run_def execute_def ebind_Inr_iff)
  obtain k2 used where "efold (charge_call V (fst x)) (snd x) (k, 0) = Inr (k2, used)" using execution_parts [OF s(1)] by metis
  from values_charged(2,3) [OF this] show ?case using Cons.IH [OF s(2)] by (simp add: native_spends_def)
qed simp

text \<open>(C14) An agent spends within its budgets: whatever sequence of executions a key from a grant goes through, up to time \<open>T\<close> it has moved
  and approved at most the budget of a token once for each window that can have opened (and at most the budget when it is not
  refreshed), and the same holds of the native token, of which it sends nothing when the grant has no native budget. When the grant
  lists the token with selectors, no function of the token other than \<open>transfer\<close> and \<open>approve\<close> passes the key's checks.\<close>

theorem agent_spends_within_budget:
  assumes "plugin_abi V" "buildBufiGrant V g = Inr updates" "updateKeyPermissions V now updates empty_storage = Inr k"
    "limited g t" "b = last (limits_for g t)" "\<forall>b. grant_native g = Some b \<longrightarrow> word_of_int (sb_limit b) \<noteq> (- 1 :: 256 word)"
    "run V xs k = Inr k'" "\<forall>x \<in> set xs. unat (fst x) \<le> T" "unat now \<le> T" "T < 2 ^ 48"
  shows "sum_list (map (\<lambda>(time, amount). unat amount) (concat (map (token_spends V t) xs))) \<le> window_bound (eb_limit b) (eb_refreshIntervalSeconds b) now T
    \<and> sum_list (map (\<lambda>x. sum_list (map (\<lambda>c. unat (ch_value c)) (snd x))) xs)
        \<le> (case grant_native g of None \<Rightarrow> 0 | Some n \<Rightarrow> window_bound (sb_limit n) (sb_refreshIntervalSeconds n) now T)
    \<and> (or_empty (sc_selectors (last (entries_for g t))) \<noteq> [] \<longrightarrow> checkCallPermissions V k (kd_contractAccessControlType (ks_data k)) t callData \<longrightarrow>
        isAllowedERC20Function V (bytes4_of callData))"
proof (intro conjI impI)
  note h = granted_budget [OF assms(1-5)]
  have b: "b \<in> set (grant_erc20 g)" using assms(4,5) last_in_set [of "limits_for g t"] by (auto simp: limited_def limits_for_def)
  note w = bound_is_window [OF budget_fits [OF assms(1,2) b] assms(9,10) refl]
  have T: "\<forall>x \<in> set xs. \<forall>(time, a) \<in> set (token_spends V t x). unat time \<le> T" using assms(8) by (auto simp: token_spends_def)
  show "sum_list (map (\<lambda>(time, amount). unat amount) (concat (map (token_spends V t) xs))) \<le> window_bound (eb_limit b) (eb_refreshIntervalSeconds b) now T"
    using token.run_bound [OF assms(7) [unfolded run_def] h(2,1) _ T w(1) assms(10)] w(2) by simp
next
  note h = granted_native [OF assms(1-3,6)]
  have T: "\<forall>x \<in> set xs. \<forall>(time, a) \<in> set (native_spends x). unat time \<le> T" using assms(8) by (auto simp: native_spends_def)
  show "sum_list (map (\<lambda>x. sum_list (map (\<lambda>c. unat (ch_value c)) (snd x))) xs)
      \<le> (case grant_native g of None \<Rightarrow> 0 | Some n \<Rightarrow> window_bound (sb_limit n) (sb_refreshIntervalSeconds n) now T)"
  proof (cases "grant_native g")
    case None
    then show ?thesis using native.run_bound [OF assms(7) [unfolded run_def] h(1) h(2) [unfolded None option.case] _ T _ assms(10)] run_values [OF assms(7)]
      by (simp add: no_limit_def no_time_def)
  next
    case (Some n)
    note w = bound_is_window [OF native_fits [OF assms(1,2) Some] assms(9,10) refl]
    show ?thesis using native.run_bound [OF assms(7) [unfolded run_def] h(1) h(2) [unfolded Some option.case] _ T w(1) assms(10)] w(2) run_values [OF assms(7)]
      by (simp add: Some)
  qed
next
  assume s: "or_empty (sc_selectors (last (entries_for g t))) \<noteq> []" "checkCallPermissions V k (kd_contractAccessControlType (ks_data k)) t callData"
  have "list_all (\<lambda>b. chain_address (eb_token b) \<noteq> 0) (grant_erc20 g)"
    using granted_tokens [OF assms(1-3)] by (metis erc20_tokens)
  then show "isAllowedERC20Function V (bytes4_of callData)"
    using compiled_grant [OF assms(1,2), of now] assms(3,4) s by (auto simp: granted_def)
qed

section \<open>A key that spends\<close>

definition witness_pay :: ChainCall where
  "witness_pay = \<lparr>ch_target = chain_address (addr CHR ''a''), ch_value = 0,
     ch_data = mw_selector witness_mw ''function transfer(address,uint256)'' @ concat (map abi_word [ArgAddress (addr CHR ''b''), ArgUint 30])\<rparr>"

lemma witness_pay_parts: "ch_target witness_pay = chain_address (addr CHR ''a'')" "ch_value witness_pay = 0"
  by (simp_all add: witness_pay_def)

lemma witness_pay_amount: "getTokenSpendAmount witness_mw (ch_data witness_pay) = 30"
proof -
  let ?args = "[ArgAddress (addr CHR ''b''), ArgUint 30]"
  have "hex_chars 40 (addr CHR ''b'')" by (rule addr_text) (simp add: is_hex_digit_def)
  then have "encodeFunctionData witness_mw ''function transfer(address,uint256)'' ?args = Inr (ch_data witness_pay)"
    unfolding witness_encodes by (simp add: witness_pay_def del: abi_word.simps)
  note e = encoded_call [OF _ this]
  have abi: "abi_standard witness_mw" using witness_abi by (simp add: plugin_abi_def)
  have "arg_word (ch_data witness_pay) 1 = 30" using e(4) [OF abi, of 1] by (simp add: hexval_pad)
  then show ?thesis using e(2,3) [OF abi] by (simp add: getTokenSpendAmount_def isAllowedERC20Function_def)
qed

lemma witness_updates: "buildBufiGrant witness_mw witness_float = Inr (projr (buildBufiGrant witness_mw witness_float))"
  using witness_float_usable by (simp add: usable_def)

definition spends_nothing_native :: "KeyStorage \<Rightarrow> bool" where
  "spends_nothing_native k \<longleftrightarrow> \<not> kd_nativeTokenSpendLimitBypassed (ks_data k) \<and> kd_nativeTokenSpendLimit (ks_data k) = no_limit
     \<and> kd_nativeTokenSpendLimitTimeInfo (ks_data k) = no_time"

lemma witness_key:
  obtains k where "updateKeyPermissions witness_mw 5 (projr (buildBufiGrant witness_mw witness_float)) empty_storage = Inr k" "spends_nothing_native k"
proof -
  let ?e = "fold apply_entry (bg_scope witness_float) (setAccessListType Allowlist empty_storage)"
  have "list_all (\<lambda>b. chain_address (eb_token b) \<noteq> 0) (grant_erc20 witness_float)" using witness_float_usable by (simp add: usable_def)
  then obtain k1 where k1: "efold (apply_erc20 5) (grant_erc20 witness_float) ?e = Inr k1" using erc20_accepted by blast
  have d: "ks_data k1 = ks_data empty_storage" unfolding fold_erc20(2) [OF k1] fold_entries(3) by (simp add: setAccessListType_def empty_storage_def)
  have n: "grant_native witness_float = None" by (simp add: witness_float_def grant_def grant_native_def)
  have "spends_nothing_native (apply_paymaster p (updateTimeRange a b (apply_spend (setGasSpendLimit 5) gas k1)))" for p a b gas
    using d by (simp add: spends_nothing_native_def apply_spend_def apply_paymaster_def setRequiredPaymaster_def updateTimeRange_def setGasSpendLimit_def
        updateSpendLimits_def empty_storage_def Let_def split: option.splits)
  then show thesis using that grant_performed [OF witness_abi witness_updates, of 5 empty_storage] k1 n by (simp add: apply_spend_def)
qed

lemma witness_limits: "limited witness_float (chain_address (addr CHR ''a''))"
  "last (limits_for witness_float (chain_address (addr CHR ''a''))) = \<lparr>eb_token = addr CHR ''a'', eb_limit = 30, eb_refreshIntervalSeconds = 10\<rparr>"
  by (simp_all add: limited_def limits_for_def witness_float_def witness_budget_def)

lemma witness_step:
  assumes "spends_nothing_native k" "cd_isERC20WithSpendLimit (ks_contracts k (chain_address (addr CHR ''a'')))"
    "token_budget (chain_address (addr CHR ''a'')) k = (t, l)" "runtimeUpdateSpendLimitUsage now 30 t l = Inr (True, t', l')"
  obtains k' where "updateLimitsPreExec witness_mw now [witness_pay] k = Inr k'" "spends_nothing_native k'"
    "cd_isERC20WithSpendLimit (ks_contracts k' (chain_address (addr CHR ''a'')))" "token_budget (chain_address (addr CHR ''a'')) k' = (t', l')"
proof -
  have c: "charge_call witness_mw now witness_pay (k, 0) = Inr (k\<lparr>ks_contracts := (ks_contracts k)(chain_address (addr CHR ''a'') :=
      (ks_contracts k (chain_address (addr CHR ''a'')))\<lparr>cd_erc20SpendLimitTimeInfo := t', cd_erc20SpendLimit := l'\<rparr>)\<rparr>, 0)"
    using assms(2-4) by (simp add: charge_call_def witness_pay_amount witness_pay_parts token_budget_def add256_def)
  have n: "runtimeUpdateSpendLimitUsage now 0 no_time no_limit = Inr (True, no_time, no_limit)"
    by (simp add: runtimeUpdateSpendLimitUsage_def no_time_def no_limit_def)
  show thesis using assms(1,2) that unfolding updateLimitsPreExec_def efold.simps c ebind_simps prod.case
    by (simp add: spends_nothing_native_def n token_budget_def Let_def)
qed

theorem agent_spends_within_budget_witness:
  "\<exists>k k'. updateKeyPermissions witness_mw 5 (projr (buildBufiGrant witness_mw witness_float)) empty_storage = Inr k
    \<and> run witness_mw [(6, [witness_pay]), (16, [witness_pay])] k = Inr k'
    \<and> concat (map (token_spends witness_mw (chain_address (addr CHR ''a''))) [(6, [witness_pay]), (16, [witness_pay])]) = [(6, 30), (16, 30)]
    \<and> (30 + 30 :: nat) \<le> window_bound 30 10 5 20 \<and> window_bound 30 10 5 20 = 60"
proof -
  obtain k where k: "updateKeyPermissions witness_mw 5 (projr (buildBufiGrant witness_mw witness_float)) empty_storage = Inr k"
    "spends_nothing_native k" by (rule witness_key)
  note b = granted_budget [OF witness_abi witness_updates k(1) witness_limits(1) witness_limits(2) [symmetric]]
  let ?ops = "[(6, [witness_pay]), (16, [witness_pay])]"
  have c: "concat (map (token_spends witness_mw (chain_address (addr CHR ''a''))) ?ops) = [(6, 30), (16, 30)]"
    by (simp add: token_spends_def witness_pay_amount witness_pay_parts)
  obtain k1 where k1: "updateLimitsPreExec witness_mw 6 [witness_pay] k = Inr k1" "spends_nothing_native k1"
    "cd_isERC20WithSpendLimit (ks_contracts k1 (chain_address (addr CHR ''a'')))"
    "token_budget (chain_address (addr CHR ''a'')) k1 = (\<lparr>ti_lastUsed = 5, ti_refreshInterval = 10\<rparr>, \<lparr>sl_limitAmount = 30, sl_limitUsed = 30\<rparr>)"
    using witness_step [OF k(2) b(2) b(1), of 6] by (simp add: runtimeUpdateSpendLimitUsage_def add48_def Let_def) blast
  obtain k' where "updateLimitsPreExec witness_mw 16 [witness_pay] k1 = Inr k'"
    using witness_step [OF k1(2,3,4), of 16] by (simp add: runtimeUpdateSpendLimitUsage_def add48_def Let_def) blast
  then have r: "run witness_mw ?ops k = Inr k'" by (simp add: run_def execute_def k1(1))
  have n: "\<forall>b. grant_native witness_float = Some b \<longrightarrow> word_of_int (sb_limit b) \<noteq> (- 1 :: 256 word)"
    by (simp add: witness_float_def grant_def grant_native_def)
  have "(30 + 30 :: nat) \<le> window_bound 30 10 5 20"
    using agent_spends_within_budget [OF witness_abi witness_updates k(1) witness_limits(1) witness_limits(2) [symmetric] n r, of 20, THEN conjunct1]
    unfolding c by simp
  moreover have "window_bound 30 10 5 20 = 60" by (simp add: window_bound_def)
  ultimately show ?thesis using k(1) r c by blast
qed

end
