(* ===== verification/MW_Yield.thy ===== *)
theory MW_Yield
  imports MW_Presets
begin

text \<open>
  Paying out of a yield position (\<open>cascade/buildSpendFromYieldCalls.ts\<close>): the calls that withdraw what an account lacks of each
  token from the vault adopted for it and then make the payments. Addresses are compared without regard to case. The maps that
  are only read are HOL maps; the one that is iterated over is a list in insertion order.
\<close>

section \<open>The calls\<close>

record YieldPayment =
  yp_token :: Address
  yp_to :: Address
  yp_amount :: int

record TokenBalance =
  tb_token :: Address
  tb_balance :: int

record VaultConfig =
  vc_token :: Address
  vc_vault :: Address

record Sourced =
  so_token :: Address
  so_vault :: Address
  so_amount :: int

record Call =
  mc_target :: Address
  mc_value :: int
  mc_data :: Hex

record SpendFromYieldCalls =
  sy_withdrawals :: "Call list"
  sy_transfers :: "Call list"
  sy_calls :: "Call list"
  sy_sourced :: "Sourced list"

definition liquid_of :: "TokenBalance list \<Rightarrow> string \<rightharpoonup> int" where
  "liquid_of balances = fold (\<lambda>b m. m(to_lower (tb_token b) \<mapsto> tb_balance b)) balances Map.empty"

definition vault_of :: "VaultConfig list \<Rightarrow> string \<rightharpoonup> Address" where
  "vault_of vaults = fold (\<lambda>v m. m(to_lower (vc_token v) \<mapsto> vc_vault v)) vaults Map.empty"

type_synonym needed_map = "(string \<times> Address \<times> int) list"

definition add_payment :: "YieldPayment \<Rightarrow> needed_map \<Rightarrow> mw_error + needed_map" where
  "add_payment payment needed =
     (if yp_amount payment < 0 then Inl (NegativeAmount (yp_token payment))
      else let key = to_lower (yp_token payment) in
        case map_of needed key of
          None \<Rightarrow> Inr (needed @ [(key, yp_token payment, yp_amount payment)])
        | Some _ \<Rightarrow> Inr (map (\<lambda>(k, token, amount). if k = key then (k, token, amount + yp_amount payment) else (k, token, amount)) needed))"

definition source_token ::
  "MwLib \<Rightarrow> Address \<Rightarrow> (string \<rightharpoonup> int) \<Rightarrow> (string \<rightharpoonup> Address) \<Rightarrow> string \<times> Address \<times> int \<Rightarrow> Call list \<times> Sourced list \<Rightarrow> mw_error + Call list \<times> Sourced list" where
  "source_token V account liquid vaultOf entry state =
     (case (entry, state) of ((key, token, amount), (withdrawals, sourced)) \<Rightarrow>
        let shortfall = amount - (case liquid key of None \<Rightarrow> 0 | Some b \<Rightarrow> b) in
        if shortfall \<le> 0 then Inr (withdrawals, sourced)
        else case vaultOf key of
          None \<Rightarrow> Inl (ShortOf shortfall token)
        | Some vault \<Rightarrow>
            ebind (encodeFunctionData V ''function withdraw(uint256,address,address)'' [ArgUint shortfall, ArgAddress account, ArgAddress account]) (\<lambda>data.
            Inr (withdrawals @ [\<lparr>mc_target = vault, mc_value = 0, mc_data = data\<rparr>],
                 sourced @ [\<lparr>so_token = token, so_vault = vault, so_amount = shortfall\<rparr>])))"

definition transfer_call :: "MwLib \<Rightarrow> YieldPayment \<Rightarrow> mw_error + Call" where
  "transfer_call V payment =
     ebind (encodeFunctionData V ''function transfer(address,uint256)'' [ArgAddress (yp_to payment), ArgUint (yp_amount payment)]) (\<lambda>data.
     Inr \<lparr>mc_target = yp_token payment, mc_value = 0, mc_data = data\<rparr>)"

definition buildSpendFromYieldCalls ::
  "MwLib \<Rightarrow> Address \<Rightarrow> YieldPayment list \<Rightarrow> TokenBalance list \<Rightarrow> VaultConfig list \<Rightarrow> mw_error + SpendFromYieldCalls" where
  "buildSpendFromYieldCalls V account payments balances vaults =
     ebind (efold add_payment payments []) (\<lambda>needed.
     ebind (efold (source_token V account (liquid_of balances) (vault_of vaults)) needed ([], [])) (\<lambda>(withdrawals, sourced).
     ebind (emap (transfer_call V) payments) (\<lambda>transfers.
     Inr \<lparr>sy_withdrawals = withdrawals, sy_transfers = transfers, sy_calls = withdrawals @ transfers, sy_sourced = sourced\<rparr>)))"

section \<open>What is needed, and what is sourced\<close>

definition liquid_amount :: "TokenBalance list \<Rightarrow> string \<Rightarrow> int" where
  "liquid_amount balances key = (case liquid_of balances key of None \<Rightarrow> 0 | Some b \<Rightarrow> b)"

definition paid :: "YieldPayment list \<Rightarrow> string \<Rightarrow> int" where
  "paid payments key = sum_list (map yp_amount (filter (\<lambda>p. to_lower (yp_token p) = key) payments))"

definition sourced_amount :: "Sourced list \<Rightarrow> string \<Rightarrow> int" where
  "sourced_amount ss key = sum_list (map so_amount (filter (\<lambda>s. to_lower (so_token s) = key) ss))"

definition needed_ok :: "YieldPayment list \<Rightarrow> needed_map \<Rightarrow> bool" where
  "needed_ok payments needed \<longleftrightarrow> distinct (map fst needed) \<and> fst ` set needed = (to_lower \<circ> yp_token) ` set payments
     \<and> (\<forall>(key, token, amount) \<in> set needed. to_lower token = key \<and> amount = paid payments key)"

lemma paid_snoc: "paid (ps @ [p]) key = paid ps key + (if to_lower (yp_token p) = key then yp_amount p else 0)"
  by (simp add: paid_def)

lemma paid_other: "key \<notin> (to_lower \<circ> yp_token) ` set ps \<Longrightarrow> paid ps key = 0"
  unfolding paid_def by (subst filter_False) auto

lemma add_payment_ok:
  assumes "needed_ok ps needed" "add_payment p needed = Inr needed'"
  shows "needed_ok (ps @ [p]) needed'"
proof (cases "map_of needed (to_lower (yp_token p))")
  case None
  then have n: "to_lower (yp_token p) \<notin> fst ` set needed" by (simp add: map_of_eq_None_iff)
  then have z: "paid ps (to_lower (yp_token p)) = 0" using assms(1) by (intro paid_other) (simp add: needed_ok_def)
  have "needed' = needed @ [(to_lower (yp_token p), yp_token p, yp_amount p)]" using assms(2) None by (simp add: add_payment_def split: if_splits)
  moreover have "paid (ps @ [p]) key = paid ps key" if "(key, token, amount) \<in> set needed" for key token amount
    using n that by (force simp: paid_snoc)
  ultimately show ?thesis using assms(1) n z by (auto simp: needed_ok_def paid_snoc)
next
  case (Some x)
  let ?f = "\<lambda>(k, token, amount). if k = to_lower (yp_token p) then (k, token, amount + yp_amount p) else (k, token, amount)"
  have e: "needed' = map ?f needed" using assms(2) Some by (simp add: add_payment_def Let_def split: if_splits)
  have k: "map fst needed' = map fst needed" by (auto simp: e)
  then have "fst ` set needed' = fst ` set needed" by (metis set_map)
  moreover have "to_lower (yp_token p) \<in> fst ` set needed" using Some by (metis domI dom_map_of_conv_image_fst)
  ultimately have "fst ` set needed' = (to_lower \<circ> yp_token) ` set (ps @ [p])" using assms(1) by (auto simp: needed_ok_def)
  moreover have "\<forall>(key, token, amount) \<in> set needed'. to_lower token = key \<and> amount = paid (ps @ [p]) key"
    using assms(1) by (auto simp: needed_ok_def e paid_snoc split: if_splits)
  ultimately show ?thesis using assms(1) k by (simp add: needed_ok_def)
qed

lemma needed_total:
  "efold add_payment ps needed = (case find (\<lambda>p. yp_amount p < 0) ps of Some p \<Rightarrow> Inl (NegativeAmount (yp_token p))
     | None \<Rightarrow> Inr (projr (efold add_payment ps needed)))"
  by (induction ps arbitrary: needed) (auto simp: add_payment_def Let_def split: option.splits)

lemma needed_correct:
  assumes "efold add_payment ps [] = Inr needed"
  shows "needed_ok ps needed" "\<forall>p \<in> set ps. 0 \<le> yp_amount p"
proof -
  have "needed_ok qs n \<Longrightarrow> efold add_payment ps n = Inr needed \<Longrightarrow> needed_ok (qs @ ps) needed" for qs n
  proof (induction ps arbitrary: qs n)
    case (Cons p ps)
    then obtain n1 where n1: "add_payment p n = Inr n1" "efold add_payment ps n1 = Inr needed" by (auto simp: ebind_Inr_iff)
    from Cons.IH [OF add_payment_ok [OF Cons.prems(1) n1(1)] n1(2)] show ?case by simp
  qed simp
  from this [of "[]" "[]"] show "needed_ok ps needed" using assms by (simp add: needed_ok_def)
  show "\<forall>p \<in> set ps. 0 \<le> yp_amount p" using assms needed_total [of ps "[]"] by (auto simp: find_None_iff split: option.splits)
qed

text \<open>The tokens that are short, in the order in which they first appear, and the withdrawal that belongs to one.\<close>

definition short :: "(string \<rightharpoonup> int) \<Rightarrow> string \<times> Address \<times> int \<Rightarrow> int" where
  "short liquid = (\<lambda>(key, token, amount). amount - (case liquid key of None \<Rightarrow> 0 | Some b \<Rightarrow> b))"

definition withdraws :: "MwLib \<Rightarrow> Address \<Rightarrow> Call \<Rightarrow> Sourced \<Rightarrow> bool" where
  "withdraws V account c s \<longleftrightarrow> mc_target c = so_vault s \<and> mc_value c = 0
     \<and> encodeFunctionData V ''function withdraw(uint256,address,address)'' [ArgUint (so_amount s), ArgAddress account, ArgAddress account] = Inr (mc_data c)"

lemma source_token_cases:
  assumes "source_token V account liquid vaultOf (key, token, amount) (w, s) = Inr (w', s')"
  shows "if 0 < short liquid (key, token, amount)
    then \<exists>vault c. vaultOf key = Some vault \<and> w' = w @ [c] \<and> s' = s @ [\<lparr>so_token = token, so_vault = vault, so_amount = short liquid (key, token, amount)\<rparr>]
      \<and> withdraws V account c \<lparr>so_token = token, so_vault = vault, so_amount = short liquid (key, token, amount)\<rparr>
    else w' = w \<and> s' = s"
  using assms by (auto simp: source_token_def short_def Let_def withdraws_def elim!: ebind_InrE split: if_splits option.splits)

lemma sourcing:
  assumes "efold (source_token V account liquid vaultOf) needed (w, s) = Inr (w', s')" "list_all2 (withdraws V account) w s"
  shows "list_all2 (withdraws V account) w' s'
    \<and> s' = s @ map (\<lambda>(key, token, amount). \<lparr>so_token = token, so_vault = the (vaultOf key), so_amount = short liquid (key, token, amount)\<rparr>)
        (filter (\<lambda>e. 0 < short liquid e) needed)
    \<and> (\<forall>e \<in> set needed. 0 < short liquid e \<longrightarrow> vaultOf (fst e) \<noteq> None)"
  using assms
proof (induction needed arbitrary: w s)
  case (Cons e needed)
  obtain key token amount where e: "e = (key, token, amount)" by (cases e)
  obtain w1 s1 where h: "source_token V account liquid vaultOf (key, token, amount) (w, s) = Inr (w1, s1)"
    "efold (source_token V account liquid vaultOf) needed (w1, s1) = Inr (w', s')" using Cons.prems(1) by (auto simp: e ebind_Inr_iff)
  note c = source_token_cases [OF h(1)]
  then have l: "list_all2 (withdraws V account) w1 s1" using Cons.prems(2) by (auto intro: list_all2_appendI split: if_splits)
  show ?case using Cons.IH [OF h(2) l] c by (auto simp: e split: if_splits)
qed simp

text \<open>What is sourced of a token is what is missing of it.\<close>

lemma sum_filter_distinct:
  assumes "distinct (map fst xs)" "(k, v) \<in> set xs"
  shows "sum_list (map f (filter (\<lambda>x. fst x = k) xs)) = f (k, v)"
proof -
  have "filter (\<lambda>x. fst x = k) xs = [(k, v)]" using assms
  proof (induction xs)
    case (Cons x xs)
    show ?case
    proof (cases "fst x = k")
      case True
      then have "filter (\<lambda>x. fst x = k) xs = []" using Cons.prems(1) unfolding filter_empty_conv by (metis distinct.simps(2) imageI list.set_map list.simps(9))
      with True show ?thesis using Cons.prems by (cases x) force
    next
      case False
      with Cons show ?thesis by auto
    qed
  qed simp
  then show ?thesis by simp
qed

lemma liquid_nonneg:
  assumes "\<forall>b \<in> set balances. 0 \<le> tb_balance b"
  shows "0 \<le> liquid_amount balances key"
proof -
  have "case liquid_of balances key of None \<Rightarrow> True | Some n \<Rightarrow> 0 \<le> n"
    using assms unfolding liquid_of_def by (induction balances rule: rev_induct) auto
  then show ?thesis by (simp add: liquid_amount_def split: option.splits)
qed

lemma sourced_shortfalls:
  assumes "needed_ok ps needed" "\<forall>p \<in> set ps. 0 \<le> yp_amount p" "\<forall>b \<in> set balances. 0 \<le> tb_balance b"
    "ss = map (\<lambda>(key, token, amount). \<lparr>so_token = token, so_vault = f key, so_amount = short (liquid_of balances) (key, token, amount)\<rparr>)
       (filter (\<lambda>e. 0 < short (liquid_of balances) e) needed)"
  shows "sourced_amount ss key = max 0 (paid ps key - liquid_amount balances key)"
proof -
  let ?s = "\<lambda>e. short (liquid_of balances) e"
  have k: "to_lower (fst (snd e)) = fst e" if "e \<in> set needed" for e using assms(1) that by (auto simp: needed_ok_def)
  have "sourced_amount ss key = sum_list (map ?s (filter (\<lambda>e. to_lower (fst (snd e)) = key) (filter (\<lambda>e. 0 < ?s e) needed)))"
    unfolding sourced_amount_def assms(4) filter_map by (simp add: comp_def case_prod_unfold)
  also have "\<dots> = sum_list (map ?s (filter (\<lambda>e. 0 < ?s e) (filter (\<lambda>e. fst e = key) needed)))"
    unfolding filter_filter using k by (intro arg_cong [where f = sum_list] arg_cong [where f = "map ?s"] filter_cong) auto
  also have "\<dots> = sum_list (map (\<lambda>e. max 0 (?s e)) (filter (\<lambda>e. fst e = key) needed))"
    by (induction needed) auto
  also have "\<dots> = max 0 (paid ps key - liquid_amount balances key)"
  proof (cases "key \<in> fst ` set needed")
    case True
    then obtain v where v: "(key, v) \<in> set needed" by auto
    have "?s (key, v) = paid ps key - liquid_amount balances key" using assms(1) v by (auto simp: needed_ok_def short_def liquid_amount_def)
    then show ?thesis using sum_filter_distinct [OF _ v, where f = "\<lambda>e. max 0 (?s e)"] assms(1) by (simp add: needed_ok_def)
  next
    case False
    then have "filter (\<lambda>e. fst e = key) needed = []" by (auto simp: filter_empty_conv)
    moreover have "paid ps key = 0" using False assms(1) by (intro paid_other) (simp add: needed_ok_def)
    ultimately show ?thesis using liquid_nonneg [OF assms(3), of key] by simp
  qed
  finally show ?thesis .
qed

section \<open>The payments are covered\<close>

text \<open>Making the payments one by one out of the balances, which may never go below zero.\<close>

fun settle :: "YieldPayment list \<Rightarrow> (string \<Rightarrow> int) \<Rightarrow> (string \<Rightarrow> int) option" where
  "settle [] m = Some m"
| "settle (p # ps) m = (let key = to_lower (yp_token p) in if m key < yp_amount p then None else settle ps (m(key := m key - yp_amount p)))"

lemma paid_nonneg: "\<forall>p \<in> set ps. 0 \<le> yp_amount p \<Longrightarrow> 0 \<le> paid ps key"
  unfolding paid_def by (intro sum_list_nonneg) auto

lemma settle_covered:
  "\<forall>p \<in> set ps. 0 \<le> yp_amount p \<Longrightarrow> \<forall>key. paid ps key \<le> m key \<Longrightarrow> settle ps m = Some (\<lambda>key. m key - paid ps key)"
proof (induction ps arbitrary: m)
  case (Cons p ps)
  let ?key = "to_lower (yp_token p)"
  have c: "paid (p # ps) key = paid ps key + (if ?key = key then yp_amount p else 0)" for key by (simp add: paid_def)
  have "0 \<le> paid ps ?key" using Cons.prems(1) by (intro paid_nonneg) simp
  then have "\<not> m ?key < yp_amount p" using Cons.prems(2) [rule_format, of ?key] by (simp add: c)
  moreover have "settle ps (m(?key := m ?key - yp_amount p)) = Some (\<lambda>key. (m(?key := m ?key - yp_amount p)) key - paid ps key)"
  proof (intro Cons.IH allI)
    show "paid ps key \<le> (m(?key := m ?key - yp_amount p)) key" for key using Cons.prems(2) [rule_format, of key] by (auto simp: c split: if_splits)
  qed (use Cons.prems(1) in simp)
  ultimately show ?case by (auto simp: Let_def c fun_eq_iff)
qed (simp add: paid_def)

definition transfers :: "MwLib \<Rightarrow> Call \<Rightarrow> YieldPayment \<Rightarrow> bool" where
  "transfers V c p \<longleftrightarrow> mc_target c = yp_token p \<and> mc_value c = 0
     \<and> encodeFunctionData V ''function transfer(address,uint256)'' [ArgAddress (yp_to p), ArgUint (yp_amount p)] = Inr (mc_data c)"

lemma yield_built:
  assumes "buildSpendFromYieldCalls V account payments balances vaults = Inr r"
  obtains needed where "needed_ok payments needed" "\<forall>p \<in> set payments. 0 \<le> yp_amount p" "sy_calls r = sy_withdrawals r @ sy_transfers r"
    "list_all2 (withdraws V account) (sy_withdrawals r) (sy_sourced r)" "list_all2 (transfers V) (sy_transfers r) payments"
    "sy_sourced r = map (\<lambda>(key, token, amount). \<lparr>so_token = token, so_vault = the (vault_of vaults key), so_amount = short (liquid_of balances) (key, token, amount)\<rparr>)
        (filter (\<lambda>e. 0 < short (liquid_of balances) e) needed)"
    "\<forall>e \<in> set needed. 0 < short (liquid_of balances) e \<longrightarrow> vault_of vaults (fst e) \<noteq> None"
proof -
  obtain needed w s ts where h: "efold add_payment payments [] = Inr needed"
    "efold (source_token V account (liquid_of balances) (vault_of vaults)) needed ([], []) = Inr (w, s)"
    "emap (transfer_call V) payments = Inr ts"
    "r = \<lparr>sy_withdrawals = w, sy_transfers = ts, sy_calls = w @ ts, sy_sourced = s\<rparr>"
    using assms unfolding buildSpendFromYieldCalls_def by (elim ebind_InrE) (auto elim!: ebind_InrE)
  have "transfers V c p" if "transfer_call V p = Inr c" for c p using that by (auto simp: transfer_call_def transfers_def elim!: ebind_InrE)
  then have "list_all2 (transfers V) ts payments" using h(3) unfolding emap_Inr_iff by (simp add: list_all2_conv_all_nth)
  with needed_correct [OF h(1)] sourcing [OF h(2)] show thesis by (intro that) (auto simp: h(4))
qed

text \<open>(C15) The payments are covered. The calls are the withdrawals, one for each token that is short and from the vault adopted for it, followed
  by the payments in the order given; what is withdrawn of a token is exactly what is missing of it, so that the payments can be made
  one after the other without a balance ever going below zero, and nothing is left of what was withdrawn.\<close>

theorem yield_covers_payments:
  assumes "buildSpendFromYieldCalls V account payments balances vaults = Inr r" "\<forall>b \<in> set balances. 0 \<le> tb_balance b"
  shows "sy_calls r = sy_withdrawals r @ sy_transfers r
    \<and> list_all2 (withdraws V account) (sy_withdrawals r) (sy_sourced r) \<and> list_all2 (transfers V) (sy_transfers r) payments
    \<and> distinct (map (to_lower \<circ> so_token) (sy_sourced r))
    \<and> (\<forall>s \<in> set (sy_sourced r). 0 < so_amount s \<and> vault_of vaults (to_lower (so_token s)) = Some (so_vault s))
    \<and> settle payments (\<lambda>key. liquid_amount balances key + sourced_amount (sy_sourced r) key)
        = Some (\<lambda>key. max 0 (liquid_amount balances key - paid payments key))"
proof -
  obtain needed where h: "needed_ok payments needed" "\<forall>p \<in> set payments. 0 \<le> yp_amount p" "sy_calls r = sy_withdrawals r @ sy_transfers r"
    "list_all2 (withdraws V account) (sy_withdrawals r) (sy_sourced r)" "list_all2 (transfers V) (sy_transfers r) payments"
    "sy_sourced r = map (\<lambda>(key, token, amount). \<lparr>so_token = token, so_vault = the (vault_of vaults key), so_amount = short (liquid_of balances) (key, token, amount)\<rparr>)
        (filter (\<lambda>e. 0 < short (liquid_of balances) e) needed)"
    "\<forall>e \<in> set needed. 0 < short (liquid_of balances) e \<longrightarrow> vault_of vaults (fst e) \<noteq> None"
    using yield_built [OF assms(1)] by blast
  have k: "to_lower token = key" if "(key, token, amount) \<in> set needed" for key token amount using h(1) that by (auto simp: needed_ok_def)
  have "map (to_lower \<circ> so_token) (sy_sourced r) = map fst (filter (\<lambda>e. 0 < short (liquid_of balances) e) needed)"
    using k by (auto simp: h(6))
  moreover have "distinct (map fst (filter (\<lambda>e. 0 < short (liquid_of balances) e) needed))" using h(1) by (simp add: needed_ok_def distinct_map_filter)
  ultimately have d: "distinct (map (to_lower \<circ> so_token) (sy_sourced r))" by metis
  have v: "\<forall>s \<in> set (sy_sourced r). 0 < so_amount s \<and> vault_of vaults (to_lower (so_token s)) = Some (so_vault s)"
    unfolding h(6) using k h(7) by fastforce
  note s = sourced_shortfalls [OF h(1,2) assms(2) h(6)]
  have "settle payments (\<lambda>key. liquid_amount balances key + sourced_amount (sy_sourced r) key)
      = Some (\<lambda>key. liquid_amount balances key + sourced_amount (sy_sourced r) key - paid payments key)"
    using h(2) by (rule settle_covered) (simp add: s max_def)
  also have "\<dots> = Some (\<lambda>key. max 0 (liquid_amount balances key - paid payments key))" by (auto simp: s fun_eq_iff)
  finally show ?thesis using h(3-5) d v by blast
qed

section \<open>Errors\<close>

lemma source_token_total:
  assumes "0 < short liquid e \<Longrightarrow> vaultOf (fst e) \<noteq> None \<Longrightarrow>
    mw_encode V ''function withdraw(uint256,address,address)'' [ArgUint (short liquid e), ArgAddress account, ArgAddress account] \<noteq> None"
  shows "if 0 < short liquid e \<longrightarrow> vaultOf (fst e) \<noteq> None then \<exists>y. source_token V account liquid vaultOf e x = Inr y
    else source_token V account liquid vaultOf e x = Inl (ShortOf (short liquid e) (fst (snd e)))"
proof -
  obtain key token amount w s where e: "e = (key, token, amount)" "x = (w, s)" by (cases e; cases x)
  have "source_token V account liquid vaultOf e x = (if short liquid e \<le> 0 then Inr (w, s) else case vaultOf key of None \<Rightarrow> Inl (ShortOf (short liquid e) token)
    | Some vault \<Rightarrow> ebind (encodeFunctionData V ''function withdraw(uint256,address,address)'' [ArgUint (short liquid e), ArgAddress account, ArgAddress account]) (\<lambda>data.
        Inr (w @ [\<lparr>mc_target = vault, mc_value = 0, mc_data = data\<rparr>], s @ [\<lparr>so_token = token, so_vault = vault, so_amount = short liquid e\<rparr>])))"
    unfolding e source_token_def short_def Let_def prod.case ..
  then show ?thesis using assms by (cases "0 < short liquid e"; cases "vaultOf key") (auto simp: e encodeFunctionData_def split: option.splits)
qed

lemma sourcing_total:
  assumes "\<forall>e \<in> set needed. 0 < short liquid e \<longrightarrow>
    mw_encode V ''function withdraw(uint256,address,address)'' [ArgUint (short liquid e), ArgAddress account, ArgAddress account] \<noteq> None"
  shows "if \<forall>e \<in> set needed. 0 < short liquid e \<longrightarrow> vaultOf (fst e) \<noteq> None then \<exists>y. efold (source_token V account liquid vaultOf) needed x = Inr y
    else \<exists>e \<in> set needed. 0 < short liquid e \<and> vaultOf (fst e) = None
      \<and> efold (source_token V account liquid vaultOf) needed x = Inl (ShortOf (short liquid e) (fst (snd e)))"
  using assms
proof (induction needed arbitrary: x)
  case (Cons e needed)
  have t: "if 0 < short liquid e \<longrightarrow> vaultOf (fst e) \<noteq> None then \<exists>y. source_token V account liquid vaultOf e x = Inr y
    else source_token V account liquid vaultOf e x = Inl (ShortOf (short liquid e) (fst (snd e)))"
    using Cons.prems by (intro source_token_total) simp
  show ?case
  proof (cases "0 < short liquid e \<longrightarrow> vaultOf (fst e) \<noteq> None")
    case True
    then obtain y where y: "source_token V account liquid vaultOf e x = Inr y" using t by auto
    have "\<forall>e \<in> set needed. 0 < short liquid e \<longrightarrow>
      mw_encode V ''function withdraw(uint256,address,address)'' [ArgUint (short liquid e), ArgAddress account, ArgAddress account] \<noteq> None"
      using Cons.prems by simp
    from Cons.IH [OF this, of y] True show ?thesis by (cases "\<forall>e \<in> set needed. 0 < short liquid e \<longrightarrow> vaultOf (fst e) \<noteq> None") (auto simp: y)
  next
    case False
    then show ?thesis using t by auto
  qed
qed simp

definition covered :: "YieldPayment list \<Rightarrow> TokenBalance list \<Rightarrow> VaultConfig list \<Rightarrow> bool" where
  "covered payments balances vaults \<longleftrightarrow>
     list_all (\<lambda>p. let key = to_lower (yp_token p) in liquid_amount balances key < paid payments key \<longrightarrow> vault_of vaults key \<noteq> None) payments"

text \<open>When the calls are refused: with the first negative payment, or else with a token that is short and has no vault, with the amount that
  is missing. When every token that is short has a vault the calls are built.\<close>

theorem yield_errors:
  assumes "\<forall>p \<in> set payments. mw_encode V ''function transfer(address,uint256)'' [ArgAddress (yp_to p), ArgUint (yp_amount p)] \<noteq> None"
    "\<forall>p \<in> set payments. mw_encode V ''function withdraw(uint256,address,address)''
       [ArgUint (paid payments (to_lower (yp_token p)) - liquid_amount balances (to_lower (yp_token p))), ArgAddress account, ArgAddress account] \<noteq> None"
  shows "case find (\<lambda>p. yp_amount p < 0) payments of
      Some p \<Rightarrow> buildSpendFromYieldCalls V account payments balances vaults = Inl (NegativeAmount (yp_token p))
    | None \<Rightarrow> if covered payments balances vaults then \<exists>r. buildSpendFromYieldCalls V account payments balances vaults = Inr r
        else \<exists>n token. buildSpendFromYieldCalls V account payments balances vaults = Inl (ShortOf n token)
          \<and> 0 < n \<and> n = paid payments (to_lower token) - liquid_amount balances (to_lower token) \<and> vault_of vaults (to_lower token) = None"
proof (cases "find (\<lambda>p. yp_amount p < 0) payments")
  case (Some p)
  then have "efold add_payment payments [] = Inl (NegativeAmount (yp_token p))" using needed_total [of payments "[]"] by simp
  then show ?thesis using Some by (simp add: buildSpendFromYieldCalls_def)
next
  case None
  then obtain needed where n: "efold add_payment payments [] = Inr needed" using needed_total [of payments "[]"] by auto
  note o = needed_correct(1) [OF n]
  let ?s = "short (liquid_of balances)" and ?src = "efold (source_token V account (liquid_of balances) (vault_of vaults)) needed ([], [])"
  have s: "?s e = paid payments (fst e) - liquid_amount balances (fst e) \<and> to_lower (fst (snd e)) = fst e" if "e \<in> set needed" for e
    using o that by (auto simp: needed_ok_def short_def liquid_amount_def)
  have k: "fst ` set needed = (to_lower \<circ> yp_token) ` set payments" using o by (simp add: needed_ok_def)
  have e: "\<forall>e \<in> set needed. 0 < ?s e \<longrightarrow> mw_encode V ''function withdraw(uint256,address,address)'' [ArgUint (?s e), ArgAddress account, ArgAddress account] \<noteq> None"
  proof (intro ballI impI)
    fix e assume m: "e \<in> set needed"
    then obtain p where "p \<in> set payments" "fst e = to_lower (yp_token p)" using k by (metis comp_apply imageE imageI)
    then show "mw_encode V ''function withdraw(uint256,address,address)'' [ArgUint (?s e), ArgAddress account, ArgAddress account] \<noteq> None"
      using assms(2) s [OF m] by simp
  qed
  have c: "covered payments balances vaults \<longleftrightarrow> (\<forall>e \<in> set needed. 0 < ?s e \<longrightarrow> vault_of vaults (fst e) \<noteq> None)"
  proof -
    have "(\<forall>e \<in> set needed. 0 < ?s e \<longrightarrow> vault_of vaults (fst e) \<noteq> None) \<longleftrightarrow>
      (\<forall>key \<in> fst ` set needed. liquid_amount balances key < paid payments key \<longrightarrow> vault_of vaults key \<noteq> None)" using s by force
    then show ?thesis unfolding k by (simp add: covered_def list_all_iff Let_def)
  qed
  have "\<forall>p \<in> set payments. \<not> isl (transfer_call V p)" using assms(1) by (auto simp: transfer_call_def encodeFunctionData_def split: option.splits)
  then obtain ts where t: "emap (transfer_call V) payments = Inr ts"
    using emap_total [of payments "transfer_call V"] by (cases "emap (transfer_call V) payments") auto
  show ?thesis
  proof (cases "covered payments balances vaults")
    case True
    then obtain w ss where "?src = Inr (w, ss)" using sourcing_total [OF e, of "vault_of vaults" "([], [])"] c by auto
    then show ?thesis using None True by (simp add: buildSpendFromYieldCalls_def n t)
  next
    case False
    then obtain x where x: "x \<in> set needed" "0 < ?s x" "vault_of vaults (fst x) = None" "?src = Inl (ShortOf (?s x) (fst (snd x)))"
      using sourcing_total [OF e, of "vault_of vaults" "([], [])"] unfolding c by (simp only: if_False) blast
    then show ?thesis using None False s [OF x(1)] by (simp add: buildSpendFromYieldCalls_def n)
  qed
qed

section \<open>The calls and the grant\<close>

lemma list_all2_left: "list_all2 P xs ys \<Longrightarrow> x \<in> set xs \<Longrightarrow> \<exists>y \<in> set ys. P x y"
  by (induction rule: list_all2_induct) auto

lemma vault_of_given: "vault_of vaults key = Some v \<Longrightarrow> v \<in> vc_vault ` set vaults"
  unfolding vault_of_def by (induction vaults rule: rev_induct) (auto split: if_splits)

lemma encoded_selects:
  assumes "plugin_abi V" "encodeFunctionData V (''function '' @ signature) args = Inr d" "list_all static_arg args"
  shows "selects V signature d"
  using encoded_call(2) [OF _ assms(2,3)] assms(1) by (simp add: selects_def plugin_abi_def)

lemma transfer_amount:
  assumes "plugin_abi V" "encodeFunctionData V ''function transfer(address,uint256)'' [ArgAddress to, ArgUint amount] = Inr d"
  shows "getTokenSpendAmount V d = word_of_int amount"
proof -
  have abi: "abi_standard V" using assms(1) by (simp add: plugin_abi_def)
  note e = encoded_call [OF abi assms(2), simplified]
  have "arg_word d 1 = nat amount \<and> (word_of_nat (nat amount) :: 256 word) = word_of_int amount" using e(1) e(4) [of 1] word_uint [of amount] by simp
  then show ?thesis using e(2,3) by (simp add: getTokenSpendAmount_def isAllowedERC20Function_def)
qed

text \<open>(C16) The calls fit the grant made for them: a key with the grant to spend from the yield of a token may make every call, withdrawals and
  payments, when the payments are in that token and the adopted vaults are among those of the grant; and the amounts the plugin
  charges to the budget are those of the payments.\<close>

theorem yield_calls_permitted:
  assumes "plugin_abi V" "spendFromYieldGrant V base token grantVaults recipients budget includeRedeem = Inr g" "usable V g"
    "list_all (hex_chars 40) (token # grantVaults)" "buildSpendFromYieldCalls V account payments balances vaults = Inr r"
    "\<forall>p \<in> set payments. chain_address (yp_token p) = chain_address token" "vc_vault ` set vaults \<subseteq> set grantVaults"
  shows "list_all (\<lambda>c. key_may V now g (chain_address (mc_target c)) (mc_data c)) (sy_calls r)
    \<and> map (\<lambda>c. getTokenSpendAmount V (mc_data c)) (sy_transfers r) = map (\<lambda>p. word_of_int (yp_amount p)) payments"
proof -
  obtain needed where h: "sy_calls r = sy_withdrawals r @ sy_transfers r"
    "list_all2 (withdraws V account) (sy_withdrawals r) (sy_sourced r)" "list_all2 (transfers V) (sy_transfers r) payments"
    "sy_sourced r = map (\<lambda>(key, token, amount). \<lparr>so_token = token, so_vault = the (vault_of vaults key), so_amount = short (liquid_of balances) (key, token, amount)\<rparr>)
        (filter (\<lambda>e. 0 < short (liquid_of balances) e) needed)"
    "\<forall>e \<in> set needed. 0 < short (liquid_of balances) e \<longrightarrow> vault_of vaults (fst e) \<noteq> None"
    by (rule yield_built [OF assms(5)]) (rule that, assumption+)
  note may = yield_role [OF assms(1-4), of now]
  have v: "so_vault s \<in> set grantVaults" if s: "s \<in> set (sy_sourced r)" for s
  proof -
    obtain key token amount where n: "(key, token, amount) \<in> set needed" "0 < short (liquid_of balances) (key, token, amount)" "so_vault s = the (vault_of vaults key)"
      using s unfolding h(4) by auto
    then have "vault_of vaults key = Some (so_vault s)" using h(5) by force
    then show ?thesis using vault_of_given assms(7) by blast
  qed
  have "key_may V now g (chain_address (mc_target c)) (mc_data c)" if m: "c \<in> set (sy_withdrawals r)" for c
  proof -
    obtain s where s: "s \<in> set (sy_sourced r)" "withdraws V account c s" using list_all2_left [OF h(2) m] by blast
    then have "selects V ''withdraw(uint256,address,address)'' (mc_data c)" 
      using encoded_selects [OF assms(1), of "''withdraw(uint256,address,address)''" "[ArgUint (so_amount s), ArgAddress account, ArgAddress account]"] by (simp add: withdraws_def)
    then show ?thesis using s v [OF s(1)] unfolding may by (simp add: withdraws_def)
  qed
  moreover have "key_may V now g (chain_address (mc_target c)) (mc_data c)" if m: "c \<in> set (sy_transfers r)" for c
  proof -
    obtain p where p: "p \<in> set payments" "transfers V c p" using list_all2_left [OF h(3) m] by blast
    then have "selects V ''transfer(address,uint256)'' (mc_data c)" 
      using encoded_selects [OF assms(1), of "''transfer(address,uint256)''" "[ArgAddress (yp_to p), ArgUint (yp_amount p)]"] by (simp add: transfers_def)
    then show ?thesis using p assms(6) unfolding may by (simp add: transfers_def)
  qed
  moreover have "map (\<lambda>c. getTokenSpendAmount V (mc_data c)) (sy_transfers r) = map (\<lambda>p. word_of_int (yp_amount p)) payments"
    using h(3) transfer_amount [OF assms(1)] by (intro nth_equalityI) (auto simp: list_all2_conv_all_nth transfers_def)
  ultimately show ?thesis by (auto simp: h(1) list_all_iff)
qed

section \<open>A payment out of yield\<close>

definition witness_payments :: "YieldPayment list" where
  "witness_payments = [\<lparr>yp_token = addr CHR ''a'', yp_to = addr CHR ''b'', yp_amount = 30\<rparr>, \<lparr>yp_token = addr CHR ''A'', yp_to = addr CHR ''b'', yp_amount = 20\<rparr>]"

definition witness_balances :: "TokenBalance list" where
  "witness_balances = [\<lparr>tb_token = addr CHR ''A'', tb_balance = 15\<rparr>]"

definition witness_vaults :: "VaultConfig list" where
  "witness_vaults = [\<lparr>vc_token = addr CHR ''a'', vc_vault = addr CHR ''c''\<rparr>]"

definition witness_calls :: SpendFromYieldCalls where
  "witness_calls = projr (buildSpendFromYieldCalls witness_mw (addr CHR ''e'') witness_payments witness_balances witness_vaults)"

lemma lower_addr: "to_lower (addr c) = addr (lower_char c)"
  by (simp add: addr_def to_lower_def lower_char_def)

lemma lower_a: "to_lower (addr CHR ''a'') = addr CHR ''a''" "to_lower (addr CHR ''A'') = addr CHR ''a''" "to_lower (addr CHR ''c'') = addr CHR ''c''"
  unfolding lower_addr by (rule arg_cong [where f = addr], code_simp)+

lemma witness_addr_texts: "hex_chars 40 (addr CHR ''b'')" "hex_chars 40 (addr CHR ''c'')" "hex_chars 40 (addr CHR ''e'')"
  by (rule addr_text, simp add: is_hex_digit_def)+

lemma witness_liquid: "liquid_amount witness_balances (addr CHR ''a'') = 15" "paid witness_payments (addr CHR ''a'') = 50"
  "vault_of witness_vaults (addr CHR ''a'') = Some (addr CHR ''c'')"
  by (simp_all add: liquid_amount_def liquid_of_def witness_balances_def paid_def witness_payments_def vault_of_def witness_vaults_def lower_a)

lemma witness_encodes_some: "list_all fits args \<Longrightarrow> mw_encode witness_mw s args \<noteq> None"
  by (simp add: witness_mw_def Let_def)

theorem yield_errors_witness:
  "(\<exists>r. buildSpendFromYieldCalls witness_mw (addr CHR ''e'') witness_payments witness_balances witness_vaults = Inr r)
   \<and> (\<exists>token. buildSpendFromYieldCalls witness_mw (addr CHR ''e'') witness_payments witness_balances [] = Inl (ShortOf 35 token) \<and> to_lower token = addr CHR ''a'')"
proof -
  have e: "\<forall>p \<in> set witness_payments. mw_encode witness_mw ''function transfer(address,uint256)'' [ArgAddress (yp_to p), ArgUint (yp_amount p)] \<noteq> None"
    using witness_addr_texts by (intro ballI witness_encodes_some) (auto simp: witness_payments_def)
  have w: "\<forall>p \<in> set witness_payments. mw_encode witness_mw ''function withdraw(uint256,address,address)''
     [ArgUint (paid witness_payments (to_lower (yp_token p)) - liquid_amount witness_balances (to_lower (yp_token p))), ArgAddress (addr CHR ''e''), ArgAddress (addr CHR ''e'')] \<noteq> None"
  proof
    fix p assume "p \<in> set witness_payments"
    then have "to_lower (yp_token p) = addr CHR ''a''" by (auto simp: witness_payments_def lower_a)
    then show "mw_encode witness_mw ''function withdraw(uint256,address,address)''
      [ArgUint (paid witness_payments (to_lower (yp_token p)) - liquid_amount witness_balances (to_lower (yp_token p))), ArgAddress (addr CHR ''e''), ArgAddress (addr CHR ''e'')] \<noteq> None"
      using witness_addr_texts by (intro witness_encodes_some) (simp add: witness_liquid)
  qed
  have f: "find (\<lambda>p. yp_amount p < 0) witness_payments = None" by (simp add: witness_payments_def)
  have c: "covered witness_payments witness_balances witness_vaults" "\<not> covered witness_payments witness_balances []"
    using witness_liquid unfolding covered_def by (auto simp: witness_payments_def lower_a vault_of_def)
  have k: "token = addr CHR ''a''" if "0 < paid witness_payments token - liquid_amount witness_balances token" for token
    using that by (auto simp: paid_def witness_payments_def lower_a liquid_amount_def liquid_of_def witness_balances_def split: if_splits)
  show ?thesis using yield_errors [OF e w, of witness_vaults] yield_errors [OF e w, of "[]"] unfolding f option.case using c k witness_liquid by fastforce
qed

lemma witness_calls_built: "buildSpendFromYieldCalls witness_mw (addr CHR ''e'') witness_payments witness_balances witness_vaults = Inr witness_calls"
proof -
  have "\<not> isl (buildSpendFromYieldCalls witness_mw (addr CHR ''e'') witness_payments witness_balances witness_vaults)"
    using witness_addr_texts by (simp add: buildSpendFromYieldCalls_def witness_payments_def witness_balances_def witness_vaults_def add_payment_def source_token_def
        liquid_of_def vault_of_def transfer_call_def witness_encodes lower_a Let_def)
  then show ?thesis by (simp add: witness_calls_def)
qed

theorem yield_covers_payments_witness:
  "settle witness_payments (\<lambda>key. liquid_amount witness_balances key + sourced_amount (sy_sourced witness_calls) key)
     = Some (\<lambda>key. max 0 (liquid_amount witness_balances key - paid witness_payments key))
   \<and> sy_calls witness_calls = sy_withdrawals witness_calls @ sy_transfers witness_calls"
proof -
  have "\<forall>b \<in> set witness_balances. 0 \<le> tb_balance b" by (simp add: witness_balances_def)
  from yield_covers_payments [OF witness_calls_built this] show ?thesis by blast
qed

definition witness_yield_grant :: BufiGrant where
  "witness_yield_grant = grant [scope_entry (addr CHR ''a'') [ERC20_TRANSFER_SELECTOR witness_mw], scope_entry (addr CHR ''c'') [ERC4626_SELECTORS witness_mw Erc4626Withdraw]]
     witness_base (Some (addr CHR ''a'', witness_budget))"

theorem yield_calls_permitted_witness:
  "list_all (\<lambda>c. key_may witness_mw 5 witness_yield_grant (chain_address (mc_target c)) (mc_data c)) (sy_calls witness_calls)
   \<and> map (\<lambda>c. getTokenSpendAmount witness_mw (mc_data c)) (sy_transfers witness_calls) = [30, 20]"
proof -
  have a: "hex_chars 40 (addr CHR ''A'')" by (rule addr_text) (simp add: is_hex_digit_def)
  have n: "addr CHR ''c'' \<noteq> addr CHR ''a''" by (simp add: addr_def)
  have g: "spendFromYieldGrant witness_mw witness_base (addr CHR ''a'') [addr CHR ''c''] [addr CHR ''b''] witness_budget False = Inr witness_yield_grant"
    using n by (simp add: spendFromYieldGrant_def add_vault_def lower_a witness_yield_grant_def)
  have u: "usable witness_mw witness_yield_grant"
    unfolding witness_yield_grant_def using witness_selector_text witness_addrs witness_addr_texts by (intro witness_usable) (auto simp: ERC20_TRANSFER_SELECTOR_def)
  have t: "list_all (hex_chars 40) [addr CHR ''a'', addr CHR ''c'']" using witness_addrs witness_addr_texts by simp
  have p: "\<forall>p \<in> set witness_payments. chain_address (yp_token p) = chain_address (addr CHR ''a'')"
    using chain_address_lower [OF a witness_addrs(1)] lower_a by (auto simp: witness_payments_def)
  have v: "vc_vault ` set witness_vaults \<subseteq> set [addr CHR ''c'']" by (simp add: witness_vaults_def)
  show ?thesis using yield_calls_permitted [OF witness_abi g u t witness_calls_built p v, of 5] by (simp add: witness_payments_def)
qed

end
