(* ===== verification/EN_Tags.thy ===== *)
theory EN_Tags
  imports Prelude
begin

text \<open>
  The wallet tags of \<open>packages/ens\<close>: names for the wallets of a workspace, which labels can be claimed for one, which label is suggested
  (\<open>types/wallet-tags.ts\<close>), and the ENS names that go with the tags (\<open>types/ens-name.ts\<close>, \<open>ens-display.ts\<close>). The tables of the Unicode
  standard, normalization and lower case, are the record \<open>Unicode\<close>; text is the bytes of its UTF-8 form, so that a byte below 128 is a
  character of its own.
\<close>

record Unicode =
  un_nfkc :: "string \<Rightarrow> string"
  un_nfkd :: "string \<Rightarrow> string"
  un_lower :: "string \<Rightarrow> string"

section \<open>Labels\<close>

datatype WalletTagFace = TreasuryFace | AgentFace
datatype LegacyWalletTagFace = OperationsFace
datatype AgenticFace = McpFace | WebmcpFace | X402Face

fun face_text :: "WalletTagFace \<Rightarrow> string" where
  "face_text TreasuryFace = ''treasury''"
| "face_text AgentFace = ''agent''"

fun legacy_face_text :: "LegacyWalletTagFace \<Rightarrow> string" where
  "legacy_face_text OperationsFace = ''operations''"

fun agentic_face_text :: "AgenticFace \<Rightarrow> string" where
  "agentic_face_text McpFace = ''mcp''"
| "agentic_face_text WebmcpFace = ''webmcp''"
| "agentic_face_text X402Face = ''x402''"

definition WALLET_TAG_FACES :: "WalletTagFace list" where "WALLET_TAG_FACES = [TreasuryFace, AgentFace]"
definition LEGACY_WALLET_TAG_FACES :: "LegacyWalletTagFace list" where "LEGACY_WALLET_TAG_FACES = [OperationsFace]"
definition AGENTIC_FACES :: "AgenticFace list" where "AGENTIC_FACES = [McpFace, WebmcpFace, X402Face]"

text \<open>A column of the registry is a text or null; anything else is no face.\<close>

definition isWalletTagFace :: "string option \<Rightarrow> bool" where
  "isWalletTagFace value \<longleftrightarrow> (case value of None \<Rightarrow> False | Some s \<Rightarrow> s \<in> set (map face_text WALLET_TAG_FACES))"

definition isLegacyWalletTagFace :: "string option \<Rightarrow> bool" where
  "isLegacyWalletTagFace value \<longleftrightarrow> (case value of None \<Rightarrow> False | Some s \<Rightarrow> s \<in> set (map legacy_face_text LEGACY_WALLET_TAG_FACES))"

definition WALLET_TAG_MIN_LENGTH :: nat where "WALLET_TAG_MIN_LENGTH = 3"
definition WALLET_TAG_MAX_LENGTH :: nat where "WALLET_TAG_MAX_LENGTH = 32"

definition label_char :: "char \<Rightarrow> bool" where
  "label_char c = (let n = of_char c :: nat in (97 \<le> n \<and> n \<le> 122) \<or> (48 \<le> n \<and> n \<le> 57))"

definition isValidTagLabel :: "string \<Rightarrow> bool" where
  "isValidTagLabel label \<longleftrightarrow> 3 \<le> length label \<and> length label \<le> 32 \<and> list_all label_char label"

definition RESERVED_TAG_NAMES :: "string list" where
  "RESERVED_TAG_NAMES = [''operations'', ''treasury'', ''agent'', ''admin'', ''bufi'', ''bu'', ''www'', ''api'', ''app'', ''root'', ''support'', ''help'',
     ''wallet'', ''team'', ''workspace'', ''personal'', ''circle'', ''bridge'', ''alfred'', ''usdc'', ''eurc'', ''ens'', ''uniswap'', ''mcp'', ''webmcp'', ''x402'']"

definition isReservedTagName :: "string \<Rightarrow> bool" where
  "isReservedTagName label \<longleftrightarrow> label \<in> set RESERVED_TAG_NAMES"

definition isClaimableTagLabel :: "string \<Rightarrow> bool" where
  "isClaimableTagLabel label \<longleftrightarrow> isValidTagLabel label \<and> \<not> isReservedTagName label"

text \<open>\<open>s.trim()\<close> on UTF-8: the white space and line ends of the language, each by its bytes, at both sides.\<close>

definition white_codes :: "nat list list" where
  "white_codes = [[9], [10], [11], [12], [13], [32], [194, 160], [225, 154, 128], [226, 128, 128], [226, 128, 129], [226, 128, 130],
     [226, 128, 131], [226, 128, 132], [226, 128, 133], [226, 128, 134], [226, 128, 135], [226, 128, 136], [226, 128, 137], [226, 128, 138],
     [226, 128, 168], [226, 128, 169], [226, 128, 175], [226, 129, 159], [227, 128, 128], [239, 187, 191]]"

definition white_spaces :: "string list" where
  "white_spaces = map (map char_of) white_codes"

function strip_front :: "string list \<Rightarrow> string \<Rightarrow> string" where
  "strip_front ws s = (case find (\<lambda>w. w \<noteq> [] \<and> take (length w) s = w) ws of None \<Rightarrow> s | Some w \<Rightarrow> strip_front ws (drop (length w) s))"
  by pat_completeness auto
termination
proof (relation "measure (\<lambda>(ws, s). length s)")
  fix ws :: "string list" and s w :: string
  assume "find (\<lambda>w. w \<noteq> [] \<and> take (length w) s = w) ws = Some w"
  then have w: "w \<noteq> []" "take (length w) s = w" by (auto simp: find_Some_iff)
  then have "s \<noteq> []" by auto
  with w(1) show "((ws, drop (length w) s), (ws, s)) \<in> measure (\<lambda>(ws, s). length s)" by simp
qed simp

declare strip_front.simps [simp del]

definition js_trim :: "string \<Rightarrow> string" where
  "js_trim s = rev (strip_front (map rev white_spaces) (rev (strip_front white_spaces s)))"

definition normalizeTagLabel :: "Unicode \<Rightarrow> string \<Rightarrow> string" where
  "normalizeTagLabel U raw = un_lower U (js_trim (un_nfkc U raw))"

datatype label_reason = FormatReason | ReservedReason

definition validateTagLabel :: "Unicode \<Rightarrow> string \<Rightarrow> label_reason + string" where
  "validateTagLabel U raw =
     (let label = normalizeTagLabel U raw in
      if \<not> isValidTagLabel label then Inl FormatReason else if isReservedTagName label then Inl ReservedReason else Inr label)"

text \<open>Dropping the combining marks U+0300 to U+036F by their bytes.\<close>

fun strip_marks :: "string \<Rightarrow> string" where
  "strip_marks (a # b # s) =
     (let m = of_char a :: nat; n = of_char b :: nat in
      if (m = 204 \<and> 128 \<le> n \<and> n \<le> 191) \<or> (m = 205 \<and> 128 \<le> n \<and> n \<le> 175) then strip_marks s else a # strip_marks (b # s))"
| "strip_marks s = s"

definition slugifyTagLabel :: "Unicode \<Rightarrow> string \<Rightarrow> string" where
  "slugifyTagLabel U raw = take WALLET_TAG_MAX_LENGTH (filter label_char (un_lower U (strip_marks (un_nfkd U raw))))"

record suggestion_input =
  su_teamName :: "string option"
  su_legalName :: "string option"
  su_userFullName :: "string option"

definition or_text :: "string option \<Rightarrow> string" where
  "or_text x = (case x of None \<Rightarrow> '''' | Some s \<Rightarrow> s)"

definition resolveWorkspaceTagSuggestedLabel :: "Unicode \<Rightarrow> suggestion_input \<Rightarrow> string" where
  "resolveWorkspaceTagSuggestedLabel U input =
     (let legal = slugifyTagLabel U (or_text (su_legalName input));
          team = slugifyTagLabel U (or_text (su_teamName input));
          person = slugifyTagLabel U (or_text (su_userFullName input));
          candidates = [if legal \<noteq> person then legal else '''', if team \<noteq> person then team else '''', legal, team]
      in or_text (find isClaimableTagLabel candidates))"

section \<open>Tags and names\<close>

definition BUFI_TAG_SUFFIX :: string where "BUFI_TAG_SUFFIX = ''bufi''"
definition ENS_PARENT :: string where "ENS_PARENT = ''bufi.eth''"
definition ENS_PRODUCT_SUFFIX :: string where "ENS_PRODUCT_SUFFIX = ''.bufi.eth''"

definition buildRootTag :: "string \<Rightarrow> string" where
  "buildRootTag label = label @ ''.'' @ BUFI_TAG_SUFFIX"

definition buildFaceTag :: "string \<Rightarrow> WalletTagFace \<Rightarrow> string" where
  "buildFaceTag label face = label @ ''.'' @ face_text face @ ''.'' @ BUFI_TAG_SUFFIX"

definition buildWorkspaceEnsName :: "string \<Rightarrow> string" where
  "buildWorkspaceEnsName label = label @ ''.'' @ ENS_PARENT"

definition buildFaceEnsName :: "string \<Rightarrow> WalletTagFace \<Rightarrow> string" where
  "buildFaceEnsName label face = face_text face @ ''.'' @ label @ ''.'' @ ENS_PARENT"

definition buildAgenticEnsName :: "string \<Rightarrow> AgenticFace \<Rightarrow> string" where
  "buildAgenticEnsName label face = agentic_face_text face @ ''.agent.'' @ label @ ''.'' @ ENS_PARENT"

datatype name_kind = WorkspaceKind | FaceKind | AgenticKind

record DerivedWalletTagRow =
  dt_tag :: string
  dt_label :: string
  dt_kind :: name_kind
  dt_face :: "WalletTagFace option"

definition deriveWorkspaceTagSet :: "string \<Rightarrow> DerivedWalletTagRow list" where
  "deriveWorkspaceTagSet label =
     \<lparr>dt_tag = buildRootTag label, dt_label = label, dt_kind = WorkspaceKind, dt_face = None\<rparr>
     # map (\<lambda>face. \<lparr>dt_tag = buildFaceTag label face, dt_label = label, dt_kind = FaceKind, dt_face = Some face\<rparr>) WALLET_TAG_FACES"

record DerivedAgenticFace =
  da_label :: string
  da_face :: AgenticFace
  da_tag :: string
  da_ensName :: string

definition deriveAgenticFaceSet :: "string \<Rightarrow> DerivedAgenticFace list" where
  "deriveAgenticFaceSet label =
     map (\<lambda>face. \<lparr>da_label = label, da_face = face, da_tag = agentic_face_text face @ ''.agent.'' @ label @ ''.'' @ BUFI_TAG_SUFFIX,
       da_ensName = buildAgenticEnsName label face\<rparr>) AGENTIC_FACES"

record Ensv2PreviewName =
  pn_tag :: string
  pn_ensName :: string
  pn_face :: "string option"
  pn_kind :: name_kind

definition mapWorkspaceToEnsv2Preview :: "string \<Rightarrow> Ensv2PreviewName list" where
  "mapWorkspaceToEnsv2Preview label =
     map (\<lambda>row. \<lparr>pn_tag = dt_tag row,
         pn_ensName = (case dt_face row of Some face \<Rightarrow> buildFaceEnsName (dt_label row) face | None \<Rightarrow> buildWorkspaceEnsName (dt_label row)),
         pn_face = map_option face_text (dt_face row), pn_kind = (if dt_face row = None then WorkspaceKind else FaceKind)\<rparr>) (deriveWorkspaceTagSet label)
     @ map (\<lambda>row. \<lparr>pn_tag = da_tag row, pn_ensName = da_ensName row, pn_face = Some (agentic_face_text (da_face row)), pn_kind = AgenticKind\<rparr>)
         (deriveAgenticFaceSet label)"

record preview_insert =
  pi_team_id :: string
  pi_label :: string
  pi_tag :: string
  pi_ens_name :: string
  pi_kind :: name_kind
  pi_face :: "string option"
  pi_network :: string
  pi_resolution_state :: string

definition toEnsv2PreviewInserts :: "string \<Rightarrow> string \<Rightarrow> preview_insert list" where
  "toEnsv2PreviewInserts teamId label =
     map (\<lambda>row. \<lparr>pi_team_id = teamId, pi_label = label, pi_tag = pn_tag row, pi_ens_name = pn_ensName row, pi_kind = pn_kind row, pi_face = pn_face row,
       pi_network = ''sepolia'', pi_resolution_state = ''reserved''\<rparr>) (mapWorkspaceToEnsv2Preview label)"

definition ensDisplayName :: "string option \<Rightarrow> string option \<Rightarrow> string option" where
  "ensDisplayName ensName resolutionState =
     (case ensName of None \<Rightarrow> None | Some name \<Rightarrow> if name = '''' then None else if resolutionState = Some ''resolvable'' then Some name else None)"

definition isEnsProductName :: "string \<Rightarrow> bool" where
  "isEnsProductName ensName \<longleftrightarrow> ENS_PRODUCT_SUFFIX = drop (length ensName - length ENS_PRODUCT_SUFFIX) ensName"

section \<open>What labels guarantee\<close>

definition ascii :: "string \<Rightarrow> bool" where
  "ascii s \<longleftrightarrow> list_all (\<lambda>c. (of_char c :: nat) < 128) s"

text \<open>What the standard says of ASCII text: it is normalized, and its lower case is the ASCII one.\<close>

definition ascii_stable :: "Unicode \<Rightarrow> bool" where
  "ascii_stable U \<longleftrightarrow> (\<forall>s. ascii s \<longrightarrow> un_nfkc U s = s \<and> un_lower U s = to_lower s)"

lemma label_char_facts:
  assumes "label_char c"
  shows "(of_char c :: nat) < 128" "lower_char c = c" "c \<noteq> CHR ''.''" "c \<notin> hd ` set white_spaces" "c \<notin> last ` set white_spaces"
proof -
  have r: "48 \<le> (of_char c :: nat)" "(of_char c :: nat) \<le> 122" "(of_char c :: nat) \<le> 57 \<or> 97 \<le> (of_char c :: nat)"
    using assms by (auto simp: label_char_def Let_def)
  show "(of_char c :: nat) < 128" "lower_char c = c" using r by (auto simp: lower_char_def Let_def)
  show "c \<noteq> CHR ''.''" using r by auto
  have d: "c \<noteq> char_of n" if "(n < 48 \<or> 122 < n) \<and> n < 256" for n :: nat using r that of_char_char_of_small [of n] by auto
  have w: "list_all (\<lambda>w. w \<noteq> [] \<and> (hd w < 48 \<or> 122 < hd w) \<and> hd w < 256 \<and> (last w < 48 \<or> 122 < last w) \<and> last w < 256) white_codes"
    by (simp add: white_codes_def)
  show "c \<notin> hd ` set white_spaces"
  proof
    assume "c \<in> hd ` set white_spaces"
    then obtain w where "w \<in> set white_codes" "c = hd (map char_of w)" by (auto simp: white_spaces_def)
    then show False using w d [of "hd w"] by (auto simp: list_all_iff hd_map)
  qed
  show "c \<notin> last ` set white_spaces"
  proof
    assume "c \<in> last ` set white_spaces"
    then obtain w where "w \<in> set white_codes" "c = last (map char_of w)" by (auto simp: white_spaces_def)
    then show False using w d [of "last w"] by (auto simp: list_all_iff last_map)
  qed
qed

lemma strip_front_kept:
  assumes "s = [] \<or> hd s \<notin> hd ` set ws"
  shows "strip_front ws s = s"
proof -
  have "find (\<lambda>w. w \<noteq> [] \<and> take (length w) s = w) ws = None"
    unfolding find_None_iff
  proof (intro notI, elim exE conjE)
    fix w assume "w \<in> set ws" "w \<noteq> []" "take (length w) s = w"
    moreover from this have "s \<noteq> []" by auto
    moreover from calculation have "hd s = hd w" by (metis hd_take length_greater_0_conv)
    ultimately show False using assms by force
  qed
  then show ?thesis by (subst strip_front.simps) simp
qed

lemma label_trimmed:
  assumes "list_all label_char s"
  shows "js_trim s = s"
proof -
  have "s = [] \<or> hd s \<notin> hd ` set white_spaces" "rev s = [] \<or> hd (rev s) \<notin> hd ` set (map rev white_spaces)"
  proof -
    have "s = [] \<or> label_char (hd s) \<and> label_char (last s)" using assms by (auto simp: list_all_iff)
    then show "s = [] \<or> hd s \<notin> hd ` set white_spaces" "rev s = [] \<or> hd (rev s) \<notin> hd ` set (map rev white_spaces)"
      using label_char_facts(4,5) by (simp_all add: hd_rev image_image) blast+
  qed
  then show ?thesis unfolding js_trim_def by (simp add: strip_front_kept)
qed

lemma label_normal:
  assumes "ascii_stable U" "list_all label_char s"
  shows "normalizeTagLabel U s = s"
proof -
  have "ascii s" using assms(2) label_char_facts(1) by (auto simp: ascii_def list_all_iff)
  moreover have "to_lower s = s" using assms(2) label_char_facts(2) by (auto simp: to_lower_def list_all_iff intro: map_idI)
  ultimately show ?thesis using assms label_trimmed by (simp add: normalizeTagLabel_def ascii_stable_def)
qed

lemma claimable_validates:
  assumes "ascii_stable U" "isClaimableTagLabel label"
  shows "validateTagLabel U label = Inr label"
  using assms label_normal [OF assms(1), of label] by (simp add: validateTagLabel_def isClaimableTagLabel_def isValidTagLabel_def)

text \<open>A label that passes validation can be claimed, and it passes again as it is, so that the server which validates what a client already
  normalized stores the same label.\<close>

theorem validation_stable:
  assumes "ascii_stable U" "validateTagLabel U raw = Inr label"
  shows "isClaimableTagLabel label \<and> validateTagLabel U label = Inr label"
proof -
  have "isClaimableTagLabel label" using assms(2) by (auto simp: validateTagLabel_def isClaimableTagLabel_def Let_def split: if_splits)
  then show ?thesis using claimable_validates [OF assms(1)] by simp
qed

lemma slug_chars: "list_all label_char (slugifyTagLabel U raw)" "length (slugifyTagLabel U raw) \<le> 32"
  unfolding slugifyTagLabel_def WALLET_TAG_MAX_LENGTH_def by (auto simp: list_all_iff dest: in_set_takeD)

text \<open>The suggested label is the business name when it can be claimed and is not the person's, else the team's under the same conditions, else one
  of the two that can be claimed; it is empty only when neither can. Whatever is suggested is accepted by the claim.\<close>

theorem suggestion_claimable:
  assumes "ascii_stable U"
    "legal = slugifyTagLabel U (or_text (su_legalName input))" "team = slugifyTagLabel U (or_text (su_teamName input))"
    "person = slugifyTagLabel U (or_text (su_userFullName input))" "label = resolveWorkspaceTagSuggestedLabel U input"
  shows "(label = '''' \<longleftrightarrow> \<not> isClaimableTagLabel legal \<and> \<not> isClaimableTagLabel team)
    \<and> (label \<noteq> '''' \<longrightarrow> label \<in> {legal, team} \<and> validateTagLabel U label = Inr label)
    \<and> (isClaimableTagLabel legal \<and> legal \<noteq> person \<longrightarrow> label = legal)
    \<and> (\<not> isClaimableTagLabel legal \<and> isClaimableTagLabel team \<longrightarrow> label = team)
    \<and> (label = person \<and> label \<noteq> '''' \<longrightarrow> \<not> (isClaimableTagLabel legal \<and> legal \<noteq> person) \<and> \<not> (isClaimableTagLabel team \<and> team \<noteq> person))"
proof -
  have e: "\<not> isClaimableTagLabel ''''" by (simp add: isClaimableTagLabel_def isValidTagLabel_def)
  have l: "label = or_text (find isClaimableTagLabel [if legal \<noteq> person then legal else '''', if team \<noteq> person then team else '''', legal, team])"
    unfolding assms(2-5) resolveWorkspaceTagSuggestedLabel_def Let_def ..
  show ?thesis using claimable_validates [OF assms(1), of legal] claimable_validates [OF assms(1), of team] e
    unfolding l by (auto simp: or_text_def)
qed

section \<open>Names stand for one wallet\<close>

lemma label_no_dot: "isValidTagLabel label \<Longrightarrow> CHR ''.'' \<notin> set label"
  using label_char_facts(3) by (auto simp: isValidTagLabel_def list_all_iff)

lemma split_names:
  assumes "isValidTagLabel label"
  shows "split_on CHR ''.'' (buildRootTag label) = [label, ''bufi'']"
    "split_on CHR ''.'' (buildFaceTag label face) = [label, face_text face, ''bufi'']"
    "split_on CHR ''.'' (agentic_face_text a @ ''.agent.'' @ label @ ''.'' @ BUFI_TAG_SUFFIX) = [agentic_face_text a, ''agent'', label, ''bufi'']"
    "split_on CHR ''.'' (buildWorkspaceEnsName label) = [label, ''bufi'', ''eth'']"
    "split_on CHR ''.'' (buildFaceEnsName label face) = [face_text face, label, ''bufi'', ''eth'']"
    "split_on CHR ''.'' (buildAgenticEnsName label a) = [agentic_face_text a, ''agent'', label, ''bufi'', ''eth'']"
  using split_on_part [OF label_no_dot [OF assms]]
  by (cases face; cases a; simp add: buildRootTag_def buildFaceTag_def buildWorkspaceEnsName_def buildFaceEnsName_def buildAgenticEnsName_def BUFI_TAG_SUFFIX_def ENS_PARENT_def)+

text \<open>Every name of a preview row, by its parts.\<close>

definition name_parts :: "string \<Rightarrow> Ensv2PreviewName \<Rightarrow> bool" where
  "name_parts label row \<longleftrightarrow> (let t = split_on CHR ''.'' (pn_tag row); n = split_on CHR ''.'' (pn_ensName row) in
     case pn_kind row of
       WorkspaceKind \<Rightarrow> pn_face row = None \<and> t = [label, ''bufi''] \<and> n = [label, ''bufi'', ''eth'']
     | FaceKind \<Rightarrow> (\<exists>f. pn_face row = Some f \<and> t = [label, f, ''bufi''] \<and> n = [f, label, ''bufi'', ''eth''])
     | AgenticKind \<Rightarrow> (\<exists>f. pn_face row = Some f \<and> t = [f, ''agent'', label, ''bufi''] \<and> n = [f, ''agent'', label, ''bufi'', ''eth'']))"

lemma preview_parts: "isValidTagLabel label \<Longrightarrow> row \<in> set (mapWorkspaceToEnsv2Preview label) \<Longrightarrow> name_parts label row"
  using split_names(3) [of label, simplified]
  by (auto simp: mapWorkspaceToEnsv2Preview_def deriveWorkspaceTagSet_def deriveAgenticFaceSet_def name_parts_def split_names Let_def)

text \<open>(C26) No two wallets share a name: over all workspaces with valid labels, a tag or an ENS name belongs to one row of one workspace. And no
  workspace can claim the name of a face, current, retired or for discovery.\<close>

theorem names_unambiguous:
  assumes "isValidTagLabel label" "isValidTagLabel label'" "row \<in> set (mapWorkspaceToEnsv2Preview label)" "row' \<in> set (mapWorkspaceToEnsv2Preview label')"
    "pn_tag row = pn_tag row' \<or> pn_ensName row = pn_ensName row'"
  shows "label = label' \<and> row = row'
    \<and> \<not> isClaimableTagLabel (face_text f) \<and> \<not> isClaimableTagLabel (legacy_face_text l) \<and> \<not> isClaimableTagLabel (agentic_face_text a)"
proof -
  note p = preview_parts [OF assms(1,3)] preview_parts [OF assms(2,4)]
  have l: "label = label' \<and> pn_kind row = pn_kind row' \<and> pn_face row = pn_face row'"
    using assms(5) p unfolding name_parts_def Let_def by (cases "pn_kind row"; cases "pn_kind row'") auto
  have "row = row'" if "pn_kind row = pn_kind row'" "pn_face row = pn_face row'" "label = label'"
    using that assms(3,4) by (auto simp: mapWorkspaceToEnsv2Preview_def deriveWorkspaceTagSet_def deriveAgenticFaceSet_def WALLET_TAG_FACES_def AGENTIC_FACES_def)
  with l show ?thesis by (cases f; cases l; cases a) (auto simp: isClaimableTagLabel_def isReservedTagName_def RESERVED_TAG_NAMES_def)
qed

text \<open>A name is shown as a live one only after it was measured to resolve: the rows a claim writes are names of the product's domain, start as
  reserved and are not shown, and no state other than the measured one shows a name.\<close>

theorem fresh_names_hidden:
  "(ensDisplayName name state = Some shown \<longleftrightarrow> name = Some shown \<and> shown \<noteq> '''' \<and> state = Some ''resolvable'')
   \<and> list_all (\<lambda>row. isEnsProductName (pi_ens_name row) \<and> ensDisplayName (Some (pi_ens_name row)) (Some (pi_resolution_state row)) = None)
       (toEnsv2PreviewInserts teamId label)"
proof -
  have s: "isEnsProductName (x @ ''.bufi.eth'')" for x by (simp add: isEnsProductName_def ENS_PRODUCT_SUFFIX_def)
  have "isEnsProductName (buildWorkspaceEnsName label)" "isEnsProductName (buildFaceEnsName label f)" "isEnsProductName (buildAgenticEnsName label a)" for f a
    using s [of label] s [of "face_text f @ ''.'' @ label"] s [of "agentic_face_text a @ ''.agent.'' @ label"]
    by (simp_all add: buildWorkspaceEnsName_def buildFaceEnsName_def buildAgenticEnsName_def ENS_PARENT_def)
  note n = this
  have "list_all (\<lambda>row. isEnsProductName (pn_ensName row)) (mapWorkspaceToEnsv2Preview label)"
    using n by (auto simp: mapWorkspaceToEnsv2Preview_def deriveWorkspaceTagSet_def deriveAgenticFaceSet_def list_all_iff)
  then have "list_all (\<lambda>row. isEnsProductName (pi_ens_name row) \<and> ensDisplayName (Some (pi_ens_name row)) (Some (pi_resolution_state row)) = None)
    (toEnsv2PreviewInserts teamId label)"
    by (simp add: toEnsv2PreviewInserts_def list_all_iff ensDisplayName_def)
  moreover have "ensDisplayName name state = Some shown \<longleftrightarrow> name = Some shown \<and> shown \<noteq> '''' \<and> state = Some ''resolvable''"
    by (auto simp: ensDisplayName_def split: option.splits)
  ultimately show ?thesis by blast
qed

text \<open>A team that is named after a person and has no legal name is suggested the person's own label.\<close>

lemma suggestion_can_be_the_person:
  assumes "isClaimableTagLabel (slugifyTagLabel U name)" "slugifyTagLabel U '''' = ''''"
  shows "resolveWorkspaceTagSuggestedLabel U \<lparr>su_teamName = Some name, su_legalName = None, su_userFullName = Some name\<rparr> = slugifyTagLabel U name"
  using assms by (auto simp: resolveWorkspaceTagSuggestedLabel_def Let_def or_text_def isClaimableTagLabel_def isValidTagLabel_def)

section \<open>Instances\<close>

text \<open>A table for ASCII text.\<close>

definition ascii_unicode :: Unicode where
  "ascii_unicode = \<lparr>un_nfkc = (\<lambda>s. s), un_nfkd = (\<lambda>s. s), un_lower = to_lower\<rparr>"

lemma ascii_unicode_stable: "ascii_stable ascii_unicode"
  by (simp add: ascii_stable_def ascii_unicode_def)

theorem validation_stable_witness: "isClaimableTagLabel ''acme'' \<and> validateTagLabel ascii_unicode ''acme'' = Inr ''acme''"
proof (rule validation_stable [OF ascii_unicode_stable])
  show "validateTagLabel ascii_unicode '' Acme'' = Inr ''acme''" by code_simp
qed

theorem suggestion_claimable_witness:
  "resolveWorkspaceTagSuggestedLabel ascii_unicode \<lparr>su_teamName = Some ''Arc Argentina'', su_legalName = Some ''Agent'', su_userFullName = Some ''Ada''\<rparr> = ''arcargentina''"
proof -
  let ?i = "\<lparr>su_teamName = Some ''Arc Argentina'', su_legalName = Some ''Agent'', su_userFullName = Some ''Ada''\<rparr>"
  have l: "\<not> isClaimableTagLabel (slugifyTagLabel ascii_unicode (or_text (su_legalName ?i)))" by code_simp
  have t: "isClaimableTagLabel (slugifyTagLabel ascii_unicode (or_text (su_teamName ?i)))" by code_simp
  have a: "slugifyTagLabel ascii_unicode (or_text (su_teamName ?i)) = ''arcargentina''" by code_simp
  from suggestion_claimable [OF ascii_unicode_stable refl refl refl refl, of ?i] l t a show ?thesis by (metis (no_types, lifting))
qed

theorem names_unambiguous_witness:
  "\<not> isClaimableTagLabel ''treasury'' \<and> \<not> isClaimableTagLabel ''operations'' \<and> \<not> isClaimableTagLabel ''mcp''
   \<and> pn_ensName (mapWorkspaceToEnsv2Preview ''acme'' ! 1) \<noteq> pn_ensName (mapWorkspaceToEnsv2Preview ''other'' ! 1)"
proof -
  have r: "mapWorkspaceToEnsv2Preview ''acme'' ! 1 \<in> set (mapWorkspaceToEnsv2Preview ''acme'')"
    "mapWorkspaceToEnsv2Preview ''other'' ! 1 \<in> set (mapWorkspaceToEnsv2Preview ''other'')"
    by (simp_all add: mapWorkspaceToEnsv2Preview_def deriveWorkspaceTagSet_def WALLET_TAG_FACES_def)
  have v: "isValidTagLabel ''acme''" "isValidTagLabel ''other''" by (simp_all add: isValidTagLabel_def label_char_def)
  from names_unambiguous [OF v(1) v(1) r(1) r(1), of TreasuryFace OperationsFace McpFace] names_unambiguous [OF v r] show ?thesis by auto
qed

end
