(* ===== verification/TG_Ids.thy ===== *)
theory TG_Ids
  imports SG_Store
begin

text \<open>
  The identifiers with which the client of the index asks for its rows (\<open>packages/the-graph/src/thegraph/ids.ts\<close>), and their agreement with
  those the index gives them (\<open>packages/subgraph-arc\<close>, theories SG_Text and SG_Store). A text is the bytes of its UTF-8 form, so that the
  encoder of the platform is the identity; its decoder, which may meet bytes that are no UTF-8, the printing and reading of numbers and
  the hash are the record \<open>TgLib\<close>. The names that the index uses too carry the suffix \<open>_client\<close>.
\<close>

record TgLib =
  tg_text :: "rat \<Rightarrow> string"
  tg_number :: "string \<Rightarrow> rat"
  tg_decode :: "bytes \<Rightarrow> string"
  tg_keccak256 :: "string \<Rightarrow> string"

datatype id_error = NotHexString string | NotEvmAddress string | NotChainId string | NotEntityId string

datatype ChainScopedIdPart = PartText string | PartNumber rat | PartBigint int

fun part_text :: "TgLib \<Rightarrow> ChainScopedIdPart \<Rightarrow> string" where
  "part_text L (PartText s) = s"
| "part_text L (PartNumber q) = tg_text L q"
| "part_text L (PartBigint n) = dec_int n"

section \<open>The code\<close>

definition utf8ToHex :: "string \<Rightarrow> string" where
  "utf8ToHex text = concat (map hex_byte (fromUTF8 text))"

definition hex_value_client :: "char \<Rightarrow> nat" where
  "hex_value_client c = (let n = of_char c :: nat in if n \<le> 57 then n - 48 else if 97 \<le> n then n - 87 else n - 55)"

fun hex_pairs_client :: "string \<Rightarrow> bytes" where
  "hex_pairs_client (a # b # s) = word_of_nat (16 * hex_value_client a + hex_value_client b) # hex_pairs_client s"
| "hex_pairs_client s = []"

definition hexToUtf8 :: "TgLib \<Rightarrow> string \<Rightarrow> id_error + string" where
  "hexToUtf8 L hex =
     (let body = (if take 2 hex = ''0x'' then drop 2 hex else hex) in
      if length body mod 2 \<noteq> 0 \<or> \<not> list_all is_hex_digit body then Inl (NotHexString hex) else Inr (tg_decode L (hex_pairs_client body)))"

definition evm_address_text :: "string \<Rightarrow> bool" where
  "evm_address_text a \<longleftrightarrow> length a = 42 \<and> take 2 a = ''0x'' \<and> list_all is_hex_digit (drop 2 a)"

definition requireAddress :: "string \<Rightarrow> id_error + string" where
  "requireAddress address = (if evm_address_text address then Inr (to_lower address) else Inl (NotEvmAddress address))"

definition requireChainId :: "TgLib \<Rightarrow> ChainScopedIdPart \<Rightarrow> id_error + string" where
  "requireChainId L chainId =
     (let text = part_text L chainId in if text \<noteq> '''' \<and> list_all is_digit text then Inr text else Inl (NotChainId text))"

definition chainScopedEntityId :: "TgLib \<Rightarrow> ChainScopedIdPart \<Rightarrow> string \<Rightarrow> ChainScopedIdPart list \<Rightarrow> id_error + string" where
  "chainScopedEntityId L chainId address parts =
     ebind (requireChainId L chainId) (\<lambda>chain. ebind (requireAddress address) (\<lambda>a.
     Inr (''0x'' @ utf8ToHex (join_with CHR '':'' (chain # a # map (part_text L) parts)))))"

definition registryEntityId_client :: "TgLib \<Rightarrow> ChainScopedIdPart \<Rightarrow> string \<Rightarrow> id_error + string" where
  "registryEntityId_client L chainId registry = chainScopedEntityId L chainId registry []"

definition agentEntityId_client :: "TgLib \<Rightarrow> ChainScopedIdPart \<Rightarrow> string \<Rightarrow> ChainScopedIdPart \<Rightarrow> id_error + string" where
  "agentEntityId_client L chainId identityRegistry agentId = chainScopedEntityId L chainId identityRegistry [agentId]"

definition feedbackEntityId_client ::
  "TgLib \<Rightarrow> ChainScopedIdPart \<Rightarrow> string \<Rightarrow> ChainScopedIdPart \<Rightarrow> string \<Rightarrow> ChainScopedIdPart \<Rightarrow> id_error + string" where
  "feedbackEntityId_client L chainId reputationRegistry agentId client feedbackIndex =
     ebind (requireAddress client) (\<lambda>c. chainScopedEntityId L chainId reputationRegistry [agentId, PartText c, feedbackIndex])"

definition jobEntityId_client :: "TgLib \<Rightarrow> ChainScopedIdPart \<Rightarrow> string \<Rightarrow> ChainScopedIdPart \<Rightarrow> id_error + string" where
  "jobEntityId_client L chainId contract jobId = chainScopedEntityId L chainId contract [jobId]"

record DecodedChainScopedId =
  de_chainId :: rat
  de_address :: string
  de_parts :: "string list"

definition lower_address_text :: "string \<Rightarrow> bool" where
  "lower_address_text a \<longleftrightarrow> evm_address_text a \<and> to_lower a = a"

definition decodeChainScopedEntityId :: "TgLib \<Rightarrow> string \<Rightarrow> id_error + DecodedChainScopedId" where
  "decodeChainScopedEntityId L entityId =
     ebind (hexToUtf8 L entityId) (\<lambda>text.
     case split_on CHR '':'' text of
       chain # address # parts \<Rightarrow>
         if chain \<noteq> '''' \<and> list_all is_digit chain \<and> lower_address_text address \<and> list_all (\<lambda>p. p \<noteq> '''') parts
         then Inr \<lparr>de_chainId = tg_number L chain, de_address = address, de_parts = parts\<rparr>
         else Inl (NotEntityId text)
     | _ \<Rightarrow> Inl (NotEntityId text))"

definition concatHex :: "string list \<Rightarrow> string" where
  "concatHex hs = ''0x'' @ concat (map (drop 2) hs)"

definition engagementEntityId :: "TgLib \<Rightarrow> string \<Rightarrow> string \<Rightarrow> string" where
  "engagementEntityId L clientAgentId providerAgentId = tg_keccak256 L (concatHex [clientAgentId, providerAgentId])"

section \<open>The client asks for the rows of the index\<close>

lemma to_hex_utf8: "to_hex (fromUTF8 s) = CHR ''0'' # CHR ''x'' # utf8ToHex s"
  by (simp add: utf8ToHex_def to_hex_def)

lemma dec_int_nat: "0 \<le> c \<Longrightarrow> dec_int c = dec_nat (nat c)"
  by (simp add: dec_int_def)

lemma chain_id_text:
  assumes "0 \<le> c"
  shows "requireChainId L (PartBigint c) = Inr (dec_int c)"
  using assms dec_nat_digits [of _ "nat c"] by (auto simp: requireChainId_def dec_int_nat list_all_iff)

lemma scoped_id:
  assumes "0 \<le> c" "evm_address_text a" "to_lower a = to_hex b"
  shows "chainScopedEntityId L (PartBigint c) a parts =
    Inr (to_hex (fromUTF8 (join_with CHR '':'' (dec_int c # to_hex b # map (part_text L) parts))))"
  using assms by (simp add: chainScopedEntityId_def chain_id_text requireAddress_def to_hex_utf8)

text \<open>(C19) The client and the index agree on the name of every row: for an address written in any case, the id the client sends is the hexadecimal
  form of the id under which the index stores the registry, the agent, the escrow, the job, the feedback and the engagement.\<close>

theorem client_ids_match_index:
  assumes "0 \<le> c" "evm_address_text a" "to_lower a = to_hex b" "evm_address_text a'" "to_lower a' = to_hex b'" "\<forall>x. tg_keccak256 L (to_hex x) = to_hex (h_keccak256 h x)"
  shows "registryEntityId_client L (PartBigint c) a = Inr (to_hex (registryEntityId c b))
    \<and> registryEntityId_client L (PartBigint c) a = Inr (to_hex (agenticCommerceEntityId c b))
    \<and> agentEntityId_client L (PartBigint c) a (PartBigint i) = Inr (to_hex (agentEntityId c b i))
    \<and> jobEntityId_client L (PartBigint c) a (PartBigint i) = Inr (to_hex (jobEntityId c b i))
    \<and> feedbackEntityId_client L (PartBigint c) a (PartBigint i) a' (PartBigint n) = Inr (to_hex (feedbackEntityId c b i b' n))
    \<and> engagementEntityId L (to_hex (ag_id client)) (to_hex (ag_id provider)) = to_hex (engagementId h client provider)"
proof -
  note s = scoped_id [OF assms(1-3)]
  have "concatHex [to_hex x, to_hex y] = to_hex (x @ y)" for x y by (simp add: concatHex_def to_hex_def)
  then have "engagementEntityId L (to_hex (ag_id client)) (to_hex (ag_id provider)) = to_hex (engagementId h client provider)"
    using assms(6) by (simp add: engagementEntityId_def engagementId_def)
  moreover have "requireAddress a' = Inr (to_hex b')" using assms(4,5) by (simp add: requireAddress_def)
  ultimately show ?thesis
    by (simp add: registryEntityId_client_def agentEntityId_client_def jobEntityId_client_def feedbackEntityId_client_def s registryEntityId_def
        agenticCommerceEntityId_def agentEntityId_def jobEntityId_def feedbackEntityId_def)
qed

section \<open>Reading an id back\<close>

text \<open>What the platform does with ASCII bytes and with the digits of a number it can represent.\<close>

definition ascii_text :: "string \<Rightarrow> bool" where
  "ascii_text s \<longleftrightarrow> list_all (\<lambda>c. (of_char c :: nat) < 128) s"

definition tg_standard :: "TgLib \<Rightarrow> bool" where
  "tg_standard L \<longleftrightarrow> (\<forall>s. ascii_text s \<longrightarrow> tg_decode L (fromUTF8 s) = s) \<and> (\<forall>n < 2 ^ 53. tg_number L (dec_nat n) = of_nat n)"

lemma hex_value_digit: "n < 16 \<Longrightarrow> hex_value_client (hex_digit n) = n"
  by (auto simp: hex_value_client_def hex_digit_def of_char_char_of_small Let_def)

lemma hex_digit_hex: "n < 16 \<Longrightarrow> is_hex_digit (hex_digit n)"
  by (auto simp: is_hex_digit_def hex_digit_def Let_def of_char_char_of_small)

lemma hex_byte_parts:
  fixes w :: "8 word"
  shows "list_all is_hex_digit (hex_byte w)" "hex_pairs_client (hex_byte w @ s) = w # hex_pairs_client s" "length (hex_byte w) = 2"
proof -
  have b: "unat w div 16 < 16" "unat w mod 16 < 16" using byte_lt [of w] by auto
  show "list_all is_hex_digit (hex_byte w)" using b by (simp add: hex_byte_def hex_digit_hex)
  have "word_of_nat (16 * (unat w div 16) + unat w mod 16) = w" by simp
  then show "hex_pairs_client (hex_byte w @ s) = w # hex_pairs_client s" using b by (simp add: hex_byte_def hex_value_digit)
qed (simp add: hex_byte_def)

lemma hex_of_bytes:
  "list_all is_hex_digit (concat (map hex_byte ws))" "hex_pairs_client (concat (map hex_byte ws)) = ws" "length (concat (map hex_byte ws)) mod 2 = 0"
  by (induction ws) (simp_all add: hex_byte_parts)

lemma hex_read_back: "hexToUtf8 L (to_hex bs) = Inr (tg_decode L bs)"
  using hex_of_bytes [of bs] by (simp add: hexToUtf8_def to_hex_def Let_def)

lemma split_joined:
  assumes "\<forall>p \<in> set xs. c \<notin> set p" "xs \<noteq> []"
  shows "split_on c (join_with c xs) = xs"
  using assms
proof (induction xs)
  case (Cons x xs)
  then show ?case by (cases xs) (simp_all add: split_on_part split_on_none)
qed simp

lemma ascii_join: "\<forall>p \<in> set xs. ascii_text p \<Longrightarrow> (of_char c :: nat) < 128 \<Longrightarrow> ascii_text (join_with c xs)"
  by (induction xs rule: join_with.induct) (auto simp: ascii_text_def)

lemma address_lower:
  assumes "evm_address_text a"
  shows "lower_address_text (to_lower a)" "CHR '':'' \<notin> set (to_lower a)" "ascii_text (to_lower a)"
proof -
  have h: "is_hex_digit (lower_char c) \<and> lower_char (lower_char c) = lower_char c \<and> (of_char (lower_char c) :: nat) < 128 \<and> (of_char (lower_char c) :: nat) \<noteq> 58" if "is_hex_digit c" for c
    using that by (auto simp: is_hex_digit_def lower_char_def Let_def of_char_char_of_small split: if_splits)
  have a: "a = ''0x'' @ drop 2 a" "list_all is_hex_digit (drop 2 a)" "length a = 42"
    using assms append_take_drop_id [of 2 a] unfolding evm_address_text_def by metis+
  have l: "to_lower a = ''0x'' @ map lower_char (drop 2 a)" by (subst a(1)) (simp add: to_lower_def lower_char_def)
  show "lower_address_text (to_lower a)"
    using a(2,3) h unfolding l lower_address_text_def evm_address_text_def by (auto simp: list_all_iff to_lower_def lower_char_def)
  have "CHR '':'' \<notin> lower_char ` set (drop 2 a)"
  proof
    assume "CHR '':'' \<in> lower_char ` set (drop 2 a)"
    then obtain c where "c \<in> set (drop 2 a)" "lower_char c = CHR '':''" by auto
    then show False using a(2) h [of c] by (auto simp: list_all_iff)
  qed
  then show "CHR '':'' \<notin> set (to_lower a)" unfolding l by simp
  show "ascii_text (to_lower a)" using a(2) h unfolding l by (auto simp: list_all_iff ascii_text_def)
qed

text \<open>An id reads back: decoding what was encoded gives the chain, the address in lower case and the parts, for a chain number that is exact and parts that are
  not empty ASCII text without a colon.\<close>

theorem entity_id_roundtrip:
  assumes "tg_standard L" "n < 2 ^ 53" "evm_address_text a"
    "list_all (\<lambda>p. part_text L p \<noteq> '''' \<and> ascii_text (part_text L p) \<and> CHR '':'' \<notin> set (part_text L p)) parts"
  shows "ebind (chainScopedEntityId L (PartBigint (int n)) a parts) (decodeChainScopedEntityId L)
    = Inr \<lparr>de_chainId = of_nat n, de_address = to_lower a, de_parts = map (part_text L) parts\<rparr>"
proof -
  let ?xs = "dec_nat n # to_lower a # map (part_text L) parts"
  have d: "\<forall>c \<in> set (dec_nat n). is_digit c" "list_all is_digit (dec_nat n)" using dec_nat_digits by (auto simp: list_all_iff)
  have digit: "(of_char c :: nat) < 128 \<and> c \<noteq> CHR '':''" if "is_digit c" for c using that by (auto simp: is_digit_def Let_def)
  define whole where "whole = join_with CHR '':'' ?xs"
  have "\<forall>p \<in> set ?xs. CHR '':'' \<notin> set p" using d(1) digit address_lower(2) [OF assms(3)] assms(4) by (fastforce simp: list_all_iff)
  then have s: "split_on CHR '':'' whole = ?xs" unfolding whole_def by (rule split_joined) simp
  have "\<forall>p \<in> set ?xs. ascii_text p" using d(1) digit address_lower(3) [OF assms(3)] assms(4) by (fastforce simp: list_all_iff ascii_text_def)
  then have "ascii_text whole" unfolding whole_def by (intro ascii_join) auto
  then have t: "tg_decode L (fromUTF8 whole) = whole" using assms(1) by (simp add: tg_standard_def)
  have e: "chainScopedEntityId L (PartBigint (int n)) a parts = Inr (to_hex (fromUTF8 whole))"
    using assms(3) d(2) by (simp add: chainScopedEntityId_def requireChainId_def requireAddress_def to_hex_utf8 dec_int_def whole_def)
  show ?thesis unfolding e using assms d(2) address_lower(1) [OF assms(3)]
    by (simp add: decodeChainScopedEntityId_def hex_read_back t s tg_standard_def list_all_iff)
qed

section \<open>Instances\<close>

definition demo_tg :: TgLib where
  "demo_tg = \<lparr>tg_text = (\<lambda>q. dec_int \<lfloor>q\<rfloor>), tg_number = (\<lambda>s. of_nat (undec s)), tg_decode = map (\<lambda>w. char_of (unat w)), tg_keccak256 = (\<lambda>h. h)\<rparr>"

lemma demo_tg_standard: "tg_standard demo_tg"
proof -
  have "char_of (unat (of_char c :: 8 word)) = c" for c :: char
  proof -
    have "unat (word_of_nat (of_char c) :: 8 word) = of_char c" by (simp add: unsigned_of_nat take_bit_eq_mod)
    then show ?thesis by (simp add: of_nat_of_char)
  qed
  then show ?thesis by (simp add: tg_standard_def demo_tg_def fromUTF8_def comp_def)
qed

definition demo_address :: string where
  "demo_address = ''0x'' @ replicate 40 CHR ''A''"

lemma demo_address_text: "evm_address_text demo_address" "to_lower demo_address = to_hex (replicate 20 170)"
proof -
  show "evm_address_text demo_address" by (simp add: evm_address_text_def demo_address_def is_hex_digit_def list_all_iff)
  show "to_lower demo_address = to_hex (replicate 20 170)" unfolding demo_address_def by code_simp
qed

theorem client_ids_match_index_witness:
  "agentEntityId_client demo_tg (PartBigint 5042002) demo_address (PartBigint 7) = Inr (to_hex (agentEntityId 5042002 (replicate 20 170) 7))"
proof -
  have "\<forall>x. tg_keccak256 demo_tg (to_hex x) = to_hex (h_keccak256 demo_host x)" by (simp add: demo_tg_def demo_host_def)
  from client_ids_match_index [OF _ demo_address_text demo_address_text this, of 5042002 7] show ?thesis by simp
qed

theorem entity_id_roundtrip_witness:
  "ebind (chainScopedEntityId demo_tg (PartBigint (int 5042002)) demo_address [PartBigint 7]) (decodeChainScopedEntityId demo_tg)
    = Inr \<lparr>de_chainId = of_nat 5042002, de_address = to_lower demo_address, de_parts = [''7'']\<rparr>"
proof -
  have p: "part_text demo_tg (PartBigint 7) = ''7''" by code_simp
  have "list_all (\<lambda>p. part_text demo_tg p \<noteq> '''' \<and> ascii_text (part_text demo_tg p) \<and> CHR '':'' \<notin> set (part_text demo_tg p)) [PartBigint 7]"
    using p by (simp add: ascii_text_def)
  from entity_id_roundtrip [OF demo_tg_standard _ demo_address_text(1) this, of 5042002] p show ?thesis by simp
qed

end
