(* ===== verification/TG_Client.thy ===== *)
theory TG_Client
  imports TG_Ids CR_Values
begin

text \<open>
  The client of the index: which deployment it reads, from the environment (\<open>packages/the-graph/src/env/core.ts\<close>, \<open>env/thegraph.ts\<close>), and how it
  asks one question and reads the answer (\<open>thegraph/client.ts\<close>). The network is a function from requests to responses: a response that
  does not come, one whose body is no JSON, or a status with a body of the declared shape. A document of the query language is one of the
  constants \<open>Query\<close>, one per query of the source. Aborting is not modelled: a request that is aborted is one without an answer.
\<close>

section \<open>The environment\<close>

record TgEnv =
  te_process :: "string \<rightharpoonup> string"
  te_global :: "string \<rightharpoonup> string"

datatype TheGraphSubgraphKind = Erc8004 | Erc8183
datatype TheGraphChain = ArcTestnetChain | ArcChain

datatype tg_error = MissingEnv string | MissingSubgraph TheGraphSubgraphKind TheGraphChain | NetworkFailed | BodyNotJson
  | GatewayStatus int string | GatewayErrors int string "string list" | NoData int string | BadInput id_error | SchemaMismatch | NotABigInt string | NothingToRead

fun kind_text :: "TheGraphSubgraphKind \<Rightarrow> string" where
  "kind_text Erc8004 = ''erc8004''"
| "kind_text Erc8183 = ''erc8183''"

fun graph_chain_text :: "TheGraphChain \<Rightarrow> string" where
  "graph_chain_text ArcTestnetChain = ''arc-testnet''"
| "graph_chain_text ArcChain = ''arc''"

definition resolve :: "TgEnv \<Rightarrow> string \<Rightarrow> string option \<Rightarrow> string option" where
  "resolve E key override =
     (case override of
        Some v \<Rightarrow> if v \<noteq> '''' then Some v else (case te_process E key of Some p \<Rightarrow> Some p | None \<Rightarrow> te_global E key)
      | None \<Rightarrow> (case te_process E key of Some p \<Rightarrow> Some p | None \<Rightarrow> te_global E key))"

definition required :: "TgEnv \<Rightarrow> string \<Rightarrow> string option \<Rightarrow> tg_error + string" where
  "required E key override = (case resolve E key override of None \<Rightarrow> Inl (MissingEnv key) | Some v \<Rightarrow> if v = '''' then Inl (MissingEnv key) else Inr v)"

definition THEGRAPH_GATEWAY_URL :: string where "THEGRAPH_GATEWAY_URL = ''https://gateway.thegraph.com/api''"

fun THEGRAPH_CHAIN_IDS :: "TheGraphChain \<Rightarrow> int" where
  "THEGRAPH_CHAIN_IDS ArcTestnetChain = 5042002"
| "THEGRAPH_CHAIN_IDS ArcChain = 5042"

record SubgraphRef =
  sr_kind :: TheGraphSubgraphKind
  sr_chain :: TheGraphChain
  sr_chainId :: int
  sr_subgraphId :: "string option"
  sr_deploymentId :: "string option"
  sr_queryUrl :: "string option"

definition getGraphGatewayApiKey :: "TgEnv \<Rightarrow> string option \<Rightarrow> tg_error + string" where
  "getGraphGatewayApiKey E override = required E ''GRAPH_GATEWAY_API_KEY'' override"

definition hasGraphGatewayApiKey :: "TgEnv \<Rightarrow> bool" where
  "hasGraphGatewayApiKey E = (case resolve E ''GRAPH_GATEWAY_API_KEY'' None of None \<Rightarrow> False | Some v \<Rightarrow> v \<noteq> '''')"

datatype SubgraphEnvField = SUBGRAPH_ID | DEPLOYMENT_ID

fun env_field_text :: "SubgraphEnvField \<Rightarrow> string" where
  "env_field_text SUBGRAPH_ID = ''SUBGRAPH_ID''"
| "env_field_text DEPLOYMENT_ID = ''DEPLOYMENT_ID''"

definition env_chain :: "TheGraphChain \<Rightarrow> string" where
  "env_chain chain = map (\<lambda>c. if c = CHR ''-'' then CHR ''_'' else c) (to_upper (graph_chain_text chain))"

definition chainSubgraphEnvKey :: "TheGraphChain \<Rightarrow> SubgraphEnvField \<Rightarrow> string" where
  "chainSubgraphEnvKey chain field = ''THEGRAPH_'' @ env_chain chain @ ''_'' @ env_field_text field"

definition subgraphEnvKey :: "TheGraphSubgraphKind \<Rightarrow> TheGraphChain \<Rightarrow> SubgraphEnvField \<Rightarrow> string" where
  "subgraphEnvKey kind chain field = ''THEGRAPH_'' @ to_upper (kind_text kind) @ ''_'' @ env_chain chain @ ''_'' @ env_field_text field"

definition chainQueryUrlEnvKey :: "TheGraphChain \<Rightarrow> string" where
  "chainQueryUrlEnvKey chain = ''THEGRAPH_'' @ env_chain chain @ ''_QUERY_URL''"

text \<open>\<open>x || null\<close> of a text that may be missing.\<close>

definition or_null :: "string option \<Rightarrow> string option" where
  "or_null x = (case x of None \<Rightarrow> None | Some s \<Rightarrow> if s = '''' then None else Some s)"

definition envLevel :: "TgEnv \<Rightarrow> string \<Rightarrow> string \<Rightarrow> (string option \<times> string option) option" where
  "envLevel E subgraphKey deploymentKey =
     (let subgraphId = or_null (resolve E subgraphKey None); deploymentId = or_null (resolve E deploymentKey None) in
      if subgraphId = None \<and> deploymentId = None then None else Some (subgraphId, deploymentId))"

definition DEFAULT_REFS :: "TheGraphChain \<Rightarrow> TheGraphSubgraphKind \<Rightarrow> string option \<times> string option" where
  "DEFAULT_REFS chain kind = (None, None)"

definition getSubgraphRef :: "TgEnv \<Rightarrow> TheGraphSubgraphKind \<Rightarrow> TheGraphChain \<Rightarrow> SubgraphRef" where
  "getSubgraphRef E kind chain =
     (let ref = (\<lambda>(subgraphId, deploymentId). \<lparr>sr_kind = kind, sr_chain = chain, sr_chainId = THEGRAPH_CHAIN_IDS chain, sr_subgraphId = subgraphId,
            sr_deploymentId = deploymentId, sr_queryUrl = or_null (resolve E (chainQueryUrlEnvKey chain) None)\<rparr>)
      in case envLevel E (subgraphEnvKey kind chain SUBGRAPH_ID) (subgraphEnvKey kind chain DEPLOYMENT_ID) of
           Some perKind \<Rightarrow> ref perKind
         | None \<Rightarrow> (case envLevel E (chainSubgraphEnvKey chain SUBGRAPH_ID) (chainSubgraphEnvKey chain DEPLOYMENT_ID) of
             Some perChain \<Rightarrow> ref perChain
           | None \<Rightarrow> ref (DEFAULT_REFS chain kind)))"

definition subgraphQueryUrl :: "SubgraphRef \<Rightarrow> tg_error + string" where
  "subgraphQueryUrl ref =
     (case or_null (sr_queryUrl ref) of Some url \<Rightarrow> Inr url
      | None \<Rightarrow> (case or_null (sr_deploymentId ref) of Some d \<Rightarrow> Inr (THEGRAPH_GATEWAY_URL @ ''/deployments/id/'' @ d)
        | None \<Rightarrow> (case or_null (sr_subgraphId ref) of Some i \<Rightarrow> Inr (THEGRAPH_GATEWAY_URL @ ''/subgraphs/id/'' @ i)
          | None \<Rightarrow> Inl (MissingSubgraph (sr_kind ref) (sr_chain ref)))))"

definition subgraphQueryUrlNeedsApiKey :: "string \<Rightarrow> bool" where
  "subgraphQueryUrlNeedsApiKey url \<longleftrightarrow> take (length THEGRAPH_GATEWAY_URL) url = THEGRAPH_GATEWAY_URL"

section \<open>One question\<close>

datatype Query = MetaQuery | AgentQuery | AgentProfileQuery | AgentFeedbackQuery | AgentFeedbackStatsQuery | AgentDailyMetricsQuery
  | EngagementQuery | JobQuery | JobsQuery

record GatewayRequest =
  gr_url :: string
  gr_authorization :: "string option"
  gr_query :: Query
  gr_variables :: "(string \<times> JsValue) list"

record GatewayBody =
  gb_data :: "JsValue option"
  gb_errors :: "string list option"

datatype GatewayResponse = NoAnswer | NotJson int | Answer int GatewayBody

type_synonym gateway = "GatewayRequest \<Rightarrow> GatewayResponse"

definition ok_status :: "int \<Rightarrow> bool" where
  "ok_status status \<longleftrightarrow> 200 \<le> status \<and> status \<le> 299"

definition ref_label :: "SubgraphRef \<Rightarrow> string" where
  "ref_label ref = kind_text (sr_kind ref) @ ''/'' @ graph_chain_text (sr_chain ref)"

text \<open>The reading of a response. A body without data, or with null for it, is \<open>None\<close>.\<close>

definition read_response :: "string \<Rightarrow> GatewayResponse \<Rightarrow> tg_error + JsValue" where
  "read_response label response =
     (case response of
        NoAnswer \<Rightarrow> Inl NetworkFailed
      | NotJson status \<Rightarrow> if \<not> ok_status status then Inl (GatewayStatus status label) else Inl BodyNotJson
      | Answer status body \<Rightarrow>
          if \<not> ok_status status then Inl (GatewayStatus status label)
          else if gb_errors body \<noteq> None \<and> gb_errors body \<noteq> Some [] then Inl (GatewayErrors status label (the (gb_errors body)))
          else (case gb_data body of None \<Rightarrow> Inl (NoData status label) | Some data \<Rightarrow> Inr data))"

definition request_key :: "TgEnv \<Rightarrow> string \<Rightarrow> string option \<Rightarrow> tg_error + string option" where
  "request_key E url apiKey =
     (if subgraphQueryUrlNeedsApiKey url then ebind (getGraphGatewayApiKey E apiKey) (\<lambda>k. Inr (Some k)) else Inr (or_null apiKey))"

definition queryTheGraph ::
  "TgEnv \<Rightarrow> gateway \<Rightarrow> SubgraphRef \<Rightarrow> Query \<Rightarrow> (string \<times> JsValue) list \<Rightarrow> string option \<Rightarrow> tg_error + JsValue" where
  "queryTheGraph E fetch ref query variables apiKey =
     ebind (subgraphQueryUrl ref) (\<lambda>url. ebind (request_key E url apiKey) (\<lambda>key.
     read_response (ref_label ref)
       (fetch \<lparr>gr_url = url, gr_authorization = map_option (\<lambda>k. ''Bearer '' @ k) key, gr_query = query, gr_variables = variables\<rparr>)))"

record SubgraphMeta =
  sm_blockNumber :: JsValue
  sm_blockTimestamp :: JsValue
  sm_deployment :: JsValue
  sm_hasIndexingErrors :: JsValue

definition getSubgraphMeta :: "TgEnv \<Rightarrow> gateway \<Rightarrow> SubgraphRef \<Rightarrow> string option \<Rightarrow> tg_error + SubgraphMeta" where
  "getSubgraphMeta E fetch ref apiKey =
     ebind (queryTheGraph E fetch ref MetaQuery [] apiKey) (\<lambda>data.
     let meta = member data ''_meta''; block = member meta ''block''; stamp = member block ''timestamp'' in
     if meta \<in> {VUndefined, VNull} \<or> block \<in> {VUndefined, VNull} then Inl NothingToRead
     else Inr \<lparr>sm_blockNumber = member block ''number'', sm_blockTimestamp = (if stamp = VUndefined then VNull else stamp),
       sm_deployment = member meta ''deployment'', sm_hasIndexingErrors = member meta ''hasIndexingErrors''\<rparr>)"

section \<open>What is read, and with which key\<close>

text \<open>A deployment is chosen by whole levels: what is set for the kind, in either of its fields, hides both fields of the chain, so that the identifiers
  always come from one level.\<close>

theorem levels_replace_whole:
  "(let ref = getSubgraphRef E kind chain; ids = (sr_subgraphId ref, sr_deploymentId ref);
        k = (\<lambda>f. or_null (resolve E (subgraphEnvKey kind chain f) None)); c = (\<lambda>f. or_null (resolve E (chainSubgraphEnvKey chain f) None)) in
    ids = (if k SUBGRAPH_ID \<noteq> None \<or> k DEPLOYMENT_ID \<noteq> None then (k SUBGRAPH_ID, k DEPLOYMENT_ID) else (c SUBGRAPH_ID, c DEPLOYMENT_ID))
    \<and> (\<exists>url. subgraphQueryUrl ref = Inr url) = (or_null (resolve E (chainQueryUrlEnvKey chain) None) \<noteq> None \<or> ids \<noteq> (None, None)))"
proof -
  have n: "or_null (or_null x) = or_null x" "or_null None = None" for x by (simp_all add: or_null_def split: option.splits)
  show ?thesis by (auto simp: getSubgraphRef_def Let_def envLevel_def DEFAULT_REFS_def subgraphQueryUrl_def n split: option.splits)
qed

text \<open>The request that is sent, if one is.\<close>

definition asks :: "TgEnv \<Rightarrow> SubgraphRef \<Rightarrow> Query \<Rightarrow> (string \<times> JsValue) list \<Rightarrow> string option \<Rightarrow> tg_error + GatewayRequest" where
  "asks E ref query variables apiKey =
     ebind (subgraphQueryUrl ref) (\<lambda>url. ebind (request_key E url apiKey) (\<lambda>key.
     Inr \<lparr>gr_url = url, gr_authorization = map_option (\<lambda>k. ''Bearer '' @ k) key, gr_query = query, gr_variables = variables\<rparr>))"

lemma required_key: "required E key override \<noteq> Inr ''''"
  by (auto simp: required_def split: option.splits if_splits)

lemma query_asks: "queryTheGraph E fetch ref query variables apiKey =
    ebind (asks E ref query variables apiKey) (\<lambda>request. read_response (ref_label ref) (fetch request))"
  by (auto simp: queryTheGraph_def asks_def ebind_def split: sum.splits)

text \<open>(C20) The key goes where it is needed: the decentralised gateway is never asked without a key, and asking it without one in reach is an error that sends
  nothing; any other endpoint is asked without a key unless the caller gave one, whatever the environment holds.\<close>

theorem key_only_where_needed:
  "(\<forall>request. asks E ref query variables apiKey = Inr request \<longrightarrow>
      (subgraphQueryUrlNeedsApiKey (gr_url request) \<longrightarrow> (\<exists>k. k \<noteq> '''' \<and> gr_authorization request = Some (''Bearer '' @ k)))
      \<and> (\<not> subgraphQueryUrlNeedsApiKey (gr_url request) \<longrightarrow> gr_authorization request = map_option (\<lambda>k. ''Bearer '' @ k) (or_null apiKey)))
   \<and> (sr_queryUrl ref = None \<and> or_null apiKey = None \<and> \<not> hasGraphGatewayApiKey E \<longrightarrow>
      (\<exists>e. asks E ref query variables apiKey = Inl e \<and> (\<forall>fetch. queryTheGraph E fetch ref query variables apiKey = Inl e)))
   \<and> (\<forall>url. or_null (sr_queryUrl ref) = Some url \<and> \<not> subgraphQueryUrlNeedsApiKey url \<longrightarrow> asks E ref query variables None
        = Inr \<lparr>gr_url = url, gr_authorization = None, gr_query = query, gr_variables = variables\<rparr>)"
proof (intro conjI allI impI)
  fix request assume a: "asks E ref query variables apiKey = Inr request"
  show "\<exists>k. k \<noteq> '''' \<and> gr_authorization request = Some (''Bearer '' @ k)" if "subgraphQueryUrlNeedsApiKey (gr_url request)"
    using a that by (auto simp: asks_def request_key_def getGraphGatewayApiKey_def required_key elim!: ebind_InrE)
  show "gr_authorization request = map_option (\<lambda>k. ''Bearer '' @ k) (or_null apiKey)" if "\<not> subgraphQueryUrlNeedsApiKey (gr_url request)"
    using a that by (auto simp: asks_def request_key_def elim!: ebind_InrE)
next
  assume k: "sr_queryUrl ref = None \<and> or_null apiKey = None \<and> \<not> hasGraphGatewayApiKey E"
  have r: "resolve E ''GRAPH_GATEWAY_API_KEY'' apiKey = resolve E ''GRAPH_GATEWAY_API_KEY'' None"
    using k by (auto simp: resolve_def or_null_def split: option.splits if_splits)
  have g: "subgraphQueryUrlNeedsApiKey (THEGRAPH_GATEWAY_URL @ s)" for s by (simp add: subgraphQueryUrlNeedsApiKey_def)
  have "\<exists>e. asks E ref query variables apiKey = Inl e"
  proof (cases "subgraphQueryUrl ref")
    case (Inr url)
    then have "subgraphQueryUrlNeedsApiKey url" using k g by (auto simp: subgraphQueryUrl_def or_null_def split: option.splits if_splits)
    then show ?thesis using k Inr by (auto simp: asks_def request_key_def getGraphGatewayApiKey_def required_def r hasGraphGatewayApiKey_def split: option.splits)
  qed (simp add: asks_def)
  then show "\<exists>e. asks E ref query variables apiKey = Inl e \<and> (\<forall>fetch. queryTheGraph E fetch ref query variables apiKey = Inl e)"
    by (auto simp: query_asks)
next
  fix url assume "or_null (sr_queryUrl ref) = Some url \<and> \<not> subgraphQueryUrlNeedsApiKey url"
  then show "asks E ref query variables None = Inr \<lparr>gr_url = url, gr_authorization = None, gr_query = query, gr_variables = variables\<rparr>"
    by (simp add: asks_def subgraphQueryUrl_def request_key_def or_null_def)
qed

definition demo_env_tg :: TgEnv where
  "demo_env_tg = \<lparr>te_process = [''THEGRAPH_ARC_TESTNET_SUBGRAPH_ID'' \<mapsto> ''Sub''], te_global = Map.empty\<rparr>"

theorem key_only_where_needed_witness:
  "\<exists>e. asks demo_env_tg (getSubgraphRef demo_env_tg Erc8004 ArcTestnetChain) MetaQuery [] None = Inl e"
proof -
  have "sr_queryUrl (getSubgraphRef demo_env_tg Erc8004 ArcTestnetChain) = None" by code_simp
  moreover have "or_null None = None" "\<not> hasGraphGatewayApiKey demo_env_tg" by code_simp+
  ultimately show ?thesis
    using key_only_where_needed [of demo_env_tg "getSubgraphRef demo_env_tg Erc8004 ArcTestnetChain" MetaQuery "[]" None, THEN conjunct2, THEN conjunct1] by blast
qed

end
