(* ===== verification/TG_Reads.thy ===== *)
theory TG_Reads
  imports TG_Client SG_Guarantees
begin

text \<open>
  The reads of the index's client (\<open>packages/the-graph/src/thegraph/erc8004.ts\<close>, \<open>erc8183.ts\<close>): agents, profiles, feedback, statistics, daily metrics,
  engagements and jobs (\<open>_client\<close> where the index has the name too), the status of a job as a person understands it and whether a job counts as a payment. The schemas of the source
  are values of type \<open>Schema\<close>; the parser of the schema library that applies one to a value, the network, the reading of \<open>BigInt\<close>s and the
  rounding of one to a number are the fields of \<open>Reader\<close>. The sizes asked for are finite numbers.
\<close>

section \<open>Schemas\<close>

datatype Schema = SString | SBigIntString | SDecimalString | SBoolean | SInt | SNumber | SEnum "string list" | SNullable Schema
  | SObject "(string \<times> Schema) list" | SArray Schema | SUnion "Schema list"

record Reader =
  rd_lib :: TgLib
  rd_env :: TgEnv
  rd_fetch :: gateway
  rd_parse :: "Schema \<Rightarrow> JsValue \<Rightarrow> JsValue option"
  rd_bigint :: "string \<Rightarrow> int option"
  rd_round :: "int \<Rightarrow> rat"

record ReadOptions =
  ro_ref :: "SubgraphRef option"
  ro_apiKey :: "string option"

definition parse_with :: "Reader \<Rightarrow> Schema \<Rightarrow> JsValue \<Rightarrow> tg_error + JsValue" where
  "parse_with R schema v = (case rd_parse R schema v of None \<Rightarrow> Inl SchemaMismatch | Some w \<Rightarrow> Inr w)"

definition account_schema :: Schema where "account_schema = SObject [(''id'', SString)]"
definition agentRef_schema :: Schema where "agentRef_schema = SObject [(''agentId'', SBigIntString)]"
definition jobRef_schema :: Schema where "jobRef_schema = SObject [(''id'', SString), (''jobId'', SBigIntString)]"

definition agentSchema :: Schema where
  "agentSchema = SObject [(''id'', SString), (''agentId'', SBigIntString), (''owner'', SNullable account_schema), (''agentWallet'', SNullable SString),
     (''isBurned'', SBoolean), (''agentURI'', SString), (''agentURIKind'', SString), (''feedbackCount'', SBigIntString), (''activeFeedbackCount'', SBigIntString),
     (''responseCount'', SBigIntString), (''verifiedFeedbackCount'', SBigIntString), (''bufiScore'', SNullable SBigIntString),
     (''bufiScoreVersion'', SNullable SBigIntString), (''bufiScoreDate'', SNullable SString), (''bufiScoreHash'', SNullable SString),
     (''bufiScoreUpdatedAt'', SNullable SBigIntString), (''jobsAsClient'', SBigIntString), (''jobsAsProvider'', SBigIntString),
     (''settledAsClient'', SBigIntString), (''settledAsProvider'', SBigIntString), (''settledVolumeAsClient'', SBigIntString),
     (''settledVolumeAsProvider'', SBigIntString), (''refundedVolumeAsClient'', SBigIntString), (''createdAt'', SBigIntString),
     (''createdAtTransaction'', SString), (''updatedAt'', SBigIntString)]"

definition agentServiceSchema :: Schema where
  "agentServiceSchema = SObject [(''name'', SString), (''kind'', SString), (''endpoint'', SString), (''version'', SNullable SString)]"

definition agentProfileSchema :: Schema where
  "agentProfileSchema = SObject [(''name'', SNullable SString), (''description'', SNullable SString), (''image'', SNullable SString), (''active'', SNullable SBoolean),
     (''x402Support'', SNullable SBoolean), (''services'', SArray agentServiceSchema)]"

definition feedbackSchema :: Schema where
  "feedbackSchema = SObject [(''id'', SString), (''feedbackIndex'', SBigIntString), (''client'', account_schema), (''clientAgent'', SNullable agentRef_schema),
     (''verified'', SBoolean), (''evidence'', SNullable jobRef_schema), (''value'', SBigIntString), (''valueDecimals'', SInt), (''normalizedValue'', SDecimalString),
     (''tag1'', SString), (''tag2'', SString), (''endpoint'', SString), (''feedbackURI'', SString), (''feedbackURIKind'', SString), (''hasFeedbackHash'', SBoolean),
     (''isRevoked'', SBoolean), (''responseCount'', SBigIntString), (''createdAt'', SBigIntString), (''createdAtTransaction'', SString)]"

definition feedbackStatsBucketSchema :: Schema where
  "feedbackStatsBucketSchema = SObject [(''id'', SString), (''timestamp'', SInt), (''tag1'', SString), (''tag2'', SString), (''feedbackCount'', SBigIntString),
     (''valueSum'', SDecimalString)]"

definition raw_stats_schema :: Schema where
  "raw_stats_schema = SObject [(''id'', SString), (''timestamp'', SUnion [SString, SNumber]), (''tag1'', SString), (''tag2'', SString),
     (''feedbackCount'', SBigIntString), (''valueSum'', SDecimalString)]"

definition AGENT_METRIC_KINDS :: "string list" where
  "AGENT_METRIC_KINDS = [''SETTLED_AS_PROVIDER'', ''SETTLED_AS_CLIENT'', ''REFUNDED_AS_CLIENT'']"

definition agentDailyMetricSchema :: Schema where
  "agentDailyMetricSchema = SObject [(''id'', SString), (''timestamp'', SInt), (''kind'', SEnum AGENT_METRIC_KINDS), (''volume'', SBigIntString), (''count'', SBigIntString)]"

definition raw_metric_schema :: Schema where
  "raw_metric_schema = SObject [(''id'', SString), (''timestamp'', SUnion [SString, SNumber]), (''kind'', SEnum AGENT_METRIC_KINDS), (''volume'', SBigIntString),
     (''count'', SUnion [SString, SNumber])]"

definition engagementSchema :: Schema where
  "engagementSchema = SObject [(''id'', SString), (''client'', agentRef_schema), (''provider'', agentRef_schema), (''jobCount'', SBigIntString),
     (''settledJobCount'', SBigIntString), (''settledVolume'', SBigIntString), (''refundedVolume'', SBigIntString), (''lastSettledJob'', SNullable jobRef_schema),
     (''lastSettledAt'', SNullable SBigIntString), (''feedbackCount'', SBigIntString), (''verifiedFeedbackCount'', SBigIntString),
     (''lastFeedbackAt'', SNullable SBigIntString), (''firstSeenAt'', SBigIntString), (''updatedAt'', SBigIntString)]"

definition JOB_STATUSES :: "string list" where
  "JOB_STATUSES = [''OPEN'', ''FUNDED'', ''SUBMITTED'', ''COMPLETED'', ''REJECTED'', ''EXPIRED'']"

definition jobEventSchema :: Schema where
  "jobEventSchema = SObject [(''id'', SString), (''kind'', SString), (''actor'', SNullable account_schema), (''amount'', SNullable SBigIntString),
     (''timestamp'', SBigIntString), (''transactionHash'', SString), (''logIndex'', SBigIntString)]"

definition jobSchema :: Schema where
  "jobSchema = SObject [(''id'', SString), (''jobId'', SBigIntString), (''status'', SEnum JOB_STATUSES), (''client'', account_schema), (''provider'', SNullable account_schema),
     (''evaluator'', account_schema), (''clientAgent'', SNullable agentRef_schema), (''providerAgent'', SNullable agentRef_schema),
     (''engagement'', SNullable (SObject [(''id'', SString)])), (''expiresAt'', SBigIntString), (''submittedAt'', SNullable SBigIntString), (''budget'', SBigIntString),
     (''paymentToken'', SString), (''hook'', SNullable SString), (''description'', SString), (''providerPayment'', SBigIntString), (''evaluatorFeePaid'', SBigIntString),
     (''refundedAmount'', SBigIntString), (''settled'', SBoolean), (''settledAt'', SNullable SBigIntString), (''deliverable'', SNullable SString),
     (''completionReason'', SNullable SString), (''rejectionReason'', SNullable SString), (''createdAt'', SBigIntString), (''createdAtTransaction'', SString),
     (''updatedAt'', SBigIntString), (''updatedAtTransaction'', SString), (''events'', SArray jobEventSchema)]"

section \<open>Reads\<close>

record AgentLocator =
  al_chainId :: ChainScopedIdPart
  al_identityRegistry :: string
  al_agentId :: ChainScopedIdPart

definition locator_id :: "Reader \<Rightarrow> AgentLocator \<Rightarrow> tg_error + string" where
  "locator_id R l = (case agentEntityId_client (rd_lib R) (al_chainId l) (al_identityRegistry l) (al_agentId l) of Inl e \<Rightarrow> Inl (BadInput e) | Inr i \<Rightarrow> Inr i)"

definition refFor :: "Reader \<Rightarrow> TheGraphSubgraphKind \<Rightarrow> ReadOptions \<Rightarrow> SubgraphRef" where
  "refFor R kind options = (case ro_ref options of Some r \<Rightarrow> r | None \<Rightarrow> getSubgraphRef (rd_env R) kind ArcTestnetChain)"

definition ask_index :: "Reader \<Rightarrow> TheGraphSubgraphKind \<Rightarrow> ReadOptions \<Rightarrow> Query \<Rightarrow> (string \<times> JsValue) list \<Rightarrow> tg_error + JsValue" where
  "ask_index R kind options query variables = queryTheGraph (rd_env R) (rd_fetch R) (refFor R kind options) query variables (ro_apiKey options)"

text \<open>A row that may be null.\<close>

definition parse_row :: "Reader \<Rightarrow> Schema \<Rightarrow> JsValue \<Rightarrow> tg_error + JsValue option" where
  "parse_row R schema v = (if v = VNull then Inr None else ebind (parse_with R schema v) (\<lambda>w. Inr (Some w)))"

definition getAgent_client :: "Reader \<Rightarrow> AgentLocator \<Rightarrow> ReadOptions \<Rightarrow> tg_error + JsValue option" where
  "getAgent_client R locator options =
     ebind (locator_id R locator) (\<lambda>i. ebind (ask_index R Erc8004 options AgentQuery [(''id'', VStr i)]) (\<lambda>data.
     parse_row R agentSchema (member data ''agent'')))"

text \<open>\<open>rows[0]\<close>, which throws on a value that is missing.\<close>

fun first_row :: "JsValue \<Rightarrow> tg_error + JsValue" where
  "first_row VUndefined = Inl NothingToRead"
| "first_row VNull = Inl NothingToRead"
| "first_row (VArr xs) = Inr (case xs of [] \<Rightarrow> VUndefined | x # _ \<Rightarrow> x)"
| "first_row (VObj kvs) = Inr (member (VObj kvs) ''0'')"
| "first_row v = Inr VUndefined"

definition getAgentProfile :: "Reader \<Rightarrow> AgentLocator \<Rightarrow> ReadOptions \<Rightarrow> tg_error + JsValue option" where
  "getAgentProfile R locator options =
     ebind (locator_id R locator) (\<lambda>i. ebind (ask_index R Erc8004 options AgentProfileQuery [(''id'', VStr i)]) (\<lambda>data.
     ebind (first_row (member data ''agents'')) (\<lambda>row.
     let registration = member row ''registration'' in
     if truthy registration then ebind (parse_with R agentProfileSchema registration) (\<lambda>w. Inr (Some w)) else Inr None)))"

definition FEEDBACK_PAGE_MAX :: rat where "FEEDBACK_PAGE_MAX = 1000"
definition JOB_PAGE_MAX :: rat where "JOB_PAGE_MAX = 1000"

definition clamp_first :: "rat option \<Rightarrow> rat \<Rightarrow> rat \<Rightarrow> rat" where
  "clamp_first given usual most = min (max (case given of None \<Rightarrow> usual | Some n \<Rightarrow> n) 1) most"

record Page =
  pg_items :: "JsValue list"
  pg_nextCursor :: "string option"

definition row_id :: "JsValue \<Rightarrow> string option" where
  "row_id v = (case member v ''id'' of VStr s \<Rightarrow> Some s | _ \<Rightarrow> None)"

definition page_of :: "rat \<Rightarrow> JsValue list \<Rightarrow> Page" where
  "page_of first items =
     \<lparr>pg_items = items, pg_nextCursor = (if of_nat (length items) = first \<and> items \<noteq> [] then row_id (last items) else None)\<rparr>"

definition parse_rows :: "Reader \<Rightarrow> Schema \<Rightarrow> JsValue \<Rightarrow> tg_error + JsValue list" where
  "parse_rows R schema v = ebind (parse_with R (SArray schema) v) (\<lambda>w. case w of VArr rows \<Rightarrow> Inr rows | _ \<Rightarrow> Inl SchemaMismatch)"

record ListAgentFeedbackInput =
  lf_locator :: AgentLocator
  lf_first :: "rat option"
  lf_afterId :: "string option"
  lf_includeRevoked :: "bool option"
  lf_verifiedOnly :: "bool option"

definition cursor_filter :: "string option \<Rightarrow> (string \<times> JsValue) list" where
  "cursor_filter afterId = (case or_null afterId of None \<Rightarrow> [] | Some i \<Rightarrow> [(''id_gt'', VStr i)])"

definition feedback_where :: "string \<Rightarrow> ListAgentFeedbackInput \<Rightarrow> (string \<times> JsValue) list" where
  "feedback_where agent input =
     [(''agent'', VStr agent)] @ (if lf_includeRevoked input = Some True then [] else [(''isRevoked'', VBool False)])
     @ (if lf_verifiedOnly input = Some True then [(''verified'', VBool True)] else []) @ cursor_filter (lf_afterId input)"

definition listAgentFeedback :: "Reader \<Rightarrow> ListAgentFeedbackInput \<Rightarrow> ReadOptions \<Rightarrow> tg_error + Page" where
  "listAgentFeedback R input options =
     (let first = clamp_first (lf_first input) 100 FEEDBACK_PAGE_MAX in
      ebind (locator_id R (lf_locator input)) (\<lambda>agent.
      ebind (ask_index R Erc8004 options AgentFeedbackQuery [(''first'', VNum first), (''where'', VObj (feedback_where agent input))]) (\<lambda>data.
      ebind (parse_rows R feedbackSchema (member data ''feedbacks'')) (\<lambda>items.
      Inr (page_of first items)))))"

definition MICROSECONDS :: int where "MICROSECONDS = 1000000"

fun value_text :: "Reader \<Rightarrow> JsValue \<Rightarrow> string" where
  "value_text R (VNum q) = tg_text (rd_lib R) q"
| "value_text R (VStr s) = s"
| "value_text R v = ''''"

definition microsToSeconds :: "Reader \<Rightarrow> JsValue \<Rightarrow> tg_error + rat" where
  "microsToSeconds R value =
     (case rd_bigint R (value_text R value) of None \<Rightarrow> Inl (NotABigInt (value_text R value)) | Some n \<Rightarrow> Inr (rd_round R (bigint_div n MICROSECONDS)))"

text \<open>\<open>{ ...bucket, k: v }\<close>: the value of a key that is there is replaced in place.\<close>

fun set_member :: "string \<Rightarrow> JsValue \<Rightarrow> JsValue \<Rightarrow> JsValue" where
  "set_member k v (VObj kvs) = VObj (if k \<in> fst ` set kvs then map (\<lambda>(k', v'). if k' = k then (k', v) else (k', v')) kvs else kvs @ [(k, v)])"
| "set_member k v w = VObj [(k, v)]"

definition getAgentFeedbackStats :: "Reader \<Rightarrow> AgentLocator \<Rightarrow> string option \<Rightarrow> rat option \<Rightarrow> ReadOptions \<Rightarrow> tg_error + JsValue list" where
  "getAgentFeedbackStats R locator interval given options =
     ebind (locator_id R locator) (\<lambda>agent.
     ebind (ask_index R Erc8004 options AgentFeedbackStatsQuery [(''interval'', VStr (case interval of None \<Rightarrow> ''day'' | Some i \<Rightarrow> i)),
       (''first'', VNum (clamp_first given 30 FEEDBACK_PAGE_MAX)), (''where'', VObj [(''agent'', VStr agent)])]) (\<lambda>data.
     ebind (parse_rows R raw_stats_schema (member data ''agentFeedbackStats_collection'')) (\<lambda>raw.
     emap (\<lambda>bucket. ebind (microsToSeconds R (member bucket ''timestamp'')) (\<lambda>t.
       parse_with R feedbackStatsBucketSchema (set_member ''timestamp'' (VNum t) bucket))) raw)))"

definition getAgentDailyMetrics :: "Reader \<Rightarrow> AgentLocator \<Rightarrow> string option \<Rightarrow> rat option \<Rightarrow> ReadOptions \<Rightarrow> tg_error + JsValue list" where
  "getAgentDailyMetrics R locator kind given options =
     ebind (locator_id R locator) (\<lambda>agent.
     ebind (ask_index R Erc8004 options AgentDailyMetricsQuery [(''first'', VNum (clamp_first given 30 FEEDBACK_PAGE_MAX)),
       (''where'', VObj ((''agent'', VStr agent) # (case or_null kind of None \<Rightarrow> [] | Some k \<Rightarrow> [(''kind'', VStr k)])))]) (\<lambda>data.
     ebind (parse_rows R raw_metric_schema (member data ''agentDailyMetric_collection'')) (\<lambda>raw.
     emap (\<lambda>bucket. ebind (microsToSeconds R (member bucket ''timestamp'')) (\<lambda>t.
       parse_with R agentDailyMetricSchema (set_member ''count'' (VStr (value_text R (member bucket ''count''))) (set_member ''timestamp'' (VNum t) bucket)))) raw)))"

definition getEngagement :: "Reader \<Rightarrow> ChainScopedIdPart \<Rightarrow> string \<Rightarrow> ChainScopedIdPart \<Rightarrow> ChainScopedIdPart \<Rightarrow> ReadOptions \<Rightarrow> tg_error + JsValue option" where
  "getEngagement R chainId identityRegistry clientAgentId providerAgentId options =
     ebind (locator_id R \<lparr>al_chainId = chainId, al_identityRegistry = identityRegistry, al_agentId = clientAgentId\<rparr>) (\<lambda>client.
     ebind (locator_id R \<lparr>al_chainId = chainId, al_identityRegistry = identityRegistry, al_agentId = providerAgentId\<rparr>) (\<lambda>provider.
     ebind (ask_index R Erc8004 options EngagementQuery [(''id'', VStr (engagementEntityId (rd_lib R) client provider))]) (\<lambda>data.
     parse_row R engagementSchema (member data ''engagement''))))"

definition getJob_client :: "Reader \<Rightarrow> ChainScopedIdPart \<Rightarrow> string \<Rightarrow> ChainScopedIdPart \<Rightarrow> ReadOptions \<Rightarrow> tg_error + JsValue option" where
  "getJob_client R chainId contract jobId options =
     (case jobEntityId_client (rd_lib R) chainId contract jobId of Inl e \<Rightarrow> Inl (BadInput e) | Inr i \<Rightarrow>
      ebind (ask_index R Erc8183 options JobQuery [(''id'', VStr i)]) (\<lambda>data. parse_row R jobSchema (member data ''job'')))"

datatype JobRole = ClientRole | ProviderRole | EvaluatorRole

fun role_text :: "JobRole \<Rightarrow> string" where
  "role_text ClientRole = ''client''"
| "role_text ProviderRole = ''provider''"
| "role_text EvaluatorRole = ''evaluator''"

record ListJobsInput =
  lj_chainId :: ChainScopedIdPart
  lj_contract :: string
  lj_address :: string
  lj_role :: JobRole
  lj_first :: "rat option"
  lj_afterId :: "string option"
  lj_status :: "string option"
  lj_settledOnly :: "bool option"

definition jobs_where :: "string \<Rightarrow> ListJobsInput \<Rightarrow> (string \<times> JsValue) list" where
  "jobs_where commerce input =
     [(''agenticCommerce'', VStr commerce), (role_text (lj_role input), VStr (to_lower (lj_address input)))]
     @ (case or_null (lj_status input) of None \<Rightarrow> [] | Some s \<Rightarrow> [(''status'', VStr s)])
     @ (if lj_settledOnly input = Some True then [(''settled'', VBool True)] else []) @ cursor_filter (lj_afterId input)"

definition listJobs :: "Reader \<Rightarrow> ListJobsInput \<Rightarrow> ReadOptions \<Rightarrow> tg_error + Page" where
  "listJobs R input options =
     (let first = clamp_first (lj_first input) 50 JOB_PAGE_MAX in
      case registryEntityId_client (rd_lib R) (lj_chainId input) (lj_contract input) of Inl e \<Rightarrow> Inl (BadInput e) | Inr commerce \<Rightarrow>
      ebind (ask_index R Erc8183 options JobsQuery [(''first'', VNum first), (''where'', VObj (jobs_where commerce input))]) (\<lambda>data.
      ebind (parse_rows R jobSchema (member data ''jobs'')) (\<lambda>items.
      Inr (page_of first items))))"

definition EVALUATION_GRACE_PERIOD_SECONDS :: rat where "EVALUATION_GRACE_PERIOD_SECONDS = 3600"

definition effectiveJobStatus :: "TgLib \<Rightarrow> JobStatus \<Rightarrow> string \<Rightarrow> rat \<Rightarrow> JobStatus" where
  "effectiveJobStatus L status expires nowSeconds =
     (let expiresAt = tg_number L expires in
      if (status = OPEN \<or> status = FUNDED) \<and> expiresAt \<le> nowSeconds then EXPIRED
      else if status = SUBMITTED \<and> expiresAt + EVALUATION_GRACE_PERIOD_SECONDS \<le> nowSeconds then EXPIRED
      else status)"

definition isSettledPayment :: "(string \<Rightarrow> int option) \<Rightarrow> JobStatus \<Rightarrow> string \<Rightarrow> bool option \<Rightarrow> tg_error + bool" where
  "isSettledPayment bigint status providerPayment settled =
     (case settled of Some b \<Rightarrow> Inr b
      | None \<Rightarrow> if status = COMPLETED
          then (case bigint providerPayment of None \<Rightarrow> Inl (NotABigInt providerPayment) | Some n \<Rightarrow> Inr (0 < n)) else Inr False)"

section \<open>Reading a listing to its end\<close>

text \<open>The loop of a caller: the cursor of a page is passed back until there is none. It runs on fuel, and \<open>None\<close> is a loop that has not ended.\<close>

fun read_pages :: "(string option \<Rightarrow> tg_error + Page) \<Rightarrow> nat \<Rightarrow> string option \<Rightarrow> tg_error + JsValue list option" where
  "read_pages ask 0 cursor = Inr None"
| "read_pages ask (Suc n) cursor = ebind (ask cursor) (\<lambda>page.
     case pg_nextCursor page of None \<Rightarrow> Inr (Some (pg_items page))
     | Some c \<Rightarrow> ebind (read_pages ask n (Some c)) (\<lambda>rest. Inr (map_option (append (pg_items page)) rest)))"

definition row_key :: "JsValue \<Rightarrow> string" where
  "row_key r = (case row_id r of None \<Rightarrow> '''' | Some i \<Rightarrow> i)"

text \<open>A table of the index in the order of its ids, all of them non-empty.\<close>

definition in_id_order :: "(string \<Rightarrow> string \<Rightarrow> bool) \<Rightarrow> JsValue list \<Rightarrow> bool" where
  "in_id_order before rows \<longleftrightarrow> asymp before \<and> sorted_wrt (\<lambda>a b. before (row_key a) (row_key b)) rows \<and> (\<forall>r \<in> set rows. row_key r \<noteq> '''')"

definition after_cursor :: "(string \<Rightarrow> string \<Rightarrow> bool) \<Rightarrow> string option \<Rightarrow> JsValue list \<Rightarrow> JsValue list" where
  "after_cursor before cursor rows = (case cursor of None \<Rightarrow> rows | Some c \<Rightarrow> filter (\<lambda>r. before c (row_key r)) rows)"

lemma row_key_id: "row_key r \<noteq> '''' \<Longrightarrow> row_id r = Some (row_key r)"
  by (simp add: row_key_def split: option.splits)

lemma after_last:
  assumes "in_id_order before (read @ todo)" "read \<noteq> []"
  shows "after_cursor before (Some (row_key (last read))) (read @ todo) = todo"
proof -
  have l: "last read \<in> set read" using assms(2) by simp
  have s: "sorted_wrt (\<lambda>a b. before (row_key a) (row_key b)) (butlast read @ [last read])"
    using assms by (simp add: in_id_order_def sorted_wrt_append)
  have "\<not> before (row_key (last read)) (row_key r)" if "r \<in> set (butlast read @ [last read])" for r
    using that s assms(1) by (auto simp: sorted_wrt_append in_id_order_def dest: asympD)
  then have "\<forall>r \<in> set read. \<not> before (row_key (last read)) (row_key r)" using assms(2) by (metis append_butlast_last_id)
  moreover have "\<forall>r \<in> set todo. before (row_key (last read)) (row_key r)"
    using assms(1) l by (simp add: in_id_order_def sorted_wrt_append)
  ultimately show ?thesis by (simp add: after_cursor_def filter_True filter_False)
qed

lemma pages_from:
  assumes "in_id_order before rows" "0 < n" "rows = read @ todo" "length todo < fuel"
    "cursor = (if read = [] then None else Some (row_key (last read)))"
    "\<And>c. c \<noteq> Some '''' \<Longrightarrow> ask c = Inr (page_of (of_nat n) (take n (after_cursor before c rows)))"
  shows "read_pages ask fuel cursor = Inr (Some todo)"
  using assms(3-5)
proof (induction fuel arbitrary: read todo cursor)
  case (Suc fuel)
  have a: "after_cursor before cursor rows = todo"
    using Suc.prems assms(1) after_last [of before read todo] by (auto simp: after_cursor_def)
  have c: "cursor \<noteq> Some ''''" using Suc.prems(1,3) assms(1) last_in_set [of read] by (auto simp: in_id_order_def)
  show ?case
  proof (cases "n \<le> length todo")
    case True
    define page where "page = take n todo"
    have l: "length page = n" "page \<noteq> []" using True assms(2) by (auto simp: page_def)
    have "last page \<in> set todo" using last_in_set [OF l(2)] by (auto simp: page_def dest: in_set_takeD)
    then have "last page \<in> set rows" using Suc.prems(1) by simp
    then have k: "row_id (last page) = Some (row_key (last page))" using assms(1) by (auto simp: in_id_order_def intro!: row_key_id)
    have "rows = (read @ page) @ drop n todo" using Suc.prems(1) by (simp add: page_def)
    moreover have "length (drop n todo) < fuel" using Suc.prems(2) True assms(2) by auto
    ultimately have "read_pages ask fuel (Some (row_key (last page))) = Inr (Some (drop n todo))"
      by (rule Suc.IH) (simp add: l(2))
    then show ?thesis using l k by (simp add: assms(6) [OF c] a page_of_def page_def [symmetric]) (simp add: page_def)
  qed (simp add: assms(6) [OF c] a page_of_def)
qed simp

text \<open>The gateway as the index documents it: of the rows of the collection that meet every condition, in the order of their ids, the first ones. What a
  condition on a column other than the id means is left to \<open>holds\<close>.\<close>

fun collection :: "Query \<Rightarrow> string" where
  "collection JobsQuery = ''jobs''"
| "collection AgentFeedbackQuery = ''feedbacks''"
| "collection q = ''other''"

definition index_gateway :: "(string \<Rightarrow> string \<Rightarrow> bool) \<Rightarrow> (string \<times> JsValue \<Rightarrow> JsValue \<Rightarrow> bool) \<Rightarrow> JsValue list \<Rightarrow> gateway" where
  "index_gateway before holds rows request =
     (case (map_of (gr_variables request) ''first'', map_of (gr_variables request) ''where'') of
        (Some (VNum first), Some (VObj conditions)) \<Rightarrow>
          let meets = (\<lambda>r. \<forall>(k, v) \<in> set conditions. if k = ''id_gt'' then (case v of VStr i \<Rightarrow> before i (row_key r) | _ \<Rightarrow> False) else holds (k, v) r)
          in Answer 200 \<lparr>gb_data = Some (VObj [(collection (gr_query request), VArr (take (nat \<lfloor>first\<rfloor>) (filter meets rows)))]), gb_errors = None\<rparr>
      | _ \<Rightarrow> Answer 400 \<lparr>gb_data = None, gb_errors = None\<rparr>)"

text \<open>A reader whose environment lets it ask, whose gateway serves the rows, and whose schema library returns rows of the schema as they are.\<close>

definition reads_from ::
  "Reader \<Rightarrow> TheGraphSubgraphKind \<Rightarrow> ReadOptions \<Rightarrow> Schema \<Rightarrow> (string \<Rightarrow> string \<Rightarrow> bool) \<Rightarrow> (string \<times> JsValue \<Rightarrow> JsValue \<Rightarrow> bool) \<Rightarrow> JsValue list \<Rightarrow> bool" where
  "reads_from R kind options schema before holds rows \<longleftrightarrow> rd_fetch R = index_gateway before holds rows
     \<and> (\<exists>url key. subgraphQueryUrl (refFor R kind options) = Inr url \<and> request_key (rd_env R) url (ro_apiKey options) = Inr key)
     \<and> (\<forall>part. set part \<subseteq> set rows \<longrightarrow> rd_parse R (SArray schema) (VArr part) = Some (VArr part))"

lemma ask_gateway:
  assumes "reads_from R kind options schema before holds rows" "collection query = c" "''id_gt'' \<notin> fst ` set base" "cursor \<noteq> Some ''''"
  shows "ebind (ask_index R kind options query [(''first'', VNum first), (''where'', VObj (base @ cursor_filter cursor))]) (\<lambda>data.
      ebind (parse_rows R schema (member data c)) f)
    = f (take (nat \<lfloor>first\<rfloor>) (after_cursor before cursor (filter (\<lambda>r. \<forall>b \<in> set base. holds b r) rows)))"
proof -
  define meets where "meets = (\<lambda>conditions r. \<forall>(k, v) \<in> set conditions. if k = ''id_gt'' then (case v of VStr i \<Rightarrow> before i (row_key r) | _ \<Rightarrow> False) else holds (k, v) r)"
  define part where "part = take (nat \<lfloor>first\<rfloor>) (filter (meets (base @ cursor_filter cursor)) rows)"
  have "set part \<subseteq> set rows" by (auto simp: part_def dest: in_set_takeD)
  then have p: "parse_rows R schema (VArr part) = Inr part" using assms(1) by (simp add: reads_from_def parse_rows_def parse_with_def)
  have "ask_index R kind options query [(''first'', VNum first), (''where'', VObj (base @ cursor_filter cursor))] = Inr (VObj [(c, VArr part)])"
    using assms(1,2) by (auto simp: reads_from_def ask_index_def queryTheGraph_def index_gateway_def read_response_def ok_status_def Let_def part_def meets_def)
  moreover have "meets base r = (\<forall>b \<in> set base. holds b r)" for r unfolding meets_def using assms(3) by (intro ball_cong) (force split: prod.splits)+
  then have "filter (meets (base @ cursor_filter cursor)) rows = after_cursor before cursor (filter (\<lambda>r. \<forall>b \<in> set base. holds b r) rows)"
    using assms(4) by (auto simp: cursor_filter_def after_cursor_def or_null_def meets_def ball_Un filter_filter conj_commute split: option.splits intro!: filter_cong)
  ultimately show ?thesis using p by (simp add: part_def)
qed

lemma cursor_filter_None [simp]: "cursor_filter None = []"
  by (simp add: cursor_filter_def or_null_def)

lemma clamp_range: "1 \<le> most \<Longrightarrow> 1 \<le> clamp_first given usual most \<and> clamp_first given usual most \<le> most"
  by (simp add: clamp_first_def)

lemma clamp_nat: "\<exists>n. 0 < n \<and> clamp_first (map_option of_nat given) (of_nat usual) (of_nat most) = of_nat n" if "0 < most"
proof (cases given)
  case None then show ?thesis using that by (intro exI [of _ "min (max usual 1) most"]) (simp add: clamp_first_def of_nat_min of_nat_max)
next
  case (Some k) then show ?thesis using that by (intro exI [of _ "min (max k 1) most"]) (simp add: clamp_first_def of_nat_min of_nat_max)
qed

lemma order_filter: "in_id_order before rows \<Longrightarrow> in_id_order before (filter P rows)"
  by (simp add: in_id_order_def sorted_wrt_filter)

lemma listing_complete:
  assumes "reads_from R kind options schema before holds rows" "in_id_order before rows" "collection query = c" "''id_gt'' \<notin> fst ` set base"
    "\<And>cursor. ask cursor = ebind (ask_index R kind options query [(''first'', VNum (clamp_first (map_option of_nat pagesize) (of_nat usual) 1000)),
       (''where'', VObj (base @ cursor_filter cursor))])
       (\<lambda>data. ebind (parse_rows R schema (member data c)) (\<lambda>items. Inr (page_of (clamp_first (map_option of_nat pagesize) (of_nat usual) 1000) items)))"
    "length rows < fuel"
  shows "read_pages ask fuel None = Inr (Some (filter (\<lambda>r. \<forall>b \<in> set base. holds b r) rows))"
proof -
  obtain n where n: "0 < n" "clamp_first (map_option of_nat pagesize) (of_nat usual) 1000 = of_nat n" using clamp_nat [of 1000 pagesize usual] by auto
  let ?rows = "filter (\<lambda>r. \<forall>b \<in> set base. holds b r) rows"
  have "ask cursor = Inr (page_of (of_nat n) (take n (after_cursor before cursor ?rows)))" if "cursor \<noteq> Some ''''" for cursor
    unfolding assms(5) ask_gateway [OF assms(1,3,4) that] n(2) by simp
  moreover have "length ?rows < fuel" using assms(6) by (meson le_less_trans length_filter_le)
  ultimately show ?thesis using n(1) order_filter [OF assms(2)] by (intro pages_from [of before ?rows n "[]"]) simp_all
qed

text \<open>(C17) Reading a listing of jobs page by page misses nothing and repeats nothing: whatever size of page is asked for, passing the cursor back ends
  with every job of the contract and role that meets the filters, in the order of the ids, as soon as the number of pages allowed exceeds the number of rows.\<close>

theorem job_pages_complete:
  assumes "reads_from R Erc8183 options jobSchema before holds rows" "in_id_order before rows" "length rows < fuel"
    "registryEntityId_client (rd_lib R) (lj_chainId input) (lj_contract input) = Inr commerce" "lj_first input = map_option of_nat pagesize"
  shows "read_pages (\<lambda>cursor. listJobs R (input\<lparr>lj_afterId := cursor\<rparr>) options) fuel None
    = Inr (Some (filter (\<lambda>r. \<forall>c \<in> set (jobs_where commerce (input\<lparr>lj_afterId := None\<rparr>)). holds c r) rows))"
proof -
  define base where "base = jobs_where commerce (input\<lparr>lj_afterId := None\<rparr>)"
  have b: "jobs_where commerce (input\<lparr>lj_afterId := cursor\<rparr>) = base @ cursor_filter cursor" for cursor
    by (simp add: base_def jobs_where_def cursor_filter_def or_null_def)
  have "''id_gt'' \<notin> fst ` set base"
    by (cases "lj_role input") (auto simp: base_def jobs_where_def cursor_filter_def or_null_def split: option.splits)
  from listing_complete [OF assms(1,2) _ this _ assms(3), of JobsQuery "''jobs''" _ pagesize 50] show ?thesis
    by (simp add: listJobs_def assms(4,5) b base_def [symmetric] Let_def JOB_PAGE_MAX_def)
qed

theorem feedback_pages_complete:
  assumes "reads_from R Erc8004 options feedbackSchema before holds rows" "in_id_order before rows" "length rows < fuel"
    "locator_id R (lf_locator input) = Inr agent" "lf_first input = map_option of_nat pagesize"
  shows "read_pages (\<lambda>cursor. listAgentFeedback R (input\<lparr>lf_afterId := cursor\<rparr>) options) fuel None
    = Inr (Some (filter (\<lambda>r. \<forall>c \<in> set (feedback_where agent (input\<lparr>lf_afterId := None\<rparr>)). holds c r) rows))"
proof -
  define base where "base = feedback_where agent (input\<lparr>lf_afterId := None\<rparr>)"
  have b: "feedback_where agent (input\<lparr>lf_afterId := cursor\<rparr>) = base @ cursor_filter cursor" for cursor
    by (simp add: base_def feedback_where_def cursor_filter_def or_null_def)
  have "''id_gt'' \<notin> fst ` set base" by (auto simp: base_def feedback_where_def cursor_filter_def or_null_def)
  from listing_complete [OF assms(1,2) _ this _ assms(3), of AgentFeedbackQuery "''feedbacks''" _ pagesize 100] show ?thesis
    by (simp add: listAgentFeedback_def assms(4,5) b base_def [symmetric] Let_def FEEDBACK_PAGE_MAX_def)
qed

section \<open>The client and the index agree on a job\<close>

text \<open>(C18) On every job of every reachable store the client's two ways to tell a payment agree as far as they can: the index's verdict is passed on, and
  without it the restated rule accepts no job the index does not count, and rejects none that is completed and counted.\<close>

theorem settlement_restated:
  assumes "indexed h s" "st_jobs s k = Some j" "\<And>n. bigint (dec_int n) = Some n"
  shows "isSettledPayment bigint (jo_status j) (dec_int (jo_providerPayment j)) (Some (jo_settled j)) = Inr (jo_settled j)
    \<and> isSettledPayment bigint (jo_status j) (dec_int (jo_providerPayment j)) None = Inr (jo_settled j \<and> jo_status j = COMPLETED)"
proof -
  have "job_ok (st_commerces s) (st_engagements s) k j" using reached_parts(1) [OF assms(1)] assms(2) by (simp add: escrow_tables_def)
  then show ?thesis by (auto simp: isSettledPayment_def assms(3) job_ok_def)
qed

text \<open>The status shown for a job of a reachable store is exact: the expiry, read as a number, is the indexed one, an open or funded job shows as expired from that
  second on, a submitted one an hour later, and a job that has ended keeps its status at every time; once shown as expired it stays so.\<close>

theorem shown_status_exact:
  assumes "indexed h s" "st_jobs s k = Some j" "tg_standard L"
  shows "(effectiveJobStatus L (jo_status j) (dec_int (jo_expiresAt j)) now = EXPIRED \<longleftrightarrow>
      jo_status j = EXPIRED \<or> (jo_status j \<in> {OPEN, FUNDED} \<and> of_int (jo_expiresAt j) \<le> now)
      \<or> (jo_status j = SUBMITTED \<and> of_int (jo_expiresAt j) + 3600 \<le> now))
    \<and> effectiveJobStatus L (jo_status j) (dec_int (jo_expiresAt j)) now \<in> {EXPIRED, jo_status j}
    \<and> (\<forall>later \<ge> now. effectiveJobStatus L (jo_status j) (dec_int (jo_expiresAt j)) now = EXPIRED
        \<longrightarrow> effectiveJobStatus L (jo_status j) (dec_int (jo_expiresAt j)) later = EXPIRED)"
proof -
  have "job_ok (st_commerces s) (st_engagements s) k j" using reached_parts(1) [OF assms(1)] assms(2) by (simp add: escrow_tables_def)
  then have b: "0 \<le> jo_expiresAt j" "jo_expiresAt j \<le> 253402300799" by (simp_all add: job_ok_def MAX_TIMESTAMP_SECONDS_def)
  then have "nat (jo_expiresAt j) < 2 ^ 53" by simp
  then have n: "tg_number L (dec_int (jo_expiresAt j)) = of_int (jo_expiresAt j)"
    using assms(3) b(1) by (simp add: tg_standard_def dec_int_def)
  show ?thesis by (auto simp: effectiveJobStatus_def n Let_def EVALUATION_GRACE_PERIOD_SECONDS_def)
qed

section \<open>Instances\<close>

definition demo_row :: "string \<Rightarrow> string \<Rightarrow> JsValue" where
  "demo_row i status = VObj [(''id'', VStr i), (''status'', VStr status)]"

definition demo_table :: "JsValue list" where
  "demo_table = [demo_row ''a'' ''OPEN'', demo_row ''ab'' ''FUNDED'', demo_row ''abc'' ''OPEN'', demo_row ''abcd'' ''OPEN'']"

definition demo_bigint :: "string \<Rightarrow> int option" where
  "demo_bigint s = Some (case s of CHR ''-'' # t \<Rightarrow> - int (undec t) | _ \<Rightarrow> int (undec s))"

lemma demo_bigint_dec: "demo_bigint (dec_int n) = Some n"
proof -
  have "CHR ''-'' \<notin> set (dec_nat m)" for m using dec_nat_digits [of "CHR ''-''" m] by (auto simp: is_digit_def Let_def)
  then have "(case dec_nat m of CHR ''-'' # t \<Rightarrow> - int (undec t) | _ \<Rightarrow> int (undec (dec_nat m))) = int m" for m
    by (auto split: list.splits char.splits bool.splits) (metis list.set_intros(1) undec_dec_nat)+
  then show ?thesis by (simp add: demo_bigint_def dec_int_def)
qed

definition demo_reader :: Reader where
  "demo_reader = \<lparr>rd_lib = demo_tg, rd_env = demo_env_tg,
     rd_fetch = index_gateway (\<lambda>a b. length a < length b) (\<lambda>(k, v) r. k \<noteq> ''status'' \<or> member r k = v) demo_table,
     rd_parse = (\<lambda>schema v. Some v), rd_bigint = demo_bigint, rd_round = of_int\<rparr>"

definition demo_listing :: ListJobsInput where
  "demo_listing = \<lparr>lj_chainId = PartBigint 5042002, lj_contract = demo_address, lj_address = demo_address, lj_role = ProviderRole,
     lj_first = Some 2, lj_afterId = None, lj_status = Some ''OPEN'', lj_settledOnly = None\<rparr>"

definition demo_options :: ReadOptions where
  "demo_options = \<lparr>ro_ref = None, ro_apiKey = Some ''key''\<rparr>"

lemma demo_order: "in_id_order (\<lambda>a b. length a < length b) demo_table"
  by (auto simp: in_id_order_def demo_table_def demo_row_def row_key_def row_id_def intro!: asympI)

lemma demo_reads: "reads_from demo_reader kind demo_options schema (\<lambda>a b. length a < length b) (\<lambda>(k, v) r. k \<noteq> ''status'' \<or> member r k = v) demo_table"
proof -
  have "\<not> isl (subgraphQueryUrl (getSubgraphRef demo_env_tg Erc8004 ArcTestnetChain))" "\<not> isl (subgraphQueryUrl (getSubgraphRef demo_env_tg Erc8183 ArcTestnetChain))"
    by code_simp+
  then have "\<exists>url. subgraphQueryUrl (getSubgraphRef demo_env_tg kind ArcTestnetChain) = Inr url" by (cases kind) (metis isl_def sum.exhaust)+
  moreover have "\<exists>key. request_key demo_env_tg url (Some ''key'') = Inr key" for url
    by (simp add: request_key_def getGraphGatewayApiKey_def required_def resolve_def)
  ultimately show ?thesis by (auto simp: reads_from_def demo_reader_def demo_options_def refFor_def)
qed

lemma demo_chain_id: "\<exists>t. requireChainId demo_tg (PartBigint 5042002) = Inr t"
proof -
  have "\<forall>c \<in> set (dec_nat 5042002). is_digit c" using dec_nat_digits by blast
  then show ?thesis by (simp add: requireChainId_def dec_int_def list_all_iff)
qed

lemma demo_commerce: "\<exists>commerce. registryEntityId_client demo_tg (PartBigint 5042002) demo_address = Inr commerce"
  using demo_chain_id by (auto simp: registryEntityId_client_def chainScopedEntityId_def requireAddress_def demo_address_text(1))

theorem job_pages_complete_witness:
  "read_pages (\<lambda>cursor. listJobs demo_reader (demo_listing\<lparr>lj_afterId := cursor\<rparr>) demo_options) 5 None
    = Inr (Some [demo_row ''a'' ''OPEN'', demo_row ''abc'' ''OPEN'', demo_row ''abcd'' ''OPEN''])"
proof -
  obtain commerce where c: "registryEntityId_client (rd_lib demo_reader) (lj_chainId demo_listing) (lj_contract demo_listing) = Inr commerce"
    using demo_commerce by (auto simp: demo_reader_def demo_listing_def)
  have n: "length demo_table < 5" "lj_first demo_listing = map_option of_nat (Some 2)" by (simp_all add: demo_table_def demo_listing_def)
  show ?thesis unfolding job_pages_complete [OF demo_reads demo_order n(1) c n(2)]
    by (simp add: demo_table_def demo_row_def jobs_where_def cursor_filter_def or_null_def demo_listing_def)
qed

theorem feedback_pages_complete_witness:
  "\<exists>rows. read_pages (\<lambda>cursor. listAgentFeedback demo_reader (\<lparr>lf_locator = \<lparr>al_chainId = PartBigint 5042002, al_identityRegistry = demo_address,
      al_agentId = PartBigint 7\<rparr>, lf_first = Some 1, lf_afterId = cursor, lf_includeRevoked = None, lf_verifiedOnly = None\<rparr>) demo_options) 5 None = Inr (Some rows)"
proof -
  let ?input = "\<lparr>lf_locator = \<lparr>al_chainId = PartBigint 5042002, al_identityRegistry = demo_address, al_agentId = PartBigint 7\<rparr>, lf_first = Some 1,
    lf_afterId = None, lf_includeRevoked = None, lf_verifiedOnly = None\<rparr>"
  obtain agent where a: "locator_id demo_reader (lf_locator ?input) = Inr agent"
    using demo_chain_id by (auto simp: locator_id_def demo_reader_def agentEntityId_client_def chainScopedEntityId_def requireAddress_def demo_address_text(1))
  have n: "length demo_table < 5" "lf_first ?input = map_option of_nat (Some 1)" by (simp_all add: demo_table_def)
  from feedback_pages_complete [OF demo_reads demo_order n(1) a n(2)] show ?thesis by simp
qed

theorem settlement_restated_witness:
  "\<exists>j. st_jobs demo_store demo_job = Some j \<and> isSettledPayment demo_bigint (jo_status j) (dec_int (jo_providerPayment j)) None = Inr (jo_status j = COMPLETED)"
proof -
  obtain j where j: "st_jobs demo_store demo_job = Some j" "jo_settled j" using demo_rows by (auto simp: demo_view_def)
  from settlement_restated [OF demo_indexed j(1) demo_bigint_dec] j show ?thesis by simp
qed

theorem shown_status_exact_witness:
  "\<exists>j. st_jobs demo_store demo_job = Some j \<and> effectiveJobStatus demo_tg (jo_status j) (dec_int (jo_expiresAt j)) 0 \<in> {EXPIRED, jo_status j}"
proof -
  obtain j where j: "st_jobs demo_store demo_job = Some j" using demo_rows by (auto simp: demo_view_def)
  from shown_status_exact [OF demo_indexed j demo_tg_standard] j show ?thesis by blast
qed

end
