(* ===== verification/TG_Registration.thy ===== *)
theory TG_Registration
  imports TG_Ids EN_Tags Json_Text
begin

text \<open>
  The registration document of an agent as it is published (\<open>packages/the-graph/src/erc8004-registration.ts\<close>, \<open>base64.ts\<close>), and what the
  index makes of it (theory SG_Documents). Text is in the bytes of UTF-8; lengths and cuts of the source are in UTF-16 units, which are counted
  on the bytes, and half of a surrogate pair, which a cut can leave, is written in the three bytes its number would have. Contract
  addresses are ASCII. The host of the index is assumed to read JSON (\<open>host_reads\<close>).
\<close>

section \<open>Text in UTF-16 units\<close>

definition lead_size :: "char \<Rightarrow> nat" where
  "lead_size c = (let n = of_char c :: nat in if n < 192 then 1 else if n < 224 then 2 else if n < 240 then 3 else 4)"

definition lead_units :: "char \<Rightarrow> nat" where
  "lead_units c = (if (of_char c :: nat) < 240 then 1 else 2)"

function length16 :: "string \<Rightarrow> nat" where
  "length16 [] = 0"
| "length16 (c # s) = lead_units c + length16 (drop (lead_size c - 1) s)"
  by pat_completeness auto
termination by (relation "measure length") auto

text \<open>The first half of the pair for a character of four bytes.\<close>

definition code_byte :: "string \<Rightarrow> nat \<Rightarrow> nat" where
  "code_byte s i = (if i < length s then of_char (s ! i) mod 64 else 0)"

definition high_half :: "string \<Rightarrow> string" where
  "high_half s =
     (let code = (code_byte s 0 mod 8) * 262144 + code_byte s 1 * 4096 + code_byte s 2 * 64 + code_byte s 3;
          unit = 55296 + (code - 65536) div 1024
      in map char_of [224 + unit div 4096, 128 + unit div 64 mod 64, 128 + unit mod 64])"

function take16 :: "nat \<Rightarrow> string \<Rightarrow> string" where
  "take16 n [] = []"
| "take16 n (c # s) =
     (if n = 0 then [] else if n < lead_units c then high_half (c # s)
      else take (lead_size c) (c # s) @ take16 (n - lead_units c) (drop (lead_size c - 1) s))"
  by pat_completeness auto
termination by (relation "measure (length \<circ> snd)") auto

section \<open>The document\<close>

definition AGENT_REGISTRATION_TYPE :: string where
  "AGENT_REGISTRATION_TYPE = ''https://eips.ethereum.org/EIPS/eip-8004#registration-v1''"

definition AGENT_REGISTRATION_MAX_BYTES :: nat where "AGENT_REGISTRATION_MAX_BYTES = 4096"

record AgentRegistrationService =
  as_name :: string
  as_endpoint :: string
  as_version :: "string option"

record AgentRegistrationInput =
  ri_name :: string
  ri_description :: "string option"
  ri_image :: "string option"
  ri_appUrl :: string
  ri_teamId :: string
  ri_chainId :: "rat option"
  ri_identityRegistry :: "string option"
  ri_agentId :: "string option"
  ri_services :: "AgentRegistrationService list option"

record AgentRegistrationDocument =
  ad_type :: string
  ad_name :: string
  ad_description :: "string option"
  ad_image :: "string option"
  ad_active :: bool
  ad_services :: "AgentRegistrationService list"
  ad_registrations :: "(string \<times> string option) list"
  ad_supportedTrust :: "string list"

datatype registration_error = NameRequired | TooLarge nat

definition starts_white :: "string \<Rightarrow> bool" where
  "starts_white s \<longleftrightarrow> find (\<lambda>w. w \<noteq> [] \<and> take (length w) s = w) white_spaces \<noteq> None"

lemma strip_front_shorter: "length (strip_front ws s) \<le> length s"
proof (induction ws s rule: strip_front.induct)
  case (1 ws s)
  show ?case by (subst strip_front.simps) (auto split: option.splits dest!: 1)
qed

lemma strip_front_white: "starts_white s \<Longrightarrow> length (strip_front white_spaces s) < length s"
proof -
  assume "starts_white s"
  then obtain w where f: "find (\<lambda>w. w \<noteq> [] \<and> take (length w) s = w) white_spaces = Some w" unfolding starts_white_def by blast
  then have w: "w \<noteq> []" "take (length w) s = w" by (auto simp: find_Some_iff)
  then have "s \<noteq> []" by auto
  with w(1) have "length (drop (length w) s) < length s" by simp
  with strip_front_shorter [of white_spaces "drop (length w) s"] show ?thesis by (subst strip_front.simps) (simp add: f)
qed

text \<open>\<open>s.replace(/\s+/g, ' ')\<close>.\<close>

function collapse_white :: "string \<Rightarrow> string" where
  "collapse_white [] = []"
| "collapse_white (c # s) = (if starts_white (c # s) then CHR '' '' # collapse_white (strip_front white_spaces (c # s)) else c # collapse_white s)"
  by pat_completeness auto
termination by (relation "measure length") (auto dest: strip_front_white)

definition ellipsis_mark :: string where
  "ellipsis_mark = map char_of [226 :: nat, 128, 166]"

definition cleanText :: "string option \<Rightarrow> nat \<Rightarrow> string option" where
  "cleanText v most =
     (let clean = js_trim (collapse_white (or_text v)) in
      if clean = '''' then None else if most < length16 clean then Some (take16 (most - 1) clean @ ellipsis_mark) else Some clean)"

fun plain_url_rest :: "string \<Rightarrow> bool" where
  "plain_url_rest [] = True"
| "plain_url_rest (c # s) = (\<not> starts_white (c # s) \<and> c \<noteq> CHR 0x22 \<and> plain_url_rest s)"

definition HTTPS_URL :: "string \<Rightarrow> bool" where
  "HTTPS_URL url \<longleftrightarrow> take 8 url = ''https://'' \<and> drop 8 url \<noteq> [] \<and> plain_url_rest (drop 8 url)"

definition MAX_DESCRIPTION :: nat where "MAX_DESCRIPTION = 500"

definition deskAgentServices :: "string \<Rightarrow> string \<Rightarrow> AgentRegistrationService list" where
  "deskAgentServices appUrl teamId =
     (let base = rev (dropWhile (\<lambda>c. c = CHR ''/'') (rev appUrl)) @ ''/api/public/agents/'' @ teamId in
      [\<lparr>as_name = ''web'', as_endpoint = base @ ''/profile'', as_version = None\<rparr>,
       \<lparr>as_name = ''a2a'', as_endpoint = base @ ''/agent-card.json'', as_version = None\<rparr>,
       \<lparr>as_name = ''x402'', as_endpoint = base @ ''/x402'', as_version = None\<rparr>])"

text \<open>\<open>x ? f(x) : none\<close> of a text that may be missing or empty.\<close>

definition if_text :: "string option \<Rightarrow> string option" where
  "if_text x = (case x of None \<Rightarrow> None | Some s \<Rightarrow> if s = '''' then None else Some s)"

definition build_registrations :: "TgLib \<Rightarrow> AgentRegistrationInput \<Rightarrow> (string \<times> string option) list" where
  "build_registrations L input =
     (case (ri_chainId input, if_text (ri_identityRegistry input)) of
        (Some chain, Some registry) \<Rightarrow>
          if chain = 0 then [] else [(''eip155:'' @ tg_text L chain @ '':'' @ to_lower registry, if_text (ri_agentId input))]
      | _ \<Rightarrow> [])"

definition buildAgentRegistrationDocument :: "TgLib \<Rightarrow> AgentRegistrationInput \<Rightarrow> registration_error + AgentRegistrationDocument" where
  "buildAgentRegistrationDocument L input =
     (case cleanText (Some (ri_name input)) 120 of
        None \<Rightarrow> Inl NameRequired
      | Some name \<Rightarrow> Inr \<lparr>ad_type = AGENT_REGISTRATION_TYPE, ad_name = name, ad_description = cleanText (ri_description input) MAX_DESCRIPTION,
          ad_image = (case if_text (ri_image input) of None \<Rightarrow> None | Some i \<Rightarrow> if HTTPS_URL i then Some i else None), ad_active = True,
          ad_services = deskAgentServices (ri_appUrl input) (ri_teamId input) @ (case ri_services input of None \<Rightarrow> [] | Some ss \<Rightarrow> ss),
          ad_registrations = build_registrations L input, ad_supportedTrust = [''reputation'']\<rparr>)"

section \<open>The text on chain\<close>

definition opt_member :: "string \<Rightarrow> string option \<Rightarrow> (string \<times> JsonValue) list" where
  "opt_member k x = (case x of None \<Rightarrow> [] | Some s \<Rightarrow> [(k, JStr s)])"

definition service_json :: "AgentRegistrationService \<Rightarrow> JsonValue" where
  "service_json s = JObj ([(''name'', JStr (as_name s)), (''endpoint'', JStr (as_endpoint s))] @ opt_member ''version'' (as_version s))"

definition reference_json :: "string \<times> string option \<Rightarrow> JsonValue" where
  "reference_json r = JObj ((''agentRegistry'', JStr (fst r)) # opt_member ''agentId'' (snd r))"

definition document_json :: "AgentRegistrationDocument \<Rightarrow> JsonValue" where
  "document_json d = JObj ([(''type'', JStr (ad_type d)), (''name'', JStr (ad_name d))] @ opt_member ''description'' (ad_description d)
     @ opt_member ''image'' (ad_image d) @ [(''active'', JsonValue.JBool (ad_active d)), (''services'', JArr (map service_json (ad_services d))),
       (''registrations'', JArr (map reference_json (ad_registrations d))), (''supportedTrust'', JArr (map JStr (ad_supportedTrust d)))])"

text \<open>\<open>JSON.stringify\<close> writes half of a surrogate pair as an escape.\<close>

fun escape_halves :: "string \<Rightarrow> string" where
  "escape_halves (a # b # c # s) =
     (if of_char a = (237 :: nat) \<and> (160 :: nat) \<le> of_char b
      then [CHR 0x5C, CHR ''u''] @ hex4 (53248 + (of_char b - 128) * 64 + (of_char c - 128)) @ escape_halves s
      else a # escape_halves (b # c # s))"
| "escape_halves s = s"

definition document_text :: "TgLib \<Rightarrow> AgentRegistrationDocument \<Rightarrow> string" where
  "document_text L d = escape_halves (stringify (tg_text L) '''' '''' (document_json d))"

definition toBase64 :: "string \<Rightarrow> string" where
  "toBase64 input = base64_encode (fromUTF8 input)"

definition DATA_URI_PREFIX :: string where "DATA_URI_PREFIX = ''data:application/json;base64,''"

definition buildAgentRegistrationDataUri :: "TgLib \<Rightarrow> AgentRegistrationInput \<Rightarrow> registration_error + string" where
  "buildAgentRegistrationDataUri L input =
     ebind (buildAgentRegistrationDocument L input) (\<lambda>document.
     let uri = DATA_URI_PREFIX @ toBase64 (document_text L document) in
     if AGENT_REGISTRATION_MAX_BYTES < length uri then Inl (TooLarge (length uri)) else Inr uri)"

definition isAgentRegistrationDataUri :: "string \<Rightarrow> bool" where
  "isAgentRegistrationDataUri uri = startsWith uri DATA_URI_PREFIX"

section \<open>What the index reads\<close>

fun host_json :: "JsonValue \<Rightarrow> json" where
  "host_json JsonValue.JNull = json.JNull"
| "host_json (JsonValue.JBool b) = json.JBool b"
| "host_json (JNum q) = JNumber (Finite q)"
| "host_json JInf = JNumber PosInf"
| "host_json (JStr s) = JString s"
| "host_json (JArr xs) = JArray (map host_json xs)"
| "host_json (JObj kvs) = JObject (map (\<lambda>(k, x). (k, host_json x)) kvs)"

text \<open>The host reads every text that is JSON as the value it stands for, and a text of this document back from its bytes.\<close>

definition host_reads :: "Host \<Rightarrow> string \<Rightarrow> bool" where
  "host_reads h json \<longleftrightarrow> h_utf8Decode h (fromUTF8 json) = json
     \<and> (\<exists>num. \<forall>j. JSON_parse num json = Some j \<longrightarrow> h_tryParse h json = Some (host_json j))"

lemma document_printable: "printable num txt (document_json d)"
  by (auto simp: document_json_def service_json_def reference_json_def opt_member_def split: option.splits)

lemma encode_head: "base64_encode (a # bs) = letter (unat a div 4) # tl (base64_encode (a # bs))"
  by (cases bs rule: base64_groups.cases) (auto simp: base64_encode_def)

lemma data_uri_decodes:
  assumes "utf8 (fromUTF8 (CHR ''{'' # json)) = CHR ''{'' # json"
  shows "decodeDataUri utf8 (DATA_URI_PREFIX @ toBase64 (CHR ''{'' # json)) = Some (CHR ''{'' # json)"
proof -
  define payload where "payload = toBase64 (CHR ''{'' # json)"
  have "letter 30 = CHR ''e''" by code_simp
  then have "hd payload = CHR ''e''" unfolding payload_def toBase64_def fromUTF8_def by (simp, subst encode_head) simp
  then have p: "\<not> startsWith payload ''{''" "\<not> startsWith payload ''[''" by (cases payload; simp add: startsWith_def)+
  have m: "hasBase64Marker ''application/json;base64''" by code_simp
  have "base64DecodeToString utf8 payload = Some (CHR ''{'' # json)"
    using assms base64_decode_encode_ws withoutWhitespace_encode by (simp add: payload_def toBase64_def base64DecodeToString_def)
  moreover have "to_lower (DATA_URI_PREFIX @ payload) = to_lower DATA_URI_PREFIX @ to_lower payload" by (simp add: to_lower_def)
  moreover have "startsWith (to_lower DATA_URI_PREFIX @ x) ''data:''" for x by (simp add: startsWith_def DATA_URI_PREFIX_def to_lower_def lower_char_def)
  ultimately show ?thesis using p m unfolding payload_def [symmetric]
    by (simp add: decodeDataUri_def) (simp add: DATA_URI_PREFIX_def)
qed

section \<open>Rows\<close>

lemma collect_objects_map: "collect_objects (map (\<lambda>x. JObject (f x)) xs) = map f xs"
  by (induction xs) auto

lemma collect_strings_map: "collect_strings (map JString xs) = xs"
  by (induction xs) auto

definition service_entries :: "AgentRegistrationService \<Rightarrow> json_map" where
  "service_entries s = [(''name'', JString (as_name s)), (''endpoint'', JString (as_endpoint s))]
     @ (case as_version s of None \<Rightarrow> [] | Some v \<Rightarrow> [(''version'', JString v)])"

definition service_row :: "bytes \<Rightarrow> int \<Rightarrow> AgentRegistrationService \<Rightarrow> AgentService" where
  "service_row rid p s = \<lparr>sv_id = concatI32 rid p, sv_registration = rid, sv_position = p, sv_kind = classifyServiceKind (as_name s),
     sv_name = as_name s, sv_endpoint = as_endpoint s, sv_version = as_version s, sv_capabilitiesInferred = False\<rparr>"

lemma save_service: "dc_services (saveAgentService h rid p (service_entries s) d) = (dc_services d)(concatI32 rid p \<mapsto> service_row rid p s)"
proof -
  have "asString (get (service_entries s) ''name'') = Some (as_name s)" "asString (get (service_entries s) ''endpoint'') = Some (as_endpoint s)"
    "asString (get (service_entries s) ''version'') = as_version s"
    by (auto simp: service_entries_def get_def split: option.splits)
  then show ?thesis using saveAgentService_rows(2) by (simp add: service_row_def)
qed

lemma save_services_before:
  assumes "0 \<le> q" "q < p" "p + int (length ss) \<le> 2 ^ 32"
  shows "dc_services (fold_index (saveAgentService h rid) p (map service_entries ss) d) (concatI32 rid q) = dc_services d (concatI32 rid q)"
  using assms by (induction ss arbitrary: p d) (auto simp: save_service concatI32_inj)

lemma save_services_nth:
  assumes "0 \<le> p" "p + int (length ss) \<le> 2 ^ 32" "i < length ss"
  shows "dc_services (fold_index (saveAgentService h rid) p (map service_entries ss) d) (concatI32 rid (p + int i)) = Some (service_row rid (p + int i) (ss ! i))"
  using assms
proof (induction ss arbitrary: p d i)
  case (Cons s ss)
  show ?case
  proof (cases i)
    case 0
    with Cons.prems save_services_before [of p "p + 1" ss] show ?thesis by (simp add: save_service)
  next
    case (Suc j)
    with Cons.prems Cons.IH [of "p + 1" j] show ?thesis by (simp add: algebra_simps)
  qed
qed simp

definition reference_entries :: "string \<times> string option \<Rightarrow> json_map" where
  "reference_entries r = (''agentRegistry'', JString (fst r)) # (case snd r of None \<Rightarrow> [] | Some i \<Rightarrow> [(''agentId'', JString i)])"

definition reference_row :: "bytes \<Rightarrow> int \<Rightarrow> string \<times> string option \<Rightarrow> AgentRegistrationReference" where
  "reference_row rid p r = \<lparr>rf_id = concatI32 rid p, rf_registration = rid, rf_position = p, rf_agentRegistry = fst r,
     rf_namespace = c10_namespace (parseCaip10 (fst r)), rf_chainId = c10_chainId (parseCaip10 (fst r)),
     rf_registryAddress = c10_reference (parseCaip10 (fst r)), rf_agentId = None\<rparr>"

lemma save_reference: "saveAgentRegistrationReference rid p (reference_entries r) d = d\<lparr>dc_references := (dc_references d)(concatI32 rid p \<mapsto> reference_row rid p r)\<rparr>"
  by (simp add: saveAgentRegistrationReference_def reference_entries_def reference_row_def get_def Let_def split: option.splits)

lemma reference_frame: "dc_services (saveAgentRegistrationReference rid p r d) = dc_services d"
  by (simp add: saveAgentRegistrationReference_def Let_def split: option.splits)

lemma trust_frame: "dc_services (saveAgentTrust rid p n d) = dc_services d" "dc_references (saveAgentTrust rid p n d) = dc_references d"
  by (simp_all add: saveAgentTrust_def Let_def)

lemmas registration_frames = fold_index_frame [of dc_services "saveAgentRegistrationReference rid" for rid, OF reference_frame]
  fold_index_frame [of dc_services "saveAgentTrust rid" for rid, OF trust_frame(1)]
  fold_index_frame [of dc_references "saveAgentTrust rid" for rid, OF trust_frame(2)]

text \<open>The members of the document as the index looks them up.\<close>

definition document_entries :: "AgentRegistrationDocument \<Rightarrow> json_map" where
  "document_entries d = map (\<lambda>(k, x). (k, host_json x)) (case document_json d of JObj kvs \<Rightarrow> kvs | _ \<Rightarrow> [])"

lemma host_service: "host_json (service_json s) = JObject (service_entries s)"
  by (simp add: service_json_def service_entries_def opt_member_def split: option.splits)

lemma host_reference: "host_json (reference_json r) = JObject (reference_entries r)"
  by (simp add: reference_json_def reference_entries_def opt_member_def split: option.splits)

lemma document_lookups:
  "host_json (document_json d) = JObject (document_entries d)"
  "get (document_entries d) ''name'' = Some (JString (ad_name d))"
  "asString (get (document_entries d) ''description'') = ad_description d"
  "asString (get (document_entries d) ''image'') = ad_image d"
  "get (document_entries d) ''active'' = Some (json.JBool (ad_active d))"
  "get (document_entries d) ''services'' = Some (JArray (map (\<lambda>s. JObject (service_entries s)) (ad_services d)))"
  "get (document_entries d) ''registrations'' = Some (JArray (map (\<lambda>r. JObject (reference_entries r)) (ad_registrations d)))"
  by (auto simp: document_entries_def document_json_def get_def opt_member_def host_service host_reference comp_def split: option.splits)

lemma written_rows:
  assumes "length (ad_services doc) < 2 ^ 32"
    and written: "d' = write_registration h rid agent uri kind raw (document_entries doc) d"
  shows "\<exists>row. dc_registrations d' rid = Some row \<and> rg_name row = Some (ad_name doc) \<and> rg_description row = ad_description doc
      \<and> rg_image row = ad_image doc \<and> rg_active row = Some (ad_active doc) \<and> rg_rawJSON row = raw"
    "\<forall>i < length (ad_services doc). dc_services d' (concatI32 rid (int i)) = Some (service_row rid (int i) (ad_services doc ! i))"
    "ad_registrations doc = [r] \<Longrightarrow> dc_references d' (concatI32 rid 0) = Some (reference_row rid 0 r)"
proof -
  show "\<exists>row. dc_registrations d' rid = Some row \<and> rg_name row = Some (ad_name doc) \<and> rg_description row = ad_description doc
      \<and> rg_image row = ad_image doc \<and> rg_active row = Some (ad_active doc) \<and> rg_rawJSON row = raw"
    by (simp add: written write_registration_def Let_def document_lookups present_bool_def)
  have "int (length (ad_services doc)) \<le> 2 ^ 32" using assms(1) by simp
  then show "\<forall>i < length (ad_services doc). dc_services d' (concatI32 rid (int i)) = Some (service_row rid (int i) (ad_services doc ! i))"
    using save_services_nth [of 0 "ad_services doc" _ h rid]
    by (simp add: written write_registration_def Let_def document_lookups registration_frames asObjectArray_def collect_objects_map)
  show "dc_references d' (concatI32 rid 0) = Some (reference_row rid 0 r)" if "ad_registrations doc = [r]"
    using that by (simp add: written write_registration_def Let_def document_lookups registration_frames asObjectArray_def collect_objects_map [of _ "[r]", simplified] save_reference)
qed

text \<open>(C21) What the client publishes is what the index shows: the text of a document that holds no cut character is a data URI of at most 4096 bytes, and a host
  that reads JSON turns it into a registration with the document's name, description and image, and one row per service in order.\<close>

theorem published_registration_indexed:
  assumes "buildAgentRegistrationDocument L input = Inr doc" "buildAgentRegistrationDataUri L input = Inr uri"
    "document_text L doc = stringify (tg_text L) '''' '''' (document_json doc)" "host_reads h (document_text L doc)"
    "length (ad_services doc) < 2 ^ 32" "dc_registrations d (h_keccak256 h (agent @ fromUTF8 uri)) = None"
  shows "length uri \<le> 4096 \<and> isAgentRegistrationDataUri uri \<and> (\<exists>d' row. let rid = h_keccak256 h (agent @ fromUTF8 uri) in
      resolveAgentRegistration h agent uri (classifyUri uri) d = (Some rid, d') \<and> dc_registrations d' rid = Some row
      \<and> rg_name row = Some (ad_name doc) \<and> rg_description row = ad_description doc \<and> rg_image row = ad_image doc \<and> rg_active row = Some True
      \<and> rg_rawJSON row = document_text L doc
      \<and> (\<forall>i < length (ad_services doc). dc_services d' (concatI32 rid (int i)) = Some (service_row rid (int i) (ad_services doc ! i))))"
proof -
  let ?json = "document_text L doc" and ?rid = "h_keccak256 h (agent @ fromUTF8 uri)"
  have u: "uri = DATA_URI_PREFIX @ toBase64 ?json" "length uri \<le> 4096"
    using assms(1,2) by (auto simp: buildAgentRegistrationDataUri_def AGENT_REGISTRATION_MAX_BYTES_def Let_def split: if_splits)
  have act: "ad_active doc" using assms(1) by (auto simp: buildAgentRegistrationDocument_def split: option.splits)
  obtain rest where j: "?json = CHR ''{'' # rest" using assms(3) by (simp add: document_json_def block_def)
  from assms(4) obtain num where num: "h_utf8Decode h (fromUTF8 ?json) = ?json"
    "\<And>v. JSON_parse num ?json = Some v \<Longrightarrow> h_tryParse h ?json = Some (host_json v)" unfolding host_reads_def by blast
  have "JSON_parse num ?json = Some (document_json doc)"
    using stringify_back [OF document_printable, of "''''" "''''" num "tg_text L" doc] assms(3) by simp
  then have p: "h_tryParse h ?json = Some (JObject (document_entries doc))" using num(2) by (simp add: document_lookups)
  have e: "decodeDataUri (h_utf8Decode h) uri = Some ?json" unfolding u(1) using data_uri_decodes [of "h_utf8Decode h" rest] num(1) j by simp
  have c: "classifyUri uri = URI_KIND_DATA"
    unfolding u(1) by (simp add: classifyUri_def DATA_URI_PREFIX_def Let_def startsWith_def to_lower_def lower_char_def)
  have "resolveAgentRegistration h agent uri (classifyUri uri) d = (Some ?rid, write_registration h ?rid agent uri URI_KIND_DATA ?json (document_entries doc) d)"
    using assms(6) by (simp add: resolveAgentRegistration_def c e p Let_def)
  moreover have "isAgentRegistrationDataUri uri" unfolding u(1) by (simp add: isAgentRegistrationDataUri_def startsWith_def)
  ultimately show ?thesis using u(2) act written_rows(1,2) [OF assms(5) refl, of h ?rid agent uri URI_KIND_DATA ?json d] unfolding Let_def by metis
qed

text \<open>The agent id is lost on the way: the client writes it as a text and the index takes a number only, so the reference row of a document that names its
  agent has the registry and no agent.\<close>

theorem published_agent_id_lost:
  "\<exists>entries row. host_json (reference_json (registry, Some agentId)) = JObject entries
     \<and> dc_references (saveAgentRegistrationReference rid p entries d) (concatI32 rid p) = Some row
     \<and> rf_agentRegistry row = registry \<and> rf_agentId row = None"
  by (simp add: host_reference save_reference) (simp add: reference_row_def)

section \<open>Instances\<close>

definition demo_registration :: AgentRegistrationInput where
  "demo_registration = \<lparr>ri_name = ''acme'', ri_description = None, ri_image = None, ri_appUrl = ''https://d.io/'', ri_teamId = ''t1'', ri_chainId = None,
     ri_identityRegistry = None, ri_agentId = None, ri_services = Some [\<lparr>as_name = ''mcp'', as_endpoint = ''u'', as_version = Some ''1''\<rparr>]\<rparr>"

definition demo_document :: AgentRegistrationDocument where
  "demo_document = \<lparr>ad_type = AGENT_REGISTRATION_TYPE, ad_name = ''acme'', ad_description = None, ad_image = None, ad_active = True,
     ad_services = deskAgentServices ''https://d.io'' ''t1'' @ [\<lparr>as_name = ''mcp'', as_endpoint = ''u'', as_version = Some ''1''\<rparr>],
     ad_registrations = [], ad_supportedTrust = [''reputation'']\<rparr>"

definition demo_json_host :: Host where
  "demo_json_host = demo_host\<lparr>h_tryParse := (\<lambda>t. map_option host_json (JSON_parse Some t))\<rparr>"

lemma starts_white_hd: "starts_white (c # s) \<Longrightarrow> c \<in> hd ` set white_spaces"
proof -
  assume "starts_white (c # s)"
  then obtain w where "w \<in> set white_spaces" "w \<noteq> []" "take (length w) (c # s) = w" by (auto simp: starts_white_def find_None_iff)
  then show ?thesis by (metis (no_types) hd_take image_eqI length_greater_0_conv list.sel(1))
qed

lemma label_clean:
  assumes "list_all label_char s" "s \<noteq> []" "length s \<le> most"
  shows "cleanText (Some s) most = Some s"
proof -
  have "\<not> starts_white (c # t)" if "label_char c" for c t using starts_white_hd label_char_facts(4) [OF that] by blast
  then have "collapse_white s = s" using assms(1) by (induction s) simp_all
  moreover have "lead_size c = 1" "lead_units c = 1" if "label_char c" for c using label_char_facts(1) [OF that] by (simp_all add: lead_size_def lead_units_def)
  then have "length16 s = length s" using assms(1) by (induction s) simp_all
  ultimately show ?thesis using assms label_trimmed [OF assms(1)] by (simp add: cleanText_def or_text_def Let_def)
qed

lemma demo_built: "buildAgentRegistrationDocument demo_tg demo_registration = Inr demo_document"
proof -
  have "list_all label_char ''acme''" by (simp add: label_char_def)
  then have "cleanText (Some ''acme'') 120 = Some ''acme''" by (intro label_clean) simp_all
  moreover have "cleanText None MAX_DESCRIPTION = None"
    by (simp add: cleanText_def or_text_def js_trim_def strip_front_kept Let_def)
  ultimately show ?thesis
    by (simp add: buildAgentRegistrationDocument_def demo_registration_def demo_document_def if_text_def build_registrations_def deskAgentServices_def Let_def)
qed

lemma ascii_no_halves: "list_all (\<lambda>c. of_char c \<noteq> (237 :: nat)) s \<Longrightarrow> escape_halves s = s"
  by (induction s rule: escape_halves.induct) auto

lemma demo_text: "document_text L demo_document = stringify (tg_text L) '''' '''' (document_json demo_document)"
  "length (document_text L demo_document) \<le> 1000"
proof -
  let ?t = "stringify (tg_text L) '''' '''' (document_json demo_document)"
  note D = document_json_def demo_document_def opt_member_def service_json_def deskAgentServices_def AGENT_REGISTRATION_TYPE_def block_def quote_text_def
    quoted_char_def line_break_def colon_gap_def Let_def
  have "list_all (\<lambda>c. of_char c \<noteq> (237 :: nat)) ?t" by (simp add: D)
  then show e: "document_text L demo_document = ?t" by (simp add: document_text_def ascii_no_halves)
  show "length (document_text L demo_document) \<le> 1000" unfolding e by (simp add: D)
qed

lemma encode_short: "length (base64_encode bs) \<le> 2 * length bs + 2"
proof -
  have "length (base64_groups bs) \<le> 2 * length bs" by (induction bs rule: base64_groups.induct) simp_all
  then show ?thesis by (simp add: base64_encode_def)
qed

lemma demo_json_reads: "host_reads demo_json_host json"
proof -
  have "char_of (unat (of_char c :: 8 word)) = c" for c :: char
  proof -
    have "unat (word_of_nat (of_char c) :: 8 word) = of_char c" by (simp add: unsigned_of_nat take_bit_eq_mod)
    then show ?thesis by (simp add: of_nat_of_char)
  qed
  then show ?thesis by (auto simp: host_reads_def demo_json_host_def demo_host_def fromUTF8_def comp_def intro!: exI [of _ Some])
qed

theorem published_registration_indexed_witness:
  "\<exists>uri d' row. buildAgentRegistrationDataUri demo_tg demo_registration = Inr uri
     \<and> resolveAgentRegistration demo_json_host [7] uri (classifyUri uri) empty_documents = (Some ([7] @ fromUTF8 uri), d')
     \<and> dc_registrations d' ([7] @ fromUTF8 uri) = Some row \<and> rg_name row = Some ''acme''
     \<and> (\<exists>s. dc_services d' (concatI32 ([7] @ fromUTF8 uri) 3) = Some s \<and> sv_kind s = ''MCP'')"
proof -
  have l: "length (DATA_URI_PREFIX @ toBase64 (document_text demo_tg demo_document)) \<le> 4096"
    using encode_short [of "fromUTF8 (document_text demo_tg demo_document)"] demo_text(2) [of demo_tg]
    by (simp add: toBase64_def fromUTF8_def DATA_URI_PREFIX_def)
  then obtain uri where u: "buildAgentRegistrationDataUri demo_tg demo_registration = Inr uri"
    by (simp add: buildAgentRegistrationDataUri_def demo_built AGENT_REGISTRATION_MAX_BYTES_def Let_def)
  have n: "length (ad_services demo_document) = 4" "ad_name demo_document = ''acme''" "classifyServiceKind (as_name (ad_services demo_document ! 3)) = ''MCP''"
    by code_simp+
  have k: "h_keccak256 demo_json_host = (\<lambda>b. b)" by (simp add: demo_json_host_def demo_host_def)
  have e: "dc_registrations empty_documents x = None" for x by (simp add: empty_documents_def)
  have "\<exists>d' row. resolveAgentRegistration demo_json_host [7] uri (classifyUri uri) empty_documents = (Some ([7] @ fromUTF8 uri), d')
     \<and> dc_registrations d' ([7] @ fromUTF8 uri) = Some row \<and> rg_name row = Some ''acme''
     \<and> (\<forall>i < 4. dc_services d' (concatI32 ([7] @ fromUTF8 uri) (int i)) = Some (service_row ([7] @ fromUTF8 uri) (int i) (ad_services demo_document ! i)))"
    using published_registration_indexed [OF demo_built u demo_text(1) demo_json_reads, of empty_documents "[7]"] unfolding k e n Let_def by auto
  then obtain d' row where r: "resolveAgentRegistration demo_json_host [7] uri (classifyUri uri) empty_documents = (Some ([7] @ fromUTF8 uri), d')"
    "dc_registrations d' ([7] @ fromUTF8 uri) = Some row" "rg_name row = Some ''acme''"
    "\<forall>i < 4. dc_services d' (concatI32 ([7] @ fromUTF8 uri) (int i)) = Some (service_row ([7] @ fromUTF8 uri) (int i) (ad_services demo_document ! i))" by blast
  from r(4) [THEN spec, of 3] n(3) have "\<exists>s. dc_services d' (concatI32 ([7] @ fromUTF8 uri) 3) = Some s \<and> sv_kind s = ''MCP''"
    by (simp add: service_row_def)
  with u r(1-3) show ?thesis by blast
qed

end
