(* ===== verification/MC_UserOp.thy ===== *)
theory MC_UserOp
  imports CR_Values
begin

text \<open>
  User operations as the sandbox of the wallet service takes them (\<open>packages/mock-circle/src/userop.ts\<close>, \<open>rpc/errors.ts\<close>): the wire form with its
  checks, and the packed form of the contract. A parameter of a call is a \<open>JsValue\<close>; hexadecimal numbers and words are text, as the source has them.
  The checksum of an address and the text \<open>String\<close> gives a value that is no text are the fields of \<open>McLib\<close>; hexadecimal text, padding and
  concatenation are those of the library the source calls, which are written out. A value that came as JSON is no big integer.
\<close>

section \<open>Hexadecimal text\<close>

record McLib =
  mc_checksum :: "string \<Rightarrow> string"
  mc_string :: "JsValue \<Rightarrow> string"

datatype mc_error = InvalidParams string | NotBigInt | NegativeQuantity | TooWide nat | InvalidAddressError string
  | RpcError int string

fun quantity_digits :: "nat \<Rightarrow> string" where
  "quantity_digits n = (if n < 16 then [hex_digit n] else quantity_digits (n div 16) @ [hex_digit (n mod 16)])"

declare quantity_digits.simps [simp del]

definition of_hex_text :: "string \<Rightarrow> nat" where
  "of_hex_text s = foldl (\<lambda>n c. 16 * n + unhex c) 0 s"

definition isHex :: "string \<Rightarrow> bool" where
  "isHex s \<longleftrightarrow> take 2 s = ''0x'' \<and> list_all is_hex_digit (drop 2 s)"

definition hex_size :: "string \<Rightarrow> nat" where
  "hex_size s = (length s - 1) div 2"

definition toHex :: "int \<Rightarrow> mc_error + string" where
  "toHex n = (if n < 0 then Inl NegativeQuantity else Inr (''0x'' @ quantity_digits (nat n)))"

definition concatHex_mc :: "string list \<Rightarrow> string" where
  "concatHex_mc hs = ''0x'' @ concat (map (drop 2) hs)"

definition pad_hex :: "nat \<Rightarrow> string \<Rightarrow> mc_error + string" where
  "pad_hex bytes h = (let digits = drop 2 h in
     if 2 * bytes < length digits then Inl (TooWide bytes) else Inr (''0x'' @ replicate (2 * bytes - length digits) CHR ''0'' @ digits))"

section \<open>The wire form\<close>

record RpcUserOperationV07 =
  uo_sender :: string
  uo_nonce :: string
  uo_factory :: "string option"
  uo_factoryData :: "string option"
  uo_callData :: string
  uo_callGasLimit :: "string option"
  uo_verificationGasLimit :: "string option"
  uo_preVerificationGas :: "string option"
  uo_maxFeePerGas :: "string option"
  uo_maxPriorityFeePerGas :: "string option"
  uo_paymaster :: "string option"
  uo_paymasterVerificationGasLimit :: "string option"
  uo_paymasterPostOpGasLimit :: "string option"
  uo_paymasterData :: "string option"
  uo_signature :: "string option"
  uo_initCode :: "string option"
  uo_paymasterAndData :: "string option"

record PackedUserOperation =
  pu_sender :: string
  pu_nonce :: int
  pu_initCode :: string
  pu_callData :: string
  pu_accountGasLimits :: string
  pu_preVerificationGas :: int
  pu_gasFees :: string
  pu_paymasterAndData :: string
  pu_signature :: string

text \<open>\<open>BigInt(s)\<close> of a hexadecimal text, of which \<open>0x\<close> alone is none, and of a number, which must be whole.\<close>

definition hex_bigint :: "string \<Rightarrow> mc_error + int" where
  "hex_bigint s = (if drop 2 s = '''' then Inl NotBigInt else Inr (int (of_hex_text (drop 2 s))))"

definition whole_bigint :: "rat \<Rightarrow> mc_error + int" where
  "whole_bigint q = (if q = of_int \<lfloor>q\<rfloor> then Inr \<lfloor>q\<rfloor> else Inl NotBigInt)"

definition quantity_text :: "string \<Rightarrow> string \<Rightarrow> mc_error + int" where
  "quantity_text s field = (if isHex s then hex_bigint s else if s \<noteq> '''' \<and> list_all is_digit s then Inr (int (undec s)) else Inl (InvalidParams field))"

definition hexToBig :: "McLib \<Rightarrow> JsValue \<Rightarrow> string \<Rightarrow> int option \<Rightarrow> mc_error + int" where
  "hexToBig M v field fallback =
     (if v = VUndefined \<or> v = VNull \<or> v = VStr '''' then (case fallback of Some n \<Rightarrow> Inr n | None \<Rightarrow> Inl (InvalidParams field))
      else case v of
        VNum q \<Rightarrow> whole_bigint q
      | VNotFinite \<Rightarrow> Inl NotBigInt
      | VStr s \<Rightarrow> quantity_text s field
      | _ \<Rightarrow> if mc_string M v \<noteq> '''' \<and> list_all is_digit (mc_string M v) then Inr (int (undec (mc_string M v))) else Inl (InvalidParams field))"

definition packUint128Pair :: "int \<Rightarrow> int \<Rightarrow> mc_error + string" where
  "packUint128Pair a b = ebind (toHex a) (\<lambda>ha. ebind (pad_hex 16 ha) (\<lambda>pa. ebind (toHex b) (\<lambda>hb. ebind (pad_hex 16 hb) (\<lambda>pb. Inr (concatHex_mc [pa, pb])))))"

definition unpackUint128Pair :: "string \<Rightarrow> int \<times> int" where
  "unpackUint128Pair w =
     (let body = drop 2 w; body = replicate (64 - length body) CHR ''0'' @ body in
      (int (of_hex_text (take 32 body)), int (of_hex_text (take 32 (drop 32 body)))))"

definition optionalHex :: "JsValue \<Rightarrow> string \<Rightarrow> mc_error + string" where
  "optionalHex v field = (case v of VUndefined \<Rightarrow> Inr ''0x'' | VNull \<Rightarrow> Inr ''0x''
     | VStr s \<Rightarrow> if isHex s then Inr s else Inl (InvalidParams field) | _ \<Rightarrow> Inl (InvalidParams field))"

definition getAddress_mc :: "McLib \<Rightarrow> string \<Rightarrow> mc_error + string" where
  "getAddress_mc M s = (if isHex s \<and> length s = 42 then Inr (mc_checksum M s) else Inl (InvalidAddressError s))"

definition requireAddress_mc :: "McLib \<Rightarrow> JsValue \<Rightarrow> string \<Rightarrow> mc_error + string" where
  "requireAddress_mc M v field = (case v of VStr s \<Rightarrow> if isHex s \<and> hex_size s = 20 then getAddress_mc M s else Inl (InvalidParams field)
     | _ \<Rightarrow> Inl (InvalidParams field))"

text \<open>\<open>if (op.k) out.k = f(op.k)\<close>, and the loop over the quantities.\<close>

definition if_truthy :: "JsValue \<Rightarrow> (JsValue \<Rightarrow> mc_error + string) \<Rightarrow> mc_error + string option" where
  "if_truthy v f = (if truthy v then ebind (f v) (\<lambda>s. Inr (Some s)) else Inr None)"

definition read_quantity :: "McLib \<Rightarrow> JsValue \<Rightarrow> string \<Rightarrow> mc_error + string option" where
  "read_quantity M op field =
     (let v = member op field in
      if v = VUndefined \<or> v = VNull then Inr None else ebind (hexToBig M v field None) (\<lambda>n. ebind (toHex n) (\<lambda>h. Inr (Some h))))"

definition parseRpcUserOperation :: "McLib \<Rightarrow> JsValue \<Rightarrow> mc_error + RpcUserOperationV07" where
  "parseRpcUserOperation M op =
     (case op of VObj kvs \<Rightarrow>
        ebind (requireAddress_mc M (member op ''sender'') ''sender'') (\<lambda>sender.
        ebind (ebind (hexToBig M (member op ''nonce'') ''nonce'' None) toHex) (\<lambda>nonce.
        ebind (optionalHex (member op ''callData'') ''callData'') (\<lambda>callData.
        ebind (if_truthy (member op ''factory'') (\<lambda>v. requireAddress_mc M v ''factory'')) (\<lambda>factory.
        ebind (if_truthy (member op ''factoryData'') (\<lambda>v. optionalHex v ''factoryData'')) (\<lambda>factoryData.
        ebind (if_truthy (member op ''initCode'') (\<lambda>v. optionalHex v ''initCode'')) (\<lambda>initCode.
        ebind (if_truthy (member op ''paymaster'') (\<lambda>v. requireAddress_mc M v ''paymaster'')) (\<lambda>paymaster.
        ebind (if_truthy (member op ''paymasterData'') (\<lambda>v. optionalHex v ''paymasterData'')) (\<lambda>paymasterData.
        ebind (if_truthy (member op ''paymasterAndData'') (\<lambda>v. optionalHex v ''paymasterAndData'')) (\<lambda>paymasterAndData.
        ebind (read_quantity M op ''callGasLimit'') (\<lambda>callGasLimit.
        ebind (read_quantity M op ''verificationGasLimit'') (\<lambda>verificationGasLimit.
        ebind (read_quantity M op ''preVerificationGas'') (\<lambda>preVerificationGas.
        ebind (read_quantity M op ''maxFeePerGas'') (\<lambda>maxFeePerGas.
        ebind (read_quantity M op ''maxPriorityFeePerGas'') (\<lambda>maxPriorityFeePerGas.
        ebind (read_quantity M op ''paymasterVerificationGasLimit'') (\<lambda>paymasterVerificationGasLimit.
        ebind (read_quantity M op ''paymasterPostOpGasLimit'') (\<lambda>paymasterPostOpGasLimit.
        ebind (if member op ''signature'' = VUndefined then Inr None
               else ebind (optionalHex (member op ''signature'') ''signature'') (\<lambda>s. Inr (Some s))) (\<lambda>signature.
        Inr \<lparr>uo_sender = sender, uo_nonce = nonce, uo_factory = factory, uo_factoryData = factoryData, uo_callData = callData,
          uo_callGasLimit = callGasLimit, uo_verificationGasLimit = verificationGasLimit, uo_preVerificationGas = preVerificationGas,
          uo_maxFeePerGas = maxFeePerGas, uo_maxPriorityFeePerGas = maxPriorityFeePerGas, uo_paymaster = paymaster,
          uo_paymasterVerificationGasLimit = paymasterVerificationGasLimit, uo_paymasterPostOpGasLimit = paymasterPostOpGasLimit,
          uo_paymasterData = paymasterData, uo_signature = signature, uo_initCode = initCode, uo_paymasterAndData = paymasterAndData\<rparr>)))))))))))))))))
      | VArr xs \<Rightarrow> Inl (InvalidParams ''sender'')
      | _ \<Rightarrow> Inl (InvalidParams ''userOperation''))"

section \<open>Packing\<close>

definition or_0x :: "string option \<Rightarrow> string" where
  "or_0x x = (case x of None \<Rightarrow> ''0x'' | Some s \<Rightarrow> s)"

definition initCodeOf :: "RpcUserOperationV07 \<Rightarrow> string" where
  "initCodeOf op = (case uo_factory op of Some f \<Rightarrow> if f \<noteq> '''' then concatHex_mc [f, or_0x (uo_factoryData op)] else or_0x (uo_initCode op)
     | None \<Rightarrow> or_0x (uo_initCode op))"

text \<open>\<open>hexToBig(op.field, field, 0n)\<close>.\<close>

definition quantity :: "string option \<Rightarrow> string \<Rightarrow> mc_error + int" where
  "quantity x field = (case x of None \<Rightarrow> Inr 0 | Some s \<Rightarrow> if s = '''' then Inr 0 else quantity_text s field)"

definition paymasterAndDataOf :: "RpcUserOperationV07 \<Rightarrow> mc_error + string" where
  "paymasterAndDataOf op =
     (case uo_paymaster op of
        Some p \<Rightarrow> if p = '''' then Inr (or_0x (uo_paymasterAndData op)) else
          ebind (quantity (uo_paymasterVerificationGasLimit op) ''paymasterVerificationGasLimit'') (\<lambda>v. ebind (toHex v) (\<lambda>hv. ebind (pad_hex 16 hv) (\<lambda>pv.
          ebind (quantity (uo_paymasterPostOpGasLimit op) ''paymasterPostOpGasLimit'') (\<lambda>w. ebind (toHex w) (\<lambda>hw. ebind (pad_hex 16 hw) (\<lambda>pw.
          Inr (concatHex_mc [p, pv, pw, or_0x (uo_paymasterData op)])))))))
      | None \<Rightarrow> Inr (or_0x (uo_paymasterAndData op)))"

definition packUserOperation :: "RpcUserOperationV07 \<Rightarrow> mc_error + PackedUserOperation" where
  "packUserOperation op =
     ebind (if uo_nonce op = '''' then Inl (InvalidParams ''nonce'') else quantity_text (uo_nonce op) ''nonce'') (\<lambda>nonce.
     ebind (quantity (uo_verificationGasLimit op) ''verificationGasLimit'') (\<lambda>vgl.
     ebind (quantity (uo_callGasLimit op) ''callGasLimit'') (\<lambda>cgl.
     ebind (packUint128Pair vgl cgl) (\<lambda>accountGasLimits.
     ebind (quantity (uo_preVerificationGas op) ''preVerificationGas'') (\<lambda>preVerificationGas.
     ebind (quantity (uo_maxPriorityFeePerGas op) ''maxPriorityFeePerGas'') (\<lambda>priority.
     ebind (quantity (uo_maxFeePerGas op) ''maxFeePerGas'') (\<lambda>fee.
     ebind (packUint128Pair priority fee) (\<lambda>gasFees.
     ebind (paymasterAndDataOf op) (\<lambda>paymasterAndData.
     Inr \<lparr>pu_sender = uo_sender op, pu_nonce = nonce, pu_initCode = initCodeOf op, pu_callData = uo_callData op, pu_accountGasLimits = accountGasLimits,
       pu_preVerificationGas = preVerificationGas, pu_gasFees = gasFees, pu_paymasterAndData = paymasterAndData,
       pu_signature = or_0x (uo_signature op)\<rparr>)))))))))"

definition assertSubmittable :: "RpcUserOperationV07 \<Rightarrow> mc_error + unit" where
  "assertSubmittable op =
     (case find (\<lambda>(f, x). x = None) [(''callGasLimit'', uo_callGasLimit op), (''verificationGasLimit'', uo_verificationGasLimit op),
        (''preVerificationGas'', uo_preVerificationGas op), (''maxFeePerGas'', uo_maxFeePerGas op), (''maxPriorityFeePerGas'', uo_maxPriorityFeePerGas op)] of
        Some (f, _) \<Rightarrow> Inl (InvalidParams f)
      | None \<Rightarrow> if uo_signature op = None \<or> uo_signature op = Some '''' \<or> uo_signature op = Some ''0x'' then Inl (InvalidParams ''signature'') else Inr ())"

section \<open>Words read back\<close>

lemma unhex_hex_digit: "n < 16 \<Longrightarrow> unhex (hex_digit n) = n"
  by (auto simp: unhex_def hex_digit_def of_char_char_of_small Let_def)

lemma of_hex_snoc: "of_hex_text (s @ [c]) = 16 * of_hex_text s + unhex c"
  by (simp add: of_hex_text_def)

lemma of_hex_text_hex: "of_hex_text (quantity_digits n) = n"
proof (induction n rule: quantity_digits.induct)
  case (1 n)
  show ?case by (subst quantity_digits.simps) (auto simp: of_hex_snoc 1 unhex_hex_digit, simp add: of_hex_text_def unhex_hex_digit)
qed

lemma quantity_digits_length: "0 < k \<Longrightarrow> length (quantity_digits n) \<le> k \<longleftrightarrow> n < 16 ^ k"
proof (induction n arbitrary: k rule: quantity_digits.induct)
  case (1 n)
  show ?case
  proof (cases "n < 16")
    case True
    have "(16 :: nat) \<le> 16 ^ k" using "1.prems" by (simp add: self_le_power)
    with True "1.prems" show ?thesis by (subst quantity_digits.simps) simp
  next
    case False
    have p: "0 < length (quantity_digits m)" for m by (subst quantity_digits.simps) simp
    show ?thesis
    proof (cases "k = 1")
      case False
      then obtain j where j: "k = Suc j" "0 < j" using "1.prems" by (cases k) auto
      have "n < 16 ^ k \<longleftrightarrow> n div 16 < 16 ^ j" by (simp add: j(1) div_less_iff_less_mult mult.commute)
      with "1.IH" [OF \<open>\<not> n < 16\<close> j(2)] \<open>\<not> n < 16\<close> j(1) show ?thesis by (subst quantity_digits.simps) simp
    qed (use p \<open>\<not> n < 16\<close> in \<open>subst quantity_digits.simps, simp add: Suc_le_eq\<close>)
  qed
qed

lemma quantity_digits_digits: "list_all is_hex_digit (quantity_digits n)"
proof (induction n rule: quantity_digits.induct)
  case (1 n)
  have d: "is_hex_digit (hex_digit m)" if "m < 16" for m using that by (auto simp: is_hex_digit_def hex_digit_def Let_def of_char_char_of_small)
  show ?case by (subst quantity_digits.simps) (auto simp: 1 d)
qed

lemma of_hex_zeros: "of_hex_text (replicate k CHR ''0'' @ s) = of_hex_text s"
proof -
  have "foldl (\<lambda>n c. 16 * n + unhex c) 0 (replicate k CHR ''0'') = 0" by (induction k) (simp_all add: unhex_def)
  then show ?thesis by (simp add: of_hex_text_def)
qed

lemma padded_word:
  "ebind (toHex n) (pad_hex 16) = (if n < 0 then Inl NegativeQuantity else if 2 ^ 128 \<le> n then Inl (TooWide 16)
     else Inr (''0x'' @ replicate (32 - length (quantity_digits (nat n))) CHR ''0'' @ quantity_digits (nat n)))"
proof -
  have "length (quantity_digits (nat n)) \<le> 32 \<longleftrightarrow> nat n < 2 ^ 128" using quantity_digits_length [of 32 "nat n"] by simp
  moreover have "nat n < 2 ^ 128 \<longleftrightarrow> n < 2 ^ 128" by (metis nat_less_numeral_power_cancel_iff)
  ultimately show ?thesis by (auto simp: toHex_def pad_hex_def Let_def)
qed

lemma pair_nested: "packUint128Pair a b = ebind (ebind (toHex a) (pad_hex 16)) (\<lambda>pa. ebind (ebind (toHex b) (pad_hex 16)) (\<lambda>pb. Inr (concatHex_mc [pa, pb])))"
  by (auto simp: packUint128Pair_def ebind_def split: sum.splits)

lemma pair_packs:
  assumes "0 \<le> a" "a < 2 ^ 128" "0 \<le> b" "b < 2 ^ 128"
  shows "\<exists>w. packUint128Pair a b = Inr w \<and> unpackUint128Pair w = (a, b) \<and> length w = 66"
proof -
  define pa where "pa = replicate (32 - length (quantity_digits (nat a))) CHR ''0'' @ quantity_digits (nat a)"
  define pb where "pb = replicate (32 - length (quantity_digits (nat b))) CHR ''0'' @ quantity_digits (nat b)"
  have "nat a < 2 ^ 128" "nat b < 2 ^ 128" using assms by (metis nat_less_numeral_power_cancel_iff)+
  then have l: "length pa = 32" "length pb = 32" using quantity_digits_length [of 32 "nat a"] quantity_digits_length [of 32 "nat b"] by (simp_all add: pa_def pb_def)
  have v: "int (of_hex_text pa) = a" "int (of_hex_text pb) = b" using assms by (simp_all add: pa_def pb_def of_hex_zeros of_hex_text_hex)
  have "packUint128Pair a b = Inr (''0x'' @ pa @ pb)"
    using assms by (simp add: pair_nested padded_word concatHex_mc_def pa_def pb_def)
  then show ?thesis using l v by (simp add: unpackUint128Pair_def)
qed

lemma pair_refused: "packUint128Pair a b = Inr w \<Longrightarrow> 0 \<le> a \<and> a < 2 ^ 128 \<and> 0 \<le> b \<and> b < 2 ^ 128"
  by (auto simp: pair_nested padded_word res_simps split: if_splits)

text \<open>(C24) Packing keeps the quantities: two numbers go into a word exactly when both fit in 128 bits, and then the word gives them back; any operation that is
  packed has its gas limits and its fees in its words, in the order the contract reads them, and none of the four is cut.\<close>

theorem packing_exact:
  "((\<exists>w. packUint128Pair a b = Inr w) \<longleftrightarrow> 0 \<le> a \<and> a < 2 ^ 128 \<and> 0 \<le> b \<and> b < 2 ^ 128)
   \<and> (\<forall>w. packUint128Pair a b = Inr w \<longrightarrow> unpackUint128Pair w = (a, b))
   \<and> (\<forall>p. packUserOperation op = Inr p \<longrightarrow>
        (\<exists>v c t f. quantity (uo_verificationGasLimit op) ''verificationGasLimit'' = Inr v \<and> quantity (uo_callGasLimit op) ''callGasLimit'' = Inr c
          \<and> quantity (uo_maxPriorityFeePerGas op) ''maxPriorityFeePerGas'' = Inr t \<and> quantity (uo_maxFeePerGas op) ''maxFeePerGas'' = Inr f
          \<and> unpackUint128Pair (pu_accountGasLimits p) = (v, c) \<and> unpackUint128Pair (pu_gasFees p) = (t, f)))"
proof (intro conjI allI impI)
  show "(\<exists>w. packUint128Pair a b = Inr w) \<longleftrightarrow> 0 \<le> a \<and> a < 2 ^ 128 \<and> 0 \<le> b \<and> b < 2 ^ 128"
    using pair_packs pair_refused by metis
  have again: "unpackUint128Pair w = (x, y)" if "packUint128Pair x y = Inr w" for x y w
    using pair_packs [of x y] pair_refused [OF that] that by auto
  show "unpackUint128Pair w = (a, b)" if "packUint128Pair a b = Inr w" for w using again [OF that] .
  fix p assume "packUserOperation op = Inr p"
  then show "\<exists>v c t f. quantity (uo_verificationGasLimit op) ''verificationGasLimit'' = Inr v \<and> quantity (uo_callGasLimit op) ''callGasLimit'' = Inr c
          \<and> quantity (uo_maxPriorityFeePerGas op) ''maxPriorityFeePerGas'' = Inr t \<and> quantity (uo_maxFeePerGas op) ''maxFeePerGas'' = Inr f
          \<and> unpackUint128Pair (pu_accountGasLimits p) = (v, c) \<and> unpackUint128Pair (pu_gasFees p) = (t, f)"
    using again by (auto simp: packUserOperation_def elim!: ebind_InrE)
qed

section \<open>What is parsed can be packed\<close>

text \<open>A quantity as parsing leaves it: missing, or the text of a number.\<close>

definition numeral_field :: "string option \<Rightarrow> bool" where
  "numeral_field x \<longleftrightarrow> x = None \<or> (\<exists>n. x = Some (''0x'' @ quantity_digits n))"

definition field_value :: "string option \<Rightarrow> int" where
  "field_value x = (case x of None \<Rightarrow> 0 | Some s \<Rightarrow> int (of_hex_text (drop 2 s)))"

lemma quantity_digits_nonempty: "quantity_digits n \<noteq> []"
  by (subst quantity_digits.simps) simp

lemma numeral_text: "quantity_text (''0x'' @ quantity_digits n) field = Inr (int n)"
  by (simp add: quantity_text_def isHex_def quantity_digits_digits hex_bigint_def quantity_digits_nonempty of_hex_text_hex)

lemma numeral_quantity: "numeral_field x \<Longrightarrow> quantity x field = Inr (field_value x) \<and> 0 \<le> field_value x"
  using numeral_text by (auto simp: numeral_field_def quantity_def field_value_def of_hex_text_hex)

lemma toHex_numeral: "toHex n = Inr h \<Longrightarrow> \<exists>m. h = ''0x'' @ quantity_digits m"
  by (auto simp: toHex_def split: if_splits)

lemma read_numeral: "read_quantity M op field = Inr x \<Longrightarrow> numeral_field x"
  by (auto simp: read_quantity_def numeral_field_def Let_def res_simps dest!: toHex_numeral split: if_splits)

lemma parsed_fields:
  assumes "parseRpcUserOperation M raw = Inr op"
  shows "\<exists>n. uo_nonce op = ''0x'' @ quantity_digits n"
    "numeral_field (uo_callGasLimit op)" "numeral_field (uo_verificationGasLimit op)" "numeral_field (uo_preVerificationGas op)"
    "numeral_field (uo_maxFeePerGas op)" "numeral_field (uo_maxPriorityFeePerGas op)" "numeral_field (uo_paymasterVerificationGasLimit op)"
    "numeral_field (uo_paymasterPostOpGasLimit op)"
  using assms by (auto simp: parseRpcUserOperation_def elim!: ebind_InrE split: JsValue.splits intro: read_numeral dest!: toHex_numeral)

lemma pair_iff: "0 \<le> a \<Longrightarrow> 0 \<le> b \<Longrightarrow> (\<exists>w. packUint128Pair a b = Inr w) \<longleftrightarrow> a < 2 ^ 128 \<and> b < 2 ^ 128"
  using pair_packs [of a b] pair_refused [of a b] by auto

lemma paymaster_iff:
  assumes "numeral_field (uo_paymasterVerificationGasLimit op)" "numeral_field (uo_paymasterPostOpGasLimit op)"
  shows "(\<exists>w. paymasterAndDataOf op = Inr w) \<longleftrightarrow> uo_paymaster op = None \<or> uo_paymaster op = Some ''''
    \<or> field_value (uo_paymasterVerificationGasLimit op) < 2 ^ 128 \<and> field_value (uo_paymasterPostOpGasLimit op) < 2 ^ 128"
proof -
  let ?v = "field_value (uo_paymasterVerificationGasLimit op)" and ?w = "field_value (uo_paymasterPostOpGasLimit op)"
  have n: "0 \<le> ?v" "0 \<le> ?w" using assms numeral_quantity by blast+
  have "paymasterAndDataOf op = (case uo_paymaster op of Some p \<Rightarrow> if p = '''' then Inr (or_0x (uo_paymasterAndData op)) else
      ebind (ebind (toHex ?v) (pad_hex 16)) (\<lambda>pv. ebind (ebind (toHex ?w) (pad_hex 16)) (\<lambda>pw. Inr (concatHex_mc [p, pv, pw, or_0x (uo_paymasterData op)])))
    | None \<Rightarrow> Inr (or_0x (uo_paymasterAndData op)))"
    using numeral_quantity [OF assms(1)] numeral_quantity [OF assms(2)]
    by (auto simp: paymasterAndDataOf_def ebind_def split: option.splits sum.splits)
  then show ?thesis using n by (auto simp: padded_word res_simps split: option.splits)
qed

text \<open>An operation that passes parsing fails to pack in one case only: when one of its gas limits or fees, or with a paymaster one of the paymaster's
  limits, does not fit in 128 bits.\<close>

theorem parsed_operation_packs:
  assumes "parseRpcUserOperation M raw = Inr op"
  shows "(\<exists>p. packUserOperation op = Inr p) \<longleftrightarrow>
    field_value (uo_verificationGasLimit op) < 2 ^ 128 \<and> field_value (uo_callGasLimit op) < 2 ^ 128
    \<and> field_value (uo_maxPriorityFeePerGas op) < 2 ^ 128 \<and> field_value (uo_maxFeePerGas op) < 2 ^ 128
    \<and> (uo_paymaster op = None \<or> uo_paymaster op = Some '''' \<or>
       field_value (uo_paymasterVerificationGasLimit op) < 2 ^ 128 \<and> field_value (uo_paymasterPostOpGasLimit op) < 2 ^ 128)"
proof -
  note f = parsed_fields [OF assms]
  obtain n where n: "uo_nonce op = ''0x'' @ quantity_digits n" using f(1) by blast
  let ?a = "packUint128Pair (field_value (uo_verificationGasLimit op)) (field_value (uo_callGasLimit op))"
  let ?b = "packUint128Pair (field_value (uo_maxPriorityFeePerGas op)) (field_value (uo_maxFeePerGas op))"
  have "(\<exists>p. packUserOperation op = Inr p) \<longleftrightarrow> (\<exists>w. ?a = Inr w) \<and> (\<exists>w. ?b = Inr w) \<and> (\<exists>w. paymasterAndDataOf op = Inr w)"
    using f(2-6) [THEN numeral_quantity] n numeral_text by (auto simp: packUserOperation_def res_simps)
  then show ?thesis using pair_iff paymaster_iff [OF f(7,8)] f(2-6) [THEN numeral_quantity] by auto
qed

section \<open>Instances\<close>

definition demo_mc :: McLib where
  "demo_mc = \<lparr>mc_checksum = (\<lambda>s. s), mc_string = (\<lambda>v. '''')\<rparr>"

definition demo_raw_op :: JsValue where
  "demo_raw_op = VObj [(''sender'', VStr (''0x'' @ replicate 40 CHR ''1'')), (''nonce'', VNum 7), (''callData'', VStr ''0xab''), (''callGasLimit'', VStr ''0x10''),
     (''verificationGasLimit'', VStr ''32''), (''preVerificationGas'', VNum 1), (''maxFeePerGas'', VNum 2), (''maxPriorityFeePerGas'', VNum 1), (''signature'', VStr ''0xff'')]"

definition demo_op :: RpcUserOperationV07 where
  "demo_op = \<lparr>uo_sender = ''0x'' @ replicate 40 CHR ''1'', uo_nonce = ''0x7'', uo_factory = None, uo_factoryData = None, uo_callData = ''0xab'',
     uo_callGasLimit = Some ''0x10'', uo_verificationGasLimit = Some ''0x20'', uo_preVerificationGas = Some ''0x1'', uo_maxFeePerGas = Some ''0x2'',
     uo_maxPriorityFeePerGas = Some ''0x1'', uo_paymaster = None, uo_paymasterVerificationGasLimit = None, uo_paymasterPostOpGasLimit = None,
     uo_paymasterData = None, uo_signature = Some ''0xff'', uo_initCode = None, uo_paymasterAndData = None\<rparr>"

lemma demo_parsed: "parseRpcUserOperation demo_mc demo_raw_op = Inr demo_op"
  by code_simp

theorem packing_exact_witness: "\<exists>w. packUint128Pair 32 16 = Inr w \<and> unpackUint128Pair w = (32, 16)"
  using packing_exact [of 32 16 demo_op] by auto

theorem parsed_operation_packs_witness: "\<exists>p. packUserOperation demo_op = Inr p"
proof -
  have "field_value (uo_verificationGasLimit demo_op) = 32" "field_value (uo_callGasLimit demo_op) = 16" "field_value (uo_maxPriorityFeePerGas demo_op) = 1"
    "field_value (uo_maxFeePerGas demo_op) = 2" "uo_paymaster demo_op = None"
    by code_simp+
  with parsed_operation_packs [OF demo_parsed] show ?thesis by simp
qed

end
