(* ===== verification/MC_Bundler.thy ===== *)
theory MC_Bundler
  imports MC_UserOp "HOL-Library.AList"
begin

text \<open>
  The bundler and the paymaster of the sandbox (\<open>packages/mock-circle/src/rpc/bundler.ts\<close>, \<open>paymaster.ts\<close>, the queue of \<open>context.ts\<close>). A call that submits has two
  parts: the checks, which end by queueing a job, and the job, which runs when the jobs before it have ended. Between them other calls may be
  checked, so a submission is two steps of a machine. The node behind the sandbox is a record of functions over the state of its chain: hashing,
  the dry run, sending, receipts, and the decoding of logs and reverts. The table of operations keeps the order of first insertion, as a \<open>Map\<close> does.
\<close>

section \<open>Errors and gas\<close>

definition INVALID_SIGNATURE :: int where "INVALID_SIGNATURE = - 32507"
definition PAYMASTER_REJECTED :: int where "PAYMASTER_REJECTED = - 32501"
definition ENTRYPOINT_REJECTED :: int where "ENTRYPOINT_REJECTED = - 32500"

definition GAS_preVerification :: int where "GAS_preVerification = 100000"
definition GAS_verification :: int where "GAS_verification = 3000000"
definition GAS_call :: int where "GAS_call = 3000000"
definition GAS_paymasterVerification :: int where "GAS_paymasterVerification = 150000"
definition GAS_paymasterPostOp :: int where "GAS_paymasterPostOp = 50000"

definition word_char :: "char \<Rightarrow> bool" where
  "word_char c = (let n = of_char c :: nat in is_digit c \<or> (65 \<le> n \<and> n \<le> 90) \<or> (97 \<le> n \<and> n \<le> 122) \<or> n = 95)"

definition word_ends :: "string \<Rightarrow> bool" where
  "word_ends s \<longleftrightarrow> s = [] \<or> \<not> word_char (hd s)"

definition errorCodeFor :: "string \<Rightarrow> int" where
  "errorCodeFor reason =
     (if (take 4 reason = ''AA24'' \<or> take 4 reason = ''AA34'') \<and> word_ends (drop 4 reason) then INVALID_SIGNATURE
      else if take 3 reason = ''AA3'' \<and> drop 3 reason \<noteq> [] \<and> is_digit (hd (drop 3 reason)) \<and> word_ends (drop 4 reason) then PAYMASTER_REJECTED
      else ENTRYPOINT_REJECTED)"

section \<open>The node\<close>

text \<open>What a dry run throws, as the client library reports it.\<close>

datatype SimFailure = SimFailedOp int string | SimFailedOpWithRevert int string string | SimOtherRevert string "string list"
  | SimRevertWithoutData string | SimFailure string

record TxReceipt =
  tx_hash :: string
  tx_blockHash :: string
  tx_blockNumber :: int
  tx_success :: bool

record RpcLog =
  lg_address :: string
  lg_topics :: "string list"
  lg_data :: string

record 'c Node =
  nd_userOpHash :: "PackedUserOperation \<Rightarrow> string"
  nd_simulate :: "'c \<Rightarrow> PackedUserOperation \<Rightarrow> int \<Rightarrow> SimFailure option"
  nd_send :: "'c \<Rightarrow> PackedUserOperation \<Rightarrow> int \<Rightarrow> 'c \<times> TxReceipt option"
  nd_receiptLogs :: "'c \<Rightarrow> string \<Rightarrow> RpcLog list option"
  nd_decodeError :: "string \<Rightarrow> string option"
  nd_decodePanic :: "string \<Rightarrow> int option"
  nd_decodeEvent :: "string \<Rightarrow> (int \<times> bool \<times> int \<times> int) option"
  nd_decodeReason :: "string \<Rightarrow> string option"
  nd_userOperationEvent :: string
  nd_revertReason :: string
  nd_beforeExecution :: string

record McContext =
  cx_entryPoint :: string
  cx_paymaster :: "string option"
  cx_chainId :: int
  cx_paymasterValiditySecs :: int

definition describeInnerRevert :: "'c Node \<Rightarrow> string \<Rightarrow> string" where
  "describeInnerRevert N inner =
     (let custom = ''custom error '' @ take 10 inner @ '' ('' @ dec_nat ((length inner - 2) div 2) @ '' bytes)'' in
      if inner = '''' \<or> inner = ''0x'' then ''empty revert data''
      else if take 10 inner = ''0x08c379a0'' then (case nd_decodeError N inner of Some m \<Rightarrow> ''Error('' @ [CHR 0x22] @ m @ [CHR 0x22] @ '')'' | None \<Rightarrow> custom)
      else if take 10 inner = ''0x4e487b71'' then
        (case nd_decodePanic N inner of Some n \<Rightarrow> (case toHex n of Inr h \<Rightarrow> ''Panic('' @ h @ '')'' | Inl _ \<Rightarrow> custom) | None \<Rightarrow> custom)
      else custom)"

fun toEntryPointError :: "'c Node \<Rightarrow> SimFailure \<Rightarrow> int \<times> string" where
  "toEntryPointError N (SimFailedOp i reason) = (errorCodeFor reason, ''FailedOp('' @ dec_int i @ '', '' @ [CHR 0x22] @ reason @ [CHR 0x22] @ '')'')"
| "toEntryPointError N (SimFailedOpWithRevert i reason inner) = (errorCodeFor reason,
     ''FailedOpWithRevert('' @ dec_int i @ '', '' @ [CHR 0x22] @ reason @ [CHR 0x22] @ '', '' @ describeInnerRevert N inner @ '')'')"
| "toEntryPointError N (SimOtherRevert name args) = (ENTRYPOINT_REJECTED, name @ ''('' @ join_text '', '' args @ '')'')"
| "toEntryPointError N (SimRevertWithoutData m) = (ENTRYPOINT_REJECTED, ''handleOps reverted: '' @ m)"
| "toEntryPointError N (SimFailure m) = (ENTRYPOINT_REJECTED, ''handleOps failed: '' @ m)"

definition isAddress_mc :: "McLib \<Rightarrow> string \<Rightarrow> bool" where
  "isAddress_mc M s \<longleftrightarrow> isHex s \<and> length s = 42 \<and> (to_lower s = s \<or> mc_checksum M s = s)"

definition assertEntryPoint :: "McLib \<Rightarrow> McContext \<Rightarrow> JsValue \<Rightarrow> mc_error + string" where
  "assertEntryPoint M cx raw =
     (case raw of VUndefined \<Rightarrow> Inr (cx_entryPoint cx) | VNull \<Rightarrow> Inr (cx_entryPoint cx)
      | VStr s \<Rightarrow> if \<not> isAddress_mc M s then Inl (InvalidParams ''entryPoint'')
                 else if mc_checksum M s \<noteq> mc_checksum M (cx_entryPoint cx) then Inl (InvalidParams ''entryPoint'') else Inr (cx_entryPoint cx)
      | _ \<Rightarrow> Inl (InvalidParams ''entryPoint''))"

definition param :: "JsValue list \<Rightarrow> nat \<Rightarrow> JsValue" where
  "param ps i = (if i < length ps then ps ! i else VUndefined)"

definition ethSupportedEntryPoints :: "McContext \<Rightarrow> string list" where
  "ethSupportedEntryPoints cx = [cx_entryPoint cx]"

record GasEstimate =
  ge_preVerificationGas :: string
  ge_verificationGasLimit :: string
  ge_callGasLimit :: string
  ge_paymasterLimits :: "(string \<times> string) option"

definition hex_of :: "int \<Rightarrow> string" where
  "hex_of n = ''0x'' @ quantity_digits (nat n)"

definition ethEstimateUserOperationGas :: "McLib \<Rightarrow> McContext \<Rightarrow> JsValue list \<Rightarrow> mc_error + GasEstimate" where
  "ethEstimateUserOperationGas M cx ps =
     ebind (parseRpcUserOperation M (param ps 0)) (\<lambda>op. ebind (assertEntryPoint M cx (param ps 1)) (\<lambda>_.
     Inr \<lparr>ge_preVerificationGas = hex_of GAS_preVerification, ge_verificationGasLimit = hex_of GAS_verification, ge_callGasLimit = hex_of GAS_call,
       ge_paymasterLimits = (if (uo_paymaster op \<noteq> None \<and> uo_paymaster op \<noteq> Some '''')
           \<or> (uo_paymasterAndData op \<noteq> None \<and> uo_paymasterAndData op \<noteq> Some '''' \<and> uo_paymasterAndData op \<noteq> Some ''0x'')
         then Some (hex_of GAS_paymasterVerification, hex_of GAS_paymasterPostOp) else None)\<rparr>))"

definition handleOpsGas :: "RpcUserOperationV07 \<Rightarrow> mc_error + int" where
  "handleOpsGas op =
     ebind (quantity (uo_verificationGasLimit op) ''verificationGasLimit'') (\<lambda>a. ebind (quantity (uo_callGasLimit op) ''callGasLimit'') (\<lambda>b.
     ebind (quantity (uo_preVerificationGas op) ''preVerificationGas'') (\<lambda>c.
     ebind (quantity (uo_paymasterVerificationGasLimit op) ''paymasterVerificationGasLimit'') (\<lambda>d.
     ebind (quantity (uo_paymasterPostOpGasLimit op) ''paymasterPostOpGasLimit'') (\<lambda>e.
     let total = a + b + c + d + e + 500000 in
     Inr (if total < 1000000 then 1000000 else if total > 29000000 then 29000000 else total))))))"

section \<open>Submitting\<close>

datatype OpStatus = PendingOp | IncludedOp | FailedOp

fun status_name :: "OpStatus \<Rightarrow> string" where
  "status_name PendingOp = ''pending''"
| "status_name IncludedOp = ''included''"
| "status_name FailedOp = ''failed''"

record StoredUserOp =
  so_hash :: string
  so_userOperation :: RpcUserOperationV07
  so_entryPoint :: string
  so_status :: OpStatus
  so_transaction :: "(string \<times> string \<times> int) option"
  so_error :: "string option"

type_synonym op_table = "(string \<times> StoredUserOp) list"

record SendJob =
  jb_hash :: string
  jb_op :: RpcUserOperationV07
  jb_entryPoint :: string
  jb_packed :: PackedUserOperation
  jb_gas :: int

text \<open>\<open>ethSendUserOperation\<close> up to the queue.\<close>

definition send_checks :: "McLib \<Rightarrow> 'c Node \<Rightarrow> McContext \<Rightarrow> op_table \<Rightarrow> JsValue list \<Rightarrow> mc_error + SendJob" where
  "send_checks M N cx ops ps =
     ebind (parseRpcUserOperation M (param ps 0)) (\<lambda>op. ebind (assertSubmittable op) (\<lambda>_. ebind (assertEntryPoint M cx (param ps 1)) (\<lambda>entryPoint.
     ebind (packUserOperation op) (\<lambda>packed.
     let h = nd_userOpHash N packed in
     ebind (case map_of ops h of Some previous \<Rightarrow> if so_status previous \<noteq> FailedOp
              then Inl (RpcError ENTRYPOINT_REJECTED (''userOperation '' @ h @ '' was already submitted ('' @ status_name (so_status previous) @ '')'')) else Inr ()
            | None \<Rightarrow> Inr ()) (\<lambda>_.
     ebind (handleOpsGas op) (\<lambda>gas. Inr \<lparr>jb_hash = h, jb_op = op, jb_entryPoint = entryPoint, jb_packed = packed, jb_gas = gas\<rparr>))))))"

text \<open>The job: the dry run, the transaction, and what is written about it. A transaction that cannot be sent at all leaves the table alone.\<close>

definition run_send :: "'c Node \<Rightarrow> SendJob \<Rightarrow> op_table \<Rightarrow> 'c \<Rightarrow> (mc_error + string) \<times> op_table \<times> 'c" where
  "run_send N job ops c =
     (let stored = (\<lambda>status t e. \<lparr>so_hash = jb_hash job, so_userOperation = jb_op job, so_entryPoint = jb_entryPoint job, so_status = status,
            so_transaction = t, so_error = e\<rparr>)
      in case nd_simulate N c (jb_packed job) (jb_gas job) of
        Some failure \<Rightarrow> (let (code, m) = toEntryPointError N failure in
          (Inl (RpcError code m), AList.update (jb_hash job) (stored FailedOp None (Some m)) ops, c))
      | None \<Rightarrow> (case nd_send N c (jb_packed job) (jb_gas job) of
          (c', None) \<Rightarrow> (Inl (RpcError ENTRYPOINT_REJECTED ''''), ops, c')
        | (c', Some r) \<Rightarrow>
            if tx_success r then (Inr (jb_hash job), AList.update (jb_hash job) (stored IncludedOp (Some (tx_hash r, tx_blockHash r, tx_blockNumber r)) None) ops, c')
            else (let m = ''handleOps transaction '' @ tx_hash r @ '' reverted'' in
              (Inl (RpcError ENTRYPOINT_REJECTED m),
               AList.update (jb_hash job) (stored FailedOp (Some (tx_hash r, tx_blockHash r, tx_blockNumber r)) (Some m)) ops, c'))))"

record 'c World =
  wd_userOps :: op_table
  wd_queue :: "SendJob list"
  wd_chain :: 'c

definition run_head :: "'c Node \<Rightarrow> SendJob \<Rightarrow> 'c World \<Rightarrow> 'c World" where
  "run_head N job w = (case run_send N job (wd_userOps w) (wd_chain w) of (_, ops, c) \<Rightarrow> w\<lparr>wd_userOps := ops, wd_queue := tl (wd_queue w), wd_chain := c\<rparr>)"

inductive bundler_step :: "McLib \<Rightarrow> 'c Node \<Rightarrow> McContext \<Rightarrow> 'c World \<Rightarrow> 'c World \<Rightarrow> bool" for M N cx where
  queued: "send_checks M N cx (wd_userOps w) ps = Inr job \<Longrightarrow> bundler_step M N cx w (w\<lparr>wd_queue := wd_queue w @ [job]\<rparr>)"
| sent: "wd_queue w = job # rest \<Longrightarrow> bundler_step M N cx w (run_head N job w)"

section \<open>Asking\<close>

definition requireHash :: "JsValue \<Rightarrow> mc_error + string" where
  "requireHash raw = (case raw of VStr s \<Rightarrow> if isHex s \<and> length s = 66 then Inr (to_lower s) else Inl (InvalidParams ''userOpHash'')
     | _ \<Rightarrow> Inl (InvalidParams ''userOpHash''))"

definition findStored :: "op_table \<Rightarrow> string \<Rightarrow> StoredUserOp option" where
  "findStored ops h = map_option snd (find (\<lambda>(k, v). to_lower k = h) ops)"

record OpByHash =
  bh_userOperation :: RpcUserOperationV07
  bh_entryPoint :: string
  bh_transactionHash :: string
  bh_blockHash :: string
  bh_blockNumber :: string

definition ethGetUserOperationByHash :: "op_table \<Rightarrow> JsValue list \<Rightarrow> mc_error + OpByHash option" where
  "ethGetUserOperationByHash ops ps = ebind (requireHash (param ps 0)) (\<lambda>h.
     case findStored ops h of None \<Rightarrow> Inr None
     | Some s \<Rightarrow> if so_status s \<noteq> IncludedOp then Inr None else (case so_transaction s of None \<Rightarrow> Inr None
       | Some (t, b, n) \<Rightarrow> if t = '''' \<or> b = '''' then Inr None else ebind (toHex n) (\<lambda>hn.
           Inr (Some \<lparr>bh_userOperation = so_userOperation s, bh_entryPoint = so_entryPoint s, bh_transactionHash = t, bh_blockHash = b, bh_blockNumber = hn\<rparr>))))"

definition topic :: "RpcLog \<Rightarrow> nat \<Rightarrow> string option" where
  "topic l i = (if i < length (lg_topics l) then Some (to_lower (lg_topics l ! i)) else None)"

fun log_index :: "('a \<Rightarrow> bool) \<Rightarrow> 'a list \<Rightarrow> nat option" where
  "log_index P [] = None"
| "log_index P (x # xs) = (if P x then Some 0 else map_option Suc (log_index P xs))"

text \<open>The search backwards for the end of the operation before.\<close>

fun own_start :: "(RpcLog \<Rightarrow> bool) \<Rightarrow> RpcLog list \<Rightarrow> nat \<Rightarrow> nat" where
  "own_start boundary logs 0 = 0"
| "own_start boundary logs (Suc i) = (if boundary (logs ! i) then Suc i else own_start boundary logs i)"

definition op_boundary :: "'c Node \<Rightarrow> RpcLog \<Rightarrow> bool" where
  "op_boundary N l \<longleftrightarrow> topic l 0 = Some (nd_beforeExecution N) \<or> topic l 0 = Some (nd_userOperationEvent N)"

definition op_logs :: "'c Node \<Rightarrow> RpcLog list \<Rightarrow> nat \<Rightarrow> RpcLog list" where
  "op_logs N logs eventIndex = (let start = own_start (op_boundary N) logs eventIndex in take (eventIndex - start) (drop start logs))"

definition zeroAddress :: string where
  "zeroAddress = ''0x'' @ replicate 40 CHR ''0''"

definition topicToAddress :: "McLib \<Rightarrow> RpcLog \<Rightarrow> nat \<Rightarrow> mc_error + string" where
  "topicToAddress M l i = (if i < length (lg_topics l) \<and> lg_topics l ! i \<noteq> ''''
     then getAddress_mc M (''0x'' @ drop (length (lg_topics l ! i) - 40) (lg_topics l ! i)) else Inr zeroAddress)"

record OpReceipt =
  or_userOpHash :: string
  or_entryPoint :: string
  or_sender :: string
  or_nonce :: string
  or_paymaster :: "string option"
  or_actualGasCost :: string
  or_actualGasUsed :: string
  or_success :: bool
  or_reason :: "string option"
  or_logs :: "RpcLog list"

definition read_reason :: "'c Node \<Rightarrow> RpcLog list \<Rightarrow> mc_error + string option" where
  "read_reason N logs = (case find (\<lambda>l. topic l 0 = Some (nd_revertReason N)) logs of None \<Rightarrow> Inr None
     | Some l \<Rightarrow> (case nd_decodeReason N (lg_data l) of None \<Rightarrow> Inl (RpcError 0 ''decode'') | Some inner \<Rightarrow> Inr (Some (describeInnerRevert N inner))))"

definition ethGetUserOperationReceipt :: "McLib \<Rightarrow> 'c Node \<Rightarrow> 'c World \<Rightarrow> JsValue list \<Rightarrow> mc_error + OpReceipt option" where
  "ethGetUserOperationReceipt M N w ps = ebind (requireHash (param ps 0)) (\<lambda>h.
     case findStored (wd_userOps w) h of None \<Rightarrow> Inr None
     | Some s \<Rightarrow> if so_status s \<noteq> IncludedOp then Inr None else (case so_transaction s of None \<Rightarrow> Inr None
       | Some (t, b, n) \<Rightarrow> if t = '''' then Inr None else (case nd_receiptLogs N (wd_chain w) t of None \<Rightarrow> Inr None
         | Some logs \<Rightarrow> (case log_index (\<lambda>l. topic l 0 = Some (nd_userOperationEvent N) \<and> topic l 1 = Some h) logs of None \<Rightarrow> Inr None
           | Some eventIndex \<Rightarrow> (let event = logs ! eventIndex; own = op_logs N logs eventIndex in
               case nd_decodeEvent N (lg_data event) of None \<Rightarrow> Inl (RpcError 0 ''decode'')
               | Some (nonce, success, cost, used) \<Rightarrow>
                   ebind (read_reason N own) (\<lambda>reason. ebind (topicToAddress M event 3) (\<lambda>paymaster. ebind (topicToAddress M event 2) (\<lambda>sender.
                   ebind (toHex nonce) (\<lambda>hn. ebind (toHex cost) (\<lambda>hc. ebind (toHex used) (\<lambda>hu.
                   Inr (Some \<lparr>or_userOpHash = h, or_entryPoint = so_entryPoint s, or_sender = sender, or_nonce = hn,
                     or_paymaster = (if paymaster \<noteq> zeroAddress then Some paymaster else None), or_actualGasCost = hc, or_actualGasUsed = hu,
                     or_success = success, or_reason = reason, or_logs = own\<rparr>))))))))))))"

section \<open>The paymaster\<close>

text \<open>The node's part: the time of the last block, the contract's hash of an operation with its window, the signature of a hash.\<close>

record PmNode =
  pn_now :: int
  pn_getHash :: "PackedUserOperation \<Rightarrow> int \<Rightarrow> int \<Rightarrow> int \<Rightarrow> int \<Rightarrow> string"
  pn_sign :: "string \<Rightarrow> string"
  pn_number :: "string \<Rightarrow> rat option"

definition STUB_SIGNATURE :: string where
  "STUB_SIGNATURE = ''0x'' @ concat (replicate 64 ''ff'') @ ''1c''"

definition requirePaymaster :: "McContext \<Rightarrow> mc_error + string" where
  "requirePaymaster cx = (case cx_paymaster cx of None \<Rightarrow> Inl (RpcError PAYMASTER_REJECTED ''no SponsorPaymaster in this deployment'') | Some p \<Rightarrow> Inr p)"

definition check_chain :: "PmNode \<Rightarrow> McContext \<Rightarrow> JsValue \<Rightarrow> mc_error + unit" where
  "check_chain P cx raw =
     (if raw = VUndefined \<or> raw = VNull then Inr ()
      else case (case raw of VStr s \<Rightarrow> pn_number P s | VNum q \<Rightarrow> Some q | _ \<Rightarrow> None) of
        None \<Rightarrow> Inl (InvalidParams ''chainId'')
      | Some q \<Rightarrow> if q = of_int (cx_chainId cx) then Inr () else Inl (InvalidParams ''chainId''))"

definition parsePaymasterParams :: "McLib \<Rightarrow> PmNode \<Rightarrow> McContext \<Rightarrow> JsValue list \<Rightarrow> mc_error + RpcUserOperationV07" where
  "parsePaymasterParams M P cx ps = ebind (parseRpcUserOperation M (param ps 0)) (\<lambda>op. ebind (assertEntryPoint M cx (param ps 1)) (\<lambda>_.
     ebind (check_chain P cx (param ps 2)) (\<lambda>_. Inr op)))"

definition validityWindow :: "PmNode \<Rightarrow> McContext \<Rightarrow> int \<times> int" where
  "validityWindow P cx = (if cx_paymasterValiditySecs cx \<le> 0 then (0, 0) else (pn_now P + cx_paymasterValiditySecs cx, 0))"

definition uint48_word :: "int \<Rightarrow> mc_error + string" where
  "uint48_word n = (if n < 0 \<or> 2 ^ 48 \<le> n then Inl (TooWide 6) else ebind (toHex n) (pad_hex 32))"

definition encodeValidity :: "int \<Rightarrow> int \<Rightarrow> mc_error + string" where
  "encodeValidity validUntil validAfter = ebind (uint48_word validUntil) (\<lambda>a. ebind (uint48_word validAfter) (\<lambda>b. Inr (concatHex_mc [a, b])))"

record PaymasterDataResponse =
  pr_paymaster :: string
  pr_paymasterData :: string
  pr_paymasterVerificationGasLimit :: string
  pr_paymasterPostOpGasLimit :: string
  pr_isFinal :: bool

definition paymaster_answer :: "string \<Rightarrow> int \<times> int \<Rightarrow> string \<Rightarrow> bool \<Rightarrow> mc_error + PaymasterDataResponse" where
  "paymaster_answer paymaster window sig final = ebind (encodeValidity (fst window) (snd window)) (\<lambda>validity.
     Inr \<lparr>pr_paymaster = paymaster, pr_paymasterData = concatHex_mc [validity, sig], pr_paymasterVerificationGasLimit = hex_of GAS_paymasterVerification,
       pr_paymasterPostOpGasLimit = hex_of GAS_paymasterPostOp, pr_isFinal = final\<rparr>)"

definition pmGetPaymasterStubData :: "McLib \<Rightarrow> PmNode \<Rightarrow> McContext \<Rightarrow> JsValue list \<Rightarrow> mc_error + PaymasterDataResponse" where
  "pmGetPaymasterStubData M P cx ps = ebind (parsePaymasterParams M P cx ps) (\<lambda>_. ebind (requirePaymaster cx) (\<lambda>paymaster.
     paymaster_answer paymaster (validityWindow P cx) STUB_SIGNATURE False))"

definition without_paymaster :: "RpcUserOperationV07 \<Rightarrow> RpcUserOperationV07" where
  "without_paymaster op = op\<lparr>uo_paymaster := None, uo_paymasterData := None, uo_paymasterVerificationGasLimit := None, uo_paymasterPostOpGasLimit := None,
     uo_paymasterAndData := None, uo_signature := Some ''0x''\<rparr>"

definition pmGetPaymasterData :: "McLib \<Rightarrow> PmNode \<Rightarrow> McContext \<Rightarrow> JsValue list \<Rightarrow> mc_error + PaymasterDataResponse" where
  "pmGetPaymasterData M P cx ps = ebind (parsePaymasterParams M P cx ps) (\<lambda>op. ebind (requirePaymaster cx) (\<lambda>paymaster.
     case find (\<lambda>(f, x). x = None) [(''verificationGasLimit'', uo_verificationGasLimit op), (''callGasLimit'', uo_callGasLimit op),
        (''preVerificationGas'', uo_preVerificationGas op), (''maxFeePerGas'', uo_maxFeePerGas op), (''maxPriorityFeePerGas'', uo_maxPriorityFeePerGas op)] of
        Some (f, _) \<Rightarrow> Inl (InvalidParams f)
      | None \<Rightarrow> ebind (packUserOperation (without_paymaster op)) (\<lambda>packed. let window = validityWindow P cx in
          paymaster_answer paymaster window
            (pn_sign P (pn_getHash P packed GAS_paymasterVerification GAS_paymasterPostOp (fst window) (snd window))) True)))"

section \<open>Once included\<close>

definition included :: "string \<Rightarrow> 'c World \<Rightarrow> bool" where
  "included h w \<longleftrightarrow> (\<exists>s. map_of (wd_userOps w) h = Some s \<and> so_status s = IncludedOp)"











text \<open>(C23) Two submissions of one operation before the first has run: the check looks at the table only, so both are queued; the first is included, the dry run of the
  second fails on the used nonce, and its entry replaces the first one. The operation is on chain and the bundler says it failed.\<close>

theorem second_send_hides_inclusion:
  assumes "send_checks M N cx (wd_userOps w) ps = Inr job" "wd_queue w = []"
    "nd_simulate N (wd_chain w) (jb_packed job) (jb_gas job) = None" "nd_send N (wd_chain w) (jb_packed job) (jb_gas job) = (c, Some r)" "tx_success r"
    "nd_simulate N c (jb_packed job) (jb_gas job) \<noteq> None"
  shows "\<exists>w1 w2. (bundler_step M N cx)\<^sup>*\<^sup>* w w1 \<and> included (jb_hash job) w1 \<and> bundler_step M N cx w1 w2
    \<and> wd_chain w2 = wd_chain w1 \<and> \<not> included (jb_hash job) w2"
proof -
  let ?q = "w\<lparr>wd_queue := [job, job]\<rparr>" and ?w1 = "run_head N job (w\<lparr>wd_queue := [job, job]\<rparr>)"
  have a: "bundler_step M N cx w (w\<lparr>wd_queue := [job]\<rparr>)" using bundler_step.queued [OF assms(1)] assms(2) by simp
  have b: "bundler_step M N cx (w\<lparr>wd_queue := [job]\<rparr>) ?q" using bundler_step.queued [of M N cx "w\<lparr>wd_queue := [job]\<rparr>" ps job] assms(1) by simp
  have q: "bundler_step M N cx ?q ?w1" by (rule bundler_step.sent) simp
  have w1: "wd_queue ?w1 = [job]" "wd_chain ?w1 = c" "included (jb_hash job) ?w1"
    using assms(3-5) by (simp_all add: run_head_def run_send_def included_def update_conv')
  have "bundler_step M N cx ?w1 (run_head N job ?w1)" by (rule bundler_step.sent [OF w1(1)])
  moreover obtain e where e: "nd_simulate N c (jb_packed job) (jb_gas job) = Some e" using assms(6) by auto
  have "wd_chain (run_head N job ?w1) = wd_chain ?w1" "\<not> included (jb_hash job) (run_head N job ?w1)"
    using e w1(2) by (simp_all add: run_head_def [of N job ?w1] run_send_def Let_def included_def update_conv' split: prod.splits)
  moreover have "(bundler_step M N cx)\<^sup>*\<^sup>* w ?w1" using a b q by (meson converse_rtranclp_into_rtranclp r_into_rtranclp)
  ultimately show ?thesis using w1(3) by blast
qed

section \<open>The logs of one operation\<close>

lemma own_start_le: "own_start B logs i \<le> i"
  by (induction i) auto

lemma own_start_take:
  "i \<le> length logs \<Longrightarrow> take (i - own_start B logs i) (drop (own_start B logs i) logs) = rev (takeWhile (\<lambda>l. \<not> B l) (rev (take i logs)))"
proof (induction i)
  case (Suc i)
  then have t: "take (Suc i) logs = take i logs @ [logs ! i]" by (simp add: take_Suc_conv_app_nth)
  show ?case
  proof (cases "B (logs ! i)")
    case False
    have "own_start B logs i \<le> i" by (rule own_start_le)
    then have "take (Suc i - own_start B logs i) (drop (own_start B logs i) logs) = take (i - own_start B logs i) (drop (own_start B logs i) logs) @ [logs ! i]"
      using Suc.prems by (simp add: Suc_diff_le take_Suc_conv_app_nth)
    with Suc False t show ?thesis by simp
  qed (simp add: t)
qed simp

lemma log_index_bound: "log_index P xs = Some i \<Longrightarrow> i < length xs \<and> P (xs ! i)"
  by (induction xs arbitrary: i) (auto split: if_splits)

text \<open>The logs given to an operation are its own: those before its event back to the event of the operation before it, or to the start of the execution,
  and no such boundary among them.\<close>

theorem own_logs_exact:
  assumes "log_index P logs = Some e"
  shows "op_logs N logs e = rev (takeWhile (\<lambda>l. \<not> op_boundary N l) (rev (take e logs))) \<and> (\<forall>l \<in> set (op_logs N logs e). \<not> op_boundary N l)
    \<and> (\<exists>before. take e logs = before @ op_logs N logs e \<and> (before = [] \<or> op_boundary N (last before)))"
proof -
  have o: "op_logs N logs e = rev (takeWhile (\<lambda>l. \<not> op_boundary N l) (rev (take e logs)))"
    using own_start_take [of e logs "op_boundary N"] log_index_bound [OF assms(1)] by (simp add: op_logs_def Let_def)
  moreover have "\<forall>l \<in> set (op_logs N logs e). \<not> op_boundary N l" unfolding o by (auto dest: set_takeWhileD)
  moreover have "take e logs = rev (dropWhile (\<lambda>l. \<not> op_boundary N l) (rev (take e logs))) @ op_logs N logs e"
    unfolding o by (metis rev_append rev_rev_ident takeWhile_dropWhile_id)
  moreover have "dropWhile (\<lambda>l. \<not> op_boundary N l) xs = [] \<or> op_boundary N (hd (dropWhile (\<lambda>l. \<not> op_boundary N l) xs))" for xs
    using hd_dropWhile [of "\<lambda>l. \<not> op_boundary N l" xs] by auto
  ultimately show ?thesis by (metis last_rev rev_is_Nil_conv)
qed

section \<open>What is sponsored is what is sent\<close>

definition sponsored :: "RpcUserOperationV07 \<Rightarrow> PaymasterDataResponse \<Rightarrow> string \<Rightarrow> RpcUserOperationV07" where
  "sponsored op r sig = op\<lparr>uo_paymaster := Some (pr_paymaster r), uo_paymasterData := Some (pr_paymasterData r),
     uo_paymasterVerificationGasLimit := Some (pr_paymasterVerificationGasLimit r), uo_paymasterPostOpGasLimit := Some (pr_paymasterPostOpGasLimit r),
     uo_signature := Some sig\<rparr>"

lemma hex_of_quantity: "0 \<le> n \<Longrightarrow> quantity (Some (hex_of n)) field = Inr n"
  using numeral_text [of "nat n" field] by (simp add: quantity_def hex_of_def)

text \<open>The operation that carries the paymaster's answer is the one that was signed for: it packs, its packed form differs from the hashed one in the paymaster
  and the signature only, and its paymaster field holds the address, the two limits that were hashed and the signed data, in the contract's layout.\<close>

theorem sponsored_as_signed:
  assumes "parsePaymasterParams M P cx ps = Inr op" "pmGetPaymasterData M P cx ps = Inr r" "pr_paymaster r \<noteq> ''''"
  shows "\<exists>packed final. packUserOperation (without_paymaster op) = Inr packed \<and> packUserOperation (sponsored op r sig) = Inr final
    \<and> final = packed\<lparr>pu_paymasterAndData := pu_paymasterAndData final, pu_signature := sig\<rparr>
    \<and> (\<exists>v w. ebind (toHex GAS_paymasterVerification) (pad_hex 16) = Inr v \<and> ebind (toHex GAS_paymasterPostOp) (pad_hex 16) = Inr w
       \<and> pu_paymasterAndData final = concatHex_mc [pr_paymaster r, v, w, pr_paymasterData r])"
proof -
  from assms(2) obtain packed where p: "packUserOperation (without_paymaster op) = Inr packed"
    by (auto simp: pmGetPaymasterData_def assms(1) elim!: ebind_InrE split: option.splits)
  from assms(2) have l: "pr_paymasterVerificationGasLimit r = hex_of GAS_paymasterVerification" "pr_paymasterPostOpGasLimit r = hex_of GAS_paymasterPostOp"
    by (auto simp: pmGetPaymasterData_def paymaster_answer_def Let_def elim!: ebind_InrE split: option.splits)
  obtain v w where vw: "ebind (toHex GAS_paymasterVerification) (pad_hex 16) = Inr v" "ebind (toHex GAS_paymasterPostOp) (pad_hex 16) = Inr w"
    by (simp add: padded_word GAS_paymasterVerification_def GAS_paymasterPostOp_def)
  have q: "quantity (Some (hex_of GAS_paymasterVerification)) f = Inr GAS_paymasterVerification" "quantity (Some (hex_of GAS_paymasterPostOp)) f = Inr GAS_paymasterPostOp" for f
    by (simp_all add: hex_of_quantity GAS_paymasterVerification_def GAS_paymasterPostOp_def)
  have d: "paymasterAndDataOf (sponsored op r sig) = Inr (concatHex_mc [pr_paymaster r, v, w, pr_paymasterData r])"
    using assms(3) vw by (auto simp: paymasterAndDataOf_def sponsored_def l q or_0x_def ebind_def split: sum.splits)
  have "packUserOperation (sponsored op r sig)
      = Inr (packed\<lparr>pu_paymasterAndData := concatHex_mc [pr_paymaster r, v, w, pr_paymasterData r], pu_signature := sig\<rparr>)"
    using p by (auto simp: packUserOperation_def d elim!: ebind_InrE) (auto simp: sponsored_def without_paymaster_def initCodeOf_def or_0x_def split: option.splits)
  with p vw show ?thesis by simp
qed

section \<open>Instances\<close>

text \<open>A chain that counts: it takes each operation once.\<close>

definition demo_node :: "PackedUserOperation list Node" where
  "demo_node = \<lparr>nd_userOpHash = (\<lambda>p. ''0x'' @ replicate 64 CHR ''a''), nd_simulate = (\<lambda>c p g. if p \<in> set c then Some (SimFailedOp 0 ''AA25 invalid account nonce'') else None),
     nd_send = (\<lambda>c p g. (p # c, Some \<lparr>tx_hash = ''0x1'', tx_blockHash = ''0x2'', tx_blockNumber = 3, tx_success = True\<rparr>)),
     nd_receiptLogs = (\<lambda>c t. None), nd_decodeError = (\<lambda>s. None), nd_decodePanic = (\<lambda>s. None), nd_decodeEvent = (\<lambda>s. None), nd_decodeReason = (\<lambda>s. None),
     nd_userOperationEvent = ''0xe'', nd_revertReason = ''0xf'', nd_beforeExecution = ''0xb''\<rparr>"

definition demo_cx :: McContext where
  "demo_cx = \<lparr>cx_entryPoint = ''0x'' @ replicate 40 CHR ''e'', cx_paymaster = Some (''0x'' @ replicate 40 CHR ''5''), cx_chainId = 31337, cx_paymasterValiditySecs = 0\<rparr>"

definition demo_world :: "PackedUserOperation list World" where
  "demo_world = \<lparr>wd_userOps = [], wd_queue = [], wd_chain = []\<rparr>"

lemma demo_packs: "\<exists>p. packUserOperation demo_op = Inr p"
  by (rule exI, code_simp)

lemma demo_checked: "\<exists>job. send_checks demo_mc demo_node demo_cx [] [demo_raw_op] = Inr job"
proof -
  obtain p where p: "packUserOperation demo_op = Inr p" using demo_packs by blast
  have "assertSubmittable demo_op = Inr ()" "\<exists>g. handleOpsGas demo_op = Inr g" by (code_simp, rule exI, code_simp)
  then show ?thesis using p by (auto simp: send_checks_def param_def demo_parsed assertEntryPoint_def Let_def)
qed

definition demo_send :: SendJob where
  "demo_send = (case send_checks demo_mc demo_node demo_cx [] [demo_raw_op] of Inr job \<Rightarrow> job | Inl _ \<Rightarrow> undefined)"

lemma demo_send: "send_checks demo_mc demo_node demo_cx (wd_userOps demo_world) [demo_raw_op] = Inr demo_send"
  using demo_checked by (auto simp: demo_send_def demo_world_def)




theorem second_send_hides_inclusion_witness:
  "\<exists>w1 w2. (bundler_step demo_mc demo_node demo_cx)\<^sup>*\<^sup>* demo_world w1 \<and> included (jb_hash demo_send) w1 \<and> bundler_step demo_mc demo_node demo_cx w1 w2
    \<and> wd_chain w2 = wd_chain w1 \<and> \<not> included (jb_hash demo_send) w2"
  by (rule second_send_hides_inclusion [OF demo_send, where c = "[jb_packed demo_send]" and r = "\<lparr>tx_hash = ''0x1'', tx_blockHash = ''0x2'', tx_blockNumber = 3, tx_success = True\<rparr>"])
    (simp_all add: demo_node_def demo_world_def)

theorem own_logs_exact_witness:
  "let l = (\<lambda>t. \<lparr>lg_address = '''', lg_topics = [t], lg_data = ''''\<rparr>) in op_logs demo_node [l ''0xb'', l ''0x7'', l ''0xe''] 2 = [l ''0x7'']"
proof -
  let ?l = "\<lambda>t. \<lparr>lg_address = '''', lg_topics = [t], lg_data = ''''\<rparr>"
  have "log_index (\<lambda>l. topic l 0 = Some ''0xe'') [?l ''0xb'', ?l ''0x7'', ?l ''0xe''] = Some 2" by code_simp
  from own_logs_exact [OF this, of demo_node] have "op_logs demo_node [?l ''0xb'', ?l ''0x7'', ?l ''0xe''] 2
    = rev (takeWhile (\<lambda>l. \<not> op_boundary demo_node l) (rev (take 2 [?l ''0xb'', ?l ''0x7'', ?l ''0xe''])))" by blast
  then show ?thesis by (simp add: op_boundary_def topic_def demo_node_def to_lower_def lower_char_def)
qed

definition demo_pm :: PmNode where
  "demo_pm = \<lparr>pn_now = 0, pn_getHash = (\<lambda>p a b u v. ''0x9''), pn_sign = (\<lambda>h. ''0x1234''), pn_number = (\<lambda>s. None)\<rparr>"

theorem sponsored_as_signed_witness:
  "\<exists>r final. pmGetPaymasterData demo_mc demo_pm demo_cx [demo_raw_op] = Inr r \<and> packUserOperation (sponsored demo_op r ''0xff'') = Inr final \<and> pu_signature final = ''0xff''"
proof -
  have o: "parsePaymasterParams demo_mc demo_pm demo_cx [demo_raw_op] = Inr demo_op"
    by (simp add: parsePaymasterParams_def param_def demo_parsed assertEntryPoint_def check_chain_def)
  have "\<not> isl (packUserOperation (without_paymaster demo_op))" by code_simp
  then obtain p where p: "packUserOperation (without_paymaster demo_op) = Inr p" by (metis isl_def sum.exhaust)
  have "\<not> isl (encodeValidity 0 0)" by code_simp
  then obtain v where v: "encodeValidity 0 0 = Inr v" by (metis isl_def sum.exhaust)
  have f: "uo_verificationGasLimit demo_op = Some ''0x20''" "uo_callGasLimit demo_op = Some ''0x10''" "uo_preVerificationGas demo_op = Some ''0x1''"
    "uo_maxFeePerGas demo_op = Some ''0x2''" "uo_maxPriorityFeePerGas demo_op = Some ''0x1''" by (simp_all add: demo_op_def)
  have c: "cx_paymaster demo_cx = Some (''0x'' @ replicate 40 CHR ''5'')" "validityWindow demo_pm demo_cx = (0, 0)" by (simp_all add: demo_cx_def validityWindow_def)
  obtain r where r: "pmGetPaymasterData demo_mc demo_pm demo_cx [demo_raw_op] = Inr r" "pr_paymaster r = ''0x'' @ replicate 40 CHR ''5''"
    using p v f by (simp add: pmGetPaymasterData_def o requirePaymaster_def paymaster_answer_def Let_def c)
  have "pr_paymaster r \<noteq> ''''" by (simp add: r(2))
  from sponsored_as_signed [OF o r(1) this, of "''0xff''"] obtain packed final where "packUserOperation (sponsored demo_op r ''0xff'') = Inr final"
    "final = packed\<lparr>pu_paymasterAndData := pu_paymasterAndData final, pu_signature := ''0xff''\<rparr>" by blast
  moreover from this(2) have "pu_signature final = ''0xff''" by (metis PackedUserOperation.select_convs(9) PackedUserOperation.surjective PackedUserOperation.update_convs(9))
  ultimately show ?thesis using r(1) by blast
qed

end
