(* ===== verification/MC_Wallets.thy ===== *)
theory MC_Wallets
  imports MC_Bundler
begin

text \<open>
  The wallets of the sandbox (\<open>packages/mock-circle/src/rpc/modular.ts\<close>): deriving a wallet from its owners, mapping owners to wallets, fee tiers. A \<open>Map\<close> that is only
  looked up is a map, a \<open>Set\<close> that is iterated a list in the order of insertion. A call can throw after it has written, so it returns its state beside its
  result. Encodings and the contract that derives addresses are the record \<open>WalletLib\<close>; ids and times come from a supply that each use advances.
\<close>

section \<open>State\<close>

datatype Owner = EoaIdentifier string | WebauthnIdentifier string string

record AddressMapping =
  am_id :: string
  am_owner :: Owner
  am_walletAddress :: string
  am_date :: string

record ModularWallet =
  mw_id :: string
  mw_address :: string
  mw_owners :: "(string \<times> rat) list option"
  mw_webauthnOwners :: "(string \<times> string \<times> rat) list option"
  mw_thresholdWeight :: rat
  mw_initCode :: string
  mw_date :: string

record WalletState =
  ws_wallets :: "string \<rightharpoonup> ModularWallet"
  ws_walletsByOwner :: "string \<rightharpoonup> string list"
  ws_addressMappings :: "string \<rightharpoonup> AddressMapping list"
  ws_supply :: nat

record WalletLib =
  wl_mc :: McLib
  wl_uuid :: "nat \<Rightarrow> string"
  wl_now :: "nat \<Rightarrow> string"
  wl_installData :: "(string \<times> int) list \<Rightarrow> (int \<times> int \<times> int) list \<Rightarrow> int \<Rightarrow> string"
  wl_keySender :: "int \<Rightarrow> int \<Rightarrow> string"
  wl_address :: "string \<Rightarrow> string \<Rightarrow> string"
  wl_initCode :: "string \<Rightarrow> string \<Rightarrow> string"
  wl_number :: "int \<Rightarrow> rat"

section \<open>Reading parameters\<close>

definition whole :: "rat \<Rightarrow> bool" where
  "whole q \<longleftrightarrow> q = of_int \<lfloor>q\<rfloor>"

definition toWeight :: "JsValue \<Rightarrow> mc_error + int" where
  "toWeight v = (case v of
       VNum q \<Rightarrow> if whole q \<and> 0 < q then Inr \<lfloor>q\<rfloor> else Inl (InvalidParams ''weight'')
     | VStr s \<Rightarrow> if s \<noteq> '''' \<and> list_all is_digit s \<and> 0 < undec s then Inr (int (undec s)) else Inl (InvalidParams ''weight'')
     | _ \<Rightarrow> Inl (InvalidParams ''weight''))"

definition toCoordinate :: "JsValue \<Rightarrow> mc_error + int" where
  "toCoordinate v = (case v of
       VStr s \<Rightarrow> if s \<noteq> '''' \<and> list_all is_digit s then Inr (int (undec s))
                else if isHex s \<and> 2 < length s then Inr (int (of_hex_text (drop 2 s))) else Inl (InvalidParams ''coordinate'')
     | VNum q \<Rightarrow> if whole q then Inr \<lfloor>q\<rfloor> else Inl (InvalidParams ''coordinate'')
     | _ \<Rightarrow> Inl (InvalidParams ''coordinate''))"

fun ownerKey :: "Owner \<Rightarrow> mc_error + string" where
  "ownerKey (EoaIdentifier a) = Inr (''eoa:'' @ to_lower a)"
| "ownerKey (WebauthnIdentifier x y) = ebind (toCoordinate (VStr x)) (\<lambda>m. ebind (toCoordinate (VStr y)) (\<lambda>n.
     Inr (''webauthn:'' @ dec_int m @ '':'' @ dec_int n)))"

definition parseOwner :: "McLib \<Rightarrow> JsValue \<Rightarrow> mc_error + Owner" where
  "parseOwner M raw =
     (case raw of
        VObj kvs \<Rightarrow>
          if member raw ''type'' = VStr ''EOAOWNER'' then
            (case member (member raw ''identifier'') ''address'' of VStr a \<Rightarrow> if isAddress_mc M a then Inr (EoaIdentifier (mc_checksum M a)) else Inl (InvalidParams ''address'')
             | _ \<Rightarrow> Inl (InvalidParams ''address''))
          else if member raw ''type'' = VStr ''WEBAUTHOWNER'' then
            ebind (toCoordinate (member (member raw ''identifier'') ''publicKeyX'')) (\<lambda>x. ebind (toCoordinate (member (member raw ''identifier'') ''publicKeyY'')) (\<lambda>y.
            Inr (WebauthnIdentifier (dec_int x) (dec_int y))))
          else Inl (InvalidParams ''type'')
      | VArr xs \<Rightarrow> Inl (InvalidParams ''type'')
      | _ \<Rightarrow> Inl (InvalidParams ''owner''))"

definition owner_and_key :: "McLib \<Rightarrow> JsValue \<Rightarrow> mc_error + Owner \<times> string" where
  "owner_and_key M raw = ebind (parseOwner M raw) (\<lambda>owner. ebind (ownerKey owner) (\<lambda>key. Inr (owner, key)))"

section \<open>Mappings\<close>

definition rows_of :: "WalletState \<Rightarrow> string \<Rightarrow> AddressMapping list" where
  "rows_of s key = (case ws_addressMappings s key of None \<Rightarrow> [] | Some rows \<Rightarrow> rows)"

definition new_row :: "WalletLib \<Rightarrow> WalletState \<Rightarrow> Owner \<Rightarrow> string \<Rightarrow> AddressMapping" where
  "new_row W s owner wallet = \<lparr>am_id = wl_uuid W (ws_supply s), am_owner = owner, am_walletAddress = wallet, am_date = wl_now W (ws_supply s)\<rparr>"

fun create_rows :: "WalletLib \<Rightarrow> string \<Rightarrow> JsValue list \<Rightarrow> AddressMapping list \<Rightarrow> WalletState \<Rightarrow> (mc_error + AddressMapping list) \<times> WalletState" where
  "create_rows W wallet [] created s = (Inr created, s)"
| "create_rows W wallet (raw # raws) created s =
     (case owner_and_key (wl_mc W) raw of
        Inl e \<Rightarrow> (Inl e, s)
      | Inr (owner, key) \<Rightarrow>
          (case find (\<lambda>row. to_lower (am_walletAddress row) = to_lower wallet) (rows_of s key) of
             Some existing \<Rightarrow> create_rows W wallet raws (created @ [existing]) s
           | None \<Rightarrow> (let row = new_row W s owner wallet in create_rows W wallet raws (created @ [row])
               (s\<lparr>ws_addressMappings := (ws_addressMappings s)(key \<mapsto> rows_of s key @ [row]), ws_supply := ws_supply s + 1\<rparr>))))"

definition circleCreateAddressMapping :: "WalletLib \<Rightarrow> JsValue list \<Rightarrow> WalletState \<Rightarrow> (mc_error + AddressMapping list) \<times> WalletState" where
  "circleCreateAddressMapping W ps s =
     (case (member (param ps 0) ''walletAddress'', member (param ps 0) ''owners'') of
        (VStr a, v) \<Rightarrow> if \<not> isAddress_mc (wl_mc W) a then (Inl (InvalidParams ''walletAddress''), s)
          else (case v of VArr (raw # raws) \<Rightarrow> create_rows W (mc_checksum (wl_mc W) a) (raw # raws) [] s | _ \<Rightarrow> (Inl (InvalidParams ''owners''), s))
      | _ \<Rightarrow> (Inl (InvalidParams ''walletAddress''), s))"

fun implicit_rows :: "WalletState \<Rightarrow> Owner \<Rightarrow> string list \<Rightarrow> string list \<Rightarrow> AddressMapping list" where
  "implicit_rows s owner seen [] = []"
| "implicit_rows s owner seen (k # ks) =
     (if k \<in> set seen then implicit_rows s owner seen ks
      else case ws_wallets s k of None \<Rightarrow> implicit_rows s owner seen ks
      | Some w \<Rightarrow> \<lparr>am_id = mw_id w, am_owner = owner, am_walletAddress = mw_address w, am_date = mw_date w\<rparr> # implicit_rows s owner seen ks)"

definition owned_keys :: "WalletState \<Rightarrow> string \<Rightarrow> string list" where
  "owned_keys s key = (case ws_walletsByOwner s key of None \<Rightarrow> [] | Some ks \<Rightarrow> ks)"

definition circleGetAddressMapping :: "WalletLib \<Rightarrow> JsValue list \<Rightarrow> WalletState \<Rightarrow> mc_error + AddressMapping list" where
  "circleGetAddressMapping W ps s = ebind (owner_and_key (wl_mc W) (member (param ps 0) ''owner'')) (\<lambda>(owner, key).
     let explicit = rows_of s key; seen = map (\<lambda>row. to_lower (am_walletAddress row)) explicit in
     Inr (explicit @ implicit_rows s owner seen (owned_keys s key)))"

section \<open>Wallets\<close>

definition SCA_CORE :: string where "SCA_CORE = ''circle_6900_v1''"

text \<open>\<open>(v ?? []).map(f)\<close>, which throws on a value that is no list.\<close>

definition map_or_empty :: "(JsValue \<Rightarrow> mc_error + 'a) \<Rightarrow> JsValue \<Rightarrow> mc_error + 'a list" where
  "map_or_empty f v = (case v of VUndefined \<Rightarrow> Inr [] | VNull \<Rightarrow> Inr [] | VArr xs \<Rightarrow> emap f xs | _ \<Rightarrow> Inl (RpcError 0 ''map is not a function''))"

definition read_eoa :: "McLib \<Rightarrow> JsValue \<Rightarrow> mc_error + string \<times> int" where
  "read_eoa M v = (case member v ''address'' of
       VStr a \<Rightarrow> if isAddress_mc M a then ebind (toWeight (member v ''weight'')) (\<lambda>w. Inr (mc_checksum M a, w)) else Inl (InvalidParams ''address'')
     | _ \<Rightarrow> Inl (InvalidParams ''address''))"

definition read_passkey :: "JsValue \<Rightarrow> mc_error + int \<times> int \<times> int" where
  "read_passkey v = ebind (toCoordinate (member v ''publicKeyX'')) (\<lambda>x. ebind (toCoordinate (member v ''publicKeyY'')) (\<lambda>y.
     ebind (toWeight (member v ''weight'')) (\<lambda>w. Inr (x, y, w))))"

definition ownersOf :: "ModularWallet \<Rightarrow> Owner list" where
  "ownersOf w = (case mw_owners w of None \<Rightarrow> [] | Some os \<Rightarrow> map (\<lambda>(a, _). EoaIdentifier a) os)
     @ (case mw_webauthnOwners w of None \<Rightarrow> [] | Some ks \<Rightarrow> map (\<lambda>(x, y, _). WebauthnIdentifier x y) ks)"

fun link_owners :: "string \<Rightarrow> Owner list \<Rightarrow> WalletState \<Rightarrow> mc_error option \<times> WalletState" where
  "link_owners k [] s = (None, s)"
| "link_owners k (owner # owners) s =
     (case ownerKey owner of Inl e \<Rightarrow> (Some e, s)
      | Inr key \<Rightarrow> link_owners k owners (s\<lparr>ws_walletsByOwner := (ws_walletsByOwner s)(key \<mapsto> (if k \<in> set (owned_keys s key) then owned_keys s key else owned_keys s key @ [k]))\<rparr>))"

definition read_config :: "McLib \<Rightarrow> JsValue list \<Rightarrow> mc_error + JsValue \<times> (string \<times> int) list \<times> (int \<times> int \<times> int) list \<times> int" where
  "read_config M ps =
     (let sca = member (param ps 0) ''scaConfiguration''; config = member (member sca ''initialOwnershipConfiguration'') ''weightedMultisig'' in
      ebind (if \<not> truthy sca then Inl (InvalidParams ''scaConfiguration'') else Inr ()) (\<lambda>_.
      ebind (if member sca ''scaCore'' \<noteq> VStr SCA_CORE then Inl (InvalidParams ''scaCore'') else Inr ()) (\<lambda>_.
      ebind (if \<not> truthy config then Inl (InvalidParams ''weightedMultisig'') else Inr ()) (\<lambda>_.
      ebind (map_or_empty (read_eoa M) (member config ''owners'')) (\<lambda>eoas.
      ebind (map_or_empty read_passkey (member config ''webauthnOwners'')) (\<lambda>passkeys.
      ebind (if length eoas + length passkeys = 0 then Inl (InvalidParams ''owner'') else Inr ()) (\<lambda>_.
      ebind (toWeight (member config ''thresholdWeight'')) (\<lambda>threshold. Inr (config, eoas, passkeys, threshold)))))))))"

definition wallet_sender :: "WalletLib \<Rightarrow> (string \<times> int) list \<Rightarrow> (int \<times> int \<times> int) list \<Rightarrow> string" where
  "wallet_sender W eoas passkeys = (case eoas of (a, _) # _ \<Rightarrow> ''0x'' @ replicate 24 CHR ''0'' @ drop 2 a
     | [] \<Rightarrow> (case passkeys of (x, y, _) # _ \<Rightarrow> wl_keySender W x y | [] \<Rightarrow> ''''))"

definition new_wallet :: "WalletLib \<Rightarrow> WalletState \<Rightarrow> JsValue \<Rightarrow> (string \<times> int) list \<Rightarrow> (int \<times> int \<times> int) list \<Rightarrow> int \<Rightarrow> string \<Rightarrow> string \<Rightarrow> ModularWallet" where
  "new_wallet W s config eoas passkeys threshold sender install =
     \<lparr>mw_id = wl_uuid W (ws_supply s), mw_address = wl_address W sender install,
      mw_owners = (if truthy (member config ''owners'') then Some (map (\<lambda>(a, w). (a, wl_number W w)) eoas) else None),
      mw_webauthnOwners = (if truthy (member config ''webauthnOwners'')
        then Some (map (\<lambda>(x, y, w). (dec_int x, dec_int y, wl_number W w)) passkeys) else None),
      mw_thresholdWeight = wl_number W threshold, mw_initCode = wl_initCode W sender install, mw_date = wl_now W (ws_supply s)\<rparr>"

definition register_wallet :: "string \<Rightarrow> ModularWallet \<Rightarrow> WalletState \<Rightarrow> (mc_error + ModularWallet) \<times> WalletState" where
  "register_wallet key wallet s =
     (case link_owners key (ownersOf wallet) (s\<lparr>ws_wallets := (ws_wallets s)(key \<mapsto> wallet), ws_supply := ws_supply s + 1\<rparr>) of
        (Some e, s') \<Rightarrow> (Inl e, s') | (None, s') \<Rightarrow> (Inr wallet, s'))"

definition circleGetAddress :: "WalletLib \<Rightarrow> JsValue list \<Rightarrow> WalletState \<Rightarrow> (mc_error + ModularWallet) \<times> WalletState" where
  "circleGetAddress W ps s =
     (case read_config (wl_mc W) ps of Inl e \<Rightarrow> (Inl e, s)
      | Inr (config, eoas, passkeys, threshold) \<Rightarrow>
          (let install = wl_installData W eoas passkeys threshold; sender = wallet_sender W eoas passkeys; key = to_lower (wl_address W sender install)
           in case ws_wallets s key of Some existing \<Rightarrow> (Inr existing, s)
           | None \<Rightarrow> register_wallet key (new_wallet W s config eoas passkeys threshold sender install) s))"

definition fee_level :: "int \<Rightarrow> int \<Rightarrow> int \<Rightarrow> int \<times> int" where
  "fee_level baseFee priority pct = (let tip = priority * pct div 100 in (tip, baseFee * 2 + tip))"

definition circleGetUserOperationGasPrice :: "int option \<Rightarrow> int option \<Rightarrow> (int \<times> int) list" where
  "circleGetUserOperationGasPrice baseFeePerGas estimated =
     (let baseFee = (case baseFeePerGas of None \<Rightarrow> 0 | Some b \<Rightarrow> b);
          priority = max (case estimated of None \<Rightarrow> 0 | Some p \<Rightarrow> p) 100000000
      in map (fee_level baseFee priority) [100, 120, 150])"

definition assertKnownWallet :: "WalletState \<Rightarrow> string \<Rightarrow> ModularWallet option" where
  "assertKnownWallet s address = ws_wallets s (to_lower address)"

text \<open>The three tiers grow, and none is below a tenth of a gwei.\<close>

lemma fee_tiers_ordered:
  "\<exists>l m h. circleGetUserOperationGasPrice b e = [l, m, h] \<and> 100000000 \<le> fst l \<and> fst l \<le> fst m \<and> fst m \<le> fst h \<and> snd l \<le> snd m \<and> snd m \<le> snd h"
  by (auto simp: circleGetUserOperationGasPrice_def fee_level_def Let_def zdiv_mono1)

section \<open>Rows of an owner\<close>

text \<open>No owner has two rows for one wallet, and the wallets listed for an owner exist under their own address, each once.\<close>

definition mappings_ok :: "WalletState \<Rightarrow> bool" where
  "mappings_ok s \<longleftrightarrow> (\<forall>key. distinct (map (\<lambda>row. to_lower (am_walletAddress row)) (rows_of s key)))
     \<and> (\<forall>key. distinct (owned_keys s key) \<and> (\<forall>k \<in> set (owned_keys s key). \<exists>w. ws_wallets s k = Some w))
     \<and> (\<forall>k w. ws_wallets s k = Some w \<longrightarrow> to_lower (mw_address w) = k)"

lemma create_rows_ok: "mappings_ok s \<Longrightarrow> mappings_ok (snd (create_rows W wallet raws created s))"
proof (induction raws arbitrary: created s)
  case (Cons raw raws)
  show ?case
  proof (cases "owner_and_key (wl_mc W) raw")
    case (Inr ok)
    obtain owner key where ok: "ok = (owner, key)" by (cases ok)
    show ?thesis
    proof (cases "find (\<lambda>row. to_lower (am_walletAddress row) = to_lower wallet) (rows_of s key)")
      case None
      define s' where "s' = s\<lparr>ws_addressMappings := (ws_addressMappings s)(key \<mapsto> rows_of s key @ [new_row W s owner wallet]), ws_supply := ws_supply s + 1\<rparr>"
      have "rows_of s' k = (if k = key then rows_of s key @ [new_row W s owner wallet] else rows_of s k)" "owned_keys s' k = owned_keys s k"
        "ws_wallets s' = ws_wallets s" for k by (simp_all add: s'_def rows_of_def owned_keys_def)
      then have "mappings_ok s'" using Cons.prems None by (auto simp: mappings_ok_def find_None_iff new_row_def)
      then show ?thesis using Cons.IH Inr ok None by (simp add: Let_def s'_def)
    qed (use Cons Inr ok in simp)
  qed (use Cons in simp)
qed simp

lemma link_owners_ok:
  assumes "mappings_ok s" "ws_wallets s k = Some w"
  shows "mappings_ok (snd (link_owners k owners s))"
  using assms
proof (induction owners arbitrary: s)
  case (Cons owner owners)
  show ?case
  proof (cases "ownerKey owner")
    case (Inr key)
    define s' where "s' = s\<lparr>ws_walletsByOwner := (ws_walletsByOwner s)(key \<mapsto> if k \<in> set (owned_keys s key) then owned_keys s key else owned_keys s key @ [k])\<rparr>"
    have "rows_of s' x = rows_of s x" "ws_wallets s' = ws_wallets s"
      "owned_keys s' x = (if x = key then if k \<in> set (owned_keys s key) then owned_keys s key else owned_keys s key @ [k] else owned_keys s x)" for x
      by (simp_all add: s'_def rows_of_def owned_keys_def)
    then have "mappings_ok s'" "ws_wallets s' k = Some w" using Cons.prems by (auto simp: mappings_ok_def)
    then show ?thesis using Cons.IH Inr by (simp add: s'_def)
  qed (use Cons.prems in simp)
qed simp

lemma create_mapping_ok: "mappings_ok s \<Longrightarrow> mappings_ok (snd (circleCreateAddressMapping W ps s))"
  by (auto simp: circleCreateAddressMapping_def split: JsValue.splits list.splits intro: create_rows_ok simp del: create_rows.simps)

lemma new_wallet_ok:
  assumes "mappings_ok s" "ws_wallets s k = None" "to_lower (mw_address w) = k"
  shows "mappings_ok (s\<lparr>ws_wallets := (ws_wallets s)(k \<mapsto> w), ws_supply := n\<rparr>)"
  using assms by (auto simp: mappings_ok_def rows_of_def owned_keys_def split: if_splits)

lemma register_ok:
  assumes "mappings_ok s" "ws_wallets s k = None" "to_lower (mw_address w) = k"
  shows "mappings_ok (snd (register_wallet k w s))"
proof -
  have "mappings_ok (snd (link_owners k (ownersOf w) (s\<lparr>ws_wallets := (ws_wallets s)(k \<mapsto> w), ws_supply := ws_supply s + 1\<rparr>)))"
    by (rule link_owners_ok [OF new_wallet_ok [OF assms]]) simp
  then show ?thesis by (auto simp: register_wallet_def split: prod.splits option.splits)
qed

lemma get_address_ok: "mappings_ok s \<Longrightarrow> mappings_ok (snd (circleGetAddress W ps s))"
  by (auto simp: circleGetAddress_def Let_def new_wallet_def intro!: register_ok split: sum.splits option.splits)

inductive wallet_step :: "WalletLib \<Rightarrow> WalletState \<Rightarrow> WalletState \<Rightarrow> bool" for W where
  mapped: "wallet_step W s (snd (circleCreateAddressMapping W ps s))"
| derived: "wallet_step W s (snd (circleGetAddress W ps s))"

inductive_cases wallet_stepE: "wallet_step W s s'"

definition createState :: WalletState where
  "createState = \<lparr>ws_wallets = Map.empty, ws_walletsByOwner = Map.empty, ws_addressMappings = Map.empty, ws_supply = 0\<rparr>"

interpretation wallets: machine_invariant "wallet_step W" mappings_ok for W
  by unfold_locales (erule wallet_stepE; simp add: create_mapping_ok get_address_ok)

lemma createState_ok: "mappings_ok createState"
  by (simp add: mappings_ok_def createState_def rows_of_def owned_keys_def)

lemma implicit_wallets:
  assumes "\<forall>k w. ws_wallets s k = Some w \<longrightarrow> to_lower (mw_address w) = k"
  shows "map (\<lambda>row. to_lower (am_walletAddress row)) (implicit_rows s owner seen ks) = filter (\<lambda>k. k \<notin> set seen \<and> ws_wallets s k \<noteq> None) ks"
  using assms by (induction ks) (auto split: option.splits)

text \<open>(C25) Whatever was derived and mapped before, in any order and with calls that failed among them, the listing of an owner names each wallet once.\<close>

theorem listing_names_wallets_once:
  assumes "(wallet_step W)\<^sup>*\<^sup>* createState s" "circleGetAddressMapping W ps s = Inr rows"
  shows "distinct (map (\<lambda>row. to_lower (am_walletAddress row)) rows)"
proof -
  have ok: "mappings_ok s" using wallets.run [OF assms(1) createState_ok] .
  obtain owner key where r: "rows = rows_of s key @ implicit_rows s owner (map (\<lambda>row. to_lower (am_walletAddress row)) (rows_of s key)) (owned_keys s key)"
    using assms(2) by (auto simp: circleGetAddressMapping_def Let_def elim!: ebind_InrE)
  show ?thesis using ok implicit_wallets [of s] unfolding r by (auto simp: mappings_ok_def simp del: map_map)
qed

text \<open>An owner's row stays, and the rows a call reports are found.\<close>

lemma create_rows_keep: "set (rows_of s key) \<subseteq> set (rows_of (snd (create_rows W wallet raws created s)) key)"
proof (induction raws arbitrary: created s)
  case (Cons raw raws)
  show ?case
  proof (cases "owner_and_key (wl_mc W) raw")
    case (Inr ok)
    obtain owner k where ok: "ok = (owner, k)" by (cases ok)
    define s' where "s' = s\<lparr>ws_addressMappings := (ws_addressMappings s)(k \<mapsto> rows_of s k @ [new_row W s owner wallet]), ws_supply := ws_supply s + 1\<rparr>"
    have "set (rows_of s key) \<subseteq> set (rows_of s' key)" by (auto simp: s'_def rows_of_def)
    then show ?thesis using Cons.IH Inr ok by (fastforce simp: Let_def s'_def split: option.splits)
  qed simp
qed simp

definition mapped_to :: "WalletLib \<Rightarrow> WalletState \<Rightarrow> string \<Rightarrow> JsValue \<Rightarrow> bool" where
  "mapped_to W s wallet raw \<longleftrightarrow> (\<exists>owner key. owner_and_key (wl_mc W) raw = Inr (owner, key)
     \<and> (\<exists>row \<in> set (rows_of s key). to_lower (am_walletAddress row) = to_lower wallet))"

lemma create_rows_mapped: "create_rows W wallet raws created s = (Inr rows, s') \<Longrightarrow> raw \<in> set raws \<Longrightarrow> mapped_to W s' wallet raw"
proof (induction raws arbitrary: created s)
  case (Cons r raws)
  obtain owner key where o: "owner_and_key (wl_mc W) r = Inr (owner, key)" using Cons.prems(1) by (cases "owner_and_key (wl_mc W) r") auto
  define t where "t = s\<lparr>ws_addressMappings := (ws_addressMappings s)(key \<mapsto> rows_of s key @ [new_row W s owner wallet]), ws_supply := ws_supply s + 1\<rparr>"
  obtain created' u where u: "create_rows W wallet raws created' u = (Inr rows, s')" "\<exists>row \<in> set (rows_of u key). to_lower (am_walletAddress row) = to_lower wallet"
  proof (cases "find (\<lambda>row. to_lower (am_walletAddress row) = to_lower wallet) (rows_of s key)")
    case None
    have "create_rows W wallet raws (created @ [new_row W s owner wallet]) t = (Inr rows, s')" using Cons.prems(1) o None by (simp add: Let_def t_def)
    moreover have "new_row W s owner wallet \<in> set (rows_of t key)" "am_walletAddress (new_row W s owner wallet) = wallet"
      by (simp_all add: t_def rows_of_def new_row_def)
    ultimately show ?thesis using that [of "created @ [new_row W s owner wallet]" t] by (metis (no_types, lifting))
  next
    case (Some e)
    then have "e \<in> set (rows_of s key)" "to_lower (am_walletAddress e) = to_lower wallet" by (auto simp: find_Some_iff)
    then show ?thesis using that [of "created @ [e]" s] Cons.prems(1) o Some by auto
  qed
  show ?case
  proof (cases "raw = r")
    case True
    have "set (rows_of u key) \<subseteq> set (rows_of s' key)" using create_rows_keep [of u key W wallet raws created'] u(1) by simp
    then show ?thesis using u(2) o True by (auto simp: mapped_to_def)
  qed (use Cons.IH [OF u(1)] Cons.prems(2) in auto)
qed simp

lemma create_rows_again: "\<forall>raw \<in> set raws. mapped_to W s wallet raw \<Longrightarrow> \<exists>rows. create_rows W wallet raws created s = (Inr rows, s)"
proof (induction raws arbitrary: created)
  case (Cons raw raws)
  then obtain owner key row where o: "owner_and_key (wl_mc W) raw = Inr (owner, key)" "row \<in> set (rows_of s key)" "to_lower (am_walletAddress row) = to_lower wallet"
    by (auto simp: mapped_to_def)
  then obtain e where "find (\<lambda>row. to_lower (am_walletAddress row) = to_lower wallet) (rows_of s key) = Some e"
    by (cases "find (\<lambda>row. to_lower (am_walletAddress row) = to_lower wallet) (rows_of s key)") (auto simp: find_None_iff)
  then show ?case using Cons o(1) by simp
qed simp

text \<open>A mapping that was made is found: every owner the call named lists the wallet afterwards, and making the same mapping again succeeds and changes nothing.\<close>

theorem mapping_found:
  assumes "circleCreateAddressMapping W ps s = (Inr rows, s')" "member (param ps 0) ''walletAddress'' = VStr a" "member (param ps 0) ''owners'' = VArr raws" "raw \<in> set raws"
  shows "(\<exists>listed. circleGetAddressMapping W [VObj [(''owner'', raw)]] s' = Inr listed
      \<and> (\<exists>row \<in> set listed. to_lower (am_walletAddress row) = to_lower (mc_checksum (wl_mc W) a)))
    \<and> (\<exists>again. circleCreateAddressMapping W ps s' = (Inr again, s'))"
proof -
  let ?wallet = "mc_checksum (wl_mc W) a"
  obtain r rs where raws: "raws = r # rs" using assms(4) by (cases raws) auto
  have adr: "isAddress_mc (wl_mc W) a" using assms(1-3) by (auto simp: circleCreateAddressMapping_def split: if_splits)
  then have c: "create_rows W ?wallet raws [] s = (Inr rows, s')" using assms(1-3) raws by (simp add: circleCreateAddressMapping_def del: create_rows.simps)
  then have m: "\<forall>raw \<in> set raws. mapped_to W s' ?wallet raw" using create_rows_mapped by blast
  then obtain owner key row where o: "owner_and_key (wl_mc W) raw = Inr (owner, key)" "row \<in> set (rows_of s' key)" "to_lower (am_walletAddress row) = to_lower ?wallet"
    using assms(4) unfolding mapped_to_def by blast
  have "\<exists>listed. circleGetAddressMapping W [VObj [(''owner'', raw)]] s' = Inr listed \<and> (\<exists>row \<in> set listed. to_lower (am_walletAddress row) = to_lower ?wallet)"
    using o by (auto simp: circleGetAddressMapping_def param_def Let_def)
  moreover have "\<exists>again. circleCreateAddressMapping W ps s' = (Inr again, s')"
    using create_rows_again [OF m, of "[]"] adr assms(2,3) raws by (simp add: circleCreateAddressMapping_def del: create_rows.simps)
  ultimately show ?thesis by blast
qed

section \<open>Instances\<close>

definition demo_wallets :: WalletLib where
  "demo_wallets = \<lparr>wl_mc = demo_mc, wl_uuid = dec_nat, wl_now = (\<lambda>n. ''now''), wl_installData = (\<lambda>a b t. ''0x''), wl_keySender = (\<lambda>x y. ''0x''),
     wl_address = (\<lambda>a b. ''0x'' @ replicate 40 CHR ''7''), wl_initCode = (\<lambda>a b. ''0x''), wl_number = of_int\<rparr>"

definition demo_owner :: JsValue where
  "demo_owner = VObj [(''type'', VStr ''WEBAUTHOWNER''), (''identifier'', VObj [(''publicKeyX'', VStr ''5''), (''publicKeyY'', VNum 6)])]"

definition demo_mapping :: "JsValue list" where
  "demo_mapping = [VObj [(''walletAddress'', VStr (''0x'' @ replicate 40 CHR ''9'')), (''owners'', VArr [demo_owner])]]"

lemma demo_owner_key: "owner_and_key demo_mc demo_owner = Inr (WebauthnIdentifier ''5'' ''6'', ''webauthn:5:6'')"
  by code_simp

definition demo_row_mc :: AddressMapping where
  "demo_row_mc = \<lparr>am_id = ''0'', am_owner = WebauthnIdentifier ''5'' ''6'', am_walletAddress = ''0x'' @ replicate 40 CHR ''9'', am_date = ''now''\<rparr>"

definition demo_mapped :: WalletState where
  "demo_mapped = createState\<lparr>ws_addressMappings := [''webauthn:5:6'' \<mapsto> [demo_row_mc]], ws_supply := 1\<rparr>"

lemma demo_mapping_made: "circleCreateAddressMapping demo_wallets demo_mapping createState = (Inr [demo_row_mc], demo_mapped)"
proof -
  have "isAddress_mc demo_mc (''0x'' @ replicate 40 CHR ''9'')" "dec_nat 0 = ''0''" by code_simp+
  then show ?thesis using demo_owner_key
    by (simp add: circleCreateAddressMapping_def demo_mapping_def param_def demo_wallets_def createState_def rows_of_def new_row_def demo_row_mc_def demo_mapped_def Let_def)
      (simp add: demo_mc_def)
qed

theorem mapping_found_witness:
  "(\<exists>listed. circleGetAddressMapping demo_wallets [VObj [(''owner'', demo_owner)]] demo_mapped = Inr listed
      \<and> (\<exists>row. row \<in> set listed \<and> to_lower (am_walletAddress row) = to_lower (mc_checksum demo_mc (''0x'' @ replicate 40 CHR ''9''))))
    \<and> (\<exists>again. circleCreateAddressMapping demo_wallets demo_mapping demo_mapped = (Inr again, demo_mapped))"
proof -
  have "member (param demo_mapping 0) ''walletAddress'' = VStr (''0x'' @ replicate 40 CHR ''9'')" "member (param demo_mapping 0) ''owners'' = VArr [demo_owner]"
    by (simp_all add: demo_mapping_def param_def)
  from mapping_found [OF demo_mapping_made this, of demo_owner] show ?thesis by (simp add: demo_wallets_def) blast
qed

theorem listing_names_wallets_once_witness:
  "\<exists>rows. circleGetAddressMapping demo_wallets [VObj [(''owner'', demo_owner)]] demo_mapped = Inr rows
     \<and> distinct (map (\<lambda>row. to_lower (am_walletAddress row)) rows)"
proof -
  have r: "circleGetAddressMapping demo_wallets [VObj [(''owner'', demo_owner)]] demo_mapped = Inr [demo_row_mc]"
    using demo_owner_key by (simp add: circleGetAddressMapping_def param_def demo_wallets_def demo_mapped_def rows_of_def owned_keys_def createState_def Let_def)
  have "(wallet_step demo_wallets)\<^sup>*\<^sup>* createState demo_mapped"
    using wallet_step.mapped [of demo_wallets createState demo_mapping] by (simp add: demo_mapping_made r_into_rtranclp)
  from listing_names_wallets_once [OF this r] r show ?thesis by blast
qed

end
